(* ===== verification/Prelude.thy ===== *)
theory Prelude
  imports Complex_Main "HOL-Library.AList" "HOL-Library.Log_Nat"
begin

section \<open>Go values, errors and numbers shared by every component\<close>

text \<open>
  What the other theories share: Go's dynamic values (\<open>any\<close>) and string-keyed maps, the errors
  of the program as values, the decimal conversions of \<open>strconv\<close>, and the rounding of
  \<open>float64\<close>. A Go map is an association list with distinct keys; the order of the list stands for
  the order in which Go happens to iterate over the map, and no theorem depends on it. A Go
  string is its list of bytes.
\<close>

named_theorems goval "type assertions and map accesses on Go values"
named_theorems goerr_simps "how the error constructors build a chain"

subsection \<open>Dynamic values\<close>

datatype gany =
    GNil
  | GBool bool
  | GStr string
  | GNum string       \<comment> \<open>\<open>json.Number\<close>: the text of a number\<close>
  | GFloat rat        \<comment> \<open>a finite \<open>float64\<close>, by its exact value\<close>
  | GInt int
  | GInt64 int
  | GStrs "string list"   \<comment> \<open>\<open>[]string\<close>\<close>
  | GList "gany list"
  | GMap "(string \<times> gany) list"

type_synonym gmap = "(string \<times> gany) list"

text \<open>\<open>m[k]\<close> with Go's zero value for a missing key, and the one-value and two-value type assertions.\<close>

definition mindex :: "gmap \<Rightarrow> string \<Rightarrow> gany" where
  "mindex m k = (case map_of m k of None \<Rightarrow> GNil | Some v \<Rightarrow> v)"

abbreviation mput :: "string \<Rightarrow> gany \<Rightarrow> gmap \<Rightarrow> gmap" where
  "mput \<equiv> AList.update"

abbreviation mdel :: "string \<Rightarrow> gmap \<Rightarrow> gmap" where
  "mdel \<equiv> AList.delete"

fun as_str :: "gany \<Rightarrow> string option" where
  "as_str (GStr s) = Some s"
| "as_str _ = None"

fun as_bool :: "gany \<Rightarrow> bool option" where
  "as_bool (GBool b) = Some b"
| "as_bool _ = None"

fun as_list :: "gany \<Rightarrow> gany list option" where
  "as_list (GList xs) = Some xs"
| "as_list _ = None"

fun as_map :: "gany \<Rightarrow> gmap option" where
  "as_map (GMap m) = Some m"
| "as_map _ = None"

definition str_or_empty :: "gany \<Rightarrow> string" where
  "str_or_empty v = (case as_str v of Some s \<Rightarrow> s | None \<Rightarrow> [])"

lemma as_str_Some [goval]: "as_str v = Some s \<longleftrightarrow> v = GStr s"
  by (cases v) auto

lemma as_bool_Some [goval]: "as_bool v = Some b \<longleftrightarrow> v = GBool b"
  by (cases v) auto

lemma as_list_Some [goval]: "as_list v = Some l \<longleftrightarrow> v = GList l"
  by (cases v) auto

lemma as_map_Some [goval]: "as_map v = Some m \<longleftrightarrow> v = GMap m"
  by (cases v) auto

lemma str_or_empty_Str [simp]: "str_or_empty (GStr s) = s"
  by (simp add: str_or_empty_def)

lemma str_or_empty_nonempty: "str_or_empty v \<noteq> [] \<Longrightarrow> v = GStr (str_or_empty v)"
  by (cases v) (auto simp: str_or_empty_def)

lemma map_of_mput [simp]: "map_of (mput k v m) = (map_of m)(k \<mapsto> v)"
  by (simp add: update_conv')

lemma map_of_mdel [simp]: "map_of (mdel k m) = (map_of m)(k := None)"
  by (simp add: delete_conv')

lemma mput_not_Nil [simp]: "mput k v m \<noteq> []"
  by (induction m) (auto split: prod.splits)

lemma map_of_Nil_iff: "map_of m = Map.empty \<longleftrightarrow> m = []"
  by (cases m) (auto simp: fun_eq_iff split: if_splits)

text \<open>A value is in an association list exactly when its key maps to it, for distinct keys.\<close>

lemma map_of_in_set: "distinct (map fst m) \<Longrightarrow> map_of m k = Some v \<longleftrightarrow> (k, v) \<in> set m"
  by simp

subsection \<open>Errors\<close>

text \<open>
  A Go error is the sentinels found by walking its \<open>%w\<close> chain (what \<open>errors.Is\<close> and
  \<open>errors.As\<close> see) and its message. Messages leave out their interpolated arguments
  (ids, counts): the program only ever compares one message, \<open>member not found\<close>, which has none.
\<close>

datatype sentinel =
    ErrBadVersion | ErrMissingStep | ErrUnsupported | ErrBreaking | ErrReadOnly
  | ErrValidation | ErrUnappliable | ErrUnauthorized | ErrStaleEvent | ErrCursorNotFound
  | ErrNotFound | ErrApplicationMoving | ErrApplicationNotMoving | ErrNotApplicationOwner
  | ErrInvalidMoveRequest | MovedError string string
  | ErrAppLimitReached | ErrOwnerNotCaller | ErrAgentReadOff | ErrNotMember
  | ErrNoRows | ErrBadConn | ErrConnDone | ErrEOF | ErrUnexpectedEOF | NetError
  | ErrCanceled | ErrDeadlineExceeded | PqError string string
  | ErrUsernameTaken | ErrIdentitySpaceEscrow | ErrSpaceAlreadyClaimed | ErrDeviceKeyTaken
  | ErrAccountExists | ErrAudienceMismatch | ErrMalformedLogin | ErrInvalidBinding
  | ErrDeviceRowConflict | BindingRequired string | ErrInvalidAssertion | ErrAgentLimit
  | ErrInvalidRefreshToken | ErrInvalidAuthSecret | ErrInvalidEscrowBlob
  | ErrDeviceConflict | ErrIdentityNotGranted | ErrSingleUseInviteRequired | ErrAccountLimitReached
  | ErrMembershipNotGranted | ErrAccountKeyNotProven | ErrMaxUsesReached | ErrNotAppAuthorized
  | ErrInviteNotForMember | ErrSpaceUseNotAllowed | ErrInvitationNotFound | ErrInviteAppMismatch
  | ErrInvalidInviteRole | ErrInvalidInviteOptions | ErrInvalidProof
  | ErrBlobNotFound | ErrInvalidPath | ErrFileTooLarge | ErrStorageQuotaExceeded
  | ErrUnknownComponentType | ErrInvalidData | ErrAddressNotAllowed | ErrRequestNotFound
  | ErrWrongUser | ErrStoreFull | ErrInvalidEndpoint | ErrNotExist

datatype goerr = GoErr (err_chain: "sentinel list") (err_msg: string)

type_synonym 'a result = "goerr + 'a"

definition errors_is :: "goerr \<Rightarrow> sentinel \<Rightarrow> bool" where
  "errors_is e s \<longleftrightarrow> s \<in> set (err_chain e)"

text \<open>\<open>errors.New(m)\<close> and \<open>fmt.Errorf(m)\<close> without a \<open>%w\<close>.\<close>

definition errorf :: "string \<Rightarrow> goerr" where
  "errorf m = GoErr [] m"

text \<open>\<open>fmt.Errorf("%w: m", s)\<close> for a sentinel \<open>s\<close>, and the same for an error value.\<close>

definition errw :: "sentinel \<Rightarrow> string \<Rightarrow> goerr" where
  "errw s m = GoErr [s] m"

definition wrapf :: "string \<Rightarrow> goerr \<Rightarrow> goerr" where
  "wrapf m e = GoErr (err_chain e) (m @ '': '' @ err_msg e)"

text \<open>\<open>fmt.Errorf("%w: %w", s, e)\<close>.\<close>

definition joinw :: "sentinel \<Rightarrow> goerr \<Rightarrow> goerr" where
  "joinw s e = GoErr (s # err_chain e) (err_msg e)"

lemma errors_is_errorf [goerr_simps, simp]: "\<not> errors_is (errorf m) s"
  by (simp add: errors_is_def errorf_def)

lemma errors_is_errw [goerr_simps, simp]: "errors_is (errw s m) t \<longleftrightarrow> t = s"
  by (auto simp: errors_is_def errw_def)

lemma errors_is_wrapf [goerr_simps, simp]: "errors_is (wrapf m e) s = errors_is e s"
  by (simp add: errors_is_def wrapf_def)

lemma errors_is_joinw [goerr_simps, simp]: "errors_is (joinw s e) t \<longleftrightarrow> t = s \<or> errors_is e t"
  by (auto simp: errors_is_def joinw_def)

subsection \<open>Characters and decimal conversions\<close>

definition char_between :: "nat \<Rightarrow> nat \<Rightarrow> char \<Rightarrow> bool" where
  "char_between lo hi c \<longleftrightarrow> lo \<le> (of_char c :: nat) \<and> (of_char c :: nat) \<le> hi"

definition is_digit :: "char \<Rightarrow> bool" where
  "is_digit c = char_between 48 57 c"

definition digit_val :: "char \<Rightarrow> nat" where
  "digit_val c = of_char c - 48"

definition digit_char :: "nat \<Rightarrow> char" where
  "digit_char d = char_of (48 + d)"

definition nat_of_digits :: "string \<Rightarrow> nat" where
  "nat_of_digits s = foldl (\<lambda>n c. 10 * n + digit_val c) 0 s"

text \<open>\<open>strconv.FormatInt(n, 10)\<close>.\<close>

fun digits_of_nat :: "nat \<Rightarrow> string" where
  "digits_of_nat n = (if n < 10 then [digit_char n]
     else digits_of_nat (n div 10) @ [digit_char (n mod 10)])"

declare digits_of_nat.simps [simp del]

definition format_int :: "int \<Rightarrow> string" where
  "format_int n = (if n < 0 then CHR ''-'' # digits_of_nat (nat (- n)) else digits_of_nat (nat n))"

text \<open>\<open>strconv.Atoi\<close>: \<open>None\<close> where it reports a syntax or a range error.\<close>

definition in_int64 :: "int \<Rightarrow> bool" where
  "in_int64 n \<longleftrightarrow> - (2 ^ 63) \<le> n \<and> n < 2 ^ 63"

definition digits_ok :: "string \<Rightarrow> bool" where
  "digits_ok s \<longleftrightarrow> s \<noteq> [] \<and> list_all is_digit s"

definition atoi :: "string \<Rightarrow> int option" where
  "atoi s =
     (let (neg, ds) = (case s of [] \<Rightarrow> (False, [])
                       | c # r \<Rightarrow> if c = CHR ''-'' then (True, r)
                                  else if c = CHR ''+'' then (False, r) else (False, s));
          n = (if neg then - int (nat_of_digits ds) else int (nat_of_digits ds))
      in if digits_ok ds \<and> in_int64 n then Some n else None)"

lemma of_char_digit_char: "d < 10 \<Longrightarrow> (of_char (digit_char d) :: nat) = 48 + d"
  by (simp add: digit_char_def)

lemma is_digit_digit_char [simp]: "d < 10 \<Longrightarrow> is_digit (digit_char d)"
  by (simp add: is_digit_def char_between_def of_char_digit_char)

lemma digit_val_digit_char [simp]: "d < 10 \<Longrightarrow> digit_val (digit_char d) = d"
  by (simp add: digit_val_def of_char_digit_char)

lemma nat_of_digits_snoc [simp]: "nat_of_digits (s @ [c]) = 10 * nat_of_digits s + digit_val c"
  by (simp add: nat_of_digits_def)

lemma nat_of_digits_Nil [simp]: "nat_of_digits [] = 0"
  by (simp add: nat_of_digits_def)

lemma digits_of_nat_ok: "digits_ok (digits_of_nat n)"
proof (induction n rule: digits_of_nat.induct)
  case (1 n)
  show ?case
  proof (cases "n < 10")
    case True
    then show ?thesis by (simp add: digits_of_nat.simps [of n] digits_ok_def)
  next
    case False
    with "1" show ?thesis by (simp add: digits_of_nat.simps [of n] digits_ok_def)
  qed
qed

lemma nat_of_digits_of_nat: "nat_of_digits (digits_of_nat n) = n"
proof (induction n rule: digits_of_nat.induct)
  case (1 n)
  show ?case
  proof (cases "n < 10")
    case True
    then show ?thesis
      using nat_of_digits_snoc [of "[]" "digit_char n"]
      by (simp add: digits_of_nat.simps [of n])
  next
    case False
    with "1" show ?thesis by (simp add: digits_of_nat.simps [of n])
  qed
qed

lemma length_digits_of_nat: "n < 10 ^ Suc k \<Longrightarrow> length (digits_of_nat n) \<le> Suc k"
proof (induction k arbitrary: n)
  case 0
  then show ?case by (simp add: digits_of_nat.simps [of n])
next
  case (Suc k)
  then have "n div 10 < 10 ^ Suc k" by (simp add: less_mult_imp_div_less)
  with Suc.IH [of "n div 10"] show ?case
    by (simp add: digits_of_nat.simps [of n])
qed

lemma is_digit_not_minus: "is_digit c \<Longrightarrow> c \<noteq> CHR ''-'' \<and> c \<noteq> CHR ''+'' \<and> c \<noteq> CHR ''.''
    \<and> c \<noteq> CHR ''e'' \<and> c \<noteq> CHR ''E'' \<and> c \<noteq> CHR ''/''"
  by (auto simp: is_digit_def char_between_def)

subsection \<open>Rounding to \<open>float64\<close>\<close>

text \<open>
  The nearest \<open>float64\<close> (round half to even, 53 significant bits) of a rational whose magnitude is
  inside the normal range, which holds for every number the program converts.
\<close>

definition round_half_even :: "rat \<Rightarrow> int" where
  "round_half_even q =
     (let f = floor q; d = q - of_int f
      in if d < 1/2 then f else if d > 1/2 then f + 1 else if even f then f else f + 1)"

definition pow2 :: "int \<Rightarrow> rat" where
  "pow2 k = (if 0 \<le> k then 2 ^ nat k else 1 / 2 ^ nat (- k))"

definition floor_log2 :: "rat \<Rightarrow> int" where
  "floor_log2 x = (if 1 \<le> x then bitlen (floor x) - 1 else - bitlen (ceiling (1 / x) - 1))"

definition f64 :: "rat \<Rightarrow> rat" where
  "f64 x = (if x = 0 then 0
     else let u = pow2 (floor_log2 \<bar>x\<bar> - 52) in of_int (round_half_even (x / u)) * u)"

text \<open>
  Go's conversion \<open>int64(f)\<close> truncates towards zero; where the value does not fit the language
  leaves the result to the implementation, and amd64 gives the smallest integer.
\<close>

definition go_truncate :: "rat \<Rightarrow> int" where
  "go_truncate x = (if x < 0 then ceiling x else floor x)"

definition int_of_float :: "rat \<Rightarrow> int" where
  "int_of_float x = (let n = go_truncate x in if in_int64 n then n else - (2 ^ 63))"

text \<open>Two's-complement wrap-around of 64-bit arithmetic, and Go's division towards zero.\<close>

definition wrap64 :: "int \<Rightarrow> int" where
  "wrap64 n = (n + 2 ^ 63) mod 2 ^ 64 - 2 ^ 63"

definition go_div :: "int \<Rightarrow> int \<Rightarrow> int" where
  "go_div a b = sgn a * sgn b * (\<bar>a\<bar> div \<bar>b\<bar>)"

definition go_rem :: "int \<Rightarrow> int \<Rightarrow> int" where
  "go_rem a b = a - go_div a b * b"

lemma wrap64_id: "in_int64 n \<Longrightarrow> wrap64 n = n"
  by (simp add: wrap64_def in_int64_def)

lemma in_int64_wrap64 [simp]: "in_int64 (wrap64 n)"
proof -
  have "0 \<le> (n + 2 ^ 63) mod 2 ^ 64" and "(n + 2 ^ 63) mod 2 ^ 64 < (2::int) ^ 64"
    by simp_all
  then show ?thesis by (simp add: wrap64_def in_int64_def)
qed

end
