(* ===== verification/Json.thy ===== *)
theory Json
  imports Prelude
begin

section \<open>JSON values of the lens: numbers, deep equality, copies\<close>

text \<open>
  \<open>internal/component/lens/json.go\<close>. Numbers arrive as \<open>json.Number\<close>, the text of the JSON
  number, and are compared by their rational value unless the text or the exponent is huge.
  \<open>decodeJSON\<close> itself is the standard library's decoder; what it guarantees of a decoded value
  (distinct keys, numbers that follow the JSON grammar) is \<open>wf_any\<close>.
\<close>

subsection \<open>Numbers\<close>

definition maxSafe :: int where
  "maxSafe = 2 ^ 53 - 1"

definition is_exp_char :: "char \<Rightarrow> bool" where
  "is_exp_char c \<longleftrightarrow> c = CHR ''e'' \<or> c = CHR ''E''"

text \<open>\<open>strings.IndexAny(s, "eE")\<close> and the text behind the hit.\<close>

definition after_exp :: "string \<Rightarrow> string option" where
  "after_exp s = (case dropWhile (\<lambda>c. \<not> is_exp_char c) s of [] \<Rightarrow> None | _ # r \<Rightarrow> Some r)"

definition hugeNumber :: "string \<Rightarrow> bool" where
  "hugeNumber s =
     (if length s > 1024 then True
      else case after_exp s of
             None \<Rightarrow> False
           | Some r \<Rightarrow> (case atoi r of None \<Rightarrow> True | Some e \<Rightarrow> e > 1000 \<or> e < - 1000))"

definition pow10 :: "int \<Rightarrow> rat" where
  "pow10 k = (if 0 \<le> k then 10 ^ nat k else 1 / 10 ^ nat (- k))"

text \<open>
  \<open>big.Rat.SetString\<close> on the text of a JSON number: sign, integer digits, optional fraction,
  optional exponent.
\<close>

definition split_sign :: "string \<Rightarrow> bool \<times> string" where
  "split_sign s = (case s of [] \<Rightarrow> (False, []) | c # r \<Rightarrow> if c = CHR ''-'' then (True, r) else (False, s))"

definition split_frac :: "string \<Rightarrow> (string \<times> string) option" where
  "split_frac s =
     (case s of
        [] \<Rightarrow> Some ([], [])
      | c # r \<Rightarrow> if c = CHR ''.''
                then (if takeWhile is_digit r = [] then None
                      else Some (takeWhile is_digit r, dropWhile is_digit r))
                else Some ([], s))"

definition parse_exp :: "string \<Rightarrow> int option" where
  "parse_exp s = (case s of [] \<Rightarrow> Some 0 | c # r \<Rightarrow> if is_exp_char c then atoi r else None)"

definition rat_of_string :: "string \<Rightarrow> rat option" where
  "rat_of_string s =
     (let (neg, s1) = split_sign s; ip = takeWhile is_digit s1
      in if ip = [] then None
         else case split_frac (dropWhile is_digit s1) of
                None \<Rightarrow> None
              | Some (fp, rest) \<Rightarrow>
                  (case parse_exp rest of
                     None \<Rightarrow> None
                   | Some e \<Rightarrow>
                       Some ((if neg then - 1 else 1) * of_nat (nat_of_digits (ip @ fp))
                             * pow10 (e - int (length fp)))))"

fun toRat :: "gany \<Rightarrow> rat option" where
  "toRat (GNum s) = (if hugeNumber s \<or> CHR ''/'' \<in> set s then None else rat_of_string s)"
| "toRat (GFloat r) = Some r"
| "toRat (GInt n) = Some (of_int n)"
| "toRat (GInt64 n) = Some (of_int n)"
| "toRat _ = None"

definition intVal :: "gany \<Rightarrow> int option" where
  "intVal x = (case toRat x of None \<Rightarrow> None
                | Some r \<Rightarrow> if of_int (floor r) = r then Some (floor r) else None)"

subsection \<open>Deep equality\<close>

definition num_equal :: "gany \<Rightarrow> gany \<Rightarrow> bool" where
  "num_equal a b =
     (case (a, b) of
        (GNum x, GNum y) \<Rightarrow>
          if hugeNumber x \<or> hugeNumber y then x = y
          else (case toRat a of None \<Rightarrow> False | Some r \<Rightarrow> toRat b = Some r)
      | _ \<Rightarrow> (case toRat a of None \<Rightarrow> False | Some r \<Rightarrow> toRat b = Some r))"

lemma size_map_value: "(k, v) \<in> set m \<Longrightarrow> size v < size (GMap m)"
  by (induction m) auto

lemma size_list_value: "v \<in> set l \<Longrightarrow> size v < size (GList l)"
  by (induction l) auto

function gequal :: "gany \<Rightarrow> gany \<Rightarrow> bool" where
  "gequal a b =
     (case a of
        GNil \<Rightarrow> b = GNil
      | GBool x \<Rightarrow> b = GBool x
      | GStr x \<Rightarrow> b = GStr x
      | GMap x \<Rightarrow>
          (case b of
             GMap y \<Rightarrow> length x = length y \<and>
               list_all (\<lambda>(k, xv). case map_of y k of None \<Rightarrow> False | Some yv \<Rightarrow> gequal xv yv) x
           | _ \<Rightarrow> False)
      | GList x \<Rightarrow>
          (case b of
             GList y \<Rightarrow> length x = length y \<and> list_all (\<lambda>(xv, yv). gequal xv yv) (zip x y)
           | _ \<Rightarrow> False)
      | _ \<Rightarrow> num_equal a b)"
  by pat_completeness auto
termination
  by (relation "measure (\<lambda>(a, _). size a)")
     (auto simp: size_map_value simp del: gany.size dest!: set_zip_leftD intro: size_list_value)

declare gequal.simps [simp del]

subsection \<open>Copies\<close>

text \<open>
  A copy shares nothing with its source. Values have no identity in the model, so the copy is
  the value itself (\<open>clone_id\<close>); the definition keeps the code's recursion.
\<close>

function clone :: "gany \<Rightarrow> gany" where
  "clone v =
     (case v of
        GMap m \<Rightarrow> GMap (map (\<lambda>(k, x). (k, clone x)) m)
      | GList l \<Rightarrow> GList (map clone l)
      | _ \<Rightarrow> v)"
  by pat_completeness auto
termination
  by (relation "measure size")
     (auto simp: size_map_value simp del: gany.size intro: size_list_value)

declare clone.simps [simp del]

definition cloneMap :: "gmap \<Rightarrow> gmap" where
  "cloneMap m = map (\<lambda>(k, x). (k, clone x)) m"

lemma clone_simps:
  "clone (GMap m) = GMap (map (\<lambda>(k, x). (k, clone x)) m)"
  "clone (GList l) = GList (map clone l)"
  "\<not> (\<exists>m. v = GMap m) \<Longrightarrow> \<not> (\<exists>l. v = GList l) \<Longrightarrow> clone v = v"
  by (subst clone.simps, simp split: gany.splits)+

lemma clone_id [simp]: "clone v = v"
proof (induction v rule: clone.induct)
  case (1 v)
  show ?case
  proof (cases v)
    case (GMap m)
    have "\<And>k x. (k, x) \<in> set m \<Longrightarrow> clone x = x"
      using "1"(2) [OF GMap] by blast
    with GMap show ?thesis by (auto simp: clone_simps(1) intro!: map_idI)
  next
    case (GList l)
    with "1"(1) show ?thesis by (auto simp: clone_simps(2) intro!: map_idI)
  qed (simp_all add: clone_simps(3))
qed

lemma cloneMap_id [simp]: "cloneMap m = m"
  by (auto simp: cloneMap_def intro!: map_idI)

subsection \<open>Decoded values\<close>

text \<open>
  What \<open>decodeJSON\<close> can return: object keys are distinct and number texts follow the JSON
  grammar (a huge one counts as its text).
\<close>

function wf_any :: "gany \<Rightarrow> bool" where
  "wf_any v =
     (case v of
        GMap m \<Rightarrow> distinct (map fst m) \<and> list_all (\<lambda>(k, x). wf_any x) m
      | GList l \<Rightarrow> list_all wf_any l
      | GNum s \<Rightarrow> hugeNumber s \<or> toRat (GNum s) \<noteq> None
      | GStrs _ \<Rightarrow> False
      | _ \<Rightarrow> True)"
  by pat_completeness auto
termination
  by (relation "measure size")
     (auto simp: size_map_value simp del: gany.size intro: size_list_value)

declare wf_any.simps [simp del]

lemma wf_any_simps [simp]:
  "wf_any GNil" "wf_any (GBool b)" "wf_any (GStr s)" "wf_any (GFloat r)" "wf_any (GInt n)"
  "wf_any (GInt64 n)" "\<not> wf_any (GStrs ss)"
  by (simp_all add: wf_any.simps)

lemma wf_any_GNum: "wf_any (GNum s) \<longleftrightarrow> hugeNumber s \<or> toRat (GNum s) \<noteq> None"
  by (subst wf_any.simps) simp

lemma wf_any_GMap: "wf_any (GMap m) \<longleftrightarrow> distinct (map fst m) \<and> (\<forall>(k, x) \<in> set m. wf_any x)"
  by (subst wf_any.simps) (auto simp: list_all_iff)

lemma wf_any_GList: "wf_any (GList l) \<longleftrightarrow> (\<forall>x \<in> set l. wf_any x)"
  by (subst wf_any.simps) (auto simp: list_all_iff)

lemma wf_any_member: "wf_any (GMap m) \<Longrightarrow> map_of m k = Some v \<Longrightarrow> wf_any v"
  by (auto simp: wf_any_GMap dest: map_of_SomeD)

lemma wf_any_mput: "wf_any (GMap m) \<Longrightarrow> wf_any v \<Longrightarrow> wf_any (GMap (mput k v m))"
proof -
  assume m: "wf_any (GMap m)" and v: "wf_any v"
  then have d: "distinct (map fst (mput k v m))"
    by (simp add: wf_any_GMap distinct_update)
  have "wf_any x" if "(j, x) \<in> set (mput k v m)" for j x
  proof -
    from d that have "map_of (mput k v m) j = Some x" by (rule map_of_is_SomeI)
    then show ?thesis using m v by (auto simp del: map_of_eq_Some_iff split: if_splits dest: wf_any_member)
  qed
  with d show ?thesis by (auto simp: wf_any_GMap)
qed

lemma wf_any_mdel: "wf_any (GMap m) \<Longrightarrow> wf_any (GMap (mdel k m))"
  using distinct_delete [of m k] by (auto simp: wf_any_GMap AList.delete_eq)

lemma distinct_lookup_cong:
  "distinct (map fst x) \<Longrightarrow> (\<forall>(k, v) \<in> set x. P k v) \<longleftrightarrow> (\<forall>k v. map_of x k = Some v \<longrightarrow> P k v)"
  by auto

subsection \<open>Deep equality is an equivalence\<close>

lemma gequal_simps [simp]:
  "gequal GNil b \<longleftrightarrow> b = GNil"
  "gequal (GBool x) b \<longleftrightarrow> b = GBool x"
  "gequal (GStr s) b \<longleftrightarrow> b = GStr s"
  by (subst gequal.simps, simp)+

lemma gequal_GMap:
  "gequal (GMap x) b \<longleftrightarrow>
     (\<exists>y. b = GMap y \<and> length x = length y \<and>
        (\<forall>(k, xv) \<in> set x. \<exists>yv. map_of y k = Some yv \<and> gequal xv yv))"
  by (subst gequal.simps) (auto simp: list_all_iff split: gany.splits option.splits)

lemma gequal_GList:
  "gequal (GList x) b \<longleftrightarrow> (\<exists>y. b = GList y \<and> list_all2 gequal x y)"
  by (subst gequal.simps) (auto simp: list_all_iff list_all2_iff split: gany.splits)

definition is_number :: "gany \<Rightarrow> bool" where
  "is_number v = (case v of GNum _ \<Rightarrow> True | GFloat _ \<Rightarrow> True | GInt _ \<Rightarrow> True | GInt64 _ \<Rightarrow> True | _ \<Rightarrow> False)"

lemma gequal_number: "is_number a \<or> (\<exists>ss. a = GStrs ss) \<Longrightarrow> gequal a b = num_equal a b"
  by (subst gequal.simps) (auto simp: is_number_def split: gany.splits)

lemma toRat_is_number: "toRat v = Some r \<Longrightarrow> is_number v"
  by (cases v) (auto simp: is_number_def)

lemma num_equal_iff:
  "is_number a \<Longrightarrow> num_equal a b \<longleftrightarrow>
     (\<exists>r. toRat a = Some r \<and> toRat b = Some r) \<or> (\<exists>s. a = GNum s \<and> b = GNum s \<and> hugeNumber s)"
  by (auto simp: num_equal_def is_number_def split: gany.splits option.splits)

text \<open>Two objects with distinct keys are equal when they have the same keys with equal values.\<close>

lemma gequal_GMap_iff:
  assumes "distinct (map fst x)" and "distinct (map fst y)"
  shows "gequal (GMap x) (GMap y) \<longleftrightarrow> (\<forall>k. rel_option gequal (map_of x k) (map_of y k))"
proof -
  have len: "length z = card (dom (map_of z))" if "distinct (map fst z)" for z :: gmap
    using that by (metis dom_map_of_conv_image_fst distinct_card length_map set_map)
  show ?thesis
  proof
    assume "gequal (GMap x) (GMap y)"
    then have l: "length x = length y"
      and e: "\<forall>k xv. map_of x k = Some xv \<longrightarrow> (\<exists>yv. map_of y k = Some yv \<and> gequal xv yv)"
      using assms by (auto simp: gequal_GMap)
    from e have sub: "dom (map_of x) \<subseteq> dom (map_of y)" by fastforce
    moreover have "card (dom (map_of x)) = card (dom (map_of y))" using l assms len by metis
    ultimately have d: "dom (map_of x) = dom (map_of y)"
      by (simp add: card_subset_eq finite_dom_map_of)
    show "\<forall>k. rel_option gequal (map_of x k) (map_of y k)"
    proof
      fix k
      show "rel_option gequal (map_of x k) (map_of y k)"
      proof (cases "map_of x k")
        case None
        then have "map_of y k = None" using d by blast
        with None show ?thesis by simp
      next
        case (Some xv)
        with e obtain yv where "map_of y k = Some yv" "gequal xv yv" by blast
        with Some show ?thesis by simp
      qed
    qed
  next
    assume r: "\<forall>k. rel_option gequal (map_of x k) (map_of y k)"
    have "dom (map_of x) = dom (map_of y)"
    proof (rule set_eqI)
      fix k
      show "k \<in> dom (map_of x) \<longleftrightarrow> k \<in> dom (map_of y)"
        using r [rule_format, of k] by (cases "map_of x k"; cases "map_of y k") (auto simp: domIff)
    qed
    then have "length x = length y" using assms len by metis
    moreover have "\<exists>yv. map_of y k = Some yv \<and> gequal xv yv" if "(k, xv) \<in> set x" for k xv
      using r [rule_format, of k] that assms(1) by (auto simp: option_rel_Some1)
    ultimately show "gequal (GMap x) (GMap y)"
      by (auto simp: gequal_GMap)
  qed
qed

lemma gequal_refl: "wf_any v \<Longrightarrow> gequal v v"
proof (induction v rule: clone.induct)
  case (1 v)
  show ?case
  proof (cases v)
    case (GMap m)
    have g: "gequal x x" if "map_of m k = Some x" for k x
      using "1"(2) [OF GMap map_of_SomeD [OF that]] "1.prems" that GMap
      by (auto dest: wf_any_member)
    have "rel_option gequal (map_of m k) (map_of m k)" for k
      by (cases "map_of m k") (simp_all only: option.rel_inject option.rel_intros g)
    moreover have "distinct (map fst m)" using "1.prems" GMap by (simp add: wf_any_GMap)
    ultimately show ?thesis unfolding GMap
      by (subst gequal_GMap_iff) simp_all
  next
    case (GList l)
    with "1" show ?thesis
      by (auto simp: gequal_GList wf_any_GList intro!: list.rel_refl_strong)
  next
    case (GNum s)
    with "1.prems" show ?thesis
      by (auto simp: gequal_number is_number_def num_equal_iff wf_any_GNum)
  qed (use "1.prems" in \<open>auto simp: gequal_number is_number_def num_equal_iff\<close>)
qed

lemma gequal_kind:
  "gequal a b \<Longrightarrow> is_number a \<Longrightarrow> is_number b"
  by (auto simp: gequal_number num_equal_iff dest: toRat_is_number)

lemma gequal_sym: "wf_any a \<Longrightarrow> wf_any b \<Longrightarrow> gequal a b \<Longrightarrow> gequal b a"
proof (induction a arbitrary: b rule: clone.induct)
  case (1 a)
  show ?case
  proof (cases a)
    case (GMap m)
    with "1.prems"(3) obtain y where b: "b = GMap y" by (auto simp: gequal_GMap)
    have dm: "distinct (map fst m)" and dy: "distinct (map fst y)"
      using "1.prems" GMap b by (auto simp: wf_any_GMap)
    have r: "\<forall>k. rel_option gequal (map_of m k) (map_of y k)"
      using "1.prems"(3) GMap b dm dy by (simp add: gequal_GMap_iff)
    have "rel_option gequal (map_of y k) (map_of m k)" for k
    proof (cases "map_of m k")
      case None
      with r [rule_format, of k] show ?thesis by (auto simp: option_rel_Some2)
    next
      case (Some x)
      with r [rule_format, of k] obtain w where w: "map_of y k = Some w" "gequal x w"
        by (auto simp: option_rel_Some1)
      have "gequal w x"
      proof (rule "1"(2) [OF GMap map_of_SomeD [OF Some]])
        show "wf_any x" using "1.prems"(1) GMap Some by (auto dest: wf_any_member)
        show "wf_any w" using "1.prems"(2) b w(1) by (auto dest: wf_any_member)
      qed (use w in simp_all)
      with w Some show ?thesis by simp
    qed
    then show ?thesis unfolding b GMap using dm dy by (simp add: gequal_GMap_iff)
  next
    case (GList l)
    with "1.prems"(3) obtain y where b: "b = GList y" and l2: "list_all2 gequal l y"
      by (auto simp: gequal_GList)
    have "list_all2 gequal y l"
      using l2 "1"(1) [OF GList] "1.prems"(1,2) GList b
      by (auto simp: list_all2_conv_all_nth wf_any_GList)
    then show ?thesis by (simp add: b GList gequal_GList)
  next
    case (GStrs ss)
    with "1.prems" show ?thesis by simp
  qed (use "1.prems"(3) gequal_kind [OF "1.prems"(3)] in
       \<open>auto simp: gequal_number is_number_def num_equal_iff\<close>)
qed

lemma gequal_trans: "wf_any a \<Longrightarrow> wf_any b \<Longrightarrow> wf_any c \<Longrightarrow> gequal a b \<Longrightarrow> gequal b c \<Longrightarrow> gequal a c"
proof (induction a arbitrary: b c rule: clone.induct)
  case (1 a)
  show ?case
  proof (cases a)
    case (GMap m)
    with "1.prems" obtain y z where b: "b = GMap y" and c: "c = GMap z" by (auto simp: gequal_GMap)
    have d: "distinct (map fst m)" "distinct (map fst y)" "distinct (map fst z)"
      using "1.prems" GMap b c by (auto simp: wf_any_GMap)
    have r: "rel_option gequal (map_of m k) (map_of y k)" "rel_option gequal (map_of y k) (map_of z k)" for k
      using "1.prems"(4,5) GMap b c d by (simp_all add: gequal_GMap_iff)
    have "rel_option gequal (map_of m k) (map_of z k)" for k
    proof (cases "map_of m k")
      case None
      with r [of k] show ?thesis by (auto simp: option_rel_Some2)
    next
      case (Some x)
      with r(1) [of k] obtain w where w: "map_of y k = Some w" "gequal x w"
        by (auto simp: option_rel_Some1)
      with r(2) [of k] obtain u where u: "map_of z k = Some u" "gequal w u"
        by (auto simp: option_rel_Some1)
      have "gequal x u"
      proof (rule "1"(2) [OF GMap map_of_SomeD [OF Some], OF refl, of w])
        show "wf_any x" using "1.prems"(1) GMap Some by (auto dest: wf_any_member)
        show "wf_any w" using "1.prems"(2) b w(1) by (auto dest: wf_any_member)
        show "wf_any u" using "1.prems"(3) c u(1) by (auto dest: wf_any_member)
      qed (use w u in simp_all)
      with u Some show ?thesis by simp
    qed
    then show ?thesis unfolding c GMap using d by (simp add: gequal_GMap_iff)
  next
    case (GList l)
    with "1.prems"(4,5) obtain y z where b: "b = GList y" and c: "c = GList z"
      and l2: "list_all2 gequal l y" "list_all2 gequal y z"
      by (auto simp: gequal_GList)
    have "gequal (l ! i) (z ! i)" if i: "i < length l" for i
    proof (rule "1"(1) [OF GList, of "l ! i" "y ! i"])
      show "l ! i \<in> set l" using i by simp
    qed (use i l2 "1.prems"(1-3) GList b c in \<open>auto simp: list_all2_conv_all_nth wf_any_GList\<close>)
    then have "list_all2 gequal l z" using l2 by (auto simp: list_all2_conv_all_nth)
    then show ?thesis by (simp add: c GList gequal_GList)
  next
    case (GStrs ss)
    with "1.prems" show ?thesis by simp
  qed (use "1.prems"(4,5) gequal_kind [OF "1.prems"(4)] in
       \<open>auto simp: gequal_number is_number_def num_equal_iff\<close>)
qed

end
