(* ===== verification/Lens.thy ===== *)
theory Lens
  imports Json
begin

section \<open>The lens: paths, operations, steps and the walk between versions\<close>

text \<open>
  \<open>internal/component/lens/lens.go\<close>. An entry is an object with a version \<open>v\<close>; a schema lists
  migration steps, each with operations declared in the up direction; \<open>Migrate\<close> walks the
  steps between the entry's version and the wanted one. The state of a walk is the object being
  rewritten: the code mutates a private copy, the model returns the new object. A schema's
  \<open>entries\<close> keys are regular expressions; \<open>re\<close> stands for \<open>regexp.Compile\<close> and
  \<open>MatchString\<close>: \<open>None\<close> when a pattern does not compile (the compiled-pattern cache of the code
  only saves time).
\<close>

named_theorems path_laws "laws of reading, writing and removing along a path"

definition unsupported :: "string \<Rightarrow> goerr" where
  "unsupported m = errw ErrUnsupported m"

definition checkArg :: "string \<Rightarrow> int \<Rightarrow> goerr option" where
  "checkArg name n =
     (if n < 1 \<or> n > maxSafe then Some (errorf (name @ '' must be an integer in range'')) else None)"

definition num :: "int \<Rightarrow> gany" where
  "num n = GNum (format_int n)"

definition Version :: "gmap \<Rightarrow> int result" where
  "Version m =
     (case map_of m ''v'' of
        None \<Rightarrow> Inr 1
      | Some v \<Rightarrow>
          (case intVal v of
             None \<Rightarrow> Inl (errw ErrBadVersion ''v must be an integer'')
           | Some n \<Rightarrow>
               if n < 1 \<or> n > maxSafe then Inl (errw ErrBadVersion ''v must be an integer'')
               else Inr n))"

subsection \<open>Steps\<close>

definition stepTo :: "gany \<Rightarrow> int option" where
  "stepTo el =
     (case as_map el of
        None \<Rightarrow> None
      | Some m \<Rightarrow>
          (case map_of m ''to'' of
             None \<Rightarrow> None
           | Some raw \<Rightarrow>
               (case intVal raw of
                  None \<Rightarrow> None
                | Some n \<Rightarrow> if n > maxSafe then None
                            else if \<not> in_int64 n then Some (- (2 ^ 63)) else Some n)))"

text \<open>The loop over the steps: the last match, the number of matches, and whether an element is malformed.\<close>

fun scan_steps :: "int \<Rightarrow> gany list \<Rightarrow> gmap \<times> nat \<times> bool \<Rightarrow> gmap \<times> nat \<times> bool" where
  "scan_steps k [] acc = acc"
| "scan_steps k (el # els) (mt, n, bad) =
     (case stepTo el of
        None \<Rightarrow> scan_steps k els (mt, n, True)
      | Some t \<Rightarrow>
          if t = k then scan_steps k els ((case as_map el of Some m \<Rightarrow> m | None \<Rightarrow> mt), Suc n, bad)
          else scan_steps k els (mt, n, bad))"

type_synonym regexps = "string \<Rightarrow> (string \<Rightarrow> bool) option"

fun scan_entries :: "regexps \<Rightarrow> string \<Rightarrow> gmap \<Rightarrow> gany \<times> nat \<Rightarrow> (gany \<times> nat) result" where
  "scan_entries re key [] acc = Inr acc"
| "scan_entries re key ((pattern, candidate) # r) (found, hits) =
     (case re pattern of
        None \<Rightarrow> Inl (unsupported ''bad entries pattern'')
      | Some matches \<Rightarrow>
          scan_entries re key r (if matches key then (candidate, Suc hits) else (found, hits)))"

subsection \<open>Paths\<close>

definition validName :: "string \<Rightarrow> bool" where
  "validName n \<longleftrightarrow> n \<noteq> [] \<and>
     (let letter = (\<lambda>c. c = CHR ''_'' \<or> char_between 97 122 c \<or> char_between 65 90 c)
      in letter (hd n) \<and> list_all (\<lambda>c. letter c \<or> is_digit c) (tl n))"

text \<open>The names between the dots, empty ones included.\<close>

fun split_dots :: "string \<Rightarrow> string list" where
  "split_dots [] = [[]]"
| "split_dots (c # s) =
     (if c = CHR ''.'' then [] # split_dots s
      else case split_dots s of [] \<Rightarrow> [[c]] | n # ns \<Rightarrow> (c # n) # ns)"

definition parsePath :: "gany \<Rightarrow> string list option" where
  "parsePath raw =
     (case as_str raw of
        None \<Rightarrow> None
      | Some s \<Rightarrow>
          if s = [] then None
          else let names = split_dots s
               in if list_all validName names \<and> hd names \<noteq> ''v'' then Some names else None)"

definition isPrefix :: "string list \<Rightarrow> string list \<Rightarrow> bool" where
  "isPrefix a b =
     (let (a, b) = (if length a > length b then (b, a) else (a, b))
      in list_all (\<lambda>(x, y). x = y) (zip a b))"

fun getPath :: "gany \<Rightarrow> string list \<Rightarrow> gany option" where
  "getPath cur [] = Some cur"
| "getPath cur (n # p) =
     (case as_map cur of
        None \<Rightarrow> None
      | Some m \<Rightarrow> (case map_of m n of None \<Rightarrow> None | Some v \<Rightarrow> getPath v p))"

text \<open>
  The code collects the chain of objects along the path, deletes the last name, and then deletes
  every object left empty from its parent, deepest first, stopping at the first that is not
  empty. The recursion does the same on the way back; \<open>None\<close> is the early return of an absent
  path, which changes nothing.
\<close>

fun remove_rec :: "gmap \<Rightarrow> string list \<Rightarrow> bool \<Rightarrow> gmap option" where
  "remove_rec m [] prune = None"
| "remove_rec m [n] prune = (case map_of m n of None \<Rightarrow> None | Some _ \<Rightarrow> Some (mdel n m))"
| "remove_rec m (n # n' # p) prune =
     (case map_of m n of
        Some (GMap sub) \<Rightarrow>
          (case remove_rec sub (n' # p) prune of
             None \<Rightarrow> None
           | Some sub' \<Rightarrow>
               Some (if prune \<and> sub' = [] then mdel n m else mput n (GMap sub') m))
      | _ \<Rightarrow> None)"

definition removePath :: "gmap \<Rightarrow> string list \<Rightarrow> bool \<Rightarrow> gmap" where
  "removePath m p prune = (case remove_rec m p prune of None \<Rightarrow> m | Some m' \<Rightarrow> m')"

fun canSet :: "gmap \<Rightarrow> string list \<Rightarrow> bool" where
  "canSet m [] = True"
| "canSet m [n] = True"
| "canSet m (n # n' # p) =
     (case map_of m n of
        None \<Rightarrow> True
      | Some v \<Rightarrow> (case as_map v of None \<Rightarrow> False | Some sub \<Rightarrow> canSet sub (n' # p)))"

text \<open>\<open>next, ok := cur[n].(map[string]any)\<close>, with a fresh empty object when the assertion fails.\<close>

definition submap :: "gmap \<Rightarrow> string \<Rightarrow> gmap" where
  "submap m n = (case as_map (mindex m n) of Some sub \<Rightarrow> sub | None \<Rightarrow> [])"

fun setPath :: "gmap \<Rightarrow> string list \<Rightarrow> gany \<Rightarrow> gmap" where
  "setPath m [] val = m"
| "setPath m [n] val = mput n val m"
| "setPath m (n # n' # p) val = mput n (GMap (setPath (submap m n) (n' # p) val)) m"

subsection \<open>Operations\<close>

record lop =
  op_kind :: string
  op_from :: "string list"
  op_to :: "string list"
  op_path :: "string list"
  op_def :: gany
  op_pairs :: "(gany \<times> gany) list"
  op_fallback :: gany
  op_hasFallback :: bool

definition empty_op :: "string \<Rightarrow> lop" where
  "empty_op kind = \<lparr>op_kind = kind, op_from = [], op_to = [], op_path = [], op_def = GNil,
     op_pairs = [], op_fallback = GNil, op_hasFallback = False\<rparr>"

definition isScalar :: "gany \<Rightarrow> bool" where
  "isScalar x =
     (case x of GNil \<Rightarrow> True | GStr _ \<Rightarrow> True | GBool _ \<Rightarrow> True | GNum _ \<Rightarrow> True
      | _ \<Rightarrow> toRat x \<noteq> None)"

definition opMembers :: "string \<Rightarrow> string list option" where
  "opMembers = map_of
     [(''rename'', [''from'', ''to'']), (''move'', [''from'', ''to'']),
      (''add'', [''path'', ''default'']), (''map'', [''path'', ''pairs'']),
      (''wrap'', [''path'']), (''unwrap'', [''path''])]"

fun compile_pairs :: "gany list \<Rightarrow> (gany \<times> gany) list \<Rightarrow> (gany \<times> gany) list result" where
  "compile_pairs [] seen = Inr seen"
| "compile_pairs (p # ps) seen =
     (case as_list p of
        Some [a, b] \<Rightarrow>
          if \<not> isScalar a \<or> \<not> isScalar b then Inl (unsupported ''map pair is not a scalar pair'')
          else if list_ex (\<lambda>(x, y). gequal x a \<or> gequal y b) seen
               then Inl (unsupported ''map pairs repeat a value'')
               else compile_pairs ps (seen @ [(a, b)])
      | _ \<Rightarrow> Inl (unsupported ''map pair is not a scalar pair''))"

definition compileMap :: "lop \<Rightarrow> gmap \<Rightarrow> lop result" where
  "compileMap o1 m =
     (case (case map_of m ''fallback'' of
              None \<Rightarrow> Inr o1
            | Some fb \<Rightarrow>
                if \<not> isScalar fb then Inl (unsupported ''map fallback is not a scalar'')
                else Inr (o1\<lparr>op_fallback := fb, op_hasFallback := True\<rparr>)) of
        Inl e \<Rightarrow> Inl e
      | Inr o2 \<Rightarrow>
          (case as_list (mindex m ''pairs'') of
             None \<Rightarrow> Inl (unsupported ''map pairs is not a list'')
           | Some pairs \<Rightarrow>
               (case compile_pairs pairs [] of
                  Inl e \<Rightarrow> Inl e
                | Inr ps \<Rightarrow> Inr (o2\<lparr>op_pairs := ps\<rparr>))))"

definition compileOp :: "gany \<Rightarrow> lop result" where
  "compileOp raw =
     (case as_map raw of
        None \<Rightarrow> Inl (unsupported ''op is not an object'')
      | Some m \<Rightarrow>
          let kind = str_or_empty (mindex m ''op'')
          in case opMembers kind of
               None \<Rightarrow> Inl (unsupported ''unknown op'')
             | Some req \<Rightarrow>
                 let allowed = length req + 1 +
                       (if kind = ''map'' \<and> map_of m ''fallback'' \<noteq> None then 1 else 0)
                 in if length m \<noteq> allowed then Inl (unsupported ''wrong members'')
                    else if list_ex (\<lambda>name. map_of m name = None) req
                         then Inl (unsupported ''lacks a member'')
                    else if kind = ''rename'' \<or> kind = ''move''
                         then (case (parsePath (mindex m ''from''), parsePath (mindex m ''to'')) of
                                 (Some f, Some t) \<Rightarrow>
                                   if isPrefix f t then Inl (unsupported ''bad paths'')
                                   else Inr ((empty_op kind)\<lparr>op_from := f, op_to := t\<rparr>)
                               | _ \<Rightarrow> Inl (unsupported ''bad paths''))
                    else (case parsePath (mindex m ''path'') of
                            None \<Rightarrow> Inl (unsupported ''bad path'')
                          | Some p \<Rightarrow>
                              let o1 = (empty_op kind)\<lparr>op_path := p\<rparr>
                              in if kind = ''add'' then Inr (o1\<lparr>op_def := mindex m ''default''\<rparr>)
                                 else if kind = ''map'' then compileMap o1 m
                                 else Inr o1))"

fun compile_ops :: "gany list \<Rightarrow> lop list result" where
  "compile_ops [] = Inr []"
| "compile_ops (r # rs) =
     (case compileOp r of
        Inl e \<Rightarrow> Inl (wrapf ''step'' e)
      | Inr oo \<Rightarrow> (case compile_ops rs of Inl e \<Rightarrow> Inl e | Inr os \<Rightarrow> Inr (oo # os)))"

definition lookup :: "regexps \<Rightarrow> gany \<Rightarrow> int \<Rightarrow> string \<Rightarrow> (lop list \<times> bool) result" where
  "lookup re steps k key =
     (case as_list steps of
        None \<Rightarrow> Inl (unsupported ''x-migrations is not a list'')
      | Some els \<Rightarrow>
          let (mt, matches, malformed) = scan_steps k els ([], 0, False)
          in if matches > 1 then Inl (unsupported ''several steps'')
             else if matches = 0 \<and> malformed then Inl (unsupported ''malformed element'')
             else if matches = 0 then Inl (errw ErrMissingStep ''no step'')
             else if list_ex (\<lambda>(name, _). name \<noteq> ''to'' \<and> name \<noteq> ''breaking'' \<and> name \<noteq> ''entries'') mt
                  then Inl (unsupported ''unknown member'')
             else (case (as_bool (mindex mt ''breaking''), as_map (mindex mt ''entries'')) of
                     (Some breaking, Some entries) \<Rightarrow>
                       (case scan_entries re key entries (GNil, 0) of
                          Inl e \<Rightarrow> Inl e
                        | Inr (found, hits) \<Rightarrow>
                            if hits > 1 then Inl (unsupported ''several entries patterns match'')
                            else if hits = 1
                                 then (case as_list found of
                                         None \<Rightarrow> Inl (unsupported ''ops are not a list'')
                                       | Some raw \<Rightarrow>
                                           (case compile_ops raw of
                                              Inl e \<Rightarrow> Inl e
                                            | Inr ops \<Rightarrow> Inr (ops, breaking)))
                                 else Inr ([], breaking))
                   | _ \<Rightarrow> Inl (unsupported ''needs a boolean breaking and an object entries'')))"

definition wrapUp :: "gany \<Rightarrow> gany" where
  "wrapUp x = (case x of GNil \<Rightarrow> GList [] | GList _ \<Rightarrow> x | _ \<Rightarrow> GList [x])"

definition wrapDown :: "gany \<Rightarrow> gany" where
  "wrapDown x = (case x of GList l \<Rightarrow> (case l of [] \<Rightarrow> GNil | y # _ \<Rightarrow> y) | _ \<Rightarrow> x)"

text \<open>The loop over the pairs: the replacement of the first pair whose source equals the value.\<close>

fun map_value :: "(gany \<times> gany) list \<Rightarrow> bool \<Rightarrow> gany \<Rightarrow> gany option" where
  "map_value [] up cur = None"
| "map_value ((a, b) # ps) up cur =
     (let (from, to) = (if up then (a, b) else (b, a))
      in if gequal cur from then Some to else map_value ps up cur)"

definition apply_op :: "lop \<Rightarrow> gmap \<Rightarrow> bool \<Rightarrow> gmap" where
  "apply_op oo rt up =
     (if op_kind oo = ''rename'' \<or> op_kind oo = ''move'' then
        (let (from, to) = (if up then (op_from oo, op_to oo) else (op_to oo, op_from oo))
         in case getPath (GMap rt) from of
              None \<Rightarrow> rt
            | Some val \<Rightarrow>
                if \<not> canSet rt to then rt
                else setPath (removePath rt from True) to val)
      else if op_kind oo = ''add'' then
        (if \<not> up then removePath rt (op_path oo) True
         else if getPath (GMap rt) (op_path oo) = None \<and> canSet rt (op_path oo)
              then setPath rt (op_path oo) (clone (op_def oo))
              else rt)
      else
        (case getPath (GMap rt) (op_path oo) of
           None \<Rightarrow> rt
         | Some cur \<Rightarrow>
             if op_kind oo = ''map'' then
               (case map_value (op_pairs oo) up cur of
                  Some to \<Rightarrow> setPath rt (op_path oo) to
                | None \<Rightarrow> if \<not> up \<and> op_hasFallback oo
                          then setPath rt (op_path oo) (op_fallback oo) else rt)
             else if op_kind oo = ''wrap'' then
               setPath rt (op_path oo) (if up then wrapUp cur else wrapDown cur)
             else if op_kind oo = ''unwrap'' then
               setPath rt (op_path oo) (if up then wrapDown cur else wrapUp cur)
             else rt))"

definition op_lossy :: "lop \<Rightarrow> bool \<Rightarrow> bool" where
  "op_lossy oo up =
     (if op_kind oo = ''map'' then \<not> up \<and> op_hasFallback oo
      else if op_kind oo = ''wrap'' then \<not> up
      else if op_kind oo = ''unwrap'' then up
      else False)"

subsection \<open>The walk\<close>

definition apply_ops :: "lop list \<Rightarrow> bool \<Rightarrow> gmap \<Rightarrow> gmap" where
  "apply_ops ops up out = fold (\<lambda>oo m. apply_op oo m up) ops out"

function walk_up ::
    "regexps \<Rightarrow> gany \<Rightarrow> string \<Rightarrow> int \<Rightarrow> int \<Rightarrow> gmap \<Rightarrow> bool \<Rightarrow> (gmap \<times> bool) result" where
  "walk_up re steps key k to out lossy =
     (if k > to then Inr (out, lossy)
      else case lookup re steps k key of
             Inl e \<Rightarrow> Inl e
           | Inr (ops, _) \<Rightarrow>
               walk_up re steps key (k + 1) to (apply_ops ops True out)
                 (lossy \<or> list_ex (\<lambda>oo. op_lossy oo True) ops))"
  by pat_completeness auto
termination
  by (relation "measure (\<lambda>(_, _, _, k, to, _, _). nat (to + 1 - k))") auto

function walk_down ::
    "regexps \<Rightarrow> gany \<Rightarrow> string \<Rightarrow> int \<Rightarrow> int \<Rightarrow> gmap \<Rightarrow> bool \<Rightarrow> (gmap \<times> bool) result" where
  "walk_down re steps key k to out lossy =
     (if k \<le> to then Inr (out, lossy)
      else case lookup re steps k key of
             Inl e \<Rightarrow> Inl e
           | Inr (ops, breaking) \<Rightarrow>
               if breaking then Inl (errw ErrBreaking ''step is breaking'')
               else walk_down re steps key (k - 1) to (apply_ops (rev ops) False out)
                      (lossy \<or> list_ex (\<lambda>oo. op_lossy oo False \<or> op_lossy oo True) ops))"
  by pat_completeness auto
termination
  by (relation "measure (\<lambda>(_, _, _, k, to, _, _). nat (k - to))") auto

declare walk_up.simps [simp del] walk_down.simps [simp del]

definition migrate :: "regexps \<Rightarrow> gany \<Rightarrow> string \<Rightarrow> gmap \<Rightarrow> int \<Rightarrow> (gmap \<times> bool) result" where
  "migrate re steps key m to =
     (case Version m of
        Inl e \<Rightarrow> Inl e
      | Inr e \<Rightarrow>
          if e = to then Inr (cloneMap m, False)
          else case (if e < to then walk_up re steps key (e + 1) to (cloneMap m) False
                     else walk_down re steps key e to (cloneMap m) False) of
                 Inl err \<Rightarrow> Inl err
               | Inr (out, lossy) \<Rightarrow> Inr (mput ''v'' (num to) out, lossy))"

definition Migrate :: "regexps \<Rightarrow> gany \<Rightarrow> string \<Rightarrow> gany \<Rightarrow> int \<Rightarrow> (gany \<times> bool) result" where
  "Migrate re steps key v to =
     (case checkArg ''to'' to of
        Some e \<Rightarrow> Inl e
      | None \<Rightarrow>
          (case as_map v of
             None \<Rightarrow> Inr (clone v, False)
           | Some m \<Rightarrow>
               (case migrate re steps key m to of
                  Inl e \<Rightarrow> Inl e
                | Inr (res, lossy) \<Rightarrow> Inr (GMap res, lossy))))"

text \<open>\<open>Steps\<close>, with \<open>decode\<close> standing for \<open>decodeJSON\<close> on the schema's bytes.\<close>

definition Steps :: "(string \<Rightarrow> gany result) \<Rightarrow> string \<Rightarrow> gany result" where
  "Steps decode schema =
     (case decode schema of
        Inl e \<Rightarrow> Inl (wrapf ''failed to parse schema'' e)
      | Inr doc \<Rightarrow>
          (case as_map doc of
             None \<Rightarrow> Inr (GList [])
           | Some m \<Rightarrow> (case map_of m ''x-migrations'' of None \<Rightarrow> Inr (GList []) | Some raw \<Rightarrow> Inr raw)))"

end
