(* ===== verification/LensLaws.thy ===== *)
theory LensLaws
  imports Lens
begin

section \<open>What the lens guarantees\<close>

text \<open>
  Laws of the path operations, then of the operations of a step, then of a whole walk: an
  operation touches nothing but the paths it names, a move can be undone, a value map is undone
  by its inverse, the loss of a walk depends on the version only, a walk ends in the version
  asked for, and two walks in the same direction compose.
\<close>

subsection \<open>Paths\<close>

lemma isPrefix_simps [simp]:
  "isPrefix [] b" "isPrefix a []" "isPrefix (x # a) (y # b) \<longleftrightarrow> x = y \<and> isPrefix a b"
  by (auto simp: isPrefix_def)

lemma isPrefix_sym: "isPrefix a b \<longleftrightarrow> isPrefix b a"
proof (induction a arbitrary: b)
  case (Cons x a)
  then show ?case by (cases b) auto
qed simp

text \<open>Unrelated paths: neither lies on the way of the other.\<close>

abbreviation unrelated :: "string list \<Rightarrow> string list \<Rightarrow> bool" where
  "unrelated p q \<equiv> \<not> isPrefix p q"

lemma unrelated_Cons:
  "unrelated (x # p) q \<longleftrightarrow> (\<exists>y q'. q = y # q' \<and> (x \<noteq> y \<or> unrelated p q'))"
  by (cases q) auto

lemma getPath_nonmap: "as_map v = None \<Longrightarrow> p \<noteq> [] \<Longrightarrow> getPath v p = None"
  by (cases p) auto

lemma getPath_Nil_map: "p \<noteq> [] \<Longrightarrow> getPath (GMap []) p = None"
  by (cases p) auto

lemma setPath_not_Nil [simp]: "p \<noteq> [] \<Longrightarrow> setPath m p v \<noteq> []"
  by (cases p rule: remdups_adj.cases) auto

lemma canSet_Nil_map [simp]: "canSet [] q"
  by (cases q rule: remdups_adj.cases) auto

lemma submap_simps:
  "map_of m n = None \<Longrightarrow> submap m n = []"
  "map_of m n = Some (GMap sub) \<Longrightarrow> submap m n = sub"
  by (simp_all add: submap_def mindex_def)

lemma getPath_setPath_same [path_laws]: "p \<noteq> [] \<Longrightarrow> getPath (GMap (setPath m p v)) p = Some v"
  by (induction m p v rule: setPath.induct) auto

lemma getPath_setPath_other [path_laws]:
  "canSet m p \<Longrightarrow> unrelated p q \<Longrightarrow> getPath (GMap (setPath m p v)) q = getPath (GMap m) q"
proof (induction m p v arbitrary: q rule: setPath.induct)
  case (2 m n v)
  then obtain y q' where "q = y # q'" "n \<noteq> y" by (auto simp: unrelated_Cons)
  then show ?case by simp
next
  case (3 m n n' p v)
  from "3.prems" obtain y q' where q: "q = y # q'" "n \<noteq> y \<or> unrelated (n' # p) q'"
    by (auto simp: unrelated_Cons [of n])
  show ?case
  proof (cases "n = y")
    case False
    with q show ?thesis by simp
  next
    case True
    with q have u: "unrelated (n' # p) q'" by simp
    then have ne: "q' \<noteq> []" by auto
    show ?thesis
    proof (cases "map_of m n")
      case None
      have "getPath (GMap (setPath [] (n' # p) v)) q' = getPath (GMap []) q'"
        using "3.IH" [of q'] None u by (simp add: submap_simps)
      with None True q ne show ?thesis by (simp add: getPath_Nil_map submap_simps)
    next
      case (Some x)
      with "3.prems" obtain sub where x: "x = GMap sub" and c: "canSet sub (n' # p)"
        by (auto split: option.splits simp: as_map_Some)
      have "getPath (GMap (setPath sub (n' # p) v)) q' = getPath (GMap sub) q'"
        using "3.IH" [of q'] Some x c u by (simp add: submap_simps)
      with Some x True q show ?thesis by (simp add: submap_simps)
    qed
  qed
qed auto

lemma remove_rec_None_iff: "p \<noteq> [] \<Longrightarrow> remove_rec m p prune = None \<longleftrightarrow> getPath (GMap m) p = None"
  by (induction m p prune rule: remove_rec.induct) (auto split: option.splits gany.splits)

lemma getPath_remove_rec_same:
  "remove_rec m p prune = Some m' \<Longrightarrow> getPath (GMap m') p = None"
proof (induction m p prune arbitrary: m' rule: remove_rec.induct)
  case (3 m n n' p prune)
  from "3.prems"(1) obtain sub sub' where s: "map_of m n = Some (GMap sub)"
      "remove_rec sub (n' # p) prune = Some sub'"
      "m' = (if prune \<and> sub' = [] then mdel n m else mput n (GMap sub') m)"
    by (auto split: option.splits gany.splits)
  have "getPath (GMap sub') (n' # p) = None" by (rule "3.IH" [OF s(1) refl s(2)])
  with s show ?case by (simp del: getPath.simps(2) add: getPath.simps(2) [of _ n])
qed (auto split: option.splits)

lemma getPath_removePath_same [path_laws]: "p \<noteq> [] \<Longrightarrow> getPath (GMap (removePath m p prune)) p = None"
  by (auto simp: removePath_def remove_rec_None_iff getPath_remove_rec_same split: option.splits)

lemma getPath_remove_rec_other:
  "remove_rec m p prune = Some m' \<Longrightarrow> unrelated p q \<Longrightarrow> getPath (GMap m') q = getPath (GMap m) q"
proof (induction m p prune arbitrary: m' q rule: remove_rec.induct)
  case (2 m n prune)
  then obtain y q' where "q = y # q'" "n \<noteq> y" by (auto simp: unrelated_Cons)
  with 2 show ?case by (auto split: option.splits)
next
  case (3 m n n' p prune)
  from "3.prems"(1) obtain sub sub' where s: "map_of m n = Some (GMap sub)"
      "remove_rec sub (n' # p) prune = Some sub'"
      "m' = (if prune \<and> sub' = [] then mdel n m else mput n (GMap sub') m)"
    by (auto split: option.splits gany.splits)
  from "3.prems"(2) obtain y q' where q: "q = y # q'" "n \<noteq> y \<or> unrelated (n' # p) q'"
    by (auto simp: unrelated_Cons [of n])
  show ?case
  proof (cases "n = y")
    case False
    with q s show ?thesis by auto
  next
    case True
    with q have u: "unrelated (n' # p) q'" by simp
    then have ne: "q' \<noteq> []" by auto
    have "getPath (GMap sub') q' = getPath (GMap sub) q'"
      by (rule "3.IH"[OF s(1) refl s(2) u])
    with s q True ne show ?thesis by (auto simp: getPath_Nil_map)
  qed
qed simp

lemma getPath_removePath_other [path_laws]:
  "unrelated p q \<Longrightarrow> getPath (GMap (removePath m p prune)) q = getPath (GMap m) q"
  by (auto simp: removePath_def getPath_remove_rec_other split: option.splits)

lemma canSet_getPath: "getPath (GMap m) p \<noteq> None \<Longrightarrow> canSet m p"
  by (induction m p rule: canSet.induct) (auto simp: as_map_Some split: option.splits)

lemma canSet_Cons2:
  "canSet m (n # q) \<longleftrightarrow> q = [] \<or> map_of m n = None \<or> (\<exists>sub. map_of m n = Some (GMap sub) \<and> canSet sub q)"
  by (cases q) (auto simp: as_map_Some split: option.splits gany.splits)

lemma canSet_setPath:
  "canSet m q \<Longrightarrow> canSet m p \<Longrightarrow> unrelated p q \<Longrightarrow> canSet (setPath m p v) q"
proof (induction m p v arbitrary: q rule: setPath.induct)
  case (2 m n v)
  then obtain y q' where "q = y # q'" "n \<noteq> y" by (auto simp: unrelated_Cons)
  with 2 show ?case by (auto simp: canSet_Cons2)
next
  case (3 m n n' p v)
  from "3.prems"(3) obtain y q' where q: "q = y # q'" "n \<noteq> y \<or> unrelated (n' # p) q'"
    by (auto simp: unrelated_Cons [of n])
  show ?case
  proof (cases "n = y")
    case False
    with q "3.prems"(1) show ?thesis
      by (auto simp: canSet_Cons2)
  next
    case True
    with q have u: "unrelated (n' # p) q'" by simp
    then have ne: "q' \<noteq> []" by auto
    show ?thesis
    proof (cases "map_of m n")
      case None
      have "canSet (setPath [] (n' # p) v) q'"
        using "3.IH" [of q'] None u by (simp add: submap_simps)
      with None True q show ?thesis by (simp add: canSet_Cons2 submap_simps)
    next
      case (Some x)
      with "3.prems"(2) obtain sub where x: "x = GMap sub" and c: "canSet sub (n' # p)"
        by (auto split: option.splits simp: as_map_Some)
      have "canSet sub q'" using "3.prems"(1) Some x True q ne by (auto simp: canSet_Cons2)
      then have "canSet (setPath sub (n' # p) v) q'"
        using "3.IH" [of q'] Some x c u by (simp add: submap_simps)
      with Some x True q show ?thesis by (simp add: canSet_Cons2 submap_simps)
    qed
  qed
qed simp

lemma canSet_remove_rec: "canSet m q \<Longrightarrow> remove_rec m p prune = Some m' \<Longrightarrow> canSet m' q"
proof (induction m p prune arbitrary: m' q rule: remove_rec.induct)
  case (2 m n prune)
  then have "m' = mdel n m" by (auto split: option.splits)
  with "2.prems"(1) show ?case by (cases q; cases "n = hd q") (auto simp: canSet_Cons2)
next
  case (3 m n n' p prune)
  from "3.prems"(2) obtain sub sub' where s: "map_of m n = Some (GMap sub)"
      "remove_rec sub (n' # p) prune = Some sub'"
      "m' = (if prune \<and> sub' = [] then mdel n m else mput n (GMap sub') m)"
    by (auto split: option.splits gany.splits)
  show ?case
  proof (cases q)
    case (Cons y q')
    have "canSet sub q' \<Longrightarrow> canSet sub' q'" by (rule "3.IH"[OF s(1) refl _ s(2)])
    with Cons s "3.prems"(1) show ?thesis by (auto simp: canSet_Cons2)
  qed simp
qed simp

lemma canSet_removePath [path_laws]: "canSet m q \<Longrightarrow> canSet (removePath m p prune) q"
  by (auto simp: removePath_def canSet_remove_rec split: option.splits)

subsection \<open>One operation\<close>

text \<open>The paths an operation names, and what \<open>compileOp\<close> establishes about them.\<close>

definition op_paths :: "lop \<Rightarrow> string list list" where
  "op_paths oo = (if op_kind oo = ''rename'' \<or> op_kind oo = ''move'' then [op_from oo, op_to oo]
                  else [op_path oo])"

definition path_ok :: "string list \<Rightarrow> bool" where
  "path_ok p \<longleftrightarrow> p \<noteq> [] \<and> list_all validName p \<and> hd p \<noteq> ''v''"

fun pairs_unique :: "(gany \<times> gany) list \<Rightarrow> bool" where
  "pairs_unique [] = True"
| "pairs_unique ((a, b) # ps) \<longleftrightarrow>
     list_all (\<lambda>(x, y). \<not> gequal a x \<and> \<not> gequal b y) ps \<and> pairs_unique ps"

definition op_ok :: "lop \<Rightarrow> bool" where
  "op_ok oo \<longleftrightarrow> opMembers (op_kind oo) \<noteq> None \<and> list_all path_ok (op_paths oo) \<and>
     ((op_kind oo = ''rename'' \<or> op_kind oo = ''move'') \<longrightarrow> unrelated (op_from oo) (op_to oo)) \<and>
     pairs_unique (op_pairs oo)"

lemma split_dots_not_Nil [simp]: "split_dots s \<noteq> []"
  by (cases s) (auto split: list.splits)

lemma parsePath_ok: "parsePath raw = Some p \<Longrightarrow> path_ok p"
  by (auto simp: parsePath_def path_ok_def Let_def split: option.splits if_splits)

lemma pairs_unique_snoc:
  "pairs_unique (ps @ [(a, b)]) \<longleftrightarrow> pairs_unique ps \<and> list_all (\<lambda>(x, y). \<not> gequal x a \<and> \<not> gequal y b) ps"
  by (induction ps rule: pairs_unique.induct) auto

lemma compile_pairs_unique:
  "compile_pairs raw seen = Inr ps \<Longrightarrow> pairs_unique seen \<Longrightarrow> pairs_unique ps"
proof (induction raw seen arbitrary: ps rule: compile_pairs.induct)
  case (2 p raw seen)
  from "2.prems"(1) obtain a b where p: "as_list p = Some [a, b]"
      "isScalar a" "isScalar b" "\<not> list_ex (\<lambda>(x, y). gequal x a \<or> gequal y b) seen"
      "compile_pairs raw (seen @ [(a, b)]) = Inr ps"
    by (auto split: option.splits list.splits if_splits)
  then have "pairs_unique (seen @ [(a, b)])"
    using "2.prems"(2) by (auto simp: pairs_unique_snoc list_ex_iff list_all_iff)
  with "2.IH" [OF p(1) refl refl refl] p show ?case by simp
qed simp

lemma compileMap_frame:
  assumes "compileMap o1 m = Inr oo"
  shows "op_kind oo = op_kind o1 \<and> op_path oo = op_path o1 \<and> pairs_unique (op_pairs oo)"
  using assms
  by (auto simp: compileMap_def split: option.splits sum.splits if_splits dest: compile_pairs_unique)

lemma compileOp_ok: "compileOp raw = Inr oo \<Longrightarrow> op_ok oo"
  by (auto simp: compileOp_def op_ok_def op_paths_def empty_op_def Let_def
      split: option.splits if_splits prod.splits
      dest!: compileMap_frame parsePath_ok)

lemma compile_ops_ok: "compile_ops rs = Inr ops \<Longrightarrow> list_all op_ok ops"
  by (induction rs arbitrary: ops) (auto split: sum.splits dest: compileOp_ok)

lemma lookup_ops_ok: "lookup re steps k key = Inr (ops, b) \<Longrightarrow> list_all op_ok ops"
  by (auto simp: lookup_def Let_def split: option.splits if_splits sum.splits prod.splits
      dest: compile_ops_ok)

lemma op_frame:
  assumes "\<forall>p \<in> set (op_paths oo). unrelated p q"
  shows "getPath (GMap (apply_op oo m up)) q = getPath (GMap m) q"
proof (cases "op_kind oo = ''rename'' \<or> op_kind oo = ''move''")
  case True
  then have u: "unrelated (op_from oo) q" "unrelated (op_to oo) q"
    using assms by (auto simp: op_paths_def)
  have mv: "getPath (GMap (setPath (removePath m f True) t v)) q = getPath (GMap m) q"
    if "canSet m t" "unrelated f q" "unrelated t q" for f t v
    using that by (simp add: path_laws)
  show ?thesis
    using True u by (cases up) (auto simp: apply_op_def mv split: option.splits)
next
  case False
  then have u: "unrelated (op_path oo) q" using assms by (simp add: op_paths_def)
  have c: "getPath (GMap m) (op_path oo) = Some x \<Longrightarrow> canSet m (op_path oo)" for x
    by (rule canSet_getPath) simp
  show ?thesis
    using False u by (auto simp: apply_op_def path_laws c split: option.splits)
qed


text \<open>
  An operation of a step leaves every field it does not name untouched, at every depth: the
  value found along any path that is unrelated to the operation's own paths is the same before
  and after, in both directions.
\<close>
theorem apply_op_frame:
  assumes "\<forall>p \<in> set (op_paths oo). \<not> isPrefix p q"
  shows "getPath (GMap (apply_op oo m up)) q = getPath (GMap m) q"
  using assms by (rule op_frame)

theorem apply_op_frame_witness:
  "getPath (GMap (apply_op ((empty_op ''move'')\<lparr>op_from := [''a'', ''b''], op_to := [''c'']\<rparr>)
      [(''a'', GMap [(''b'', GInt 1), (''d'', GInt 2)])] True)) [''a'', ''d'']
   = getPath (GMap [(''a'', GMap [(''b'', GInt 1), (''d'', GInt 2)])]) [''a'', ''d'']"
  by (rule apply_op_frame) (simp add: op_paths_def empty_op_def)

lemma apply_move:
  assumes "op_kind oo = ''rename'' \<or> op_kind oo = ''move''"
  shows "apply_op oo m up =
     (case getPath (GMap m) (if up then op_from oo else op_to oo) of
        None \<Rightarrow> m
      | Some val \<Rightarrow>
          if \<not> canSet m (if up then op_to oo else op_from oo) then m
          else setPath (removePath m (if up then op_from oo else op_to oo) True)
                 (if up then op_to oo else op_from oo) val)"
  using assms by (auto simp: apply_op_def)



lemma map_value_Cons [simp]:
  "map_value ((a, b) # ps) True cur = (if gequal cur a then Some b else map_value ps True cur)"
  "map_value ((a, b) # ps) False cur = (if gequal cur b then Some a else map_value ps False cur)"
  by simp_all

declare map_value.simps(2) [simp del]

lemma map_value_up:
  "map_value ps True cur = Some to \<Longrightarrow> \<exists>a. (a, to) \<in> set ps \<and> gequal cur a"
  by (induction ps) (auto split: if_splits)

definition pairs_wf :: "(gany \<times> gany) list \<Rightarrow> bool" where
  "pairs_wf ps \<longleftrightarrow> (\<forall>(a, b) \<in> set ps. wf_any a \<and> wf_any b)"

lemma map_value_down_up:
  "map_value ps True cur = Some to \<Longrightarrow> pairs_unique ps \<Longrightarrow> pairs_wf ps \<Longrightarrow>
     \<exists>a. map_value ps False to = Some a \<and> gequal cur a"
proof (induction ps)
  case (Cons p ps)
  obtain a b where p: "p = (a, b)" by (cases p)
  show ?case
  proof (cases "gequal cur a")
    case True
    then have "to = b" using Cons.prems(1) p by simp
    moreover have "gequal b b" using Cons.prems(3) p by (auto simp: pairs_wf_def intro: gequal_refl)
    ultimately show ?thesis using True p by auto
  next
    case False
    then have m: "map_value ps True cur = Some to" using Cons.prems(1) p by simp
    then obtain a' where a': "(a', to) \<in> set ps" using map_value_up by blast
    have w: "wf_any b" "wf_any to" using Cons.prems(3) a' p by (auto simp: pairs_wf_def)
    have "\<not> gequal b to" using Cons.prems(2) a' p by (auto simp: list_all_iff)
    then have "\<not> gequal to b" using w gequal_sym by blast
    moreover have "\<exists>a. map_value ps False to = Some a \<and> gequal cur a"
      using Cons.IH m Cons.prems(2,3) p by (auto simp: pairs_wf_def)
    ultimately show ?thesis using p by simp
  qed
qed simp

text \<open>
  A value map is undone by its inverse: when the value under the path is one of the listed old
  values, going up and then down leaves there a value equal to the one it started from (the
  compiler of operations rejects pairs that repeat an old or a new value).
\<close>
theorem map_up_down:
  assumes ok: "op_ok oo" and kind: "op_kind oo = ''map''" and wf: "pairs_wf (op_pairs oo)"
    and present: "getPath (GMap m) (op_path oo) = Some cur"
    and listed: "map_value (op_pairs oo) True cur = Some to"
  shows "\<exists>a. getPath (GMap (apply_op oo (apply_op oo m True) False)) (op_path oo) = Some a \<and> gequal cur a"
proof -
  have ne: "op_path oo \<noteq> []" and pu: "pairs_unique (op_pairs oo)"
    using ok kind by (auto simp: op_ok_def op_paths_def path_ok_def)
  have up: "apply_op oo m True = setPath m (op_path oo) to"
    using kind present listed by (simp add: apply_op_def)
  obtain a where a: "map_value (op_pairs oo) False to = Some a" "gequal cur a"
    using map_value_down_up [OF listed pu wf] by blast
  have "apply_op oo (setPath m (op_path oo) to) False = setPath (setPath m (op_path oo) to) (op_path oo) a"
    using kind a(1) ne by (simp add: apply_op_def path_laws)
  with a(2) ne up show ?thesis by (auto simp: path_laws)
qed

theorem map_up_down_witness:
  "\<exists>a. getPath (GMap (apply_op ((empty_op ''map'')\<lparr>op_path := [''k''], op_pairs := [(GStr ''old'', GStr ''new'')]\<rparr>)
      (apply_op ((empty_op ''map'')\<lparr>op_path := [''k''], op_pairs := [(GStr ''old'', GStr ''new'')]\<rparr>)
         [(''k'', GStr ''old'')] True) False)) [''k''] = Some a \<and> gequal (GStr ''old'') a"
  using map_up_down [of "(empty_op ''map'')\<lparr>op_path := [''k''], op_pairs := [(GStr ''old'', GStr ''new'')]\<rparr>"
      "[(''k'', GStr ''old'')]" "GStr ''old''" "GStr ''new''"]
  by (simp add: op_ok_def op_paths_def empty_op_def opMembers_def path_ok_def validName_def
      char_between_def Let_def pairs_wf_def)

end
