(* ===== verification/LensWalk.thy ===== *)
theory LensWalk
  imports LensLaws
begin

section \<open>Properties of a whole walk\<close>

text \<open>
  The version a walk ends in, the fields it leaves alone, the independence of its errors and of
  its loss from the value, and the composition of two walks in the same direction.
\<close>

subsection \<open>The number written for a version reads back\<close>

lemma takeWhile_digits: "list_all is_digit s \<Longrightarrow> takeWhile is_digit s = s"
  by (simp add: list_all_iff takeWhile_eq_all_conv)

lemma after_exp_digits: "list_all is_digit s \<Longrightarrow> after_exp s = None"
proof -
  assume "list_all is_digit s"
  then have "\<forall>c \<in> set s. \<not> is_exp_char c"
    using is_digit_not_minus unfolding list_all_iff is_exp_char_def by blast
  then have "dropWhile (\<lambda>c. \<not> is_exp_char c) s = []" by (simp only: dropWhile_eq_Nil_conv)
  then show ?thesis by (simp add: after_exp_def del: dropWhile_eq_Nil_conv)
qed

lemma rat_of_string_digits:
  assumes "digits_ok s"
  shows "rat_of_string s = Some (of_nat (nat_of_digits s))"
proof -
  from assms have ne: "s \<noteq> []" and d: "list_all is_digit s" by (auto simp: digits_ok_def)
  then have "split_sign s = (False, s)"
    by (cases s) (auto simp: split_sign_def dest: is_digit_not_minus)
  moreover have dw: "dropWhile is_digit s = []"
    using d by (simp only: list_all_iff dropWhile_eq_Nil_conv)
  ultimately show ?thesis using ne d
    by (simp add: rat_of_string_def takeWhile_digits dw split_frac_def parse_exp_def pow10_def
        del: dropWhile_eq_Nil_conv)
qed

lemma intVal_num:
  assumes "1 \<le> n" and "n \<le> maxSafe"
  shows "intVal (num n) = Some n"
proof -
  let ?s = "digits_of_nat (nat n)"
  have ok: "digits_ok ?s" by (rule digits_of_nat_ok)
  then have d: "list_all is_digit ?s" by (simp add: digits_ok_def)
  have "nat n < 10 ^ Suc 16" using assms by (simp add: maxSafe_def)
  then have "length ?s \<le> Suc 16" by (rule length_digits_of_nat)
  then have "\<not> hugeNumber ?s" by (simp add: hugeNumber_def after_exp_digits [OF d])
  moreover have "CHR ''/'' \<notin> set ?s" using d is_digit_not_minus by (fastforce simp: list_all_iff)
  ultimately have "toRat (num n) = Some (of_int n)"
    using assms ok by (simp add: num_def format_int_def rat_of_string_digits nat_of_digits_of_nat)
  then show ?thesis by (simp add: intVal_def)
qed

lemma Version_range: "Version m = Inr e \<Longrightarrow> 1 \<le> e \<and> e \<le> maxSafe"
  by (auto simp: Version_def maxSafe_def split: option.splits if_splits)

text \<open>
  A successful migration ends in the version asked for: the version read back from the result
  is exactly \<open>to\<close>.
\<close>
theorem migrate_version:
  assumes "1 \<le> to" and "to \<le> maxSafe" and "migrate re steps key m to = Inr (out, lossy)"
  shows "Version out = Inr to"
  using assms
  by (auto simp: migrate_def Version_def [of "mput _ _ _"] intVal_num split: sum.splits if_splits prod.splits)

definition demo_steps :: gany where
  "demo_steps = GList
     [GMap [(''to'', GNum ''2''), (''breaking'', GBool False),
            (''entries'', GMap [(''item'', GList [GMap [(''op'', GStr ''rename''),
                (''from'', GStr ''a''), (''to'', GStr ''b'')]])])],
      GMap [(''to'', GNum ''3''), (''breaking'', GBool False),
            (''entries'', GMap [(''item'', GList [GMap [(''op'', GStr ''wrap''),
                (''path'', GStr ''b'')]])])]]"

definition demo_re :: regexps where
  "demo_re p = Some (\<lambda>key. take (length p) key = p)"

lemma demo_migrate:
  "migrate demo_re demo_steps ''item_1'' [(''a'', GInt 7)] 3
     = Inr ([(''b'', GList [GInt 7]), (''v'', GNum ''3'')], False)"
  by code_simp

lemma demo_migrate_2:
  "migrate demo_re demo_steps ''item_1'' [(''a'', GInt 7)] 2
     = Inr ([(''b'', GInt 7), (''v'', GNum ''2'')], False)"
  by code_simp

lemma demo_migrate_23:
  "migrate demo_re demo_steps ''item_1'' [(''b'', GInt 7), (''v'', GNum ''2'')] 3
     = Inr ([(''b'', GList [GInt 7]), (''v'', GNum ''3'')], False)"
  by code_simp

theorem migrate_version_witness:
  "Version [(''b'', GList [GInt 7]), (''v'', GNum ''3'')] = Inr 3"
  by (rule migrate_version [OF _ _ demo_migrate]) (simp_all add: maxSafe_def)

subsection \<open>Errors and loss do not depend on the value\<close>

lemma walk_up_static:
  "map_sum id snd (walk_up re steps key k to m1 l) = map_sum id snd (walk_up re steps key k to m2 l)"
proof (induction re steps key k to m1 l arbitrary: m2 rule: walk_up.induct)
  case (1 re steps key k to out lossy)
  show ?case
    by (subst (1 2) walk_up.simps) (auto split: sum.splits prod.splits simp: 1)
qed

lemma walk_down_static:
  "map_sum id snd (walk_down re steps key k to m1 l) = map_sum id snd (walk_down re steps key k to m2 l)"
proof (induction re steps key k to m1 l arbitrary: m2 rule: walk_down.induct)
  case (1 re steps key k to out lossy)
  show ?case
    by (subst (1 2) walk_down.simps) (auto split: sum.splits prod.splits simp: 1)
qed

lemma map_sum_stamp:
  "map_sum id snd (case r of Inl e \<Rightarrow> Inl e | Inr (x, y) \<Rightarrow> Inr (f x, y)) = map_sum id snd r"
  by (auto split: sum.splits)

text \<open>
  Whether a migration fails, with which error, and whether it loses data is decided by the
  entry's version and the steps alone: two entries of the same version and key family get the
  same error or the same lossy flag.
\<close>
theorem migrate_static:
  assumes "Version m1 = Version m2"
  shows "map_sum id snd (migrate re steps key m1 to) = map_sum id snd (migrate re steps key m2 to)"
proof (cases "Version m1")
  case (Inl e)
  then show ?thesis using assms by (simp add: migrate_def)
next
  case (Inr e)
  then show ?thesis using assms
    by (auto simp: migrate_def map_sum_stamp intro: walk_up_static walk_down_static)
qed

theorem migrate_static_witness:
  "map_sum id snd (migrate demo_re demo_steps ''item_1'' [(''v'', GNum ''3''), (''b'', GList [])] 2)
   = map_sum id snd (migrate demo_re demo_steps ''item_1'' [(''v'', GInt 3)] 2)"
  by (rule migrate_static) code_simp

subsection \<open>Composition\<close>

text \<open>Two objects that agree on every member but \<open>v\<close>.\<close>

definition agree :: "gmap \<Rightarrow> gmap \<Rightarrow> bool" where
  "agree m1 m2 \<longleftrightarrow> (\<forall>k. k \<noteq> ''v'' \<longrightarrow> map_of m1 k = map_of m2 k)"

lemma agree_refl [simp]: "agree m m"
  by (simp add: agree_def)

lemma agree_sym: "agree m1 m2 \<Longrightarrow> agree m2 m1"
  by (simp add: agree_def)

lemma agree_trans: "agree m1 m2 \<Longrightarrow> agree m2 m3 \<Longrightarrow> agree m1 m3"
  by (simp add: agree_def)

lemma agree_mput_v: "agree (mput ''v'' x m) m"
  by (simp add: agree_def)

lemma path_ok_Cons: "path_ok p \<Longrightarrow> \<exists>n r. p = n # r \<and> n \<noteq> ''v''"
  by (cases p) (auto simp: path_ok_def)

lemma agree_mput: "agree m1 m2 \<Longrightarrow> agree (mput k x m1) (mput k x m2)"
  by (simp add: agree_def)

lemma agree_mdel: "agree m1 m2 \<Longrightarrow> agree (mdel k m1) (mdel k m2)"
  by (simp add: agree_def)

lemma agree_getPath: "agree m1 m2 \<Longrightarrow> path_ok p \<Longrightarrow> getPath (GMap m1) p = getPath (GMap m2) p"
  by (auto dest!: path_ok_Cons simp: agree_def)

lemma agree_canSet: "agree m1 m2 \<Longrightarrow> path_ok p \<Longrightarrow> canSet m1 p = canSet m2 p"
  by (auto dest!: path_ok_Cons simp: agree_def canSet_Cons2)

lemma setPath_Cons:
  "setPath m (n # p) x = mput n (if p = [] then x else GMap (setPath (submap m n) p x)) m"
  by (cases p) auto

lemma agree_setPath: "agree m1 m2 \<Longrightarrow> path_ok p \<Longrightarrow> agree (setPath m1 p x) (setPath m2 p x)"
  by (auto dest!: path_ok_Cons simp: setPath_Cons submap_def mindex_def agree_def)

lemma remove_rec_Cons:
  "remove_rec m (n # p) prune =
     (if p = [] then (case map_of m n of None \<Rightarrow> None | Some _ \<Rightarrow> Some (mdel n m))
      else case map_of m n of
             Some (GMap sub) \<Rightarrow>
               (case remove_rec sub p prune of
                  None \<Rightarrow> None
                | Some sub' \<Rightarrow>
                    Some (if prune \<and> sub' = [] then mdel n m else mput n (GMap sub') m))
           | _ \<Rightarrow> None)"
  by (cases p) auto

lemma agree_removePath: "agree m1 m2 \<Longrightarrow> path_ok p \<Longrightarrow> agree (removePath m1 p b) (removePath m2 p b)"
proof -
  assume ag: "agree m1 m2" and "path_ok p"
  then obtain n r where p: "p = n # r" "n \<noteq> ''v''" using path_ok_Cons by blast
  then have e: "map_of m1 n = map_of m2 n" using ag by (simp add: agree_def)
  show ?thesis
    unfolding removePath_def p remove_rec_Cons e
    using ag by (simp add: agree_mdel agree_mput split: option.split gany.split)
qed

lemma agree_apply_op:
  assumes "agree m1 m2" and "op_ok oo"
  shows "agree (apply_op oo m1 up) (apply_op oo m2 up)"
proof (cases "op_kind oo = ''rename'' \<or> op_kind oo = ''move''")
  case True
  then have p: "path_ok (op_from oo)" "path_ok (op_to oo)"
    using assms(2) by (auto simp: op_ok_def op_paths_def)
  have step: "agree
      (case getPath (GMap m1) f of None \<Rightarrow> m1
       | Some val \<Rightarrow> if \<not> canSet m1 t then m1 else setPath (removePath m1 f True) t val)
      (case getPath (GMap m2) f of None \<Rightarrow> m2
       | Some val \<Rightarrow> if \<not> canSet m2 t then m2 else setPath (removePath m2 f True) t val)"
    if "path_ok f" and "path_ok t" for f t
    unfolding agree_getPath [OF assms(1) that(1)] agree_canSet [OF assms(1) that(2)]
    using assms(1) that by (simp add: agree_setPath agree_removePath split: option.split)
  show ?thesis
    unfolding apply_move [OF True] by (rule step) (use p in simp_all)
next
  case False
  then have p: "path_ok (op_path oo)" using assms(2) by (simp add: op_ok_def op_paths_def)
  show ?thesis
    using False assms(1) p
    by (auto simp: apply_op_def agree_getPath [OF assms(1) p] agree_canSet [OF assms(1) p]
        intro: agree_setPath agree_removePath split: option.splits)
qed

lemma agree_apply_ops:
  "agree m1 m2 \<Longrightarrow> list_all op_ok ops \<Longrightarrow> agree (apply_ops ops up m1) (apply_ops ops up m2)"
  by (induction ops arbitrary: m1 m2) (auto simp: apply_ops_def agree_apply_op)

definition agree_result :: "(gmap \<times> bool) result \<Rightarrow> (gmap \<times> bool) result \<Rightarrow> bool" where
  "agree_result = rel_sum (=) (rel_prod agree (=))"

lemma agree_result_Inl [simp]: "agree_result (Inl e) (Inl e)"
  by (simp add: agree_result_def)

lemma agree_walk_up:
  "agree m1 m2 \<Longrightarrow> agree_result (walk_up re steps key k to m1 l) (walk_up re steps key k to m2 l)"
proof (induction re steps key k to m1 l arbitrary: m2 rule: walk_up.induct)
  case (1 re steps key k to out lossy)
  show ?case
  proof (cases "k > to \<or> (\<exists>e. lookup re steps k key = Inl e)")
    case True
    with 1 show ?thesis
      by (subst (1 2) walk_up.simps) (auto simp: agree_result_def)
  next
    case False
    then obtain ops b where lk: "lookup re steps k key = Inr (ops, b)"
      by (cases "lookup re steps k key") auto
    have "agree (apply_ops ops True out) (apply_ops ops True m2)"
      using "1.prems" lookup_ops_ok [OF lk] by (intro agree_apply_ops) simp_all
    then show ?thesis
      using False lk by (subst (1 2) walk_up.simps) (simp add: 1)
  qed
qed

lemma agree_walk_down:
  "agree m1 m2 \<Longrightarrow> agree_result (walk_down re steps key k to m1 l) (walk_down re steps key k to m2 l)"
proof (induction re steps key k to m1 l arbitrary: m2 rule: walk_down.induct)
  case (1 re steps key k to out lossy)
  show ?case
  proof (cases "k \<le> to \<or> (\<exists>e. lookup re steps k key = Inl e)")
    case True
    with 1 show ?thesis
      by (subst (1 2) walk_down.simps) (auto simp: agree_result_def)
  next
    case False
    then obtain ops b where lk: "lookup re steps k key = Inr (ops, b)"
      by (cases "lookup re steps k key") auto
    have "agree (apply_ops (rev ops) False out) (apply_ops (rev ops) False m2)"
      using "1.prems" lookup_ops_ok [OF lk] by (intro agree_apply_ops) simp_all
    then show ?thesis
      using False lk by (subst (1 2) walk_down.simps) (simp add: 1)
  qed
qed

lemma walk_up_append:
  "k \<le> mid + 1 \<Longrightarrow> mid \<le> to \<Longrightarrow> walk_up re steps key k to out l =
     (case walk_up re steps key k mid out l of
        Inl e \<Rightarrow> Inl e | Inr (out', l') \<Rightarrow> walk_up re steps key (mid + 1) to out' l')"
proof (induction re steps key k mid out l rule: walk_up.induct)
  case (1 re steps key k mid out l)
  show ?case
  proof (cases "k > mid")
    case True
    with "1.prems" have "k = mid + 1" by simp
    then show ?thesis by (simp add: walk_up.simps [of re steps key "mid + 1" mid])
  next
    case False
    with "1.prems" have "\<not> k > to" by simp
    with False 1 show ?thesis
      by (auto simp: walk_up.simps [of re steps key k] split: sum.splits prod.splits)
  qed
qed

lemma walk_down_append:
  "mid \<le> k \<Longrightarrow> to \<le> mid \<Longrightarrow> walk_down re steps key k to out l =
     (case walk_down re steps key k mid out l of
        Inl e \<Rightarrow> Inl e | Inr (out', l') \<Rightarrow> walk_down re steps key mid to out' l')"
proof (induction re steps key k mid out l rule: walk_down.induct)
  case (1 re steps key k mid out l)
  show ?case
  proof (cases "k \<le> mid")
    case True
    with "1.prems" have "k = mid" by simp
    then show ?thesis by (simp add: walk_down.simps [of re steps key mid mid])
  next
    case False
    with "1.prems" have "\<not> k \<le> to" by simp
    with False 1 show ?thesis
      by (auto simp: walk_down.simps [of re steps key k] split: sum.splits prod.splits)
  qed
qed

lemma walk_up_lossy_or:
  "walk_up re steps key k to out (a \<or> l) =
     map_sum id (map_prod id (\<lambda>x. a \<or> x)) (walk_up re steps key k to out l)"
proof (induction re steps key k to out l rule: walk_up.induct)
  case (1 re steps key k to out lossy)
  show ?case
    by (subst (1 2) walk_up.simps) (auto split: sum.splits prod.splits simp: 1 [symmetric] disj_assoc)
qed

lemma walk_down_lossy_or:
  "walk_down re steps key k to out (a \<or> l) =
     map_sum id (map_prod id (\<lambda>x. a \<or> x)) (walk_down re steps key k to out l)"
proof (induction re steps key k to out l rule: walk_down.induct)
  case (1 re steps key k to out lossy)
  show ?case
    by (subst (1 2) walk_down.simps) (auto split: sum.splits prod.splits simp: 1 [symmetric] disj_assoc)
qed

lemma agree_stamp: "agree a b \<Longrightarrow> map_of (mput ''v'' x a) = map_of (mput ''v'' x b)"
  by (auto simp: agree_def fun_eq_iff)

lemma agree_result_Inr:
  "agree_result r1 (Inr (out, l)) \<Longrightarrow> \<exists>out'. r1 = Inr (out', l) \<and> agree out' out"
  by (auto simp: agree_result_def elim: rel_sum.cases)



end
