(* ===== verification/WriteBack.thy ===== *)
theory WriteBack
  imports LensWalk
begin

section \<open>Write-back and component state\<close>

text \<open>
  \<open>internal/component/lens/writeback.go\<close>: an entry edited in the writer's version is merged into
  the stored entry, and a component's state is the worst state of its entries. The standard
  library's JSON decoder and encoder are the parameters \<open>decode\<close> and \<open>encode\<close>.
\<close>

subsection \<open>The definitions\<close>

datatype lens_state = StateFull | StateReadOnly | StateNeedsUpdate

fun state_String :: "lens_state \<Rightarrow> string" where
  "state_String StateReadOnly = ''read-only''"
| "state_String StateNeedsUpdate = ''needs-update''"
| "state_String StateFull = ''full''"

text \<open>
  The two loops of \<open>diffApply\<close> over the members of \<open>u\<close> and of \<open>u2\<close>; \<open>prefix = []\<close> is the code's
  nil prefix, at the top of the entry.
\<close>

function diffApply :: "gmap \<Rightarrow> gmap \<Rightarrow> gmap \<Rightarrow> string list \<Rightarrow> gmap"
  and diffValue :: "gmap \<Rightarrow> gany \<Rightarrow> gany \<Rightarrow> string list \<Rightarrow> gmap" where
  "diffApply res u u2 prefix =
     fold (\<lambda>(k, b) r.
         if map_of u k \<noteq> None \<or> (prefix = [] \<and> k = ''v'') then r
         else setPath r (prefix @ [k]) (clone b)) u2
       (fold (\<lambda>(k, a) r.
           if prefix = [] \<and> k = ''v'' then r
           else case map_of u2 k of
                  None \<Rightarrow> removePath r (prefix @ [k]) False
                | Some b \<Rightarrow> diffValue r a b (prefix @ [k])) u res)"
| "diffValue res a b p =
     (if gequal a b then res
      else case as_map a of
             None \<Rightarrow> setPath res p (clone b)
           | Some am \<Rightarrow>
               (case as_map b of
                  None \<Rightarrow> setPath res p (clone b)
                | Some bm \<Rightarrow> diffApply res am bm p))"
  by pat_completeness auto
termination
  by (relation "measure (\<lambda>x. case x of Inl (_, u, _, _) \<Rightarrow> 2 * size (GMap u)
                                    | Inr (_, a, _, _) \<Rightarrow> 2 * size a + 1)")
     (auto simp: as_map_Some simp del: gany.size dest: size_map_value)

declare diffApply.simps [simp del] diffValue.simps [simp del]

definition WriteBack ::
    "regexps \<Rightarrow> gany \<Rightarrow> string \<Rightarrow> gany \<Rightarrow> int \<Rightarrow> gmap \<Rightarrow> (gany \<times> bool) result" where
  "WriteBack re steps key original reader edited =
     (case checkArg ''reader'' reader of
        Some e \<Rightarrow> Inl e
      | None \<Rightarrow>
          (case as_map original of
             None \<Rightarrow> Inl (errorf ''write-back needs an entry object'')
           | Some o1 \<Rightarrow>
               (case migrate re steps key o1 reader of
                  Inl e \<Rightarrow> Inl e
                | Inr (view, lossy) \<Rightarrow>
                    if lossy then Inl (errw ErrReadOnly ''entry is lossy'')
                    else
                      (let e = (case Version o1 of Inl _ \<Rightarrow> 0 | Inr n \<Rightarrow> n) in
                       if e < reader then
                         (if gequal (GMap (mdel ''v'' (cloneMap view))) (GMap (mdel ''v'' (cloneMap edited)))
                          then Inr (original, False)
                          else Inr (GMap (mput ''v'' (num reader) (cloneMap edited)), True))
                       else
                         (let w = mput ''v'' (num reader) (cloneMap edited) in
                          case (if e > reader then
                                  (case migrate re steps key view e of
                                     Inl er \<Rightarrow> Inl er
                                   | Inr (u, _) \<Rightarrow>
                                       (case migrate re steps key w e of
                                          Inl er \<Rightarrow> Inl er
                                        | Inr (u2, _) \<Rightarrow> Inr (u, u2)))
                                else Inr (view, w)) of
                            Inl er \<Rightarrow> Inl er
                          | Inr (u, u2) \<Rightarrow>
                              let res = diffApply (cloneMap o1) u u2 [];
                                  res = (if map_of res ''v'' \<noteq> None then mput ''v'' (num e) res else res)
                              in if gequal (GMap res) (GMap o1) then Inr (original, False)
                                 else Inr (GMap res, True))))))"

fun state_loop :: "regexps \<Rightarrow> gany \<Rightarrow> int \<Rightarrow> (string \<times> gany) list \<Rightarrow> lens_state \<Rightarrow> lens_state" where
  "state_loop re steps reader [] state = state"
| "state_loop re steps reader ((key, v) # entries) state =
     (case as_map v of
        None \<Rightarrow> state_loop re steps reader entries state
      | Some m \<Rightarrow>
          (case Version m of
             Inl _ \<Rightarrow> state_loop re steps reader entries state
           | Inr _ \<Rightarrow>
               (case migrate re steps key m reader of
                  Inl _ \<Rightarrow> StateNeedsUpdate
                | Inr (_, lossy) \<Rightarrow>
                    state_loop re steps reader entries (if lossy then StateReadOnly else state))))"

definition ComponentState ::
    "regexps \<Rightarrow> gany \<Rightarrow> int \<Rightarrow> (string \<times> gany) list \<Rightarrow> lens_state result" where
  "ComponentState re steps reader entries =
     (case checkArg ''reader'' reader of
        Some e \<Rightarrow> Inl e
      | None \<Rightarrow> Inr (state_loop re steps reader entries StateFull))"

definition DecodeEncoded :: "(string \<Rightarrow> gany result) \<Rightarrow> string \<Rightarrow> gany" where
  "DecodeEncoded decode raw =
     (case decode raw of
        Inl _ \<Rightarrow> GStr raw
      | Inr v \<Rightarrow> (case as_map v of Some m \<Rightarrow> GMap m | None \<Rightarrow> GStr raw))"

definition Encode :: "(gany \<Rightarrow> string result) \<Rightarrow> gany \<Rightarrow> string result" where
  "Encode encode v =
     (case encode v of
        Inl e \<Rightarrow> Inl (wrapf ''failed to encode entry'' e)
      | Inr s \<Rightarrow> Inr (rev (dropWhile (\<lambda>c. c = CHR 0x0A) (rev s))))"

definition MigrateEncoded ::
    "(string \<Rightarrow> gany result) \<Rightarrow> (gany \<Rightarrow> string result) \<Rightarrow> regexps \<Rightarrow> gany \<Rightarrow> string \<Rightarrow> string \<Rightarrow> int
       \<Rightarrow> (string \<times> bool) result" where
  "MigrateEncoded decode encode re steps key raw to =
     (case as_map (DecodeEncoded decode raw) of
        None \<Rightarrow> Inr (raw, False)
      | Some m \<Rightarrow>
          (case checkArg ''to'' to of
             Some e \<Rightarrow> Inl e
           | None \<Rightarrow>
               if Version m = Inr to then Inr (raw, False)
               else case migrate re steps key m to of
                      Inl e \<Rightarrow> Inl e
                    | Inr (out, lossy) \<Rightarrow>
                        if gequal (GMap out) (GMap m) then Inr (raw, lossy)
                        else (case Encode encode (GMap out) of
                                Inl e \<Rightarrow> Inl e
                              | Inr s \<Rightarrow> Inr (s, lossy))))"

definition WriteBackEncoded ::
    "(string \<Rightarrow> gany result) \<Rightarrow> (gany \<Rightarrow> string result) \<Rightarrow> regexps \<Rightarrow> gany \<Rightarrow> string \<Rightarrow> string \<Rightarrow> int
       \<Rightarrow> gmap \<Rightarrow> (string \<times> bool) result" where
  "WriteBackEncoded decode encode re steps key original reader edited =
     (case checkArg ''reader'' reader of
        Some e \<Rightarrow> Inl e
      | None \<Rightarrow>
          (case as_map (DecodeEncoded decode original) of
             None \<Rightarrow> Inl (errorf ''write-back needs an encoded entry object'')
           | Some m \<Rightarrow>
               (case WriteBack re steps key (GMap m) reader edited of
                  Inl e \<Rightarrow> Inl e
                | Inr (out, wrote) \<Rightarrow>
                    if \<not> wrote then Inr (original, False)
                    else (case Encode encode out of Inl e \<Rightarrow> Inl e | Inr s \<Rightarrow> Inr (s, True)))))"

end
