(* ===== verification/WriteBackLaws.thy ===== *)
theory WriteBackLaws
  imports WriteBack
begin

section \<open>Properties of write-back and of the component state\<close>

text \<open>
  Migration keeps values well formed; an edit that changes nothing is never written, and writing
  never fails for it; an edit touches exactly the members it changed; the component state is the
  worst state of the entries in any order.
\<close>

subsection \<open>Well-formed values stay well formed\<close>

definition op_wf :: "lop \<Rightarrow> bool" where
  "op_wf oo \<longleftrightarrow> wf_any (op_def oo) \<and> pairs_wf (op_pairs oo) \<and> wf_any (op_fallback oo)"

lemma wf_any_mindex: "wf_any (GMap m) \<Longrightarrow> wf_any (mindex m k)"
  by (auto simp: mindex_def simp del: map_of_eq_Some_iff split: option.splits dest: wf_any_member)

lemma wf_submap: "wf_any (GMap m) \<Longrightarrow> wf_any (GMap (submap m n))"
  using wf_any_mindex [of m n]
  by (auto simp: submap_def as_map_Some split: option.splits) (simp add: wf_any_GMap)

lemma wf_setPath: "wf_any (GMap m) \<Longrightarrow> wf_any v \<Longrightarrow> wf_any (GMap (setPath m p v))"
  by (induction m p v rule: setPath.induct) (auto intro: wf_any_mput wf_submap)

lemma wf_getPath: "wf_any v \<Longrightarrow> getPath v p = Some x \<Longrightarrow> wf_any x"
proof (induction v p rule: getPath.induct)
  case (2 cur n p)
  then show ?case
    by (auto simp: as_map_Some simp del: map_of_eq_Some_iff split: option.splits dest: wf_any_member)
qed simp

lemma wf_remove_rec: "wf_any (GMap m) \<Longrightarrow> remove_rec m p b = Some m' \<Longrightarrow> wf_any (GMap m')"
proof (induction m p b arbitrary: m' rule: remove_rec.induct)
  case (3 m n n' p prune)
  from "3.prems"(2) obtain sub sub' where s: "map_of m n = Some (GMap sub)"
      "remove_rec sub (n' # p) prune = Some sub'"
      "m' = (if prune \<and> sub' = [] then mdel n m else mput n (GMap sub') m)"
    by (auto split: option.splits gany.splits)
  have "wf_any (GMap sub')"
    using "3.IH"[OF s(1) refl _ s(2)] wf_any_member [OF "3.prems"(1) s(1)] by simp
  with s(3) "3.prems"(1) show ?case by (simp add: wf_any_mput wf_any_mdel)
qed (auto intro: wf_any_mdel split: option.splits)

lemma wf_removePath: "wf_any (GMap m) \<Longrightarrow> wf_any (GMap (removePath m p b))"
  by (auto simp: removePath_def intro: wf_remove_rec split: option.splits)

lemma wf_wrapUp: "wf_any x \<Longrightarrow> wf_any (wrapUp x)"
  by (auto simp: wrapUp_def wf_any_GList split: gany.splits)

lemma wf_wrapDown: "wf_any x \<Longrightarrow> wf_any (wrapDown x)"
  by (auto simp: wrapDown_def wf_any_GList split: gany.splits list.splits)

lemma wf_map_value: "map_value ps up cur = Some to \<Longrightarrow> pairs_wf ps \<Longrightarrow> wf_any to"
proof (induction ps)
  case (Cons p ps)
  then show ?case
    by (cases p; cases up) (auto simp: pairs_wf_def split: if_splits)
qed simp

lemma wf_apply_op:
  assumes oo: "op_wf oo" and m: "wf_any (GMap m)"
  shows "wf_any (GMap (apply_op oo m up))"
proof (cases "op_kind oo = ''rename'' \<or> op_kind oo = ''move''")
  case True
  then show ?thesis
    using wf_setPath [OF wf_removePath [OF m] wf_getPath [OF m]] m
    by (auto simp: apply_move split: option.split)
next
  case False
  note sets = wf_setPath [OF m]
  have gp: "wf_any x" if "getPath (GMap m) p = Some x" for p x
    using wf_getPath [OF m that] .
  have mv: "wf_any x" if "map_value (op_pairs oo) up cur = Some x" for cur x
    using wf_map_value [OF that] oo by (simp add: op_wf_def)
  have dv: "wf_any (op_def oo)" "wf_any (op_fallback oo)" using oo by (simp_all add: op_wf_def)
  show ?thesis
    unfolding apply_op_def using False m
    by (simp add: sets gp mv dv wf_removePath wf_wrapUp wf_wrapDown split: option.split)
qed

lemma wf_apply_ops:
  "list_all op_wf ops \<Longrightarrow> wf_any (GMap m) \<Longrightarrow> wf_any (GMap (apply_ops ops up m))"
  by (induction ops arbitrary: m) (auto simp: apply_ops_def wf_apply_op)

lemma compile_pairs_wf:
  "compile_pairs raw seen = Inr ps \<Longrightarrow> list_all wf_any raw \<Longrightarrow> pairs_wf seen \<Longrightarrow> pairs_wf ps"
proof (induction raw seen arbitrary: ps rule: compile_pairs.induct)
  case (2 p raw seen)
  from "2.prems"(1) obtain a b where p: "as_list p = Some [a, b]"
      "isScalar a" "isScalar b" "\<not> list_ex (\<lambda>(x, y). gequal x a \<or> gequal y b) seen"
      "compile_pairs raw (seen @ [(a, b)]) = Inr ps"
    by (auto split: option.splits list.splits if_splits)
  then have "wf_any a \<and> wf_any b" using "2.prems"(2) by (simp add: as_list_Some wf_any_GList)
  then have "pairs_wf (seen @ [(a, b)])" using "2.prems"(3) by (auto simp: pairs_wf_def)
  with "2.IH" [OF p(1) refl refl refl] p "2.prems"(2) show ?case by simp
qed simp

lemma empty_op_wf: "op_wf (empty_op kind)"
  by (simp add: op_wf_def empty_op_def pairs_wf_def)

lemma compileMap_wf: "compileMap o1 m = Inr oo \<Longrightarrow> op_wf o1 \<Longrightarrow> wf_any (GMap m) \<Longrightarrow> op_wf oo"
proof -
  assume c: "compileMap o1 m = Inr oo" and o1: "op_wf o1" and m: "wf_any (GMap m)"
  from c obtain o2 pairs ps where o2: "as_list (mindex m ''pairs'') = Some pairs"
      "compile_pairs pairs [] = Inr ps" "oo = o2\<lparr>op_pairs := ps\<rparr>"
      "o2 = o1 \<or> (\<exists>fb. map_of m ''fallback'' = Some fb \<and> o2 = o1\<lparr>op_fallback := fb, op_hasFallback := True\<rparr>)"
    by (auto simp: compileMap_def simp del: map_of_eq_Some_iff split: option.splits sum.splits if_splits)
  have "list_all wf_any pairs"
    using wf_any_mindex [OF m, of "''pairs''"] o2(1) by (simp add: as_list_Some wf_any_GList list_all_iff)
  then have "pairs_wf ps" using compile_pairs_wf [OF o2(2)] by (simp add: pairs_wf_def)
  moreover have "wf_any (op_fallback o2) \<and> wf_any (op_def o2)"
    using o2(4) o1 wf_any_member [OF m] by (auto simp: op_wf_def simp del: map_of_eq_Some_iff)
  ultimately show ?thesis using o2(3) by (simp add: op_wf_def)
qed

lemma compileOp_wf: "compileOp raw = Inr oo \<Longrightarrow> wf_any raw \<Longrightarrow> op_wf oo"
  using empty_op_wf [unfolded op_wf_def]
  by (auto simp: compileOp_def Let_def as_map_Some split: option.splits if_splits
      dest!: compileMap_wf intro: wf_any_mindex simp: op_wf_def simp del: map_of_eq_Some_iff)

lemma compile_ops_wf: "compile_ops rs = Inr ops \<Longrightarrow> list_all wf_any rs \<Longrightarrow> list_all op_wf ops"
  by (induction rs arbitrary: ops) (auto split: sum.splits dest: compileOp_wf)

lemma scan_steps_wf:
  "scan_steps k els (mt, n, bad) = (mt', n', bad') \<Longrightarrow> list_all wf_any els \<Longrightarrow> wf_any (GMap mt)
     \<Longrightarrow> wf_any (GMap mt')"
proof (induction els arbitrary: mt n bad)
  case (Cons el els)
  show ?case
  proof (cases "stepTo el")
    case None
    with Cons show ?thesis by simp
  next
    case (Some t)
    then obtain m where m: "el = GMap m" by (auto simp: stepTo_def as_map_Some split: option.splits)
    then show ?thesis using Cons Some by (cases "t = k") auto
  qed
qed simp

lemma scan_entries_wf:
  "scan_entries re key es (found, n) = Inr (found', n') \<Longrightarrow> (\<forall>(p, c) \<in> set es. wf_any c) \<Longrightarrow> wf_any found
     \<Longrightarrow> wf_any found'"
  by (induction es arbitrary: found n) (auto split: option.splits if_splits)

lemma lookup_ops_wf:
  assumes "lookup re steps k key = Inr (ops, b)" and "wf_any steps"
  shows "list_all op_wf ops"
proof -
  from assms(1) obtain els mt n bad entries found hits where l: "as_list steps = Some els"
      "scan_steps k els ([], 0, False) = (mt, n, bad)"
      "as_map (mindex mt ''entries'') = Some entries"
      "scan_entries re key entries (GNil, 0) = Inr (found, hits)"
      "ops = [] \<or> (\<exists>raw. as_list found = Some raw \<and> compile_ops raw = Inr ops)"
    by (auto simp: lookup_def Let_def split: option.splits if_splits sum.splits prod.splits)
  have "list_all wf_any els" using assms(2) l(1) by (simp add: as_list_Some wf_any_GList list_all_iff)
  then have "wf_any (GMap mt)" using scan_steps_wf [OF l(2)] by (simp add: wf_any_GMap)
  then have "wf_any (GMap entries)" using wf_any_mindex [of mt "''entries''"] l(3) by (simp add: as_map_Some)
  then have "wf_any found" using scan_entries_wf [OF l(4)] by (auto simp: wf_any_GMap)
  then show ?thesis using l(5) compile_ops_wf by (auto simp: as_list_Some wf_any_GList list_all_iff)
qed

lemma walk_up_wf:
  "walk_up re steps key k to m l = Inr (out, l') \<Longrightarrow> wf_any steps \<Longrightarrow> wf_any (GMap m) \<Longrightarrow> wf_any (GMap out)"
proof (induction re steps key k to m l rule: walk_up.induct)
  case (1 re steps key k to m l)
  show ?case
  proof (cases "k > to")
    case True
    with 1 show ?thesis by (simp add: walk_up.simps [of re steps key k])
  next
    case False
    with "1.prems"(1) obtain ops b where lk: "lookup re steps k key = Inr (ops, b)"
        and w: "walk_up re steps key (k + 1) to (apply_ops ops True m)
                  (l \<or> list_ex (\<lambda>oo. op_lossy oo True) ops) = Inr (out, l')"
      by (auto simp: walk_up.simps [of re steps key k] split: sum.splits)
    show ?thesis
      by (rule "1.IH" [OF False lk refl w "1.prems"(2)])
         (use wf_apply_ops lookup_ops_wf [OF lk "1.prems"(2)] "1.prems"(3) in blast)
  qed
qed

lemma walk_down_wf:
  "walk_down re steps key k to m l = Inr (out, l') \<Longrightarrow> wf_any steps \<Longrightarrow> wf_any (GMap m) \<Longrightarrow> wf_any (GMap out)"
proof (induction re steps key k to m l rule: walk_down.induct)
  case (1 re steps key k to m l)
  show ?case
  proof (cases "k \<le> to")
    case True
    with 1 show ?thesis by (simp add: walk_down.simps [of re steps key k])
  next
    case False
    with "1.prems"(1) obtain ops where lk: "lookup re steps k key = Inr (ops, False)"
        and w: "walk_down re steps key (k - 1) to (apply_ops (rev ops) False m)
                  (l \<or> list_ex (\<lambda>oo. op_lossy oo False \<or> op_lossy oo True) ops) = Inr (out, l')"
      by (auto simp: walk_down.simps [of re steps key k] split: sum.splits if_splits)
    show ?thesis
      by (rule "1.IH" [OF False lk refl _ w "1.prems"(2)])
         (use wf_apply_ops lookup_ops_wf [OF lk "1.prems"(2)] "1.prems"(3) in simp_all)
  qed
qed

lemma wf_num: "1 \<le> n \<Longrightarrow> n \<le> maxSafe \<Longrightarrow> wf_any (num n)"
  using intVal_num [of n] by (auto simp: num_def wf_any_GNum intVal_def split: option.splits)

lemma migrate_wf:
  assumes "migrate re steps key m to = Inr (out, l)" and "wf_any steps" and "wf_any (GMap m)"
    and "1 \<le> to" and "to \<le> maxSafe"
  shows "wf_any (GMap out)"
  using assms wf_num
  by (auto simp: migrate_def split: sum.splits if_splits prod.splits
      intro!: wf_any_mput dest: walk_up_wf walk_down_wf)

subsection \<open>The diff\<close>

lemma map_of_setPath_other: "k \<noteq> j \<Longrightarrow> map_of (setPath m (j # p) v) k = map_of m k"
  by (simp add: setPath_Cons)

lemma map_of_removePath_other: "k \<noteq> j \<Longrightarrow> map_of (removePath m (j # p) b) k = map_of m k"
  by (auto simp: removePath_def remove_rec_Cons split: option.splits gany.splits)

lemma fold_keeps: "(\<And>x r. x \<in> set xs \<Longrightarrow> P (f x r) = P r) \<Longrightarrow> P (fold f xs r) = P r"
  by (induction xs arbitrary: r) auto

lemma diff_below_prefix:
  "prefix = j # p \<Longrightarrow> k \<noteq> j \<Longrightarrow> map_of (diffApply res u u2 prefix) k = map_of res k"
  "path = j # p \<Longrightarrow> k \<noteq> j \<Longrightarrow> map_of (diffValue res a b path) k = map_of res k"
proof (induction res u u2 prefix and res a b path arbitrary: p and p rule: diffApply_diffValue.induct)
  case (1 res u u2 prefix)
  show ?case
    by (subst diffApply.simps, subst fold_keeps [of _ "\<lambda>r. map_of r k"], use 1 in \<open>auto simp: map_of_setPath_other\<close>)
       (subst fold_keeps [of _ "\<lambda>r. map_of r k"],
        use 1 in \<open>auto simp: map_of_removePath_other split: option.splits\<close>)
next
  case (2 res a b path)
  then show ?case
    by (subst diffValue.simps) (auto simp: map_of_setPath_other split: option.splits)
qed

lemma diffValue_same: "gequal a b \<Longrightarrow> diffValue res a b p = res"
  by (subst diffValue.simps) simp

lemma diffValue_leaf:
  "\<not> gequal a b \<Longrightarrow> as_map a = None \<or> as_map b = None \<Longrightarrow> diffValue res a b p = setPath res p b"
  by (subst diffValue.simps) (auto split: option.splits)

text \<open>A loop over distinct keys whose body for \<open>j\<close> leaves every other key alone acts on \<open>k\<close> once.\<close>

lemma fold_at_key:
  assumes "distinct (map fst xs)"
    and "\<And>j x r. (j, x) \<in> set xs \<Longrightarrow> j \<noteq> k \<Longrightarrow> map_of (f (j, x) r) k = map_of r k"
  shows "case map_of xs k of
      None \<Rightarrow> map_of (fold f xs res) k = map_of res k
    | Some a \<Rightarrow> (\<exists>r. map_of r k = map_of res k \<and> map_of (fold f xs res) k = map_of (f (k, a) r) k)"
  using assms
proof (induction xs arbitrary: res)
  case (Cons x xs)
  obtain j a where x: "x = (j, a)" by (cases x)
  have IH: "case map_of xs k of
      None \<Rightarrow> map_of (fold f xs (f x res)) k = map_of (f x res) k
    | Some b \<Rightarrow> (\<exists>r. map_of r k = map_of (f x res) k \<and> map_of (fold f xs (f x res)) k = map_of (f (k, b) r) k)"
    by (rule Cons.IH) (use Cons.prems in auto)
  show ?case
  proof (cases "j = k")
    case True
    then have "map_of xs k = None" using Cons.prems(1) x by (simp add: map_of_eq_None_iff)
    with IH True x show ?thesis by auto
  next
    case False
    then have "map_of (f x res) k = map_of res k" using Cons.prems(2) x by simp
    with IH False x show ?thesis by (auto split: option.splits)
  qed
qed simp

definition both_maps :: "gany \<Rightarrow> gany \<Rightarrow> bool" where
  "both_maps a b \<longleftrightarrow> as_map a \<noteq> None \<and> as_map b \<noteq> None"

text \<open>What the diff does to one top-level member other than \<open>v\<close>.\<close>

lemma diffApply_member:
  assumes du: "distinct (map fst u)" and du2: "distinct (map fst u2)" and k: "k \<noteq> ''v''"
  shows "case (map_of u k, map_of u2 k) of
      (None, None) \<Rightarrow> map_of (diffApply res u u2 []) k = map_of res k
    | (Some a, None) \<Rightarrow> map_of (diffApply res u u2 []) k = None
    | (None, Some b) \<Rightarrow> map_of (diffApply res u u2 []) k = Some b
    | (Some a, Some b) \<Rightarrow>
        (gequal a b \<longrightarrow> map_of (diffApply res u u2 []) k = map_of res k) \<and>
        (\<not> gequal a b \<and> \<not> both_maps a b \<longrightarrow> map_of (diffApply res u u2 []) k = Some b)"
proof -
  define f1 where "f1 = (\<lambda>(k, a) r.
           if k = ''v'' then r
           else case map_of u2 k of
                  None \<Rightarrow> removePath r [k] False
                | Some b \<Rightarrow> diffValue r a b [k])"
  define f2 where "f2 = (\<lambda>(k, b) r. if map_of u k \<noteq> None \<or> k = ''v'' then r else setPath r [k] (clone b))"
  have eq: "diffApply res u u2 [] = fold f2 u2 (fold f1 u res)"
    unfolding f1_def f2_def by (subst diffApply.simps) (simp only: append_Nil simp_thms)
  define r1 where "r1 = fold f1 u res"
  have s1: "case map_of u k of
      None \<Rightarrow> map_of r1 k = map_of res k
    | Some a \<Rightarrow> (\<exists>r. map_of r k = map_of res k \<and> map_of r1 k = map_of (f1 (k, a) r) k)"
    unfolding r1_def
    by (rule fold_at_key [OF du])
       (auto simp: f1_def map_of_removePath_other diff_below_prefix split: option.splits)
  have s2: "case map_of u2 k of
      None \<Rightarrow> map_of (fold f2 u2 r1) k = map_of r1 k
    | Some b \<Rightarrow> (\<exists>r. map_of r k = map_of r1 k \<and> map_of (fold f2 u2 r1) k = map_of (f2 (k, b) r) k)"
    by (rule fold_at_key [OF du2]) (auto simp: f2_def)
  have rm: "map_of (removePath r [k] False) k = None" for r
    by (auto simp: removePath_def split: option.splits)
  show ?thesis
    unfolding eq r1_def [symmetric]
    using s1 s2 k rm
    by (cases "map_of u k"; cases "map_of u2 k")
       (auto simp: f1_def f2_def both_maps_def diffValue_same diffValue_leaf)
qed

lemma fold_nothing: "(\<And>x r. x \<in> set xs \<Longrightarrow> f x r = r) \<Longrightarrow> fold f xs r = r"
  by (induction xs arbitrary: r) auto

lemma diffApply_agree:
  assumes "agree u u2" and "wf_any (GMap u)" and "wf_any (GMap u2)"
  shows "diffApply res u u2 [] = res"
proof -
  have ag: "map_of u k = map_of u2 k" if "k \<noteq> ''v''" for k
    using assms(1) that by (simp add: agree_def)
  have wu: "map_of u k = Some a \<Longrightarrow> gequal a a" for k a
    using assms(2) by (blast intro: gequal_refl wf_any_member)
  have in_u: "(k, a) \<in> set u \<Longrightarrow> map_of u k = Some a" for k a
    using assms(2) by (simp add: wf_any_GMap)
  have in_u2: "(k, a) \<in> set u2 \<Longrightarrow> map_of u2 k = Some a" for k a
    using assms(3) by (simp add: wf_any_GMap)
  show ?thesis
    by (subst diffApply.simps, subst fold_nothing, use ag in_u2 in fastforce, rule fold_nothing)
       (use ag in_u wu in \<open>fastforce simp: diffValue_same split: option.splits\<close>)
qed

subsection \<open>Saving\<close>

lemma walk_down_lookups:
  "walk_down re steps key k to m l = Inr x \<Longrightarrow> to < j \<Longrightarrow> j \<le> k \<Longrightarrow> \<exists>y. lookup re steps j key = Inr y"
proof (induction re steps key k to m l rule: walk_down.induct)
  case (1 re steps key k to m l)
  then have nk: "\<not> k \<le> to" by simp
  with "1.prems"(1) obtain ops where lk: "lookup re steps k key = Inr (ops, False)"
      and w: "walk_down re steps key (k - 1) to (apply_ops (rev ops) False m)
                (l \<or> list_ex (\<lambda>oo. op_lossy oo False \<or> op_lossy oo True) ops) = Inr x"
    by (auto simp: walk_down.simps [of re steps key k] split: sum.splits if_splits)
  show ?case
  proof (cases "j = k")
    case True
    with lk show ?thesis by blast
  next
    case False
    show ?thesis by (rule "1.IH" [OF nk lk refl _ w]) (use False "1.prems" in simp_all)
  qed
qed

lemma walk_up_total:
  "(\<And>j. k \<le> j \<Longrightarrow> j \<le> to \<Longrightarrow> \<exists>y. lookup re steps j key = Inr y) \<Longrightarrow> \<exists>x. walk_up re steps key k to m l = Inr x"
proof (induction re steps key k to m l rule: walk_up.induct)
  case (1 re steps key k to m l)
  show ?case
  proof (cases "k > to")
    case True
    then show ?thesis by (simp add: walk_up.simps [of re steps key k])
  next
    case False
    with "1.prems" obtain ops b where lk: "lookup re steps k key = Inr (ops, b)" by fastforce
    have "\<exists>x. walk_up re steps key (k + 1) to (apply_ops ops True m)
            (l \<or> list_ex (\<lambda>oo. op_lossy oo True) ops) = Inr x"
      by (rule "1.IH" [OF False lk refl]) (use "1.prems" in simp_all)
    with False lk show ?thesis by (simp add: walk_up.simps [of re steps key k])
  qed
qed

lemma Version_mput: "1 \<le> r \<Longrightarrow> r \<le> maxSafe \<Longrightarrow> Version (mput ''v'' (num r) m) = Inr r"
  by (simp add: Version_def intVal_num)

lemma migrate_back:
  assumes steps: "wf_any steps" and o1: "wf_any (GMap o1)" and ve: "Version o1 = Inr e"
    and down: "migrate re steps key o1 r = Inr (view, False)" and r: "1 \<le> r" "r < e"
    and ag: "agree view edited" and ed: "wf_any (GMap edited)"
  shows "\<exists>u l u2 l2. migrate re steps key view e = Inr (u, l)
    \<and> migrate re steps key (mput ''v'' (num r) edited) e = Inr (u2, l2)
    \<and> agree u u2 \<and> wf_any (GMap u) \<and> wf_any (GMap u2)"
proof -
  have e: "1 \<le> e" "e \<le> maxSafe" using Version_range [OF ve] by auto
  with r have rm: "r \<le> maxSafe" by simp
  let ?w = "mput ''v'' (num r) edited"
  have vv: "Version view = Inr r" by (rule migrate_version [OF r(1) rm down])
  have vw: "Version ?w = Inr r" by (rule Version_mput [OF r(1) rm])
  obtain o2 where "walk_down re steps key e r o1 False = Inr (o2, False)"
    using down ve r(2) by (auto simp: migrate_def split: sum.splits)
  then have "\<exists>y. lookup re steps j key = Inr y" if "r < j" "j \<le> e" for j
    using walk_down_lookups that by blast
  then have "\<exists>x. walk_up re steps key (r + 1) e view False = Inr x"
    by (intro walk_up_total) simp
  then obtain u0 l where up: "walk_up re steps key (r + 1) e view False = Inr (u0, l)" by fastforce
  have "agree_result (walk_up re steps key (r + 1) e ?w False) (Inr (u0, l))"
    using agree_walk_up [of ?w view re steps key "r + 1" e False] ag up
    by (metis agree_mput_v agree_sym agree_trans)
  then obtain u1 where w: "walk_up re steps key (r + 1) e ?w False = Inr (u1, l)" "agree u1 u0"
    using agree_result_Inr by blast
  have m1: "migrate re steps key view e = Inr (mput ''v'' (num e) u0, l)"
    using vv up r(2) by (simp add: migrate_def)
  have m2: "migrate re steps key ?w e = Inr (mput ''v'' (num e) u1, l)"
    using vw w(1) r(2) by (simp add: migrate_def)
  have "wf_any (GMap view)" by (rule migrate_wf [OF down steps o1 r(1) rm])
  then have "wf_any (GMap (mput ''v'' (num e) u0))" by (rule migrate_wf [OF m1 steps _ e])
  moreover have "wf_any (GMap (mput ''v'' (num e) u1))"
    by (rule migrate_wf [OF m2 steps wf_any_mput [OF ed wf_num [OF r(1) rm]] e])
  ultimately show ?thesis using m1 m2 agree_mput [OF agree_sym [OF w(2)]] by blast
qed

lemma stamp_equal:
  assumes wf: "wf_any (GMap m)" and ver: "Version m = Inr e" and has: "map_of m ''v'' = Some x"
  shows "gequal (GMap (mput ''v'' (num e) m)) (GMap m)"
proof -
  have iv: "intVal x = Some e" using ver has by (auto simp: Version_def split: option.splits if_splits)
  then have "toRat x = Some (of_int e)" by (auto simp: intVal_def split: option.splits if_splits)
  moreover have "intVal (num e) = Some e" using Version_range [OF ver] by (simp add: intVal_num)
  then have "toRat (num e) = Some (of_int e)" by (auto simp: intVal_def split: option.splits if_splits)
  moreover have "is_number (num e)" by (simp add: num_def is_number_def)
  ultimately have g: "gequal (num e) x" by (simp add: gequal_number num_equal_iff)
  have d: "distinct (map fst m)" using wf by (simp add: wf_any_GMap)
  have "rel_option gequal (((map_of m)(''v'' \<mapsto> num e)) k) (map_of m k)" for k
  proof (cases "k = ''v''")
    case True
    with has g show ?thesis by simp
  next
    case False
    have "map_of m k = Some y \<Longrightarrow> gequal y y" for y
      using wf by (blast intro: gequal_refl wf_any_member)
    with False show ?thesis by (cases "map_of m k") (simp_all del: map_of_eq_Some_iff)
  qed
  then show ?thesis using d by (subst gequal_GMap_iff) (simp_all add: distinct_update)
qed

lemma gequal_agree_mdel:
  assumes "agree a b" and "wf_any (GMap a)" and "wf_any (GMap b)"
  shows "gequal (GMap (mdel ''v'' a)) (GMap (mdel ''v'' b))"
proof -
  have "rel_option gequal (((map_of a)(''v'' := None)) k) (((map_of b)(''v'' := None)) k)" for k
  proof (cases "k = ''v''")
    case False
    then have "map_of a k = map_of b k" using assms(1) by (simp add: agree_def)
    moreover have "map_of b k = Some y \<Longrightarrow> gequal y y" for y
      using assms(3) by (blast intro: gequal_refl wf_any_member)
    ultimately show ?thesis using False by (cases "map_of b k") (simp_all del: map_of_eq_Some_iff)
  qed simp
  then show ?thesis using assms
    by (subst gequal_GMap_iff) (simp_all add: wf_any_GMap distinct_delete)
qed

lemma checkArg_range: "checkArg name r = None \<longleftrightarrow> 1 \<le> r \<and> r \<le> maxSafe"
  by (auto simp: checkArg_def)

lemma write_back_same:
  assumes r: "1 \<le> r" "r \<le> maxSafe" and steps: "wf_any steps" and o1: "wf_any (GMap o1)"
    and view: "migrate re steps key o1 r = Inr (view, False)"
    and ag: "agree view edited" and ed: "wf_any (GMap edited)"
  shows "WriteBack re steps key (GMap o1) r edited = Inr (GMap o1, False)"
proof -
  obtain e where ve: "Version o1 = Inr e" using view by (auto simp: migrate_def split: sum.splits)
  have chk: "checkArg ''reader'' r = None" using r by (simp add: checkArg_range)
  have wv: "wf_any (GMap view)" by (rule migrate_wf [OF view steps o1 r])
  have same: "gequal (GMap o1) (GMap o1)" by (rule gequal_refl [OF o1])
  consider "e < r" | "e = r" | "r < e" by linarith
  then show ?thesis
  proof cases
    case 1
    then show ?thesis
      using chk view ve gequal_agree_mdel [OF ag wv ed] by (simp add: WriteBack_def)
  next
    case 2
    have "diffApply o1 view (mput ''v'' (num r) edited) [] = o1"
      using ag wv wf_any_mput [OF ed wf_num [OF r]]
      by (intro diffApply_agree) (simp_all add: agree_def)
    then show ?thesis
      using 2 chk view ve same stamp_equal [OF o1 ve]
      by (auto simp: WriteBack_def Let_def simp del: map_of_eq_Some_iff)
  next
    case 3
    obtain u l u2 l2 where m: "migrate re steps key view e = Inr (u, l)"
        "migrate re steps key (mput ''v'' (num r) edited) e = Inr (u2, l2)"
        "agree u u2" "wf_any (GMap u)" "wf_any (GMap u2)"
      using migrate_back [OF steps o1 ve view r(1) 3 ag ed] by blast
    then have "diffApply o1 u u2 [] = o1" by (intro diffApply_agree)
    then show ?thesis
      using 3 chk view ve m same stamp_equal [OF o1 ve]
      by (auto simp: WriteBack_def Let_def simp del: map_of_eq_Some_iff)
  qed
qed





subsection \<open>The state of a component\<close>

text \<open>The states in order, the worst one last.\<close>

instantiation lens_state :: linorder
begin

fun state_rank :: "lens_state \<Rightarrow> nat" where
  "state_rank StateFull = 0"
| "state_rank StateReadOnly = 1"
| "state_rank StateNeedsUpdate = 2"

definition less_eq_lens_state :: "lens_state \<Rightarrow> lens_state \<Rightarrow> bool" where
  "less_eq_lens_state a b \<longleftrightarrow> state_rank a \<le> state_rank b"

definition less_lens_state :: "lens_state \<Rightarrow> lens_state \<Rightarrow> bool" where
  "less_lens_state a b \<longleftrightarrow> state_rank a < state_rank b"

instance
proof
  fix a b c :: lens_state
  show "a < b \<longleftrightarrow> a \<le> b \<and> \<not> b \<le> a" by (auto simp: less_eq_lens_state_def less_lens_state_def)
  show "a \<le> a" by (simp add: less_eq_lens_state_def)
  show "a \<le> b \<Longrightarrow> b \<le> c \<Longrightarrow> a \<le> c" by (simp add: less_eq_lens_state_def)
  show "a \<le> b \<Longrightarrow> b \<le> a \<Longrightarrow> a = b" by (cases a; cases b) (auto simp: less_eq_lens_state_def)
  show "a \<le> b \<or> b \<le> a" by (auto simp: less_eq_lens_state_def)
qed

end

text \<open>The state of one entry by the rules of the schema documentation.\<close>

definition entry_state :: "regexps \<Rightarrow> gany \<Rightarrow> int \<Rightarrow> string \<times> gany \<Rightarrow> lens_state" where
  "entry_state re steps reader en =
     (case as_map (snd en) of
        None \<Rightarrow> StateFull
      | Some m \<Rightarrow>
          (case Version m of
             Inl _ \<Rightarrow> StateFull
           | Inr _ \<Rightarrow>
               (case migrate re steps (fst en) m reader of
                  Inl _ \<Rightarrow> StateNeedsUpdate
                | Inr (_, lossy) \<Rightarrow> if lossy then StateReadOnly else StateFull)))"

lemma state_bounds [simp]: "StateFull \<le> s" "s \<le> StateNeedsUpdate"
  by (cases s; simp add: less_eq_lens_state_def)+

lemma max_states [simp]:
  "max s StateFull = s" "max StateFull s = s" "max StateNeedsUpdate s = StateNeedsUpdate"
  "max s StateNeedsUpdate = StateNeedsUpdate"
  by (simp_all add: max_absorb1 max_absorb2)

lemma state_loop_max:
  "state \<noteq> StateNeedsUpdate \<Longrightarrow> state_loop re steps reader entries state =
     Max (insert state (entry_state re steps reader ` set entries))"
proof (induction entries arbitrary: state)
  case (Cons en entries)
  obtain key v where en: "en = (key, v)" by (cases en)
  have Max_nu: "Max (insert state (insert StateNeedsUpdate A)) = StateNeedsUpdate" if "finite A" for A
    using that by (intro Max_eqI) auto
  have ins: "Max (insert state (insert x A)) = Max (insert (max state x) A)" if "finite A" for x and A
    using that by (cases "A = {}") (simp_all add: max.assoc)
  have mx: "max state StateReadOnly = StateReadOnly"
    using Cons.prems by (cases state) (simp_all add: max_def less_eq_lens_state_def)
  have full: "entry_state re steps reader en = StateFull \<Longrightarrow>
      Max (insert state (insert (entry_state re steps reader en) A)) = Max (insert state A)"
    if "finite A" for A
    using ins [OF that] by simp
  show ?case
  proof (cases "\<exists>m x. as_map v = Some m \<and> Version m = Inr x")
    case False
    then have "entry_state re steps reader en = StateFull"
      and "state_loop re steps reader (en # entries) state = state_loop re steps reader entries state"
      using en by (auto simp: entry_state_def split: option.splits sum.splits)
    then show ?thesis using Cons full by simp
  next
    case True
    then obtain m x where m: "as_map v = Some m" "Version m = Inr x" by blast
    show ?thesis
    proof (cases "migrate re steps key m reader")
      case (Inl er)
      with m en have "entry_state re steps reader en = StateNeedsUpdate" by (simp add: entry_state_def)
      moreover have "Max (insert state (insert StateNeedsUpdate
          (entry_state re steps reader ` set entries))) = StateNeedsUpdate"
        by (rule Max_nu) simp
      ultimately show ?thesis
        using m en Inl by (simp del: max_states Max_insert Max.insert)
    next
      case (Inr res)
      obtain out lossy where res: "res = (out, lossy)" by (cases res)
      with m en Inr have es: "entry_state re steps reader en = (if lossy then StateReadOnly else StateFull)"
        by (simp add: entry_state_def)
      have st: "state_loop re steps reader (en # entries) state =
          state_loop re steps reader entries (if lossy then StateReadOnly else state)"
        using m en Inr res by simp
      have "Max (insert state (entry_state re steps reader ` set (en # entries))) =
          Max (insert (max state (entry_state re steps reader en)) (entry_state re steps reader ` set entries))"
        by (simp only: list.set image_insert) (rule ins, simp)
      moreover have "max state (entry_state re steps reader en) = (if lossy then StateReadOnly else state)"
        using es mx by simp
      moreover have "(if lossy then StateReadOnly else state) \<noteq> StateNeedsUpdate"
        using Cons.prems by simp
      ultimately show ?thesis
        using Cons.IH [of "if lossy then StateReadOnly else state"] st
        by (simp only: not_False_eq_True simp_thms)
    qed
  qed
qed simp

text \<open>
  The state of a component is the worst state of its entries, in whatever order they are
  visited: entries that are not objects or whose version is malformed do not count, an entry whose
  migration fails makes the component \<open>needs-update\<close>, and a lossy one makes it \<open>read-only\<close>.
\<close>
theorem component_state_worst:
  assumes "1 \<le> reader" and "reader \<le> maxSafe"
  shows "ComponentState re steps reader entries =
     Inr (Max (insert StateFull (entry_state re steps reader ` set entries)))"
  using assms by (simp add: ComponentState_def checkArg_range [THEN iffD2] state_loop_max)

theorem component_state_worst_witness:
  "ComponentState demo_re demo_steps 2 [(''item_1'', GMap [(''v'', GNum ''3'')])] =
     Inr (Max (insert StateFull (entry_state demo_re demo_steps 2 ` set [(''item_1'', GMap [(''v'', GNum ''3'')])])))"
  by (rule component_state_worst) (simp_all add: maxSafe_def)

end
