(* ===== verification/Database.thy ===== *)
theory Database
  imports Json
begin

section \<open>The tables, the records and the errors of the database\<close>

text \<open>
  The state of the space: the tables of \<open>files/migrations\<close> that the application, event and reminder
  packages read and write, one list of rows per table, and the structs of
  \<open>internal/application/application.go\<close> and \<open>internal/event/event.go\<close> that are built from them.
  A statement either acts on the tables or fails; \<open>fault\<close> in the environment says where the
  database itself fails (a lost connection, a timeout, a full disk), so every theorem holds for
  every pattern of such failures. The failures that the schema causes (a broken foreign key, a
  role outside its \<open>CHECK\<close>, a duplicate key, a number that does not fit its column) are computed.
\<close>

named_theorems result_simps "how a result of a sequence of calls decomposes"

subsection \<open>Sequencing of fallible calls\<close>

definition rbind :: "'a result \<Rightarrow> ('a \<Rightarrow> 'b result) \<Rightarrow> 'b result" where
  "rbind r f = (case r of Inl e \<Rightarrow> Inl e | Inr x \<Rightarrow> f x)"

definition rguard :: "bool \<Rightarrow> goerr \<Rightarrow> 'a result \<Rightarrow> 'a result" where
  "rguard ok e r = (if ok then r else Inl e)"

definition map_err :: "(goerr \<Rightarrow> goerr) \<Rightarrow> 'a result \<Rightarrow> 'a result" where
  "map_err f r = (case r of Inl e \<Rightarrow> Inl (f e) | Inr x \<Rightarrow> Inr x)"

lemma rbind_simps [simp]: "rbind (Inl e) f = Inl e" "rbind (Inr x) f = f x"
  by (simp_all add: rbind_def)

lemma map_err_simps [simp]: "map_err f (Inl e) = Inl (f e)" "map_err f (Inr x) = Inr x"
  by (simp_all add: map_err_def)

lemma rbind_Inr [result_simps]: "rbind r f = Inr y \<longleftrightarrow> (\<exists>x. r = Inr x \<and> f x = Inr y)"
  by (cases r) auto

lemma rbind_Inl [result_simps]:
  "rbind r f = Inl e \<longleftrightarrow> r = Inl e \<or> (\<exists>x. r = Inr x \<and> f x = Inl e)"
  by (cases r) auto

lemma rguard_Inr [result_simps]: "rguard b e r = Inr y \<longleftrightarrow> b \<and> r = Inr y"
  by (simp add: rguard_def)

lemma rguard_Inl [result_simps]: "rguard b e r = Inl e' \<longleftrightarrow> (\<not> b \<and> e' = e) \<or> (b \<and> r = Inl e')"
  by (auto simp: rguard_def)

lemma map_err_Inr [result_simps]: "map_err f r = Inr y \<longleftrightarrow> r = Inr y"
  by (cases r) auto

lemma map_err_Inl [result_simps]: "map_err f r = Inl e \<longleftrightarrow> (\<exists>e0. r = Inl e0 \<and> e = f e0)"
  by (cases r) auto

text \<open>A loop whose body may return early with an error.\<close>

fun fold_res :: "('x \<Rightarrow> 's \<Rightarrow> 's result) \<Rightarrow> 'x list \<Rightarrow> 's \<Rightarrow> 's result" where
  "fold_res f [] s = Inr s"
| "fold_res f (x # xs) s = rbind (f x s) (fold_res f xs)"

lemma fold_res_invariant:
  "fold_res f xs s = Inr t \<Longrightarrow> P s \<Longrightarrow>
    (\<And>x a b. x \<in> set xs \<Longrightarrow> f x a = Inr b \<Longrightarrow> P a \<Longrightarrow> P b) \<Longrightarrow> P t"
proof (induction xs arbitrary: s)
  case (Cons x xs)
  then obtain a where "f x s = Inr a" "fold_res f xs a = Inr t" by (auto simp: result_simps)
  with Cons show ?case by (meson list.set_intros)
qed simp

subsection \<open>Roles and event types\<close>

type_synonym member_role = string

abbreviation MemberRoleOwner :: member_role where "MemberRoleOwner \<equiv> ''owner''"
abbreviation MemberRoleAdmin :: member_role where "MemberRoleAdmin \<equiv> ''admin''"
abbreviation MemberRoleMember :: member_role where "MemberRoleMember \<equiv> ''member''"
abbreviation MemberRoleViewer :: member_role where "MemberRoleViewer \<equiv> ''viewer''"

definition IsGrantable :: "member_role \<Rightarrow> bool" where
  "IsGrantable r \<longleftrightarrow> r = MemberRoleAdmin \<or> r = MemberRoleMember \<or> r = MemberRoleViewer"

lemma not_grantable_owner [simp]: "\<not> IsGrantable ''owner''"
  by (simp add: IsGrantable_def)

text \<open>\<open>EventType\<close> is an open enumeration: a string that is none of the constants is \<open>EventTypeOther\<close>.\<close>

datatype event_type =
    EventTypeMemberAdded | EventTypeMemberRemoved | EventTypeMemberRoleChanged
  | EventTypeApplicationDataChanged | EventTypeApplicationDeleted | EventTypeApplicationMoved
  | EventTypeInviteRevoked | EventTypeComponentDataChanged | EventTypeApplicationAfterEditModeChanged
  | EventTypeUserSettingsChanged | EventTypeMemberDetailsChanged | EventTypeApplicationCreated
  | EventTypeApplicationFileCreated | EventTypeApplicationFileDeleted | EventTypeReminderChanged
  | EventTypeReminderFired | EventTypeTemplateChanged | EventTypeSpaceProfileChanged
  | EventTypeOther string

definition event_types :: "(string \<times> event_type) list" where
  "event_types =
    [(''member_added'', EventTypeMemberAdded), (''member_removed'', EventTypeMemberRemoved),
     (''member_role_changed'', EventTypeMemberRoleChanged),
     (''application_data_changed'', EventTypeApplicationDataChanged),
     (''application_deleted'', EventTypeApplicationDeleted),
     (''application_moved'', EventTypeApplicationMoved), (''invite_revoked'', EventTypeInviteRevoked),
     (''component_data_changed'', EventTypeComponentDataChanged),
     (''application_after_edit_mode_changed'', EventTypeApplicationAfterEditModeChanged),
     (''user_settings_changed'', EventTypeUserSettingsChanged),
     (''member_details_changed'', EventTypeMemberDetailsChanged),
     (''application_created'', EventTypeApplicationCreated),
     (''application_file_created'', EventTypeApplicationFileCreated),
     (''application_file_deleted'', EventTypeApplicationFileDeleted),
     (''reminder_changed'', EventTypeReminderChanged), (''reminder_fired'', EventTypeReminderFired),
     (''template_changed'', EventTypeTemplateChanged),
     (''space_profile_changed'', EventTypeSpaceProfileChanged)]"

text \<open>The conversion \<open>EventType(s)\<close>.\<close>

definition EventType :: "string \<Rightarrow> event_type" where
  "EventType s = (case map_of event_types s of Some t \<Rightarrow> t | None \<Rightarrow> EventTypeOther s)"

definition IsUserScoped :: "event_type \<Rightarrow> bool" where
  "IsUserScoped t \<longleftrightarrow> t = EventTypeUserSettingsChanged \<or> t = EventTypeApplicationCreated
     \<or> t = EventTypeTemplateChanged"

subsection \<open>Structs\<close>

record component =
  c_id :: string
  c_group_id :: string
  c_application_id :: string
  c_name :: string
  c_data :: "gmap option"      \<comment> \<open>\<open>None\<close> is a nil map, stored as the empty text\<close>
  c_index :: int

record component_group =
  g_id :: string
  g_application_id :: string
  g_name :: string
  g_index :: int
  g_components :: "component list"   \<comment> \<open>empty in the table's rows\<close>

record member =
  mb_id :: string
  mb_application_id :: string
  mb_role :: member_role
  mb_public_key :: string
  mb_display_name :: "string option"
  mb_avatar :: "string option"
  mb_expires_at :: "int option"

record application =
  ap_id :: string
  ap_name :: string
  ap_icon :: "string option"
  ap_space_public_key :: "string option"
  ap_space_id :: "string option"
  ap_created_at :: int
  ap_updated_at :: int
  ap_groups :: "component_group list"
  ap_members :: "member list"
  ap_last_sequence :: "int option"
  ap_agent_read_enabled :: bool

record user =
  u_public_key :: string
  u_username :: string
  u_role :: string
  u_space_id :: string
  u_agent :: bool

record event =
  ev_id :: string
  ev_created_at :: int
  ev_application_id :: string
  ev_sequence :: int
  ev_type :: event_type
  ev_creator :: string
  ev_version :: int
  ev_data :: "gmap option"
  ev_space_id :: string

subsection \<open>Rows\<close>

record app_row =
  ar_id :: string
  ar_name :: string
  ar_icon :: "string option"
  ar_space_public_key :: "string option"
  ar_space_id :: "string option"
  ar_created_at :: int
  ar_updated_at :: int
  ar_deleted_at :: "int option"
  ar_last_sequence :: "int option"
  ar_agent_read_enabled :: bool
  ar_moved_to_url :: "string option"
  ar_move_invite_token :: "string option"
  ar_moved_at :: "int option"

record member_row =
  m_id :: string
  m_application_id :: string
  m_role :: member_role
  m_public_key :: string
  m_expires_at :: "int option"

text \<open>A row of \<open>events\<close> is its ordinal and the event; an empty \<open>ev_application_id\<close> is \<open>NULL\<close>.\<close>

type_synonym event_row = "int \<times> event"

record reminder_row =
  r_rule_id :: string
  r_offset_index :: int
  r_application_id :: string
  r_component_id :: string
  r_target_key :: string
  r_title :: string
  r_tz :: string
  r_rrule :: "string option"
  r_offset_spec :: string
  r_anchor_at :: int
  r_due_at :: int
  r_fire_at :: int
  r_recipients :: "string list"
  r_state :: string
  r_rev :: int

record user_row =
  us_public_key :: string
  us_username :: string
  us_role :: string
  us_created_at :: int
  us_avatar :: "string option"
  us_binding :: "string option"
  us_binding_iat :: int
  us_binding_sub :: string
  us_locale :: string
  us_notify_mode :: string
  us_timezone :: string
  us_seen_at :: int
  us_digest_sent_at :: int
  us_verifier :: "string option"
  us_handle :: "string option"
  us_account_key :: "string option"
  us_state :: "string option"

record space_row =
  spr_id :: string
  spr_name :: string
  spr_user :: "string option"
  spr_created_at :: int
  spr_updated_at :: int

record device_row =
  dv_public_key :: string
  dv_user :: string
  dv_name :: "string option"
  dv_created_at :: int
  dv_last_seen_at :: "int option"
  dv_revoked_at :: "int option"
  dv_kind :: string

record agent_token_row =
  at_device :: string
  at_hash :: string
  at_prev_hash :: "string option"
  at_expires_at :: int

record invitation_row =
  iv_id :: string
  iv_application_id :: string
  iv_created_by :: string
  iv_role :: member_role
  iv_max_uses :: "int option"
  iv_used_count :: int
  iv_created_at :: int
  iv_space_id :: "string option"
  iv_grants_membership :: bool
  iv_grants_identity :: bool
  iv_grants_space_use :: bool
  iv_duration_hours :: "int option"
  iv_expires_at :: "int option"
  iv_member_keys :: "string list"

record invitation_use_row =
  iu_id :: string
  iu_invitation_id :: string
  iu_user :: string
  iu_used_at :: int

record subscription_row =
  ps_id :: string
  ps_device :: string
  ps_endpoint :: string
  ps_p256dh :: string
  ps_auth :: string
  ps_label :: "string option"
  ps_muted :: "string list"
  ps_transport :: string
  ps_created_at :: int
  ps_last_success_at :: "int option"
  ps_failure_count :: int

record digest_row =
  dg_subscription :: string
  dg_application :: string
  dg_count :: int
  dg_last_at :: int

record storage_row =
  sg_id :: string
  sg_application_id :: "string option"
  sg_uploader :: string
  sg_filename :: string
  sg_content_type :: string
  sg_size :: int
  sg_path :: string
  sg_thumbnail :: "string option"
  sg_width :: "int option"
  sg_height :: "int option"
  sg_duration_ms :: "int option"
  sg_checksum :: string
  sg_created_at :: int
  sg_status :: string
  sg_space_id :: "string option"
  sg_last_referenced_at :: "int option"

record chunk_row =
  ck_storage_id :: string
  ck_index :: int
  ck_size :: int
  ck_checksum :: string
  ck_uploaded_at :: int

record profile_row =
  pf_name :: string
  pf_avatar :: "string option"
  pf_updated_at :: int

record bundle_row =
  sb_bundle :: int
  sb_container :: string
  sb_updated_at :: int

record vapid_row =
  vk_public :: string
  vk_private :: string
  vk_created_at :: int
  vk_updated_at :: int

text \<open>The last three tables hold at most one row, of the id 1.\<close>

record db =
  t_apps :: "app_row list"
  t_groups :: "component_group list"
  t_comps :: "component list"
  t_members :: "member_row list"
  t_events :: "event_row list"
  next_ordinal :: int
  t_reminders :: "reminder_row list"
  t_invitations :: "invitation_row list"
  t_invitation_uses :: "invitation_use_row list"
  t_users :: "user_row list"
  t_spaces :: "space_row list"
  t_devices :: "device_row list"
  t_agent_tokens :: "agent_token_row list"
  t_owner_claim :: "(string \<times> int) list"   \<comment> \<open>the row \<open>main\<close>: the owner's key and the time\<close>
  t_subscriptions :: "subscription_row list"
  t_digest_pending :: "digest_row list"
  t_storage :: "storage_row list"
  t_chunks :: "chunk_row list"
  t_profile :: "profile_row option"
  t_bundle :: "bundle_row option"
  t_vapid :: "vapid_row option"

definition empty_db :: db where
  "empty_db = \<lparr>t_apps = [], t_groups = [], t_comps = [], t_members = [], t_events = [], next_ordinal = 1,
     t_reminders = [], t_invitations = [], t_invitation_uses = [], t_users = [], t_spaces = [], t_devices = [],
     t_agent_tokens = [], t_owner_claim = [], t_subscriptions = [], t_digest_pending = [],
     t_storage = [], t_chunks = [], t_profile = None, t_bundle = None, t_vapid = None\<rparr>"

lemma empty_db_sel [simp]:
  "t_apps empty_db = []" "t_groups empty_db = []" "t_comps empty_db = []" "t_members empty_db = []"
  "t_events empty_db = []" "t_reminders empty_db = []" "t_invitations empty_db = []"
  "t_invitation_uses empty_db = []" "t_users empty_db = []" "t_spaces empty_db = []"
  "t_devices empty_db = []" "t_agent_tokens empty_db = []" "t_owner_claim empty_db = []"
  "t_subscriptions empty_db = []" "t_digest_pending empty_db = []"
  "t_storage empty_db = []" "t_chunks empty_db = []"
  "t_profile empty_db = None" "t_bundle empty_db = None" "t_vapid empty_db = None"
  "next_ordinal empty_db = 1"
  by (simp_all add: empty_db_def)

text \<open>The row that the columns' defaults give to a new account.\<close>

definition new_user_row :: "string \<Rightarrow> string \<Rightarrow> string \<Rightarrow> int \<Rightarrow> user_row" where
  "new_user_row key username role createdAt =
     \<lparr>us_public_key = key, us_username = username, us_role = role, us_created_at = createdAt, us_avatar = None,
      us_binding = None, us_binding_iat = 0, us_binding_sub = [], us_locale = [], us_notify_mode = ''all'',
      us_timezone = [], us_seen_at = 0, us_digest_sent_at = 0, us_verifier = None, us_handle = None,
      us_account_key = None, us_state = None\<rparr>"

text \<open>How the driver fails: the errors \<open>isTransient\<close> knows, a PostgreSQL error, or any other.\<close>

datatype sentinel_driver = BadConn | ConnDone | Eof | UnexpectedEof | Net | Canceled | DeadlineExceeded

datatype driver_error = Driver sentinel_driver | DriverPq string string | DriverOther

fun driver_err :: "driver_error \<Rightarrow> goerr" where
  "driver_err (Driver BadConn) = GoErr [ErrBadConn] ''driver''"
| "driver_err (Driver ConnDone) = GoErr [ErrConnDone] ''driver''"
| "driver_err (Driver Eof) = GoErr [ErrEOF] ''driver''"
| "driver_err (Driver UnexpectedEof) = GoErr [ErrUnexpectedEOF] ''driver''"
| "driver_err (Driver Net) = GoErr [NetError] ''driver''"
| "driver_err (Driver Canceled) = GoErr [ErrCanceled] ''driver''"
| "driver_err (Driver DeadlineExceeded) = GoErr [ErrDeadlineExceeded] ''driver''"
| "driver_err (DriverPq code constraint) = GoErr [PqError code constraint] ''pq''"
| "driver_err DriverOther = GoErr [] ''driver''"

definition app_sentinel :: "sentinel \<Rightarrow> bool" where
  "app_sentinel s \<longleftrightarrow> s \<in> {ErrNotFound, ErrUnappliable, ErrValidation, ErrUnauthorized, ErrStaleEvent,
     ErrCursorNotFound, ErrApplicationMoving, ErrApplicationNotMoving, ErrNotApplicationOwner}"

lemma driver_err_app [simp]: "app_sentinel s \<Longrightarrow> \<not> errors_is (driver_err x) s"
  by (cases x rule: driver_err.cases) (auto simp: errors_is_def app_sentinel_def)

lemma app_sentinels [simp]:
  "app_sentinel ErrNotFound" "app_sentinel ErrUnappliable" "app_sentinel ErrValidation"
  "app_sentinel ErrUnauthorized" "app_sentinel ErrStaleEvent" "app_sentinel ErrCursorNotFound"
  "app_sentinel ErrApplicationMoving" "app_sentinel ErrApplicationNotMoving"
  "app_sentinel ErrNotApplicationOwner"
  by (simp_all add: app_sentinel_def)

record env =
  now :: int                                \<comment> \<open>\<open>time.Now().Unix()\<close> and the database's \<open>NOW()\<close>\<close>
  fresh_uuid :: string                      \<comment> \<open>\<open>uuid.New()\<close>\<close>
  fault :: "string \<Rightarrow> db \<Rightarrow> driver_error option"  \<comment> \<open>the database failing in a statement of a function\<close>
  loads_tz :: "string \<Rightarrow> bool"              \<comment> \<open>\<open>time.LoadLocation\<close> knows the name\<close>
  json_length :: "gmap \<Rightarrow> int"             \<comment> \<open>the length of \<open>json.Marshal\<close>'s output\<close>
  float_int64 :: "rat \<Rightarrow> int option"      \<comment> \<open>the text of an integral \<open>float64\<close> above \<open>2^53\<close>, read as \<open>int64\<close>\<close>
  parse_url :: "string \<Rightarrow> (string \<times> string) option"  \<comment> \<open>\<open>url.Parse\<close>: the scheme and the host\<close>

text \<open>Run a statement of the named function, which the database may fail.\<close>

definition stmt :: "env \<Rightarrow> string \<Rightarrow> db \<Rightarrow> 'a result \<Rightarrow> 'a result" where
  "stmt env site d r = (case fault env site d of Some x \<Rightarrow> Inl (driver_err x) | None \<Rightarrow> r)"

lemma stmt_Inr [result_simps]: "stmt env site d r = Inr y \<longleftrightarrow> fault env site d = None \<and> r = Inr y"
  by (simp add: stmt_def split: option.split)

lemma stmt_Inl [result_simps]:
  "stmt env site d r = Inl e \<longleftrightarrow>
     (\<exists>x. fault env site d = Some x \<and> e = driver_err x) \<or> (fault env site d = None \<and> r = Inl e)"
  by (auto simp: stmt_def split: option.split)

definition reliable :: "env \<Rightarrow> bool" where
  "reliable env \<longleftrightarrow> (\<forall>site d. fault env site d = None)"

lemma reliable_stmt [simp]: "reliable env \<Longrightarrow> stmt env site d r = r"
  by (simp add: reliable_def stmt_def)

subsection \<open>Statements\<close>

text \<open>\<open>application_id = $1\<close> on an event: \<open>NULL\<close> equals nothing.\<close>

definition of_app :: "string \<Rightarrow> event \<Rightarrow> bool" where
  "of_app appID e \<longleftrightarrow> ev_application_id e \<noteq> [] \<and> ev_application_id e = appID"

definition update_where :: "('r \<Rightarrow> bool) \<Rightarrow> ('r \<Rightarrow> 'r) \<Rightarrow> 'r list \<Rightarrow> 'r list" where
  "update_where p f = map (\<lambda>r. if p r then f r else r)"

lemma in_update_where: "r \<in> set (update_where p f rs) \<longleftrightarrow>
    (r \<in> set rs \<and> \<not> p r) \<or> (\<exists>r0. r0 \<in> set rs \<and> p r0 \<and> r = f r0)"
  by (auto simp: update_where_def)

lemma map_update_where: "(\<And>r. p r \<Longrightarrow> h (f r) = h r) \<Longrightarrow> map h (update_where p f rs) = map h rs"
  by (simp add: update_where_def)

lemma find_update_where:
  "(\<And>r. q (f r) = q r) \<Longrightarrow> find q (update_where p f rs) = map_option (\<lambda>r. if p r then f r else r) (find q rs)"
  by (induction rs) (auto simp: update_where_def)

lemma find_in_set: "find p xs = Some x \<Longrightarrow> x \<in> set xs \<and> p x"
  by (metis find_Some_iff nth_mem)

lemma find_append: "find p (xs @ ys) = (case find p xs of None \<Rightarrow> find p ys | Some x \<Rightarrow> Some x)"
  by (induction xs) simp_all

lemma filter_update_where:
  assumes "\<And>x. x \<in> set xs \<Longrightarrow> p x \<Longrightarrow> \<not> q x \<and> \<not> q (f x)"
  shows "filter q (update_where p f xs) = filter q xs"
  using assms by (induction xs) (auto simp: update_where_def)

text \<open>\<open>INSERT ... ON CONFLICT DO UPDATE\<close>: update the rows in conflict, or append the new row.\<close>

definition upsert :: "('r \<Rightarrow> bool) \<Rightarrow> ('r \<Rightarrow> 'r) \<Rightarrow> 'r \<Rightarrow> 'r list \<Rightarrow> 'r list" where
  "upsert conflict f row rs = (if list_ex conflict rs then update_where conflict f rs else rs @ [row])"

text \<open>The \<open>INTEGER\<close> columns are 32 bits wide.\<close>

definition fits_int4 :: "int \<Rightarrow> bool" where
  "fits_int4 n \<longleftrightarrow> - (2 ^ 31) \<le> n \<and> n < 2 ^ 31"

definition pq_error :: "string \<Rightarrow> string \<Rightarrow> goerr" where
  "pq_error code constraint = GoErr [PqError code constraint] ''pq''"

abbreviation out_of_range :: goerr where
  "out_of_range \<equiv> pq_error ''22003'' []"

abbreviation fk_violation :: "string \<Rightarrow> goerr" where
  "fk_violation c \<equiv> pq_error ''23503'' c"

abbreviation check_violation :: "string \<Rightarrow> goerr" where
  "check_violation c \<equiv> pq_error ''23514'' c"

abbreviation unique_violation :: "string \<Rightarrow> goerr" where
  "unique_violation c \<equiv> pq_error ''23505'' c"

text \<open>\<open>errors.As\<close> with a \<open>*pq.Error\<close>: the code and the constraint of the first one.\<close>

definition pq_of :: "goerr \<Rightarrow> (string \<times> string) option" where
  "pq_of e = (case filter (\<lambda>s. case s of PqError _ _ \<Rightarrow> True | _ \<Rightarrow> False) (err_chain e) of
     PqError code constraint # _ \<Rightarrow> Some (code, constraint) | _ \<Rightarrow> None)"

definition unique_constraint :: "goerr \<Rightarrow> string option" where
  "unique_constraint e = (case pq_of e of Some (code, c) \<Rightarrow> if code = ''23505'' then Some c else None | None \<Rightarrow> None)"

lemma pq_of_pq_error [simp]: "pq_of (pq_error code c) = Some (code, c)"
  by (simp add: pq_of_def pq_error_def)

text \<open>The \<open>ON DELETE CASCADE\<close> references, from the bottom up.\<close>

definition drop_comps :: "(component \<Rightarrow> bool) \<Rightarrow> db \<Rightarrow> db" where
  "drop_comps p d =
     (let gone = c_id ` set (filter p (t_comps d))
      in d\<lparr>t_comps := filter (\<lambda>c. \<not> p c) (t_comps d),
           t_reminders := filter (\<lambda>r. r_component_id r \<notin> gone) (t_reminders d)\<rparr>)"

definition drop_groups :: "(component_group \<Rightarrow> bool) \<Rightarrow> db \<Rightarrow> db" where
  "drop_groups p d =
     (let gone = g_id ` set (filter p (t_groups d))
      in drop_comps (\<lambda>c. c_group_id c \<in> gone) (d\<lparr>t_groups := filter (\<lambda>g. \<not> p g) (t_groups d)\<rparr>))"

definition drop_invitations :: "(invitation_row \<Rightarrow> bool) \<Rightarrow> db \<Rightarrow> db" where
  "drop_invitations p d =
     (let gone = iv_id ` set (filter p (t_invitations d))
      in d\<lparr>t_invitations := filter (\<lambda>i. \<not> p i) (t_invitations d),
           t_invitation_uses := filter (\<lambda>u. iu_invitation_id u \<notin> gone) (t_invitation_uses d)\<rparr>)"

definition drop_apps :: "(app_row \<Rightarrow> bool) \<Rightarrow> db \<Rightarrow> db" where
  "drop_apps p d =
     (let gone = ar_id ` set (filter p (t_apps d))
      in drop_comps (\<lambda>c. c_application_id c \<in> gone)
           (drop_groups (\<lambda>g. g_application_id g \<in> gone)
             (drop_invitations (\<lambda>i. iv_application_id i \<in> gone)
               (d\<lparr>t_apps := filter (\<lambda>a. \<not> p a) (t_apps d),
                  t_members := filter (\<lambda>m. m_application_id m \<notin> gone) (t_members d),
                  t_events := filter (\<lambda>e. \<not> list_ex (\<lambda>a. p a \<and> of_app (ar_id a) (snd e)) (t_apps d)) (t_events d)\<rparr>))))"

lemma drop_comps_frame [simp]:
  "t_apps (drop_comps p d) = t_apps d" "t_groups (drop_comps p d) = t_groups d"
  "t_members (drop_comps p d) = t_members d" "t_events (drop_comps p d) = t_events d"
  "next_ordinal (drop_comps p d) = next_ordinal d" "t_spaces (drop_comps p d) = t_spaces d"
  "t_invitations (drop_comps p d) = t_invitations d" "t_users (drop_comps p d) = t_users d"
  "t_comps (drop_comps p d) = filter (\<lambda>c. \<not> p c) (t_comps d)"
  by (simp_all add: drop_comps_def Let_def)

lemma drop_invitations_frame [simp]:
  "t_apps (drop_invitations p d) = t_apps d" "t_groups (drop_invitations p d) = t_groups d"
  "t_comps (drop_invitations p d) = t_comps d" "t_reminders (drop_invitations p d) = t_reminders d"
  "t_members (drop_invitations p d) = t_members d" "t_events (drop_invitations p d) = t_events d"
  "next_ordinal (drop_invitations p d) = next_ordinal d" "t_spaces (drop_invitations p d) = t_spaces d"
  "t_users (drop_invitations p d) = t_users d"
  "t_invitations (drop_invitations p d) = filter (\<lambda>i. \<not> p i) (t_invitations d)"
  by (simp_all add: drop_invitations_def Let_def)

lemma drop_groups_frame [simp]:
  "t_apps (drop_groups p d) = t_apps d" "t_groups (drop_groups p d) = filter (\<lambda>g. \<not> p g) (t_groups d)"
  "t_members (drop_groups p d) = t_members d" "t_events (drop_groups p d) = t_events d"
  "next_ordinal (drop_groups p d) = next_ordinal d" "t_spaces (drop_groups p d) = t_spaces d"
  "t_invitations (drop_groups p d) = t_invitations d" "t_users (drop_groups p d) = t_users d"
  by (simp_all add: drop_groups_def Let_def)

text \<open>
  What a column keeps of a JSON document: \<open>json.Marshal\<close> followed by \<open>json.Unmarshal\<close> into an
  \<open>interface{}\<close> turns every number into a \<open>float64\<close> and every slice into a \<open>[]interface{}\<close>.
\<close>

fun json_norm :: "gany \<Rightarrow> gany" where
  "json_norm (GInt n) = GFloat (f64 (of_int n))"
| "json_norm (GInt64 n) = GFloat (f64 (of_int n))"
| "json_norm (GNum s) = (case rat_of_string s of Some q \<Rightarrow> GFloat (f64 q) | None \<Rightarrow> GNil)"
| "json_norm (GStrs ss) = GList (map GStr ss)"
| "json_norm (GList xs) = GList (map json_norm xs)"
| "json_norm (GMap m) = GMap (map (\<lambda>(k, v). (k, json_norm v)) m)"
| "json_norm v = v"

definition json_rt :: "gmap \<Rightarrow> gmap" where
  "json_rt m = map (\<lambda>(k, v). (k, json_norm v)) m"

lemma json_norm_idem [simp]: "json_norm (json_norm v) = json_norm v"
  by (induction v) (auto simp: o_def split: option.splits)

lemma json_rt_idem [simp]: "json_rt (json_rt m) = json_rt m"
  by (simp add: json_rt_def o_def split_def)

lemma map_of_json_rt: "map_of (json_rt m) k = map_option json_norm (map_of m k)"
  by (simp add: json_rt_def map_of_map)

lemma fst_json_rt [simp]: "map fst (json_rt m) = map fst m"
  by (simp add: json_rt_def o_def split_def)

lemma json_norm_Str [simp]: "json_norm v = GStr s \<longleftrightarrow> v = GStr s"
  by (cases v) (auto split: option.splits)

end
