(* ===== verification/AppRepo.thy ===== *)
theory AppRepo
  imports Database
begin

section \<open>The application repository\<close>

text \<open>
  \<open>internal/application/repository.go\<close>, one definition per method, in the order of the file. A
  query reads the tables, an update returns the tables changed, and both fail where the database
  or the schema makes the statement fail. Rows that the schema makes unique are found by \<open>find\<close>.
\<close>

abbreviation not_found :: "string \<Rightarrow> goerr" where
  "not_found what \<equiv> errw ErrNotFound (what @ '' not found'')"

text \<open>\<open>activeMemberPredicate\<close>: a deadline in the past ends the membership.\<close>

definition activeMember :: "env \<Rightarrow> member_row \<Rightarrow> bool" where
  "activeMember env m = (case m_expires_at m of None \<Rightarrow> True | Some t \<Rightarrow> t > now env)"

definition live :: "app_row \<Rightarrow> bool" where
  "live a \<longleftrightarrow> ar_deleted_at a = None"

definition app_ids :: "db \<Rightarrow> string list" where
  "app_ids d = map ar_id (t_apps d)"

text \<open>An \<open>UPDATE\<close> by id that must affect a row.\<close>

definition affected :: "bool \<Rightarrow> string \<Rightarrow> 'a \<Rightarrow> 'a result" where
  "affected hit msg x = rguard hit (errorf msg) (Inr x)"

lemma affected_Inr [result_simps]: "affected hit msg x = Inr y \<longleftrightarrow> hit \<and> x = y"
  by (auto simp: affected_def rguard_def)

subsection \<open>Applications\<close>

definition upsertApplication :: "env \<Rightarrow> application \<Rightarrow> db \<Rightarrow> db result" where
  "upsertApplication env app d =
     stmt env ''upsertApplication'' d
       (rguard (case ap_space_id app of None \<Rightarrow> True | Some sp \<Rightarrow> sp \<in> spr_id ` set (t_spaces d))
         (fk_violation ''applications_space_id_fkey'')
         (Inr (d\<lparr>t_apps :=
            upsert (\<lambda>a. ar_id a = ap_id app)
              (\<lambda>a. a\<lparr>ar_name := ap_name app, ar_icon := ap_icon app, ar_space_id := ap_space_id app,
                    ar_updated_at := ap_updated_at app, ar_deleted_at := None,
                    ar_moved_to_url := None, ar_move_invite_token := None, ar_moved_at := None\<rparr>)
              \<lparr>ar_id = ap_id app, ar_name = ap_name app, ar_icon = ap_icon app,
               ar_space_public_key = ap_space_public_key app, ar_space_id = ap_space_id app,
               ar_created_at = ap_created_at app, ar_updated_at = ap_updated_at app,
               ar_deleted_at = None, ar_last_sequence = None, ar_agent_read_enabled = True,
               ar_moved_to_url = None, ar_move_invite_token = None, ar_moved_at = None\<rparr>
              (t_apps d)\<rparr>)))"

definition GetComponentGroupsByApplicationID :: "env \<Rightarrow> string \<Rightarrow> db \<Rightarrow> component_group list result" where
  "GetComponentGroupsByApplicationID env appID d =
     stmt env ''GetComponentGroupsByApplicationID'' d
       (Inr (sort_key g_index (filter (\<lambda>g. g_application_id g = appID) (t_groups d))))"

definition GetComponentsByGroupID :: "env \<Rightarrow> string \<Rightarrow> db \<Rightarrow> component list result" where
  "GetComponentsByGroupID env groupID d =
     stmt env ''GetComponentsByGroupID'' d
       (Inr (sort_key c_index (filter (\<lambda>c. c_group_id c = groupID) (t_comps d))))"

text \<open>\<open>ORDER BY m.role\<close> over the four roles the schema admits.\<close>

definition role_rank :: "member_role \<Rightarrow> nat" where
  "role_rank r = (if r = MemberRoleAdmin then 0 else if r = MemberRoleMember then 1
     else if r = MemberRoleOwner then 2 else 3)"

text \<open>A row joined with the user of its key.\<close>

definition member_of_row :: "db \<Rightarrow> member_row \<Rightarrow> member" where
  "member_of_row d m =
     (let u = find (\<lambda>u. us_public_key u = m_public_key m) (t_users d)
      in \<lparr>mb_id = m_id m, mb_application_id = m_application_id m, mb_role = m_role m,
          mb_public_key = m_public_key m, mb_display_name = map_option us_username u,
          mb_avatar = Option.bind u us_avatar, mb_expires_at = m_expires_at m\<rparr>)"

definition GetMembersByApplicationID :: "env \<Rightarrow> string \<Rightarrow> db \<Rightarrow> member list result" where
  "GetMembersByApplicationID env appID d =
     stmt env ''GetMembersByApplicationID'' d
       (Inr (map (member_of_row d) (sort_key (role_rank \<circ> m_role)
          (filter (\<lambda>m. m_application_id m = appID \<and> activeMember env m) (t_members d)))))"

fun load_groups :: "env \<Rightarrow> component_group list \<Rightarrow> db \<Rightarrow> component_group list result" where
  "load_groups env [] d = Inr []"
| "load_groups env (g # gs) d =
     rbind (GetComponentsByGroupID env (g_id g) d) (\<lambda>cs.
     rbind (load_groups env gs d) (\<lambda>gs'. Inr (g\<lparr>g_components := cs\<rparr> # gs')))"

text \<open>What both readers of whole applications do after they scanned the row.\<close>

definition load_application :: "env \<Rightarrow> app_row \<Rightarrow> db \<Rightarrow> application result" where
  "load_application env a d =
     rbind (GetComponentGroupsByApplicationID env (ar_id a) d) (\<lambda>gs.
     rbind (load_groups env gs d) (\<lambda>groups.
     rbind (GetMembersByApplicationID env (ar_id a) d) (\<lambda>members.
     Inr \<lparr>ap_id = ar_id a, ap_name = ar_name a, ap_icon = ar_icon a,
          ap_space_public_key = ar_space_public_key a, ap_space_id = ar_space_id a,
          ap_created_at = ar_created_at a, ap_updated_at = ar_updated_at a, ap_groups = groups,
          ap_members = members, ap_last_sequence = ar_last_sequence a,
          ap_agent_read_enabled = ar_agent_read_enabled a\<rparr>)))"

definition GetApplicationByID :: "env \<Rightarrow> string \<Rightarrow> db \<Rightarrow> application result" where
  "GetApplicationByID env appID d =
     stmt env ''GetApplicationByID'' d
       (case find (\<lambda>a. ar_id a = appID \<and> live a) (t_apps d) of
          None \<Rightarrow> Inl (not_found ''application'')
        | Some a \<Rightarrow> load_application env a d)"

text \<open>This query does not look at \<open>deleted_at\<close>.\<close>

record application_state =
  st_id :: string
  st_name :: string
  st_updated_at :: int

definition repoGetApplicationState :: "env \<Rightarrow> string \<Rightarrow> db \<Rightarrow> application_state result" where
  "repoGetApplicationState env appID d =
     stmt env ''GetApplicationState'' d
       (case find (\<lambda>a. ar_id a = appID) (t_apps d) of
          None \<Rightarrow> Inl (errorf ''application not found'')
        | Some a \<Rightarrow> Inr \<lparr>st_id = ar_id a, st_name = ar_name a, st_updated_at = ar_updated_at a\<rparr>)"

definition update_apps :: "env \<Rightarrow> string \<Rightarrow> (app_row \<Rightarrow> bool) \<Rightarrow> (app_row \<Rightarrow> app_row) \<Rightarrow> goerr \<Rightarrow> db \<Rightarrow> db result" where
  "update_apps env site p f e d =
     stmt env site d (rguard (list_ex p (t_apps d)) e (Inr (d\<lparr>t_apps := update_where p f (t_apps d)\<rparr>)))"

definition UpdateLastSequence :: "env \<Rightarrow> string \<Rightarrow> int \<Rightarrow> db \<Rightarrow> db result" where
  "UpdateLastSequence env appID sequence d =
     update_apps env ''UpdateLastSequence'' (\<lambda>a. ar_id a = appID \<and> live a)
       (\<lambda>a. a\<lparr>ar_last_sequence := Some (max (case ar_last_sequence a of None \<Rightarrow> 0 | Some n \<Rightarrow> n) sequence),
             ar_updated_at := now env\<rparr>)
       (errorf ''application not found or deleted'') d"

definition SetAgentReadEnabled :: "env \<Rightarrow> string \<Rightarrow> bool \<Rightarrow> db \<Rightarrow> db result" where
  "SetAgentReadEnabled env appID enabled d =
     update_apps env ''SetAgentReadEnabled'' (\<lambda>a. ar_id a = appID \<and> live a)
       (\<lambda>a. a\<lparr>ar_agent_read_enabled := enabled, ar_updated_at := now env\<rparr>) (not_found ''application'') d"

definition UpdateApplicationTimestamp :: "env \<Rightarrow> string \<Rightarrow> db \<Rightarrow> db result" where
  "UpdateApplicationTimestamp env appID d =
     stmt env ''UpdateApplicationTimestamp'' d
       (Inr (d\<lparr>t_apps := update_where (\<lambda>a. ar_id a = appID) (\<lambda>a. a\<lparr>ar_updated_at := now env\<rparr>) (t_apps d)\<rparr>))"

definition UpdateApplicationMetadata :: "env \<Rightarrow> string \<Rightarrow> string \<Rightarrow> string option \<Rightarrow> db \<Rightarrow> db result" where
  "UpdateApplicationMetadata env appID name icon d =
     update_apps env ''UpdateApplicationMetadata'' (\<lambda>a. ar_id a = appID \<and> live a)
       (\<lambda>a. a\<lparr>ar_name := name, ar_icon := icon, ar_updated_at := now env\<rparr>)
       (errorf ''application not found'') d"

text \<open>A soft delete; it also moves the deletion time of an application that is deleted already.\<close>

definition repoDeleteApplication :: "env \<Rightarrow> string \<Rightarrow> db \<Rightarrow> db result" where
  "repoDeleteApplication env appID d =
     update_apps env ''DeleteApplication'' (\<lambda>a. ar_id a = appID)
       (\<lambda>a. a\<lparr>ar_deleted_at := Some (now env)\<rparr>) (errorf ''application not found'') d"

definition purgeable :: "int \<Rightarrow> app_row \<Rightarrow> bool" where
  "purgeable cutoff a = (case ar_deleted_at a of None \<Rightarrow> False | Some t \<Rightarrow> t < cutoff)"

definition deleted_time :: "app_row \<Rightarrow> int" where
  "deleted_time a = (case ar_deleted_at a of None \<Rightarrow> 0 | Some t \<Rightarrow> t)"

definition GetPurgeableApplicationIDs :: "env \<Rightarrow> int \<Rightarrow> nat \<Rightarrow> db \<Rightarrow> string list result" where
  "GetPurgeableApplicationIDs env cutoff limit d =
     stmt env ''GetPurgeableApplicationIDs'' d
       (Inr (map ar_id (take limit (sort_key deleted_time (filter (purgeable cutoff) (t_apps d))))))"

definition PurgeApplication :: "env \<Rightarrow> string \<Rightarrow> int \<Rightarrow> db \<Rightarrow> db result" where
  "PurgeApplication env appID cutoff d =
     stmt env ''PurgeApplication'' d (Inr (drop_apps (\<lambda>a. ar_id a = appID \<and> purgeable cutoff a) d))"

subsection \<open>Component groups and components\<close>

definition CreateComponentGroup :: "env \<Rightarrow> component_group \<Rightarrow> db \<Rightarrow> db result" where
  "CreateComponentGroup env g d =
     stmt env ''upsertComponentGroup'' d
       (rguard (fits_int4 (g_index g)) out_of_range
       (rguard (list_ex (\<lambda>r. g_id r = g_id g) (t_groups d) \<or> g_application_id g \<in> set (app_ids d))
         (fk_violation ''component_groups_application_id_fkey'')
         (Inr (d\<lparr>t_groups := upsert (\<lambda>r. g_id r = g_id g)
            (\<lambda>r. r\<lparr>g_name := g_name g, g_index := g_index g\<rparr>) (g\<lparr>g_components := []\<rparr>) (t_groups d)\<rparr>))))"

definition group_ids :: "db \<Rightarrow> string list" where
  "group_ids d = map g_id (t_groups d)"

text \<open>A nil map is stored as the empty text and read back as a nil map.\<close>

definition CreateComponent :: "env \<Rightarrow> component \<Rightarrow> db \<Rightarrow> db result" where
  "CreateComponent env c d =
     (let row = c\<lparr>c_data := map_option json_rt (c_data c)\<rparr>;
          taken = list_ex (\<lambda>r. c_id r = c_id c) (t_comps d)
      in stmt env ''upsertComponent'' d
       (rguard (fits_int4 (c_index c)) out_of_range
       (rguard (c_group_id c \<in> set (group_ids d)) (fk_violation ''components_component_group_id_fkey'')
       (rguard (taken \<or> c_application_id c \<in> set (app_ids d))
         (fk_violation ''components_application_id_fkey'')
         (Inr (d\<lparr>t_comps := upsert (\<lambda>r. c_id r = c_id c)
            (\<lambda>r. r\<lparr>c_group_id := c_group_id row, c_name := c_name row, c_data := c_data row,
                  c_index := c_index row\<rparr>) row (t_comps d)\<rparr>))))))"

definition GetComponentsByApplicationID :: "env \<Rightarrow> string \<Rightarrow> db \<Rightarrow> component list result" where
  "GetComponentsByApplicationID env appID d =
     stmt env ''GetComponentsByApplicationID'' d
       (Inr (sort_key c_index (filter (\<lambda>c. c_application_id c = appID) (t_comps d))))"

definition GetComponentByID :: "env \<Rightarrow> string \<Rightarrow> db \<Rightarrow> component result" where
  "GetComponentByID env componentID d =
     stmt env ''GetComponentByID'' d
       (case find (\<lambda>c. c_id c = componentID) (t_comps d) of
          None \<Rightarrow> Inl (not_found ''component'') | Some c \<Rightarrow> Inr c)"

definition update_comps :: "env \<Rightarrow> string \<Rightarrow> string \<Rightarrow> (component \<Rightarrow> component) \<Rightarrow> db \<Rightarrow> db result" where
  "update_comps env site componentID f d =
     stmt env site d (affected (list_ex (\<lambda>c. c_id c = componentID) (t_comps d)) ''component not found''
       (d\<lparr>t_comps := update_where (\<lambda>c. c_id c = componentID) f (t_comps d)\<rparr>))"

definition UpdateComponentData :: "env \<Rightarrow> string \<Rightarrow> gmap option \<Rightarrow> db \<Rightarrow> db result" where
  "UpdateComponentData env componentID data d =
     update_comps env ''UpdateComponentData'' componentID
       (\<lambda>c. c\<lparr>c_data := map_option json_rt data\<rparr>) d"

definition UpdateComponentIndex :: "env \<Rightarrow> string \<Rightarrow> int \<Rightarrow> db \<Rightarrow> db result" where
  "UpdateComponentIndex env componentID index d =
     rguard (fits_int4 index) out_of_range
       (update_comps env ''UpdateComponentIndex'' componentID (\<lambda>c. c\<lparr>c_index := index\<rparr>) d)"

definition DeleteComponent :: "env \<Rightarrow> string \<Rightarrow> db \<Rightarrow> db result" where
  "DeleteComponent env componentID d =
     stmt env ''DeleteComponent'' d
       (affected (list_ex (\<lambda>c. c_id c = componentID) (t_comps d)) ''component not found''
         (drop_comps (\<lambda>c. c_id c = componentID) d))"

definition GetComponentGroupByID :: "env \<Rightarrow> string \<Rightarrow> db \<Rightarrow> component_group result" where
  "GetComponentGroupByID env groupID d =
     stmt env ''GetComponentGroupByID'' d
       (case find (\<lambda>g. g_id g = groupID) (t_groups d) of
          None \<Rightarrow> Inl (not_found ''component group'') | Some g \<Rightarrow> Inr g)"

definition update_groups :: "env \<Rightarrow> string \<Rightarrow> string \<Rightarrow> (component_group \<Rightarrow> component_group) \<Rightarrow> db \<Rightarrow> db result" where
  "update_groups env site groupID f d =
     stmt env site d (affected (list_ex (\<lambda>g. g_id g = groupID) (t_groups d)) ''component group not found''
       (d\<lparr>t_groups := update_where (\<lambda>g. g_id g = groupID) f (t_groups d)\<rparr>))"

definition UpdateComponentGroupIndex :: "env \<Rightarrow> string \<Rightarrow> int \<Rightarrow> db \<Rightarrow> db result" where
  "UpdateComponentGroupIndex env groupID index d =
     rguard (fits_int4 index) out_of_range
       (update_groups env ''UpdateComponentGroupIndex'' groupID (\<lambda>g. g\<lparr>g_index := index\<rparr>) d)"

definition UpdateComponentGroup :: "env \<Rightarrow> string \<Rightarrow> string \<Rightarrow> int \<Rightarrow> db \<Rightarrow> db result" where
  "UpdateComponentGroup env groupID name index d =
     rguard (fits_int4 index) out_of_range
       (update_groups env ''UpdateComponentGroup'' groupID (\<lambda>g. g\<lparr>g_name := name, g_index := index\<rparr>) d)"

definition DeleteComponentGroup :: "env \<Rightarrow> string \<Rightarrow> db \<Rightarrow> db result" where
  "DeleteComponentGroup env groupID d =
     stmt env ''DeleteComponentGroup'' d
       (affected (list_ex (\<lambda>g. g_id g = groupID) (t_groups d)) ''component group not found''
         (drop_groups (\<lambda>g. g_id g = groupID) d))"

subsection \<open>Members\<close>

definition valid_role :: "member_role \<Rightarrow> bool" where
  "valid_role r \<longleftrightarrow> r = MemberRoleOwner \<or> IsGrantable r"

definition same_member :: "string \<Rightarrow> string \<Rightarrow> member_row \<Rightarrow> bool" where
  "same_member appID key m \<longleftrightarrow> m_application_id m = appID \<and> m_public_key m = key"

text \<open>The conflict target is the application and the key, so a second join keeps the row's id.\<close>

definition CreateMember :: "env \<Rightarrow> member \<Rightarrow> db \<Rightarrow> db result" where
  "CreateMember env mb d =
     (let joined = same_member (mb_application_id mb) (mb_public_key mb)
      in stmt env ''upsertMember'' d
       (rguard (valid_role (mb_role mb)) (check_violation ''members_role_check'')
       (rguard (list_ex joined (t_members d) \<or> mb_id mb \<notin> set (map m_id (t_members d)))
         (unique_violation ''members_pkey'')
       (rguard (list_ex joined (t_members d) \<or> mb_application_id mb \<in> set (app_ids d))
         (fk_violation ''members_application_id_fkey'')
         (Inr (d\<lparr>t_members := upsert joined
            (\<lambda>m. m\<lparr>m_role := mb_role mb, m_expires_at := mb_expires_at mb\<rparr>)
            \<lparr>m_id = mb_id mb, m_application_id = mb_application_id mb, m_role = mb_role mb,
             m_public_key = mb_public_key mb, m_expires_at = mb_expires_at mb\<rparr> (t_members d)\<rparr>))))))"

definition GetMemberByID :: "env \<Rightarrow> string \<Rightarrow> db \<Rightarrow> member_row result" where
  "GetMemberByID env memberID d =
     stmt env ''GetMemberByID'' d
       (case find (\<lambda>m. m_id m = memberID) (t_members d) of
          None \<Rightarrow> Inl (errorf ''member not found'') | Some m \<Rightarrow> Inr m)"

definition UpdateMemberRole :: "env \<Rightarrow> string \<Rightarrow> member_role \<Rightarrow> db \<Rightarrow> db result" where
  "UpdateMemberRole env memberID role d =
     (let hit = list_ex (\<lambda>m. m_id m = memberID) (t_members d)
      in stmt env ''UpdateMemberRole'' d
       (rguard (hit \<longrightarrow> valid_role role) (check_violation ''members_role_check'')
       (affected hit ''member not found''
         (d\<lparr>t_members := update_where (\<lambda>m. m_id m = memberID) (\<lambda>m. m\<lparr>m_role := role\<rparr>) (t_members d)\<rparr>))))"

definition DeleteMember :: "env \<Rightarrow> string \<Rightarrow> db \<Rightarrow> db result" where
  "DeleteMember env memberID d =
     stmt env ''DeleteMember'' d
       (affected (list_ex (\<lambda>m. m_id m = memberID) (t_members d)) ''member not found''
         (d\<lparr>t_members := filter (\<lambda>m. m_id m \<noteq> memberID) (t_members d)\<rparr>))"

definition GetMemberByPublicKey :: "env \<Rightarrow> string \<Rightarrow> string \<Rightarrow> db \<Rightarrow> member_row result" where
  "GetMemberByPublicKey env appID key d =
     stmt env ''GetMemberByPublicKey'' d
       (case find (\<lambda>m. same_member appID key m \<and> activeMember env m) (t_members d) of
          None \<Rightarrow> Inl (not_found ''member'') | Some m \<Rightarrow> Inr m)"

text \<open>\<open>COUNT(DISTINCT a.id)\<close>; the primary key makes the ids distinct.\<close>

definition CountOwnedApplications :: "env \<Rightarrow> string \<Rightarrow> db \<Rightarrow> int result" where
  "CountOwnedApplications env key d =
     stmt env ''CountOwnedApplications'' d
       (Inr (int (length (filter (\<lambda>a. live a \<and> list_ex (\<lambda>m. same_member (ar_id a) key m
            \<and> m_role m = MemberRoleOwner \<and> activeMember env m) (t_members d)) (t_apps d)))))"

definition HasOtherOwner :: "env \<Rightarrow> string \<Rightarrow> string \<Rightarrow> db \<Rightarrow> bool result" where
  "HasOtherOwner env appID key d =
     stmt env ''HasOtherOwner'' d
       (Inr (list_ex (\<lambda>m. m_application_id m = appID \<and> m_role m = MemberRoleOwner
          \<and> m_public_key m \<noteq> key) (t_members d)))"

subsection \<open>Registration\<close>

text \<open>The loops of \<open>RegisterApplication\<close>; a failure rolls the whole transaction back.\<close>

definition register_member :: "env \<Rightarrow> string \<Rightarrow> member \<Rightarrow> db \<Rightarrow> db result" where
  "register_member env appID mb d =
     map_err (wrapf ''failed to create member'') (CreateMember env (mb\<lparr>mb_application_id := appID\<rparr>) d)"

definition register_component :: "env \<Rightarrow> string \<Rightarrow> string \<Rightarrow> component \<Rightarrow> db \<Rightarrow> db result" where
  "register_component env appID groupID c d =
     map_err (wrapf ''failed to create component'')
       (CreateComponent env (c\<lparr>c_group_id := groupID, c_application_id := appID\<rparr>) d)"

definition register_group :: "env \<Rightarrow> string \<Rightarrow> component_group \<Rightarrow> db \<Rightarrow> db result" where
  "register_group env appID g d =
     rbind (map_err (wrapf ''failed to create component group'')
        (CreateComponentGroup env (g\<lparr>g_application_id := appID\<rparr>) d)) (\<lambda>d1.
     fold_res (register_component env appID (g_id g)) (g_components g) d1)"

definition repoRegisterApplication :: "env \<Rightarrow> application \<Rightarrow> db \<Rightarrow> db result" where
  "repoRegisterApplication env app d =
     stmt env ''RegisterApplication.Begin'' d
      (rbind (map_err (wrapf ''failed to create application'') (upsertApplication env app d)) (\<lambda>d1.
       rbind (fold_res (register_member env (ap_id app)) (ap_members app) d1) (\<lambda>d2.
       rbind (fold_res (register_group env (ap_id app)) (ap_groups app) d2) (\<lambda>d3.
       stmt env ''RegisterApplication.Commit'' d3 (Inr d3)))))"

definition IsApplicationLive :: "env \<Rightarrow> string \<Rightarrow> db \<Rightarrow> bool result" where
  "IsApplicationLive env appID d =
     stmt env ''IsApplicationLive'' d (Inr (list_ex (\<lambda>a. ar_id a = appID \<and> live a) (t_apps d)))"

subsection \<open>Reading by member\<close>

definition member_apps :: "env \<Rightarrow> string \<Rightarrow> db \<Rightarrow> app_row list" where
  "member_apps env key d = filter (\<lambda>a. live a \<and>
     list_ex (\<lambda>m. same_member (ar_id a) key m \<and> activeMember env m) (t_members d)) (t_apps d)"

fun load_applications :: "env \<Rightarrow> app_row list \<Rightarrow> db \<Rightarrow> application list result" where
  "load_applications env [] d = Inr []"
| "load_applications env (a # as) d =
     rbind (load_application env a d) (\<lambda>app.
     rbind (load_applications env as d) (\<lambda>apps. Inr (app # apps)))"

definition GetApplicationsByMemberPublicKey :: "env \<Rightarrow> string \<Rightarrow> db \<Rightarrow> application list result" where
  "GetApplicationsByMemberPublicKey env key d =
     stmt env ''GetApplicationsByMemberPublicKey'' d
       (load_applications env (sort_key (\<lambda>a. - ar_created_at a) (member_apps env key d)) d)"

definition GetAppVersionsByMemberPublicKey :: "env \<Rightarrow> string \<Rightarrow> db \<Rightarrow> (string \<times> int option) list result" where
  "GetAppVersionsByMemberPublicKey env key d =
     stmt env ''GetAppVersionsByMemberPublicKey'' d
       (Inr (map (\<lambda>a. (ar_id a, ar_last_sequence a)) (member_apps env key d)))"

definition IsMember :: "env \<Rightarrow> string \<Rightarrow> string \<Rightarrow> db \<Rightarrow> bool result" where
  "IsMember env appID key d =
     stmt env ''IsMember'' d
       (Inr (0 < length (filter (\<lambda>m. same_member appID key m \<and> activeMember env m) (t_members d))))"

definition GetMemberCount :: "env \<Rightarrow> string \<Rightarrow> db \<Rightarrow> int result" where
  "GetMemberCount env appID d =
     stmt env ''GetMemberCount'' d
       (Inr (int (length (filter (\<lambda>m. m_application_id m = appID \<and> activeMember env m) (t_members d)))))"

subsection \<open>Moving an application to another space\<close>

definition or_empty :: "string option \<Rightarrow> string" where
  "or_empty s = (case s of None \<Rightarrow> [] | Some t \<Rightarrow> t)"

text \<open>\<open>None\<close>: the caller may go on.\<close>

definition MoveGuard :: "env \<Rightarrow> string \<Rightarrow> string \<Rightarrow> bool \<Rightarrow> db \<Rightarrow> goerr option" where
  "MoveGuard env appID key write d =
     (case fault env ''MoveGuard'' d of
        Some x \<Rightarrow> Some (wrapf ''failed to check move state'' (driver_err x))
      | None \<Rightarrow>
          (case find (\<lambda>a. ar_id a = appID) (t_apps d) of
             None \<Rightarrow> None
           | Some a \<Rightarrow>
               (if ar_moved_at a \<noteq> None
                then if list_ex (\<lambda>m. same_member appID key m \<and> activeMember env m) (t_members d)
                     then Some (errw (MovedError (or_empty (ar_moved_to_url a))
                                  (or_empty (ar_move_invite_token a))) ''application moved'')
                     else None
                else if ar_moved_to_url a \<noteq> None \<and> write
                then Some (errw ErrApplicationMoving ''application is moving'')
                else None)))"

definition move_startable :: "string \<Rightarrow> app_row \<Rightarrow> bool" where
  "move_startable appID a \<longleftrightarrow> ar_id a = appID \<and> live a \<and> ar_moved_at a = None"

definition repoStartMove :: "env \<Rightarrow> string \<Rightarrow> string \<Rightarrow> db \<Rightarrow> (int \<times> db) result" where
  "repoStartMove env appID url d =
     stmt env ''StartMove'' d
       (Inr (int (length (filter (move_startable appID) (t_apps d))),
             d\<lparr>t_apps := update_where (move_startable appID) (\<lambda>a. a\<lparr>ar_moved_to_url := Some url\<rparr>) (t_apps d)\<rparr>))"

definition repoAbortMove :: "env \<Rightarrow> string \<Rightarrow> db \<Rightarrow> db result" where
  "repoAbortMove env appID d =
     stmt env ''AbortMove'' d
       (Inr (d\<lparr>t_apps := update_where (\<lambda>a. ar_id a = appID \<and> ar_moved_at a = None)
          (\<lambda>a. a\<lparr>ar_moved_to_url := None\<rparr>) (t_apps d)\<rparr>))"

definition moving :: "string \<Rightarrow> app_row \<Rightarrow> bool" where
  "moving appID a \<longleftrightarrow> ar_id a = appID \<and> ar_moved_to_url a \<noteq> None \<and> ar_moved_at a = None \<and> live a"

text \<open>The four tables cleared by the loop, each a statement of its own; reminders go with their components.\<close>

definition clear_tables :: "env \<Rightarrow> string \<Rightarrow> db \<Rightarrow> db result" where
  "clear_tables env appID d =
     rbind (stmt env ''CompleteMove.events'' d
        (Inr (d\<lparr>t_events := filter (\<lambda>e. \<not> of_app appID (snd e)) (t_events d)\<rparr>))) (\<lambda>d1.
     rbind (stmt env ''CompleteMove.components'' d1
        (Inr (drop_comps (\<lambda>c. c_application_id c = appID) d1))) (\<lambda>d2.
     rbind (stmt env ''CompleteMove.component_groups'' d2
        (Inr (drop_groups (\<lambda>g. g_application_id g = appID) d2))) (\<lambda>d3.
     stmt env ''CompleteMove.invitations'' d3
        (Inr (drop_invitations (\<lambda>i. iv_application_id i = appID) d3)))))"

definition repoCompleteMove :: "env \<Rightarrow> string \<Rightarrow> string \<Rightarrow> string \<Rightarrow> int \<Rightarrow> db \<Rightarrow> db result" where
  "repoCompleteMove env appID url token t d =
     stmt env ''CompleteMove.Begin'' d
      (rbind (update_apps env ''CompleteMove'' (moving appID)
         (\<lambda>a. a\<lparr>ar_moved_to_url := Some url, ar_move_invite_token := Some token,
               ar_moved_at := Some t, ar_deleted_at := Some t\<rparr>)
         (errw ErrApplicationNotMoving ''application is not moving'') d) (\<lambda>d1.
       rbind (map_err (wrapf ''failed to clear'') (clear_tables env appID d1)) (\<lambda>d2.
       stmt env ''CompleteMove.Commit'' d2 (Inr d2))))"

end
