(* ===== verification/AppService.thy ===== *)
theory AppService
  imports AppRepo
begin

section \<open>The application service\<close>

text \<open>
  \<open>internal/application/application.go\<close> (the methods of \<open>Application\<close>) and
  \<open>application_service.go\<close>. An operation returns the tables beside its result, since one that
  reads back what it wrote can fail after its transaction committed.
\<close>

definition GetOwner :: "application \<Rightarrow> member result" where
  "GetOwner a = (case find (\<lambda>m. mb_role m = MemberRoleOwner) (ap_members a) of
     Some m \<Rightarrow> Inr m | None \<Rightarrow> Inl (errorf ''no owner found in members''))"

definition GetOwnerPublicKey :: "application \<Rightarrow> string result" where
  "GetOwnerPublicKey a = rbind (GetOwner a) (\<lambda>m. Inr (mb_public_key m))"

definition AgentAllowed :: "application \<Rightarrow> user \<Rightarrow> bool" where
  "AgentAllowed a caller =
     (if \<not> u_agent caller \<or> ap_agent_read_enabled a then True
      else case GetOwner a of Inl _ \<Rightarrow> False | Inr o1 \<Rightarrow> mb_public_key o1 = u_public_key caller)"

definition is_moved :: "goerr \<Rightarrow> bool" where
  "is_moved e = list_ex (\<lambda>s. case s of MovedError _ _ \<Rightarrow> True | _ \<Rightarrow> False) (err_chain e)"

subsection \<open>Registration\<close>

fun check_groups :: "component_group list \<Rightarrow> goerr option" where
  "check_groups [] = None"
| "check_groups (g # gs) =
     (if g_id g = [] then Some (errorf ''component group ID cannot be empty'')
      else if list_ex (\<lambda>c. c_id c = []) (g_components g)
      then Some (errorf ''component ID cannot be empty'')
      else check_groups gs)"

text \<open>The owner is the last member with that role, which is the only one when the checks pass.\<close>

definition owners :: "application \<Rightarrow> member list" where
  "owners a = filter (\<lambda>m. mb_role m = MemberRoleOwner) (ap_members a)"

definition check_registration :: "user option \<Rightarrow> application \<Rightarrow> user result" where
  "check_registration caller app =
     (case caller of
        None \<Rightarrow> Inl (errorf ''caller public key is required'')
      | Some u \<Rightarrow>
          (if u_public_key u = [] then Inl (errorf ''caller public key is required'')
           else if ap_id app = [] then Inl (errorf ''application ID cannot be empty'')
           else if ap_name app = [] then Inl (errorf ''application name cannot be empty'')
           else if list_ex (\<lambda>m. mb_id m = []) (ap_members app)
           then Inl (errorf ''member ID cannot be empty'')
           else if owners app = []
           then Inl (errorf ''application must have at least one owner member'')
           else if 1 < length (owners app)
           then Inl (errorf ''application must have exactly one owner member'')
           else (case check_groups (ap_groups app) of
                   Some e \<Rightarrow> Inl e
                 | None \<Rightarrow>
                     (if mb_public_key (last (owners app)) \<noteq> u_public_key u
                      then Inl (errw ErrOwnerNotCaller ''application owner must be the caller'')
                      else Inr u))))"

text \<open>The limit on the applications of an account, which the owner of the space is exempt from.\<close>

definition check_limit :: "env \<Rightarrow> int \<Rightarrow> user \<Rightarrow> string \<Rightarrow> db \<Rightarrow> unit result" where
  "check_limit env maxApps u appID d =
     (if maxApps > 0 \<and> u_role u \<noteq> ''owner''
      then rbind (map_err (wrapf ''failed to check application existence'') (IsApplicationLive env appID d))
        (\<lambda>is_live. if is_live then Inr () else
           rbind (map_err (wrapf ''failed to count applications'')
             (CountOwnedApplications env (u_public_key u) d)) (\<lambda>count.
           if count \<ge> maxApps then Inl (errw ErrAppLimitReached ''app limit reached'') else Inr ()))
      else Inr ())"

definition check_moved :: "env \<Rightarrow> string \<Rightarrow> string \<Rightarrow> db \<Rightarrow> unit result" where
  "check_moved env appID key d =
     (case MoveGuard env appID key True d of
        None \<Rightarrow> Inr ()
      | Some e \<Rightarrow>
          (if errors_is e ErrApplicationMoving then Inl e
           else if \<not> is_moved e then Inl (wrapf ''failed to check move state'' e)
           else Inr ()))"

definition RegisterApplication ::
    "env \<Rightarrow> string \<Rightarrow> int \<Rightarrow> user option \<Rightarrow> application \<Rightarrow> db \<Rightarrow> db \<times> application result" where
  "RegisterApplication env spacePublicKey maxApps caller app d =
     (case rbind (check_registration caller app) (\<lambda>u.
           rbind (map_err (wrapf ''failed to check application owner'')
             (HasOtherOwner env (ap_id app) (u_public_key u) d)) (\<lambda>other.
           rguard (\<not> other) (errw ErrNotApplicationOwner ''not the application owner'')
          (rbind (check_limit env maxApps u (ap_id app) d) (\<lambda>_.
           rbind (check_moved env (ap_id app) (u_public_key u) d) (\<lambda>_.
           map_err (wrapf ''failed to register application'')
             (repoRegisterApplication env
               (app\<lparr>ap_space_public_key := Some spacePublicKey,
                    ap_space_id := (if u_space_id u \<noteq> [] then Some (u_space_id u) else ap_space_id app),
                    ap_created_at := now env, ap_updated_at := now env\<rparr>) d))))))
      of Inl e \<Rightarrow> (d, Inl e)
       | Inr d1 \<Rightarrow> (d1, GetApplicationByID env (ap_id app) d1))"

subsection \<open>Reading, listing and deleting\<close>

text \<open>Go on when the application has not moved away.\<close>

definition unmoved :: "env \<Rightarrow> string \<Rightarrow> string \<Rightarrow> bool \<Rightarrow> db \<Rightarrow> 'a result \<Rightarrow> 'a result" where
  "unmoved env appID key write d r =
     (case MoveGuard env appID key write d of Some e \<Rightarrow> Inl e | None \<Rightarrow> r)"

lemma unmoved_Inr [result_simps]:
  "unmoved env appID key write d r = Inr x \<longleftrightarrow> MoveGuard env appID key write d = None \<and> r = Inr x"
  by (simp add: unmoved_def split: option.split)

definition require_member :: "env \<Rightarrow> string \<Rightarrow> string \<Rightarrow> db \<Rightarrow> 'a result \<Rightarrow> 'a result" where
  "require_member env appID key d r =
     rbind (map_err (wrapf ''failed to check membership'') (IsMember env appID key d)) (\<lambda>yes.
       rguard yes (errw ErrNotMember ''unauthorized: not a member of this application'') r)"

definition GetApplication :: "env \<Rightarrow> string \<Rightarrow> user \<Rightarrow> db \<Rightarrow> application result" where
  "GetApplication env appID u d =
     unmoved env appID (u_public_key u) False d
       (rbind (GetApplicationByID env appID d) (\<lambda>app.
        require_member env appID (u_public_key u) d
         (rguard (AgentAllowed app u) (errw ErrAgentReadOff ''agent access is off for this application'')
           (Inr app))))"

definition GetApplicationState :: "env \<Rightarrow> string \<Rightarrow> user \<Rightarrow> db \<Rightarrow> application_state result" where
  "GetApplicationState env appID u d =
     unmoved env appID (u_public_key u) False d
       (rbind (repoGetApplicationState env appID d) (\<lambda>st.
        require_member env appID (u_public_key u) d (Inr st)))"

definition ListApplications :: "env \<Rightarrow> user \<Rightarrow> db \<Rightarrow> application list result" where
  "ListApplications env u d =
     rbind (GetApplicationsByMemberPublicKey env (u_public_key u) d) (\<lambda>apps.
       Inr (filter (\<lambda>a. AgentAllowed a u) apps))"

definition require_owner :: "env \<Rightarrow> string \<Rightarrow> user \<Rightarrow> goerr \<Rightarrow> db \<Rightarrow> 'a result \<Rightarrow> 'a result" where
  "require_owner env appID u e d r =
     unmoved env appID (u_public_key u) True d
       (rbind (GetApplicationByID env appID d) (\<lambda>app.
        rbind (map_err (wrapf ''failed to get owner'') (GetOwnerPublicKey app)) (\<lambda>owner.
        rguard (owner = u_public_key u) e r)))"

definition SetAgentRead :: "env \<Rightarrow> string \<Rightarrow> user \<Rightarrow> bool \<Rightarrow> db \<Rightarrow> db result" where
  "SetAgentRead env appID u enabled d =
     require_owner env appID u (errw ErrNotApplicationOwner ''not the application owner'') d
       (SetAgentReadEnabled env appID enabled d)"

definition DeleteApplication :: "env \<Rightarrow> string \<Rightarrow> user \<Rightarrow> db \<Rightarrow> db result" where
  "DeleteApplication env appID u d =
     require_owner env appID u (errorf ''unauthorized'') d
       (map_err (wrapf ''failed to delete application'') (repoDeleteApplication env appID d))"

definition LeaveApplication :: "env \<Rightarrow> string \<Rightarrow> user \<Rightarrow> db \<Rightarrow> unit result" where
  "LeaveApplication env appID u d =
     unmoved env appID (u_public_key u) False d
       (map_err (\<lambda>_. errorf ''not a member of this application'')
         (rbind (GetMemberByPublicKey env appID (u_public_key u) d) (\<lambda>_. Inr ())))"

end
