(* ===== verification/Reminder.thy ===== *)
theory Reminder
  imports AppRepo
begin

section \<open>Reminder rules\<close>

text \<open>
  \<open>internal/reminder/recurrence.go\<close> and \<open>repository.go\<close>: the offset specifications, when a reminder
  fires, and how a rule change replaces the rows of its rule. The recurrence rules of
  \<open>rrule-go\<close> are parameters: whether a rule string is accepted, the first occurrence strictly after
  an instant, and the occurrences in order.
\<close>

subsection \<open>Offset specifications\<close>

text \<open>An optional group \<open>(\d+c)?\<close> at the front of the text: the digits it matched, and the rest.\<close>

definition opt_part :: "char \<Rightarrow> string \<Rightarrow> string \<times> string" where
  "opt_part c s =
     (let ds = takeWhile is_digit s; r = dropWhile is_digit s
      in if ds \<noteq> [] \<and> r \<noteq> [] \<and> hd r = c then (ds, tl r) else ([], s))"

text \<open>The submatches of \<open>offsetPattern\<close>: sign, hours, minutes, seconds and days; \<open>None\<close>: no match.\<close>

definition strip_sign :: "string \<Rightarrow> bool \<times> string" where
  "strip_sign s = (case s of c # r \<Rightarrow> if c = CHR ''-'' then (True, r) else (False, s) | [] \<Rightarrow> (False, s))"

definition match_time :: "string \<Rightarrow> (string \<times> string \<times> string) option" where
  "match_time s =
     (let (h, s1) = opt_part (CHR ''H'') s; (m, s2) = opt_part (CHR ''M'') s1;
          (sec, s3) = opt_part (CHR ''S'') s2
      in if s3 = [] then Some (h, m, sec) else None)"

definition match_days :: "string \<Rightarrow> string option" where
  "match_days s = (case opt_part (CHR ''D'') s of (ds, r) \<Rightarrow> if ds \<noteq> [] \<and> r = [] then Some ds else None)"

definition offsetPattern :: "string \<Rightarrow> (bool \<times> string \<times> string \<times> string \<times> string) option" where
  "offsetPattern spec =
     (case strip_sign spec of (neg, s) \<Rightarrow>
        (case s of
           [] \<Rightarrow> None
         | p # s1 \<Rightarrow>
             (if p \<noteq> CHR ''P'' then None
              else if s1 \<noteq> [] \<and> hd s1 = CHR ''T''
              then map_option (\<lambda>(h, m, sec). (neg, h, m, sec, [])) (match_time (tl s1))
              else map_option (\<lambda>ds. (neg, [], [], [], ds)) (match_days s1))))"

text \<open>\<open>n, _ := strconv.Atoi(digits)\<close>: on overflow the value is the largest \<open>int64\<close>.\<close>

definition atoi_clamped :: "string \<Rightarrow> int" where
  "atoi_clamped ds = min (int (nat_of_digits ds)) (2 ^ 63 - 1)"

abbreviation Second :: int where "Second \<equiv> 1000000000"

text \<open>A \<open>time.Duration\<close> is an \<open>int64\<close> of nanoseconds whose arithmetic wraps.\<close>

definition ParseOffsetDuration :: "string \<Rightarrow> int option" where
  "ParseOffsetDuration spec =
     (case offsetPattern spec of
        None \<Rightarrow> None
      | Some (neg, h, m, sec, days) \<Rightarrow>
          (let d = (if days \<noteq> [] then Some (wrap64 (wrap64 (atoi_clamped days * 24) * (3600 * Second)))
                    else if h \<noteq> [] \<or> m \<noteq> [] \<or> sec \<noteq> []
                    then let d1 = (if h \<noteq> [] then wrap64 (atoi_clamped h * (3600 * Second)) else 0);
                             d2 = (if m \<noteq> [] then wrap64 (d1 + wrap64 (atoi_clamped m * (60 * Second))) else d1)
                         in Some (if sec \<noteq> [] then wrap64 (d2 + wrap64 (atoi_clamped sec * Second)) else d2)
                    else None)
           in map_option (\<lambda>d. if neg then wrap64 (- d) else d) d))"

text \<open>\<open>int64(d.Seconds())\<close>: whole seconds and the fraction are added as \<open>float64\<close>.\<close>

definition Seconds :: "int \<Rightarrow> rat" where
  "Seconds d = f64 (f64 (of_int (go_div d Second)) + f64 (f64 (of_int (go_rem d Second)) / 1000000000))"

definition FireAt :: "int \<Rightarrow> string \<Rightarrow> int option" where
  "FireAt occurrenceAt offsetSpec =
     map_option (\<lambda>d. wrap64 (occurrenceAt + int_of_float (Seconds d))) (ParseOffsetDuration offsetSpec)"

text \<open>The wire kind of a fired reminder: \<open>fireKind\<close> of \<open>scheduler.go\<close>.\<close>

definition fireKind :: "string \<Rightarrow> string option" where
  "fireKind offsetSpec =
     map_option (\<lambda>d. if d = 0 then ''due'' else ''before'') (ParseOffsetDuration offsetSpec)"

subsection \<open>Recurrence\<close>

record recurrence =
  rr_valid :: "string \<Rightarrow> bool"       \<comment> \<open>\<open>StrToROption\<close> and \<open>NewRRule\<close> accept the rule\<close>
  rr_after :: "string \<Rightarrow> string \<Rightarrow> int \<Rightarrow> int \<Rightarrow> int option"  \<comment> \<open>rule, time zone, anchor: \<open>After(t, false)\<close>\<close>
  rr_nth :: "string \<Rightarrow> string \<Rightarrow> int \<Rightarrow> nat \<Rightarrow> int option"    \<comment> \<open>the n-th call of \<open>Iterator()\<close>\<close>

definition buildRRule :: "env \<Rightarrow> recurrence \<Rightarrow> string \<Rightarrow> string \<Rightarrow> goerr option" where
  "buildRRule env rr rruleStr tz =
     (if \<not> loads_tz env tz then Some (errorf ''invalid tz'')
      else if \<not> rr_valid rr rruleStr then Some (errorf ''invalid rrule'')
      else None)"

text \<open>The next occurrence, \<open>None\<close> when there is none.\<close>

definition NextOccurrence ::
    "env \<Rightarrow> recurrence \<Rightarrow> string \<Rightarrow> string \<Rightarrow> int \<Rightarrow> int \<Rightarrow> int option result" where
  "NextOccurrence env rr rruleStr tz anchor current =
     (if rruleStr = [] then Inr None
      else case buildRRule env rr rruleStr tz of
             Some e \<Rightarrow> Inl e
           | None \<Rightarrow> Inr (rr_after rr rruleStr tz anchor current))"

fun iterate_rrule :: "(nat \<Rightarrow> int option) \<Rightarrow> nat \<Rightarrow> nat \<Rightarrow> int list" where
  "iterate_rrule nxt i 0 = []"
| "iterate_rrule nxt i (Suc n) = (case nxt i of None \<Rightarrow> [] | Some t \<Rightarrow> t # iterate_rrule nxt (Suc i) n)"

definition FirstOccurrences ::
    "env \<Rightarrow> recurrence \<Rightarrow> string \<Rightarrow> string \<Rightarrow> int \<Rightarrow> int \<Rightarrow> int list result" where
  "FirstOccurrences env rr rruleStr tz dtstart n =
     (if n \<le> 0 then Inr []
      else if rruleStr = [] then Inr [dtstart]
      else case buildRRule env rr rruleStr tz of
             Some e \<Rightarrow> Inl e
           | None \<Rightarrow> Inr (iterate_rrule (rr_nth rr rruleStr tz dtstart) 0 (nat n)))"

subsection \<open>Applying a rule change\<close>

record ReminderChangedData =
  rc_version :: int
  rc_id :: string
  rc_application_id :: string
  rc_component_id :: string
  rc_target_key :: string
  rc_title :: string
  rc_due_at :: int
  rc_tz :: string
  rc_offsets :: "string list"
  rc_rrule :: "string option"
  rc_recipients :: "string list"
  rc_state :: string
  rc_rev :: int

definition tombstoneOffsetIndex :: int where
  "tombstoneOffsetIndex = - 1"

text \<open>\<open>SELECT MAX(rev) FROM reminder WHERE rule_id = $1\<close>, \<open>None\<close> for \<open>NULL\<close>.\<close>

definition stored_rev :: "string \<Rightarrow> reminder_row list \<Rightarrow> int option" where
  "stored_rev rule rs =
     (case map r_rev (filter (\<lambda>r. r_rule_id r = rule) rs) of [] \<Rightarrow> None | v # vs \<Rightarrow> Some (fold max vs v))"

definition insertRow ::
    "env \<Rightarrow> ReminderChangedData \<Rightarrow> int \<Rightarrow> string \<Rightarrow> int \<Rightarrow> int \<Rightarrow> int \<Rightarrow> string \<Rightarrow> db \<Rightarrow> db result" where
  "insertRow env data offsetIndex offsetSpec anchorAt dueAt fireAt state d =
     stmt env ''insertRow'' d
       (rguard (\<not> list_ex (\<lambda>r. r_rule_id r = rc_id data \<and> r_offset_index r = offsetIndex) (t_reminders d))
         (unique_violation ''reminder_pkey'')
       (rguard (rc_component_id data \<in> set (map c_id (t_comps d)))
         (fk_violation ''reminder_component_id_fkey'')
         (Inr (d\<lparr>t_reminders := t_reminders d @
            [\<lparr>r_rule_id = rc_id data, r_offset_index = offsetIndex, r_application_id = rc_application_id data,
              r_component_id = rc_component_id data, r_target_key = rc_target_key data, r_title = rc_title data,
              r_tz = rc_tz data, r_rrule = rc_rrule data, r_offset_spec = offsetSpec, r_anchor_at = anchorAt,
              r_due_at = dueAt, r_fire_at = fireAt, r_recipients = rc_recipients data, r_state = state,
              r_rev = rc_rev data\<rparr>]\<rparr>))))"

fun insert_offsets :: "env \<Rightarrow> ReminderChangedData \<Rightarrow> int \<Rightarrow> string list \<Rightarrow> db \<Rightarrow> db result" where
  "insert_offsets env data i [] d = Inr d"
| "insert_offsets env data i (spec # specs) d =
     (case FireAt (rc_due_at data) spec of
        None \<Rightarrow> Inl (errorf ''invalid offset spec'')
      | Some fireAt \<Rightarrow>
          rbind (map_err (wrapf ''insert row for rule'')
            (insertRow env data i spec (rc_due_at data) (rc_due_at data) fireAt ''pending'' d))
            (insert_offsets env data (i + 1) specs))"

text \<open>
  One transaction of its own on the repository's connection: an error leaves the tables as they
  were, and once it has committed the caller cannot undo it.
\<close>

definition ApplyRuleChange :: "env \<Rightarrow> ReminderChangedData \<Rightarrow> db \<Rightarrow> db result" where
  "ApplyRuleChange env data d =
     stmt env ''ApplyRuleChange.Begin'' d
      (stmt env ''ApplyRuleChange.SelectRev'' d
       (if (case stored_rev (rc_id data) (t_reminders d) of None \<Rightarrow> False | Some r \<Rightarrow> rc_rev data \<le> r)
        then stmt env ''ApplyRuleChange.Commit'' d (Inr d)
        else
          rbind (stmt env ''ApplyRuleChange.Delete'' d
             (Inr (d\<lparr>t_reminders := filter (\<lambda>r. r_rule_id r \<noteq> rc_id data) (t_reminders d)\<rparr>))) (\<lambda>d1.
          rbind (if rc_state data = ''cancelled''
                 then map_err (wrapf ''insert tombstone for rule'')
                   (insertRow env data tombstoneOffsetIndex ''PT0S'' (rc_due_at data) (rc_due_at data)
                     (rc_due_at data) ''cancelled'' d1)
                 else insert_offsets env data 0 (rc_offsets data) d1) (\<lambda>d2.
          stmt env ''ApplyRuleChange.Commit'' d2 (Inr d2)))))"

end
