(* ===== verification/EventRules.thy ===== *)
theory EventRules
  imports AppService Reminder
begin

section \<open>Which events are valid, fresh and allowed\<close>

text \<open>
  \<open>internal/event/event_validator.go\<close>, \<open>event_staleness.go\<close> and \<open>event_authorizer.go\<close>. A check is
  \<open>None\<close> when it passes and the error otherwise; \<open>and_then\<close> runs the second check only when the
  first passed, which is Go's early return.
\<close>

definition and_then :: "goerr option \<Rightarrow> goerr option \<Rightarrow> goerr option" where
  "and_then a b = (case a of Some e \<Rightarrow> Some e | None \<Rightarrow> b)"

lemma and_then_None [simp]: "and_then a b = None \<longleftrightarrow> a = None \<and> b = None"
  by (cases a) (simp_all add: and_then_def)

lemma and_then_Some: "and_then a b = Some e \<longleftrightarrow> a = Some e \<or> (a = None \<and> b = Some e)"
  by (cases a) (simp_all add: and_then_def)

definition check :: "bool \<Rightarrow> goerr \<Rightarrow> goerr option" where
  "check ok e = (if ok then None else Some e)"

lemma check_None [simp]: "check ok e = None \<longleftrightarrow> ok"
  by (simp add: check_def)

lemma check_Some: "check ok e = Some e' \<longleftrightarrow> \<not> ok \<and> e' = e"
  by (auto simp: check_def)

abbreviation invalid :: "string \<Rightarrow> goerr" where
  "invalid m \<equiv> errw ErrValidation m"

abbreviation denied :: "string \<Rightarrow> goerr" where
  "denied m \<equiv> errw ErrUnauthorized m"

subsection \<open>Reading event data\<close>

definition getString :: "gmap \<Rightarrow> string \<Rightarrow> string" where
  "getString m key = str_or_empty (mindex m key)"

definition numberValue :: "gany \<Rightarrow> rat option" where
  "numberValue v = (case v of GFloat q \<Rightarrow> Some q | GInt64 n \<Rightarrow> Some (f64 (of_int n))
     | GInt n \<Rightarrow> Some (f64 (of_int n)) | _ \<Rightarrow> None)"

definition getInt :: "gmap \<Rightarrow> string \<Rightarrow> int" where
  "getInt m key = (case numberValue (mindex m key) of None \<Rightarrow> 0 | Some q \<Rightarrow> int_of_float q)"

text \<open>The keys that must hold a non-empty string, in the order they are checked.\<close>

fun required :: "gmap \<Rightarrow> string list \<Rightarrow> goerr option" where
  "required data [] = None"
| "required data (k # ks) =
     (if getString data k = [] then Some (invalid (k @ '' is required'')) else required data ks)"

lemma required_None [simp]: "required data ks = None \<longleftrightarrow> (\<forall>k \<in> set ks. getString data k \<noteq> [])"
  by (induction ks) simp_all

lemma required_validation: "required data ks = Some e \<Longrightarrow> errors_is e ErrValidation"
  by (induction ks) (auto split: if_splits)

definition number_ok :: "(rat \<Rightarrow> bool) \<Rightarrow> gany \<Rightarrow> bool" where
  "number_ok p v = (case numberValue v of None \<Rightarrow> False | Some q \<Rightarrow> p q)"

subsection \<open>Validation per event type\<close>

definition validateMemberAddedData :: "gmap \<Rightarrow> goerr option" where
  "validateMemberAddedData data =
     and_then (required data [''applicationId'', ''memberPublicKey'', ''userDisplayName'', ''role''])
       (check (IsGrantable (getString data ''role'')) (invalid ''role must be admin, member or viewer''))"

definition validateMemberRemovedData :: "gmap \<Rightarrow> goerr option" where
  "validateMemberRemovedData data = required data [''applicationId'', ''memberPublicKey'']"

definition validateMemberRoleChangedData :: "gmap \<Rightarrow> goerr option" where
  "validateMemberRoleChangedData data =
     and_then (required data [''applicationId'', ''memberPublicKey'', ''oldRole'', ''newRole''])
       (check (IsGrantable (getString data ''newRole'')) (invalid ''newRole must be admin, member or viewer''))"

definition validateApplicationDataChangedData :: "gmap \<Rightarrow> goerr option" where
  "validateApplicationDataChangedData data = required data [''applicationId'', ''name'']"

definition validateApplicationDeletedData :: "gmap \<Rightarrow> goerr option" where
  "validateApplicationDeletedData data = required data [''applicationId'']"

definition validateApplicationMovedData :: "gmap \<Rightarrow> goerr option" where
  "validateApplicationMovedData data = required data [''applicationId'', ''targetSpaceUrl'', ''inviteToken'']"

definition validateInviteRevokedData :: "gmap \<Rightarrow> goerr option" where
  "validateInviteRevokedData data = required data [''applicationId'', ''inviteId'']"

definition validateComponentDataChangedData :: "gmap \<Rightarrow> goerr option" where
  "validateComponentDataChangedData data = None"

definition editModeChangeTypes :: "string list" where
  "editModeChangeTypes =
     [''component_added'', ''component_removed'', ''component_reordered'', ''component_data_changed'',
      ''component_group_added'', ''component_group_removed'', ''component_group_reordered'',
      ''component_group_changed'']"

text \<open>One entry of \<open>changes\<close>.\<close>

definition validate_change :: "gany \<Rightarrow> goerr option" where
  "validate_change raw =
     (case as_map raw of
        None \<Rightarrow> Some (invalid ''change must be an object'')
      | Some change \<Rightarrow>
          (let t = getString change ''changeType'' in
           if t \<notin> set editModeChangeTypes then Some (invalid ''changeType is not supported'')
           else if getString change ''entityId'' = [] then Some (invalid ''entityId is required'')
           else if t \<in> {''component_added'', ''component_group_added'', ''component_group_changed''}
           then check (as_map (mindex change ''data'') \<noteq> None) (invalid ''data is required'')
           else if t \<in> {''component_reordered'', ''component_group_reordered''}
           then check (numberValue (mindex change ''index'') \<noteq> None) (invalid ''index is required'')
           else if t = ''component_data_changed''
           then check (as_map (mindex change ''changedFields'') \<noteq> None) (invalid ''changedFields is required'')
           else None))"

fun validate_changes :: "gany list \<Rightarrow> goerr option" where
  "validate_changes [] = None"
| "validate_changes (c # cs) = and_then (validate_change c) (validate_changes cs)"

definition validateApplicationAfterEditModeChangedData :: "gmap \<Rightarrow> goerr option" where
  "validateApplicationAfterEditModeChangedData data =
     (case as_list (mindex data ''changes'') of
        None \<Rightarrow> Some (invalid ''changes is required'') | Some cs \<Rightarrow> validate_changes cs)"

definition validateUserSettingsChangedData :: "gmap \<Rightarrow> goerr option" where
  "validateUserSettingsChangedData data = required data [''userPublicKey'']"

definition validateMemberDetailsChangedData :: "gmap \<Rightarrow> goerr option" where
  "validateMemberDetailsChangedData data = required data [''applicationId'', ''memberPublicKey'']"

definition validateApplicationFileCreatedData :: "gmap \<Rightarrow> goerr option" where
  "validateApplicationFileCreatedData data =
     and_then (required data [''applicationId'', ''fileId'', ''filename'', ''contentType''])
      (and_then (check (case mindex data ''sizeBytes'' of GInt64 _ \<Rightarrow> True | GFloat _ \<Rightarrow> True | _ \<Rightarrow> False)
         (invalid ''sizeBytes is required''))
       (required data [''remoteUrl'']))"

definition validateApplicationFileDeletedData :: "gmap \<Rightarrow> goerr option" where
  "validateApplicationFileDeletedData data = required data [''applicationId'', ''fileId'']"

text \<open>
  The submatches of \<open>offsetSpecPattern\<close>, whose groups hold the unit letter too, and the check that
  one of them took part.
\<close>

definition opt_group :: "char \<Rightarrow> string \<Rightarrow> string \<times> string" where
  "opt_group c s =
     (let ds = takeWhile is_digit s; r = dropWhile is_digit s
      in if ds \<noteq> [] \<and> r \<noteq> [] \<and> hd r = c then (ds @ [c], tl r) else ([], s))"

definition isValidOffsetSpec :: "string \<Rightarrow> bool" where
  "isValidOffsetSpec spec =
     (case snd (strip_sign spec) of
        [] \<Rightarrow> False
      | p # s1 \<Rightarrow> p = CHR ''P'' \<and>
          (if s1 \<noteq> [] \<and> hd s1 = CHR ''T''
           then (let (h, s2) = opt_group (CHR ''H'') (tl s1); (m, s3) = opt_group (CHR ''M'') s2;
                     (sec, s4) = opt_group (CHR ''S'') s3
                 in s4 = [] \<and> (h \<noteq> [] \<or> m \<noteq> [] \<or> sec \<noteq> []))
           else (let (ds, r) = opt_group (CHR ''D'') s1 in ds \<noteq> [] \<and> r = [])))"

definition validateReminderChangedData :: "env \<Rightarrow> gmap \<Rightarrow> goerr option" where
  "validateReminderChangedData env data =
     and_then (required data [''id'', ''componentId'', ''targetKey'', ''tz''])
    (and_then (check (loads_tz env (getString data ''tz'')) (invalid ''tz is not a valid timezone''))
    (and_then (check (number_ok (\<lambda>q. q > 0) (mindex data ''dueAt''))
       (invalid ''dueAt must be a positive timestamp''))
    (and_then
       (case as_list (mindex data ''offsets'') of
          None \<Rightarrow> Some (invalid ''at least one offset is required'')
        | Some os \<Rightarrow> (if os = [] then Some (invalid ''at least one offset is required'')
            else check (list_all (\<lambda>o1. case as_str o1 of None \<Rightarrow> False | Some s \<Rightarrow> isValidOffsetSpec s) os)
                   (invalid ''invalid offset'')))
    (and_then (check (getString data ''state'' \<in> {''pending'', ''cancelled''})
       (invalid ''state must be pending or cancelled''))
     (check (number_ok (\<lambda>q. q \<ge> 0) (mindex data ''rev'')) (invalid ''rev must be >= 0''))))))"

definition validateReminderFiredData :: "gmap \<Rightarrow> goerr option" where
  "validateReminderFiredData data = required data [''applicationId'', ''componentId'', ''ruleId'']"

definition validateApplicationCreatedData :: "gmap \<Rightarrow> goerr option" where
  "validateApplicationCreatedData data = required data [''userPublicKey'', ''applicationId'', ''applicationName'']"

definition maxTemplateDocBytes :: int where
  "maxTemplateDocBytes = 64 * 1024"

definition validateTemplateChangedData :: "env \<Rightarrow> gmap \<Rightarrow> goerr option" where
  "validateTemplateChangedData env data =
     and_then (required data [''userPublicKey'', ''id''])
    (and_then (check (number_ok (\<lambda>q. q \<ge> 0) (mindex data ''rev'')) (invalid ''rev must be >= 0''))
    (and_then (check (number_ok (\<lambda>q. q = of_int (go_truncate q)) (mindex data ''rev''))
       (invalid ''rev must be an integer''))
    (and_then (check (getString data ''state'' \<in> {''active'', ''deleted''})
       (invalid ''state must be active or deleted''))
    (and_then (check (getString data ''source'' \<in> {''user'', ''imported''})
       (invalid ''source must be user or imported''))
    (and_then
       (case as_map (mindex data ''doc'') of
          None \<Rightarrow> Some (invalid ''doc is required and must be an object'')
        | Some doc \<Rightarrow> check (json_length env doc \<le> maxTemplateDocBytes) (invalid ''doc exceeds maximum size''))
    (and_then (check (number_ok (\<lambda>q. q \<ge> 0) (mindex data ''createdAt'')) (invalid ''createdAt must be >= 0''))
     (check (number_ok (\<lambda>q. q \<ge> 0) (mindex data ''updatedAt'')) (invalid ''updatedAt must be >= 0''))))))))"

definition validate_data :: "env \<Rightarrow> event_type \<Rightarrow> gmap \<Rightarrow> goerr option" where
  "validate_data env t data =
     (case t of
        EventTypeMemberAdded \<Rightarrow> validateMemberAddedData data
      | EventTypeMemberRemoved \<Rightarrow> validateMemberRemovedData data
      | EventTypeMemberRoleChanged \<Rightarrow> validateMemberRoleChangedData data
      | EventTypeApplicationDataChanged \<Rightarrow> validateApplicationDataChangedData data
      | EventTypeApplicationDeleted \<Rightarrow> validateApplicationDeletedData data
      | EventTypeApplicationMoved \<Rightarrow> validateApplicationMovedData data
      | EventTypeInviteRevoked \<Rightarrow> validateInviteRevokedData data
      | EventTypeComponentDataChanged \<Rightarrow> validateComponentDataChangedData data
      | EventTypeApplicationAfterEditModeChanged \<Rightarrow> validateApplicationAfterEditModeChangedData data
      | EventTypeUserSettingsChanged \<Rightarrow> validateUserSettingsChangedData data
      | EventTypeMemberDetailsChanged \<Rightarrow> validateMemberDetailsChangedData data
      | EventTypeApplicationCreated \<Rightarrow> validateApplicationCreatedData data
      | EventTypeApplicationFileCreated \<Rightarrow> validateApplicationFileCreatedData data
      | EventTypeApplicationFileDeleted \<Rightarrow> validateApplicationFileDeletedData data
      | EventTypeReminderChanged \<Rightarrow> validateReminderChangedData env data
      | EventTypeReminderFired \<Rightarrow> validateReminderFiredData data
      | EventTypeSpaceProfileChanged \<Rightarrow> required data [''applicationId'']
      | EventTypeTemplateChanged \<Rightarrow> validateTemplateChangedData env data
      | EventTypeOther _ \<Rightarrow> Some (invalid ''unknown event type''))"

definition ValidateEvent :: "env \<Rightarrow> event \<Rightarrow> goerr option" where
  "ValidateEvent env ev =
     and_then (check (ev_id ev \<noteq> []) (invalid ''event.id is required''))
    (and_then (check (ev_type ev \<noteq> EventTypeOther []) (invalid ''event.type is required''))
    (and_then (check (ev_creator ev \<noteq> []) (invalid ''event.creatorPublicKey is required''))
     (case ev_data ev of
        None \<Rightarrow> Some (invalid ''event.data is required'')
      | Some data \<Rightarrow> validate_data env (ev_type ev) data)))"

text \<open>Indexing a nil map reads zero values.\<close>

definition data_of :: "event \<Rightarrow> gmap" where
  "data_of ev = (case ev_data ev of None \<Rightarrow> [] | Some m \<Rightarrow> m)"

subsection \<open>Staleness\<close>

definition destructive :: "event_type \<Rightarrow> bool" where
  "destructive t \<longleftrightarrow> t = EventTypeApplicationDeleted \<or> t = EventTypeMemberRemoved
     \<or> t = EventTypeMemberRoleChanged \<or> t = EventTypeInviteRevoked \<or> t = EventTypeApplicationFileDeleted"

definition staleDestructiveWindowSeconds :: int where
  "staleDestructiveWindowSeconds = 30 * 24 * 60 * 60"

definition msEpochFloor :: int where
  "msEpochFloor = 10000000000"

definition normalizeMintedAt :: "int \<Rightarrow> int" where
  "normalizeMintedAt mintedAt = (if mintedAt > msEpochFloor then go_div mintedAt 1000 else mintedAt)"

definition checkEventStaleness :: "event_type \<Rightarrow> int \<Rightarrow> int \<Rightarrow> goerr option" where
  "checkEventStaleness t mintedAt now_s =
     (if mintedAt = 0 \<or> \<not> destructive t then None
      else check (wrap64 (now_s - normalizeMintedAt mintedAt) \<le> staleDestructiveWindowSeconds)
             (errw ErrStaleEvent ''minted too long ago''))"

subsection \<open>Authorization\<close>

definition findMember :: "application \<Rightarrow> string \<Rightarrow> member option" where
  "findMember app publicKey = find (\<lambda>m. mb_public_key m = publicKey) (ap_members app)"

text \<open>The rule of each type, for a submitter who is a member.\<close>

definition authorize_type :: "event \<Rightarrow> user \<Rightarrow> application \<Rightarrow> member \<Rightarrow> goerr option" where
  "authorize_type ev u app m =
     (let isOwner = (mb_role m = MemberRoleOwner);
          canManage = (isOwner \<or> mb_role m = MemberRoleAdmin);
          key = mindex (data_of ev) ''memberPublicKey''
      in case ev_type ev of
        EventTypeApplicationDeleted \<Rightarrow> check isOwner (denied ''only owner can delete application'')
      | EventTypeMemberRemoved \<Rightarrow>
          (case as_str key of
             None \<Rightarrow> Some (denied ''memberPublicKey not found in event data'')
           | Some memberKey \<Rightarrow>
               (case findMember app memberKey of
                  None \<Rightarrow> Some (denied ''target is not a member of this application'')
                | Some target \<Rightarrow>
                    (if mb_role target = MemberRoleOwner
                     then Some (denied ''owner cannot be removed, delete the application instead'')
                     else check (memberKey = u_public_key u \<or> canManage)
                            (denied ''only owner or admin can remove other members''))))
      | EventTypeMemberAdded \<Rightarrow> Some (denied ''member_added is space-produced'')
      | EventTypeMemberRoleChanged \<Rightarrow>
          (if \<not> canManage then Some (denied ''only owner or admin can change member roles'')
           else if str_or_empty key = u_public_key u then Some (denied ''cannot change own role'')
           else (case findMember app (str_or_empty key) of
                   None \<Rightarrow> Some (denied ''target must be a non-owner member'')
                 | Some target \<Rightarrow>
                     (if mb_role target = MemberRoleOwner
                      then Some (denied ''target must be a non-owner member'')
                      else check (getString (data_of ev) ''oldRole'' = mb_role target)
                             (denied ''oldRole does not match the current role''))))
      | EventTypeApplicationDataChanged \<Rightarrow> None
      | EventTypeInviteRevoked \<Rightarrow> check canManage (denied ''only owner or admin can revoke invites'')
      | EventTypeComponentDataChanged \<Rightarrow> None
      | EventTypeReminderChanged \<Rightarrow> None
      | EventTypeApplicationAfterEditModeChanged \<Rightarrow> None
      | EventTypeMemberDetailsChanged \<Rightarrow>
          check (as_str key = Some (u_public_key u)) (denied ''can only update own member details'')
      | EventTypeApplicationFileCreated \<Rightarrow> Some (denied ''file events are space-produced'')
      | EventTypeApplicationFileDeleted \<Rightarrow> Some (denied ''file events are space-produced'')
      | EventTypeReminderFired \<Rightarrow> Some (denied ''reminder_fired is space-produced'')
      | EventTypeSpaceProfileChanged \<Rightarrow> Some (denied ''space_profile_changed is space-produced'')
      | EventTypeApplicationMoved \<Rightarrow> Some (denied ''application_moved is space-produced'')
      | EventTypeUserSettingsChanged \<Rightarrow> Some (denied ''unknown event type'')
      | EventTypeApplicationCreated \<Rightarrow> Some (denied ''unknown event type'')
      | EventTypeTemplateChanged \<Rightarrow> Some (denied ''unknown event type'')
      | EventTypeOther _ \<Rightarrow> Some (denied ''unknown event type''))"

definition AuthorizeEvent :: "event \<Rightarrow> user option \<Rightarrow> application option \<Rightarrow> goerr option" where
  "AuthorizeEvent ev submitter app =
     (case submitter of None \<Rightarrow> Some (denied ''submitter is required'')
      | Some u \<Rightarrow>
     (case app of None \<Rightarrow> Some (denied ''application is required'')
      | Some a \<Rightarrow>
     (case findMember a (u_public_key u) of
        None \<Rightarrow> Some (denied ''user is not a member of this application'')
      | Some m \<Rightarrow> and_then (check (AgentAllowed a u) (denied ''agent access is off for this application''))
                    (authorize_type ev u a m))))"

definition AuthorizeUserScopedEvent :: "event \<Rightarrow> user option \<Rightarrow> goerr option" where
  "AuthorizeUserScopedEvent ev submitter =
     (case submitter of None \<Rightarrow> Some (denied ''submitter is required'')
      | Some u \<Rightarrow>
          (if IsUserScoped (ev_type ev)
           then check (as_str (mindex (data_of ev) ''userPublicKey'') = Some (u_public_key u))
                  (denied ''can only act for own user'')
           else Some (denied ''unknown user-scoped event type'')))"

end
