(* ===== verification/EventRepo.thy ===== *)
theory EventRepo
  imports EventRules
begin

section \<open>The event log\<close>

text \<open>
  \<open>internal/event/event_repository.go\<close>: the append-only log with its two orders, the ordinal the
  database assigns to every row and the sequence number of an application's events, the pages
  clients read, and the pruning of old rows. Data is stored as JSON, so it is read back as
  \<open>json_rt\<close> of what was stored.
\<close>

text \<open>\<open>MAX(sequence_number)\<close> and \<open>last_sequence\<close>, both 0 when absent.\<close>

definition seqs_of :: "string \<Rightarrow> event_row list \<Rightarrow> int list" where
  "seqs_of appID es = map (ev_sequence \<circ> snd) (filter (of_app appID \<circ> snd) es)"

definition last_seq :: "string \<Rightarrow> app_row list \<Rightarrow> int" where
  "last_seq appID as = (case find (\<lambda>a. ar_id a = appID) as of
     None \<Rightarrow> 0 | Some a \<Rightarrow> (case ar_last_sequence a of None \<Rightarrow> 0 | Some n \<Rightarrow> n))"

definition max_seq :: "int list \<Rightarrow> int" where
  "max_seq ns = (case ns of [] \<Rightarrow> 0 | n # ms \<Rightarrow> fold max ms n)"

definition high_water :: "string \<Rightarrow> db \<Rightarrow> int" where
  "high_water appID d = max (max_seq (seqs_of appID (t_events d))) (last_seq appID (t_apps d))"

definition GetNextSequence :: "env \<Rightarrow> string \<Rightarrow> db \<Rightarrow> int result" where
  "GetNextSequence env appID d = stmt env ''GetNextSequence'' d (Inr (wrap64 (high_water appID d + 1)))"

text \<open>The event as \<open>Create\<close> completes it before the insertion.\<close>

definition complete_event :: "env \<Rightarrow> event \<Rightarrow> event" where
  "complete_event env ev =
     (let e1 = (if ev_created_at ev = 0 then ev\<lparr>ev_created_at := now env\<rparr> else ev)
      in if ev_application_id e1 = [] \<and> \<not> IsUserScoped (ev_type e1) \<and> getString (data_of e1) ''applicationId'' \<noteq> []
         then e1\<lparr>ev_application_id := getString (data_of e1) ''applicationId''\<rparr> else e1)"

definition stored_form :: "event \<Rightarrow> event" where
  "stored_form ev = ev\<lparr>ev_data := map_option json_rt (ev_data ev)\<rparr>"

text \<open>The row takes the next ordinal; \<open>nextval\<close> is spent even when the insertion fails.\<close>

definition event_ids :: "db \<Rightarrow> string list" where
  "event_ids d = map (ev_id \<circ> snd) (t_events d)"

definition CreateEvent :: "env \<Rightarrow> event \<Rightarrow> db \<Rightarrow> (event \<times> db) result" where
  "CreateEvent env ev d =
     (let e = complete_event env ev
      in map_err (wrapf ''failed to insert event'')
        (stmt env ''Create'' d
          (rguard (ev_id e \<notin> set (event_ids d)) (unique_violation ''events_pkey'')
          (rguard (ev_application_id e = [] \<or> ev_application_id e \<in> set (app_ids d))
            (fk_violation ''events_application_id_fkey'')
          (rguard (ev_space_id e = [] \<or> ev_space_id e \<in> spr_id ` set (t_spaces d))
            (fk_violation ''events_space_id_fkey'')
            (Inr (e, d\<lparr>t_events := t_events d @ [(next_ordinal d, stored_form e)],
                       next_ordinal := next_ordinal d + 1\<rparr>)))))))"

definition find_event :: "string \<Rightarrow> db \<Rightarrow> event option" where
  "find_event eid d = map_option snd (find (\<lambda>r. ev_id (snd r) = eid) (t_events d))"

definition GetByID :: "env \<Rightarrow> string \<Rightarrow> string \<Rightarrow> db \<Rightarrow> event option result" where
  "GetByID env site eid d =
     map_err (wrapf ''failed to query event'') (stmt env site d (Inr (find_event eid d)))"

subsection \<open>Pages\<close>

text \<open>The rows a user may see: events of applications of an active membership, and the own user-scoped ones.\<close>

definition visible :: "env \<Rightarrow> string \<Rightarrow> db \<Rightarrow> event \<Rightarrow> bool" where
  "visible env key d e \<longleftrightarrow>
     (if ev_application_id e = [] then ev_creator e = key
      else list_ex (\<lambda>m. same_member (ev_application_id e) key m \<and> activeMember env m) (t_members d))"

text \<open>The space of an event is not among the selected columns.\<close>

definition page_form :: "event \<Rightarrow> event" where
  "page_form e = e\<lparr>ev_space_id := []\<rparr>"

definition rows_since :: "env \<Rightarrow> string \<Rightarrow> int \<Rightarrow> db \<Rightarrow> event_row list" where
  "rows_since env key since d =
     sort_key fst (filter (\<lambda>r. since < fst r \<and> visible env key d (snd r)) (t_events d))"

definition page_limit :: "int \<Rightarrow> nat" where
  "page_limit limit = (if limit \<le> 0 \<or> limit > 500 then 100 else nat limit)"

definition GetSince :: "env \<Rightarrow> string \<Rightarrow> string \<Rightarrow> int \<Rightarrow> db \<Rightarrow> (event list \<times> bool) result" where
  "GetSince env key sinceEventID limit d =
     rbind (if sinceEventID = [] then Inr 0
            else stmt env ''GetSince.cursor'' d
              (case find (\<lambda>r. ev_id (snd r) = sinceEventID) (t_events d) of
                 None \<Rightarrow> Inl (errw ErrCursorNotFound ''cursor not found'')
               | Some r \<Rightarrow> Inr (fst r))) (\<lambda>since.
     stmt env ''GetSince'' d
       (let n = page_limit limit; rows = take (n + 1) (rows_since env key since d)
        in Inr (map (page_form \<circ> snd) (take n rows), n < length rows)))"

definition GetByApplicationID :: "env \<Rightarrow> string \<Rightarrow> int \<Rightarrow> db \<Rightarrow> event list result" where
  "GetByApplicationID env appID limit d =
     stmt env ''GetByApplicationID'' d
       (Inr (map page_form (take (if limit \<le> 0 then 100 else nat limit)
          (sort_key ev_sequence (sort_key ev_created_at
            (map snd (filter (of_app appID \<circ> snd) (t_events d))))))))"

subsection \<open>Pruning\<close>

text \<open>
  The rows \<open>DeleteOlderThan\<close> spares whatever their age: the newest of each application, the newest
  of each creator among the user-scoped ones, and the template rows of highest revision of each
  creator and template id.
\<close>

definition newest_of_app :: "event_row list \<Rightarrow> event_row \<Rightarrow> bool" where
  "newest_of_app es r \<longleftrightarrow> ev_application_id (snd r) \<noteq> [] \<and>
     list_all (\<lambda>s. ev_application_id (snd s) = ev_application_id (snd r) \<longrightarrow> fst s \<le> fst r) es"

definition newest_of_user :: "event_row list \<Rightarrow> event_row \<Rightarrow> bool" where
  "newest_of_user es r \<longleftrightarrow> ev_application_id (snd r) = [] \<and>
     list_all (\<lambda>s. ev_application_id (snd s) = [] \<and> ev_creator (snd s) = ev_creator (snd r) \<longrightarrow> fst s \<le> fst r) es"

definition template_row :: "event \<Rightarrow> bool" where
  "template_row e \<longleftrightarrow> ev_application_id e = [] \<and> ev_type e = EventTypeTemplateChanged"

definition template_rev :: "event \<Rightarrow> rat" where
  "template_rev e = (case numberValue (mindex (data_of e) ''rev'') of None \<Rightarrow> 0 | Some q \<Rightarrow> q)"

definition same_template :: "event \<Rightarrow> event \<Rightarrow> bool" where
  "same_template a b \<longleftrightarrow> template_row a \<and> template_row b \<and> ev_creator a = ev_creator b \<and>
     getString (data_of a) ''id'' = getString (data_of b) ''id''"

definition top_template :: "event_row list \<Rightarrow> event_row \<Rightarrow> bool" where
  "top_template es r \<longleftrightarrow> template_row (snd r) \<and>
     list_all (\<lambda>s. same_template (snd r) (snd s) \<longrightarrow> template_rev (snd s) \<le> template_rev (snd r)) es"

definition prunable :: "int \<Rightarrow> event_row list \<Rightarrow> event_row \<Rightarrow> bool" where
  "prunable cutoff es r \<longleftrightarrow> ev_created_at (snd r) < cutoff \<and> \<not> newest_of_app es r
     \<and> \<not> newest_of_user es r \<and> \<not> top_template es r"

definition DeleteOlderThan :: "env \<Rightarrow> int \<Rightarrow> db \<Rightarrow> (int \<times> db) result" where
  "DeleteOlderThan env timestamp d =
     map_err (wrapf ''failed to delete old events'') (stmt env ''DeleteOlderThan'' d
       (let es = t_events d
        in Inr (int (length (filter (prunable timestamp es) es)),
                d\<lparr>t_events := filter (\<lambda>r. \<not> prunable timestamp es r) es\<rparr>)))"

text \<open>\<open>ORDER BY created_at, id\<close>: among the oldest rows the one with the least id.\<close>

fun str_less :: "string \<Rightarrow> string \<Rightarrow> bool" where
  "str_less _ [] = False"
| "str_less [] (_ # _) = True"
| "str_less (a # as) (b # bs) =
     ((of_char a :: nat) < of_char b \<or> (a = b \<and> str_less as bs))"

definition older :: "event \<Rightarrow> event \<Rightarrow> bool" where
  "older a b \<longleftrightarrow> ev_created_at a < ev_created_at b
     \<or> (ev_created_at a = ev_created_at b \<and> str_less (ev_id a) (ev_id b))"

definition GetOldestEventID :: "env \<Rightarrow> db \<Rightarrow> string result" where
  "GetOldestEventID env d =
     stmt env ''GetOldestEventID'' d
       (Inr (case map snd (t_events d) of [] \<Rightarrow> []
             | e # es \<Rightarrow> ev_id (fold (\<lambda>x m. if older x m then x else m) es e)))"

definition Count :: "env \<Rightarrow> db \<Rightarrow> int result" where
  "Count env d = stmt env ''Count'' d (Inr (int (length (t_events d))))"

end
