(* ===== verification/EventHandlers.thy ===== *)
theory EventHandlers
  imports EventRepo
begin

section \<open>What an event does to the tables\<close>

text \<open>
  The handlers of \<open>internal/event/event_service.go\<close> that \<open>executeEvent\<close> dispatches to: members,
  metadata, component data, edit-mode batches and reminder rules. Every handler runs inside the
  transaction of its event, except that the reminder store opens its own.
\<close>

subsection \<open>Errors that no retry can cure\<close>

definition isTransient :: "goerr \<Rightarrow> bool" where
  "isTransient e =
     (if errors_is e ErrBadConn \<or> errors_is e ErrConnDone \<or> errors_is e ErrEOF \<or> errors_is e ErrUnexpectedEOF
         \<or> errors_is e NetError \<or> errors_is e ErrCanceled \<or> errors_is e ErrDeadlineExceeded then True
      else case pq_of e of
             None \<Rightarrow> False
           | Some (code, _) \<Rightarrow>
               take 2 code \<in> {''08'', ''53'', ''57''} \<or> code \<in> {''40001'', ''40P01'', ''55P03''})"

definition isDataErr :: "goerr \<Rightarrow> bool" where
  "isDataErr e =
     (case pq_of e of
        None \<Rightarrow> False
      | Some (code, constraint) \<Rightarrow>
          take 2 code \<in> {''22'', ''23''} \<and> (code \<noteq> ''23505'' \<or> constraint \<noteq> ''events_pkey''))"

definition applyErr :: "goerr \<Rightarrow> goerr" where
  "applyErr e =
     (if errors_is e ErrUnappliable \<or> isTransient e then e
      else if errors_is e ErrValidation \<or> isDataErr e then joinw ErrUnappliable e
      else e)"

subsection \<open>Members and metadata\<close>

definition getInt64Ptr :: "gmap \<Rightarrow> string \<Rightarrow> int option" where
  "getInt64Ptr m key = (case mindex m key of GInt64 n \<Rightarrow> Some n | GFloat q \<Rightarrow> Some (int_of_float q) | _ \<Rightarrow> None)"

text \<open>The keys a handler refuses to miss; its error is not marked as a validation error.\<close>

definition need :: "event \<Rightarrow> string list \<Rightarrow> 'a result \<Rightarrow> 'a result" where
  "need ev keys r = rguard (list_all (\<lambda>k. getString (data_of ev) k \<noteq> []) keys) (errorf ''missing key in event'') r"

lemma need_Inr [result_simps]:
  "need ev keys r = Inr x \<longleftrightarrow> list_all (\<lambda>k. getString (data_of ev) k \<noteq> []) keys \<and> r = Inr x"
  by (simp add: need_def result_simps)

definition executeMemberAdded :: "env \<Rightarrow> event \<Rightarrow> db \<Rightarrow> db result" where
  "executeMemberAdded env ev d =
     (let data = data_of ev
      in need ev [''applicationId'', ''memberPublicKey'']
        (CreateMember env
          \<lparr>mb_id = fresh_uuid env, mb_application_id = getString data ''applicationId'',
           mb_role = getString data ''role'', mb_public_key = getString data ''memberPublicKey'',
           mb_display_name = None, mb_avatar = None,
           mb_expires_at = getInt64Ptr data ''membershipExpiresAt''\<rparr> d))"

text \<open>A member who is gone already needs no removal.\<close>

definition executeMemberRemoved :: "env \<Rightarrow> event \<Rightarrow> db \<Rightarrow> db result" where
  "executeMemberRemoved env ev d =
     (let data = data_of ev
      in need ev [''applicationId'', ''memberPublicKey'']
        (case GetMemberByPublicKey env (getString data ''applicationId'') (getString data ''memberPublicKey'') d of
           Inl e \<Rightarrow> (if errors_is e ErrNotFound then Inr d else Inl (wrapf ''member not found'' e))
         | Inr m \<Rightarrow> DeleteMember env (m_id m) d))"

definition executeApplicationDataChanged :: "env \<Rightarrow> event \<Rightarrow> db \<Rightarrow> db result" where
  "executeApplicationDataChanged env ev d =
     (let data = data_of ev; icon = getString data ''icon''
      in need ev [''applicationId'', ''name'']
        (UpdateApplicationMetadata env (getString data ''applicationId'') (getString data ''name'')
          (if icon = [] then None else Some icon) d))"

definition executeUserSettingsChanged :: "event \<Rightarrow> db \<Rightarrow> db result" where
  "executeUserSettingsChanged ev d = Inr d"

definition executeApplicationDeleted :: "env \<Rightarrow> event \<Rightarrow> db \<Rightarrow> db result" where
  "executeApplicationDeleted env ev d =
     need ev [''applicationId''] (repoDeleteApplication env (getString (data_of ev) ''applicationId'') d)"

definition executeMemberRoleChanged :: "env \<Rightarrow> event \<Rightarrow> db \<Rightarrow> db result" where
  "executeMemberRoleChanged env ev d =
     (let data = data_of ev
      in need ev [''applicationId'', ''memberPublicKey'', ''newRole'']
        (case GetMemberByPublicKey env (getString data ''applicationId'') (getString data ''memberPublicKey'') d of
           Inl e \<Rightarrow> (if errors_is e ErrNotFound then Inl (joinw ErrUnappliable e)
                      else Inl (wrapf ''member not found'' e))
         | Inr m \<Rightarrow> UpdateMemberRole env (m_id m) (getString data ''newRole'') d))"

subsection \<open>Components\<close>

text \<open>A component or group of another application is treated as missing.\<close>

definition componentInApp :: "env \<Rightarrow> string \<Rightarrow> string \<Rightarrow> db \<Rightarrow> component result" where
  "componentInApp env appID cid d =
     (case GetComponentByID env cid d of
        Inl e \<Rightarrow> Inl (if errors_is e ErrNotFound then errw ErrUnappliable ''component not found'' else e)
      | Inr c \<Rightarrow> rguard (c_application_id c = appID) (errw ErrUnappliable ''component not found'') (Inr c))"

definition groupInApp :: "env \<Rightarrow> string \<Rightarrow> string \<Rightarrow> db \<Rightarrow> component_group result" where
  "groupInApp env appID gid d =
     (case GetComponentGroupByID env gid d of
        Inl e \<Rightarrow> Inl (if errors_is e ErrNotFound then errw ErrUnappliable ''component group not found'' else e)
      | Inr g \<Rightarrow> rguard (g_application_id g = appID) (errw ErrUnappliable ''component group not found'') (Inr g))"

text \<open>\<open>lookup\<close> is the application of the entity whose id is about to be written, or why it was not found.\<close>

definition upsertTarget :: "string \<Rightarrow> gmap \<Rightarrow> string result \<Rightarrow> unit result" where
  "upsertTarget appID data lookup =
     (let target = getString data ''applicationId'';
          foreign = Inl (errw ErrUnappliable ''belongs to another application'')
      in case lookup of
           Inl e \<Rightarrow> (if \<not> errors_is e ErrNotFound then Inl e
                      else if target \<noteq> [] \<and> target \<noteq> appID then foreign else Inr ())
         | Inr owner \<Rightarrow> (if (target \<noteq> [] \<and> target \<noteq> appID) \<or> owner \<noteq> appID then foreign else Inr ()))"

definition executeComponentAdded :: "env \<Rightarrow> string \<Rightarrow> gmap \<Rightarrow> db \<Rightarrow> db result" where
  "executeComponentAdded env appID change d =
     (case as_map (mindex change ''data'') of
        None \<Rightarrow> Inl (errorf ''missing data for component_added'')
      | Some data \<Rightarrow>
          rbind (upsertTarget appID data
             (rbind (GetComponentByID env (getString data ''id'') d) (\<lambda>c. Inr (c_application_id c)))) (\<lambda>_.
          rbind (groupInApp env appID (getString data ''componentGroupId'') d) (\<lambda>_.
          CreateComponent env
            \<lparr>c_id = getString data ''id'', c_group_id = getString data ''componentGroupId'',
             c_application_id = appID, c_name = getString data ''name'',
             c_data = as_map (mindex data ''data''), c_index = getInt data ''index''\<rparr> d)))"

definition executeComponentGroupAdded :: "env \<Rightarrow> string \<Rightarrow> gmap \<Rightarrow> db \<Rightarrow> db result" where
  "executeComponentGroupAdded env appID change d =
     (case as_map (mindex change ''data'') of
        None \<Rightarrow> Inl (errorf ''missing data for component_group_added'')
      | Some data \<Rightarrow>
          rbind (upsertTarget appID data
             (rbind (GetComponentGroupByID env (getString data ''id'') d) (\<lambda>g. Inr (g_application_id g)))) (\<lambda>_.
          CreateComponentGroup env
            \<lparr>g_id = getString data ''id'', g_application_id = appID, g_name = getString data ''name'',
             g_index = getInt data ''index'', g_components = []\<rparr> d))"

text \<open>Every changed field that is an object contributes its \<open>newValue\<close>.\<close>

definition apply_delta :: "gmap \<Rightarrow> gmap option \<Rightarrow> gmap" where
  "apply_delta changed data =
     foldl (\<lambda>m (field, raw). case as_map raw of None \<Rightarrow> m | Some change \<Rightarrow> mput field (mindex change ''newValue'') m)
       (case data of None \<Rightarrow> [] | Some m \<Rightarrow> m) changed"

definition update_component_data :: "env \<Rightarrow> string \<Rightarrow> string \<Rightarrow> gmap \<Rightarrow> db \<Rightarrow> db result" where
  "update_component_data env appID cid changed d =
     rbind (componentInApp env appID cid d) (\<lambda>c.
       UpdateComponentData env cid (Some (apply_delta changed (c_data c))) d)"

definition executeComponentDataDelta :: "env \<Rightarrow> string \<Rightarrow> string \<Rightarrow> gmap \<Rightarrow> db \<Rightarrow> db result" where
  "executeComponentDataDelta env appID cid change d =
     (case as_map (mindex change ''changedFields'') of
        None \<Rightarrow> Inl (errorf ''missing changedFields for component_data_changed'')
      | Some changed \<Rightarrow> update_component_data env appID cid changed d)"

definition executeComponentDataChanged :: "env \<Rightarrow> event \<Rightarrow> db \<Rightarrow> db result" where
  "executeComponentDataChanged env ev d =
     (let cid = getString (data_of ev) ''componentId''
      in if cid = [] then Inl (invalid ''missing componentId in component_data_changed event'')
         else case as_map (mindex (data_of ev) ''changedFields'') of
                None \<Rightarrow> Inl (invalid ''missing changedFields in component_data_changed event'')
              | Some changed \<Rightarrow> update_component_data env (ev_application_id ev) cid changed d)"

subsection \<open>Edit-mode batches\<close>

definition change_group :: "env \<Rightarrow> string \<Rightarrow> string \<Rightarrow> gmap \<Rightarrow> db \<Rightarrow> db result" where
  "change_group env appID eid change d =
     rbind (groupInApp env appID eid d) (\<lambda>g.
       (let data = (case as_map (mindex change ''data'') of None \<Rightarrow> [] | Some m \<Rightarrow> m);
            name = getString data ''name'';
            index = (case numberValue (mindex data ''index'') of None \<Rightarrow> g_index g | Some q \<Rightarrow> int_of_float q)
        in UpdateComponentGroup env eid (if name = [] then g_name g else name) index d))"

definition execute_change :: "env \<Rightarrow> string \<Rightarrow> gmap \<Rightarrow> db \<Rightarrow> db result" where
  "execute_change env appID change d =
     (let t = getString change ''changeType''; eid = getString change ''entityId''
      in if t = ''component_added'' then executeComponentAdded env appID change d
         else if t = ''component_removed''
         then rbind (componentInApp env appID eid d) (\<lambda>_. DeleteComponent env eid d)
         else if t = ''component_reordered''
         then rbind (componentInApp env appID eid d) (\<lambda>_. UpdateComponentIndex env eid (getInt change ''index'') d)
         else if t = ''component_data_changed'' then executeComponentDataDelta env appID eid change d
         else if t = ''component_group_added'' then executeComponentGroupAdded env appID change d
         else if t = ''component_group_removed''
         then rbind (groupInApp env appID eid d) (\<lambda>_. DeleteComponentGroup env eid d)
         else if t = ''component_group_reordered''
         then rbind (groupInApp env appID eid d) (\<lambda>_. UpdateComponentGroupIndex env eid (getInt change ''index'') d)
         else if t = ''component_group_changed'' then change_group env appID eid change d
         else Inl (invalid ''unknown change type''))"

text \<open>The changes whose entity may be gone without failing the save.\<close>

definition tolerated :: "string \<Rightarrow> bool" where
  "tolerated t \<longleftrightarrow> t \<in> {''component_removed'', ''component_reordered'', ''component_group_removed'',
     ''component_group_reordered'', ''component_group_changed''}"

definition apply_change :: "env \<Rightarrow> string \<Rightarrow> gany \<Rightarrow> db \<Rightarrow> db result" where
  "apply_change env appID raw d =
     (case as_map raw of
        None \<Rightarrow> Inl (invalid ''change is not an object'')
      | Some change \<Rightarrow>
          (case execute_change env appID change d of
             Inl e \<Rightarrow> (if tolerated (getString change ''changeType'') \<and> errors_is e ErrUnappliable
                        then Inr d else Inl (wrapf ''change'' e))
           | Inr d1 \<Rightarrow> Inr d1))"

definition executeApplicationAfterEditModeChanged :: "env \<Rightarrow> event \<Rightarrow> db \<Rightarrow> db result" where
  "executeApplicationAfterEditModeChanged env ev d =
     (case as_list (mindex (data_of ev) ''changes'') of
        None \<Rightarrow> Inl (errorf ''missing changes in application_after_edit_mode_changed event'')
      | Some changes \<Rightarrow> fold_res (apply_change env (ev_application_id ev)) changes d)"

subsection \<open>Reminder rules\<close>

text \<open>
  \<open>UnmarshalData\<close> into \<open>ReminderChangedData\<close>: \<open>encoding/json\<close> writes the keys in order and
  assigns each to the field whose name it matches without regard to case, so of two such keys the
  later one wins; a \<open>null\<close> leaves a string or a number as it is.
\<close>

fun fold_name :: "string \<Rightarrow> string" where
  "fold_name [] = []"
| "fold_name (c # s) =
     (let n = (of_char c :: nat)
      in if n = 226 \<and> take 2 s = [char_of (132 :: nat), char_of (170 :: nat)]
         then CHR ''K'' # fold_name (drop 2 s)
         else if n = 197 \<and> take 1 s = [char_of (191 :: nat)]
         then CHR ''S'' # fold_name (drop 1 s)
         else (if 97 \<le> n \<and> n \<le> 122 then char_of (n - 32) else c) # fold_name s)"

fun insert_key :: "string \<times> gany \<Rightarrow> gmap \<Rightarrow> gmap" where
  "insert_key kv [] = [kv]"
| "insert_key kv (x # xs) = (if str_less (fst kv) (fst x) then kv # x # xs else x # insert_key kv xs)"

definition sorted_entries :: "gmap \<Rightarrow> gmap" where
  "sorted_entries m = foldr insert_key m []"

fun assign_all :: "('a \<Rightarrow> gany \<Rightarrow> 'a option) \<Rightarrow> gany list \<Rightarrow> 'a \<Rightarrow> 'a option" where
  "assign_all dec [] x = Some x"
| "assign_all dec (v # vs) x = (case dec x v of None \<Rightarrow> None | Some y \<Rightarrow> assign_all dec vs y)"

text \<open>The entries in the order of their keys, under the folded names.\<close>

definition folded_entries :: "gmap \<Rightarrow> gmap" where
  "folded_entries m = map (\<lambda>(k, v). (fold_name k, v)) (sorted_entries m)"

definition values_of :: "gmap \<Rightarrow> string \<Rightarrow> gany list" where
  "values_of es name = map snd (filter (\<lambda>kv. fst kv = name) es)"

definition field :: "('a \<Rightarrow> gany \<Rightarrow> 'a option) \<Rightarrow> 'a \<Rightarrow> gmap \<Rightarrow> string \<Rightarrow> 'a option" where
  "field dec zero es name = assign_all dec (values_of es (fold_name name)) zero"

fun dec_string :: "string \<Rightarrow> gany \<Rightarrow> string option" where
  "dec_string cur GNil = Some cur"
| "dec_string cur (GStr s) = Some s"
| "dec_string cur _ = None"

fun dec_int64 :: "env \<Rightarrow> int \<Rightarrow> gany \<Rightarrow> int option" where
  "dec_int64 env cur GNil = Some cur"
| "dec_int64 env cur (GInt n) = (if in_int64 n then Some n else None)"
| "dec_int64 env cur (GInt64 n) = (if in_int64 n then Some n else None)"
| "dec_int64 env cur (GNum s) = atoi s"
| "dec_int64 env cur (GFloat q) =
     (if of_int (floor q) \<noteq> q then None
      else if \<bar>q\<bar> \<le> 9007199254740992 then Some (floor q) else float_int64 env q)"
| "dec_int64 env cur _ = None"

fun dec_pointer :: "string option \<Rightarrow> gany \<Rightarrow> string option option" where
  "dec_pointer cur GNil = Some None"
| "dec_pointer cur (GStr s) = Some (Some s)"
| "dec_pointer cur _ = None"

fun dec_elements :: "string list \<Rightarrow> gany list \<Rightarrow> string list option" where
  "dec_elements cur [] = Some []"
| "dec_elements cur (v # vs) =
     (case dec_string (case cur of [] \<Rightarrow> [] | s # _ \<Rightarrow> s) v of
        None \<Rightarrow> None
      | Some s \<Rightarrow> map_option (\<lambda>ss. s # ss) (dec_elements (case cur of [] \<Rightarrow> [] | _ # r \<Rightarrow> r) vs))"

fun dec_strings :: "string list \<Rightarrow> gany \<Rightarrow> string list option" where
  "dec_strings cur GNil = Some []"
| "dec_strings cur (GList xs) = dec_elements cur xs"
| "dec_strings cur (GStrs ss) = Some ss"
| "dec_strings cur _ = None"

definition decode_fields :: "env \<Rightarrow> gmap \<Rightarrow> ReminderChangedData option" where
  "decode_fields env m =
     (let str = field dec_string [] m; num = field (dec_int64 env) 0 m; strs = field dec_strings [] m
      in case (num ''version'', str ''id'', str ''applicationId'', str ''componentId'', str ''targetKey'',
               str ''title'', num ''dueAt'', str ''tz'', strs ''offsets'', field dec_pointer None m ''rrule'',
               strs ''recipients'', str ''state'', num ''rev'') of
           (Some v, Some i, Some a, Some c, Some tk, Some ti, Some du, Some tz, Some os, Some rr,
            Some rc, Some st, Some rv) \<Rightarrow>
             Some \<lparr>rc_version = v, rc_id = i, rc_application_id = a, rc_component_id = c,
                   rc_target_key = tk, rc_title = ti, rc_due_at = du, rc_tz = tz, rc_offsets = os,
                   rc_rrule = rr, rc_recipients = rc, rc_state = st, rc_rev = rv\<rparr>
         | _ \<Rightarrow> None)"

definition decode_reminder :: "env \<Rightarrow> gmap \<Rightarrow> ReminderChangedData option" where
  "decode_reminder env m = decode_fields env (folded_entries m)"

text \<open>The collaborators of the service that may be absent.\<close>

record EventService =
  sv_broadcaster :: bool
  sv_pusher :: bool
  sv_reminderStore :: bool

definition executeReminderChanged :: "EventService \<Rightarrow> env \<Rightarrow> event \<Rightarrow> db \<Rightarrow> db result" where
  "executeReminderChanged s env ev d =
     (if \<not> sv_reminderStore s then Inr d
      else case decode_reminder env (data_of ev) of
             None \<Rightarrow> Inl (invalid ''failed to unmarshal reminder_changed data'')
           | Some data \<Rightarrow> ApplyRuleChange env data d)"

text \<open>Types without a case of their own are skipped, the unknown ones among them.\<close>

definition executeEvent :: "EventService \<Rightarrow> env \<Rightarrow> event \<Rightarrow> db \<Rightarrow> db result" where
  "executeEvent s env ev d =
     (case ev_type ev of
        EventTypeMemberAdded \<Rightarrow> executeMemberAdded env ev d
      | EventTypeMemberRemoved \<Rightarrow> executeMemberRemoved env ev d
      | EventTypeApplicationDeleted \<Rightarrow> executeApplicationDeleted env ev d
      | EventTypeMemberRoleChanged \<Rightarrow> executeMemberRoleChanged env ev d
      | EventTypeComponentDataChanged \<Rightarrow> executeComponentDataChanged env ev d
      | EventTypeApplicationAfterEditModeChanged \<Rightarrow> executeApplicationAfterEditModeChanged env ev d
      | EventTypeReminderChanged \<Rightarrow> executeReminderChanged s env ev d
      | EventTypeReminderFired \<Rightarrow> Inr d
      | EventTypeUserSettingsChanged \<Rightarrow> executeUserSettingsChanged ev d
      | EventTypeSpaceProfileChanged \<Rightarrow> Inr d
      | EventTypeMemberDetailsChanged \<Rightarrow> Inr d
      | EventTypeApplicationDataChanged \<Rightarrow> executeApplicationDataChanged env ev d
      | EventTypeApplicationCreated \<Rightarrow> Inr d
      | EventTypeApplicationFileCreated \<Rightarrow> Inr d
      | EventTypeApplicationFileDeleted \<Rightarrow> Inr d
      | _ \<Rightarrow> Inr d)"

end
