(* ===== verification/DbLaws.thy ===== *)
theory DbLaws
  imports EventHandlers
begin

section \<open>What every repository operation keeps\<close>

text \<open>
  The integrity of the tables (keys, references, roles, the order of the log) as an invariant, its
  preservation by every operation of the repository, and the interface between the event
  handlers and the repository as a locale: what an operation may assume of the row it acts on, and
  what it must keep. The lemmas of the locale carry any such invariant through the edit-mode
  batches and the data changes.
\<close>

subsection \<open>Integrity\<close>

definition keys_ok :: "db \<Rightarrow> bool" where
  "keys_ok d \<longleftrightarrow> distinct (app_ids d) \<and> distinct (group_ids d) \<and> distinct (map c_id (t_comps d))
     \<and> distinct (map m_id (t_members d))
     \<and> distinct (map (\<lambda>m. (m_application_id m, m_public_key m)) (t_members d))"

definition refs_ok :: "db \<Rightarrow> bool" where
  "refs_ok d \<longleftrightarrow> (\<forall>g \<in> set (t_groups d). g_application_id g \<in> set (app_ids d))
     \<and> (\<forall>c \<in> set (t_comps d). c_group_id c \<in> set (group_ids d) \<and> c_application_id c \<in> set (app_ids d))
     \<and> (\<forall>m \<in> set (t_members d). m_application_id m \<in> set (app_ids d))
     \<and> (\<forall>r \<in> set (t_reminders d). r_component_id r \<in> c_id ` set (t_comps d))
     \<and> (\<forall>e \<in> set (t_events d). ev_application_id (snd e) = [] \<or> ev_application_id (snd e) \<in> set (app_ids d))"

definition roles_ok :: "db \<Rightarrow> bool" where
  "roles_ok d \<longleftrightarrow> (\<forall>m \<in> set (t_members d). valid_role (m_role m))"

definition log_ok :: "db \<Rightarrow> bool" where
  "log_ok d \<longleftrightarrow> distinct (event_ids d) \<and> sorted_wrt (<) (map fst (t_events d))
     \<and> (\<forall>r \<in> set (t_events d). fst r < next_ordinal d)"

definition db_ok :: "db \<Rightarrow> bool" where
  "db_ok d \<longleftrightarrow> keys_ok d \<and> refs_ok d \<and> roles_ok d \<and> log_ok d"

lemmas db_ok_defs = db_ok_def keys_ok_def refs_ok_def roles_ok_def log_ok_def
  app_ids_def group_ids_def event_ids_def

lemma list_ex_set: "list_ex p xs \<longleftrightarrow> (\<exists>x \<in> set xs. p x)"
  by (simp add: list_ex_iff)

lemma distinct_map_filter': "distinct (map f xs) \<Longrightarrow> distinct (map f (filter p xs))"
  by (simp add: distinct_map_filter)

lemma sorted_wrt_map_filter: "sorted_wrt R (map f xs) \<Longrightarrow> sorted_wrt R (map f (filter p xs))"
  by (induction xs) auto

lemma map_upsert:
  "(\<And>r. conflict r \<Longrightarrow> h (f r) = h r) \<Longrightarrow>
    map h (upsert conflict f row rs) = (if list_ex conflict rs then map h rs else map h rs @ [h row])"
  by (simp add: upsert_def map_update_where)

lemma in_upsert:
  "r \<in> set (upsert conflict f row rs) \<longleftrightarrow>
    (if list_ex conflict rs then (r \<in> set rs \<and> \<not> conflict r) \<or> (\<exists>r0. r0 \<in> set rs \<and> conflict r0 \<and> r = f r0)
     else r \<in> set rs \<or> r = row)"
  by (auto simp: upsert_def in_update_where)

text \<open>Changing the other columns of a table keeps what a projection of it says.\<close>

lemma image_update_where:
  "(\<And>r. p r \<Longrightarrow> h (f r) = h r) \<Longrightarrow> h ` set (update_where p f rs) = h ` set rs"
  by (metis image_set map_update_where)

lemma remains: "x \<in> h ` set rs \<Longrightarrow> x \<notin> h ` set (filter p rs) \<Longrightarrow> x \<in> h ` set (filter (\<lambda>r. \<not> p r) rs)"
  by auto

lemma db_ok_update_apps:
  assumes "db_ok d" and "\<And>a. p a \<Longrightarrow> ar_id (f a) = ar_id a"
  shows "db_ok (d\<lparr>t_apps := update_where p f (t_apps d)\<rparr>)"
proof -
  have "map ar_id (update_where p f (t_apps d)) = map ar_id (t_apps d)"
    using assms(2) by (intro map_update_where) auto
  then have "app_ids (d\<lparr>t_apps := update_where p f (t_apps d)\<rparr>) = app_ids d" by (simp add: app_ids_def)
  with assms(1) show ?thesis
    by (simp add: db_ok_def keys_ok_def refs_ok_def roles_ok_def log_ok_def group_ids_def event_ids_def)
qed

lemma db_ok_update_groups:
  assumes "db_ok d" and "\<And>g. p g \<Longrightarrow> g_id (f g) = g_id g \<and> g_application_id (f g) = g_application_id g"
  shows "db_ok (d\<lparr>t_groups := update_where p f (t_groups d)\<rparr>)"
proof -
  have 1: "map g_id (update_where p f (t_groups d)) = map g_id (t_groups d)"
    using assms(2) by (intro map_update_where) auto
  have 2: "\<forall>g \<in> set (update_where p f (t_groups d)). g_application_id g \<in> set (app_ids d)"
    using assms by (auto simp: in_update_where db_ok_def refs_ok_def)
  have 3: "app_ids (d\<lparr>t_groups := gs\<rparr>) = app_ids d" for gs by (simp add: app_ids_def)
  show ?thesis
    using assms(1) 1 2
    by (simp add: db_ok_def keys_ok_def refs_ok_def roles_ok_def log_ok_def group_ids_def event_ids_def 3)
qed

lemma db_ok_update_comps:
  assumes "db_ok d"
    and "\<And>c. p c \<Longrightarrow> c_id (f c) = c_id c \<and> c_application_id (f c) = c_application_id c"
    and "\<And>c. p c \<Longrightarrow> c \<in> set (t_comps d) \<Longrightarrow> c_group_id (f c) \<in> set (group_ids d)"
  shows "db_ok (d\<lparr>t_comps := update_where p f (t_comps d)\<rparr>)"
proof -
  have 1: "map c_id (update_where p f (t_comps d)) = map c_id (t_comps d)"
    using assms(2) by (intro map_update_where) auto
  then have 2: "c_id ` set (update_where p f (t_comps d)) = c_id ` set (t_comps d)" by (metis image_set)
  have 3: "\<forall>c \<in> set (update_where p f (t_comps d)).
      c_group_id c \<in> set (group_ids d) \<and> c_application_id c \<in> set (app_ids d)"
    using assms by (auto simp: in_update_where db_ok_def refs_ok_def)
  have 4: "app_ids (d\<lparr>t_comps := cs\<rparr>) = app_ids d" "group_ids (d\<lparr>t_comps := cs\<rparr>) = group_ids d" for cs
    by (simp_all add: app_ids_def group_ids_def)
  show ?thesis
    using assms(1) 1 2 3
    by (simp add: db_ok_def keys_ok_def refs_ok_def roles_ok_def log_ok_def event_ids_def 4)
qed

text \<open>Deleting rows whose references are gone, one table at a time.\<close>

lemma db_ok_drop_comps:
  assumes "db_ok d"
  shows "db_ok (drop_comps p d)"
proof -
  have "\<forall>r \<in> set (t_reminders (drop_comps p d)). r_component_id r \<in> c_id ` set (t_comps (drop_comps p d))"
  proof
    fix r
    assume "r \<in> set (t_reminders (drop_comps p d))"
    then have "r \<in> set (t_reminders d)" "r_component_id r \<notin> c_id ` set (filter p (t_comps d))"
      by (simp_all add: drop_comps_def Let_def)
    moreover have "r_component_id r \<in> c_id ` set (t_comps d)"
      using assms \<open>r \<in> set (t_reminders d)\<close> by (simp add: db_ok_def refs_ok_def)
    ultimately show "r_component_id r \<in> c_id ` set (t_comps (drop_comps p d))"
      using remains by (metis drop_comps_frame(9))
  qed
  with assms show ?thesis
    by (simp add: db_ok_def keys_ok_def refs_ok_def roles_ok_def log_ok_def app_ids_def group_ids_def
        event_ids_def distinct_map_filter)
qed

lemma db_ok_drop_free_groups:
  assumes "db_ok d" and "\<And>c g. c \<in> set (t_comps d) \<Longrightarrow> g \<in> set (t_groups d) \<Longrightarrow> p g \<Longrightarrow> c_group_id c \<noteq> g_id g"
  shows "db_ok (d\<lparr>t_groups := filter (\<lambda>g. \<not> p g) (t_groups d)\<rparr>)"
proof -
  have 1: "\<forall>c \<in> set (t_comps d). c_group_id c \<in> g_id ` set (filter (\<lambda>g. \<not> p g) (t_groups d))"
  proof
    fix c
    assume c: "c \<in> set (t_comps d)"
    have "c_group_id c \<in> g_id ` set (t_groups d)"
      using assms(1) c by (simp add: db_ok_def refs_ok_def group_ids_def)
    moreover have "c_group_id c \<notin> g_id ` set (filter p (t_groups d))" using assms(2) [OF c] by auto
    ultimately show "c_group_id c \<in> g_id ` set (filter (\<lambda>g. \<not> p g) (t_groups d))" by (rule remains)
  qed
  have 2: "app_ids (d\<lparr>t_groups := gs\<rparr>) = app_ids d" for gs by (simp add: app_ids_def)
  show ?thesis
    using assms(1) 1
    by (simp add: db_ok_def keys_ok_def refs_ok_def roles_ok_def log_ok_def group_ids_def event_ids_def 2
        distinct_map_filter)
qed

lemma db_ok_drop_groups:
  assumes "db_ok d"
  shows "db_ok (drop_groups p d)"
proof -
  let ?gone = "g_id ` set (filter p (t_groups d))"
  let ?k = "drop_comps (\<lambda>c. c_group_id c \<in> ?gone) d"
  have "drop_groups p d = ?k\<lparr>t_groups := filter (\<lambda>g. \<not> p g) (t_groups ?k)\<rparr>"
    by (simp add: drop_groups_def drop_comps_def Let_def)
  moreover have "db_ok (?k\<lparr>t_groups := filter (\<lambda>g. \<not> p g) (t_groups ?k)\<rparr>)"
    by (rule db_ok_drop_free_groups [OF db_ok_drop_comps [OF assms]]) auto
  ultimately show ?thesis by simp
qed

lemma db_ok_drop_members: "db_ok d \<Longrightarrow> db_ok (d\<lparr>t_members := filter p (t_members d)\<rparr>)"
  by (simp add: db_ok_def keys_ok_def refs_ok_def roles_ok_def log_ok_def app_ids_def group_ids_def
      event_ids_def distinct_map_filter)

lemma db_ok_drop_events: "db_ok d \<Longrightarrow> db_ok (d\<lparr>t_events := filter p (t_events d)\<rparr>)"
  by (simp add: db_ok_def keys_ok_def refs_ok_def roles_ok_def log_ok_def app_ids_def group_ids_def
      event_ids_def distinct_map_filter sorted_wrt_map_filter del: map_map)

lemma db_ok_invitations [simp]: "db_ok (drop_invitations p d) = db_ok d"
  by (simp add: db_ok_def keys_ok_def refs_ok_def roles_ok_def log_ok_def app_ids_def group_ids_def event_ids_def)

text \<open>An application without rows that refer to it can go.\<close>

definition unused :: "string \<Rightarrow> db \<Rightarrow> bool" where
  "unused x d \<longleftrightarrow> (\<forall>g \<in> set (t_groups d). g_application_id g \<noteq> x)
     \<and> (\<forall>c \<in> set (t_comps d). c_application_id c \<noteq> x) \<and> (\<forall>m \<in> set (t_members d). m_application_id m \<noteq> x)
     \<and> (\<forall>e \<in> set (t_events d). \<not> of_app x (snd e))"

lemma db_ok_drop_unused_apps:
  assumes "db_ok d" and "\<And>a. a \<in> set (t_apps d) \<Longrightarrow> p a \<Longrightarrow> unused (ar_id a) d"
  shows "db_ok (d\<lparr>t_apps := filter (\<lambda>a. \<not> p a) (t_apps d)\<rparr>)"
proof -
  have keep: "x \<in> ar_id ` set (filter (\<lambda>a. \<not> p a) (t_apps d))" if "x \<in> set (app_ids d)" "\<not> unused x d" for x
    using that assms(2) by (auto simp: app_ids_def)
  have "refs_ok d" using assms(1) by (simp add: db_ok_def)
  then have "\<forall>g \<in> set (t_groups d). g_application_id g \<in> ar_id ` set (filter (\<lambda>a. \<not> p a) (t_apps d))"
    and "\<forall>c \<in> set (t_comps d). c_application_id c \<in> ar_id ` set (filter (\<lambda>a. \<not> p a) (t_apps d))"
    and "\<forall>m \<in> set (t_members d). m_application_id m \<in> ar_id ` set (filter (\<lambda>a. \<not> p a) (t_apps d))"
    and "\<forall>e \<in> set (t_events d). ev_application_id (snd e) = [] \<or>
      ev_application_id (snd e) \<in> ar_id ` set (filter (\<lambda>a. \<not> p a) (t_apps d))"
    unfolding refs_ok_def by (blast intro: keep [unfolded unused_def of_app_def])+
  with assms(1) show ?thesis
    by (simp add: db_ok_def keys_ok_def refs_ok_def roles_ok_def log_ok_def group_ids_def event_ids_def
        app_ids_def distinct_map_filter)
qed

lemma db_ok_drop_apps:
  assumes "db_ok d"
  shows "db_ok (drop_apps p d)"
proof -
  let ?gone = "ar_id ` set (filter p (t_apps d))"
  let ?k = "drop_comps (\<lambda>c. c_application_id c \<in> ?gone) (drop_groups (\<lambda>g. g_application_id g \<in> ?gone)
    (drop_invitations (\<lambda>i. iv_application_id i \<in> ?gone) (d\<lparr>t_members := filter (\<lambda>m. m_application_id m \<notin> ?gone) (t_members d),
       t_events := filter (\<lambda>e. \<not> list_ex (\<lambda>a. p a \<and> of_app (ar_id a) (snd e)) (t_apps d)) (t_events d)\<rparr>)))"
  have "drop_apps p d = ?k\<lparr>t_apps := filter (\<lambda>a. \<not> p a) (t_apps ?k)\<rparr>"
    by (simp add: drop_apps_def drop_groups_def drop_comps_def drop_invitations_def Let_def)
  moreover have "db_ok (?k\<lparr>t_apps := filter (\<lambda>a. \<not> p a) (t_apps ?k)\<rparr>)"
  proof (rule db_ok_drop_unused_apps)
    show "db_ok ?k"
      using db_ok_drop_members [OF assms] db_ok_drop_events
      by (intro db_ok_drop_comps db_ok_drop_groups) fastforce
    show "unused (ar_id a) ?k" if "a \<in> set (t_apps ?k)" "p a" for a
      using that by (auto simp: unused_def list_ex_set)
  qed
  ultimately show ?thesis by simp
qed

end
