(* ===== verification/EditLaws.thy ===== *)
theory EditLaws
  imports DbLaws
begin

section \<open>The contract of the structural operations\<close>

text \<open>
  The interface through which a batch of edit-mode changes and a data change reach the repository:
  the eight operations on components and groups, each used only on entities of the event's
  application. \<open>edit_contract\<close> states what an invariant of the tables must promise about those
  uses; its lemmas carry the invariant through \<open>executeApplicationAfterEditModeChanged\<close> and
  \<open>executeComponentDataChanged\<close>. It is interpreted on the integrity of the tables and on the
  separation of applications.
\<close>

definition owns_comp :: "string \<Rightarrow> string \<Rightarrow> db \<Rightarrow> bool" where
  "owns_comp appID cid d \<longleftrightarrow> (\<forall>c \<in> set (t_comps d). c_id c = cid \<longrightarrow> c_application_id c = appID)"

definition owns_group :: "string \<Rightarrow> string \<Rightarrow> db \<Rightarrow> bool" where
  "owns_group appID gid d \<longleftrightarrow> (\<forall>g \<in> set (t_groups d). g_id g = gid \<longrightarrow> g_application_id g = appID)"

lemma find_unique:
  assumes "distinct (map key xs)" and "find (\<lambda>x. key x = k) xs = Some y" and "x \<in> set xs" and "key x = k"
  shows "x = y"
proof -
  have "y \<in> set xs" "key y = k" using find_in_set [OF assms(2)] by simp_all
  with assms(1,3,4) show ?thesis by (metis distinct_map inj_onD)
qed

lemma find_none: "find p xs = None \<Longrightarrow> x \<in> set xs \<Longrightarrow> \<not> p x"
  by (simp add: find_None_iff)

lemma componentInApp_owns:
  assumes "keys_ok d" and "componentInApp env appID cid d = Inr c"
  shows "owns_comp appID cid d" "c \<in> set (t_comps d)" "c_id c = cid" "c_application_id c = appID"
proof -
  have f: "find (\<lambda>c. c_id c = cid) (t_comps d) = Some c" and a: "c_application_id c = appID"
    using assms(2)
    by (auto simp: componentInApp_def GetComponentByID_def result_simps split: sum.splits option.splits)
  show "c \<in> set (t_comps d)" "c_id c = cid" using find_in_set [OF f] by simp_all
  show "c_application_id c = appID" by fact
  have "distinct (map c_id (t_comps d))" using assms(1) by (simp add: keys_ok_def)
  then show "owns_comp appID cid d" using find_unique [OF _ f] a by (auto simp: owns_comp_def)
qed

lemma groupInApp_owns:
  assumes "keys_ok d" and "groupInApp env appID gid d = Inr g"
  shows "owns_group appID gid d" "g \<in> set (t_groups d)" "g_id g = gid" "g_application_id g = appID"
proof -
  have f: "find (\<lambda>g. g_id g = gid) (t_groups d) = Some g" and a: "g_application_id g = appID"
    using assms(2)
    by (auto simp: groupInApp_def GetComponentGroupByID_def result_simps split: sum.splits option.splits)
  show "g \<in> set (t_groups d)" "g_id g = gid" using find_in_set [OF f] by simp_all
  show "g_application_id g = appID" by fact
  have "distinct (map g_id (t_groups d))" using assms(1) by (simp add: keys_ok_def group_ids_def)
  then show "owns_group appID gid d" using find_unique [OF _ f] a by (auto simp: owns_group_def)
qed

lemma upsertTarget_comp:
  assumes "keys_ok d"
    and "upsertTarget appID data (rbind (GetComponentByID env cid d) (\<lambda>c. Inr (c_application_id c))) = Inr x"
  shows "owns_comp appID cid d"
proof (cases "find (\<lambda>c. c_id c = cid) (t_comps d)")
  case None
  then show ?thesis using find_none [OF None] by (auto simp: owns_comp_def)
next
  case (Some c)
  have "distinct (map c_id (t_comps d))" using assms(1) by (simp add: keys_ok_def)
  moreover have "c_application_id c = appID"
    using assms(2) Some
    by (cases "GetComponentByID env cid d")
      (auto simp: GetComponentByID_def upsertTarget_def Let_def stmt_def split: if_splits option.splits)
  ultimately show ?thesis using find_unique [OF _ Some] by (auto simp: owns_comp_def)
qed

lemma upsertTarget_group:
  assumes "keys_ok d"
    and "upsertTarget appID data (rbind (GetComponentGroupByID env gid d) (\<lambda>g. Inr (g_application_id g))) = Inr x"
  shows "owns_group appID gid d"
proof (cases "find (\<lambda>g. g_id g = gid) (t_groups d)")
  case None
  then show ?thesis using find_none [OF None] by (auto simp: owns_group_def)
next
  case (Some g)
  have "distinct (map g_id (t_groups d))" using assms(1) by (simp add: keys_ok_def group_ids_def)
  moreover have "g_application_id g = appID"
    using assms(2) Some
    by (cases "GetComponentGroupByID env gid d")
      (auto simp: GetComponentGroupByID_def upsertTarget_def Let_def stmt_def split: if_splits option.splits)
  ultimately show ?thesis using find_unique [OF _ Some] by (auto simp: owns_group_def)
qed

text \<open>The repository call a change ends in.\<close>

lemma execute_change_cases:
  assumes "execute_change env appID change d = Inr d1"
  obtains "executeComponentAdded env appID change d = Inr d1"
    | cid x where "componentInApp env appID cid d = Inr x" "DeleteComponent env cid d = Inr d1"
    | cid x n where "componentInApp env appID cid d = Inr x" "UpdateComponentIndex env cid n d = Inr d1"
    | cid where "executeComponentDataDelta env appID cid change d = Inr d1"
    | "executeComponentGroupAdded env appID change d = Inr d1"
    | gid x where "groupInApp env appID gid d = Inr x" "DeleteComponentGroup env gid d = Inr d1"
    | gid x n where "groupInApp env appID gid d = Inr x" "UpdateComponentGroupIndex env gid n d = Inr d1"
    | gid x nm n where "groupInApp env appID gid d = Inr x" "UpdateComponentGroup env gid nm n d = Inr d1"
proof -
  let ?t = "getString change ''changeType''"
  consider "?t = ''component_added''" | "?t = ''component_removed''" | "?t = ''component_reordered''"
    | "?t = ''component_data_changed''" | "?t = ''component_group_added''" | "?t = ''component_group_removed''"
    | "?t = ''component_group_reordered''" | "?t = ''component_group_changed''"
    | "?t \<notin> set editModeChangeTypes"
    by (auto simp: editModeChangeTypes_def)
  then show thesis
  proof cases
    case 1
    then show thesis using assms that(1) by (simp add: execute_change_def)
  next
    case 2
    then show thesis using assms that(2) by (auto simp: execute_change_def Let_def rbind_Inr)
  next
    case 3
    then show thesis using assms that(3) by (auto simp: execute_change_def Let_def rbind_Inr)
  next
    case 4
    then show thesis using assms that(4) by (simp add: execute_change_def)
  next
    case 5
    then show thesis using assms that(5) by (simp add: execute_change_def)
  next
    case 6
    then show thesis using assms that(6) by (auto simp: execute_change_def Let_def rbind_Inr)
  next
    case 7
    then show thesis using assms that(7) by (auto simp: execute_change_def Let_def rbind_Inr)
  next
    case 8
    then show thesis using assms that(8) by (auto simp: execute_change_def change_group_def Let_def rbind_Inr)
  next
    case 9
    then show thesis using assms by (simp add: execute_change_def editModeChangeTypes_def)
  qed
qed

locale edit_contract =
  fixes env :: env and appID :: string and I :: "db \<Rightarrow> bool"
  assumes keys: "I d \<Longrightarrow> keys_ok d"
    and data: "I d \<Longrightarrow> owns_comp appID cid d \<Longrightarrow> UpdateComponentData env cid v d = Inr d1 \<Longrightarrow> I d1"
    and index: "I d \<Longrightarrow> owns_comp appID cid d \<Longrightarrow> UpdateComponentIndex env cid n d = Inr d1 \<Longrightarrow> I d1"
    and removed: "I d \<Longrightarrow> owns_comp appID cid d \<Longrightarrow> DeleteComponent env cid d = Inr d1 \<Longrightarrow> I d1"
    and added: "I d \<Longrightarrow> owns_comp appID (c_id c) d \<Longrightarrow> owns_group appID (c_group_id c) d \<Longrightarrow>
      c_application_id c = appID \<Longrightarrow> CreateComponent env c d = Inr d1 \<Longrightarrow> I d1"
    and group_index: "I d \<Longrightarrow> owns_group appID gid d \<Longrightarrow> UpdateComponentGroupIndex env gid n d = Inr d1 \<Longrightarrow> I d1"
    and group_changed: "I d \<Longrightarrow> owns_group appID gid d \<Longrightarrow> UpdateComponentGroup env gid nm n d = Inr d1 \<Longrightarrow> I d1"
    and group_removed: "I d \<Longrightarrow> owns_group appID gid d \<Longrightarrow> DeleteComponentGroup env gid d = Inr d1 \<Longrightarrow> I d1"
    and group_added: "I d \<Longrightarrow> owns_group appID (g_id g) d \<Longrightarrow> g_application_id g = appID \<Longrightarrow>
      CreateComponentGroup env g d = Inr d1 \<Longrightarrow> I d1"
begin

lemma data_update: "I d \<Longrightarrow> update_component_data env appID cid changed d = Inr d1 \<Longrightarrow> I d1"
  using data componentInApp_owns(1) [OF keys] by (fastforce simp: update_component_data_def result_simps)

lemma execute_change_keeps:
  assumes "I d" and "execute_change env appID change d = Inr d1"
  shows "I d1"
proof -
  note own = componentInApp_owns(1) [OF keys [OF assms(1)]] groupInApp_owns(1) [OF keys [OF assms(1)]]
  show ?thesis using assms(2)
  proof (cases rule: execute_change_cases)
    case 1
    then obtain data x g where
      u: "upsertTarget appID data (rbind (GetComponentByID env (getString data ''id'') d)
        (\<lambda>c. Inr (c_application_id c))) = Inr x"
      and g: "groupInApp env appID (getString data ''componentGroupId'') d = Inr g"
      and c: "CreateComponent env \<lparr>c_id = getString data ''id'',
        c_group_id = getString data ''componentGroupId'', c_application_id = appID,
        c_name = getString data ''name'', c_data = as_map (mindex data ''data''),
        c_index = getInt data ''index''\<rparr> d = Inr d1"
      by (auto simp: executeComponentAdded_def rbind_Inr split: option.splits)
    show ?thesis
      by (rule added [OF assms(1) _ _ _ c])
        (use upsertTarget_comp [OF keys [OF assms(1)] u] own(2) [OF g] in simp_all)
  next
    case (2 cid x)
    then show ?thesis using own(1) by (intro removed [OF assms(1)])
  next
    case (3 cid x n)
    then show ?thesis using own(1) by (intro index [OF assms(1)])
  next
    case (4 cid)
    then show ?thesis
      using data_update [OF assms(1)] by (auto simp: executeComponentDataDelta_def split: option.splits)
  next
    case 5
    then obtain data x where
      u: "upsertTarget appID data (rbind (GetComponentGroupByID env (getString data ''id'') d)
        (\<lambda>g. Inr (g_application_id g))) = Inr x"
      and g: "CreateComponentGroup env \<lparr>g_id = getString data ''id'', g_application_id = appID,
        g_name = getString data ''name'', g_index = getInt data ''index'', g_components = []\<rparr> d = Inr d1"
      by (auto simp: executeComponentGroupAdded_def rbind_Inr split: option.splits)
    show ?thesis
      by (rule group_added [OF assms(1) _ _ g]) (use upsertTarget_group [OF keys [OF assms(1)] u] in simp_all)
  next
    case (6 gid x)
    then show ?thesis using own(2) by (intro group_removed [OF assms(1)])
  next
    case (7 gid x n)
    then show ?thesis using own(2) by (intro group_index [OF assms(1)])
  next
    case (8 gid x nm n)
    then show ?thesis using own(2) by (intro group_changed [OF assms(1)])
  qed
qed

lemma apply_change_keeps: "I d \<Longrightarrow> apply_change env appID raw d = Inr d1 \<Longrightarrow> I d1"
  using execute_change_keeps by (auto simp: apply_change_def split: option.splits sum.splits if_splits)

lemma batch_keeps:
  "I d \<Longrightarrow> ev_application_id ev = appID \<Longrightarrow>
    executeApplicationAfterEditModeChanged env ev d = Inr d1 \<Longrightarrow> I d1"
  by (auto simp: executeApplicationAfterEditModeChanged_def split: option.splits
      elim: fold_res_invariant intro: apply_change_keeps)

lemma data_changed_keeps:
  "I d \<Longrightarrow> ev_application_id ev = appID \<Longrightarrow> executeComponentDataChanged env ev d = Inr d1 \<Longrightarrow> I d1"
  using data_update by (auto simp: executeComponentDataChanged_def Let_def split: option.splits if_splits)

end

end
