(* ===== verification/RepoLaws.thy ===== *)
theory RepoLaws
  imports EditLaws
begin

section \<open>The repository keeps the integrity of the tables\<close>

text \<open>
  Every operation of the application repository, of the event log and of the reminder store keeps
  \<open>db_ok\<close>, and the contract of the structural operations holds for it.
\<close>

named_theorems keeps_ok "operations that keep the integrity of the tables"

lemmas table_ok_defs = db_ok_def keys_ok_def refs_ok_def roles_ok_def log_ok_def
  group_ids_def event_ids_def app_ids_def

subsection \<open>Applications\<close>

lemma update_apps_ok:
  assumes "update_apps env site p f e d = Inr d1" and "db_ok d" and "\<And>a. ar_id (f a) = ar_id a"
  shows "db_ok d1"
  using assms by (auto simp: update_apps_def result_simps intro: db_ok_update_apps)

lemma UpdateLastSequence_ok [keeps_ok]: "UpdateLastSequence env appID n d = Inr d1 \<Longrightarrow> db_ok d \<Longrightarrow> db_ok d1"
  unfolding UpdateLastSequence_def by (erule update_apps_ok) simp_all

lemma SetAgentReadEnabled_ok [keeps_ok]: "SetAgentReadEnabled env appID b d = Inr d1 \<Longrightarrow> db_ok d \<Longrightarrow> db_ok d1"
  unfolding SetAgentReadEnabled_def by (erule update_apps_ok) simp_all

lemma UpdateApplicationMetadata_ok [keeps_ok]:
  "UpdateApplicationMetadata env appID name icon d = Inr d1 \<Longrightarrow> db_ok d \<Longrightarrow> db_ok d1"
  unfolding UpdateApplicationMetadata_def by (erule update_apps_ok) simp_all

lemma repoDeleteApplication_ok [keeps_ok]: "repoDeleteApplication env appID d = Inr d1 \<Longrightarrow> db_ok d \<Longrightarrow> db_ok d1"
  unfolding repoDeleteApplication_def by (erule update_apps_ok) simp_all

lemma repoStartMove_ok [keeps_ok]: "repoStartMove env appID url d = Inr (n, d1) \<Longrightarrow> db_ok d \<Longrightarrow> db_ok d1"
  by (auto simp: repoStartMove_def result_simps intro: db_ok_update_apps)

lemma repoAbortMove_ok [keeps_ok]: "repoAbortMove env appID d = Inr d1 \<Longrightarrow> db_ok d \<Longrightarrow> db_ok d1"
  by (auto simp: repoAbortMove_def result_simps intro: db_ok_update_apps)

lemma UpdateApplicationTimestamp_ok [keeps_ok]:
  "UpdateApplicationTimestamp env appID d = Inr d1 \<Longrightarrow> db_ok d \<Longrightarrow> db_ok d1"
  by (auto simp: UpdateApplicationTimestamp_def result_simps intro: db_ok_update_apps)

text \<open>Adding a row with a fresh key to \<open>applications\<close> keeps all references.\<close>

lemma db_ok_add_app:
  assumes "db_ok d" and "ar_id a \<notin> set (app_ids d)"
  shows "db_ok (d\<lparr>t_apps := t_apps d @ [a]\<rparr>)"
  using assms by (simp add: table_ok_defs) blast

lemma upsertApplication_ok [keeps_ok]:
  assumes "upsertApplication env app d = Inr d1" and "db_ok d"
  shows "db_ok d1"
proof (cases "list_ex (\<lambda>a. ar_id a = ap_id app) (t_apps d)")
  case True
  then show ?thesis
    using assms by (auto simp: upsertApplication_def result_simps upsert_def intro!: db_ok_update_apps)
next
  case False
  then have "ap_id app \<notin> set (app_ids d)" by (auto simp: list_ex_set app_ids_def)
  with assms False show ?thesis
    by (auto simp: upsertApplication_def result_simps upsert_def intro!: db_ok_add_app)
qed

lemma PurgeApplication_ok [keeps_ok]: "PurgeApplication env appID cutoff d = Inr d1 \<Longrightarrow> db_ok d \<Longrightarrow> db_ok d1"
  by (auto simp: PurgeApplication_def result_simps intro: db_ok_drop_apps)

subsection \<open>Groups and components\<close>

lemma db_ok_add_group:
  assumes "db_ok d" and "g_id g \<notin> set (group_ids d)" and "g_application_id g \<in> set (app_ids d)"
  shows "db_ok (d\<lparr>t_groups := t_groups d @ [g]\<rparr>)"
  using assms by (simp add: table_ok_defs)

lemma db_ok_add_comp:
  assumes "db_ok d" and "c_id c \<notin> c_id ` set (t_comps d)" and "c_group_id c \<in> set (group_ids d)"
    and "c_application_id c \<in> set (app_ids d)"
  shows "db_ok (d\<lparr>t_comps := t_comps d @ [c]\<rparr>)"
  using assms by (auto simp: table_ok_defs)

lemma CreateComponentGroup_ok [keeps_ok]:
  assumes "CreateComponentGroup env g d = Inr d1" and "db_ok d"
  shows "db_ok d1"
proof (cases "list_ex (\<lambda>r. g_id r = g_id g) (t_groups d)")
  case True
  then show ?thesis
    using assms by (auto simp: CreateComponentGroup_def result_simps upsert_def intro!: db_ok_update_groups)
next
  case False
  then have "g_id g \<notin> set (group_ids d)" by (auto simp: list_ex_set group_ids_def)
  with assms False show ?thesis
    by (auto simp: CreateComponentGroup_def result_simps upsert_def intro!: db_ok_add_group)
qed

lemma CreateComponent_ok [keeps_ok]:
  assumes "CreateComponent env c d = Inr d1" and "db_ok d"
  shows "db_ok d1"
proof (cases "list_ex (\<lambda>r. c_id r = c_id c) (t_comps d)")
  case True
  then show ?thesis
    using assms by (auto simp: CreateComponent_def Let_def result_simps upsert_def intro!: db_ok_update_comps)
next
  case False
  then have "c_id c \<notin> c_id ` set (t_comps d)" by (auto simp: list_ex_set)
  with assms False show ?thesis
    by (auto simp: CreateComponent_def Let_def result_simps upsert_def intro!: db_ok_add_comp)
qed

lemma group_of_comp: "db_ok d \<Longrightarrow> c \<in> set (t_comps d) \<Longrightarrow> c_group_id c \<in> set (group_ids d)"
  by (simp add: db_ok_def refs_ok_def)

lemma update_comps_ok:
  assumes "update_comps env site cid f d = Inr d1" and "db_ok d"
    and "\<And>c. c_id (f c) = c_id c \<and> c_application_id (f c) = c_application_id c \<and> c_group_id (f c) = c_group_id c"
  shows "db_ok d1"
  using assms group_of_comp [OF assms(2)]
  by (auto simp: update_comps_def result_simps intro!: db_ok_update_comps)

lemma UpdateComponentData_ok [keeps_ok]: "UpdateComponentData env cid v d = Inr d1 \<Longrightarrow> db_ok d \<Longrightarrow> db_ok d1"
  unfolding UpdateComponentData_def by (erule update_comps_ok) simp_all

lemma UpdateComponentIndex_ok [keeps_ok]: "UpdateComponentIndex env cid n d = Inr d1 \<Longrightarrow> db_ok d \<Longrightarrow> db_ok d1"
  unfolding UpdateComponentIndex_def by (auto simp: result_simps elim!: update_comps_ok)

lemma DeleteComponent_ok [keeps_ok]: "DeleteComponent env cid d = Inr d1 \<Longrightarrow> db_ok d \<Longrightarrow> db_ok d1"
  by (auto simp: DeleteComponent_def result_simps intro: db_ok_drop_comps)

lemma update_groups_ok:
  assumes "update_groups env site gid f d = Inr d1" and "db_ok d"
    and "\<And>g. g_id (f g) = g_id g \<and> g_application_id (f g) = g_application_id g"
  shows "db_ok d1"
  using assms by (auto simp: update_groups_def result_simps intro!: db_ok_update_groups)

lemma UpdateComponentGroupIndex_ok [keeps_ok]:
  "UpdateComponentGroupIndex env gid n d = Inr d1 \<Longrightarrow> db_ok d \<Longrightarrow> db_ok d1"
  unfolding UpdateComponentGroupIndex_def by (auto simp: result_simps elim!: update_groups_ok)

lemma UpdateComponentGroup_ok [keeps_ok]:
  "UpdateComponentGroup env gid nm n d = Inr d1 \<Longrightarrow> db_ok d \<Longrightarrow> db_ok d1"
  unfolding UpdateComponentGroup_def by (auto simp: result_simps elim!: update_groups_ok)

lemma DeleteComponentGroup_ok [keeps_ok]: "DeleteComponentGroup env gid d = Inr d1 \<Longrightarrow> db_ok d \<Longrightarrow> db_ok d1"
  by (auto simp: DeleteComponentGroup_def result_simps intro: db_ok_drop_groups)

interpretation integrity: edit_contract env appID db_ok for env appID
proof
  show "keys_ok d" if "db_ok d" for d using that by (simp add: db_ok_def)
qed (auto intro: keeps_ok)

subsection \<open>Members\<close>

lemma db_ok_update_members:
  assumes "db_ok d"
    and "\<And>m. p m \<Longrightarrow> m_id (f m) = m_id m \<and> m_application_id (f m) = m_application_id m
      \<and> m_public_key (f m) = m_public_key m"
    and "\<And>m. p m \<Longrightarrow> m \<in> set (t_members d) \<Longrightarrow> valid_role (m_role (f m))"
  shows "db_ok (d\<lparr>t_members := update_where p f (t_members d)\<rparr>)"
proof -
  let ?ms = "update_where p f (t_members d)"
  have "map m_id ?ms = map m_id (t_members d)"
    "map (\<lambda>m. (m_application_id m, m_public_key m)) ?ms = map (\<lambda>m. (m_application_id m, m_public_key m)) (t_members d)"
    using assms(2) by (auto intro: map_update_where)
  moreover have "\<forall>m \<in> set ?ms. valid_role (m_role m)" "\<forall>m \<in> set ?ms. m_application_id m \<in> set (app_ids d)"
    using assms by (auto simp: in_update_where db_ok_def roles_ok_def refs_ok_def)
  moreover have "app_ids (d\<lparr>t_members := ms\<rparr>) = app_ids d" for ms by (simp add: app_ids_def)
  ultimately show ?thesis
    using assms(1) by (simp add: db_ok_def keys_ok_def refs_ok_def roles_ok_def log_ok_def group_ids_def event_ids_def)
qed

lemma db_ok_add_member:
  assumes "db_ok d" and "m_id m \<notin> m_id ` set (t_members d)" and "m_application_id m \<in> set (app_ids d)"
    and "valid_role (m_role m)"
    and "\<forall>x \<in> set (t_members d). \<not> same_member (m_application_id m) (m_public_key m) x"
  shows "db_ok (d\<lparr>t_members := t_members d @ [m]\<rparr>)"
  using assms by (auto simp: table_ok_defs same_member_def)

lemma CreateMember_ok [keeps_ok]:
  assumes "CreateMember env mb d = Inr d1" and "db_ok d"
  shows "db_ok d1"
proof (cases "list_ex (same_member (mb_application_id mb) (mb_public_key mb)) (t_members d)")
  case True
  then show ?thesis
    using assms by (auto simp: CreateMember_def Let_def result_simps upsert_def intro!: db_ok_update_members)
next
  case False
  then show ?thesis
    using assms by (auto simp: CreateMember_def Let_def result_simps upsert_def list_ex_set intro!: db_ok_add_member)
qed

lemma UpdateMemberRole_ok [keeps_ok]: "UpdateMemberRole env mid r d = Inr d1 \<Longrightarrow> db_ok d \<Longrightarrow> db_ok d1"
  by (auto simp: UpdateMemberRole_def Let_def result_simps intro!: db_ok_update_members)

lemma DeleteMember_ok [keeps_ok]: "DeleteMember env mid d = Inr d1 \<Longrightarrow> db_ok d \<Longrightarrow> db_ok d1"
  by (auto simp: DeleteMember_def result_simps intro: db_ok_drop_members)

subsection \<open>Registration and moves\<close>

lemma register_group_ok: "register_group env appID g d = Inr d1 \<Longrightarrow> db_ok d \<Longrightarrow> db_ok d1"
  by (auto simp: register_group_def register_component_def result_simps
      elim!: fold_res_invariant [where P = db_ok] intro: keeps_ok)

lemma repoRegisterApplication_ok [keeps_ok]:
  assumes "repoRegisterApplication env app d = Inr d1" and "db_ok d"
  shows "db_ok d1"
proof -
  obtain d2 d3 where "upsertApplication env app d = Inr d2"
    and m: "fold_res (register_member env (ap_id app)) (ap_members app) d2 = Inr d3"
    and g: "fold_res (register_group env (ap_id app)) (ap_groups app) d3 = Inr d1"
    using assms(1) by (auto simp: repoRegisterApplication_def result_simps)
  then have "db_ok d2" using assms(2) upsertApplication_ok by blast
  then have "db_ok d3"
    by (rule fold_res_invariant [OF m]) (auto simp: register_member_def result_simps intro: keeps_ok)
  then show ?thesis
    by (rule fold_res_invariant [OF g]) (auto intro: register_group_ok)
qed

lemma clear_tables_ok: "clear_tables env appID d = Inr d1 \<Longrightarrow> db_ok d \<Longrightarrow> db_ok d1"
  by (auto simp: clear_tables_def result_simps intro!: db_ok_drop_groups db_ok_drop_comps db_ok_drop_events)

lemma repoCompleteMove_ok [keeps_ok]:
  "repoCompleteMove env appID url token t d = Inr d1 \<Longrightarrow> db_ok d \<Longrightarrow> db_ok d1"
  by (auto simp: repoCompleteMove_def result_simps elim!: clear_tables_ok update_apps_ok)

subsection \<open>The log and the reminders\<close>

lemma CreateEvent_ok [keeps_ok]:
  assumes "CreateEvent env ev d = Inr (e, d1)" and "db_ok d"
  shows "db_ok d1"
proof -
  have e: "ev_id e \<notin> set (event_ids d)" "ev_application_id e = [] \<or> ev_application_id e \<in> set (app_ids d)"
    "d1 = d\<lparr>t_events := t_events d @ [(next_ordinal d, stored_form e)], next_ordinal := next_ordinal d + 1\<rparr>"
    using assms(1) by (auto simp: CreateEvent_def Let_def result_simps)
  then show ?thesis
    using assms(2) by (auto simp: table_ok_defs stored_form_def sorted_wrt_append)
qed

lemma DeleteOlderThan_ok [keeps_ok]: "DeleteOlderThan env t d = Inr (n, d1) \<Longrightarrow> db_ok d \<Longrightarrow> db_ok d1"
  by (auto simp: DeleteOlderThan_def Let_def result_simps intro: db_ok_drop_events)

lemma db_ok_ordinal: "db_ok d \<Longrightarrow> next_ordinal d \<le> n \<Longrightarrow> db_ok (d\<lparr>next_ordinal := n\<rparr>)"
  by (fastforce simp: table_ok_defs)

lemma db_ok_reminders:
  assumes "db_ok d" and "\<forall>r \<in> set rs. r_component_id r \<in> c_id ` set (t_comps d)"
  shows "db_ok (d\<lparr>t_reminders := rs\<rparr>)"
  using assms by (simp add: table_ok_defs)

text \<open>A rule change touches no table but the reminders.\<close>

definition reminders_only :: "db \<Rightarrow> db \<Rightarrow> bool" where
  "reminders_only d d1 \<longleftrightarrow> d1 = d\<lparr>t_reminders := t_reminders d1\<rparr>"

lemma reminders_only_trans: "reminders_only a b \<Longrightarrow> reminders_only b c \<Longrightarrow> reminders_only a c"
  by (cases a; cases b; cases c) (simp add: reminders_only_def)

lemma reminders_only_comps: "reminders_only d d1 \<Longrightarrow> t_comps d1 = t_comps d"
  by (cases d; cases d1) (simp add: reminders_only_def)

lemma insertRow_only:
  assumes "insertRow env data i spec an du fi st d = Inr d1"
  shows "reminders_only d d1" "db_ok d \<Longrightarrow> db_ok d1"
proof -
  obtain r where r: "d1 = d\<lparr>t_reminders := t_reminders d @ [r]\<rparr>" "r_component_id r \<in> c_id ` set (t_comps d)"
    using assms by (auto simp: insertRow_def result_simps)
  then show "reminders_only d d1" by (simp add: reminders_only_def)
  show "db_ok d1" if "db_ok d"
    unfolding r(1) using that r(2) by (intro db_ok_reminders) (simp_all add: db_ok_def refs_ok_def)
qed

lemma insert_offsets_only:
  "insert_offsets env data i specs d = Inr d1 \<Longrightarrow> reminders_only d d1 \<and> (db_ok d \<longrightarrow> db_ok d1)"
proof (induction specs arbitrary: i d)
  case Nil
  then show ?case by (simp add: reminders_only_def)
next
  case (Cons spec specs)
  then obtain fi d2 where "insertRow env data i spec (rc_due_at data) (rc_due_at data) fi ''pending'' d = Inr d2"
    and "insert_offsets env data (i + 1) specs d2 = Inr d1"
    by (auto simp: result_simps split: option.splits)
  with Cons.IH [of "i + 1" d2] insertRow_only show ?case by (blast intro: reminders_only_trans)
qed

lemma ApplyRuleChange_only:
  assumes "ApplyRuleChange env data d = Inr d1"
  shows "reminders_only d d1" "db_ok d \<Longrightarrow> db_ok d1"
proof -
  let ?k = "d\<lparr>t_reminders := filter (\<lambda>r. r_rule_id r \<noteq> rc_id data) (t_reminders d)\<rparr>"
  have "reminders_only d ?k" by (simp add: reminders_only_def)
  moreover have "db_ok d \<Longrightarrow> db_ok ?k" by (rule db_ok_reminders) (simp_all add: db_ok_def refs_ok_def)
  ultimately have k: "reminders_only d ?k" "db_ok d \<Longrightarrow> db_ok ?k" by simp_all
  consider "d1 = d" | "insertRow env data tombstoneOffsetIndex ''PT0S'' (rc_due_at data) (rc_due_at data)
      (rc_due_at data) ''cancelled'' ?k = Inr d1" | "insert_offsets env data 0 (rc_offsets data) ?k = Inr d1"
    using assms by (auto simp: ApplyRuleChange_def result_simps split: if_splits)
  then have "reminders_only d d1 \<and> (db_ok d \<longrightarrow> db_ok d1)"
  proof cases
    case 1
    then show ?thesis by (simp add: reminders_only_def)
  next
    case 2
    then show ?thesis using k insertRow_only by (blast intro: reminders_only_trans)
  next
    case 3
    then show ?thesis using k insert_offsets_only by (blast intro: reminders_only_trans)
  qed
  then show "reminders_only d d1" "db_ok d \<Longrightarrow> db_ok d1" by simp_all
qed

lemma executeEvent_ok [keeps_ok]:
  assumes "executeEvent s env ev d = Inr d1" and "db_ok d"
  shows "db_ok d1"
proof (cases "ev_type ev")
  case EventTypeMemberAdded
  with assms show ?thesis
    by (auto simp: executeEvent_def executeMemberAdded_def Let_def result_simps intro: keeps_ok)
next
  case EventTypeMemberRemoved
  with assms show ?thesis
    by (auto simp: executeEvent_def executeMemberRemoved_def Let_def result_simps intro: keeps_ok
        split: sum.splits if_splits)
next
  case EventTypeMemberRoleChanged
  with assms show ?thesis
    by (auto simp: executeEvent_def executeMemberRoleChanged_def Let_def result_simps intro: keeps_ok
        split: sum.splits if_splits)
next
  case EventTypeApplicationDeleted
  with assms show ?thesis
    by (auto simp: executeEvent_def executeApplicationDeleted_def result_simps intro: keeps_ok)
next
  case EventTypeApplicationDataChanged
  with assms show ?thesis
    by (auto simp: executeEvent_def executeApplicationDataChanged_def Let_def result_simps intro: keeps_ok)
next
  case EventTypeComponentDataChanged
  with assms show ?thesis
    using integrity.data_changed_keeps by (auto simp: executeEvent_def)
next
  case EventTypeApplicationAfterEditModeChanged
  with assms show ?thesis
    using integrity.batch_keeps by (auto simp: executeEvent_def)
next
  case EventTypeReminderChanged
  with assms show ?thesis
    using ApplyRuleChange_only(2)
    by (auto simp: executeEvent_def executeReminderChanged_def split: if_splits option.splits)
qed (use assms in \<open>simp_all add: executeEvent_def executeUserSettingsChanged_def\<close>)

end
