(* ===== verification/EventService.thy ===== *)
theory EventService
  imports EventHandlers
begin

section \<open>Accepting and producing events\<close>

text \<open>
  The pipeline of \<open>internal/event/event_service.go\<close>: \<open>AcceptEvent\<close> checks what a client submits,
  \<open>ProduceEvent\<close> takes the space's own events, and both end in \<open>persistAndApply\<close>, the transaction
  that numbers, stores and executes an event. A run returns the tables it leaves behind, the
  result, and what it announced to the sockets and the push service.
\<close>

definition isRetryOf :: "event option \<Rightarrow> string \<Rightarrow> string \<Rightarrow> event_type \<Rightarrow> bool" where
  "isRetryOf stored appID creator t =
     (case stored of None \<Rightarrow> False
      | Some e \<Rightarrow> ev_application_id e = appID \<and> ev_creator e = creator \<and> ev_type e = t)"

subsection \<open>The transaction\<close>

text \<open>
  A statement that the database refuses aborts the transaction, so an error that is only logged
  still makes the commit fail; \<open>updateAppVersion\<close> returns whether that happened.
\<close>

definition updateAppVersion :: "env \<Rightarrow> event \<Rightarrow> db \<Rightarrow> db \<times> bool" where
  "updateAppVersion env ev d =
     (if ev_application_id ev = [] then (d, False)
      else case UpdateLastSequence env (ev_application_id ev) (ev_sequence ev) d of
             Inr d1 \<Rightarrow> (d1, False)
           | Inl _ \<Rightarrow> (d, fault env ''UpdateLastSequence'' d \<noteq> None))"

definition Commit :: "env \<Rightarrow> bool \<Rightarrow> db \<Rightarrow> db result" where
  "Commit env aborted d =
     map_err (wrapf ''failed to commit event'')
       (if aborted then Inl (errorf ''Could not complete operation in a failed transaction'')
        else stmt env ''Commit'' d (Inr d))"

text \<open>
  What a rollback leaves: the tables as they were at the start, with the ordinals that were drawn
  spent. A rule change has committed in a transaction of the reminder store, so it stays.
\<close>

definition rollback :: "event \<Rightarrow> db \<Rightarrow> db \<Rightarrow> db" where
  "rollback ev d d1 =
     (if ev_type ev = EventTypeReminderChanged
      then d\<lparr>next_ordinal := next_ordinal d1, t_reminders := t_reminders d1\<rparr>
      else d\<lparr>next_ordinal := next_ordinal d1\<rparr>)"

text \<open>
  Locking the application: a deleted one takes no more events, except the record that it moved.
\<close>

definition lock_application :: "env \<Rightarrow> event \<Rightarrow> db \<Rightarrow> unit result" where
  "lock_application env ev d =
     stmt env ''lock_timeout'' d
      (case fault env ''lock_application'' d of
         Some x \<Rightarrow> Inl (wrapf ''failed to lock application'' (driver_err x))
       | None \<Rightarrow>
           (case find (\<lambda>a. ar_id a = ev_application_id ev) (t_apps d) of
              None \<Rightarrow> Inl (errw ErrUnappliable ''application not found'')
            | Some a \<Rightarrow> rguard (live a \<or> ev_type ev = EventTypeApplicationMoved)
                         (errw ErrUnappliable ''application not found'') (Inr ())))"

datatype checked = Existing event | Fresh

definition check_duplicate :: "env \<Rightarrow> event \<Rightarrow> db \<Rightarrow> checked result" where
  "check_duplicate env ev d =
     rbind (map_err (wrapf ''failed to check for duplicate event'') (GetByID env ''tx.GetByID'' (ev_id ev) d))
       (\<lambda>existing. case existing of
          None \<Rightarrow> Inr Fresh
        | Some e \<Rightarrow> (if isRetryOf existing (ev_application_id ev) (ev_creator ev) (ev_type ev) then Inr (Existing e)
                     else Inl (errw ErrUnappliable ''event id is already used by another event'')))"

definition number_event :: "env \<Rightarrow> event \<Rightarrow> bool \<Rightarrow> db \<Rightarrow> event result" where
  "number_event env ev sequenced d =
     (if sequenced
      then rbind (map_err (wrapf ''sequence generation failed'') (GetNextSequence env (ev_application_id ev) d))
             (\<lambda>sn. Inr (ev\<lparr>ev_sequence := sn, ev_created_at := now env\<rparr>))
      else Inr (ev\<lparr>ev_sequence := 0, ev_created_at := now env\<rparr>))"

text \<open>Storing and executing; the tables are returned for the errors too, for what is not undone.\<close>

definition run_event :: "EventService \<Rightarrow> env \<Rightarrow> event \<Rightarrow> bool \<Rightarrow> db \<Rightarrow> db \<times> event result" where
  "run_event s env ev sequenced d =
     (let spent = d\<lparr>next_ordinal := next_ordinal d + 1\<rparr>
      in case CreateEvent env ev d of
           Inl e \<Rightarrow> (spent, Inl (wrapf ''persistence failed'' e))
         | Inr (e1, d1) \<Rightarrow>
             (case executeEvent s env e1 d1 of
                Inl e \<Rightarrow> (spent, Inl (wrapf ''execution failed'' e))
              | Inr d2 \<Rightarrow>
                  (case (if sequenced then updateAppVersion env e1 d2 else (d2, False)) of
                     (d3, aborted) \<Rightarrow>
                       (case Commit env aborted d3 of
                          Inl e \<Rightarrow> (d3, Inl e)
                        | Inr d4 \<Rightarrow> (d4, Inr e1)))))"

definition persistAndApply ::
    "EventService \<Rightarrow> env \<Rightarrow> event \<Rightarrow> bool \<Rightarrow> db \<Rightarrow> db \<times> (event \<times> bool) result" where
  "persistAndApply s env ev sequenced d =
     (case stmt env ''BeginTx'' d (Inr ()) of
        Inl e \<Rightarrow> (d, Inl (applyErr (wrapf ''failed to begin event transaction'' e)))
      | Inr _ \<Rightarrow>
     (case rbind (if sequenced then lock_application env ev d else Inr ()) (\<lambda>_. check_duplicate env ev d) of
        Inl e \<Rightarrow> (d, Inl (applyErr e))
      | Inr (Existing e) \<Rightarrow> (d, Inr (e, True))
      | Inr Fresh \<Rightarrow>
     (case number_event env ev sequenced d of
        Inl e \<Rightarrow> (d, Inl (applyErr e))
      | Inr ev1 \<Rightarrow>
     (case run_event s env ev1 sequenced d of
        (d1, Inl e) \<Rightarrow> (rollback ev1 d d1, Inl (applyErr e))
      | (d1, Inr stored) \<Rightarrow> (d1, Inr (stored, False))))))"

subsection \<open>Announcing an event\<close>

datatype notice =
    BroadcastToApplication string event
  | BroadcastToUser string event
  | Push event "application option" string bool "string list"

definition isUserChannelFanout :: "event_type \<Rightarrow> bool" where
  "isUserChannelFanout t \<longleftrightarrow> t = EventTypeApplicationDeleted \<or> t = EventTypeApplicationMoved"

definition explicitRecipientEventTypes :: "event_type \<Rightarrow> bool" where
  "explicitRecipientEventTypes t \<longleftrightarrow> t = EventTypeReminderFired"

definition extractRecipients :: "gmap \<Rightarrow> string list" where
  "extractRecipients data =
     (case mindex data ''recipients'' of
        GStrs ss \<Rightarrow> ss
      | GList xs \<Rightarrow> filter (\<lambda>s. s \<noteq> []) (List.map_filter as_str xs)
      | _ \<Rightarrow> [])"

text \<open>Who gets a push: an explicit list, the member whose role changed, or everyone but the creator.\<close>

definition recipients :: "event \<Rightarrow> member list \<Rightarrow> string list" where
  "recipients ev members =
     (if ev_type ev = EventTypeMemberRoleChanged
      then let target = getString (data_of ev) ''memberPublicKey''
           in if target \<noteq> [] \<and> target \<noteq> ev_creator ev \<and> list_ex (\<lambda>m. mb_public_key m = target) members
              then [target] else []
      else let explicit = (if explicitRecipientEventTypes (ev_type ev) then extractRecipients (data_of ev) else [])
           in if explicit = [] then filter (\<lambda>k. k \<noteq> ev_creator ev) (map mb_public_key members) else explicit)"

definition creator_name :: "event \<Rightarrow> member list \<Rightarrow> string" where
  "creator_name ev members =
     (case find (\<lambda>m. mb_public_key m = ev_creator ev \<and> mb_display_name m \<noteq> None) members of
        None \<Rightarrow> [] | Some m \<Rightarrow> or_empty (mb_display_name m))"

definition broadcastEvent :: "EventService \<Rightarrow> env \<Rightarrow> event \<Rightarrow> bool \<Rightarrow> db \<Rightarrow> notice list" where
  "broadcastEvent s env ev agent d =
     (let appID = ev_application_id ev;
          members = (if appID \<noteq> [] \<and> (isUserChannelFanout (ev_type ev) \<or> sv_pusher s)
                     then (case GetMembersByApplicationID env appID d of Inl _ \<Rightarrow> [] | Inr ms \<Rightarrow> ms) else []);
          keys = recipients ev members
      in (if sv_broadcaster s then [BroadcastToApplication appID ev] else [])
       @ (if isUserChannelFanout (ev_type ev) \<and> sv_broadcaster s
          then map (\<lambda>m. BroadcastToUser (mb_public_key m) ev) members else [])
       @ (if sv_pusher s \<and> appID \<noteq> [] \<and> keys \<noteq> []
          then [Push ev (case GetApplicationByID env appID d of Inl _ \<Rightarrow> None | Inr a \<Rightarrow> Some a)
                  (creator_name ev members) agent keys]
          else []))"

subsection \<open>Accepting what a client submits\<close>

text \<open>
  The checks before the transaction, on the tables as they are when the request arrives: the event
  to store and whether it is numbered, the stored event of a retry, or the error.
\<close>

datatype decision = Proceed event bool | Retry event

text \<open>The creator is the submitter, and the application is the one the data names.\<close>

definition address_event :: "env \<Rightarrow> event \<Rightarrow> user \<Rightarrow> event result" where
  "address_event env ev u =
     (let e0 = ev\<lparr>ev_creator := u_public_key u\<rparr>
      in case ValidateEvent env e0 of
           Some e \<Rightarrow> Inl (wrapf ''validation failed'' e)
         | None \<Rightarrow>
             (if IsUserScoped (ev_type e0) then Inr (e0\<lparr>ev_application_id := []\<rparr>)
              else rguard (getString (data_of e0) ''applicationId'' \<noteq> [])
                     (invalid ''applicationId not found in event data'')
                     (Inr (e0\<lparr>ev_application_id := getString (data_of e0) ''applicationId''\<rparr>))))"

definition authorize_in_app :: "env \<Rightarrow> event \<Rightarrow> user \<Rightarrow> db \<Rightarrow> decision result" where
  "authorize_in_app env ev u d =
     (let e1 = ev\<lparr>ev_space_id := u_space_id u\<rparr>
      in case MoveGuard env (ev_application_id e1) (u_public_key u) True d of
           Some e \<Rightarrow> Inl e
         | None \<Rightarrow>
        (case GetApplicationByID env (ev_application_id e1) d of
           Inl e \<Rightarrow> Inl (if errors_is e ErrNotFound then joinw ErrUnappliable e
                         else wrapf ''application not found'' e)
         | Inr app \<Rightarrow>
        (case AuthorizeEvent e1 (Some u) (Some app) of
           Some e \<Rightarrow> Inl (wrapf ''authorization failed'' e)
         | None \<Rightarrow>
        (case checkEventStaleness (ev_type e1) (ev_created_at e1) (now env) of
           Some e \<Rightarrow> Inl e
         | None \<Rightarrow> Inr (Proceed e1 True)))))"

definition authorize_user_scoped :: "event \<Rightarrow> user \<Rightarrow> decision result" where
  "authorize_user_scoped ev u =
     (case AuthorizeUserScopedEvent ev (Some u) of
        Some e \<Rightarrow> Inl (wrapf ''authorization failed'' e)
      | None \<Rightarrow> Inr (Proceed (ev\<lparr>ev_space_id := u_space_id u\<rparr>) False))"

definition accept_checks :: "env \<Rightarrow> event \<Rightarrow> user \<Rightarrow> db \<Rightarrow> decision result" where
  "accept_checks env ev u d =
     rbind (address_event env ev u) (\<lambda>e.
     rbind (map_err (wrapf ''failed to check for duplicate event'') (GetByID env ''GetByID'' (ev_id e) d)) (\<lambda>existing.
       case existing of
         Some x \<Rightarrow> (if isRetryOf existing (ev_application_id e) (ev_creator e) (ev_type e) then Inr (Retry x)
                    else if IsUserScoped (ev_type e) then authorize_user_scoped e u
                    else authorize_in_app env e u d)
       | None \<Rightarrow> (if IsUserScoped (ev_type e) then authorize_user_scoped e u else authorize_in_app env e u d)))"

definition announce :: "EventService \<Rightarrow> env \<Rightarrow> event \<Rightarrow> bool \<Rightarrow> bool \<Rightarrow> db \<Rightarrow> notice list" where
  "announce s env stored sequenced agent d =
     (if sequenced then broadcastEvent s env stored agent d
      else if sv_broadcaster s then [BroadcastToUser (ev_creator stored) stored] else [])"

text \<open>The transaction and, for an event that was not a duplicate, its announcement.\<close>

definition finish_event ::
    "EventService \<Rightarrow> env \<Rightarrow> event \<Rightarrow> bool \<Rightarrow> bool \<Rightarrow> db \<Rightarrow> db \<times> event result \<times> notice list" where
  "finish_event s env ev sequenced agent d =
     (case persistAndApply s env ev sequenced d of
        (d1, Inl e) \<Rightarrow> (d1, Inl e, [])
      | (d1, Inr (stored, dup)) \<Rightarrow>
          (d1, Inr stored, if dup then [] else announce s env stored sequenced agent d1))"

definition AcceptEvent ::
    "EventService \<Rightarrow> env \<Rightarrow> event \<Rightarrow> user \<Rightarrow> db \<Rightarrow> db \<times> event result \<times> notice list" where
  "AcceptEvent s env ev u d =
     (case accept_checks env ev u d of
        Inl e \<Rightarrow> (d, Inl e, [])
      | Inr (Retry stored) \<Rightarrow> (d, Inr stored, [])
      | Inr (Proceed e sequenced) \<Rightarrow> finish_event s env e sequenced (u_agent u) d)"

subsection \<open>Events of the space itself\<close>

definition ProduceEvent ::
    "EventService \<Rightarrow> env \<Rightarrow> event \<Rightarrow> db \<Rightarrow> db \<times> event result \<times> notice list" where
  "ProduceEvent s env ev d =
     (case ValidateEvent env ev of
        Some e \<Rightarrow> (d, Inl (wrapf ''validation failed'' e), [])
      | None \<Rightarrow>
          (if IsUserScoped (ev_type ev) \<and> ev_application_id ev = [] then finish_event s env ev False False d
           else let appID = getString (data_of ev) ''applicationId''
                in if appID = [] then (d, Inl (invalid ''applicationId not found in event data''), [])
                   else finish_event s env (ev\<lparr>ev_application_id := appID\<rparr>) True False d))"

definition ProduceApplicationMoved ::
    "EventService \<Rightarrow> env \<Rightarrow> string \<Rightarrow> string \<Rightarrow> string \<Rightarrow> string \<Rightarrow> db \<Rightarrow> db \<times> unit result \<times> notice list" where
  "ProduceApplicationMoved s env appID creatorPublicKey targetSpaceURL inviteToken d =
     (case ProduceEvent s env
        \<lparr>ev_id = fresh_uuid env, ev_created_at = 0, ev_application_id = appID, ev_sequence = 0,
         ev_type = EventTypeApplicationMoved, ev_creator = creatorPublicKey, ev_version = 1,
         ev_data = Some [(''version'', GFloat 1), (''applicationId'', GStr appID),
           (''targetSpaceUrl'', GStr targetSpaceURL), (''inviteToken'', GStr inviteToken)],
         ev_space_id = []\<rparr> d of
        (d1, r, ns) \<Rightarrow> (d1, rbind r (\<lambda>_. Inr ()), ns))"

subsection \<open>Reading and pruning\<close>

record EventsResponse =
  er_events :: "event list"
  er_has_more :: bool
  er_full_resync :: bool
  er_app_versions :: "(string \<times> int) list"

definition loadAppVersions :: "env \<Rightarrow> string \<Rightarrow> db \<Rightarrow> (string \<times> int) list" where
  "loadAppVersions env key d =
     (case GetAppVersionsByMemberPublicKey env key d of
        Inl _ \<Rightarrow> []
      | Inr vs \<Rightarrow> List.map_filter (\<lambda>(a, ls). map_option (\<lambda>n. (a, n)) ls) vs)"

definition GetEventsSince :: "env \<Rightarrow> string \<Rightarrow> string \<Rightarrow> int \<Rightarrow> db \<Rightarrow> EventsResponse result" where
  "GetEventsSince env key sinceEventID limit d =
     (case GetSince env key sinceEventID limit d of
        Inl e \<Rightarrow>
          (if errors_is e ErrCursorNotFound
           then Inr \<lparr>er_events = [], er_has_more = False, er_full_resync = True,
                     er_app_versions = loadAppVersions env key d\<rparr>
           else Inl (wrapf ''failed to get events'' e))
      | Inr (es, hasMore) \<Rightarrow>
          Inr \<lparr>er_events = es, er_has_more = hasMore, er_full_resync = False,
               er_app_versions = (if hasMore then [] else loadAppVersions env key d)\<rparr>)"

text \<open>\<open>AddDate(0, 0, -n)\<close> in UTC, which the space runs in.\<close>

definition CleanupOldEvents :: "env \<Rightarrow> int \<Rightarrow> db \<Rightarrow> (int \<times> db) result" where
  "CleanupOldEvents env retentionDays d =
     (let days = (if retentionDays \<le> 0 then 7 else retentionDays)
      in DeleteOlderThan env (now env - days * 86400) d)"

end
