(* ===== verification/PipelineLaws.thy ===== *)
theory PipelineLaws
  imports RepoLaws EventService
begin

section \<open>What the event pipeline guarantees\<close>

text \<open>
  The frame of an execution (no handler touches the log), the shape of a run of
  \<open>persistAndApply\<close>, and what follows for clients: a rejected event leaves no trace, a retry is
  answered from the log, and sequence numbers only grow.
\<close>

subsection \<open>The frame of a handler\<close>

text \<open>What no handler changes, and what the structural ones leave alone besides.\<close>

definition marks :: "db \<Rightarrow> (string \<times> int option) list" where
  "marks d = map (\<lambda>a. (ar_id a, ar_last_sequence a)) (t_apps d)"

definition same_log :: "db \<Rightarrow> db \<Rightarrow> bool" where
  "same_log d d1 \<longleftrightarrow> t_events d1 = t_events d \<and> next_ordinal d1 = next_ordinal d \<and> marks d1 = marks d"

definition same_frame :: "db \<Rightarrow> db \<Rightarrow> bool" where
  "same_frame d d1 \<longleftrightarrow> t_apps d1 = t_apps d \<and> t_members d1 = t_members d \<and> t_events d1 = t_events d
     \<and> next_ordinal d1 = next_ordinal d \<and> t_invitations d1 = t_invitations d \<and> t_users d1 = t_users d
     \<and> t_spaces d1 = t_spaces d"

lemma same_frame_log: "same_frame d d1 \<Longrightarrow> same_log d d1"
  by (simp add: same_frame_def same_log_def marks_def)

interpretation frame: edit_contract env appID "\<lambda>d. db_ok d \<and> same_frame d0 d" for env appID d0
proof
  show "keys_ok d" if "db_ok d \<and> same_frame d0 d" for d using that by (simp add: db_ok_def)
next
  fix d d1 cid v
  assume "db_ok d \<and> same_frame d0 d" "UpdateComponentData env cid v d = Inr d1"
  then show "db_ok d1 \<and> same_frame d0 d1"
    using UpdateComponentData_ok
    by (fastforce simp: UpdateComponentData_def update_comps_def result_simps same_frame_def)
next
  fix d d1 cid n
  assume "db_ok d \<and> same_frame d0 d" "UpdateComponentIndex env cid n d = Inr d1"
  then show "db_ok d1 \<and> same_frame d0 d1"
    using UpdateComponentIndex_ok
    by (fastforce simp: UpdateComponentIndex_def update_comps_def result_simps same_frame_def)
next
  fix d d1 cid
  assume "db_ok d \<and> same_frame d0 d" "DeleteComponent env cid d = Inr d1"
  then show "db_ok d1 \<and> same_frame d0 d1"
    using DeleteComponent_ok by (fastforce simp: DeleteComponent_def result_simps same_frame_def)
next
  fix d d1 c
  assume "db_ok d \<and> same_frame d0 d" "CreateComponent env c d = Inr d1"
  then show "db_ok d1 \<and> same_frame d0 d1"
    using CreateComponent_ok by (fastforce simp: CreateComponent_def Let_def result_simps same_frame_def)
next
  fix d d1 gid n
  assume "db_ok d \<and> same_frame d0 d" "UpdateComponentGroupIndex env gid n d = Inr d1"
  then show "db_ok d1 \<and> same_frame d0 d1"
    using UpdateComponentGroupIndex_ok
    by (fastforce simp: UpdateComponentGroupIndex_def update_groups_def result_simps same_frame_def)
next
  fix d d1 gid nm n
  assume "db_ok d \<and> same_frame d0 d" "UpdateComponentGroup env gid nm n d = Inr d1"
  then show "db_ok d1 \<and> same_frame d0 d1"
    using UpdateComponentGroup_ok
    by (fastforce simp: UpdateComponentGroup_def update_groups_def result_simps same_frame_def)
next
  fix d d1 gid
  assume "db_ok d \<and> same_frame d0 d" "DeleteComponentGroup env gid d = Inr d1"
  then show "db_ok d1 \<and> same_frame d0 d1"
    using DeleteComponentGroup_ok by (fastforce simp: DeleteComponentGroup_def result_simps same_frame_def)
next
  fix d d1 g
  assume "db_ok d \<and> same_frame d0 d" "CreateComponentGroup env g d = Inr d1"
  then show "db_ok d1 \<and> same_frame d0 d1"
    using CreateComponentGroup_ok by (fastforce simp: CreateComponentGroup_def result_simps same_frame_def)
qed

lemma same_frame_refl: "same_frame d d"
  by (simp add: same_frame_def)

lemma batch_frame:
  "db_ok d \<Longrightarrow> executeApplicationAfterEditModeChanged env ev d = Inr d1 \<Longrightarrow> same_frame d d1"
  using frame.batch_keeps same_frame_refl by blast

lemma data_changed_frame:
  "db_ok d \<Longrightarrow> executeComponentDataChanged env ev d = Inr d1 \<Longrightarrow> same_frame d d1"
  using frame.data_changed_keeps same_frame_refl by blast

lemma update_apps_log:
  assumes "update_apps env site p f e d = Inr d1" and "\<And>a. ar_id (f a) = ar_id a \<and> ar_last_sequence (f a) = ar_last_sequence a"
  shows "same_log d d1"
  using assms map_update_where [of p "\<lambda>a. (ar_id a, ar_last_sequence a)" f "t_apps d"]
  by (auto simp: update_apps_def result_simps same_log_def marks_def)

lemma executeEvent_log:
  assumes "executeEvent s env ev d = Inr d1" and "db_ok d"
  shows "same_log d d1"
proof (cases "ev_type ev")
  case EventTypeMemberAdded
  with assms show ?thesis
    by (auto simp: executeEvent_def executeMemberAdded_def CreateMember_def Let_def result_simps same_log_def marks_def)
next
  case EventTypeMemberRemoved
  with assms show ?thesis
    by (auto simp: executeEvent_def executeMemberRemoved_def DeleteMember_def Let_def result_simps same_log_def
        marks_def split: sum.splits if_splits)
next
  case EventTypeMemberRoleChanged
  with assms show ?thesis
    by (auto simp: executeEvent_def executeMemberRoleChanged_def UpdateMemberRole_def Let_def result_simps
        same_log_def marks_def split: sum.splits if_splits)
next
  case EventTypeApplicationDeleted
  with assms show ?thesis
    by (auto simp: executeEvent_def executeApplicationDeleted_def repoDeleteApplication_def result_simps
        elim!: update_apps_log)
next
  case EventTypeApplicationDataChanged
  with assms show ?thesis
    by (auto simp: executeEvent_def executeApplicationDataChanged_def UpdateApplicationMetadata_def Let_def
        result_simps elim!: update_apps_log)
next
  case EventTypeComponentDataChanged
  with assms show ?thesis
    by (auto simp: executeEvent_def intro: same_frame_log data_changed_frame)
next
  case EventTypeApplicationAfterEditModeChanged
  with assms show ?thesis
    by (auto simp: executeEvent_def intro: same_frame_log batch_frame)
next
  case EventTypeReminderChanged
  then have "reminders_only d d1"
    using assms ApplyRuleChange_only(1)
    by (auto simp: executeEvent_def executeReminderChanged_def reminders_only_def split: if_splits option.splits)
  then show ?thesis by (cases d; cases d1) (simp add: reminders_only_def same_log_def marks_def)
qed (use assms in \<open>simp_all add: executeEvent_def executeUserSettingsChanged_def same_log_def\<close>)

subsection \<open>The shape of a transaction\<close>

text \<open>A run that ends in an error: nothing but spent ordinals, and a rule change that has committed.\<close>

definition untouched :: "event_type \<Rightarrow> db \<Rightarrow> db \<Rightarrow> bool" where
  "untouched t d d1 \<longleftrightarrow> d1 = d\<lparr>next_ordinal := next_ordinal d1, t_reminders := t_reminders d1\<rparr>
     \<and> next_ordinal d \<le> next_ordinal d1
     \<and> (t \<noteq> EventTypeReminderChanged \<longrightarrow> t_reminders d1 = t_reminders d)"

lemma untouched_refl [simp]: "untouched t d d"
  by (simp add: untouched_def)

lemma number_event_type: "number_event env ev sq d = Inr e \<Longrightarrow>
    ev_type e = ev_type ev \<and> ev_id e = ev_id ev \<and> ev_application_id e = ev_application_id ev
    \<and> ev_creator e = ev_creator ev \<and> ev_data e = ev_data ev \<and> ev_created_at e = now env"
  by (auto simp: number_event_def result_simps split: if_splits)

lemma updateAppVersion_frame:
  "updateAppVersion env ev d = (d1, b) \<Longrightarrow> next_ordinal d1 = next_ordinal d \<and> t_events d1 = t_events d
    \<and> t_reminders d1 = t_reminders d \<and> t_comps d1 = t_comps d \<and> t_groups d1 = t_groups d
    \<and> t_members d1 = t_members d"
  by (auto simp: updateAppVersion_def UpdateLastSequence_def update_apps_def result_simps
      split: if_splits sum.splits)

text \<open>A successful first run, step by step.\<close>

definition fresh_run :: "EventService \<Rightarrow> env \<Rightarrow> event \<Rightarrow> bool \<Rightarrow> db \<Rightarrow> event \<Rightarrow> db \<Rightarrow> bool" where
  "fresh_run s env ev sq d stored d1 \<longleftrightarrow>
     find_event (ev_id ev) d = None \<and> (sq \<longrightarrow> lock_application env ev d = Inr ()) \<and>
     (\<exists>ev1 d2 d3. number_event env ev sq d = Inr ev1 \<and> CreateEvent env ev1 d = Inr (stored, d2)
        \<and> executeEvent s env stored d2 = Inr d3
        \<and> (if sq then updateAppVersion env stored d3 = (d1, False) else d1 = d3))"

lemma GetByID_Inr: "GetByID env site eid d = Inr r \<Longrightarrow> r = find_event eid d \<and> fault env site d = None"
  by (auto simp: GetByID_def result_simps)

lemma check_duplicate_Inr:
  assumes "check_duplicate env ev d = Inr r"
  shows "(r = Fresh \<and> find_event (ev_id ev) d = None) \<or>
    (\<exists>e. r = Existing e \<and> find_event (ev_id ev) d = Some e
      \<and> isRetryOf (Some e) (ev_application_id ev) (ev_creator ev) (ev_type ev))"
  using assms
  by (auto simp: check_duplicate_def result_simps dest!: GetByID_Inr split: option.splits if_splits)

lemma Commit_Inr: "Commit env aborted d = Inr d1 \<Longrightarrow> d1 = d \<and> \<not> aborted"
  by (auto simp: Commit_def result_simps split: if_splits)

lemma run_event_Inr:
  assumes "run_event s env ev sq d = (d1, Inr stored)"
  shows "\<exists>d2 d3. CreateEvent env ev d = Inr (stored, d2) \<and> executeEvent s env stored d2 = Inr d3
    \<and> (if sq then updateAppVersion env stored d3 = (d1, False) else d1 = d3)"
proof -
  obtain e1 d2 where c: "CreateEvent env ev d = Inr (e1, d2)"
    using assms by (cases "CreateEvent env ev d") (auto simp: run_event_def)
  then obtain d3 where x: "executeEvent s env e1 d2 = Inr d3"
    using assms by (cases "executeEvent s env e1 d2") (auto simp: run_event_def)
  obtain d4 ab where u: "(if sq then updateAppVersion env e1 d3 else (d3, False)) = (d4, ab)"
    by fastforce
  then obtain d5 where "Commit env ab d4 = Inr d5"
    using assms c x by (cases "Commit env ab d4") (auto simp: run_event_def)
  moreover from this have "d5 = d4" "\<not> ab" using Commit_Inr by blast+
  ultimately have "stored = e1" "d1 = d4" using assms c x u by (simp_all add: run_event_def)
  then show ?thesis using c x u \<open>\<not> ab\<close> by (auto split: if_splits)
qed

lemma persist_cases:
  assumes "persistAndApply s env ev sq d = (d1, r)"
  obtains (failed) e where "r = Inl e" "d1 = d"
    | (undone) e0 ev1 d2 where "r = Inl (applyErr e0)" "number_event env ev sq d = Inr ev1"
        "run_event s env ev1 sq d = (d2, Inl e0)" "d1 = rollback ev1 d d2"
    | (dup) e where "r = Inr (e, True)" "d1 = d" "find_event (ev_id ev) d = Some e"
        "isRetryOf (Some e) (ev_application_id ev) (ev_creator ev) (ev_type ev)"
    | (fresh) stored where "r = Inr (stored, False)" "fresh_run s env ev sq d stored d1"
proof -
  let ?chk = "rbind (if sq then lock_application env ev d else Inr ()) (\<lambda>_. check_duplicate env ev d)"
  show thesis
  proof (cases "stmt env ''BeginTx'' d (Inr ())")
    case (Inl e)
    then show thesis using assms failed by (auto simp: persistAndApply_def)
  next
    case begun: (Inr u)
    show thesis
    proof (cases ?chk)
      case (Inl e)
      then show thesis using assms failed begun by (auto simp: persistAndApply_def)
    next
      case chk: (Inr c)
      then have lock: "sq \<longrightarrow> lock_application env ev d = Inr ()" and cd: "check_duplicate env ev d = Inr c"
        by (auto simp: rbind_Inr split: if_splits)
      show thesis
      proof (cases c)
        case (Existing e)
        then show thesis
          using assms dup begun chk check_duplicate_Inr [OF cd] by (auto simp: persistAndApply_def)
      next
        case Fresh
        then have none: "find_event (ev_id ev) d = None" using check_duplicate_Inr [OF cd] by auto
        show thesis
        proof (cases "number_event env ev sq d")
          case (Inl e)
          then show thesis using assms failed begun chk Fresh by (auto simp: persistAndApply_def)
        next
          case num: (Inr ev1)
          obtain d2 res where run: "run_event s env ev1 sq d = (d2, res)" by fastforce
          show thesis
          proof (cases res)
            case (Inl e0)
            then show thesis
              using assms undone begun chk Fresh num run by (auto simp: persistAndApply_def)
          next
            case (Inr stored)
            with run have "\<exists>d3 d4. CreateEvent env ev1 d = Inr (stored, d3) \<and> executeEvent s env stored d3 = Inr d4
              \<and> (if sq then updateAppVersion env stored d4 = (d2, False) else d2 = d4)"
              by (intro run_event_Inr) simp
            moreover have "d1 = d2" "r = Inr (stored, False)"
              using assms begun chk Fresh num run Inr by (simp_all add: persistAndApply_def)
            ultimately show thesis using none lock num by (intro fresh) (auto simp: fresh_run_def)
          qed
        qed
      qed
    qed
  qed
qed

lemma CreateEvent_shape:
  assumes "CreateEvent env ev d = Inr (e, d1)"
  shows "e = complete_event env ev" "ev_id e \<notin> set (event_ids d)"
    "d1 = d\<lparr>t_events := t_events d @ [(next_ordinal d, stored_form e)], next_ordinal := next_ordinal d + 1\<rparr>"
  using assms by (auto simp: CreateEvent_def Let_def result_simps)

lemma complete_event_same:
  "ev_id (complete_event env ev) = ev_id ev" "ev_type (complete_event env ev) = ev_type ev"
  "ev_creator (complete_event env ev) = ev_creator ev" "ev_sequence (complete_event env ev) = ev_sequence ev"
  "ev_data (complete_event env ev) = ev_data ev"
  "ev_application_id ev \<noteq> [] \<or> IsUserScoped (ev_type ev) \<Longrightarrow>
    ev_application_id (complete_event env ev) = ev_application_id ev"
  by (auto simp: complete_event_def Let_def)

text \<open>A run that failed spends at most one ordinal, and only a rule change can stay behind.\<close>

lemma run_event_undone:
  assumes "run_event s env ev sq d = (d1, Inl e)" and "db_ok d"
  shows "untouched (ev_type ev) d (rollback ev d d1)"
proof -
  let ?spent = "d\<lparr>next_ordinal := next_ordinal d + 1\<rparr>"
  consider "d1 = ?spent" | e1 d2 d3 ab where "CreateEvent env ev d = Inr (e1, d2)"
      "executeEvent s env e1 d2 = Inr d3" "(if sq then updateAppVersion env e1 d3 else (d3, False)) = (d1, ab)"
    using assms(1) by (auto simp: run_event_def Let_def split: sum.splits prod.splits)
  then show ?thesis
  proof cases
    case 1
    then show ?thesis by (cases d) (simp add: rollback_def untouched_def)
  next
    case 2
    have "db_ok d2" using CreateEvent_ok [OF 2(1) assms(2)] .
    then have "next_ordinal d3 = next_ordinal d2" using executeEvent_log [OF 2(2)] by (simp add: same_log_def)
    then have "next_ordinal d1 = next_ordinal d + 1"
      using 2(3) updateAppVersion_frame [of env e1 d3 d1 ab] CreateEvent_shape(3) [OF 2(1)]
      by (auto split: if_splits)
    then show ?thesis by (cases d) (auto simp: rollback_def untouched_def)
  qed
qed

lemma persist_failed:
  assumes "persistAndApply s env ev sq d = (d1, Inl e)" and "db_ok d"
  shows "untouched (ev_type ev) d d1"
  using assms(1)
proof (cases rule: persist_cases)
  case (undone e0 ev1 d2)
  then have "untouched (ev_type ev1) d d1" using run_event_undone [OF undone(3) assms(2)] by simp
  then show ?thesis using number_event_type [OF undone(2)] by simp
qed simp_all

lemma finish_failed:
  "finish_event s env ev sq ag d = (d1, Inl e, ns) \<Longrightarrow> db_ok d \<Longrightarrow> untouched (ev_type ev) d d1 \<and> ns = []"
  using persist_failed by (fastforce simp: finish_event_def split: prod.splits sum.splits)

lemma address_event_shape:
  assumes "address_event env ev u = Inr e"
  shows "ev_id e = ev_id ev" "ev_type e = ev_type ev" "ev_creator e = u_public_key u" "ev_data e = ev_data ev"
    "ev_created_at e = ev_created_at ev"
    "ev_application_id e = (if IsUserScoped (ev_type ev) then [] else getString (data_of ev) ''applicationId'')"
    "\<not> IsUserScoped (ev_type ev) \<Longrightarrow> getString (data_of ev) ''applicationId'' \<noteq> []"
    "ValidateEvent env (ev\<lparr>ev_creator := u_public_key u\<rparr>) = None"
  using assms by (auto simp: address_event_def Let_def result_simps data_of_def split: option.splits if_splits)

lemma accept_checks_Proceed:
  assumes "accept_checks env ev u d = Inr (Proceed e sq)"
  shows "\<exists>e0. address_event env ev u = Inr e0 \<and> e = e0\<lparr>ev_space_id := u_space_id u\<rparr>
    \<and> sq = (\<not> IsUserScoped (ev_type ev))"
proof -
  obtain e0 where e0: "address_event env ev u = Inr e0"
    and or: "(IsUserScoped (ev_type e0) \<and> authorize_user_scoped e0 u = Inr (Proceed e sq)) \<or>
      (\<not> IsUserScoped (ev_type e0) \<and> authorize_in_app env e0 u d = Inr (Proceed e sq))"
    using assms by (auto simp: accept_checks_def rbind_Inr split: option.splits if_splits)
  have t: "ev_type e0 = ev_type ev" using address_event_shape [OF e0] by simp
  from or show ?thesis
    using e0 t by (auto simp: authorize_user_scoped_def authorize_in_app_def Let_def split: option.splits sum.splits)
qed

end
