(* ===== verification/SeqLaws.thy ===== *)
theory SeqLaws
  imports PipelineLaws
begin

section \<open>Sequence numbers and the log\<close>

text \<open>
  The lemmas about the high-water mark of an application: the largest number in the log and in
  \<open>last_sequence\<close>. A successful run takes the next one, no other operation of the pipeline
  lowers a mark, and a run adds exactly its own row to the log.
\<close>

lemma fold_max_le: "fold max ns (n :: int) \<le> b \<longleftrightarrow> n \<le> b \<and> (\<forall>m \<in> set ns. m \<le> b)"
  by (induction ns arbitrary: n) (auto simp: max_def)

lemma fold_max_snoc: "fold max (ns @ [m]) (n :: int) = max (fold max ns n) m"
  by (simp add: max.commute)

lemma max_seq_snoc: "max_seq (ns @ [n]) = (if ns = [] then n else max (max_seq ns) n)"
  by (cases ns) (simp_all add: max_seq_def max.commute)

lemma max_seq_upper: "m \<in> set ns \<Longrightarrow> m \<le> max_seq ns"
  by (cases ns) (use fold_max_le [of _ _ "max_seq ns"] in \<open>auto simp: max_seq_def\<close>)

lemma last_seq_marks:
  "last_seq x (t_apps d) = (case map_of (marks d) x of Some (Some n) \<Rightarrow> n | _ \<Rightarrow> 0)"
proof -
  have "last_seq x as = (case map_of (map (\<lambda>a. (ar_id a, ar_last_sequence a)) as) x of Some (Some n) \<Rightarrow> n | _ \<Rightarrow> 0)"
    for as by (induction as) (auto simp: last_seq_def split: option.splits)
  then show ?thesis by (simp add: marks_def)
qed

lemma same_log_high_water: "same_log d d1 \<Longrightarrow> high_water x d1 = high_water x d"
  by (simp add: same_log_def high_water_def last_seq_marks)

lemma seqs_of_append: "seqs_of x (es @ [(o1, e)]) = seqs_of x es @ (if of_app x e then [ev_sequence e] else [])"
  by (simp add: seqs_of_def)

lemma of_app_stored [simp]: "of_app x (stored_form e) = of_app x e"
  by (simp add: of_app_def stored_form_def)

lemma stored_form_simps [simp]:
  "ev_id (stored_form e) = ev_id e" "ev_sequence (stored_form e) = ev_sequence e"
  "ev_type (stored_form e) = ev_type e" "ev_creator (stored_form e) = ev_creator e"
  "ev_application_id (stored_form e) = ev_application_id e" "ev_created_at (stored_form e) = ev_created_at e"
  by (simp_all add: stored_form_def)

text \<open>Raising \<open>last_sequence\<close> of one application.\<close>

lemma last_seq_update:
  assumes "\<And>a. ar_id (f a) = ar_id a"
  shows "last_seq x (update_where p f as) =
    (case find (\<lambda>a. ar_id a = x) as of None \<Rightarrow> 0
     | Some a \<Rightarrow> (case ar_last_sequence (if p a then f a else a) of None \<Rightarrow> 0 | Some n \<Rightarrow> n))"
  using assms by (induction as) (auto simp: last_seq_def update_where_def)

lemma updateAppVersion_marks:
  assumes "updateAppVersion env ev d = (d1, b)" and "last_seq (ev_application_id ev) (t_apps d) \<le> ev_sequence ev"
    and "0 \<le> ev_sequence ev"
  shows "last_seq x (t_apps d1) \<le> (if x = ev_application_id ev then ev_sequence ev else last_seq x (t_apps d))"
    "last_seq x (t_apps d) \<le> last_seq x (t_apps d1)"
proof -
  let ?f = "\<lambda>a. a\<lparr>ar_last_sequence := Some (max (case ar_last_sequence a of None \<Rightarrow> 0 | Some n \<Rightarrow> n) (ev_sequence ev)),
    ar_updated_at := now env\<rparr>"
  let ?p = "\<lambda>a. ar_id a = ev_application_id ev \<and> live a"
  have "d1 = d \<or> t_apps d1 = update_where ?p ?f (t_apps d)"
    using assms(1)
    by (auto simp: updateAppVersion_def UpdateLastSequence_def update_apps_def result_simps split: if_splits sum.splits)
  moreover have "last_seq x (update_where ?p ?f (t_apps d)) \<le>
      (if x = ev_application_id ev then ev_sequence ev else last_seq x (t_apps d))"
    "last_seq x (t_apps d) \<le> last_seq x (update_where ?p ?f (t_apps d))"
  proof -
    have upd: "last_seq x (update_where ?p ?f (t_apps d)) =
      (case find (\<lambda>a. ar_id a = x) (t_apps d) of None \<Rightarrow> 0
       | Some a \<Rightarrow> (case ar_last_sequence (if ?p a then ?f a else a) of None \<Rightarrow> 0 | Some n \<Rightarrow> n))"
      by (rule last_seq_update) simp
    have "last_seq x (update_where ?p ?f (t_apps d)) \<le>
        (if x = ev_application_id ev then ev_sequence ev else last_seq x (t_apps d))
      \<and> last_seq x (t_apps d) \<le> last_seq x (update_where ?p ?f (t_apps d))"
    proof (cases "find (\<lambda>a. ar_id a = x) (t_apps d)")
      case None
      then show ?thesis using assms(2,3) upd by (simp add: last_seq_def)
    next
      case (Some a)
      then have a: "ar_id a = x" using find_in_set [OF Some] by simp
      have l: "last_seq x (t_apps d) = (case ar_last_sequence a of None \<Rightarrow> 0 | Some n \<Rightarrow> n)"
        using Some by (simp add: last_seq_def)
      show ?thesis
      proof (cases "?p a")
        case True
        then have "last_seq x (update_where ?p ?f (t_apps d)) = max (last_seq x (t_apps d)) (ev_sequence ev)"
          using upd Some l by simp
        then show ?thesis using True a assms(2) by simp
      next
        case False
        then have "last_seq x (update_where ?p ?f (t_apps d)) = last_seq x (t_apps d)"
          by (simp only: upd Some l option.case if_False)
        then show ?thesis using assms(2) by auto
      qed
    qed
    then show "last_seq x (update_where ?p ?f (t_apps d)) \<le>
        (if x = ev_application_id ev then ev_sequence ev else last_seq x (t_apps d))"
      "last_seq x (t_apps d) \<le> last_seq x (update_where ?p ?f (t_apps d))" by simp_all
  qed
  ultimately show "last_seq x (t_apps d1) \<le> (if x = ev_application_id ev then ev_sequence ev else last_seq x (t_apps d))"
    "last_seq x (t_apps d) \<le> last_seq x (t_apps d1)"
    using assms(2) by auto
qed

text \<open>What a successful first run does to the log.\<close>

lemma fresh_run_log:
  assumes run: "fresh_run s env ev sq d stored d1" and ok: "db_ok d"
    and app: "ev_application_id ev \<noteq> [] \<or> IsUserScoped (ev_type ev)"
  shows "t_events d1 = t_events d @ [(next_ordinal d, stored_form stored)]" "next_ordinal d1 = next_ordinal d + 1"
    "ev_id stored = ev_id ev" "ev_type stored = ev_type ev" "ev_creator stored = ev_creator ev"
    "ev_application_id stored = ev_application_id ev" "ev_id ev \<notin> set (event_ids d)"
    "ev_data stored = ev_data ev"
proof -
  obtain ev1 d2 d3 where n: "number_event env ev sq d = Inr ev1" and c: "CreateEvent env ev1 d = Inr (stored, d2)"
    and x: "executeEvent s env stored d2 = Inr d3"
    and u: "if sq then updateAppVersion env stored d3 = (d1, False) else d1 = d3"
    using run by (auto simp: fresh_run_def)
  note e1 = number_event_type [OF n]
  have d2: "t_events d2 = t_events d @ [(next_ordinal d, stored_form stored)]" "next_ordinal d2 = next_ordinal d + 1"
    using CreateEvent_shape(3) [OF c] by simp_all
  have "same_log d2 d3" using executeEvent_log [OF x] CreateEvent_ok [OF c ok] by blast
  then have "t_events d3 = t_events d2" "next_ordinal d3 = next_ordinal d2" by (simp_all add: same_log_def)
  moreover have "t_events d1 = t_events d3 \<and> next_ordinal d1 = next_ordinal d3"
    using u updateAppVersion_frame by (cases sq) fastforce+
  ultimately show "t_events d1 = t_events d @ [(next_ordinal d, stored_form stored)]"
    "next_ordinal d1 = next_ordinal d + 1" using d2 by simp_all
  have st: "stored = complete_event env ev1" using CreateEvent_shape(1) [OF c] .
  have app1: "ev_application_id ev1 \<noteq> [] \<or> IsUserScoped (ev_type ev1)" using app e1 by simp
  show "ev_id stored = ev_id ev" "ev_type stored = ev_type ev" "ev_creator stored = ev_creator ev"
    "ev_application_id stored = ev_application_id ev" "ev_data stored = ev_data ev"
    unfolding st using e1 complete_event_same(6) [OF app1] by (simp_all add: complete_event_same(1-5))
  then show "ev_id ev \<notin> set (event_ids d)" using CreateEvent_shape(2) [OF c] by simp
qed

lemma fresh_run_ok:
  assumes "fresh_run s env ev sq d stored d1" and "db_ok d"
  shows "db_ok d1"
proof -
  obtain ev1 d2 d3 where c: "CreateEvent env ev1 d = Inr (stored, d2)" and x: "executeEvent s env stored d2 = Inr d3"
    and u: "if sq then updateAppVersion env stored d3 = (d1, False) else d1 = d3"
    using assms(1) by (auto simp: fresh_run_def)
  have "db_ok d3" using executeEvent_ok [OF x] CreateEvent_ok [OF c assms(2)] by blast
  with u show ?thesis
    by (auto simp: updateAppVersion_def intro: UpdateLastSequence_ok split: if_splits sum.splits)
qed

lemma fresh_run_seq:
  assumes run: "fresh_run s env ev True d stored d1" and ok: "db_ok d"
    and app: "ev_application_id ev \<noteq> []" and fits: "in_int64 (high_water (ev_application_id ev) d + 1)"
    and pos: "0 \<le> high_water (ev_application_id ev) d"
  shows "ev_sequence stored = high_water (ev_application_id ev) d + 1"
    "high_water x d1 = (if x = ev_application_id ev then ev_sequence stored else high_water x d)"
proof -
  let ?a = "ev_application_id ev"
  obtain ev1 d2 d3 where n: "number_event env ev True d = Inr ev1" and c: "CreateEvent env ev1 d = Inr (stored, d2)"
    and x: "executeEvent s env stored d2 = Inr d3" and u: "updateAppVersion env stored d3 = (d1, False)"
    using run by (auto simp: fresh_run_def)
  note log = fresh_run_log [OF run ok disjI1 [OF app]]
  have st: "stored = complete_event env ev1" using CreateEvent_shape(1) [OF c] .
  have "ev_sequence ev1 = high_water ?a d + 1"
    using n fits by (auto simp: number_event_def GetNextSequence_def result_simps wrap64_id)
  then show sn: "ev_sequence stored = high_water ?a d + 1" by (simp add: st complete_event_same)
  have "same_log d2 d3" using executeEvent_log [OF x] CreateEvent_ok [OF c ok] by blast
  then have m: "last_seq y (t_apps d3) = last_seq y (t_apps d)" for y
    using CreateEvent_shape(3) [OF c] by (simp add: same_log_def last_seq_marks marks_def)
  have le: "last_seq ?a (t_apps d) \<le> high_water ?a d" by (simp add: high_water_def)
  have bound: "last_seq (ev_application_id stored) (t_apps d3) \<le> ev_sequence stored" "0 \<le> ev_sequence stored"
    using m sn le pos log(6) by simp_all
  have last: "last_seq y (t_apps d1) \<le> (if y = ?a then ev_sequence stored else last_seq y (t_apps d))"
    "last_seq y (t_apps d) \<le> last_seq y (t_apps d1)" for y
    using updateAppVersion_marks [OF u bound, of y] by (simp_all only: m log(6))
  have sq: "seqs_of x (t_events d1) =
      seqs_of x (t_events d) @ (if x = ?a then [ev_sequence stored] else [])"
    using app by (simp add: log(1) seqs_of_append of_app_def log(6))
  have top: "max_seq (seqs_of ?a (t_events d)) \<le> high_water ?a d" by (simp add: high_water_def)
  show "high_water x d1 = (if x = ?a then ev_sequence stored else high_water x d)"
  proof (cases "x = ?a")
    case True
    then have "max_seq (seqs_of x (t_events d1)) = ev_sequence stored"
      using sq top sn by (simp add: max_seq_snoc)
    with True last(1) [of x] show ?thesis by (simp add: high_water_def)
  next
    case False
    with sq last [of x] show ?thesis by (simp add: high_water_def)
  qed
qed

end
