(* ===== verification/AccessLaws.thy ===== *)
theory AccessLaws
  imports SeqLaws
begin

section \<open>Who may change what\<close>

text \<open>
  From the checks of \<open>AcceptEvent\<close> to the rows they were made on: the members an application is
  loaded with are the active rows of the table, so what \<open>AuthorizeEvent\<close> says of a member holds of
  the row that the handler changes.
\<close>

lemma GetMembers_set:
  assumes "GetMembersByApplicationID env appID d = Inr ms"
  shows "set ms = member_of_row d ` {m \<in> set (t_members d). m_application_id m = appID \<and> activeMember env m}"
  using assms by (auto simp: GetMembersByApplicationID_def result_simps)

lemma GetApplicationByID_members:
  assumes "GetApplicationByID env appID d = Inr app"
  shows "set (ap_members app) =
    member_of_row d ` {m \<in> set (t_members d). m_application_id m = appID \<and> activeMember env m}"
    "ap_id app = appID" "\<exists>a \<in> set (t_apps d). ar_id a = appID \<and> live a \<and> ap_agent_read_enabled app = ar_agent_read_enabled a"
proof -
  obtain a where f: "find (\<lambda>a. ar_id a = appID \<and> live a) (t_apps d) = Some a" and l: "load_application env a d = Inr app"
    using assms by (auto simp: GetApplicationByID_def result_simps split: option.splits)
  have a: "ar_id a = appID" "live a" "a \<in> set (t_apps d)" using find_in_set [OF f] by simp_all
  have l': "GetMembersByApplicationID env appID d = Inr (ap_members app)" "ap_id app = appID"
    "ap_agent_read_enabled app = ar_agent_read_enabled a"
    using l a by (auto simp: load_application_def result_simps)
  show "set (ap_members app) =
    member_of_row d ` {m \<in> set (t_members d). m_application_id m = appID \<and> activeMember env m}"
    by (rule GetMembers_set [OF l'(1)])
  show "ap_id app = appID" by fact
  show "\<exists>a \<in> set (t_apps d). ar_id a = appID \<and> live a \<and> ap_agent_read_enabled app = ar_agent_read_enabled a"
    using a l'(3) by blast
qed

lemma member_of_row_simps [simp]:
  "mb_role (member_of_row d m) = m_role m" "mb_public_key (member_of_row d m) = m_public_key m"
  "mb_id (member_of_row d m) = m_id m" "mb_application_id (member_of_row d m) = m_application_id m"
  by (simp_all add: member_of_row_def Let_def)

text \<open>The row behind a member of a loaded application.\<close>

definition active_row :: "env \<Rightarrow> string \<Rightarrow> string \<Rightarrow> member_row \<Rightarrow> db \<Rightarrow> bool" where
  "active_row env appID key m d \<longleftrightarrow> m \<in> set (t_members d) \<and> same_member appID key m \<and> activeMember env m"

lemma findMember_row:
  assumes "GetApplicationByID env appID d = Inr app" and "findMember app key = Some mb"
  shows "\<exists>m. active_row env appID key m d \<and> mb_role mb = m_role m"
proof -
  have "mb \<in> set (ap_members app)" "mb_public_key mb = key"
    using find_in_set [OF assms(2) [unfolded findMember_def]] by simp_all
  then show ?thesis
    using GetApplicationByID_members(1) [OF assms(1)] by (auto simp: active_row_def same_member_def)
qed

lemma GetMemberByPublicKey_row:
  "GetMemberByPublicKey env appID key d = Inr m \<Longrightarrow> active_row env appID key m d"
  by (auto simp: GetMemberByPublicKey_def result_simps active_row_def dest: find_in_set split: option.splits)

lemma active_row_unique:
  assumes "keys_ok d" and "active_row env1 appID key m d" and "active_row env2 appID key m' d"
  shows "m = m'"
proof -
  have "distinct (map (\<lambda>m. (m_application_id m, m_public_key m)) (t_members d))"
    using assms(1) by (simp add: keys_ok_def)
  then show ?thesis
    using assms(2,3) by (auto simp: active_row_def same_member_def distinct_map inj_on_def)
qed

text \<open>What the checks of an application's event establish.\<close>

lemma authorize_in_app_Proceed:
  assumes "authorize_in_app env e u d = Inr (Proceed e1 sq)"
  shows "\<exists>app. GetApplicationByID env (ev_application_id e) d = Inr app
      \<and> AuthorizeEvent e1 (Some u) (Some app) = None"
    "e1 = e\<lparr>ev_space_id := u_space_id u\<rparr>" "sq"
    "MoveGuard env (ev_application_id e) (u_public_key u) True d = None"
    "checkEventStaleness (ev_type e) (ev_created_at e) (now env) = None"
  using assms
  by (auto simp: authorize_in_app_def Let_def split: option.splits sum.splits)

lemma accept_checks_app:
  assumes "accept_checks env ev u d = Inr (Proceed e sq)" and "\<not> IsUserScoped (ev_type ev)"
  shows "\<exists>e0 app. address_event env ev u = Inr e0 \<and> e = e0\<lparr>ev_space_id := u_space_id u\<rparr> \<and> sq
    \<and> GetApplicationByID env (ev_application_id e) d = Inr app \<and> AuthorizeEvent e (Some u) (Some app) = None
    \<and> MoveGuard env (ev_application_id e) (u_public_key u) True d = None
    \<and> checkEventStaleness (ev_type e) (ev_created_at e) (now env) = None"
proof -
  obtain e0 where e0: "address_event env ev u = Inr e0"
    and or: "(IsUserScoped (ev_type e0) \<and> authorize_user_scoped e0 u = Inr (Proceed e sq)) \<or>
      (\<not> IsUserScoped (ev_type e0) \<and> authorize_in_app env e0 u d = Inr (Proceed e sq))"
    using assms(1) by (auto simp: accept_checks_def rbind_Inr split: option.splits if_splits)
  have "authorize_in_app env e0 u d = Inr (Proceed e sq)"
    using or assms(2) address_event_shape(2) [OF e0] by simp
  from authorize_in_app_Proceed [OF this] e0 show ?thesis by auto
qed

text \<open>The event types that \<open>AuthorizeEvent\<close> lets pass.\<close>

definition client_type :: "event_type \<Rightarrow> bool" where
  "client_type t \<longleftrightarrow> t \<in> {EventTypeApplicationDeleted, EventTypeMemberRemoved, EventTypeMemberRoleChanged,
     EventTypeApplicationDataChanged, EventTypeInviteRevoked, EventTypeComponentDataChanged,
     EventTypeReminderChanged, EventTypeApplicationAfterEditModeChanged, EventTypeMemberDetailsChanged}"

lemma AuthorizeEvent_type:
  "AuthorizeEvent ev (Some u) (Some app) = None \<Longrightarrow> client_type (ev_type ev)"
  by (cases "ev_type ev")
    (auto simp: AuthorizeEvent_def authorize_type_def Let_def client_type_def split: option.splits)

lemma AuthorizeEvent_member:
  assumes "AuthorizeEvent ev (Some u) (Some app) = None"
  obtains m where "findMember app (u_public_key u) = Some m" "AgentAllowed app u" "authorize_type ev u app m = None"
  using assms by (auto simp: AuthorizeEvent_def split: option.splits)

definition manages :: "member_row \<Rightarrow> bool" where
  "manages m \<longleftrightarrow> m_role m = MemberRoleOwner \<or> m_role m = MemberRoleAdmin"

text \<open>
  The effect on the members of an event that was authorized on the same rows: nothing, one member
  removed, or one role changed; the member is not an owner, and whoever asked manages the
  application or leaves it.
\<close>

definition membership_step :: "env \<Rightarrow> string \<Rightarrow> string \<Rightarrow> db \<Rightarrow> member_row list \<Rightarrow> bool" where
  "membership_step env appID key d ms \<longleftrightarrow> ms = t_members d \<or>
     (\<exists>x y. active_row env appID key x d \<and> y \<in> set (t_members d) \<and> m_application_id y = appID
        \<and> m_role y \<noteq> MemberRoleOwner
        \<and> ((ms = filter (\<lambda>m. m_id m \<noteq> m_id y) (t_members d) \<and> (manages x \<or> x = y))
         \<or> (\<exists>r. IsGrantable r \<and> ms = update_where (\<lambda>m. m_id m = m_id y) (\<lambda>m. m\<lparr>m_role := r\<rparr>) (t_members d)
              \<and> manages x \<and> x \<noteq> y)))"

lemma membership_step_removed:
  assumes "active_row env a k x d" and "active_row env a k2 y d" and "m_role y \<noteq> MemberRoleOwner"
    and "manages x \<or> x = y" and "ms = filter (\<lambda>m. m_id m \<noteq> m_id y) (t_members d)"
  shows "membership_step env a k d ms"
proof -
  have "y \<in> set (t_members d)" "m_application_id y = a" using assms(2) by (simp_all add: active_row_def same_member_def)
  with assms show ?thesis unfolding membership_step_def by blast
qed

lemma membership_step_role:
  assumes "active_row env a k x d" and "active_row env a k2 y d" and "m_role y \<noteq> MemberRoleOwner"
    and "manages x" and "x \<noteq> y" and "IsGrantable r"
    and "ms = update_where (\<lambda>m. m_id m = m_id y) (\<lambda>m. m\<lparr>m_role := r\<rparr>) (t_members d)"
  shows "membership_step env a k d ms"
proof -
  have "y \<in> set (t_members d)" "m_application_id y = a" using assms(2) by (simp_all add: active_row_def same_member_def)
  with assms show ?thesis unfolding membership_step_def by blast
qed

lemma removed_members:
  assumes ok: "keys_ok d" and app: "GetApplicationByID env a d = Inr app"
    and auth: "AuthorizeEvent ev (Some u) (Some app) = None" and t: "ev_type ev = EventTypeMemberRemoved"
    and a: "a = getString (data_of ev) ''applicationId''"
    and same: "t_members d2 = t_members d" and run: "executeMemberRemoved env ev d2 = Inr d3"
  shows "membership_step env a (u_public_key u) d (t_members d3)"
proof -
  let ?key = "getString (data_of ev) ''memberPublicKey''"
  obtain mb where mb: "findMember app (u_public_key u) = Some mb" "authorize_type ev u app mb = None"
    using AuthorizeEvent_member [OF auth] by blast
  then obtain tg where tg: "findMember app ?key = Some tg" "mb_role tg \<noteq> MemberRoleOwner"
    "?key = u_public_key u \<or> mb_role mb = MemberRoleOwner \<or> mb_role mb = MemberRoleAdmin"
    using t by (auto simp: authorize_type_def Let_def getString_def as_str_Some split: option.splits if_splits)
  obtain x where x: "active_row env a (u_public_key u) x d" "mb_role mb = m_role x"
    using findMember_row [OF app mb(1)] by blast
  obtain y where y: "active_row env a ?key y d" "mb_role tg = m_role y"
    using findMember_row [OF app tg(1)] by blast
  consider "d3 = d2" | m where "GetMemberByPublicKey env a ?key d2 = Inr m" "DeleteMember env (m_id m) d2 = Inr d3"
    using run a by (auto simp: executeMemberRemoved_def Let_def result_simps split: sum.splits if_splits)
  then show ?thesis
  proof cases
    case 1
    then show ?thesis using same by (simp add: membership_step_def)
  next
    case 2
    have "active_row env a ?key m d"
      using GetMemberByPublicKey_row [OF 2(1)] same by (simp add: active_row_def)
    then have "m = y" using active_row_unique [OF ok _ y(1)] by simp
    then have "t_members d3 = filter (\<lambda>m. m_id m \<noteq> m_id y) (t_members d)"
      using 2(2) same by (auto simp: DeleteMember_def result_simps)
    moreover have "manages x \<or> x = y"
      using tg(3)
    proof
      assume "?key = u_public_key u"
      then have "x = y" using active_row_unique [OF ok x(1)] y(1) by simp
      then show ?thesis ..
    next
      assume "mb_role mb = MemberRoleOwner \<or> mb_role mb = MemberRoleAdmin"
      then show ?thesis using x(2) by (simp add: manages_def)
    qed
    ultimately show ?thesis using tg(2) y(2) by (intro membership_step_removed [OF x(1) y(1)]) simp_all
  qed
qed

lemma role_changed_members:
  assumes ok: "keys_ok d" and app: "GetApplicationByID env a d = Inr app"
    and auth: "AuthorizeEvent ev (Some u) (Some app) = None" and t: "ev_type ev = EventTypeMemberRoleChanged"
    and a: "a = getString (data_of ev) ''applicationId''"
    and grant: "IsGrantable (getString (data_of ev) ''newRole'')"
    and same: "t_members d2 = t_members d" and run: "executeMemberRoleChanged env ev d2 = Inr d3"
  shows "membership_step env a (u_public_key u) d (t_members d3)"
proof -
  let ?key = "getString (data_of ev) ''memberPublicKey''"
  obtain mb where mb: "findMember app (u_public_key u) = Some mb" "authorize_type ev u app mb = None"
    using AuthorizeEvent_member [OF auth] by blast
  then obtain tg where tg: "findMember app ?key = Some tg" "mb_role tg \<noteq> MemberRoleOwner"
    "?key \<noteq> u_public_key u" "mb_role mb = MemberRoleOwner \<or> mb_role mb = MemberRoleAdmin"
    using t by (auto simp: authorize_type_def Let_def getString_def split: option.splits if_splits)
  obtain x where x: "active_row env a (u_public_key u) x d" "mb_role mb = m_role x"
    using findMember_row [OF app mb(1)] by blast
  obtain y where y: "active_row env a ?key y d" "mb_role tg = m_role y"
    using findMember_row [OF app tg(1)] by blast
  obtain m where m: "GetMemberByPublicKey env a ?key d2 = Inr m"
    "UpdateMemberRole env (m_id m) (getString (data_of ev) ''newRole'') d2 = Inr d3"
    using run a by (auto simp: executeMemberRoleChanged_def Let_def result_simps split: sum.splits if_splits)
  have "active_row env a ?key m d" using GetMemberByPublicKey_row [OF m(1)] same by (simp add: active_row_def)
  then have "m = y" using active_row_unique [OF ok _ y(1)] by simp
  then have "t_members d3 = update_where (\<lambda>m. m_id m = m_id y)
      (\<lambda>m. m\<lparr>m_role := getString (data_of ev) ''newRole''\<rparr>) (t_members d)"
    using m(2) same by (auto simp: UpdateMemberRole_def Let_def result_simps)
  moreover have "x \<noteq> y" using tg(3) x(1) y(1) by (auto simp: active_row_def same_member_def)
  moreover have "manages x" using tg(4) x(2) by (simp add: manages_def)
  ultimately show ?thesis using tg(2) y(2) grant by (intro membership_step_role [OF x(1) y(1)]) simp_all
qed

lemma executeEvent_members:
  assumes run: "executeEvent s env ev d2 = Inr d3" and ok2: "db_ok d2" and ok: "db_ok d"
    and app: "GetApplicationByID env a d = Inr app" and auth: "AuthorizeEvent ev (Some u) (Some app) = None"
    and a: "a = getString (data_of ev) ''applicationId''" and same: "t_members d2 = t_members d"
    and valid: "ValidateEvent env ev = None"
  shows "membership_step env a (u_public_key u) d (t_members d3)"
proof (cases "ev_type ev = EventTypeMemberRemoved \<or> ev_type ev = EventTypeMemberRoleChanged")
  case True
  have "keys_ok d" using ok by (simp add: db_ok_def)
  moreover have "IsGrantable (getString (data_of ev) ''newRole'')" if "ev_type ev = EventTypeMemberRoleChanged"
    using that valid
    by (auto simp: ValidateEvent_def validate_data_def validateMemberRoleChangedData_def data_of_def split: option.splits)
  ultimately show ?thesis
    using True run removed_members [OF _ app auth _ a same] role_changed_members [OF _ app auth _ a _ same]
    by (auto simp: executeEvent_def)
next
  case False
  have "t_members d3 = t_members d2"
  proof (cases "ev_type ev")
    case EventTypeComponentDataChanged
    then show ?thesis using run data_changed_frame [OF ok2] by (auto simp: executeEvent_def same_frame_def)
  next
    case EventTypeApplicationAfterEditModeChanged
    then show ?thesis using run batch_frame [OF ok2] by (auto simp: executeEvent_def same_frame_def)
  next
    case EventTypeReminderChanged
    then have "reminders_only d2 d3"
      using run ApplyRuleChange_only(1)
      by (auto simp: executeEvent_def executeReminderChanged_def reminders_only_def split: if_splits option.splits)
    then show ?thesis by (cases d2; cases d3) (simp add: reminders_only_def)
  next
    case EventTypeApplicationDeleted
    then show ?thesis
      using run by (auto simp: executeEvent_def executeApplicationDeleted_def repoDeleteApplication_def
          update_apps_def result_simps)
  next
    case EventTypeApplicationDataChanged
    then show ?thesis
      using run by (auto simp: executeEvent_def executeApplicationDataChanged_def Let_def
          UpdateApplicationMetadata_def update_apps_def result_simps)
  qed (use False run AuthorizeEvent_type [OF auth] in
      \<open>auto simp: executeEvent_def client_type_def executeUserSettingsChanged_def\<close>)
  then show ?thesis using same by (simp add: membership_step_def)
qed

lemma AuthorizeEvent_cong:
  assumes "ev_type a = ev_type b" and "data_of a = data_of b"
  shows "AuthorizeEvent a u app = AuthorizeEvent b u app"
  by (simp only: AuthorizeEvent_def authorize_type_def assms)

lemma ValidateEvent_cong:
  assumes "ev_id a = ev_id b" and "ev_type a = ev_type b" and "ev_creator a = ev_creator b" and "ev_data a = ev_data b"
  shows "ValidateEvent env a = ValidateEvent env b"
  by (simp only: ValidateEvent_def assms)

lemma membership_owner_rows:
  assumes ok: "keys_ok d" and step: "membership_step env a k d ms"
  shows "filter (\<lambda>m. m_role m = MemberRoleOwner) ms = filter (\<lambda>m. m_role m = MemberRoleOwner) (t_members d)"
proof -
  have uniq: "m = y" if "m \<in> set (t_members d)" "y \<in> set (t_members d)" "m_id m = m_id y" for m y
    using ok that by (auto simp: keys_ok_def distinct_map inj_on_def)
  from step consider "ms = t_members d"
    | y where "y \<in> set (t_members d)" "m_role y \<noteq> MemberRoleOwner" "ms = filter (\<lambda>m. m_id m \<noteq> m_id y) (t_members d)"
    | y r where "y \<in> set (t_members d)" "m_role y \<noteq> MemberRoleOwner" "IsGrantable r"
        "ms = update_where (\<lambda>m. m_id m = m_id y) (\<lambda>m. m\<lparr>m_role := r\<rparr>) (t_members d)"
    unfolding membership_step_def by blast
  then show ?thesis
  proof cases
    case (2 y)
    then show ?thesis using uniq by (auto intro!: filter_cong)
  next
    case (3 y r)
    then have "r \<noteq> MemberRoleOwner" by auto
    then show ?thesis unfolding 3(4) using 3(1,2) uniq by (intro filter_update_where) auto
  qed simp
qed

lemma fresh_run_members:
  assumes chk: "accept_checks env ev u d = Inr (Proceed e sq)" and run: "fresh_run s env e sq d stored d1"
    and ok: "db_ok d"
  shows "membership_step env (getString (data_of ev) ''applicationId'') (u_public_key u) d (t_members d1)"
proof -
  obtain e0 where e0: "address_event env ev u = Inr e0" "e = e0\<lparr>ev_space_id := u_space_id u\<rparr>"
    "sq = (\<not> IsUserScoped (ev_type ev))"
    using accept_checks_Proceed [OF chk] by blast
  note sh = address_event_shape [OF e0(1)]
  have e: "ev_type e = ev_type ev" "ev_data e = ev_data ev" "ev_creator e = u_public_key u" "ev_id e = ev_id ev"
    "ev_application_id e \<noteq> [] \<or> IsUserScoped (ev_type e)"
    using sh e0(2) by simp_all
  note log = fresh_run_log [OF run ok e(5)]
  obtain ev1 d2 d3 where c: "CreateEvent env ev1 d = Inr (stored, d2)" and x: "executeEvent s env stored d2 = Inr d3"
    and up: "if sq then updateAppVersion env stored d3 = (d1, False) else d1 = d3"
    using run by (auto simp: fresh_run_def)
  have same: "t_members d2 = t_members d" using CreateEvent_shape(3) [OF c] by simp
  have m: "t_members d1 = t_members d3" using up updateAppVersion_frame by (cases sq) fastforce+
  show ?thesis
  proof (cases "IsUserScoped (ev_type ev)")
    case True
    then have "d3 = d2"
      using x log(4) e(1) by (auto simp: executeEvent_def executeUserSettingsChanged_def IsUserScoped_def)
    then show ?thesis using m same by (simp add: membership_step_def)
  next
    case False
    obtain app where app: "GetApplicationByID env (ev_application_id e) d = Inr app"
      "AuthorizeEvent e (Some u) (Some app) = None"
      using accept_checks_app [OF chk False] by blast
    have a: "ev_application_id e = getString (data_of stored) ''applicationId''"
      using False sh(6) e0(2) log(8) e(2) by (simp add: data_of_def)
    have auth: "AuthorizeEvent stored (Some u) (Some app) = None"
      using app(2) AuthorizeEvent_cong [of stored e] log(4,8) by (simp add: data_of_def)
    have "ValidateEvent env (ev\<lparr>ev_creator := u_public_key u\<rparr>) = None" by (rule sh(8))
    then have valid: "ValidateEvent env stored = None"
      using ValidateEvent_cong [of stored "ev\<lparr>ev_creator := u_public_key u\<rparr>"] log(3,4,5,8) e by simp
    have "membership_step env (ev_application_id e) (u_public_key u) d (t_members d3)"
      by (rule executeEvent_members [OF x CreateEvent_ok [OF c ok] ok app(1) auth a same valid])
    then show ?thesis using m a log(8) e(2) by (simp add: data_of_def)
  qed
qed

end
