(* ===== verification/Move.thy ===== *)
theory Move
  imports EventService
begin

section \<open>Moving an application to another space\<close>

text \<open>
  \<open>MoveService\<close> of \<open>internal/application/move.go\<close>. The event producer it is given is the
  \<open>EventService\<close>; the storage cleaner touches none of the modelled tables and its error is only
  logged, so it does not appear.
\<close>

definition authorizeOwner :: "env \<Rightarrow> string \<Rightarrow> string \<Rightarrow> db \<Rightarrow> unit result" where
  "authorizeOwner env appID callerPK d =
     unmoved env appID callerPK False d
      (case GetMemberByPublicKey env appID callerPK d of
         Inl e \<Rightarrow> (if err_msg e = ''member not found''
                    then Inl (errw ErrNotApplicationOwner ''not the application owner'')
                    else Inl (wrapf ''failed to get member'' e))
       | Inr m \<Rightarrow> rguard (m_role m = MemberRoleOwner)
                    (errw ErrNotApplicationOwner ''not the application owner'') (Inr ()))"

definition validTargetURL :: "env \<Rightarrow> string \<Rightarrow> bool" where
  "validTargetURL env raw =
     (case parse_url env raw of
        None \<Rightarrow> False
      | Some (scheme, host) \<Rightarrow> (scheme = ''http'' \<or> scheme = ''https'') \<and> host \<noteq> [])"

abbreviation invalid_move :: goerr where
  "invalid_move \<equiv> errw ErrInvalidMoveRequest ''invalid move request''"

definition StartMove :: "env \<Rightarrow> string \<Rightarrow> string \<Rightarrow> string \<Rightarrow> db \<Rightarrow> db \<times> unit result" where
  "StartMove env appID callerPK targetURL d =
     (if \<not> validTargetURL env targetURL then (d, Inl invalid_move)
      else case authorizeOwner env appID callerPK d of
             Inl e \<Rightarrow> (d, Inl e)
           | Inr _ \<Rightarrow>
               (case repoStartMove env appID targetURL d of
                  Inl e \<Rightarrow> (d, Inl (wrapf ''failed to start move'' e))
                | Inr (rows, d1) \<Rightarrow>
                    (d1, rguard (rows \<noteq> 0) (errorf ''application not found'') (Inr ()))))"

definition AbortMove :: "env \<Rightarrow> string \<Rightarrow> string \<Rightarrow> db \<Rightarrow> db \<times> unit result" where
  "AbortMove env appID callerPK d =
     (case authorizeOwner env appID callerPK d of
        Inl e \<Rightarrow> (d, Inl e)
      | Inr _ \<Rightarrow>
          (case repoAbortMove env appID d of
             Inl e \<Rightarrow> (d, Inl (wrapf ''failed to abort move'' e))
           | Inr d1 \<Rightarrow> (d1, Inr ())))"

definition CompleteMove ::
    "EventService \<Rightarrow> env \<Rightarrow> string \<Rightarrow> string \<Rightarrow> string \<Rightarrow> string \<Rightarrow> db \<Rightarrow> db \<times> unit result \<times> notice list" where
  "CompleteMove s env appID callerPK targetURL inviteToken d =
     (if \<not> validTargetURL env targetURL \<or> inviteToken = [] then (d, Inl invalid_move, [])
      else case authorizeOwner env appID callerPK d of
             Inl e \<Rightarrow> (d, Inl e, [])
           | Inr _ \<Rightarrow>
               (case repoCompleteMove env appID targetURL inviteToken (now env) d of
                  Inl e \<Rightarrow> (d, Inl (if errors_is e ErrApplicationNotMoving then e
                                     else wrapf ''failed to complete move'' e), [])
                | Inr d1 \<Rightarrow>
                    (case ProduceApplicationMoved s env appID callerPK targetURL inviteToken d1 of
                       (d2, _, notices) \<Rightarrow> (d2, Inr (), notices))))"

end
