(* ===== verification/Scheduler.thy ===== *)
theory Scheduler
  imports EventService
begin

section \<open>The reminder scheduler\<close>

text \<open>
  \<open>internal/reminder/scheduler.go\<close>: the worklist of a tick, and for every row of it a transaction
  that fires the reminder and moves the row on. The event is produced outside the row's
  transaction, so a row whose update fails stays pending although its event has gone out.
\<close>

definition batchSize :: nat where
  "batchSize = 100"

definition graceWindow :: int where
  "graceWindow = 24 * 60 * 60"

definition isWithinGrace :: "int \<Rightarrow> int \<Rightarrow> bool" where
  "isWithinGrace now_s fireAt \<longleftrightarrow> wrap64 (now_s - fireAt) \<le> graceWindow"

type_synonym dueRowKey = "string \<times> int"

definition row_key :: "reminder_row \<Rightarrow> dueRowKey" where
  "row_key r = (r_rule_id r, r_offset_index r)"

definition due :: "int \<Rightarrow> reminder_row \<Rightarrow> bool" where
  "due now_s r \<longleftrightarrow> r_state r = ''pending'' \<and> r_fire_at r \<le> now_s"

definition selectDueRowKeys :: "env \<Rightarrow> db \<Rightarrow> dueRowKey list result" where
  "selectDueRowKeys env d =
     stmt env ''selectDueRowKeys'' d
       (Inr (map row_key (take batchSize (sort_key r_fire_at (filter (due (now env)) (t_reminders d))))))"

text \<open>The row, unless it is no longer pending.\<close>

definition lockRow :: "env \<Rightarrow> dueRowKey \<Rightarrow> db \<Rightarrow> reminder_row option result" where
  "lockRow env k d =
     stmt env ''lockRow'' d (Inr (find (\<lambda>r. row_key r = k \<and> r_state r = ''pending'') (t_reminders d)))"

definition update_reminder :: "env \<Rightarrow> string \<Rightarrow> dueRowKey \<Rightarrow> (reminder_row \<Rightarrow> reminder_row) \<Rightarrow> db \<Rightarrow> db result" where
  "update_reminder env site k f d =
     stmt env site d (Inr (d\<lparr>t_reminders := update_where (\<lambda>r. row_key r = k) f (t_reminders d)\<rparr>))"

definition markSkipped :: "env \<Rightarrow> reminder_row \<Rightarrow> db \<Rightarrow> db result" where
  "markSkipped env row d = update_reminder env ''markSkipped'' (row_key row) (\<lambda>r. r\<lparr>r_state := ''skipped''\<rparr>) d"

text \<open>The data of the fired event, after \<open>MarshalData\<close>.\<close>

definition fired_data :: "reminder_row \<Rightarrow> string \<Rightarrow> gmap" where
  "fired_data row kind =
     [(''version'', GFloat 1), (''applicationId'', GStr (r_application_id row)),
      (''componentId'', GStr (r_component_id row)), (''targetKey'', GStr (r_target_key row)),
      (''ruleId'', GStr (r_rule_id row)), (''occurrenceAt'', GFloat (f64 (of_int (r_due_at row)))),
      (''kind'', GStr kind), (''offset'', GStr (r_offset_spec row)), (''itemTitle'', GStr (r_title row)),
      (''recipients'', GList (map GStr (r_recipients row)))]"

definition fire :: "EventService \<Rightarrow> env \<Rightarrow> string \<Rightarrow> reminder_row \<Rightarrow> db \<Rightarrow> db \<times> unit result \<times> notice list" where
  "fire s env spaceKey row d =
     (case fireKind (r_offset_spec row) of
        None \<Rightarrow> (d, Inl (errorf ''invalid offset spec''), [])
      | Some kind \<Rightarrow>
          (case ProduceEvent s env
             \<lparr>ev_id = fresh_uuid env, ev_created_at = 0, ev_application_id = r_application_id row,
              ev_sequence = 0, ev_type = EventTypeReminderFired, ev_creator = spaceKey, ev_version = 0,
              ev_data = Some (fired_data row kind), ev_space_id = []\<rparr> d of
             (d1, r, ns) \<Rightarrow> (d1, rbind r (\<lambda>_. Inr ()), ns)))"

text \<open>The next occurrence of the rule, or the end of the row when there is none or it cannot be computed.\<close>

definition advance :: "env \<Rightarrow> recurrence \<Rightarrow> reminder_row \<Rightarrow> db \<Rightarrow> db result" where
  "advance env rr row d =
     (case NextOccurrence env rr (or_empty (r_rrule row)) (r_tz row) (r_anchor_at row) (r_due_at row) of
        Inr (Some nextDue) \<Rightarrow>
          (case FireAt nextDue (r_offset_spec row) of
             None \<Rightarrow> Inl (errorf ''compute next fire_at'')
           | Some nextFireAt \<Rightarrow>
               update_reminder env ''advance'' (row_key row)
                 (\<lambda>r. r\<lparr>r_due_at := nextDue, r_fire_at := nextFireAt\<rparr>) d)
      | _ \<Rightarrow> update_reminder env ''advance'' (row_key row) (\<lambda>r. r\<lparr>r_state := ''done''\<rparr>) d)"

text \<open>
  The tables after the firing, the update of the row's own transaction, and the notices.
\<close>

definition processRow ::
    "EventService \<Rightarrow> env \<Rightarrow> recurrence \<Rightarrow> string \<Rightarrow> reminder_row \<Rightarrow> db \<Rightarrow> db \<times> db result \<times> notice list" where
  "processRow s env rr spaceKey row d =
     (if \<not> isWithinGrace (now env) (r_fire_at row) then (d, markSkipped env row d, [])
      else case fire s env spaceKey row d of
             (d1, Inl e, ns) \<Rightarrow>
               (if errors_is e ErrUnappliable then (d1, markSkipped env row d1, ns)
                else (d1, Inl (wrapf ''fire'' e), ns))
           | (d1, Inr _, ns) \<Rightarrow> (d1, advance env rr row d1, ns))"

definition processRowByKey ::
    "EventService \<Rightarrow> env \<Rightarrow> recurrence \<Rightarrow> string \<Rightarrow> dueRowKey \<Rightarrow> db \<Rightarrow> db \<times> unit result \<times> notice list" where
  "processRowByKey s env rr spaceKey k d =
     (case stmt env ''processRowByKey.Begin'' d (lockRow env k d) of
        Inl e \<Rightarrow> (d, Inl e, [])
      | Inr None \<Rightarrow> (d, Inr (), [])
      | Inr (Some row) \<Rightarrow>
          (case processRow s env rr spaceKey row d of
             (d1, Inl e, ns) \<Rightarrow> (d1, Inl e, ns)
           | (d1, Inr d2, ns) \<Rightarrow>
               (case stmt env ''processRowByKey.Commit'' d2 (Inr d2) of
                  Inl e \<Rightarrow> (d1, Inl e, ns)
                | Inr d3 \<Rightarrow> (d3, Inr (), ns))))"

text \<open>A row that fails does not stop the batch. Every row has its own moment and its own fresh id.\<close>

fun process_keys ::
    "EventService \<Rightarrow> (nat \<Rightarrow> env) \<Rightarrow> recurrence \<Rightarrow> string \<Rightarrow> nat \<Rightarrow> dueRowKey list \<Rightarrow> db \<Rightarrow> db \<times> notice list" where
  "process_keys s envs rr spaceKey i [] d = (d, [])"
| "process_keys s envs rr spaceKey i (k # ks) d =
     (case processRowByKey s (envs i) rr spaceKey k d of
        (d1, _, ns) \<Rightarrow>
          (case process_keys s envs rr spaceKey (Suc i) ks d1 of (d2, ms) \<Rightarrow> (d2, ns @ ms)))"

definition Tick ::
    "EventService \<Rightarrow> env \<Rightarrow> (nat \<Rightarrow> env) \<Rightarrow> recurrence \<Rightarrow> string \<Rightarrow> db \<Rightarrow> db \<times> unit result \<times> notice list" where
  "Tick s env envs rr spaceKey d =
     (case selectDueRowKeys env d of
        Inl e \<Rightarrow> (d, Inl (wrapf ''select due row keys'' e), [])
      | Inr keys \<Rightarrow> (case process_keys s envs rr spaceKey 0 keys d of (d1, ns) \<Rightarrow> (d1, Inr (), ns)))"

end
