(* ===== verification/Demo.thy ===== *)
theory Demo
  imports Move Scheduler
begin

section \<open>A small space\<close>

text \<open>
  The concrete tables and requests at which the theorems about the application, event and
  reminder components are applied: one application with an owner, a member, a group and a
  component, on a database that does not fail.
\<close>

definition demo_env :: env where
  "demo_env = \<lparr>now = 1700000000, fresh_uuid = ''u1'', fault = (\<lambda>_ _. None), loads_tz = (\<lambda>z. z = ''UTC''),
     json_length = (\<lambda>_. 2), float_int64 = (\<lambda>_. None), parse_url = (\<lambda>_. Some (''https'', ''there''))\<rparr>"

definition demo_app :: app_row where
  "demo_app = \<lparr>ar_id = ''a'', ar_name = ''App'', ar_icon = None, ar_space_public_key = Some ''sp'',
     ar_space_id = None, ar_created_at = 1600000000, ar_updated_at = 1600000000, ar_deleted_at = None,
     ar_last_sequence = None, ar_agent_read_enabled = True, ar_moved_to_url = None,
     ar_move_invite_token = None, ar_moved_at = None\<rparr>"

definition demo_group :: component_group where
  "demo_group = \<lparr>g_id = ''g'', g_application_id = ''a'', g_name = ''Group'', g_index = 0, g_components = []\<rparr>"

definition demo_comp :: component where
  "demo_comp = \<lparr>c_id = ''c'', c_group_id = ''g'', c_application_id = ''a'', c_name = ''Note'',
     c_data = Some [(''text'', GStr ''old'')], c_index = 0\<rparr>"

definition demo_owner :: member_row where
  "demo_owner = \<lparr>m_id = ''m1'', m_application_id = ''a'', m_role = ''owner'', m_public_key = ''o'', m_expires_at = None\<rparr>"

definition demo_member :: member_row where
  "demo_member = \<lparr>m_id = ''m2'', m_application_id = ''a'', m_role = ''member'', m_public_key = ''k'', m_expires_at = None\<rparr>"

definition demo_users :: "user_row list" where
  "demo_users = [new_user_row ''o'' ''Olga'' ''owner'' 1600000000, new_user_row ''k'' ''Kim'' ''user'' 1600000000]"

definition demo_db :: db where
  "demo_db = empty_db\<lparr>t_apps := [demo_app], t_groups := [demo_group], t_comps := [demo_comp],
     t_members := [demo_owner, demo_member], t_users := demo_users\<rparr>"

definition demo_user :: "string \<Rightarrow> user" where
  "demo_user key = \<lparr>u_public_key = key, u_username = key, u_role = ''user'', u_space_id = [], u_agent = False\<rparr>"

definition demo_event :: "string \<Rightarrow> event_type \<Rightarrow> gmap \<Rightarrow> event" where
  "demo_event eid t data = \<lparr>ev_id = eid, ev_created_at = 0, ev_application_id = [], ev_sequence = 0, ev_type = t,
     ev_creator = [], ev_version = 1, ev_data = Some data, ev_space_id = []\<rparr>"

definition demo_service :: EventService where
  "demo_service = \<lparr>sv_broadcaster = True, sv_pusher = True, sv_reminderStore = True\<rparr>"

text \<open>Setting the text of the component.\<close>

definition demo_edit :: event where
  "demo_edit = demo_event ''e1'' EventTypeComponentDataChanged
     [(''applicationId'', GStr ''a''), (''componentId'', GStr ''c''),
      (''changedFields'', GMap [(''text'', GMap [(''newValue'', GStr ''new'')])])]"

lemmas demo_defs = demo_env_def demo_app_def demo_group_def demo_comp_def demo_owner_def demo_member_def
  demo_users_def demo_db_def empty_db_def new_user_row_def demo_user_def demo_event_def demo_service_def demo_edit_def

end
