(* ===== verification/EventProps.thy ===== *)
theory EventProps
  imports AccessLaws Demo
begin

section \<open>Properties of the event pipeline\<close>

text \<open>
  What a client can rely on when it submits an event: a refusal leaves no trace, a repetition is
  answered from the log, numbers only grow, the owner stays the owner, and only the events that
  clients may send are accepted.
\<close>

lemma demo_db_ok: "db_ok demo_db"
  by (simp add: table_ok_defs demo_defs valid_role_def IsGrantable_def)

lemma accept_cases:
  assumes "AcceptEvent s env ev u d = (d1, Inr stored, ns)"
  obtains (retry) "d1 = d" "ns = []" "accept_checks env ev u d = Inr (Retry stored)"
    | (dup) e sq where "accept_checks env ev u d = Inr (Proceed e sq)" "d1 = d" "ns = []"
        "find_event (ev_id e) d = Some stored"
        "isRetryOf (Some stored) (ev_application_id e) (ev_creator e) (ev_type e)"
    | (fresh) e sq where "accept_checks env ev u d = Inr (Proceed e sq)" "fresh_run s env e sq d stored d1"
        "ns = announce s env stored sq (u_agent u) d1"
proof (cases "accept_checks env ev u d")
  case (Inl e)
  then show thesis using assms by (simp add: AcceptEvent_def)
next
  case (Inr dec)
  show thesis
  proof (cases dec)
    case (Retry x)
    then show thesis using assms Inr retry by (auto simp: AcceptEvent_def)
  next
    case (Proceed e sq)
    obtain d2 r where p: "persistAndApply s env e sq d = (d2, r)" by fastforce
    have run: "finish_event s env e sq (u_agent u) d = (d1, Inr stored, ns)"
      using assms Inr Proceed by (simp add: AcceptEvent_def)
    have chk: "accept_checks env ev u d = Inr (Proceed e sq)" using Inr Proceed by simp
    from p show thesis
    proof (cases rule: persist_cases)
      case (dup x)
      then have "d1 = d" "stored = x" "ns = []" using run p by (simp_all add: finish_event_def)
      then show thesis using that(2) [OF chk] dup by simp
    next
      case (fresh x)
      then have "d1 = d2" "stored = x" "ns = announce s env stored sq (u_agent u) d1"
        using run p by (auto simp: finish_event_def)
      then show thesis using that(3) [OF chk] fresh by simp
    next
      case (failed er)
      then show thesis using run p by (simp add: finish_event_def)
    next
      case (undone e0 ev1 d3)
      then show thesis using run p by (simp add: finish_event_def)
    qed
  qed
qed

lemma accept_Retry:
  assumes "accept_checks env ev u d = Inr (Retry x)"
  obtains e0 where "address_event env ev u = Inr e0" "find_event (ev_id ev) d = Some x"
    "isRetryOf (Some x) (ev_application_id e0) (ev_creator e0) (ev_type e0)"
proof -
  obtain e0 r where e0: "address_event env ev u = Inr e0" and g: "GetByID env ''GetByID'' (ev_id e0) d = Inr r"
    and c: "(case r of Some x \<Rightarrow> (if isRetryOf r (ev_application_id e0) (ev_creator e0) (ev_type e0) then Inr (Retry x)
                    else if IsUserScoped (ev_type e0) then authorize_user_scoped e0 u
                    else authorize_in_app env e0 u d)
       | None \<Rightarrow> (if IsUserScoped (ev_type e0) then authorize_user_scoped e0 u else authorize_in_app env e0 u d))
       = Inr (Retry x)"
    using assms by (auto simp: accept_checks_def result_simps)
  have no: "authorize_user_scoped e0 u \<noteq> Inr (Retry y)" "authorize_in_app env e0 u d \<noteq> Inr (Retry y)" for y
    by (auto simp: authorize_user_scoped_def authorize_in_app_def Let_def split: option.splits sum.splits)
  have "r = find_event (ev_id ev) d" using GetByID_Inr [OF g] address_event_shape(1) [OF e0] by simp
  then show thesis using that [OF e0] c no by (auto split: option.splits if_splits)
qed

lemma Proceed_addressed:
  assumes "accept_checks env ev u d = Inr (Proceed e sq)"
  shows "ev_id e = ev_id ev" "ev_type e = ev_type ev" "ev_creator e = u_public_key u"
    "ev_application_id e \<noteq> [] \<or> IsUserScoped (ev_type e)" "data_of e = data_of ev"
    "sq = (\<not> IsUserScoped (ev_type ev))" "ev_application_id e =
      (if IsUserScoped (ev_type ev) then [] else getString (data_of ev) ''applicationId'')"
    "ValidateEvent env e = None" "ev_data e = ev_data ev"
proof -
  obtain e0 where e0: "address_event env ev u = Inr e0" "e = e0\<lparr>ev_space_id := u_space_id u\<rparr>"
    "sq = (\<not> IsUserScoped (ev_type ev))"
    using accept_checks_Proceed [OF assms] by blast
  note sh = address_event_shape [OF e0(1)]
  show "ev_id e = ev_id ev" "ev_type e = ev_type ev" "ev_creator e = u_public_key u" "data_of e = data_of ev"
    "ev_application_id e \<noteq> [] \<or> IsUserScoped (ev_type e)" "sq = (\<not> IsUserScoped (ev_type ev))"
    "ev_application_id e = (if IsUserScoped (ev_type ev) then [] else getString (data_of ev) ''applicationId'')"
    "ev_data e = ev_data ev"
    using e0 sh by (simp_all add: data_of_def)
  show "ValidateEvent env e = None" using sh(1-5,8) e0(2) by (simp add: ValidateEvent_def split: option.splits)
qed


text \<open>A component that does not exist: the transaction has stored the event when its handler fails.\<close>

definition demo_lost_edit :: event where
  "demo_lost_edit = demo_event ''e1'' EventTypeComponentDataChanged
     [(''applicationId'', GStr ''a''), (''componentId'', GStr ''none''), (''changedFields'', GMap [])]"


text \<open>
  C2. Retrying is safe: once an event was accepted, submitting it again (to the tables its
  acceptance left, at any later time, with the same data and by the same account) changes
  nothing, notifies nobody, and is answered with the stored event, whatever its first execution
  did to the application.
\<close>
theorem accept_retry:
  assumes "db_ok d" and "AcceptEvent s env ev u d = (d1, Inr stored, ns)"
    and "ValidateEvent env2 (ev\<lparr>ev_creator := u_public_key u\<rparr>) = None"
    and "fault env2 ''GetByID'' d1 = None"
  shows "\<exists>again. AcceptEvent s2 env2 ev u d1 = (d1, Inr again, []) \<and> find_event (ev_id ev) d1 = Some again
    \<and> ev_sequence again = ev_sequence stored \<and> ev_id again = ev_id ev"
proof -
  have key: "\<exists>again e0. address_event env ev u = Inr e0 \<and> find_event (ev_id ev) d1 = Some again
      \<and> isRetryOf (Some again) (ev_application_id e0) (ev_creator e0) (ev_type e0)
      \<and> ev_sequence again = ev_sequence stored"
    using assms(2)
  proof (cases rule: accept_cases)
    case retry
    then show ?thesis by (metis accept_Retry)
  next
    case (dup e sq)
    then show ?thesis
      using accept_checks_Proceed [OF dup(1)] Proceed_addressed(1) [OF dup(1)] by auto
  next
    case (fresh e sq)
    obtain e0 where e0: "address_event env ev u = Inr e0" "e = e0\<lparr>ev_space_id := u_space_id u\<rparr>"
      using accept_checks_Proceed [OF fresh(1)] by blast
    note log = fresh_run_log [OF fresh(2) assms(1) Proceed_addressed(4) [OF fresh(1)]]
    have "find (\<lambda>r. ev_id (snd r) = ev_id e) (t_events d) = None"
      using log(7) by (force simp: find_None_iff event_ids_def image_iff)
    then have "find_event (ev_id e) d1 = Some (stored_form stored)"
      using log(1,3) by (simp add: find_event_def find_append)
    then show ?thesis
      using e0 log(3-6) Proceed_addressed(1) [OF fresh(1)] by (auto simp: isRetryOf_def)
  qed
  then obtain again e0 where a: "address_event env ev u = Inr e0" "find_event (ev_id ev) d1 = Some again"
    "isRetryOf (Some again) (ev_application_id e0) (ev_creator e0) (ev_type e0)"
    "ev_sequence again = ev_sequence stored" by blast
  have a2: "address_event env2 ev u = Inr e0"
    using a(1) assms(3) by (auto simp: address_event_def Let_def split: option.splits if_splits)
  have "accept_checks env2 ev u d1 = Inr (Retry again)"
    using a a2 assms(4) address_event_shape(1) [OF a(1)]
    by (simp add: accept_checks_def GetByID_def stmt_def)
  moreover have "ev_id again = ev_id ev"
    using a(2) find_in_set [of "\<lambda>r. ev_id (snd r) = ev_id ev"] by (fastforce simp: find_event_def)
  ultimately show ?thesis using a by (simp add: AcceptEvent_def)
qed

definition demo_after_edit :: db where
  "demo_after_edit = fst (AcceptEvent demo_service demo_env demo_edit (demo_user ''k'') demo_db)"

lemma demo_edit_accepted:
  "\<exists>stored ns. AcceptEvent demo_service demo_env demo_edit (demo_user ''k'') demo_db
     = (demo_after_edit, Inr stored, ns) \<and> find_event ''e1'' demo_db = None"
proof -
  have "\<not> isl (fst (snd (AcceptEvent demo_service demo_env demo_edit (demo_user ''k'') demo_db)))"
    by code_simp
  then obtain stored where "fst (snd (AcceptEvent demo_service demo_env demo_edit (demo_user ''k'') demo_db)) = Inr stored"
    by (metis sum.collapse(2))
  then have "AcceptEvent demo_service demo_env demo_edit (demo_user ''k'') demo_db =
    (demo_after_edit, Inr stored, snd (snd (AcceptEvent demo_service demo_env demo_edit (demo_user ''k'') demo_db)))"
    by (metis demo_after_edit_def prod.collapse)
  moreover have "find_event ''e1'' demo_db = None" by (simp add: find_event_def demo_db_def)
  ultimately show ?thesis by blast
qed

theorem accept_retry_witness:
  "\<exists>again. AcceptEvent demo_service demo_env demo_edit (demo_user ''k'') demo_after_edit
     = (demo_after_edit, Inr again, []) \<and> find_event ''e1'' demo_after_edit = Some again"
proof -
  obtain stored ns where a: "AcceptEvent demo_service demo_env demo_edit (demo_user ''k'') demo_db
     = (demo_after_edit, Inr stored, ns)" using demo_edit_accepted by blast
  have "ValidateEvent demo_env (demo_edit\<lparr>ev_creator := u_public_key (demo_user ''k'')\<rparr>) = None" by code_simp
  moreover have "fault demo_env ''GetByID'' demo_after_edit = None" by (simp add: demo_env_def)
  moreover have "ev_id demo_edit = ''e1''" by (simp add: demo_edit_def demo_event_def)
  ultimately show ?thesis using accept_retry [OF demo_db_ok a, of demo_env demo_service] by metis
qed

text \<open>
  C3. An accepted event of an application takes the number after the application's high-water mark
  (the largest number in the log and in \<open>last_sequence\<close>), that number becomes the new mark, and the
  marks of all other applications stay: numbers are never handed out twice or out of order. The
  event is the last row of the log, under the next ordinal.
\<close>
theorem accept_sequence:
  assumes "db_ok d" and "AcceptEvent s env ev u d = (d1, Inr stored, ns)"
    and "find_event (ev_id ev) d = None" and "\<not> IsUserScoped (ev_type ev)"
    and "0 \<le> high_water (getString (data_of ev) ''applicationId'') d"
    and "in_int64 (high_water (getString (data_of ev) ''applicationId'') d + 1)"
  shows "ev_sequence stored = high_water (ev_application_id stored) d + 1
    \<and> (\<forall>x. high_water x d1 = (if x = ev_application_id stored then ev_sequence stored else high_water x d))
    \<and> t_events d1 = t_events d @ [(next_ordinal d, stored_form stored)]"
  using assms(2)
proof (cases rule: accept_cases)
  case retry
  then show ?thesis using assms(3) by (metis accept_Retry option.distinct(1))
next
  case (dup e sq)
  then show ?thesis using assms(3) Proceed_addressed(1) [OF dup(1)] by simp
next
  case (fresh e sq)
  note p = Proceed_addressed [OF fresh(1)]
  have a: "ev_application_id e = getString (data_of ev) ''applicationId''" "ev_application_id e \<noteq> []" "sq"
    using p(2,4,6,7) assms(4) by simp_all
  note run = fresh(2) [unfolded eqTrueI [OF a(3)]]
  have app: "ev_application_id stored = ev_application_id e"
    using fresh_run_log(6) [OF fresh(2) assms(1) p(4)] .
  have fits: "in_int64 (high_water (ev_application_id e) d + 1)" "0 \<le> high_water (ev_application_id e) d"
    using assms(5,6) a(1) by simp_all
  show ?thesis
    using fresh_run_seq [OF run assms(1) a(2) fits] fresh_run_log(1) [OF fresh(2) assms(1) p(4)] app by simp
qed

theorem accept_sequence_witness:
  "\<exists>stored ns. AcceptEvent demo_service demo_env demo_edit (demo_user ''k'') demo_db
     = (demo_after_edit, Inr stored, ns) \<and> ev_sequence stored = high_water (ev_application_id stored) demo_db + 1"
proof -
  obtain stored ns where a: "AcceptEvent demo_service demo_env demo_edit (demo_user ''k'') demo_db
     = (demo_after_edit, Inr stored, ns)" using demo_edit_accepted by blast
  have "find_event (ev_id demo_edit) demo_db = None" "\<not> IsUserScoped (ev_type demo_edit)"
    "0 \<le> high_water (getString (data_of demo_edit) ''applicationId'') demo_db"
    "in_int64 (high_water (getString (data_of demo_edit) ''applicationId'') demo_db + 1)"
    by code_simp+
  from accept_sequence [OF demo_db_ok a this] a show ?thesis by blast
qed

text \<open>
  C4. Accepting an event changes the members of an application only in two ways, and never an owner:
  a member is removed by an owner or an admin, or leaves by himself, or an owner or an admin
  gives another member one of the roles admin, member and viewer. Whoever asks is an active member of
  that application himself. So the owner rows are the same before and after.
\<close>
theorem accept_members:
  assumes "db_ok d" and "AcceptEvent s env ev u d = (d1, Inr stored, ns)"
  shows "membership_step env (getString (data_of ev) ''applicationId'') (u_public_key u) d (t_members d1)
    \<and> filter (\<lambda>m. m_role m = MemberRoleOwner) (t_members d1) = filter (\<lambda>m. m_role m = MemberRoleOwner) (t_members d)"
proof -
  let ?a = "getString (data_of ev) ''applicationId''"
  have "membership_step env ?a (u_public_key u) d (t_members d1)"
    using assms(2)
  proof (cases rule: accept_cases)
    case (fresh e sq)
    then show ?thesis using fresh_run_members [OF fresh(1,2) assms(1)] by simp
  qed (simp_all add: membership_step_def)
  moreover have "keys_ok d" using assms(1) by (simp add: db_ok_def)
  ultimately show ?thesis using membership_owner_rows by blast
qed

text \<open>The owner makes the member an admin.\<close>

definition demo_promotion :: event where
  "demo_promotion = demo_event ''e2'' EventTypeMemberRoleChanged
     [(''applicationId'', GStr ''a''), (''memberPublicKey'', GStr ''k''), (''oldRole'', GStr ''member''),
      (''newRole'', GStr ''admin'')]"

theorem accept_members_witness:
  "\<exists>d1 stored ns. AcceptEvent demo_service demo_env demo_promotion (demo_user ''o'') demo_db = (d1, Inr stored, ns)
     \<and> t_members d1 = [demo_owner, demo_member\<lparr>m_role := ''admin''\<rparr>]
     \<and> filter (\<lambda>m. m_role m = MemberRoleOwner) (t_members d1) = [demo_owner]"
proof -
  let ?r = "AcceptEvent demo_service demo_env demo_promotion (demo_user ''o'') demo_db"
  have "\<not> isl (fst (snd ?r)) \<and> t_members (fst ?r) = [demo_owner, demo_member\<lparr>m_role := ''admin''\<rparr>]" by code_simp
  then obtain d1 stored ns where r: "?r = (d1, Inr stored, ns)"
    "t_members d1 = [demo_owner, demo_member\<lparr>m_role := ''admin''\<rparr>]"
    by (metis fst_conv prod.collapse sum.collapse(2))
  moreover have "filter (\<lambda>m. m_role m = MemberRoleOwner) (t_members demo_db) = [demo_owner]" by code_simp
  ultimately show ?thesis using accept_members [OF demo_db_ok r(1)] by auto
qed

end
