(* ===== verification/Isolation.thy ===== *)
theory Isolation
  imports EventProps
begin

section \<open>Applications are separate\<close>

text \<open>
  A structural event of one application never reaches the groups, components or reminder rows of
  another: the second interpretation of the contract of the structural operations.
\<close>

text \<open>Every component lies in a group of its own application.\<close>

definition placed :: "db \<Rightarrow> bool" where
  "placed d \<longleftrightarrow> (\<forall>c \<in> set (t_comps d). \<forall>g \<in> set (t_groups d). c_group_id c = g_id g \<longrightarrow>
     c_application_id c = g_application_id g)"

definition foreign_groups :: "string \<Rightarrow> db \<Rightarrow> component_group list" where
  "foreign_groups a d = filter (\<lambda>g. g_application_id g \<noteq> a) (t_groups d)"

definition foreign_comps :: "string \<Rightarrow> db \<Rightarrow> component list" where
  "foreign_comps a d = filter (\<lambda>c. c_application_id c \<noteq> a) (t_comps d)"

definition foreign_reminders :: "string \<Rightarrow> db \<Rightarrow> reminder_row list" where
  "foreign_reminders a d = filter (\<lambda>r. r_component_id r \<in> c_id ` set (foreign_comps a d)) (t_reminders d)"

definition separate :: "string \<Rightarrow> db \<Rightarrow> db \<Rightarrow> bool" where
  "separate a d d1 \<longleftrightarrow> foreign_groups a d1 = foreign_groups a d \<and> foreign_comps a d1 = foreign_comps a d
     \<and> foreign_reminders a d1 = foreign_reminders a d"

definition apart :: "string \<Rightarrow> db \<Rightarrow> db \<Rightarrow> bool" where
  "apart a d0 d \<longleftrightarrow> db_ok d \<and> placed d \<and> separate a d0 d"

lemma apart_step: "apart a d0 d \<Longrightarrow> separate a d d1 \<Longrightarrow> placed d1 \<Longrightarrow> db_ok d1 \<Longrightarrow> apart a d0 d1"
  by (simp add: apart_def separate_def)

lemma apart_update_comps:
  assumes "apart a d0 d" and "owns_comp a cid d" and "update_comps env site cid f d = Inr d1" and "db_ok d1"
    and f: "\<And>c. c_id (f c) = c_id c \<and> c_application_id (f c) = c_application_id c \<and> c_group_id (f c) = c_group_id c"
  shows "apart a d0 d1"
proof -
  have d1: "d1 = d\<lparr>t_comps := update_where (\<lambda>c. c_id c = cid) f (t_comps d)\<rparr>"
    using assms(3) by (auto simp: update_comps_def result_simps)
  have "placed d1" using assms(1) f unfolding d1 by (auto simp: apart_def placed_def in_update_where)
  moreover have "foreign_comps a d1 = foreign_comps a d"
    using assms(2) f unfolding d1 foreign_comps_def owns_comp_def
    by (simp, intro filter_update_where) auto
  ultimately show ?thesis
    using assms(4) by (intro apart_step [OF assms(1)]) (simp_all add: separate_def foreign_groups_def foreign_reminders_def d1)
qed

lemma apart_update_groups:
  assumes "apart a d0 d" and "owns_group a gid d" and "update_groups env site gid f d = Inr d1" and "db_ok d1"
    and f: "\<And>g. g_id (f g) = g_id g \<and> g_application_id (f g) = g_application_id g"
  shows "apart a d0 d1"
proof -
  have d1: "d1 = d\<lparr>t_groups := update_where (\<lambda>g. g_id g = gid) f (t_groups d)\<rparr>"
    using assms(3) by (auto simp: update_groups_def result_simps)
  have "placed d1" using assms(1) f unfolding d1 by (auto simp: apart_def placed_def in_update_where)
  moreover have "foreign_groups a d1 = foreign_groups a d"
    using assms(2) f unfolding d1 foreign_groups_def owns_group_def
    by (simp, intro filter_update_where) auto
  ultimately show ?thesis
    using assms(4) by (intro apart_step [OF assms(1)]) (simp_all add: separate_def foreign_comps_def foreign_reminders_def d1)
qed

lemma apart_drop_comps:
  assumes "apart a d0 d" and own: "\<And>c. c \<in> set (t_comps d) \<Longrightarrow> p c \<Longrightarrow> c_application_id c = a"
  shows "apart a d0 (drop_comps p d)"
proof -
  have fc: "foreign_comps a (drop_comps p d) = foreign_comps a d"
    using own by (auto simp: foreign_comps_def intro!: filter_cong)
  have "distinct (map c_id (t_comps d))" using assms(1) by (simp add: apart_def db_ok_def keys_ok_def)
  then have uniq: "c = c'" if "c \<in> set (t_comps d)" "c' \<in> set (t_comps d)" "c_id c = c_id c'" for c c'
    using that by (auto simp: distinct_map inj_on_def)
  have "r_component_id r \<notin> c_id ` set (filter p (t_comps d))"
    if "r_component_id r \<in> c_id ` set (foreign_comps a d)" for r
    using that own uniq by (fastforce simp: foreign_comps_def)
  then have "foreign_reminders a (drop_comps p d) = foreign_reminders a d"
    unfolding foreign_reminders_def fc by (auto simp: drop_comps_def Let_def intro!: filter_cong)
  moreover have "placed (drop_comps p d)" "db_ok (drop_comps p d)"
    using assms(1) db_ok_drop_comps by (auto simp: apart_def placed_def)
  ultimately show ?thesis
    using fc by (intro apart_step [OF assms(1)]) (simp_all add: separate_def foreign_groups_def)
qed

lemma apart_drop_groups:
  assumes "apart a d0 d" and own: "\<And>g. g \<in> set (t_groups d) \<Longrightarrow> p g \<Longrightarrow> g_application_id g = a"
  shows "apart a d0 (drop_groups p d)"
proof -
  let ?gone = "g_id ` set (filter p (t_groups d))"
  let ?k = "drop_comps (\<lambda>c. c_group_id c \<in> ?gone) d"
  have k: "apart a d0 ?k"
    using assms by (intro apart_drop_comps) (auto simp: apart_def placed_def)
  have eq: "drop_groups p d = ?k\<lparr>t_groups := filter (\<lambda>g. \<not> p g) (t_groups d)\<rparr>"
    by (simp add: drop_groups_def drop_comps_def Let_def)
  have "foreign_groups a (drop_groups p d) = foreign_groups a d"
    using own by (auto simp: foreign_groups_def intro!: filter_cong)
  moreover have "foreign_groups a ?k = foreign_groups a d" by (simp add: foreign_groups_def)
  moreover have "placed (drop_groups p d)" using k unfolding eq by (auto simp: apart_def placed_def)
  moreover have "db_ok (drop_groups p d)" using assms(1) by (intro db_ok_drop_groups) (simp add: apart_def)
  ultimately show ?thesis
    by (intro apart_step [OF k]) (simp_all add: separate_def eq foreign_comps_def foreign_reminders_def)
qed

lemma apart_ok: "apart a d0 d \<Longrightarrow> db_ok d"
  by (simp add: apart_def)

lemma apart_create_comp:
  assumes ap: "apart a d0 d" and own: "owns_comp a (c_id c) d" and grp: "owns_group a (c_group_id c) d"
    and app: "c_application_id c = a" and run: "CreateComponent env c d = Inr d1"
  shows "apart a d0 d1"
proof -
  let ?row = "c\<lparr>c_data := map_option json_rt (c_data c)\<rparr>"
  let ?f = "\<lambda>r. r\<lparr>c_group_id := c_group_id ?row, c_name := c_name ?row, c_data := c_data ?row, c_index := c_index ?row\<rparr>"
  have d1: "d1 = d\<lparr>t_comps := upsert (\<lambda>r. c_id r = c_id c) ?f ?row (t_comps d)\<rparr>"
    using run by (auto simp: CreateComponent_def Let_def result_simps)
  have ok: "db_ok d1" by (rule CreateComponent_ok [OF run apart_ok [OF ap]])
  have fc: "foreign_comps a d1 = foreign_comps a d"
  proof (cases "list_ex (\<lambda>r. c_id r = c_id c) (t_comps d)")
    case True
    then show ?thesis
      using own unfolding d1 foreign_comps_def owns_comp_def upsert_def
      by (simp, intro filter_update_where) auto
  next
    case False
    then show ?thesis using app by (simp add: d1 foreign_comps_def upsert_def)
  qed
  have pl: "placed d1"
    using ap grp own app unfolding d1 placed_def owns_group_def owns_comp_def apart_def
    by (auto simp: in_upsert split: if_splits)
  show ?thesis
    using ok pl fc by (intro apart_step [OF ap]) (simp_all add: separate_def foreign_groups_def foreign_reminders_def d1)
qed

lemma apart_create_group:
  assumes ap: "apart a d0 d" and own: "owns_group a (g_id g) d"
    and app: "g_application_id g = a" and run: "CreateComponentGroup env g d = Inr d1"
  shows "apart a d0 d1"
proof -
  let ?f = "\<lambda>r. r\<lparr>g_name := g_name g, g_index := g_index g\<rparr>"
  have d1: "d1 = d\<lparr>t_groups := upsert (\<lambda>r. g_id r = g_id g) ?f (g\<lparr>g_components := []\<rparr>) (t_groups d)\<rparr>"
    using run by (auto simp: CreateComponentGroup_def result_simps)
  have ok: "db_ok d1" by (rule CreateComponentGroup_ok [OF run apart_ok [OF ap]])
  have new: "c_group_id c \<noteq> g_id g" if "c \<in> set (t_comps d)" "\<not> list_ex (\<lambda>r. g_id r = g_id g) (t_groups d)" for c
    using group_of_comp [OF apart_ok [OF ap] that(1)] that(2) by (auto simp: group_ids_def list_ex_set)
  have fg: "foreign_groups a d1 = foreign_groups a d"
  proof (cases "list_ex (\<lambda>r. g_id r = g_id g) (t_groups d)")
    case True
    then show ?thesis
      using own unfolding d1 foreign_groups_def owns_group_def upsert_def
      by (simp, intro filter_update_where) auto
  next
    case False
    then show ?thesis using app by (simp add: d1 foreign_groups_def upsert_def)
  qed
  have pl: "placed d1"
    using ap new unfolding d1 placed_def apart_def
    by (auto simp: in_upsert split: if_splits)
  show ?thesis
    using ok pl fg by (intro apart_step [OF ap]) (simp_all add: separate_def foreign_comps_def foreign_reminders_def d1)
qed

interpretation separation: edit_contract env a "apart a d0" for env a d0
proof
  show "keys_ok d" if "apart a d0 d" for d using that by (simp add: apart_def db_ok_def)
next
  fix d d1 cid v
  assume "apart a d0 d" "owns_comp a cid d" and r: "UpdateComponentData env cid v d = Inr d1"
  moreover have "db_ok d1" by (rule UpdateComponentData_ok [OF r apart_ok]) fact
  moreover have "update_comps env ''UpdateComponentData'' cid (\<lambda>c. c\<lparr>c_data := map_option json_rt v\<rparr>) d = Inr d1"
    using r by (simp add: UpdateComponentData_def)
  ultimately show "apart a d0 d1" by (auto intro: apart_update_comps)
next
  fix d d1 cid n
  assume "apart a d0 d" "owns_comp a cid d" and r: "UpdateComponentIndex env cid n d = Inr d1"
  moreover have "db_ok d1" by (rule UpdateComponentIndex_ok [OF r apart_ok]) fact
  moreover have "update_comps env ''UpdateComponentIndex'' cid (\<lambda>c. c\<lparr>c_index := n\<rparr>) d = Inr d1"
    using r by (simp add: UpdateComponentIndex_def result_simps)
  ultimately show "apart a d0 d1" by (auto intro: apart_update_comps)
next
  fix d d1 cid
  assume "apart a d0 d" "owns_comp a cid d" "DeleteComponent env cid d = Inr d1"
  then show "apart a d0 d1"
    by (auto simp: DeleteComponent_def result_simps owns_comp_def intro!: apart_drop_comps)
next
  fix d d1 c
  assume "apart a d0 d" "owns_comp a (c_id c) d" "owns_group a (c_group_id c) d" "c_application_id c = a"
    "CreateComponent env c d = Inr d1"
  then show "apart a d0 d1" by (rule apart_create_comp)
next
  fix d d1 gid n
  assume "apart a d0 d" "owns_group a gid d" and r: "UpdateComponentGroupIndex env gid n d = Inr d1"
  moreover have "db_ok d1" by (rule UpdateComponentGroupIndex_ok [OF r apart_ok]) fact
  moreover have "update_groups env ''UpdateComponentGroupIndex'' gid (\<lambda>g. g\<lparr>g_index := n\<rparr>) d = Inr d1"
    using r by (simp add: UpdateComponentGroupIndex_def result_simps)
  ultimately show "apart a d0 d1" by (auto intro: apart_update_groups)
next
  fix d d1 gid nm n
  assume "apart a d0 d" "owns_group a gid d" and r: "UpdateComponentGroup env gid nm n d = Inr d1"
  moreover have "db_ok d1" by (rule UpdateComponentGroup_ok [OF r apart_ok]) fact
  moreover have "update_groups env ''UpdateComponentGroup'' gid (\<lambda>g. g\<lparr>g_name := nm, g_index := n\<rparr>) d = Inr d1"
    using r by (simp add: UpdateComponentGroup_def result_simps)
  ultimately show "apart a d0 d1" by (auto intro: apart_update_groups)
next
  fix d d1 gid
  assume "apart a d0 d" "owns_group a gid d" "DeleteComponentGroup env gid d = Inr d1"
  then show "apart a d0 d1"
    by (auto simp: DeleteComponentGroup_def result_simps owns_group_def intro!: apart_drop_groups)
next
  fix d d1 g
  assume "apart a d0 d" "owns_group a (g_id g) d" "g_application_id g = a" "CreateComponentGroup env g d = Inr d1"
  then show "apart a d0 d1" by (rule apart_create_group)
qed

lemma separate_refl [simp]: "separate a d d"
  by (simp add: separate_def)

lemma separate_tables:
  "t_groups d1 = t_groups d \<Longrightarrow> t_comps d1 = t_comps d \<Longrightarrow> t_reminders d1 = t_reminders d \<Longrightarrow>
    separate a d d1 \<and> (placed d \<longrightarrow> placed d1)"
  by (simp add: separate_def placed_def foreign_groups_def foreign_comps_def foreign_reminders_def)

lemma fresh_run_separate:
  assumes run: "fresh_run s env e sq d stored d1" and ok: "db_ok d" and pl: "placed d"
    and app: "ev_application_id e \<noteq> []"
    and t: "ev_type e = EventTypeComponentDataChanged \<or> ev_type e = EventTypeApplicationAfterEditModeChanged"
  shows "separate (ev_application_id e) d d1 \<and> placed d1"
proof -
  let ?a = "ev_application_id e"
  note log = fresh_run_log [OF run ok disjI1 [OF app]]
  obtain ev1 d2 d3 where c: "CreateEvent env ev1 d = Inr (stored, d2)" and x: "executeEvent s env stored d2 = Inr d3"
    and up: "if sq then updateAppVersion env stored d3 = (d1, False) else d1 = d3"
    using run by (auto simp: fresh_run_def)
  have "separate ?a d d2" "placed d2"
    using separate_tables [of d2 d] CreateEvent_shape(3) [OF c] pl by simp_all
  then have "apart ?a d d2" using CreateEvent_ok [OF c ok] by (simp add: apart_def)
  then have "apart ?a d d3"
    using x t log(4,6) separation.batch_keeps [of ?a d d2 stored env d3]
      separation.data_changed_keeps [of ?a d d2 stored env d3]
    by (auto simp: executeEvent_def)
  moreover have "separate ?a d3 d1 \<and> (placed d3 \<longrightarrow> placed d1)"
    using up updateAppVersion_frame [of env stored d3 d1 False]
    by (intro separate_tables) (auto split: if_splits)
  ultimately show ?thesis by (simp add: apart_def separate_def)
qed


text \<open>A second application beside the first, and a batch that adds a component to the first and drops one that is gone.\<close>

definition two_apps :: db where
  "two_apps = demo_db\<lparr>t_apps := [demo_app, demo_app\<lparr>ar_id := ''b''\<rparr>],
     t_groups := [demo_group, demo_group\<lparr>g_id := ''h'', g_application_id := ''b''\<rparr>],
     t_comps := [demo_comp, demo_comp\<lparr>c_id := ''x'', c_group_id := ''h'', c_application_id := ''b''\<rparr>],
     t_members := [demo_owner, demo_member, demo_owner\<lparr>m_id := ''m3'', m_application_id := ''b''\<rparr>]\<rparr>"

lemma two_apps_ok: "db_ok two_apps" "placed two_apps"
  by (simp_all add: table_ok_defs two_apps_def demo_defs valid_role_def IsGrantable_def placed_def)

definition demo_batch :: event where
  "demo_batch = demo_event ''e3'' EventTypeApplicationAfterEditModeChanged
     [(''applicationId'', GStr ''a''),
      (''changes'', GList
        [GMap [(''changeType'', GStr ''component_added''), (''entityId'', GStr ''n''),
           (''data'', GMap [(''id'', GStr ''n''), (''componentGroupId'', GStr ''g''), (''name'', GStr ''New'')])],
         GMap [(''changeType'', GStr ''component_removed''), (''entityId'', GStr ''x'')]])]"



end
