(* ===== verification/LogProps.thy ===== *)
theory LogProps
  imports EventProps
begin

section \<open>Reading and pruning the log\<close>

text \<open>
  The pages of \<open>GetSince\<close> put together are the visible part of the log, and pruning keeps the rows
  that readers and the numbering depend on.
\<close>

subsection \<open>Pages\<close>

text \<open>A client that follows the pages from a cursor until there are no more.\<close>

fun read_all :: "nat \<Rightarrow> env \<Rightarrow> string \<Rightarrow> string \<Rightarrow> int \<Rightarrow> db \<Rightarrow> event list result" where
  "read_all 0 env key cursor limit d = Inl (errorf ''out of fuel'')"
| "read_all (Suc k) env key cursor limit d =
     rbind (GetSince env key cursor limit d) (\<lambda>(es, hasMore).
       if hasMore then rbind (read_all k env key (ev_id (last es)) limit d) (\<lambda>rest. Inr (es @ rest))
       else Inr es)"

lemma sort_key_sorted_wrt: "sorted_wrt (<) (map f xs) \<Longrightarrow> sort_key f xs = xs"
  for f :: "'a \<Rightarrow> int"
  by (rule sort_key_id_if_sorted) (simp add: strict_sorted_imp_sorted)

lemma rows_since_filter:
  assumes "log_ok d"
  shows "rows_since env key n d = filter (\<lambda>r. n < fst r \<and> visible env key d (snd r)) (t_events d)"
  unfolding rows_since_def using assms
  by (intro sort_key_sorted_wrt sorted_wrt_map_filter) (simp add: log_ok_def)

lemma strictly_sorted_drop:
  fixes f :: "'a \<Rightarrow> int"
  assumes "sorted_wrt (<) (map f xs)" and "0 < n" and "n \<le> length xs"
  shows "filter (\<lambda>x. f (xs ! (n - 1)) < f x) xs = drop n xs"
  using assms
proof (induction xs arbitrary: n)
  case (Cons x xs)
  show ?case
  proof (cases "n = 1")
    case True
    then show ?thesis using Cons.prems by auto
  next
    case False
    with Cons.prems have n: "0 < n - 1" "n - 1 \<le> length xs" by auto
    then have "filter (\<lambda>y. f (xs ! (n - 1 - 1)) < f y) xs = drop (n - 1) xs"
      using Cons.IH [of "n - 1"] Cons.prems by simp
    moreover have "f x < f (xs ! (n - 1 - 1))" using Cons.prems(1) n by simp
    ultimately show ?thesis using n by (simp add: nth_Cons' drop_Cons')
  qed
qed simp

lemma rows_since_step:
  assumes ok: "log_ok d" and rs: "rows_since env key n d = rs" and k: "0 < k" "k \<le> length rs"
  shows "rows_since env key (fst (rs ! (k - 1))) d = drop k rs"
proof -
  let ?v = "\<lambda>r. visible env key d (snd r)" and ?r = "rs ! (k - 1)"
  have rs': "rs = filter (\<lambda>r. n < fst r \<and> ?v r) (t_events d)" using rows_since_filter [OF ok] rs by simp
  have "n < fst ?r" using k rs' nth_mem [of "k - 1" rs] by auto
  then have "filter (\<lambda>r. fst ?r < fst r \<and> ?v r) (t_events d) = filter (\<lambda>r. fst ?r < fst r) rs"
    unfolding rs' by (auto intro!: filter_cong)
  moreover have "sorted_wrt (<) (map fst rs)"
    unfolding rs' using ok by (intro sorted_wrt_map_filter) (simp add: log_ok_def)
  ultimately show ?thesis
    using strictly_sorted_drop [of fst rs k] k rows_since_filter [OF ok] by simp
qed

lemma page_limit_pos: "0 < page_limit limit"
  by (auto simp: page_limit_def)

definition cursor_ordinal :: "string \<Rightarrow> db \<Rightarrow> int option" where
  "cursor_ordinal cursor d =
     (if cursor = [] then Some 0
      else map_option fst (find (\<lambda>r. ev_id (snd r) = cursor) (t_events d)))"

lemma GetSince_page:
  assumes "reliable env" and "cursor_ordinal cursor d = Some n"
  shows "GetSince env key cursor limit d =
    Inr (map (page_form \<circ> snd) (take (page_limit limit) (rows_since env key n d)),
         page_limit limit < length (rows_since env key n d))"
proof -
  have "min (Suc k) (length rs) > k \<longleftrightarrow> k < length rs" for k and rs :: "event_row list" by auto
  with assms show ?thesis
    by (auto simp: GetSince_def cursor_ordinal_def Let_def min_def split: if_splits option.splits)
qed

lemma cursor_of_row:
  assumes "log_ok d" and "r \<in> set (t_events d)" and "[] \<notin> set (event_ids d)"
  shows "cursor_ordinal (ev_id (snd r)) d = Some (fst r)"
proof -
  have "ev_id (snd r) \<noteq> []" using assms(2,3) by (force simp: event_ids_def image_iff)
  moreover obtain y where f: "find (\<lambda>x. ev_id (snd x) = ev_id (snd r)) (t_events d) = Some y"
    using assms(2) by (metis (mono_tags, lifting) find_none not_None_eq)
  moreover have "distinct (map (\<lambda>x. ev_id (snd x)) (t_events d))"
    using assms(1) by (simp add: log_ok_def event_ids_def comp_def)
  then have "r = y" using find_unique [OF _ f assms(2)] by simp
  ultimately show ?thesis by (simp add: cursor_ordinal_def)
qed

text \<open>
  C7. Following the pages from any cursor the log still holds (or from the beginning), whatever the
  page size, delivers every event the user may see after the cursor, exactly once and in the
  order in which the space accepted them, and it ends.
\<close>
theorem pages_complete:
  assumes "reliable env" and "log_ok d" and "[] \<notin> set (event_ids d)"
    and "cursor_ordinal cursor d = Some n" and "length (t_events d) < fuel"
  shows "read_all fuel env key cursor limit d = Inr (map (page_form \<circ> snd)
     (filter (\<lambda>r. n < fst r \<and> visible env key d (snd r)) (t_events d)))"
proof -
  have "read_all fuel env key cursor limit d = Inr (map (page_form \<circ> snd) (rows_since env key n d))"
    if "cursor_ordinal cursor d = Some n" "length (rows_since env key n d) < fuel" for cursor n fuel
    using that
  proof (induction fuel arbitrary: cursor n)
    case (Suc k)
    let ?rs = "rows_since env key n d" and ?l = "page_limit limit"
    note page = GetSince_page [OF assms(1) Suc.prems(1), of key limit]
    show ?case
    proof (cases "?l < length ?rs")
      case False
      then show ?thesis using page by simp
    next
      case True
      let ?r = "?rs ! (?l - 1)"
      have "?r \<in> set ?rs" using True by (intro nth_mem) simp
      then have "?r \<in> set (t_events d)" by (simp add: rows_since_filter [OF assms(2)])
      then have c: "cursor_ordinal (ev_id (snd ?r)) d = Some (fst ?r)"
        using cursor_of_row [OF assms(2) _ assms(3)] by blast
      have nx: "rows_since env key (fst ?r) d = drop ?l ?rs"
        using rows_since_step [OF assms(2) refl page_limit_pos] True by simp
      then have rest: "read_all k env key (ev_id (snd ?r)) limit d = Inr (map (page_form \<circ> snd) (drop ?l ?rs))"
        using Suc.IH [OF c] Suc.prems(2) page_limit_pos [of limit] True by simp
      have ne: "take ?l ?rs \<noteq> []" using True page_limit_pos [of limit] by auto
      have "last (take ?l ?rs) = take ?l ?rs ! (?l - 1)" using True last_conv_nth [OF ne] by (simp add: min_def)
      also have "\<dots> = ?r" using page_limit_pos [of limit] by (intro nth_take) simp
      finally have "last (take ?l ?rs) = ?r" .
      with ne have "ev_id (last (map (page_form \<circ> snd) (take ?l ?rs))) = ev_id (snd ?r)"
        by (simp add: last_map page_form_def)
      moreover have "map (page_form \<circ> snd) (take ?l ?rs) @ map (page_form \<circ> snd) (drop ?l ?rs)
          = map (page_form \<circ> snd) ?rs"
        by (metis append_take_drop_id map_append)
      ultimately show ?thesis using page True rest by simp
    qed
  qed simp
  moreover have "length (rows_since env key n d) < fuel"
    using assms(5) length_filter_le [of _ "t_events d"] rows_since_filter [OF assms(2)]
    by (metis (no_types, lifting) le_less_trans)
  ultimately show ?thesis using assms(4) rows_since_filter [OF assms(2)] by metis
qed

lemma demo_env_reliable: "reliable demo_env"
  by (simp add: reliable_def demo_env_def)

lemma demo_after_edit_log:
  "map (\<lambda>r. (fst r, ev_id (snd r))) (t_events demo_after_edit) = [(1, ''e1'')]" "next_ordinal demo_after_edit = 2"
  by code_simp+

theorem pages_complete_witness:
  "read_all 5 demo_env ''o'' [] 1 demo_after_edit = Inr (map (page_form \<circ> snd)
     (filter (\<lambda>r. 0 < fst r \<and> visible demo_env ''o'' demo_after_edit (snd r)) (t_events demo_after_edit)))"
proof -
  obtain e where e: "t_events demo_after_edit = [(1, e)]" "ev_id e = ''e1''"
    using demo_after_edit_log(1) by auto
  show ?thesis
    by (rule pages_complete [OF demo_env_reliable])
      (use demo_after_edit_log(2) e in \<open>simp_all add: log_ok_def event_ids_def cursor_ordinal_def\<close>)
qed

subsection \<open>Pruning\<close>

text \<open>Two rows on which the same cursors and the same numbering depend.\<close>

definition same_stream :: "event \<Rightarrow> event \<Rightarrow> bool" where
  "same_stream a b \<longleftrightarrow> ev_application_id a = ev_application_id b \<and>
     (ev_application_id a = [] \<longrightarrow> ev_creator a = ev_creator b)"

definition seqs_ok :: "db \<Rightarrow> bool" where
  "seqs_ok d \<longleftrightarrow> (\<forall>x. sorted_wrt (<) (seqs_of x (t_events d)))"

lemma arg_max_row:
  fixes f :: "'a \<Rightarrow> 'b :: linorder"
  assumes "r \<in> set es" and "P r"
  shows "\<exists>y \<in> set es. P y \<and> f r \<le> f y \<and> (\<forall>z \<in> set es. P z \<longrightarrow> f z \<le> f y)"
proof -
  let ?A = "{x \<in> set es. P x}"
  have "finite (f ` ?A)" "f ` ?A \<noteq> {}" using assms by auto
  then have "Max (f ` ?A) \<in> f ` ?A" by (rule Max_in)
  then obtain y where "y \<in> ?A" "f y = Max (f ` ?A)" by auto
  moreover have "f z \<le> Max (f ` ?A)" if "z \<in> ?A" for z using that by (intro Max_ge) auto
  ultimately show ?thesis using assms by auto
qed

lemma newest_not_prunable:
  assumes "r \<in> set es" and "\<forall>z \<in> set es. same_stream (snd r) (snd z) \<longrightarrow> fst z \<le> fst r"
  shows "\<not> prunable t es r"
proof (cases "ev_application_id (snd r) = []")
  case True
  then have "newest_of_user es r" using assms by (auto simp: newest_of_user_def list_all_iff same_stream_def)
  then show ?thesis by (simp add: prunable_def)
next
  case False
  then have "newest_of_app es r" using assms by (auto simp: newest_of_app_def list_all_iff same_stream_def)
  then show ?thesis by (simp add: prunable_def)
qed

lemma stream_anchor:
  assumes "r \<in> set es"
  shows "\<exists>y \<in> set es. same_stream (snd r) (snd y) \<and> fst r \<le> fst y \<and> \<not> prunable t es y
    \<and> (\<forall>z \<in> set es. same_stream (snd r) (snd z) \<longrightarrow> fst z \<le> fst y)"
proof -
  obtain y where y: "y \<in> set es" "same_stream (snd r) (snd y)" "fst r \<le> fst y"
    "\<forall>z \<in> set es. same_stream (snd r) (snd z) \<longrightarrow> fst z \<le> fst y"
    using arg_max_row [OF assms, of "\<lambda>z. same_stream (snd r) (snd z)" fst] by (auto simp: same_stream_def)
  then have "\<forall>z \<in> set es. same_stream (snd y) (snd z) \<longrightarrow> fst z \<le> fst y"
    by (auto simp: same_stream_def)
  with y newest_not_prunable [OF y(1)] show ?thesis by blast
qed

lemma template_anchor:
  assumes "r \<in> set es" and "template_row (snd r)"
  shows "\<exists>y \<in> set es. same_template (snd r) (snd y) \<and> template_rev (snd r) \<le> template_rev (snd y)
    \<and> \<not> prunable t es y"
proof -
  obtain y where y: "y \<in> set es" "same_template (snd r) (snd y)" "template_rev (snd r) \<le> template_rev (snd y)"
    "\<forall>z \<in> set es. same_template (snd r) (snd z) \<longrightarrow> template_rev (snd z) \<le> template_rev (snd y)"
    using arg_max_row [OF assms(1), of "\<lambda>z. same_template (snd r) (snd z)" "template_rev \<circ> snd"] assms(2)
    by (auto simp: same_template_def)
  then have "top_template es y" by (auto simp: top_template_def list_all_iff same_template_def)
  with y show ?thesis by (auto simp: prunable_def)
qed

lemma max_seq_sorted: "sorted_wrt (<) ns \<Longrightarrow> ns \<noteq> [] \<Longrightarrow> max_seq ns = last ns"
proof (induction ns rule: rev_induct)
  case (snoc n ns)
  show ?case
  proof (cases "ns = []")
    case False
    with snoc have "max_seq ns = last ns" "\<forall>x \<in> set ns. x < n" by (auto simp: sorted_wrt_append)
    then show ?thesis using False by (simp add: max_seq_snoc)
  qed (simp add: max_seq_def)
qed simp

text \<open>The last row of an application keeps its place, so the numbering does too.\<close>

lemma seqs_pruned:
  assumes "log_ok d" and "seqs_ok d"
  shows "max_seq (seqs_of x (filter (\<lambda>r. \<not> prunable t (t_events d) r) (t_events d))) = max_seq (seqs_of x (t_events d))"
proof -
  let ?es = "t_events d" and ?p = "of_app x \<circ> snd"
  let ?ns = "filter ?p ?es" and ?kept = "filter ?p (filter (\<lambda>r. \<not> prunable t ?es r) ?es)"
  have kept: "?kept = filter (\<lambda>r. \<not> prunable t ?es r) ?ns" by (simp add: conj_commute)
  have s: "sorted_wrt (<) (seqs_of x ?es)" "sorted_wrt (<) (map fst ?ns)"
    using assms sorted_wrt_map_filter by (auto simp: seqs_ok_def log_ok_def)
  show ?thesis
  proof (cases "?ns = []")
    case True
    then show ?thesis unfolding seqs_of_def kept by simp
  next
    case False
    then obtain ms r where ns: "?ns = ms @ [r]" by (metis append_butlast_last_id)
    then have r: "r \<in> set ?es" "of_app x (snd r)" by (auto dest!: arg_cong [where f = set])
    have "fst z \<le> fst r" if "z \<in> set ?es" "same_stream (snd r) (snd z)" for z
    proof -
      have "of_app x (snd z)" using that(2) r(2) by (auto simp: same_stream_def of_app_def)
      then have "z \<in> set (filter ?p ?es)" using that(1) by simp
      then have "z \<in> set (ms @ [r])" by (simp only: ns)
      moreover have "sorted_wrt (<) (map fst (ms @ [r]))" using s(2) ns by simp
      ultimately show ?thesis by (auto simp: sorted_wrt_append)
    qed
    then have "\<not> prunable t ?es r" using newest_not_prunable [OF r(1)] by blast
    then have k: "?kept = filter (\<lambda>r. \<not> prunable t ?es r) ms @ [r]" using ns kept by simp
    have "sorted_wrt (<) (map (ev_sequence \<circ> snd) ?kept)"
      using s(1) unfolding seqs_of_def kept by (rule sorted_wrt_map_filter)
    then have "max_seq (map (ev_sequence \<circ> snd) ?kept) = ev_sequence (snd r)"
      using max_seq_sorted [of "map (ev_sequence \<circ> snd) ?kept"] k by simp
    moreover have "max_seq (map (ev_sequence \<circ> snd) ?ns) = ev_sequence (snd r)"
      using max_seq_sorted [of "map (ev_sequence \<circ> snd) ?ns"] s(1) ns by (simp add: seqs_of_def)
    ultimately show ?thesis by (simp add: seqs_of_def)
  qed
qed

text \<open>
  C8. Pruning with any cutoff removes only rows older than it, in one go and without reordering, and
  never what others depend on: every application and every user keeps the newest row (the anchor
  of idle cursors), every template keeps a row of its highest revision, and no application's next
  sequence number changes.
\<close>
theorem pruning_keeps_anchors:
  assumes "log_ok d" and "seqs_ok d" and "DeleteOlderThan env t d = Inr (n, d1)"
  shows "high_water x d1 = high_water x d
    \<and> n = int (length (t_events d)) - int (length (t_events d1))
    \<and> (\<exists>keep. t_events d1 = filter keep (t_events d) \<and> (\<forall>r. \<not> keep r \<longrightarrow> ev_created_at (snd r) < t))
    \<and> (\<forall>r \<in> set (t_events d). \<exists>y \<in> set (t_events d1). same_stream (snd r) (snd y) \<and> fst r \<le> fst y)
    \<and> (\<forall>r \<in> set (t_events d). template_row (snd r) \<longrightarrow>
         (\<exists>y \<in> set (t_events d1). same_template (snd r) (snd y) \<and> template_rev (snd r) \<le> template_rev (snd y)))"
proof -
  let ?es = "t_events d" and ?keep = "\<lambda>r. \<not> prunable t (t_events d) r"
  have d1: "d1 = d\<lparr>t_events := filter ?keep ?es\<rparr>" and n: "n = int (length (filter (prunable t ?es) ?es))"
    using assms(3) by (auto simp: DeleteOlderThan_def Let_def result_simps)
  have "high_water x d1 = high_water x d"
    using seqs_pruned [OF assms(1,2)] by (simp add: high_water_def d1)
  moreover have "n = int (length ?es) - int (length (t_events d1))"
    using sum_length_filter_compl [of "prunable t ?es" ?es] by (simp add: d1 n)
  moreover have "\<forall>r. \<not> ?keep r \<longrightarrow> ev_created_at (snd r) < t" by (simp add: prunable_def)
  moreover have "\<exists>y \<in> set (t_events d1). same_stream (snd r) (snd y) \<and> fst r \<le> fst y" if "r \<in> set ?es" for r
    using stream_anchor [OF that, of t] unfolding d1 by force
  moreover have "\<exists>y \<in> set (t_events d1). same_template (snd r) (snd y) \<and> template_rev (snd r) \<le> template_rev (snd y)"
    if "r \<in> set ?es" "template_row (snd r)" for r
    using template_anchor [OF that, of t] unfolding d1 by force
  ultimately show ?thesis unfolding d1 by auto
qed

text \<open>Two old events of one application: the older one goes.\<close>

definition old_log :: db where
  "old_log = demo_db\<lparr>t_events :=
     [(1, (demo_event ''e1'' EventTypeComponentDataChanged [])\<lparr>ev_application_id := ''a'', ev_sequence := 1\<rparr>),
      (2, (demo_event ''e2'' EventTypeComponentDataChanged [])\<lparr>ev_application_id := ''a'', ev_sequence := 2\<rparr>)],
     next_ordinal := 3\<rparr>"

theorem pruning_keeps_anchors_witness:
  "\<exists>d1. DeleteOlderThan demo_env 100 old_log = Inr (1, d1) \<and> map fst (t_events d1) = [2]
     \<and> high_water ''a'' d1 = high_water ''a'' old_log"
proof -
  have l: "log_ok old_log" by (simp add: log_ok_def old_log_def event_ids_def demo_defs)
  have s: "seqs_ok old_log" by (simp add: seqs_ok_def old_log_def seqs_of_def demo_defs)
  have "(case DeleteOlderThan demo_env 100 old_log of Inl _ \<Rightarrow> False | Inr (n, d1) \<Rightarrow> n = 1 \<and> map fst (t_events d1) = [2])"
    by code_simp
  then obtain d1 where r: "DeleteOlderThan demo_env 100 old_log = Inr (1, d1)" "map fst (t_events d1) = [2]"
    by (auto split: sum.splits prod.splits)
  have "high_water ''a'' d1 = high_water ''a'' old_log"
    using pruning_keeps_anchors [OF l s r(1), of "''a''"] by (elim conjE)
  with r show ?thesis by (intro exI [of _ d1] conjI)
qed

end
