(* ===== verification/SystemLaws.thy ===== *)
theory SystemLaws
  imports LogProps
begin

section \<open>The marks and the owners under every operation\<close>

text \<open>
  The two invariants of the space beyond the integrity of its tables: the numbers of every
  application increase along the log and stay below the next ordinal (\<open>numbered\<close>), and no
  application has two owners (\<open>one_owner\<close>). Every operation that writes keeps them.
\<close>

definition numbered :: "db \<Rightarrow> bool" where
  "numbered d \<longleftrightarrow> seqs_ok d \<and> (\<forall>x. 0 \<le> high_water x d \<and> high_water x d < next_ordinal d)"

definition one_owner :: "db \<Rightarrow> bool" where
  "one_owner d \<longleftrightarrow> (\<forall>m \<in> set (t_members d). \<forall>m' \<in> set (t_members d). m_role m = MemberRoleOwner \<longrightarrow>
     m_role m' = MemberRoleOwner \<longrightarrow> m_application_id m = m_application_id m' \<longrightarrow> m = m')"

definition space_ok :: "db \<Rightarrow> bool" where
  "space_ok d \<longleftrightarrow> db_ok d \<and> numbered d \<and> one_owner d"

subsection \<open>Numbers\<close>

lemma numbered_same_log:
  assumes "numbered d" and "same_log d d1"
  shows "numbered d1"
  using assms same_log_high_water [OF assms(2)]
  by (simp add: numbered_def seqs_ok_def same_log_def)

lemma numbered_ordinal:
  assumes "numbered d" and "t_events d1 = t_events d" and "t_apps d1 = t_apps d" and "next_ordinal d \<le> next_ordinal d1"
  shows "numbered d1"
  using assms by (auto simp: numbered_def seqs_ok_def high_water_def intro: less_le_trans)

text \<open>Rows of whole applications disappear, and marks stay or start over.\<close>

lemma numbered_shrunk:
  assumes n: "numbered d" and o: "next_ordinal d1 = next_ordinal d"
    and s: "\<And>x. seqs_of x (t_events d1) = seqs_of x (t_events d) \<or> seqs_of x (t_events d1) = []"
    and l: "\<And>x. last_seq x (t_apps d1) = last_seq x (t_apps d) \<or> last_seq x (t_apps d1) = 0"
  shows "numbered d1"
proof -
  have "seqs_ok d1" using n s by (metis numbered_def seqs_ok_def sorted_wrt.simps(1))
  moreover have "0 \<le> high_water x d1 \<and> high_water x d1 < next_ordinal d1" for x
  proof -
    have "0 \<le> high_water x d \<and> high_water x d < next_ordinal d" using n by (simp add: numbered_def)
    then show ?thesis using s [of x] l [of x] o by (auto simp: high_water_def max_seq_def)
  qed
  ultimately show ?thesis by (simp add: numbered_def)
qed

lemma numbered_pruned:
  assumes "numbered d" and "log_ok d" and "DeleteOlderThan env t d = Inr (n, d1)"
  shows "numbered d1"
proof -
  have so: "seqs_ok d" using assms(1) by (simp add: numbered_def)
  have d1: "d1 = d\<lparr>t_events := filter (\<lambda>r. \<not> prunable t (t_events d) r) (t_events d)\<rparr>"
    using assms(3) by (auto simp: DeleteOlderThan_def Let_def result_simps)
  have "high_water x d1 = high_water x d" for x
    using seqs_pruned [OF assms(2) so] by (simp add: high_water_def d1)
  moreover have "seqs_of x (t_events d1) = map (ev_sequence \<circ> snd)
      (filter (\<lambda>r. \<not> prunable t (t_events d) r) (filter (of_app x \<circ> snd) (t_events d)))" for x
    by (simp add: seqs_of_def d1 conj_commute)
  then have "seqs_ok d1"
    using so by (simp add: seqs_ok_def seqs_of_def sorted_wrt_map_filter del: map_map filter_filter)
  ultimately show ?thesis using assms(1) by (simp add: numbered_def d1)
qed

lemma last_seq_update_same:
  assumes "\<And>a. p a \<Longrightarrow> ar_id (f a) = ar_id a \<and> ar_last_sequence (f a) = ar_last_sequence a"
  shows "last_seq x (update_where p f as) = last_seq x as"
  using assms by (induction as) (auto simp: last_seq_def update_where_def)

lemma numbered_update_apps:
  assumes "numbered d" and "\<And>a. p a \<Longrightarrow> ar_id (f a) = ar_id a \<and> ar_last_sequence (f a) = ar_last_sequence a"
  shows "numbered (d\<lparr>t_apps := update_where p f (t_apps d)\<rparr>)"
  using assms(1) last_seq_update_same [OF assms(2)] by (intro numbered_shrunk [OF assms(1)]) simp_all

lemma update_apps_numbered:
  assumes "update_apps env site p f e d = Inr d1" and "numbered d"
    and "\<And>a. p a \<Longrightarrow> ar_id (f a) = ar_id a \<and> ar_last_sequence (f a) = ar_last_sequence a"
  shows "numbered d1"
  using assms by (auto simp: update_apps_def result_simps intro: numbered_update_apps)

lemma last_seq_filter:
  "last_seq x (filter p as) = last_seq x as \<or> last_seq x (filter p as) = 0"
  if "distinct (map ar_id as)"
  using that
proof (induction as)
  case (Cons a as)
  show ?case
  proof (cases "ar_id a = x")
    case True
    then have "ar_id b \<noteq> x" if "b \<in> set as" for b using Cons.prems imageI [OF that, of ar_id] by auto
    then have "find (\<lambda>a. ar_id a = x) (filter p as) = None" by (simp add: find_None_iff)
    then show ?thesis using True by (simp add: last_seq_def)
  next
    case False
    then show ?thesis using Cons by (auto simp: last_seq_def)
  qed
qed (simp add: last_seq_def)

lemma numbered_drop_apps:
  assumes n: "numbered d" and ok: "db_ok d"
  shows "numbered (drop_apps p d)"
proof (rule numbered_shrunk [OF n])
  show "next_ordinal (drop_apps p d) = next_ordinal d" by (simp add: drop_apps_def Let_def)
  show "last_seq x (t_apps (drop_apps p d)) = last_seq x (t_apps d) \<or> last_seq x (t_apps (drop_apps p d)) = 0" for x
    using ok last_seq_filter [of "t_apps d" x "\<lambda>a. \<not> p a"]
    by (simp add: drop_apps_def Let_def db_ok_def keys_ok_def app_ids_def)
  show "seqs_of x (t_events (drop_apps p d)) = seqs_of x (t_events d) \<or> seqs_of x (t_events (drop_apps p d)) = []" for x
  proof (cases "\<exists>a \<in> set (t_apps d). p a \<and> ar_id a = x")
    case True
    then have "filter (of_app x \<circ> snd) (t_events (drop_apps p d)) = []"
      by (auto simp: drop_apps_def Let_def filter_empty_conv list_ex_set of_app_def)
    then show ?thesis unfolding seqs_of_def by simp
  next
    case False
    then have "filter (of_app x \<circ> snd) (t_events (drop_apps p d)) = filter (of_app x \<circ> snd) (t_events d)"
      by (auto simp: drop_apps_def Let_def list_ex_set of_app_def intro!: filter_cong)
    then show ?thesis unfolding seqs_of_def by simp
  qed
qed

lemma upsertApplication_numbered:
  assumes "upsertApplication env app d = Inr d1" and "numbered d"
  shows "numbered d1"
proof (cases "list_ex (\<lambda>a. ar_id a = ap_id app) (t_apps d)")
  case True
  then show ?thesis
    using assms by (auto simp: upsertApplication_def result_simps upsert_def intro!: numbered_update_apps)
next
  case False
  then have none: "find (\<lambda>a. ar_id a = ap_id app) (t_apps d) = None" by (auto simp: find_None_iff list_ex_set)
  obtain a where d1: "d1 = d\<lparr>t_apps := t_apps d @ [a]\<rparr>" and a: "ar_id a = ap_id app" "ar_last_sequence a = None"
    using assms(1) False by (auto simp: upsertApplication_def result_simps upsert_def)
  have "last_seq x (t_apps d @ [a]) = last_seq x (t_apps d)" for x
    using none a by (simp add: last_seq_def find_append split: option.split)
  then show ?thesis unfolding d1 by (intro numbered_shrunk [OF assms(2)]) simp_all
qed

text \<open>What the other tables hold does not matter.\<close>

definition same_marks :: "db \<Rightarrow> db \<Rightarrow> bool" where
  "same_marks d d1 \<longleftrightarrow> t_events d1 = t_events d \<and> t_apps d1 = t_apps d \<and> next_ordinal d1 = next_ordinal d"

lemma same_marks_numbered: "same_marks d d1 \<Longrightarrow> numbered d \<Longrightarrow> numbered d1"
  by (auto simp: same_marks_def intro: numbered_ordinal)

lemma fold_res_marks:
  assumes "fold_res f xs d = Inr d1" and "\<And>x a b. f x a = Inr b \<Longrightarrow> same_marks a b"
  shows "same_marks d d1"
  using assms(1) by (rule fold_res_invariant) (use assms(2) in \<open>fastforce simp: same_marks_def\<close>)+

lemma register_marks:
  "register_member env a mb d = Inr d1 \<Longrightarrow> same_marks d d1"
  "register_component env a g c d = Inr d1 \<Longrightarrow> same_marks d d1"
  by (auto simp: register_member_def register_component_def CreateMember_def CreateComponent_def Let_def
      result_simps same_marks_def)

lemma register_group_marks: "register_group env a g d = Inr d1 \<Longrightarrow> same_marks d d1"
  by (auto simp: register_group_def CreateComponentGroup_def result_simps same_marks_def
      dest!: fold_res_marks [OF _ register_marks(2)])

lemma repoRegisterApplication_numbered:
  assumes "repoRegisterApplication env app d = Inr d1" and "numbered d"
  shows "numbered d1"
proof -
  obtain d2 d3 where u: "upsertApplication env app d = Inr d2"
    and m: "fold_res (register_member env (ap_id app)) (ap_members app) d2 = Inr d3"
    and g: "fold_res (register_group env (ap_id app)) (ap_groups app) d3 = Inr d1"
    using assms(1) by (auto simp: repoRegisterApplication_def result_simps)
  have "numbered d2" using u assms(2) upsertApplication_numbered by blast
  moreover have s: "same_marks d2 d3" "same_marks d3 d1"
    using fold_res_marks [OF m] fold_res_marks [OF g] register_marks(1) register_group_marks by blast+
  ultimately show "numbered d1" using same_marks_numbered by blast
qed

lemma repoRegisterApplication_log:
  assumes "repoRegisterApplication env app d = Inr d1"
  shows "t_events d1 = t_events d" "next_ordinal d1 = next_ordinal d"
proof -
  obtain d2 d3 where u: "upsertApplication env app d = Inr d2"
    and m: "fold_res (register_member env (ap_id app)) (ap_members app) d2 = Inr d3"
    and g: "fold_res (register_group env (ap_id app)) (ap_groups app) d3 = Inr d1"
    using assms by (auto simp: repoRegisterApplication_def result_simps)
  have "same_marks d2 d3" "same_marks d3 d1"
    using fold_res_marks [OF m] fold_res_marks [OF g] register_marks(1) register_group_marks by blast+
  then show "t_events d1 = t_events d" "next_ordinal d1 = next_ordinal d"
    using u by (auto simp: same_marks_def upsertApplication_def result_simps)
qed

lemma clear_tables_shape:
  assumes "clear_tables env x d = Inr d1"
  shows "t_events d1 = filter (\<lambda>e. \<not> of_app x (snd e)) (t_events d)" "t_apps d1 = t_apps d"
    "next_ordinal d1 = next_ordinal d" "t_members d1 = t_members d"
    "t_groups d1 = filter (\<lambda>g. g_application_id g \<noteq> x) (t_groups d)"
    "t_invitations d1 = filter (\<lambda>i. iv_application_id i \<noteq> x) (t_invitations d)"
  using assms by (auto simp: clear_tables_def result_simps)

lemma seqs_of_cleared:
  "seqs_of y (filter (\<lambda>e. \<not> of_app x (snd e)) es) = (if y = x then [] else seqs_of y es)"
  by (induction es) (auto simp: seqs_of_def of_app_def)

lemma repoCompleteMove_numbered:
  assumes "repoCompleteMove env x url token t d = Inr d1" and "numbered d"
  shows "numbered d1"
proof -
  obtain d2 where u: "update_apps env ''CompleteMove'' (moving x)
         (\<lambda>a. a\<lparr>ar_moved_to_url := Some url, ar_move_invite_token := Some token,
               ar_moved_at := Some t, ar_deleted_at := Some t\<rparr>)
         (errw ErrApplicationNotMoving ''application is not moving'') d = Inr d2"
    and c: "clear_tables env x d2 = Inr d1"
    using assms(1) by (auto simp: repoCompleteMove_def result_simps)
  have "numbered d2" by (rule update_apps_numbered [OF u assms(2)]) simp
  then show ?thesis
    by (rule numbered_shrunk) (simp_all add: clear_tables_shape [OF c] seqs_of_cleared)
qed

subsection \<open>Owners\<close>

lemma one_owner_same: "one_owner d \<Longrightarrow> t_members d1 = t_members d \<Longrightarrow> one_owner d1"
  by (simp add: one_owner_def)

text \<open>A change of the members that makes nobody an owner.\<close>

lemma one_owner_fewer:
  assumes "one_owner d"
    and "\<And>m. m \<in> set (t_members d1) \<Longrightarrow> m_role m = MemberRoleOwner \<Longrightarrow> m \<in> set (t_members d)"
  shows "one_owner d1"
  using assms by (simp add: one_owner_def)

lemma one_owner_drop_apps: "one_owner d \<Longrightarrow> one_owner (drop_apps p d)"
  by (erule one_owner_fewer) (simp add: drop_apps_def Let_def)

lemma CreateMember_owners:
  assumes "CreateMember env mb d = Inr d1" and "m \<in> set (t_members d1)" and "m_role m = MemberRoleOwner"
  shows "m \<in> set (t_members d) \<or>
    (mb_role mb = MemberRoleOwner \<and> m_application_id m = mb_application_id mb \<and> m_public_key m = mb_public_key mb)"
  using assms by (auto simp: CreateMember_def Let_def result_simps in_upsert same_member_def split: if_splits)

lemma UpdateMemberRole_owners:
  assumes "UpdateMemberRole env mid r d = Inr d1" and "IsGrantable r" and "m \<in> set (t_members d1)"
    and "m_role m = MemberRoleOwner"
  shows "m \<in> set (t_members d)"
  using assms by (auto simp: UpdateMemberRole_def Let_def result_simps in_update_where)

text \<open>The roles an event may hand out; the validator checks it.\<close>

definition grants_ok :: "event \<Rightarrow> bool" where
  "grants_ok e \<longleftrightarrow> (ev_type e = EventTypeMemberAdded \<longrightarrow> IsGrantable (getString (data_of e) ''role''))
     \<and> (ev_type e = EventTypeMemberRoleChanged \<longrightarrow> IsGrantable (getString (data_of e) ''newRole''))"

lemma valid_grants: "ValidateEvent env e = None \<Longrightarrow> grants_ok e"
  by (auto simp: ValidateEvent_def validate_data_def validateMemberAddedData_def validateMemberRoleChangedData_def
      data_of_def grants_ok_def split: option.splits)

lemma executeEvent_members_same:
  assumes run: "executeEvent s env ev d2 = Inr d3" and ok2: "db_ok d2"
    and t: "ev_type ev \<notin> {EventTypeMemberAdded, EventTypeMemberRemoved, EventTypeMemberRoleChanged}"
  shows "t_members d3 = t_members d2"
proof (cases "ev_type ev")
  case EventTypeComponentDataChanged
  then show ?thesis using run data_changed_frame [OF ok2] by (auto simp: executeEvent_def same_frame_def)
next
  case EventTypeApplicationAfterEditModeChanged
  then show ?thesis using run batch_frame [OF ok2] by (auto simp: executeEvent_def same_frame_def)
next
  case EventTypeReminderChanged
  then have "reminders_only d2 d3"
    using run ApplyRuleChange_only(1)
    by (auto simp: executeEvent_def executeReminderChanged_def reminders_only_def split: if_splits option.splits)
  then show ?thesis by (cases d2; cases d3) (simp add: reminders_only_def)
next
  case EventTypeApplicationDeleted
  then show ?thesis
    using run by (auto simp: executeEvent_def executeApplicationDeleted_def repoDeleteApplication_def
        update_apps_def result_simps)
next
  case EventTypeApplicationDataChanged
  then show ?thesis
    using run by (auto simp: executeEvent_def executeApplicationDataChanged_def Let_def
        UpdateApplicationMetadata_def update_apps_def result_simps)
qed (use t run in \<open>auto simp: executeEvent_def executeUserSettingsChanged_def\<close>)

lemma executeEvent_owners:
  assumes run: "executeEvent s env ev d = Inr d1" and ok: "db_ok d" and g: "grants_ok ev"
    and m: "m \<in> set (t_members d1)" "m_role m = MemberRoleOwner"
  shows "m \<in> set (t_members d)"
proof -
  consider "ev_type ev = EventTypeMemberAdded" | "ev_type ev = EventTypeMemberRemoved"
    | "ev_type ev = EventTypeMemberRoleChanged"
    | "ev_type ev \<notin> {EventTypeMemberAdded, EventTypeMemberRemoved, EventTypeMemberRoleChanged}" by blast
  then show ?thesis
  proof cases
    case 1
    then show ?thesis
      using run g m CreateMember_owners [OF _ m]
      by (fastforce simp: executeEvent_def executeMemberAdded_def Let_def result_simps grants_ok_def)
  next
    case 2
    then show ?thesis
      using run m by (auto simp: executeEvent_def executeMemberRemoved_def DeleteMember_def Let_def result_simps
          split: sum.splits if_splits)
  next
    case 3
    then show ?thesis
      using run g UpdateMemberRole_owners [OF _ _ m]
      by (auto simp: executeEvent_def executeMemberRoleChanged_def Let_def result_simps grants_ok_def
          split: sum.splits if_splits)
  next
    case 4
    then show ?thesis using m executeEvent_members_same [OF run ok] by simp
  qed
qed

text \<open>Registration: the rows of the application that are owners carry the caller's key.\<close>

definition owned_by :: "string \<Rightarrow> string \<Rightarrow> db \<Rightarrow> bool" where
  "owned_by a k d \<longleftrightarrow> (\<forall>m \<in> set (t_members d). m_application_id m = a \<longrightarrow> m_role m = MemberRoleOwner \<longrightarrow> m_public_key m = k)"

definition same_elsewhere :: "string \<Rightarrow> db \<Rightarrow> db \<Rightarrow> bool" where
  "same_elsewhere a d d1 \<longleftrightarrow> filter (\<lambda>m. m_application_id m \<noteq> a) (t_members d1) = filter (\<lambda>m. m_application_id m \<noteq> a) (t_members d)"

lemma register_member_step:
  assumes "register_member env a mb d = Inr d1" and "owned_by a k d" and "mb_role mb = MemberRoleOwner \<longrightarrow> mb_public_key mb = k"
  shows "owned_by a k d1" "same_elsewhere a d d1"
proof -
  have c: "CreateMember env (mb\<lparr>mb_application_id := a\<rparr>) d = Inr d1"
    using assms(1) by (simp add: register_member_def result_simps)
  then show "owned_by a k d1"
    using assms(2,3) CreateMember_owners [OF c] by (auto simp: owned_by_def)
  let ?j = "same_member a (mb_public_key mb)"
  obtain row f where d1: "t_members d1 = upsert ?j f row (t_members d)" and row: "m_application_id row = a"
    "\<And>m. m_application_id (f m) = m_application_id m"
    using c by (auto simp: CreateMember_def Let_def result_simps)
  show "same_elsewhere a d d1"
  proof (cases "list_ex ?j (t_members d)")
    case True
    then show ?thesis
      unfolding same_elsewhere_def d1 upsert_def using row(2)
      by (simp, intro filter_update_where) (auto simp: same_member_def)
  next
    case False
    then show ?thesis using row(1) by (simp add: same_elsewhere_def d1 upsert_def)
  qed
qed

lemma same_elsewhere_trans: "same_elsewhere a x y \<Longrightarrow> same_elsewhere a y z \<Longrightarrow> same_elsewhere a x z"
  by (simp add: same_elsewhere_def)

lemma register_members_fold:
  assumes "fold_res (register_member env a) mbs d = Inr d1" and "owned_by a k d"
    and "\<forall>mb \<in> set mbs. mb_role mb = MemberRoleOwner \<longrightarrow> mb_public_key mb = k"
  shows "owned_by a k d1 \<and> same_elsewhere a d d1"
  using assms(1)
proof (rule fold_res_invariant)
  show "owned_by a k d \<and> same_elsewhere a d d" using assms(2) by (simp add: same_elsewhere_def)
next
  fix mb x y
  assume "mb \<in> set mbs" "register_member env a mb x = Inr y" "owned_by a k x \<and> same_elsewhere a d x"
  then show "owned_by a k y \<and> same_elsewhere a d y"
    using register_member_step assms(3) same_elsewhere_trans by blast
qed

lemma register_group_members:
  assumes "register_group env a g d = Inr d1"
  shows "t_members d1 = t_members d"
proof -
  obtain d2 where c: "CreateComponentGroup env (g\<lparr>g_application_id := a\<rparr>) d = Inr d2"
    and f: "fold_res (register_component env a (g_id g)) (g_components g) d2 = Inr d1"
    using assms by (auto simp: register_group_def result_simps)
  have 2: "t_members d2 = t_members d" using c by (auto simp: CreateComponentGroup_def result_simps)
  from f have "t_members d1 = t_members d2"
    by (rule fold_res_invariant) (auto simp: register_component_def CreateComponent_def Let_def result_simps)
  with 2 show ?thesis by simp
qed

lemma repoRegisterApplication_members:
  assumes "repoRegisterApplication env app d = Inr d1" and "owned_by (ap_id app) k d"
    and "\<forall>mb \<in> set (ap_members app). mb_role mb = MemberRoleOwner \<longrightarrow> mb_public_key mb = k"
  shows "owned_by (ap_id app) k d1" "same_elsewhere (ap_id app) d d1"
proof -
  obtain d2 d3 where u: "upsertApplication env app d = Inr d2"
    and m: "fold_res (register_member env (ap_id app)) (ap_members app) d2 = Inr d3"
    and g: "fold_res (register_group env (ap_id app)) (ap_groups app) d3 = Inr d1"
    using assms(1) by (auto simp: repoRegisterApplication_def result_simps)
  have 2: "t_members d2 = t_members d" using u by (auto simp: upsertApplication_def result_simps)
  from g have 3: "t_members d1 = t_members d3"
    by (rule fold_res_invariant) (auto dest: register_group_members)
  have "owned_by (ap_id app) k d3 \<and> same_elsewhere (ap_id app) d2 d3"
    using assms(2,3) 2 by (intro register_members_fold [OF m]) (simp_all add: owned_by_def)
  then show "owned_by (ap_id app) k d1" "same_elsewhere (ap_id app) d d1"
    using 2 3 by (simp_all add: owned_by_def same_elsewhere_def)
qed

lemma one_owner_registered:
  assumes "one_owner d" and "keys_ok d1" and "owned_by a k d1" and "same_elsewhere a d d1"
  shows "one_owner d1"
  unfolding one_owner_def
proof (intro ballI impI)
  fix m m'
  assume m: "m \<in> set (t_members d1)" "m' \<in> set (t_members d1)" "m_role m = MemberRoleOwner"
    "m_role m' = MemberRoleOwner" "m_application_id m = m_application_id m'"
  show "m = m'"
  proof (cases "m_application_id m = a")
    case True
    then have "m_public_key m = m_public_key m'" using m assms(3) by (simp add: owned_by_def)
    then show ?thesis using m assms(2) by (auto simp: keys_ok_def distinct_map inj_on_def)
  next
    case False
    then have "m \<in> set (filter (\<lambda>m. m_application_id m \<noteq> a) (t_members d1))"
      "m' \<in> set (filter (\<lambda>m. m_application_id m \<noteq> a) (t_members d1))" using m by simp_all
    then have "m \<in> set (t_members d)" "m' \<in> set (t_members d)"
      unfolding assms(4) [unfolded same_elsewhere_def] by simp_all
    then show ?thesis using m assms(1) by (simp add: one_owner_def)
  qed
qed

lemma check_registration_Inr:
  assumes "check_registration caller app = Inr u"
  shows "caller = Some u" "u_public_key u \<noteq> []" "ap_id app \<noteq> []"
    "\<exists>x. owners app = [x] \<and> mb_public_key x = u_public_key u"
proof -
  have *: "caller = Some u \<and> u_public_key u \<noteq> [] \<and> ap_id app \<noteq> [] \<and> owners app \<noteq> [] \<and> \<not> 1 < length (owners app)
     \<and> mb_public_key (last (owners app)) = u_public_key u"
    using assms by (auto simp: check_registration_def split: option.splits if_splits)
  then obtain x where "owners app = [x]" by (cases "owners app") auto
  with * show "caller = Some u" "u_public_key u \<noteq> []" "ap_id app \<noteq> []"
    "\<exists>x. owners app = [x] \<and> mb_public_key x = u_public_key u" by simp_all
qed

lemma RegisterApplication_cases:
  assumes "RegisterApplication env sp limit caller app d = (d1, r)"
  obtains (refused) e where "d1 = d" "r = Inl e"
    | (registered) u app1 where "check_registration caller app = Inr u" "HasOtherOwner env (ap_id app) (u_public_key u) d = Inr False"
        "check_limit env limit u (ap_id app) d = Inr ()" "check_moved env (ap_id app) (u_public_key u) d = Inr ()"
        "repoRegisterApplication env app1 d = Inr d1" "ap_id app1 = ap_id app" "ap_members app1 = ap_members app"
        "ap_groups app1 = ap_groups app" "r = GetApplicationByID env (ap_id app) d1"
        "ap_updated_at app1 = now env" "ap_name app1 = ap_name app"
proof (cases "fst (RegisterApplication env sp limit caller app d) = d \<and> isl r")
  case True
  then show thesis using assms refused by (cases r) auto
next
  case False
  then show thesis
    using assms that(2)
    by (auto simp: RegisterApplication_def result_simps split: sum.splits)
qed

lemma owner_keys:
  assumes "owners app = [x]" and "mb \<in> set (ap_members app)" and "mb_role mb = MemberRoleOwner"
  shows "mb = x"
proof -
  have "mb \<in> set (owners app)" using assms(2,3) by (simp add: owners_def)
  then show ?thesis using assms(1) by simp
qed

subsection \<open>Safe operations\<close>

text \<open>
  An operation is safe when it keeps the integrity and the single owners, does not turn back the
  ordinals and, as long as those fit their column, keeps the numbering. Safe operations compose.
\<close>

definition max_ordinal :: int where
  "max_ordinal = 2 ^ 63 - 1"

definition safe :: "db \<Rightarrow> db \<Rightarrow> bool" where
  "safe d d1 \<longleftrightarrow> (db_ok d \<longrightarrow> db_ok d1 \<and> next_ordinal d \<le> next_ordinal d1 \<and> (one_owner d \<longrightarrow> one_owner d1)
     \<and> (next_ordinal d1 \<le> max_ordinal \<longrightarrow> numbered d \<longrightarrow> numbered d1))"

named_theorems safe_ops "operations that keep the invariants of the space"

lemma safe_refl [safe_ops, simp]: "safe d d"
  by (simp add: safe_def)

lemma safe_trans: "safe a b \<Longrightarrow> safe b c \<Longrightarrow> safe a c"
  unfolding safe_def by (meson order_trans)

lemma safe_space_ok: "safe d d1 \<Longrightarrow> space_ok d \<Longrightarrow> next_ordinal d1 \<le> max_ordinal \<Longrightarrow> space_ok d1"
  by (simp add: safe_def space_ok_def)

lemma safe_update_apps:
  assumes "update_apps env site p f e d = Inr d1"
    and "\<And>a. ar_id (f a) = ar_id a \<and> ar_last_sequence (f a) = ar_last_sequence a"
  shows "safe d d1"
proof -
  have "t_members d1 = t_members d" "next_ordinal d1 = next_ordinal d"
    using assms(1) by (auto simp: update_apps_def result_simps)
  then show ?thesis
    using update_apps_ok [OF assms(1)] update_apps_numbered [OF assms(1)] assms(2) one_owner_same
    by (simp add: safe_def)
qed

lemma safe_SetAgentReadEnabled [safe_ops]: "SetAgentReadEnabled env a b d = Inr d1 \<Longrightarrow> safe d d1"
  unfolding SetAgentReadEnabled_def by (erule safe_update_apps) simp

lemma safe_repoDeleteApplication [safe_ops]: "repoDeleteApplication env a d = Inr d1 \<Longrightarrow> safe d d1"
  unfolding repoDeleteApplication_def by (erule safe_update_apps) simp

lemma safe_apps_where:
  assumes "\<And>a. p a \<Longrightarrow> ar_id (f a) = ar_id a \<and> ar_last_sequence (f a) = ar_last_sequence a"
  shows "safe d (d\<lparr>t_apps := update_where p f (t_apps d)\<rparr>)"
  using assms db_ok_update_apps numbered_update_apps one_owner_same by (simp add: safe_def)

lemma safe_repoStartMove [safe_ops]: "repoStartMove env a url d = Inr (n, d1) \<Longrightarrow> safe d d1"
  by (auto simp: repoStartMove_def result_simps intro: safe_apps_where)

lemma safe_repoAbortMove [safe_ops]: "repoAbortMove env a d = Inr d1 \<Longrightarrow> safe d d1"
  by (auto simp: repoAbortMove_def result_simps intro: safe_apps_where)

lemma safe_repoCompleteMove [safe_ops]: "repoCompleteMove env a url token t d = Inr d1 \<Longrightarrow> safe d d1"
proof -
  assume run: "repoCompleteMove env a url token t d = Inr d1"
  then obtain d2 where "update_apps env ''CompleteMove'' (moving a)
         (\<lambda>a. a\<lparr>ar_moved_to_url := Some url, ar_move_invite_token := Some token,
               ar_moved_at := Some t, ar_deleted_at := Some t\<rparr>)
         (errw ErrApplicationNotMoving ''application is not moving'') d = Inr d2" "clear_tables env a d2 = Inr d1"
    by (auto simp: repoCompleteMove_def result_simps)
  then have "t_members d1 = t_members d" "next_ordinal d1 = next_ordinal d"
    using clear_tables_shape by (auto simp: update_apps_def result_simps)
  then show "safe d d1"
    using repoCompleteMove_ok [OF run] repoCompleteMove_numbered [OF run] one_owner_same by (simp add: safe_def)
qed

lemma safe_PurgeApplication [safe_ops]:
  assumes "PurgeApplication env a cutoff d = Inr d1"
  shows "safe d d1"
proof -
  have d1: "d1 = drop_apps (\<lambda>r. ar_id r = a \<and> purgeable cutoff r) d"
    using assms by (auto simp: PurgeApplication_def result_simps)
  moreover have "next_ordinal d1 = next_ordinal d" by (simp add: d1 drop_apps_def Let_def)
  ultimately show ?thesis
    using db_ok_drop_apps numbered_drop_apps one_owner_drop_apps by (simp add: safe_def)
qed

lemma safe_DeleteOlderThan [safe_ops]:
  assumes "DeleteOlderThan env t d = Inr (n, d1)"
  shows "safe d d1"
proof -
  have "t_members d1 = t_members d" "next_ordinal d1 = next_ordinal d"
    using assms by (auto simp: DeleteOlderThan_def Let_def result_simps)
  then show ?thesis
    using DeleteOlderThan_ok [OF assms] numbered_pruned [OF _ _ assms] one_owner_same by (simp add: safe_def db_ok_def)
qed

lemma safe_RegisterApplication [safe_ops]:
  assumes "RegisterApplication env sp limit caller app d = (d1, r)"
  shows "safe d d1"
  using assms
proof (cases rule: RegisterApplication_cases)
  case (registered u app1)
  note run = registered(5)
  obtain x where x: "owners app = [x]" "mb_public_key x = u_public_key u"
    using check_registration_Inr(4) [OF registered(1)] by blast
  have "owned_by (ap_id app1) (u_public_key u) d"
    using registered(2,6) by (auto simp: HasOtherOwner_def result_simps list_ex_set owned_by_def)
  moreover have "\<forall>mb \<in> set (ap_members app1). mb_role mb = MemberRoleOwner \<longrightarrow> mb_public_key mb = u_public_key u"
    using registered(7) x owner_keys [OF x(1)] by auto
  ultimately have own: "owned_by (ap_id app1) (u_public_key u) d1" "same_elsewhere (ap_id app1) d d1"
    using repoRegisterApplication_members [OF run] by blast+
  have "one_owner d1" if "db_ok d1" "one_owner d"
    using one_owner_registered [OF that(2) _ own] that(1) by (simp add: db_ok_def)
  then show ?thesis
    using repoRegisterApplication_ok [OF run] repoRegisterApplication_numbered [OF run]
      repoRegisterApplication_log(2) [OF run] by (simp add: safe_def)
qed simp

subsection \<open>Events\<close>

text \<open>What \<open>finish_event\<close> may be given: a valid event, numbered exactly when it has an application.\<close>

definition admissible :: "event \<Rightarrow> bool \<Rightarrow> bool" where
  "admissible e sq \<longleftrightarrow> grants_ok e \<and> (if sq then ev_application_id e \<noteq> [] else ev_application_id e = [] \<and> IsUserScoped (ev_type e))"

lemma admissible_app: "admissible e sq \<Longrightarrow> ev_application_id e \<noteq> [] \<or> IsUserScoped (ev_type e)"
  by (auto simp: admissible_def split: if_splits)

lemma accept_checks_admissible:
  assumes "accept_checks env ev u d = Inr (Proceed e sq)"
  shows "admissible e sq"
  using Proceed_addressed(4,6,2,7,8) [OF assms] valid_grants by (auto simp: admissible_def)

lemma rollback_ok:
  assumes run: "run_event s env ev sq d = (d1, Inl e)" and ok: "db_ok d"
  shows "db_ok (rollback ev d d1)"
proof -
  have le: "next_ordinal d \<le> next_ordinal d1"
    using run_event_undone [OF assms] by (simp add: untouched_def rollback_def split: if_splits)
  show ?thesis
  proof (cases "ev_type ev = EventTypeReminderChanged")
    case False
    then show ?thesis using db_ok_ordinal [OF ok le] by (simp add: rollback_def)
  next
    case True
    consider "t_reminders d1 = t_reminders d" | e1 d2 d3 ab where "CreateEvent env ev d = Inr (e1, d2)"
        "executeEvent s env e1 d2 = Inr d3" "(if sq then updateAppVersion env e1 d3 else (d3, False)) = (d1, ab)"
      using run by (auto simp: run_event_def Let_def split: sum.splits prod.splits)
    then have "\<forall>r \<in> set (t_reminders d1). r_component_id r \<in> c_id ` set (t_comps d)"
    proof cases
      case 1
      then show ?thesis using ok by (simp add: db_ok_def refs_ok_def)
    next
      case 2
      have t: "ev_type e1 = EventTypeReminderChanged"
        using CreateEvent_shape(1) [OF 2(1)] True by (simp add: complete_event_same)
      have "db_ok d3" using executeEvent_ok [OF 2(2)] CreateEvent_ok [OF 2(1) ok] by blast
      moreover have "reminders_only d2 d3"
        using t 2(2) ApplyRuleChange_only(1)
        by (auto simp: executeEvent_def executeReminderChanged_def reminders_only_def split: if_splits option.splits)
      then have "t_comps d3 = t_comps d" using reminders_only_comps CreateEvent_shape(3) [OF 2(1)] by fastforce
      moreover have "t_reminders d1 = t_reminders d3"
        using 2(3) updateAppVersion_frame [of env e1 d3 d1 ab] by (auto split: if_splits)
      ultimately show ?thesis by (simp add: db_ok_def refs_ok_def)
    qed
    then show ?thesis
      using True db_ok_reminders [OF db_ok_ordinal [OF ok le]] by (simp add: rollback_def)
  qed
qed

lemma fresh_run_one_owner:
  assumes run: "fresh_run s env e sq d stored d1" and ok: "db_ok d" and adm: "admissible e sq" and one: "one_owner d"
  shows "one_owner d1"
proof -
  note app = admissible_app [OF adm]
  note log = fresh_run_log [OF run ok app]
  obtain ev1 d2 d3 where c: "CreateEvent env ev1 d = Inr (stored, d2)" and x: "executeEvent s env stored d2 = Inr d3"
    and up: "if sq then updateAppVersion env stored d3 = (d1, False) else d1 = d3"
    using run by (auto simp: fresh_run_def)
  have "grants_ok stored" using adm log(4,8) by (simp add: admissible_def grants_ok_def data_of_def)
  then have "m \<in> set (t_members d2)" if "m \<in> set (t_members d3)" "m_role m = MemberRoleOwner" for m
    using executeEvent_owners [OF x CreateEvent_ok [OF c ok] _ that] by blast
  moreover have "t_members d2 = t_members d" using CreateEvent_shape(3) [OF c] by simp
  moreover have "t_members d1 = t_members d3" using up updateAppVersion_frame by (cases sq) fastforce+
  ultimately show ?thesis using one_owner_fewer [OF one, of d1] by simp
qed

lemma fresh_run_numbered:
  assumes run: "fresh_run s env e sq d stored d1" and ok: "db_ok d" and adm: "admissible e sq"
    and n: "numbered d" and max: "next_ordinal d1 \<le> max_ordinal"
  shows "numbered d1"
proof -
  note app = admissible_app [OF adm]
  note log = fresh_run_log [OF run ok app]
  have hw: "0 \<le> high_water x d" "high_water x d < next_ordinal d" for x using n by (simp_all add: numbered_def)
  show ?thesis
  proof (cases sq)
    case True
    let ?a = "ev_application_id e"
    have a: "?a \<noteq> []" using adm True by (simp add: admissible_def)
    have fits: "in_int64 (high_water ?a d + 1)"
      using hw [of ?a] max log(2) by (simp add: in_int64_def max_ordinal_def)
    note sq = fresh_run_seq [OF run [unfolded eqTrueI [OF True]] ok a fits hw(1)]
    have "sorted_wrt (<) (seqs_of x (t_events d1))" for x
    proof -
      have "sorted_wrt (<) (seqs_of x (t_events d))" using n by (simp add: numbered_def seqs_ok_def)
      moreover have "m < ev_sequence stored" if "m \<in> set (seqs_of ?a (t_events d))" for m
        using max_seq_upper [OF that] sq(1) by (simp add: high_water_def)
      ultimately show ?thesis
        using a log(6) by (auto simp: log(1) seqs_of_append of_app_def sorted_wrt_append)
    qed
    moreover have "0 \<le> high_water x d1 \<and> high_water x d1 < next_ordinal d1" for x
      using sq(1) sq(2) [of x] hw [of x] hw [of ?a] log(2) by (cases "x = ?a") simp_all
    ultimately show ?thesis by (simp add: numbered_def seqs_ok_def)
  next
    case False
    then have "ev_application_id stored = []" using adm log(6) by (simp add: admissible_def)
    then have s: "seqs_of x (t_events d1) = seqs_of x (t_events d)" for x
      by (simp add: log(1) seqs_of_append of_app_def)
    obtain ev1 d2 where c: "CreateEvent env ev1 d = Inr (stored, d2)" and x: "executeEvent s env stored d2 = Inr d1"
      using run False by (auto simp: fresh_run_def)
    have "marks d1 = marks d"
      using executeEvent_log [OF x CreateEvent_ok [OF c ok]] CreateEvent_shape(3) [OF c]
      by (simp add: same_log_def marks_def)
    then have h: "high_water x d1 = high_water x d" for x by (simp add: high_water_def s last_seq_marks)
    have "0 \<le> high_water x d1 \<and> high_water x d1 < next_ordinal d1" for x
      using hw [of x] log(2) by (simp add: h)
    then show ?thesis using n s by (simp add: numbered_def seqs_ok_def)
  qed
qed

lemma safe_finish_event [safe_ops]:
  assumes run: "finish_event s env e sq ag d = (d1, r, ns)" and adm: "admissible e sq"
  shows "safe d d1"
proof -
  obtain r1 where p: "persistAndApply s env e sq d = (d1, r1)"
    using run by (auto simp: finish_event_def split: prod.splits sum.splits)
  note app = admissible_app [OF adm]
  from p show ?thesis
  proof (cases rule: persist_cases)
    case (undone e0 ev1 d2)
    have "db_ok d1 \<and> next_ordinal d \<le> next_ordinal d1 \<and> t_members d1 = t_members d \<and> t_events d1 = t_events d
      \<and> t_apps d1 = t_apps d" if ok: "db_ok d"
    proof -
      have "d1 = d\<lparr>next_ordinal := next_ordinal d1, t_reminders := t_reminders d1\<rparr>" "next_ordinal d \<le> next_ordinal d1"
        using run_event_undone [OF undone(3) ok] undone(4) by (simp_all add: untouched_def)
      moreover from this(1) have "t_members d1 = t_members d \<and> t_events d1 = t_events d \<and> t_apps d1 = t_apps d"
        by (cases d; cases d1) simp
      ultimately show ?thesis using rollback_ok [OF undone(3) ok] undone(4) by simp
    qed
    then show ?thesis using numbered_ordinal one_owner_same unfolding safe_def by blast
  next
    case (fresh stored)
    show ?thesis
      unfolding safe_def
      using fresh_run_ok [OF fresh(2)] fresh_run_log(2) [OF fresh(2) _ app] fresh_run_one_owner [OF fresh(2) _ adm]
        fresh_run_numbered [OF fresh(2) _ adm] by simp
  qed simp_all
qed

lemma safe_ProduceEvent [safe_ops]:
  assumes "ProduceEvent s env ev d = (d1, r, ns)"
  shows "safe d d1"
proof (cases "ValidateEvent env ev")
  case (Some e)
  then show ?thesis using assms by (simp add: ProduceEvent_def)
next
  case None
  have g: "grants_ok (ev\<lparr>ev_application_id := x\<rparr>)" for x
    using valid_grants [OF None] by (simp add: grants_ok_def data_of_def)
  show ?thesis
  proof (cases "IsUserScoped (ev_type ev) \<and> ev_application_id ev = []")
    case True
    then show ?thesis
      using assms None valid_grants [OF None] by (intro safe_finish_event) (auto simp: ProduceEvent_def admissible_def)
  next
    case False
    show ?thesis
    proof (cases "getString (data_of ev) ''applicationId'' = []")
      case True
      then show ?thesis using assms None False by (auto simp: ProduceEvent_def)
    next
      case named: False
      then have "finish_event s env (ev\<lparr>ev_application_id := getString (data_of ev) ''applicationId''\<rparr>) True False d = (d1, r, ns)"
        using assms None False by (simp add: ProduceEvent_def)
      then show ?thesis by (rule safe_finish_event) (simp add: admissible_def g named)
    qed
  qed
qed

end
