(* ===== verification/System.thy ===== *)
theory System
  imports SystemLaws
begin

section \<open>The space as a transition system\<close>

text \<open>
  Requests run concurrently. Every write of the space is one transaction, but an event a client
  submits is checked before its transaction begins, on tables that may have changed by then; so the
  state of the space is the tables together with the events that have passed their checks and not
  yet been stored. A step is a transaction or such a check, at any moment, under any failures of the
  database; the invariants hold in every state that steps reach.
\<close>

text \<open>The transactions that are checked on the tables they change.\<close>

inductive space_op :: "EventService \<Rightarrow> string \<Rightarrow> int \<Rightarrow> recurrence \<Rightarrow> db \<Rightarrow> db \<Rightarrow> bool"
  for s sp maxApps rr where
  produce: "ProduceEvent s env ev d = (d1, r, ns) \<Longrightarrow> space_op s sp maxApps rr d d1"
| cleanup: "CleanupOldEvents env days d = Inr (n, d1) \<Longrightarrow> space_op s sp maxApps rr d d1"
| register: "RegisterApplication env sp maxApps caller app d = (d1, ra) \<Longrightarrow> space_op s sp maxApps rr d d1"
| delete: "DeleteApplication env a u d = Inr d1 \<Longrightarrow> space_op s sp maxApps rr d d1"
| agent_read: "SetAgentRead env a u b d = Inr d1 \<Longrightarrow> space_op s sp maxApps rr d d1"
| start_move: "StartMove env a key url d = (d1, ru) \<Longrightarrow> space_op s sp maxApps rr d d1"
| abort_move: "AbortMove env a key d = (d1, ru) \<Longrightarrow> space_op s sp maxApps rr d d1"
| complete_move: "CompleteMove s env a key url token d = (d1, ru, ns) \<Longrightarrow> space_op s sp maxApps rr d d1"
| purge: "PurgeApplication env a cutoff d = Inr d1 \<Longrightarrow> space_op s sp maxApps rr d d1"
| tick: "Tick s env envs rr key d = (d1, ru, ns) \<Longrightarrow> space_op s sp maxApps rr d d1"

record space =
  sp_db :: db
  sp_admitted :: "(event \<times> bool \<times> bool) list"   \<comment> \<open>the event, whether it is numbered, whether an agent sent it\<close>

inductive step :: "EventService \<Rightarrow> string \<Rightarrow> int \<Rightarrow> recurrence \<Rightarrow> space \<Rightarrow> space \<Rightarrow> bool"
  for s sp maxApps rr where
  admit: "accept_checks env ev u (sp_db w) = Inr (Proceed e sq) \<Longrightarrow>
     step s sp maxApps rr w (w\<lparr>sp_admitted := (e, sq, u_agent u) # sp_admitted w\<rparr>)"
| commit: "(e, sq, ag) \<in> set (sp_admitted w) \<Longrightarrow> finish_event s env e sq ag (sp_db w) = (d1, r, ns) \<Longrightarrow>
     step s sp maxApps rr w (w\<lparr>sp_db := d1, sp_admitted := remove1 (e, sq, ag) (sp_admitted w)\<rparr>)"
| transact: "space_op s sp maxApps rr (sp_db w) d1 \<Longrightarrow> step s sp maxApps rr w (w\<lparr>sp_db := d1\<rparr>)"

text \<open>A new space has users and spaces, and nothing else.\<close>

definition new_space :: "user_row list \<Rightarrow> space_row list \<Rightarrow> space" where
  "new_space users spaces = \<lparr>sp_db = empty_db\<lparr>t_users := users, t_spaces := spaces\<rparr>, sp_admitted = []\<rparr>"

inductive reachable :: "EventService \<Rightarrow> string \<Rightarrow> int \<Rightarrow> recurrence \<Rightarrow> space \<Rightarrow> bool"
  for s sp maxApps rr where
  start: "reachable s sp maxApps rr (new_space users spaces)"
| more: "reachable s sp maxApps rr w \<Longrightarrow> step s sp maxApps rr w w1 \<Longrightarrow> reachable s sp maxApps rr w1"

inductive_cases space_op_cases: "space_op s sp maxApps rr d d1"

text \<open>\<open>AcceptEvent\<close> is the two steps without anything in between.\<close>

lemma AcceptEvent_steps:
  assumes "AcceptEvent s env ev u (sp_db w) = (d1, r, ns)"
  shows "\<exists>w1. (step s sp maxApps rr)\<^sup>*\<^sup>* w w1 \<and> sp_db w1 = d1 \<and> sp_admitted w1 = sp_admitted w"
proof (cases "accept_checks env ev u (sp_db w)")
  case (Inl e)
  then show ?thesis using assms by (auto simp: AcceptEvent_def intro: exI [of _ w])
next
  case (Inr dec)
  show ?thesis
  proof (cases dec)
    case (Retry x)
    then show ?thesis using assms Inr by (auto simp: AcceptEvent_def intro: exI [of _ w])
  next
    case (Proceed e sq)
    let ?w = "w\<lparr>sp_admitted := (e, sq, u_agent u) # sp_admitted w\<rparr>"
    let ?w1 = "?w\<lparr>sp_db := d1, sp_admitted := remove1 (e, sq, u_agent u) (sp_admitted ?w)\<rparr>"
    have f: "finish_event s env e sq (u_agent u) (sp_db ?w) = (d1, r, ns)"
      using assms Inr Proceed by (simp add: AcceptEvent_def)
    have "step s sp maxApps rr w ?w" using admit Inr Proceed by blast
    moreover have "step s sp maxApps rr ?w ?w1" by (rule commit [OF _ f]) simp
    ultimately have "(step s sp maxApps rr)\<^sup>*\<^sup>* w ?w1" by (meson converse_rtranclp_into_rtranclp r_into_rtranclp)
    then show ?thesis by (intro exI [of _ ?w1]) simp
  qed
qed

subsection \<open>Every transaction is safe\<close>

lemma safe_update_reminder:
  assumes "update_reminder env site k f d = Inr d1" and "\<And>r. r_component_id (f r) = r_component_id r"
  shows "safe d d1"
proof -
  have d1: "d1 = d\<lparr>t_reminders := update_where (\<lambda>r. row_key r = k) f (t_reminders d)\<rparr>"
    using assms(1) by (auto simp: update_reminder_def result_simps)
  have "db_ok d1" if "db_ok d"
    unfolding d1 using that assms(2)
    by (intro db_ok_reminders) (auto simp: in_update_where db_ok_def refs_ok_def)
  then show ?thesis
    using numbered_ordinal [of d d1] one_owner_same [of d d1] by (simp add: safe_def d1)
qed

lemma safe_advance: "advance env rr row d = Inr d1 \<Longrightarrow> safe d d1"
  by (auto simp: advance_def intro: safe_update_reminder split: sum.splits option.splits)

lemma safe_markSkipped: "markSkipped env row d = Inr d1 \<Longrightarrow> safe d d1"
  unfolding markSkipped_def by (erule safe_update_reminder) simp

lemma safe_fire: "fire s env key row d = (d1, r, ns) \<Longrightarrow> safe d d1"
  by (auto simp: fire_def intro: safe_ProduceEvent split: option.splits prod.splits)

lemma safe_processRow:
  assumes "processRow s env rr key row d = (d1, r, ns)"
  shows "safe d d1" "r = Inr d2 \<Longrightarrow> safe d d2"
proof -
  obtain d0 f n0 where f: "fire s env key row d = (d0, f, n0)" by (metis prod.exhaust)
  have "safe d d1 \<and> (r = Inr d2 \<longrightarrow> safe d d2)"
  proof (cases "isWithinGrace (now env) (r_fire_at row)")
    case False
    then show ?thesis using assms safe_markSkipped by (auto simp: processRow_def)
  next
    case True
    then show ?thesis
      using assms f safe_fire [OF f] safe_advance safe_markSkipped safe_trans
      by (auto simp: processRow_def split: sum.splits if_splits)
  qed
  then show "safe d d1" "r = Inr d2 \<Longrightarrow> safe d d2" by simp_all
qed

lemma safe_processRowByKey:
  assumes "processRowByKey s env rr key k d = (d1, r, ns)"
  shows "safe d d1"
proof (cases "stmt env ''processRowByKey.Begin'' d (lockRow env k d)")
  case (Inl e)
  then show ?thesis using assms by (simp add: processRowByKey_def)
next
  case (Inr row)
  show ?thesis
  proof (cases row)
    case None
    then show ?thesis using assms Inr by (simp add: processRowByKey_def)
  next
    case (Some x)
    obtain d0 q n0 where p: "processRow s env rr key x d = (d0, q, n0)" by (metis prod.exhaust)
    then show ?thesis
      using assms Inr Some safe_processRow [OF p]
      by (auto simp: processRowByKey_def stmt_def split: sum.splits option.splits)
  qed
qed

lemma safe_process_keys: "process_keys s envs rr key i ks d = (d1, ns) \<Longrightarrow> safe d d1"
proof (induction ks arbitrary: i d ns)
  case (Cons k ks)
  obtain d0 r n0 where p: "processRowByKey s (envs i) rr key k d = (d0, r, n0)" by (metis prod.exhaust)
  obtain n1 where "process_keys s envs rr key (Suc i) ks d0 = (d1, n1)"
    using Cons.prems p by (auto split: prod.splits)
  then show ?case using Cons.IH safe_processRowByKey [OF p] safe_trans by blast
qed simp

lemma safe_Tick [safe_ops]: "Tick s env envs rr key d = (d1, r, ns) \<Longrightarrow> safe d d1"
  by (auto simp: Tick_def intro: safe_process_keys split: sum.splits prod.splits)

lemma safe_StartMove [safe_ops]: "StartMove env a key url d = (d1, r) \<Longrightarrow> safe d d1"
  by (auto simp: StartMove_def intro: safe_repoStartMove split: if_splits sum.splits prod.splits)

lemma safe_AbortMove [safe_ops]: "AbortMove env a key d = (d1, r) \<Longrightarrow> safe d d1"
  by (auto simp: AbortMove_def intro: safe_repoAbortMove split: sum.splits)

lemma safe_CompleteMove [safe_ops]:
  assumes "CompleteMove s env a key url token d = (d1, r, ns)"
  shows "safe d d1"
proof -
  consider "d1 = d" | d2 r2 n2 where "repoCompleteMove env a url token (now env) d = Inr d2"
      "ProduceApplicationMoved s env a key url token d2 = (d1, r2, n2)"
    using assms by (auto simp: CompleteMove_def split: if_splits sum.splits prod.splits)
  then show ?thesis
  proof cases
    case 2
    have "safe d2 d1"
      using 2(2) by (auto simp: ProduceApplicationMoved_def intro: safe_ProduceEvent split: prod.splits)
    then show ?thesis using safe_repoCompleteMove [OF 2(1)] safe_trans by blast
  qed simp
qed

lemma safe_require_owner: "require_owner env a u e d r = Inr x \<Longrightarrow> r = Inr x"
  by (auto simp: require_owner_def result_simps)

lemma safe_space_op: "space_op s sp maxApps rr d d1 \<Longrightarrow> safe d d1"
proof (erule space_op_cases)
  fix env a u
  assume "DeleteApplication env a u d = Inr d1"
  then show "safe d d1"
    by (auto simp: DeleteApplication_def result_simps dest!: safe_require_owner intro: safe_ops)
next
  fix env a u b
  assume "SetAgentRead env a u b d = Inr d1"
  then show "safe d d1" by (auto simp: SetAgentRead_def dest!: safe_require_owner intro: safe_ops)
next
  fix env days n
  assume "CleanupOldEvents env days d = Inr (n, d1)"
  then show "safe d d1" by (auto simp: CleanupOldEvents_def Let_def intro: safe_ops)
qed (auto intro: safe_ops)

text \<open>The invariant of the whole: the tables are sound, and what waits to be stored may be stored.\<close>

definition space_inv :: "space \<Rightarrow> bool" where
  "space_inv w \<longleftrightarrow> db_ok (sp_db w) \<and> one_owner (sp_db w)
     \<and> (next_ordinal (sp_db w) \<le> max_ordinal \<longrightarrow> numbered (sp_db w))
     \<and> (\<forall>(e, sq, ag) \<in> set (sp_admitted w). admissible e sq)"

lemma space_inv_new: "space_inv (new_space users spaces)"
  by (simp add: space_inv_def new_space_def empty_db_def table_ok_defs one_owner_def numbered_def seqs_ok_def seqs_of_def
      high_water_def max_seq_def last_seq_def)

lemma space_inv_db:
  assumes "space_inv w" and "safe (sp_db w) d1" and "set ps \<subseteq> set (sp_admitted w)"
  shows "space_inv (w\<lparr>sp_db := d1, sp_admitted := ps\<rparr>)"
  using assms unfolding space_inv_def safe_def by (auto dest: order_trans)

lemma space_inv_step:
  assumes "step s sp maxApps rr w w1" and inv: "space_inv w"
  shows "space_inv w1"
  using assms(1)
proof (cases rule: step.cases)
  case (admit env ev u e sq)
  then show ?thesis using inv accept_checks_admissible by (auto simp: space_inv_def)
next
  case (commit e sq ag env d1 r ns)
  have "admissible e sq" using inv commit(2) by (auto simp: space_inv_def)
  then show ?thesis
    unfolding commit(1) using safe_finish_event [OF commit(3)]
    by (intro space_inv_db [OF inv _ set_remove1_subset]) simp
next
  case (transact d1)
  then show ?thesis using space_inv_db [OF inv safe_space_op, of s sp maxApps rr d1 "sp_admitted w"] by simp
qed

lemma reachable_inv: "reachable s sp maxApps rr w \<Longrightarrow> space_inv w"
  by (induction rule: reachable.induct) (auto intro: space_inv_new space_inv_step)

lemma reachable_steps: "(step s sp maxApps rr)\<^sup>*\<^sup>* w w1 \<Longrightarrow> reachable s sp maxApps rr w \<Longrightarrow> reachable s sp maxApps rr w1"
  by (induction rule: rtranclp_induct) (auto intro: reachable.more)

subsection \<open>What holds at every moment\<close>


text \<open>
  A space in use: an account registers an application with a group and a component, and edits it.
\<close>

definition demo_registration :: application where
  "demo_registration = \<lparr>ap_id = ''a'', ap_name = ''App'', ap_icon = None, ap_space_public_key = None,
     ap_space_id = None, ap_created_at = 0, ap_updated_at = 0,
     ap_groups = [\<lparr>g_id = ''g'', g_application_id = [], g_name = ''Group'', g_index = 0,
        g_components = [\<lparr>c_id = ''c'', c_group_id = [], c_application_id = [], c_name = ''Note'',
           c_data = Some [], c_index = 0\<rparr>]\<rparr>],
     ap_members = [\<lparr>mb_id = ''m1'', mb_application_id = [], mb_role = ''owner'', mb_public_key = ''o'',
        mb_display_name = None, mb_avatar = None, mb_expires_at = None\<rparr>],
     ap_last_sequence = None, ap_agent_read_enabled = True\<rparr>"

definition demo_rr :: recurrence where
  "demo_rr = \<lparr>rr_valid = (\<lambda>_. True), rr_after = (\<lambda>_ _ _ t. Some (t + 86400)), rr_nth = (\<lambda>_ _ t n. Some (t + int n * 86400))\<rparr>"

definition demo_registered :: space where
  "demo_registered = (new_space [new_user_row ''o'' ''Olga'' ''owner'' 0] [])\<lparr>sp_db :=
     fst (RegisterApplication demo_env ''sp'' 0 (Some (demo_user ''o'')) demo_registration
       (sp_db (new_space [new_user_row ''o'' ''Olga'' ''owner'' 0] [])))\<rparr>"

lemma demo_registered_reachable: "reachable demo_service ''sp'' 0 demo_rr demo_registered"
proof -
  let ?w = "new_space [new_user_row ''o'' ''Olga'' ''owner'' 0] []"
  obtain d1 r where r: "RegisterApplication demo_env ''sp'' 0 (Some (demo_user ''o'')) demo_registration (sp_db ?w) = (d1, r)"
    by fastforce
  have "step demo_service ''sp'' 0 demo_rr ?w (?w\<lparr>sp_db := d1\<rparr>)"
    by (rule step.transact, rule space_op.register [OF r])
  then show ?thesis using reachable.more [OF reachable.start] r by (simp add: demo_registered_def)
qed

definition demo_used :: db where
  "demo_used = fst (AcceptEvent demo_service demo_env (demo_edit\<lparr>ev_id := ''e2''\<rparr>) (demo_user ''o'')
     (fst (AcceptEvent demo_service demo_env demo_edit (demo_user ''o'') (sp_db demo_registered))))"

lemma reachable_accept:
  assumes "reachable s sp maxApps rr w"
  shows "\<exists>w1. reachable s sp maxApps rr w1 \<and> sp_db w1 = fst (AcceptEvent s env ev u (sp_db w))"
proof -
  obtain d1 r ns where r: "AcceptEvent s env ev u (sp_db w) = (d1, r, ns)" by (metis prod.exhaust)
  then show ?thesis using AcceptEvent_steps [OF r, of sp maxApps rr] reachable_steps [OF _ assms] by auto
qed

lemma demo_used_reachable: "\<exists>w. reachable demo_service ''sp'' 0 demo_rr w \<and> sp_db w = demo_used"
proof -
  obtain w where w: "reachable demo_service ''sp'' 0 demo_rr w"
    "sp_db w = fst (AcceptEvent demo_service demo_env demo_edit (demo_user ''o'') (sp_db demo_registered))"
    using reachable_accept [OF demo_registered_reachable] by blast
  then show ?thesis
    using reachable_accept [OF w(1), of demo_env "demo_edit\<lparr>ev_id := ''e2''\<rparr>" "demo_user ''o''"]
    by (simp add: demo_used_def)
qed

lemma demo_used_tables:
  "map (\<lambda>r. (fst r, ev_sequence (snd r))) (t_events demo_used) = [(1, 1), (2, 2)]"
  "map m_role (t_members demo_used) = [''owner'']" "next_ordinal demo_used = 3"
  "list_all (\<lambda>r. of_app ''a'' (snd r)) (t_events demo_used)"
  by code_simp+


lemma orders_agree:
  fixes f g :: "'a \<Rightarrow> int"
  assumes "sorted_wrt (<) (map f xs)" and "sorted_wrt (<) (map g xs)" and "a \<in> set xs" and "b \<in> set xs"
  shows "f a < f b \<longleftrightarrow> g a < g b"
  using assms by (induction xs) (auto dest: less_asym)

text \<open>
  C6. The two orders of the log never disagree: of two events of one application, the one that comes
  first in the order in which clients are served pages has the smaller number, and no number is
  used twice. Ordinals and numbers order each application's history in the same way in every
  reachable state.
\<close>
theorem orders_of_log_agree:
  assumes "reachable s sp maxApps rr w" and "next_ordinal (sp_db w) \<le> max_ordinal"
    and "q \<in> set (t_events (sp_db w))" and "r \<in> set (t_events (sp_db w))"
    and "of_app a (snd q)" and "of_app a (snd r)"
  shows "(fst q < fst r \<longleftrightarrow> ev_sequence (snd q) < ev_sequence (snd r))
    \<and> (ev_sequence (snd q) = ev_sequence (snd r) \<longrightarrow> q = r)"
proof -
  let ?rows = "filter (of_app a \<circ> snd) (t_events (sp_db w))"
  have inv: "space_inv w" "numbered (sp_db w)" using reachable_inv [OF assms(1)] assms(2) by (simp_all add: space_inv_def)
  then have f: "sorted_wrt (<) (map fst ?rows)" and g: "sorted_wrt (<) (map (ev_sequence \<circ> snd) ?rows)"
    using sorted_wrt_map_filter [of "(<)" fst "t_events (sp_db w)"]
    by (simp_all add: space_inv_def db_ok_def log_ok_def numbered_def seqs_ok_def seqs_of_def)
  have qr: "q \<in> set ?rows" "r \<in> set ?rows" using assms(3-6) by simp_all
  have d: "distinct (map (ev_sequence \<circ> snd) ?rows)" using g by (simp add: strict_sorted_iff)
  have "q = r" if "ev_sequence (snd q) = ev_sequence (snd r)"
    using d qr that inj_onD [of "ev_sequence \<circ> snd" "set ?rows" q r] by (simp only: distinct_map comp_apply)
  then show ?thesis using orders_agree [OF f g qr] by simp
qed

theorem orders_of_log_agree_witness:
  "\<exists>(w :: space) q r. t_events (sp_db w) = [q, r] \<and> (fst q, ev_sequence (snd q)) = (1, 1) \<and> (fst r, ev_sequence (snd r)) = (2, 2)
     \<and> (fst q < fst r \<longleftrightarrow> ev_sequence (snd q) < ev_sequence (snd r))"
proof -
  obtain w where w: "reachable demo_service ''sp'' 0 demo_rr w" "sp_db w = demo_used"
    using demo_used_reachable by blast
  then have n: "next_ordinal (sp_db w) \<le> max_ordinal" using demo_used_tables(3) by (simp add: max_ordinal_def)
  obtain q r where es: "t_events (sp_db w) = [q, r]" "(fst q, ev_sequence (snd q)) = (1, 1)" "(fst r, ev_sequence (snd r)) = (2, 2)"
    using demo_used_tables(1) w(2) by auto
  moreover have "of_app ''a'' (snd q)" "of_app ''a'' (snd r)" using demo_used_tables(4) es w(2) by simp_all
  moreover from this have "fst q < fst r \<longleftrightarrow> ev_sequence (snd q) < ev_sequence (snd r)"
    using orders_of_log_agree [OF w(1) n, of q r "''a''"] es(1) by simp
  ultimately show ?thesis by blast
qed

end
