(* ===== verification/GoText.thy ===== *)
theory GoText
  imports Prelude
begin

section \<open>Bytes, runes, base64 and instants\<close>

text \<open>
  What the account and invitation packages use of Go's standard library: \<open>encoding/base64\<close>,
  the decoding of UTF-8 into runes, \<open>strings.TrimSpace\<close>, and the arithmetic of \<open>time.Time\<close>.
  A \<open>[]byte\<close> is a string of bytes.
\<close>

subsection \<open>base64\<close>

definition std_alphabet :: string where
  "std_alphabet = ''ABCDEFGHIJKLMNOPQRSTUVWXYZabcdefghijklmnopqrstuvwxyz0123456789+/''"

definition url_alphabet :: string where
  "url_alphabet = ''ABCDEFGHIJKLMNOPQRSTUVWXYZabcdefghijklmnopqrstuvwxyz0123456789-_''"

text \<open>The encoder, for an alphabet and a padding (\<open>''=''\<close>, or nothing for the raw encodings).\<close>

fun b64_encode :: "string \<Rightarrow> string \<Rightarrow> string \<Rightarrow> string" where
  "b64_encode alph pad (x # y # z # r) =
     alph ! (of_char x div 4) # alph ! ((of_char x mod 4) * 16 + of_char y div 16)
     # alph ! ((of_char y mod 16) * 4 + of_char z div 64) # alph ! (of_char z mod 64) # b64_encode alph pad r"
| "b64_encode alph pad [x, y] =
     [alph ! (of_char x div 4), alph ! ((of_char x mod 4) * 16 + of_char y div 16), alph ! ((of_char y mod 16) * 4)] @ pad"
| "b64_encode alph pad [x] = [alph ! (of_char x div 4), alph ! ((of_char x mod 4) * 16)] @ pad @ pad"
| "b64_encode alph pad [] = []"

definition StdEncode :: "string \<Rightarrow> string" where
  "StdEncode = b64_encode std_alphabet ''=''"

text \<open>The value of a character of the standard alphabet (\<open>decodeMap\<close>).\<close>

definition b64_val :: "char \<Rightarrow> nat option" where
  "b64_val c =
     (if char_between 65 90 c then Some (of_char c - 65) else if char_between 97 122 c then Some (of_char c - 71)
      else if char_between 48 57 c then Some (of_char c + 4) else if c = CHR ''+'' then Some 62
      else if c = CHR ''/'' then Some 63 else None)"

definition b64_bytes :: "nat \<Rightarrow> nat \<Rightarrow> nat \<Rightarrow> nat \<Rightarrow> string" where
  "b64_bytes a b c d = [char_of (a * 4 + b div 16), char_of ((b mod 16) * 16 + c div 4), char_of ((c mod 4) * 64 + d)]"

text \<open>
  Four characters at a time; padding only in the last quartet, nothing after it, and the unused
  bits before it are not looked at.
\<close>

fun b64_quartets :: "string \<Rightarrow> string option" where
  "b64_quartets [] = Some []"
| "b64_quartets (p # q # r # s # rest) =
     (case (b64_val p, b64_val q, b64_val r, b64_val s) of
        (Some a, Some b, Some c, Some d) \<Rightarrow> map_option (\<lambda>t. b64_bytes a b c d @ t) (b64_quartets rest)
      | (Some a, Some b, Some c, None) \<Rightarrow>
          if s = CHR ''='' \<and> rest = [] then Some (take 2 (b64_bytes a b c 0)) else None
      | (Some a, Some b, None, _) \<Rightarrow>
          if r = CHR ''='' \<and> s = CHR ''='' \<and> rest = [] then Some (take 1 (b64_bytes a b 0 0)) else None
      | _ \<Rightarrow> None)"
| "b64_quartets _ = None"

text \<open>\<open>base64.StdEncoding.DecodeString\<close>: line breaks are skipped wherever they are.\<close>

definition StdDecode :: "string \<Rightarrow> string option" where
  "StdDecode s = b64_quartets (filter (\<lambda>c. c \<noteq> CHR 0x0A \<and> c \<noteq> CHR 0x0D) s)"

lemma std_alphabet_vals: "map b64_val std_alphabet = map Some [0..<64]" "length std_alphabet = 64"
    "CHR 0x0A \<notin> set std_alphabet" "CHR 0x0D \<notin> set std_alphabet"
  by (simp_all add: std_alphabet_def b64_val_def char_between_def upt_rec)

lemma std_alphabet_nth: "n < 64 \<Longrightarrow> b64_val (std_alphabet ! n) = Some n \<and> std_alphabet ! n \<noteq> CHR 0x0A
    \<and> std_alphabet ! n \<noteq> CHR 0x0D"
  by (metis (no_types, lifting) add_0 diff_zero length_map nth_map nth_mem nth_upt std_alphabet_vals)

lemma b64_val_alphabet [simp]: "n < 64 \<Longrightarrow> b64_val (std_alphabet ! n) = Some n"
  using std_alphabet_nth by blast

lemma b64_val_pad [simp]: "b64_val CHR ''='' = None"
  by code_simp

lemma of_char_less [simp]: "(of_char c :: nat) < 256"
  using of_char_mod_256 [of c] by (metis mod_less_divisor zero_less_numeral)

lemma char_of_split: "n = of_char c \<Longrightarrow> char_of n = c" for n :: nat
  by simp

text \<open>The sextets of the encoder, their bounds, and what the decoder reassembles from them.\<close>

lemma sextets:
  "of_char x div 4 < (64::nat)" "of_char x mod 64 < (64::nat)"
  "of_char x mod 4 * 16 + of_char y div 16 < (64::nat)" "of_char x mod 16 * 4 + of_char y div 64 < (64::nat)"
  "of_char x mod 4 * 16 < (64::nat)" "of_char x mod 16 * 4 < (64::nat)"
  using of_char_less [of x] of_char_less [of y] by linarith+

lemma reassemble1: "k < (256::nat) \<Longrightarrow> j div 4 * 4 + (j mod 4 * 16 + k div 16) div 16 = j"
  by (simp flip: div_mult2_eq)

lemma reassemble2:
  assumes "j < (256::nat)" "k < 256"
  shows "(l mod 4 * 16 + j div 16) mod 16 * 16 + (j mod 16 * 4 + k div 64) div 4 = j"
proof -
  have "j div 16 mod 16 = j div 16" "k div 64 div 4 = 0" using assms by (simp_all flip: div_mult2_eq)
  then show ?thesis by simp
qed

lemma reassemble3:
  assumes "j < (256::nat)"
  shows "(l mod 16 * 4 + j div 64) mod 4 * 64 + j mod 64 = j"
proof -
  have "j div 64 mod 4 = j div 64" using assms by simp
  then show ?thesis by simp
qed

lemma b64_bytes_sextets:
  "b64_bytes (of_char x div 4) (of_char x mod 4 * 16 + of_char y div 16) (of_char y mod 16 * 4 + of_char z div 64)
     (of_char z mod 64) = [x, y, z]"
  unfolding b64_bytes_def by (simp only: reassemble1 reassemble2 reassemble3 of_char_less char_of_char)

lemma b64_bytes_two:
  "take 2 (b64_bytes (of_char x div 4) (of_char x mod 4 * 16 + of_char y div 16) (of_char y mod 16 * 4) 0) = [x, y]"
  unfolding b64_bytes_def using reassemble2 [of "of_char y" 0 "of_char x"]
  by (simp only: reassemble1 of_char_less char_of_char) simp

lemma b64_bytes_one: "take 1 (b64_bytes (of_char x div 4) (of_char x mod 4 * 16) 0 0) = [x]"
  unfolding b64_bytes_def using reassemble1 [of 0 "of_char x"] by simp

lemma b64_quartets_encode: "b64_quartets (b64_encode std_alphabet ''='' s) = Some s"
  by (induction "std_alphabet" "''=''" s rule: b64_encode.induct)
    (simp_all add: sextets b64_bytes_sextets b64_bytes_two b64_bytes_one [simplified])

lemma StdDecode_Encode [simp]: "StdDecode (StdEncode s) = Some s"
proof -
  have keep: "filter (\<lambda>c. c \<noteq> CHR 0x0A \<and> c \<noteq> CHR 0x0D) (b64_encode std_alphabet ''='' s) = b64_encode std_alphabet ''='' s"
  proof -
    have "c \<noteq> CHR 0x0A \<and> c \<noteq> CHR 0x0D" if "c \<in> set (b64_encode std_alphabet ''='' s)" for c
      using that
    proof (induction "std_alphabet" "''=''" s rule: b64_encode.induct)
      case (1 x y z r)
      have "of_char x div 4 < (64::nat)" "of_char z mod 64 < (64::nat)"
        "of_char x mod 4 * 16 + of_char y div 16 < (64::nat)" "of_char y mod 16 * 4 + of_char z div 64 < (64::nat)"
        using of_char_less [of x] of_char_less [of y] of_char_less [of z] by linarith+
      with "1" std_alphabet_nth show ?case by auto
    next
      case (2 x y)
      have "of_char x div 4 < (64::nat)" "of_char x mod 4 * 16 + of_char y div 16 < (64::nat)" "of_char y mod 16 * 4 < (64::nat)"
        using of_char_less [of x] of_char_less [of y] by linarith+
      with "2" std_alphabet_nth show ?case by auto
    next
      case (3 x)
      have "of_char x div 4 < (64::nat)" "of_char x mod 4 * 16 < (64::nat)"
        using of_char_less [of x] by linarith+
      with "3" std_alphabet_nth show ?case by auto
    qed simp
    then show ?thesis by (simp add: filter_id_conv)
  qed
  show ?thesis by (simp add: StdDecode_def StdEncode_def keep b64_quartets_encode)
qed

subsection \<open>Runes\<close>

text \<open>
  \<open>utf8.DecodeRuneInString\<close>: the code point and the bytes it takes; an invalid or cut-off sequence is
  \<open>RuneError\<close> and takes one byte.
\<close>

definition rune_error :: nat where
  "rune_error = 65533"

definition byte_in :: "nat \<Rightarrow> nat \<Rightarrow> nat \<Rightarrow> bool" where
  "byte_in lo hi b \<longleftrightarrow> lo \<le> b \<and> b \<le> hi"

fun decode_rune :: "nat list \<Rightarrow> nat \<times> nat" where
  "decode_rune [] = (rune_error, 0)"
| "decode_rune (b0 # r) =
     (if b0 < 128 then (b0, 1)
      else if byte_in 194 223 b0 then
        (case r of b1 # _ \<Rightarrow> if byte_in 128 191 b1 then ((b0 - 192) * 64 + (b1 - 128), 2) else (rune_error, 1)
         | _ \<Rightarrow> (rune_error, 1))
      else if byte_in 224 239 b0 then
        (case r of b1 # b2 # _ \<Rightarrow>
           if byte_in (if b0 = 224 then 160 else 128) (if b0 = 237 then 159 else 191) b1 \<and> byte_in 128 191 b2
           then ((b0 - 224) * 4096 + (b1 - 128) * 64 + (b2 - 128), 3) else (rune_error, 1)
         | _ \<Rightarrow> (rune_error, 1))
      else if byte_in 240 244 b0 then
        (case r of b1 # b2 # b3 # _ \<Rightarrow>
           if byte_in (if b0 = 240 then 144 else 128) (if b0 = 244 then 143 else 191) b1 \<and> byte_in 128 191 b2
              \<and> byte_in 128 191 b3
           then ((b0 - 240) * 262144 + (b1 - 128) * 4096 + (b2 - 128) * 64 + (b3 - 128), 4) else (rune_error, 1)
         | _ \<Rightarrow> (rune_error, 1))
      else (rune_error, 1))"

lemma decode_rune_size: "s \<noteq> [] \<Longrightarrow> 1 \<le> snd (decode_rune s)"
  by (cases s) (auto split: list.splits)

text \<open>The runes of a string, each with its bytes.\<close>

function runes :: "string \<Rightarrow> (nat \<times> string) list" where
  "runes s =
     (if s = [] then []
      else let (r, n) = decode_rune (map of_char (take 4 s)) in (r, take n s) # runes (drop n s))"
  by pat_completeness auto

termination
proof (relation "measure length")
  fix s x y z
  assume "s \<noteq> []" "x = decode_rune (map of_char (take 4 s))" "(y, z) = x"
  with decode_rune_size [of "map of_char (take 4 s)"] have "1 \<le> z" by (metis One_nat_def Nil_is_map_conv snd_conv take_eq_Nil zero_neq_numeral)
  with \<open>s \<noteq> []\<close> show "(drop z s, s) \<in> measure length" by simp
qed simp

declare runes.simps [simp del]

text \<open>Plain text has its bytes for runes.\<close>

lemma runes_plain: "list_all (\<lambda>c. (of_char c :: nat) < 128) s \<Longrightarrow> runes s = map (\<lambda>c. (of_char c, [c])) s"
proof (induction s)
  case (Cons c s)
  then show ?case by (simp add: runes.simps [of "c # s"] take_Suc_conv_app_nth)
qed (simp add: runes.simps)

text \<open>\<open>unicode.IsControl\<close> and \<open>unicode.IsSpace\<close>.\<close>

definition IsControl :: "nat \<Rightarrow> bool" where
  "IsControl r \<longleftrightarrow> r < 32 \<or> 127 \<le> r \<and> r < 160"

definition IsSpace :: "nat \<Rightarrow> bool" where
  "IsSpace r \<longleftrightarrow> 9 \<le> r \<and> r \<le> 13 \<or> 8192 \<le> r \<and> r \<le> 8202
     \<or> list_ex (\<lambda>s. r = s) [32, 133, 160, 5760, 8232, 8233, 8239, 8287, 12288]"

text \<open>\<open>strings.TrimSpace\<close>.\<close>

definition trim_runes :: "(nat \<times> string) list \<Rightarrow> (nat \<times> string) list" where
  "trim_runes rs = rev (dropWhile (IsSpace \<circ> fst) (rev (dropWhile (IsSpace \<circ> fst) rs)))"

definition TrimSpace :: "string \<Rightarrow> string" where
  "TrimSpace s = concat (map snd (trim_runes (runes s)))"

subsection \<open>Instants\<close>

text \<open>
  The seconds of a \<open>time.Time\<close>: \<open>time.Unix\<close> wraps around where the seconds since year 1 do not fit
  an \<open>int64\<close>, and \<open>Time.Add\<close> saturates. A clock reading has a part of a second besides.
\<close>

definition unix_sec :: "int \<Rightarrow> int" where
  "unix_sec n = wrap64 (n + 62135596800)"

definition add_sec :: "int \<Rightarrow> int \<Rightarrow> int" where
  "add_sec t d = (if in_int64 (t + d) then t + d else if 0 < d then 2 ^ 63 - 1 else - (2 ^ 63 - 1))"

lemma unix_sec_small: "\<bar>n\<bar> < 2 ^ 62 \<Longrightarrow> unix_sec n = n + 62135596800"
  unfolding unix_sec_def by (rule wrap64_id) (simp add: in_int64_def abs_if split: if_splits)

lemma add_sec_small: "\<bar>t\<bar> < 2 ^ 62 \<Longrightarrow> \<bar>d\<bar> < 2 ^ 62 \<Longrightarrow> add_sec t d = t + d"
  by (simp add: add_sec_def in_int64_def abs_if split: if_splits)

end
