(* ===== verification/Host.thy ===== *)
theory Host
  imports Database GoText
begin

section \<open>What the account packages take from outside\<close>

text \<open>
  The functions that \<open>internal/user\<close> and \<open>internal/invitation\<close> call and that are not in the
  repository, as one record every operation takes: the JWT library, the keyed and plain hashes, the
  source of randomness, the case mappings of Go and of PostgreSQL. A token is a string; what the
  library reads from it without checking the signature is its header and its claims, an object.
  \<open>jwt_signed\<close> is \<open>jwt.Parse\<close> without claims validation: the token is an EdDSA signature under the key
  given as bytes. \<open>jwt_in_time\<close> is the library's own validation of \<open>exp\<close>, \<open>nbf\<close> and \<open>iat\<close>.
\<close>

record session_claims =
  sc_user :: string          \<comment> \<open>\<open>userPublicKey\<close>\<close>
  sc_device :: string        \<comment> \<open>\<open>devicePublicKey\<close>\<close>
  sc_username :: string
  sc_role :: string
  sc_space_id :: string
  sc_bv :: int               \<comment> \<open>the version of the account's binding\<close>
  sc_exp :: int
  sc_iat :: int

record access_claims =
  xc_issuer :: string
  xc_subject :: string
  xc_audience :: string
  xc_iat :: int
  xc_exp :: int
  xc_id :: string

record host =
  jwt_parse :: "string \<Rightarrow> (gmap \<times> gmap) option"     \<comment> \<open>\<open>ParseUnverified\<close>: header and claims\<close>
  jwt_signed :: "string \<Rightarrow> string \<Rightarrow> bool"            \<comment> \<open>token, key\<close>
  jwt_in_time :: "int \<Rightarrow> gmap \<Rightarrow> bool"                \<comment> \<open>now, claims\<close>
  jwt_sign :: "gmap \<Rightarrow> string result"                  \<comment> \<open>\<open>SignedString\<close> of claims under the space's key\<close>
  sign_session :: "session_claims \<Rightarrow> string result"
  parse_session :: "int \<Rightarrow> string \<Rightarrow> (string \<times> session_claims) result"
    \<comment> \<open>\<open>ParseWithClaims\<close> under the space's key, now: the \<open>typ\<close> of the header and the claims\<close>
  sign_access :: "string \<Rightarrow> access_claims \<Rightarrow> string result"   \<comment> \<open>the \<open>typ\<close> of the header and the claims\<close>
  parse_access :: "int \<Rightarrow> string \<Rightarrow> string \<Rightarrow> string \<Rightarrow> (string \<times> access_claims) result"
    \<comment> \<open>now, the issuer and the audience required, the token\<close>
  hmac_sha256 :: "string \<Rightarrow> string \<Rightarrow> string"          \<comment> \<open>key, message\<close>
  hkdf :: "string \<Rightarrow> string \<Rightarrow> string"                \<comment> \<open>seed, label: 32 bytes of HKDF-SHA256\<close>
  sha256_hex :: "string \<Rightarrow> string"
  rand_bytes :: "string result"                         \<comment> \<open>\<open>rand.Read\<close> of 32 bytes\<close>
  rand_text :: string                                   \<comment> \<open>\<open>rand.Text()\<close>\<close>
  use_uuid :: string                                    \<comment> \<open>a second \<open>uuid.New()\<close> of the same call\<close>
  url_parts :: "string \<Rightarrow> (string \<times> string \<times> string \<times> bool) option"
    \<comment> \<open>\<open>url.Parse\<close>: scheme, host name, port, whether there is a user part\<close>
  go_lower :: "string \<Rightarrow> string"                        \<comment> \<open>\<open>strings.ToLower\<close>\<close>
  sql_lower :: "string \<Rightarrow> string"                       \<comment> \<open>PostgreSQL's \<open>lower\<close>\<close>
  space_key :: string                                   \<comment> \<open>this space's public key, the 32 bytes\<close>
  nanos :: int                                          \<comment> \<open>the clock's part of a second, in nanoseconds\<close>

text \<open>The space's key as it is written: \<open>base64.StdEncoding.EncodeToString(publicKey)\<close>.\<close>

definition space_public_key :: "host \<Rightarrow> string" where
  "space_public_key h = StdEncode (space_key h)"

text \<open>\<open>t.Before(now)\<close> and \<open>t.After(now)\<close> for an instant \<open>t\<close> on a full second.\<close>

definition before_now :: "env \<Rightarrow> host \<Rightarrow> int \<Rightarrow> bool" where
  "before_now env h t \<longleftrightarrow> t < unix_sec (now env) \<or> t = unix_sec (now env) \<and> 0 < nanos h"

definition after_now :: "env \<Rightarrow> host \<Rightarrow> int \<Rightarrow> bool" where
  "after_now env h t \<longleftrightarrow> unix_sec (now env) < t"

text \<open>A claim of type string, or the empty string; a numeric claim as \<open>int64\<close>, or 0.\<close>

definition claim_str :: "gmap \<Rightarrow> string \<Rightarrow> string" where
  "claim_str m k = str_or_empty (mindex m k)"

definition claim_int :: "gmap \<Rightarrow> string \<Rightarrow> int" where
  "claim_int m k = (case mindex m k of GFloat q \<Rightarrow> int_of_float q | _ \<Rightarrow> 0)"

text \<open>\<open>isPublicKey\<close>, \<open>isValidPublicKey\<close> and \<open>isCanonicalPublicKey\<close>.\<close>

definition isPublicKey :: "string \<Rightarrow> bool" where
  "isPublicKey s = (case StdDecode s of Some b \<Rightarrow> length b = 32 | None \<Rightarrow> False)"

definition isCanonicalPublicKey :: "string \<Rightarrow> bool" where
  "isCanonicalPublicKey s = (case StdDecode s of Some b \<Rightarrow> length b = 32 \<and> StdEncode b = s | None \<Rightarrow> False)"

lemma canonical_is_key: "isCanonicalPublicKey s \<Longrightarrow> isPublicKey s"
  by (auto simp: isCanonicalPublicKey_def isPublicKey_def split: option.splits)

text \<open>Two canonical spellings of the same key are the same string.\<close>

lemma canonical_unique:
  "isCanonicalPublicKey s \<Longrightarrow> isCanonicalPublicKey t \<Longrightarrow> StdDecode s = StdDecode t \<Longrightarrow> s = t"
  by (auto simp: isCanonicalPublicKey_def split: option.splits)

text \<open>An HTTP answer of a handler: a refusal with its status and text, or the handler's own payload.\<close>

datatype 'a answer = Refuse int string | Answer int 'a

fun status :: "'a answer \<Rightarrow> int" where
  "status (Refuse s _) = s"
| "status (Answer s _) = s"

end
