(* ===== verification/UserRepo.thy ===== *)
theory UserRepo
  imports AppRepo Host
begin

section \<open>The user, device and agent repositories\<close>

text \<open>
  \<open>internal/user/user_repository.go\<close>, \<open>device_repository.go\<close> and \<open>agent_repository.go\<close>, one
  definition per method. An account is unique by its key; the names of the accounts with a
  password are distinct once lowered, which the partial index \<open>users_password_username_idx\<close>
  enforces at every statement that changes a row of \<open>users\<close>.
\<close>

abbreviation RoleOwner :: string where "RoleOwner \<equiv> ''owner''"
abbreviation RoleUser :: string where "RoleUser \<equiv> ''user''"
abbreviation RoleGuest :: string where "RoleGuest \<equiv> ''guest''"

abbreviation NotifyModeDaily :: string where "NotifyModeDaily \<equiv> ''daily''"

definition NotifyModes :: "string list" where
  "NotifyModes = [''all'', ''chat'', NotifyModeDaily]"

abbreviation DeviceKindHuman :: string where "DeviceKindHuman \<equiv> ''human''"
abbreviation DeviceKindAgent :: string where "DeviceKindAgent \<equiv> ''agent''"

text \<open>The rest of the struct \<open>User\<close>: what the event and application packages do not look at.\<close>

record account = user +
  ac_created_at :: int
  ac_avatar :: "string option"
  ac_locale :: string
  ac_notify_mode :: string
  ac_timezone :: string
  ac_seen_at :: int
  ac_binding_iat :: int
  ac_binding_sub :: string
  ac_stored_binding :: string
  ac_device_key :: string

subsection \<open>Accounts\<close>

definition nullif :: "string \<Rightarrow> string option" where
  "nullif s = (if s = [] then None else Some s)"

definition null_string :: "string option \<Rightarrow> string" where
  "null_string s = (case s of Some x \<Rightarrow> x | None \<Rightarrow> [])"

definition user_keys :: "db \<Rightarrow> string list" where
  "user_keys d = map us_public_key (t_users d)"

definition user_row_of :: "db \<Rightarrow> string \<Rightarrow> user_row option" where
  "user_row_of d key = find (\<lambda>u. us_public_key u = key) (t_users d)"

definition has_password :: "user_row \<Rightarrow> bool" where
  "has_password u \<longleftrightarrow> us_verifier u \<noteq> None"

definition password_names :: "(string \<Rightarrow> string) \<Rightarrow> user_row list \<Rightarrow> string list" where
  "password_names low us = map (low \<circ> us_username) (filter has_password us)"

abbreviation users_pkey :: string where "users_pkey \<equiv> ''users_pkey''"
abbreviation usersPasswordUsernameIdx :: string where "usersPasswordUsernameIdx \<equiv> ''users_password_username_idx''"
abbreviation userDevicesPkey :: string where "userDevicesPkey \<equiv> ''user_devices_pkey''"
abbreviation spaceOwnerClaimPkey :: string where "spaceOwnerClaimPkey \<equiv> ''space_owner_claim_pkey''"

definition insert_user :: "host \<Rightarrow> user_row \<Rightarrow> db \<Rightarrow> db result" where
  "insert_user h u d =
     rguard (us_role u \<in> {RoleOwner, RoleUser, RoleGuest}) (check_violation ''users_role_check'')
    (rguard (us_public_key u \<notin> set (user_keys d)) (unique_violation users_pkey)
    (rguard (distinct (password_names (sql_lower h) (t_users d @ [u]))) (unique_violation usersPasswordUsernameIdx)
      (Inr (d\<lparr>t_users := t_users d @ [u]\<rparr>))))"

text \<open>An \<open>UPDATE users ... WHERE public_key = key AND p\<close>, and whether it affected a row.\<close>

definition update_users :: "host \<Rightarrow> (user_row \<Rightarrow> bool) \<Rightarrow> (user_row \<Rightarrow> user_row) \<Rightarrow> string \<Rightarrow> db \<Rightarrow> (bool \<times> db) result" where
  "update_users h p f key d =
     (let hit = (\<lambda>u. us_public_key u = key \<and> p u); us = update_where hit f (t_users d)
      in rguard (list_all (\<lambda>u. us_role u \<in> {RoleOwner, RoleUser, RoleGuest}) (filter hit us))
           (check_violation ''users_role_check'')
        (rguard (list_ex hit (t_users d) \<longrightarrow> distinct (password_names (sql_lower h) us)) (unique_violation usersPasswordUsernameIdx)
          (Inr (list_ex hit (t_users d), d\<lparr>t_users := us\<rparr>))))"

text \<open>An update by key that reports a missing account.\<close>

definition update_user :: "env \<Rightarrow> host \<Rightarrow> string \<Rightarrow> string \<Rightarrow> (user_row \<Rightarrow> user_row) \<Rightarrow> string \<Rightarrow> db \<Rightarrow> db result" where
  "update_user env h site msg f key d =
     rbind (map_err (wrapf msg) (stmt env site d (update_users h (\<lambda>_. True) f key d))) (\<lambda>(hit, d1).
       affected hit ''user with public key not found'' d1)"

definition CreateUser :: "env \<Rightarrow> host \<Rightarrow> account \<Rightarrow> db \<Rightarrow> db result" where
  "CreateUser env h acct d =
     map_err (wrapf ''failed to create user'') (stmt env ''CreateUser'' d
       (insert_user h (new_user_row (u_public_key acct) (u_username acct) (u_role acct) (ac_created_at acct)) d))"

definition account_of_row :: "user_row \<Rightarrow> account" where
  "account_of_row u =
     \<lparr>u_public_key = us_public_key u, u_username = us_username u, u_role = us_role u, u_space_id = [],
      u_agent = False, ac_created_at = us_created_at u, ac_avatar = us_avatar u, ac_locale = us_locale u,
      ac_notify_mode = us_notify_mode u, ac_timezone = us_timezone u, ac_seen_at = us_seen_at u,
      ac_binding_iat = us_binding_iat u, ac_binding_sub = us_binding_sub u,
      ac_stored_binding = null_string (us_binding u), ac_device_key = []\<rparr>"

definition GetUserByPublicKey :: "env \<Rightarrow> string \<Rightarrow> db \<Rightarrow> account option result" where
  "GetUserByPublicKey env key d =
     map_err (wrapf ''failed to get user by public key'') (stmt env ''GetUserByPublicKey'' d
       (Inr (map_option account_of_row (user_row_of d key))))"

definition UpdateUserRole :: "env \<Rightarrow> host \<Rightarrow> string \<Rightarrow> string \<Rightarrow> db \<Rightarrow> db result" where
  "UpdateUserRole env h key role d =
     map_err (wrapf ''failed to update user role'') (stmt env ''UpdateUserRole'' d
       (rbind (update_users h (\<lambda>_. True) (\<lambda>u. u\<lparr>us_role := role\<rparr>) key d) (\<lambda>(_, d1). Inr d1)))"

definition UpdateAvatarStorageID :: "env \<Rightarrow> host \<Rightarrow> string \<Rightarrow> string option \<Rightarrow> db \<Rightarrow> db result" where
  "UpdateAvatarStorageID env h key avatar d =
     rbind (map_err (wrapf ''failed to update avatar storage id'') (stmt env ''UpdateAvatarStorageID'' d
       (rguard (case avatar of None \<Rightarrow> True | Some s \<Rightarrow> s \<in> sg_id ` set (t_storage d) \<or> key \<notin> set (user_keys d))
          (fk_violation ''users_avatar_storage_id_fkey'')
          (update_users h (\<lambda>_. True) (\<lambda>u. u\<lparr>us_avatar := avatar\<rparr>) key d))))
       (\<lambda>(hit, d1). affected hit ''user with public key not found'' d1)"

text \<open>A unique violation of whatever index is a name that is taken.\<close>

definition name_taken :: "goerr \<Rightarrow> goerr" where
  "name_taken e = (if unique_constraint e \<noteq> None then errw ErrUsernameTaken ''username already used for password login'' else e)"

definition UpdateUsername :: "env \<Rightarrow> host \<Rightarrow> string \<Rightarrow> string \<Rightarrow> db \<Rightarrow> db result" where
  "UpdateUsername env h key username d =
     rbind (map_err (\<lambda>e. if unique_constraint e \<noteq> None then name_taken e else wrapf ''failed to update username'' e)
       (stmt env ''UpdateUsername'' d (update_users h (\<lambda>_. True) (\<lambda>u. u\<lparr>us_username := username\<rparr>) key d)))
       (\<lambda>(hit, d1). affected hit ''user with public key not found'' d1)"

text \<open>The digests waiting for the subscriptions of an account's devices.\<close>

definition account_subscriptions :: "db \<Rightarrow> string \<Rightarrow> string list" where
  "account_subscriptions d key =
     map ps_id (filter (\<lambda>s. list_ex (\<lambda>v. dv_public_key v = ps_device s \<and> dv_user v = key) (t_devices d)) (t_subscriptions d))"

definition UpdateNotifyMode :: "env \<Rightarrow> host \<Rightarrow> string \<Rightarrow> string \<Rightarrow> db \<Rightarrow> db result" where
  "UpdateNotifyMode env h key mode d =
     rbind (map_err (wrapf ''failed to begin notify mode update'') (stmt env ''UpdateNotifyMode.Begin'' d (Inr ()))) (\<lambda>_.
     rbind (map_err (wrapf ''failed to read notify mode'') (stmt env ''UpdateNotifyMode.SELECT'' d (Inr (user_row_of d key)))) (\<lambda>row.
     case row of
       None \<Rightarrow> Inl (errorf ''user with public key not found'')
     | Some u0 \<Rightarrow>
         rbind (update_user env h ''UpdateNotifyMode.UPDATE'' ''failed to update notify mode''
           (\<lambda>u. u\<lparr>us_notify_mode := mode,
                 us_digest_sent_at := (if mode = NotifyModeDaily \<and> us_notify_mode u \<noteq> NotifyModeDaily then now env
                   else us_digest_sent_at u)\<rparr>) key d) (\<lambda>d1.
         rbind (if mode \<noteq> NotifyModeDaily \<or> us_notify_mode u0 \<noteq> NotifyModeDaily
            then map_err (wrapf ''failed to clear pending digest'') (stmt env ''UpdateNotifyMode.DELETE'' d1
              (Inr (d1\<lparr>t_digest_pending :=
                 filter (\<lambda>g. dg_subscription g \<notin> set (account_subscriptions d1 key)) (t_digest_pending d1)\<rparr>)))
            else Inr d1) (\<lambda>d2.
         map_err (wrapf ''failed to commit notify mode update'') (stmt env ''UpdateNotifyMode.Commit'' d2 (Inr d2))))))"

definition UpdateTimezone :: "env \<Rightarrow> host \<Rightarrow> string \<Rightarrow> string \<Rightarrow> db \<Rightarrow> db result" where
  "UpdateTimezone env h key tz d =
     update_user env h ''UpdateTimezone'' ''failed to update timezone'' (\<lambda>u. u\<lparr>us_timezone := tz\<rparr>) key d"

definition UpdateNotificationsSeenAt :: "env \<Rightarrow> host \<Rightarrow> string \<Rightarrow> int \<Rightarrow> db \<Rightarrow> db result" where
  "UpdateNotificationsSeenAt env h key t d =
     update_user env h ''UpdateNotificationsSeenAt'' ''failed to update notifications seen at''
       (\<lambda>u. u\<lparr>us_seen_at := max (us_seen_at u) t\<rparr>) key d"

definition UpdateLocale :: "env \<Rightarrow> host \<Rightarrow> string \<Rightarrow> string \<Rightarrow> db \<Rightarrow> db result" where
  "UpdateLocale env h key loc d =
     update_user env h ''UpdateLocale'' ''failed to update locale'' (\<lambda>u. u\<lparr>us_locale := loc\<rparr>) key d"

subsection \<open>Bindings\<close>

text \<open>The order of the column under \<open>COLLATE "C"\<close>: by bytes.\<close>

fun bytes_less :: "string \<Rightarrow> string \<Rightarrow> bool" where
  "bytes_less _ [] = False"
| "bytes_less [] (_ # _) = True"
| "bytes_less (x # xs) (y # ys) =
     ((of_char x :: nat) < of_char y \<or> x = y \<and> bytes_less xs ys)"

definition binding_less :: "int \<times> string \<Rightarrow> int \<times> string \<Rightarrow> bool" where
  "binding_less a b \<longleftrightarrow> fst a < fst b \<or> fst a = fst b \<and> bytes_less (snd a) (snd b)"

definition binding_of :: "user_row \<Rightarrow> int \<times> string" where
  "binding_of u = (us_binding_iat u, us_binding_sub u)"

text \<open>The guard and the effect of the update: a binding to another space clears the escrow here.\<close>

definition binding_accepted :: "int \<Rightarrow> string \<Rightarrow> string \<Rightarrow> user_row \<Rightarrow> bool" where
  "binding_accepted iat sub ownKey u \<longleftrightarrow>
     binding_less (binding_of u) (iat, sub) \<and> (sub \<noteq> ownKey \<or> us_account_key u \<noteq> None)"

definition with_binding :: "string \<Rightarrow> int \<Rightarrow> string \<Rightarrow> string \<Rightarrow> user_row \<Rightarrow> user_row" where
  "with_binding binding iat sub ownKey u =
     u\<lparr>us_binding := Some binding, us_binding_iat := iat, us_binding_sub := sub,
       us_account_key := (if sub = ownKey then us_account_key u else None),
       us_state := (if sub = ownKey then us_state u else None),
       us_verifier := (if sub = ownKey then us_verifier u else None)\<rparr>"

text \<open>The stored binding, its subject, whether the call changed it, and the tables.\<close>

definition AcceptBinding ::
    "env \<Rightarrow> host \<Rightarrow> string \<Rightarrow> string \<Rightarrow> int \<Rightarrow> string \<Rightarrow> string \<Rightarrow> db \<Rightarrow> (string \<times> string \<times> bool \<times> db) result" where
  "AcceptBinding env h key binding iat sub ownKey d =
     rbind (map_err (wrapf ''failed to accept binding'') (stmt env ''AcceptBinding.UPDATE'' d
       (update_users h (binding_accepted iat sub ownKey) (with_binding binding iat sub ownKey) key d))) (\<lambda>(hit, d1).
     if hit then Inr (binding, sub, True, d1)
     else rbind (map_err (wrapf ''failed to read stored binding'') (stmt env ''AcceptBinding.SELECT'' d1
            (Inr (user_row_of d1 key)))) (\<lambda>row.
          case row of None \<Rightarrow> Inr ([], [], False, d1)
          | Some u \<Rightarrow> Inr (null_string (us_binding u), us_binding_sub u, False, d1)))"

subsection \<open>Password credentials and escrow\<close>

abbreviation escrow_error :: goerr where
  "escrow_error \<equiv> errw ErrIdentitySpaceEscrow ''escrow cannot be cleared on the identity space''"

definition SetPasswordCredentials ::
    "env \<Rightarrow> host \<Rightarrow> string \<Rightarrow> string \<Rightarrow> string \<Rightarrow> string \<Rightarrow> string \<Rightarrow> string \<Rightarrow> db \<Rightarrow> db result" where
  "SetPasswordCredentials env h key verifier handle keyBlob stateBlob ownKey d =
     rbind (map_err (\<lambda>e. if unique_constraint e \<noteq> None then name_taken e else wrapf ''failed to set password credentials'' e)
       (stmt env ''SetPasswordCredentials'' d
         (update_users h (\<lambda>u. keyBlob \<noteq> [] \<or> us_binding_sub u \<noteq> ownKey)
           (\<lambda>u. u\<lparr>us_verifier := Some verifier,
                 us_handle := Some (if us_verifier u = None then handle
                    else (case us_handle u of Some x \<Rightarrow> x | None \<Rightarrow> handle)),
                 us_account_key := nullif keyBlob, us_state := nullif stateBlob\<rparr>) key d)))
       (\<lambda>(hit, d1). rguard hit escrow_error (Inr d1))"

definition password_row :: "host \<Rightarrow> string \<Rightarrow> db \<Rightarrow> user_row option" where
  "password_row h username d =
     find (\<lambda>u. sql_lower h (us_username u) = sql_lower h username \<and> has_password u) (t_users d)"

definition GetPasswordCredential :: "env \<Rightarrow> host \<Rightarrow> string \<Rightarrow> db \<Rightarrow> (string \<times> string) result" where
  "GetPasswordCredential env h username d =
     map_err (wrapf ''failed to get password credential'') (stmt env ''GetPasswordCredential'' d
       (Inr (case password_row h username d of None \<Rightarrow> ([], [])
          | Some u \<Rightarrow> (us_public_key u, null_string (us_verifier u)))))"

definition GetPasswordHandle :: "env \<Rightarrow> host \<Rightarrow> string \<Rightarrow> db \<Rightarrow> string result" where
  "GetPasswordHandle env h username d =
     map_err (wrapf ''failed to get password handle'') (stmt env ''GetPasswordHandle'' d
       (Inr (case password_row h username d of None \<Rightarrow> [] | Some u \<Rightarrow> null_string (us_handle u))))"

definition GetEscrow :: "env \<Rightarrow> string \<Rightarrow> db \<Rightarrow> (string \<times> string) result" where
  "GetEscrow env key d =
     map_err (wrapf ''failed to get escrow'') (stmt env ''GetEscrow'' d
       (Inr (case user_row_of d key of None \<Rightarrow> ([], [])
          | Some u \<Rightarrow> (null_string (us_account_key u), null_string (us_state u)))))"

definition repoUpdateUserState :: "env \<Rightarrow> host \<Rightarrow> string \<Rightarrow> string \<Rightarrow> db \<Rightarrow> db result" where
  "repoUpdateUserState env h key blob d =
     map_err (wrapf ''failed to update user state'') (stmt env ''UpdateUserState'' d
       (rbind (update_users h (\<lambda>_. True) (\<lambda>u. u\<lparr>us_state := nullif blob\<rparr>) key d) (\<lambda>(_, d1). Inr d1)))"

definition repoClearEscrow :: "env \<Rightarrow> host \<Rightarrow> string \<Rightarrow> string \<Rightarrow> db \<Rightarrow> db result" where
  "repoClearEscrow env h key ownKey d =
     rbind (map_err (wrapf ''failed to clear escrow'') (stmt env ''ClearEscrow'' d
       (update_users h (\<lambda>u. us_binding_sub u \<noteq> ownKey)
         (\<lambda>u. u\<lparr>us_account_key := None, us_state := None, us_verifier := None\<rparr>) key d)))
       (\<lambda>(hit, d1). rguard hit escrow_error (Inr d1))"

subsection \<open>The claim of the space and registration\<close>

definition insert_device :: "device_row \<Rightarrow> db \<Rightarrow> db result" where
  "insert_device v d =
     rguard (dv_kind v \<in> {DeviceKindHuman, DeviceKindAgent}) (check_violation ''user_devices_kind_check'')
    (rguard (dv_public_key v \<notin> dv_public_key ` set (t_devices d)) (unique_violation userDevicesPkey)
    (rguard (dv_user v \<in> set (user_keys d)) (fk_violation ''user_devices_user_public_key_fkey'')
      (Inr (d\<lparr>t_devices := t_devices d @ [v]\<rparr>))))"

definition new_device_row :: "string \<Rightarrow> string \<Rightarrow> string option \<Rightarrow> int \<Rightarrow> string \<Rightarrow> device_row" where
  "new_device_row dkey key name t kind =
     \<lparr>dv_public_key = dkey, dv_user = key, dv_name = name, dv_created_at = t, dv_last_seen_at = None,
      dv_revoked_at = None, dv_kind = kind\<rparr>"

record credentials =
  cr_verifier :: string
  cr_handle :: string
  cr_key_blob :: string
  cr_state_blob :: string

definition repoClaimOwner ::
    "env \<Rightarrow> host \<Rightarrow> string \<Rightarrow> string \<Rightarrow> credentials \<Rightarrow> string \<Rightarrow> string option \<Rightarrow> int \<Rightarrow> db \<Rightarrow> db result" where
  "repoClaimOwner env h key username cr dkey dname t d =
     rbind (map_err (wrapf ''failed to begin transaction'') (stmt env ''ClaimOwner.Begin'' d (Inr ()))) (\<lambda>_.
     rbind (map_err (\<lambda>e. if unique_constraint e = Some usersPasswordUsernameIdx then name_taken e
               else wrapf ''failed to claim owner'' e)
        (stmt env ''ClaimOwner.users'' d
          (insert_user h ((new_user_row key username RoleOwner t)
             \<lparr>us_verifier := nullif (cr_verifier cr), us_handle := nullif (cr_handle cr),
              us_account_key := nullif (cr_key_blob cr), us_state := nullif (cr_state_blob cr)\<rparr>) d))) (\<lambda>d1.
     rbind (map_err (\<lambda>e. if unique_constraint e = Some userDevicesPkey
               then errw ErrDeviceKeyTaken ''device key already registered on this space''
               else wrapf ''failed to create owner device'' e)
        (stmt env ''ClaimOwner.user_devices'' d1 (insert_device (new_device_row dkey key dname t DeviceKindHuman) d1))) (\<lambda>d2.
     rbind (map_err (\<lambda>e. if unique_constraint e = Some spaceOwnerClaimPkey
               then errw ErrSpaceAlreadyClaimed ''space already claimed''
               else wrapf ''failed to record owner claim'' e)
        (stmt env ''ClaimOwner.space_owner_claim'' d2
          (rguard (t_owner_claim d2 = []) (unique_violation spaceOwnerClaimPkey)
            (Inr (d2\<lparr>t_owner_claim := [(key, t)]\<rparr>))))) (\<lambda>d3.
     map_err (wrapf ''failed to commit owner claim'') (stmt env ''ClaimOwner.Commit'' d3 (Inr d3))))))"

definition HasClaim :: "env \<Rightarrow> db \<Rightarrow> bool result" where
  "HasClaim env d = map_err (wrapf ''failed to check for existing claim'') (stmt env ''HasClaim'' d (Inr (t_owner_claim d \<noteq> [])))"

text \<open>Which refusal a unique violation of the account's row becomes; the existing key decides.\<close>

definition register_conflict :: "env \<Rightarrow> string \<Rightarrow> db \<Rightarrow> goerr \<Rightarrow> goerr" where
  "register_conflict env key d e =
     (if unique_constraint e = Some usersPasswordUsernameIdx then
        (case stmt env ''RegisterUser.EXISTS'' d (Inr (user_row_of d key \<noteq> None)) of
           Inl e1 \<Rightarrow> wrapf ''failed to check for existing account'' e1
         | Inr ex \<Rightarrow> if ex then errw ErrAccountExists ''account already exists'' else name_taken e)
      else if unique_constraint e = Some users_pkey then errw ErrAccountExists ''account already exists''
      else wrapf ''failed to register user'' e)"

definition repoRegisterUser ::
    "env \<Rightarrow> host \<Rightarrow> string \<Rightarrow> string \<Rightarrow> credentials \<Rightarrow> string \<Rightarrow> string option \<Rightarrow> int \<Rightarrow> db \<Rightarrow> db result" where
  "repoRegisterUser env h key username cr dkey dname t d =
     rbind (map_err (wrapf ''failed to begin transaction'') (stmt env ''RegisterUser.Begin'' d (Inr ()))) (\<lambda>_.
     rbind (map_err (register_conflict env key d)
        (stmt env ''RegisterUser.users'' d
          (insert_user h ((new_user_row key username RoleUser t)
             \<lparr>us_verifier := Some (cr_verifier cr), us_handle := Some (cr_handle cr),
              us_account_key := Some (cr_key_blob cr), us_state := nullif (cr_state_blob cr)\<rparr>) d))) (\<lambda>d1.
     rbind (map_err (\<lambda>e. if unique_constraint e = Some userDevicesPkey
               then errw ErrDeviceKeyTaken ''device key already registered on this space''
               else wrapf ''failed to create user device'' e)
        (stmt env ''RegisterUser.user_devices'' d1 (insert_device (new_device_row dkey key dname t DeviceKindHuman) d1))) (\<lambda>d2.
     map_err (wrapf ''failed to commit registration'') (stmt env ''RegisterUser.Commit'' d2 (Inr d2)))))"

definition CountUsers :: "env \<Rightarrow> db \<Rightarrow> nat result" where
  "CountUsers env d = map_err (wrapf ''failed to count users'') (stmt env ''CountUsers'' d (Inr (length (t_users d))))"

subsection \<open>Devices\<close>

text \<open>An existing device is left as it is.\<close>

definition EnsureDevice :: "env \<Rightarrow> string \<Rightarrow> string \<Rightarrow> string option \<Rightarrow> int \<Rightarrow> db \<Rightarrow> db result" where
  "EnsureDevice env dkey key name t d =
     map_err (wrapf ''failed to ensure device'') (stmt env ''EnsureDevice'' d
       (if dkey \<in> dv_public_key ` set (t_devices d) then Inr d
        else insert_device (new_device_row dkey key name t DeviceKindHuman) d))"

definition update_devices :: "(device_row \<Rightarrow> bool) \<Rightarrow> (device_row \<Rightarrow> device_row) \<Rightarrow> db \<Rightarrow> db" where
  "update_devices p f d = d\<lparr>t_devices := update_where p f (t_devices d)\<rparr>"

definition revivable :: "string \<Rightarrow> string \<Rightarrow> int \<Rightarrow> device_row \<Rightarrow> bool" where
  "revivable dkey key revokedBefore v \<longleftrightarrow> dv_public_key v = dkey \<and> dv_user v = key
     \<and> (case dv_revoked_at v of None \<Rightarrow> True | Some t \<Rightarrow> t < revokedBefore)"

definition ReviveDevice :: "env \<Rightarrow> string \<Rightarrow> string \<Rightarrow> int \<Rightarrow> db \<Rightarrow> (bool \<times> db) result" where
  "ReviveDevice env dkey key revokedBefore d =
     map_err (wrapf ''failed to revive device'') (stmt env ''ReviveDevice'' d
       (Inr (length (filter (revivable dkey key revokedBefore) (t_devices d)) = 1,
             update_devices (revivable dkey key revokedBefore) (\<lambda>v. v\<lparr>dv_revoked_at := None\<rparr>) d)))"

definition device_row_of :: "db \<Rightarrow> string \<Rightarrow> device_row option" where
  "device_row_of d dkey = find (\<lambda>v. dv_public_key v = dkey) (t_devices d)"

definition GetDevice :: "env \<Rightarrow> string \<Rightarrow> db \<Rightarrow> device_row option result" where
  "GetDevice env dkey d =
     map_err (wrapf ''failed to get device'') (stmt env ''GetDevice'' d (Inr (device_row_of d dkey)))"

definition repoListDevices :: "env \<Rightarrow> string \<Rightarrow> bool \<Rightarrow> db \<Rightarrow> device_row list result" where
  "repoListDevices env key includeRevoked d =
     map_err (wrapf ''failed to list devices'') (stmt env ''ListDevices'' d
       (Inr (filter (\<lambda>v. dv_user v = key \<and> (includeRevoked \<or> dv_revoked_at v = None)) (t_devices d))))"

definition drop_subscriptions :: "(subscription_row \<Rightarrow> bool) \<Rightarrow> db \<Rightarrow> db" where
  "drop_subscriptions p d =
     (let gone = ps_id ` set (filter p (t_subscriptions d))
      in d\<lparr>t_subscriptions := filter (\<lambda>s. \<not> p s) (t_subscriptions d),
           t_digest_pending := filter (\<lambda>g. dg_subscription g \<notin> gone) (t_digest_pending d)\<rparr>)"

definition repoRevokeDevice :: "env \<Rightarrow> string \<Rightarrow> int \<Rightarrow> db \<Rightarrow> db result" where
  "repoRevokeDevice env dkey t d =
     rbind (map_err (wrapf ''failed to begin transaction'') (stmt env ''RevokeDevice.Begin'' d (Inr ()))) (\<lambda>_.
     rbind (map_err (wrapf ''failed to revoke device'') (stmt env ''RevokeDevice.user_devices'' d
        (Inr (update_devices (\<lambda>v. dv_public_key v = dkey) (\<lambda>v. v\<lparr>dv_revoked_at := Some t\<rparr>) d)))) (\<lambda>d1.
     rbind (map_err (wrapf ''failed to delete device push subscriptions'') (stmt env ''RevokeDevice.push_subscriptions'' d1
        (Inr (drop_subscriptions (\<lambda>s. ps_device s = dkey) d1)))) (\<lambda>d2.
     rbind (map_err (wrapf ''failed to delete device agent refresh token'') (stmt env ''RevokeDevice.agent_refresh_tokens'' d2
        (Inr (d2\<lparr>t_agent_tokens := filter (\<lambda>t. at_device t \<noteq> dkey) (t_agent_tokens d2)\<rparr>)))) (\<lambda>d3.
     map_err (wrapf ''failed to commit device revocation'') (stmt env ''RevokeDevice.Commit'' d3 (Inr d3))))))"

definition repoRenameDevice :: "env \<Rightarrow> string \<Rightarrow> string \<Rightarrow> db \<Rightarrow> db result" where
  "repoRenameDevice env dkey name d =
     map_err (wrapf ''failed to rename device'') (stmt env ''RenameDevice'' d
       (Inr (update_devices (\<lambda>v. dv_public_key v = dkey) (\<lambda>v. v\<lparr>dv_name := Some name\<rparr>) d)))"

definition TouchDeviceLastSeen :: "env \<Rightarrow> string \<Rightarrow> int \<Rightarrow> db \<Rightarrow> db result" where
  "TouchDeviceLastSeen env dkey t d =
     map_err (wrapf ''failed to touch device last seen'') (stmt env ''TouchDeviceLastSeen'' d
       (Inr (update_devices (\<lambda>v. dv_public_key v = dkey) (\<lambda>v. v\<lparr>dv_last_seen_at := Some t\<rparr>) d)))"

subsection \<open>Agents\<close>

definition live_agent :: "db \<Rightarrow> string \<Rightarrow> int \<Rightarrow> device_row \<Rightarrow> bool" where
  "live_agent d key t v \<longleftrightarrow> dv_user v = key \<and> dv_kind v = DeviceKindAgent \<and> dv_revoked_at v = None
     \<and> list_ex (\<lambda>a. at_device a = dv_public_key v \<and> at_expires_at a > t) (t_agent_tokens d)"

definition countLiveAgents :: "env \<Rightarrow> string \<Rightarrow> int \<Rightarrow> db \<Rightarrow> nat result" where
  "countLiveAgents env key t d =
     map_err (wrapf ''failed to count agents'') (stmt env ''countLiveAgents'' d
       (Inr (length (filter (live_agent d key t) (t_devices d)))))"

text \<open>The unique columns of \<open>agent_refresh_tokens\<close>.\<close>

definition tokens_unique :: "agent_token_row list \<Rightarrow> bool" where
  "tokens_unique ts \<longleftrightarrow> distinct (map at_device ts) \<and> distinct (map at_hash ts)
     \<and> distinct (filter (\<lambda>p. p \<noteq> None) (map at_prev_hash ts))"

definition createAgent :: "env \<Rightarrow> string \<Rightarrow> string \<Rightarrow> string option \<Rightarrow> string \<Rightarrow> int \<Rightarrow> int \<Rightarrow> db \<Rightarrow> db result" where
  "createAgent env dkey key name tokenHash createdAt expiresAt d =
     rbind (map_err (wrapf ''failed to begin transaction'') (stmt env ''createAgent.Begin'' d (Inr ()))) (\<lambda>_.
     rbind (map_err (wrapf ''failed to insert agent device'') (stmt env ''createAgent.user_devices'' d
        (insert_device (new_device_row dkey key name createdAt DeviceKindAgent) d))) (\<lambda>d1.
     rbind (map_err (wrapf ''failed to insert refresh token'') (stmt env ''createAgent.agent_refresh_tokens'' d1
        (let ts = t_agent_tokens d1 @ [\<lparr>at_device = dkey, at_hash = tokenHash, at_prev_hash = None, at_expires_at = expiresAt\<rparr>]
         in rguard (tokens_unique ts) (unique_violation ''agent_refresh_tokens_token_hash_key'')
              (Inr (d1\<lparr>t_agent_tokens := ts\<rparr>))))) (\<lambda>d2.
     map_err (wrapf ''failed to commit agent'') (stmt env ''createAgent.Commit'' d2 (Inr d2)))))"

definition rotatable :: "db \<Rightarrow> string \<Rightarrow> int \<Rightarrow> agent_token_row \<Rightarrow> bool" where
  "rotatable d oldHash t a \<longleftrightarrow> at_hash a = oldHash \<and> at_expires_at a > t
     \<and> list_ex (\<lambda>v. dv_public_key v = at_device a \<and> dv_revoked_at v = None) (t_devices d)"

text \<open>The device of the token rotated, or the empty string.\<close>

definition rotateRefreshToken :: "env \<Rightarrow> string \<Rightarrow> string \<Rightarrow> int \<Rightarrow> int \<Rightarrow> db \<Rightarrow> (string \<times> db) result" where
  "rotateRefreshToken env oldHash newHash t newExpiresAt d =
     map_err (wrapf ''failed to rotate refresh token'') (stmt env ''rotateRefreshToken'' d
       (case find (rotatable d oldHash t) (t_agent_tokens d) of
          None \<Rightarrow> Inr ([], d)
        | Some a \<Rightarrow>
            (let ts = update_where (rotatable d oldHash t)
                   (\<lambda>a. a\<lparr>at_prev_hash := Some (at_hash a), at_hash := newHash, at_expires_at := newExpiresAt\<rparr>) (t_agent_tokens d)
             in rguard (tokens_unique ts) (unique_violation ''agent_refresh_tokens_token_hash_key'')
                  (Inr (at_device a, d\<lparr>t_agent_tokens := ts\<rparr>)))))"

definition deviceForPrevHash :: "env \<Rightarrow> string \<Rightarrow> db \<Rightarrow> string result" where
  "deviceForPrevHash env hash d =
     map_err (wrapf ''failed to look up previous refresh token'') (stmt env ''deviceForPrevHash'' d
       (Inr (case find (\<lambda>a. at_prev_hash a = Some hash) (t_agent_tokens d) of None \<Rightarrow> [] | Some a \<Rightarrow> at_device a)))"

end
