(* ===== verification/Node.thy ===== *)
theory Node
  imports EventService UserRepo
begin

section \<open>The process: tables, memory and outgoing calls\<close>

text \<open>
  A handler of the account and invitation packages reads and changes more than the tables: the
  pending login challenges, the delegations used, the time a device was last written, the sockets
  it asks to close, the notices of events. A handler is a function on this state that returns a
  result beside it; an early return leaves what it had already done.
\<close>

record challengeInfo =
  ch_public_key :: string
  ch_expires_at :: int          \<comment> \<open>nanoseconds since 1970\<close>

record node =
  nd_db :: db
  nd_challenges :: "(string \<times> challengeInfo) list"
  nd_jtis :: "(string \<times> int) list"
  nd_touched :: "(string \<times> int) list"
  nd_kicks :: "(string \<times> string) list"   \<comment> \<open>calls of \<open>Disconnect\<close>, the last one first\<close>
  nd_notices :: "notice list"             \<comment> \<open>what was broadcast and pushed, the last first\<close>

type_synonym 'a act = "node \<Rightarrow> 'a result \<times> node"

text \<open>The combinators work on any state.\<close>

type_synonym ('s, 'a) action = "'s \<Rightarrow> 'a result \<times> 's"

named_theorems act_simps "what a sequence of actions does"

definition ret :: "'a \<Rightarrow> ('s, 'a) action" where
  "ret x = (\<lambda>n. (Inr x, n))"

definition fail :: "goerr \<Rightarrow> ('s, 'a) action" where
  "fail e = (\<lambda>n. (Inl e, n))"

definition andThen :: "('s, 'a) action \<Rightarrow> ('a \<Rightarrow> ('s, 'b) action) \<Rightarrow> ('s, 'b) action" where
  "andThen m f = (\<lambda>n. case m n of (Inl e, n1) \<Rightarrow> (Inl e, n1) | (Inr x, n1) \<Rightarrow> f x n1)"

text \<open>Run an action and look at its result, error or not.\<close>

definition attempt :: "('s, 'a) action \<Rightarrow> ('a result \<Rightarrow> ('s, 'b) action) \<Rightarrow> ('s, 'b) action" where
  "attempt m f = (\<lambda>n. case m n of (r, n1) \<Rightarrow> f r n1)"

definition require :: "bool \<Rightarrow> goerr \<Rightarrow> ('s, unit) action" where
  "require ok e = (\<lambda>n. (if ok then Inr () else Inl e, n))"

definition lift :: "'a result \<Rightarrow> ('s, 'a) action" where
  "lift r = (\<lambda>n. (r, n))"

text \<open>A query, and an update, of the tables.\<close>

definition ask :: "(db \<Rightarrow> 'a result) \<Rightarrow> 'a act" where
  "ask q = (\<lambda>n. (q (nd_db n), n))"

definition exec :: "(db \<Rightarrow> db result) \<Rightarrow> unit act" where
  "exec u = (\<lambda>n. case u (nd_db n) of Inl e \<Rightarrow> (Inl e, n) | Inr d \<Rightarrow> (Inr (), n\<lparr>nd_db := d\<rparr>))"

definition exec_ret :: "(db \<Rightarrow> ('a \<times> db) result) \<Rightarrow> 'a act" where
  "exec_ret u = (\<lambda>n. case u (nd_db n) of Inl e \<Rightarrow> (Inl e, n) | Inr (x, d) \<Rightarrow> (Inr x, n\<lparr>nd_db := d\<rparr>))"

text \<open>An event of the space itself, with the notices it gives rise to.\<close>

definition produce :: "EventService \<Rightarrow> env \<Rightarrow> event \<Rightarrow> event act" where
  "produce s env ev = (\<lambda>n. case ProduceEvent s env ev (nd_db n) of
     (d, r, ns) \<Rightarrow> (r, n\<lparr>nd_db := d, nd_notices := rev ns @ nd_notices n\<rparr>))"

definition kick :: "bool \<Rightarrow> string \<Rightarrow> string \<Rightarrow> unit act" where
  "kick hooked account device = (\<lambda>n. (Inr (), if hooked then n\<lparr>nd_kicks := (account, device) # nd_kicks n\<rparr> else n))"

subsection \<open>Reasoning about actions\<close>

lemma andThen_Inr [act_simps]: "andThen m f n = (Inr y, n2) \<longleftrightarrow> (\<exists>x n1. m n = (Inr x, n1) \<and> f x n1 = (Inr y, n2))"
  by (auto simp: andThen_def split: prod.splits sum.splits)

lemma andThen_Inl [act_simps]:
  "andThen m f n = (Inl e, n2) \<longleftrightarrow> m n = (Inl e, n2) \<or> (\<exists>x n1. m n = (Inr x, n1) \<and> f x n1 = (Inl e, n2))"
  by (auto simp: andThen_def split: prod.splits sum.splits)

lemma ret_simp [act_simps]: "ret x n = (r, n1) \<longleftrightarrow> r = Inr x \<and> n1 = n"
  by (auto simp: ret_def)

lemma fail_simp [act_simps]: "fail e n = (r, n1) \<longleftrightarrow> r = Inl e \<and> n1 = n"
  by (auto simp: fail_def)

lemma require_simps [act_simps]:
  "require ok e n = (Inr y, n1) \<longleftrightarrow> ok \<and> n1 = n"
  "require ok e n = (Inl e1, n1) \<longleftrightarrow> \<not> ok \<and> n1 = n \<and> e1 = e"
  by (auto simp: require_def)

lemma lift_simp [act_simps]: "lift x n = (r, n1) \<longleftrightarrow> x = r \<and> n1 = n"
  by (auto simp: lift_def)

lemma ask_simp [act_simps]: "ask q n = (r, n1) \<longleftrightarrow> q (nd_db n) = r \<and> n1 = n"
  by (auto simp: ask_def)

lemma exec_Inr [act_simps]: "exec u n = (Inr y, n1) \<longleftrightarrow> (\<exists>d. u (nd_db n) = Inr d \<and> n1 = n\<lparr>nd_db := d\<rparr>)"
  by (auto simp: exec_def split: sum.splits)

lemma exec_Inl [act_simps]: "exec u n = (Inl e, n1) \<longleftrightarrow> u (nd_db n) = Inl e \<and> n1 = n"
  by (auto simp: exec_def split: sum.splits)

lemma exec_ret_Inr [act_simps]:
  "exec_ret u n = (Inr x, n1) \<longleftrightarrow> (\<exists>d. u (nd_db n) = Inr (x, d) \<and> n1 = n\<lparr>nd_db := d\<rparr>)"
  by (auto simp: exec_ret_def split: sum.splits prod.splits)

lemma exec_ret_Inl [act_simps]: "exec_ret u n = (Inl e, n1) \<longleftrightarrow> u (nd_db n) = Inl e \<and> n1 = n"
  by (auto simp: exec_ret_def split: sum.splits prod.splits)

text \<open>
  \<open>steps R m\<close>: whatever the action or the handler returns, the tables it leaves behind are related to
  those it found. The interface is a relation that a sequence of statements composes.
\<close>

definition steps :: "(db \<Rightarrow> db \<Rightarrow> bool) \<Rightarrow> (node \<Rightarrow> 'r \<times> node) \<Rightarrow> bool" where
  "steps R m \<longleftrightarrow> (\<forall>n. R (nd_db n) (nd_db (snd (m n))))"

lemma stepsD: "steps R m \<Longrightarrow> m n = (r, n1) \<Longrightarrow> R (nd_db n) (nd_db n1)"
  by (metis steps_def snd_conv)

locale table_relation =
  fixes R :: "db \<Rightarrow> db \<Rightarrow> bool"
  assumes refl: "R d d" and trans: "R a b \<Longrightarrow> R b c \<Longrightarrow> R a c"
begin

lemma steps_pure: "steps R (ret x)" "steps R (fail e)" "steps R (require ok e)" "steps R (lift r)" "steps R (ask q)"
    "steps R (kick hk a v)"
  by (simp_all add: steps_def ret_def fail_def require_def lift_def ask_def kick_def refl)

lemma steps_andThen: "steps R m \<Longrightarrow> (\<And>x. steps R (f x)) \<Longrightarrow> steps R (andThen m f)"
  unfolding steps_def andThen_def by (auto split: prod.splits sum.splits) (metis snd_conv trans)+

lemma steps_attempt: "steps R m \<Longrightarrow> (\<And>x. steps R (f x)) \<Longrightarrow> steps R (attempt m f)"
  unfolding steps_def attempt_def by (auto split: prod.splits) (metis snd_conv trans)

lemma steps_exec: "(\<And>d d1. u d = Inr d1 \<Longrightarrow> R d d1) \<Longrightarrow> steps R (exec u)"
  by (auto simp: steps_def exec_def refl split: sum.splits)

lemma steps_exec_ret: "(\<And>d x d1. u d = Inr (x, d1) \<Longrightarrow> R d d1) \<Longrightarrow> steps R (exec_ret u)"
  by (auto simp: steps_def exec_ret_def refl split: sum.splits prod.splits)

lemma steps_same: "(\<And>n. nd_db (snd (m n)) = nd_db n) \<Longrightarrow> steps R m"
  by (simp add: steps_def refl)

lemma steps_if: "(b \<Longrightarrow> steps R m) \<Longrightarrow> (\<not> b \<Longrightarrow> steps R k) \<Longrightarrow> steps R (if b then m else k)"
  by simp

lemma steps_option:
  "(x = None \<Longrightarrow> steps R m) \<Longrightarrow> (\<And>y. x = Some y \<Longrightarrow> steps R (f y)) \<Longrightarrow> steps R (case x of None \<Rightarrow> m | Some y \<Rightarrow> f y)"
  by (cases x) simp_all

lemma steps_sum:
  "(\<And>e. x = Inl e \<Longrightarrow> steps R (g e)) \<Longrightarrow> (\<And>y. x = Inr y \<Longrightarrow> steps R (f y)) \<Longrightarrow> steps R (case x of Inl e \<Rightarrow> g e | Inr y \<Rightarrow> f y)"
  by (cases x) simp_all

lemma steps_prod: "(\<And>a b. x = (a, b) \<Longrightarrow> steps R (f a b)) \<Longrightarrow> steps R (case x of (a, b) \<Rightarrow> f a b)"
  by (cases x) simp

lemmas steps_rules = steps_andThen steps_attempt steps_pure steps_if steps_option steps_sum steps_prod

end

end
