(* ===== verification/Bindings.thy ===== *)
theory Bindings
  imports Node
begin

section \<open>Identity assertions and account bindings\<close>

text \<open>
  \<open>internal/user/assertion.go\<close> and \<open>binding.go\<close>. An assertion is a short-lived token in which an
  issuer vouches for an account and a device towards one space; a binding is a token signed by the
  account's own key that names its identity space. The account's row keeps the newest binding.
\<close>

subsection \<open>Assertions\<close>

definition assertionTTLSec :: int where "assertionTTLSec = 120"
definition assertionMaxTTLSec :: int where "assertionMaxTTLSec = 120"
definition assertionSkewSec :: int where "assertionSkewSec = 30"

record assertionClaims =
  as_issuer :: string
  as_user_id :: string
  as_audience :: string
  as_username :: string
  as_device :: string
  as_iat :: int
  as_exp :: int

abbreviation invalid_assertion :: goerr where
  "invalid_assertion \<equiv> errw ErrInvalidAssertion ''invalid assertion''"

text \<open>The claims of an assertion of this space, and its token.\<close>

definition assertion_map :: "string \<Rightarrow> string \<Rightarrow> string \<Rightarrow> string \<Rightarrow> string \<Rightarrow> int \<Rightarrow> gmap" where
  "assertion_map iss userID audience username dpk t =
     [(''iss'', GStr iss), (''user_id'', GStr userID), (''aud'', GStr audience), (''username'', GStr username),
      (''dpk'', GStr dpk), (''iat'', GInt64 t), (''exp'', GInt64 (t + assertionTTLSec))]"

definition mintAssertion :: "env \<Rightarrow> host \<Rightarrow> string \<Rightarrow> string \<Rightarrow> string \<Rightarrow> string \<Rightarrow> string \<Rightarrow> (string \<times> int) result" where
  "mintAssertion env h iss userID audience username dpk =
     rbind (jwt_sign h (assertion_map iss userID audience username dpk (now env))) (\<lambda>signed.
       Inr (signed, now env + assertionTTLSec))"

definition assertion_of :: "gmap \<Rightarrow> assertionClaims" where
  "assertion_of m =
     \<lparr>as_issuer = claim_str m ''iss'', as_user_id = claim_str m ''user_id'', as_audience = claim_str m ''aud'',
      as_username = claim_str m ''username'', as_device = claim_str m ''dpk'', as_iat = claim_int m ''iat'',
      as_exp = claim_int m ''exp''\<rparr>"

text \<open>The signature is checked against the key that the token names as its issuer.\<close>

definition signed_by :: "host \<Rightarrow> string \<Rightarrow> string \<Rightarrow> bool" where
  "signed_by h signed key \<longleftrightarrow> (case StdDecode key of Some b \<Rightarrow> length b = 32 \<and> jwt_signed h signed b | None \<Rightarrow> False)"

definition assertion_timely :: "env \<Rightarrow> host \<Rightarrow> assertionClaims \<Rightarrow> bool" where
  "assertion_timely env h c \<longleftrightarrow>
     as_exp c \<noteq> 0 \<and> after_now env h (add_sec (unix_sec (as_exp c)) assertionSkewSec)
     \<and> 0 < as_iat c \<and> as_iat c < as_exp c \<and> as_exp c - as_iat c \<le> assertionMaxTTLSec
     \<and> as_iat c \<le> now env + assertionSkewSec"

definition VerifyAssertion :: "env \<Rightarrow> host \<Rightarrow> string \<Rightarrow> string \<Rightarrow> string \<Rightarrow> string \<Rightarrow> assertionClaims result" where
  "VerifyAssertion env h signed aud dpk iss =
     (case jwt_parse h signed of
        None \<Rightarrow> Inl invalid_assertion
      | Some (_, m) \<Rightarrow>
         (let c = assertion_of m
          in rguard (as_issuer c \<noteq> [] \<and> as_user_id c \<noteq> [] \<and> as_audience c \<noteq> [] \<and> as_username c \<noteq> [] \<and> as_device c \<noteq> [])
               invalid_assertion
            (rguard (as_issuer c = iss) invalid_assertion
            (rguard (signed_by h signed (as_issuer c)) invalid_assertion
            (rguard (as_audience c = aud) invalid_assertion
            (rguard (as_device c = dpk) invalid_assertion
            (rguard (assertion_timely env h c) invalid_assertion (Inr c))))))))"

subsection \<open>Bindings\<close>

definition bindingSkewSec :: int where "bindingSkewSec = 300"

record bindingClaims =
  bc_issuer :: string
  bc_subject :: string
  bc_url :: string
  bc_iat :: int

abbreviation invalid_binding :: goerr where
  "invalid_binding \<equiv> errw ErrInvalidBinding ''invalid binding''"

abbreviation row_conflict :: goerr where
  "row_conflict \<equiv> errw ErrDeviceRowConflict ''device key already registered to another account or revoked''"

definition verifyBinding :: "env \<Rightarrow> host \<Rightarrow> string \<Rightarrow> string \<Rightarrow> bindingClaims result" where
  "verifyBinding env h signed accountKey =
     (case jwt_parse h signed of
        None \<Rightarrow> Inl invalid_binding
      | Some (_, m) \<Rightarrow>
         (let c = \<lparr>bc_issuer = claim_str m ''iss'', bc_subject = claim_str m ''sub'', bc_url = claim_str m ''url'',
                   bc_iat = claim_int m ''iat''\<rparr>
          in rguard (claim_str m ''typ'' = ''prappser-binding'') invalid_binding
            (rguard (bc_issuer c = accountKey \<and> isPublicKey (bc_issuer c) \<and> isCanonicalPublicKey (bc_subject c)) invalid_binding
            (rguard (signed_by h signed (bc_issuer c)) invalid_binding
            (rguard (0 < bc_iat c \<and> bc_iat c \<le> now env + bindingSkewSec) invalid_binding (Inr c))))))"

text \<open>Whether the service closes the sockets of an account whose binding changed.\<close>

type_synonym Bindings = bool

definition Accept :: "Bindings \<Rightarrow> env \<Rightarrow> host \<Rightarrow> string \<Rightarrow> string \<Rightarrow> bindingClaims \<Rightarrow> (string \<times> string) act" where
  "Accept b env h account jws c =
     andThen (exec_ret (\<lambda>d. rbind (AcceptBinding env h account jws (bc_iat c) (bc_subject c) (space_public_key h) d)
                             (\<lambda>(stored, sub, updated, d1). Inr ((stored, sub, updated), d1)))) (\<lambda>(stored, sub, updated).
     andThen (if updated then kick b account [] else ret ()) (\<lambda>_. ret (stored, sub)))"

definition IsIdentitySpace :: "env \<Rightarrow> host \<Rightarrow> account \<Rightarrow> db \<Rightarrow> bool result" where
  "IsIdentitySpace env h acct d =
     map_err (wrapf ''failed to look up escrow'')
       (rbind (GetEscrow env (u_public_key acct) d) (\<lambda>(blob, _).
          Inr (blob \<noteq> [] \<and> (ac_binding_sub acct = [] \<or> ac_binding_sub acct = space_public_key h))))"

definition RosterAllowed :: "env \<Rightarrow> host \<Rightarrow> account \<Rightarrow> device_row option \<Rightarrow> db \<Rightarrow> bool result" where
  "RosterAllowed env h acct v d =
     (case v of
        None \<Rightarrow> Inr False
      | Some v \<Rightarrow>
          (if dv_user v \<noteq> u_public_key acct \<or> dv_revoked_at v \<noteq> None then Inr False
           else if dv_public_key v = u_public_key acct \<or> ac_binding_iat acct = 0 then Inr True
           else IsIdentitySpace env h acct d))"

record Admission =
  ad_claims :: bindingClaims
  ad_asserted_at :: int

definition VerifyAdmission :: "env \<Rightarrow> host \<Rightarrow> string \<Rightarrow> string \<Rightarrow> string \<Rightarrow> string \<Rightarrow> Admission result" where
  "VerifyAdmission env h accountKey dpk binding assertion =
     rbind (verifyBinding env h binding accountKey) (\<lambda>c.
     rbind (VerifyAssertion env h assertion (space_public_key h) dpk (bc_subject c)) (\<lambda>a.
     rguard (as_user_id a = accountKey) invalid_assertion
       (Inr \<lparr>ad_claims = c, ad_asserted_at = as_iat a\<rparr>)))"

definition Admit :: "Bindings \<Rightarrow> env \<Rightarrow> host \<Rightarrow> string \<Rightarrow> string \<Rightarrow> string \<Rightarrow> Admission \<Rightarrow> string option \<Rightarrow> unit act" where
  "Admit b env h account dpk binding adm name =
     andThen (Accept b env h account binding (ad_claims adm)) (\<lambda>(stored, sub).
     andThen (require (sub = bc_subject (ad_claims adm)) (errw (BindingRequired stored) ''binding required'')) (\<lambda>_.
     andThen (ask (\<lambda>d. map_err (wrapf ''failed to look up device'') (GetDevice env dpk d))) (\<lambda>v.
     case v of
       None \<Rightarrow>
         andThen (exec (\<lambda>d. map_err (wrapf ''failed to ensure device'') (EnsureDevice env dpk account name (now env) d))) (\<lambda>_.
         andThen (ask (\<lambda>d. map_err (wrapf ''failed to re-read device'') (GetDevice env dpk d))) (\<lambda>v1.
         require (case v1 of None \<Rightarrow> False | Some v \<Rightarrow> dv_user v = account \<and> dv_revoked_at v = None) row_conflict))
     | Some v \<Rightarrow>
         andThen (require (dv_user v = account) row_conflict) (\<lambda>_.
         if dv_revoked_at v = None then ret ()
         else andThen (exec_ret (\<lambda>d. map_err (wrapf ''failed to revive device'')
                        (ReviveDevice env dpk account (ad_asserted_at adm) d))) (\<lambda>revived.
              require revived row_conflict)))))"

definition bindingIssuer :: "host \<Rightarrow> string \<Rightarrow> string" where
  "bindingIssuer h signed = (case jwt_parse h signed of None \<Rightarrow> [] | Some (_, m) \<Rightarrow> claim_str m ''iss'')"

end
