(* ===== verification/Spaces.thy ===== *)
theory Spaces
  imports Node
begin

section \<open>Spaces\<close>

text \<open>
  \<open>internal/space\<close>: the rows of \<open>spaces\<close>, who owns them, and the token with which an unowned one is
  claimed. The foreign keys of other tables to \<open>spaces\<close> have no action: a space that is
  referred to cannot be deleted.
\<close>

subsection \<open>The repository\<close>

definition space_ids :: "db \<Rightarrow> string list" where
  "space_ids d = map spr_id (t_spaces d)"

definition owner_known :: "string option \<Rightarrow> db \<Rightarrow> bool" where
  "owner_known key d \<longleftrightarrow> (case key of None \<Rightarrow> True | Some k \<Rightarrow> k \<in> set (user_keys d))"

definition repoCreateSpace :: "env \<Rightarrow> space_row \<Rightarrow> db \<Rightarrow> db result" where
  "repoCreateSpace env s d =
     map_err (wrapf ''failed to create space'') (stmt env ''spaces.Create'' d
       (rguard (spr_id s \<notin> set (space_ids d)) (unique_violation ''spaces_pkey'')
       (rguard (owner_known (spr_user s) d) (fk_violation ''spaces_user_public_key_fkey'')
         (Inr (d\<lparr>t_spaces := t_spaces d @ [s]\<rparr>)))))"

definition repoGetSpaceByID :: "env \<Rightarrow> string \<Rightarrow> db \<Rightarrow> space_row option result" where
  "repoGetSpaceByID env sid d =
     map_err (wrapf ''failed to get space by id'') (stmt env ''spaces.GetByID'' d (Inr (find (\<lambda>s. spr_id s = sid) (t_spaces d))))"

definition GetByUserPublicKey :: "env \<Rightarrow> string \<Rightarrow> db \<Rightarrow> space_row option result" where
  "GetByUserPublicKey env key d =
     map_err (wrapf ''failed to get space by user public key'') (stmt env ''spaces.GetByUserPublicKey'' d
       (Inr (find (\<lambda>s. spr_user s = Some key) (t_spaces d))))"

text \<open>\<open>ORDER BY created_at DESC\<close>.\<close>

definition repoListSpaces :: "env \<Rightarrow> db \<Rightarrow> space_row list result" where
  "repoListSpaces env d =
     map_err (wrapf ''failed to list spaces'') (stmt env ''spaces.List'' d
       (Inr (sort_key (\<lambda>s. - spr_created_at s) (t_spaces d))))"

definition space_referenced :: "string \<Rightarrow> db \<Rightarrow> bool" where
  "space_referenced sid d \<longleftrightarrow> list_ex (\<lambda>a. ar_space_id a = Some sid) (t_apps d)
     \<or> list_ex (\<lambda>(_, e). ev_space_id e \<noteq> [] \<and> ev_space_id e = sid) (t_events d)
     \<or> list_ex (\<lambda>i. iv_space_id i = Some sid) (t_invitations d)
     \<or> list_ex (\<lambda>s. sg_space_id s = Some sid) (t_storage d)"

definition repoDeleteSpace :: "env \<Rightarrow> string \<Rightarrow> db \<Rightarrow> db result" where
  "repoDeleteSpace env sid d =
     rbind (map_err (wrapf ''failed to delete space'') (stmt env ''spaces.Delete'' d
       (rguard (sid \<in> set (space_ids d) \<longrightarrow> \<not> space_referenced sid d) (fk_violation ''space_id_fkey'')
         (Inr (sid \<in> set (space_ids d), d\<lparr>t_spaces := filter (\<lambda>s. spr_id s \<noteq> sid) (t_spaces d)\<rparr>)))))
       (\<lambda>(hit, d1). affected hit ''space not found'' d1)"

definition repoUpdateSpace :: "env \<Rightarrow> space_row \<Rightarrow> db \<Rightarrow> db result" where
  "repoUpdateSpace env s d =
     rbind (map_err (wrapf ''failed to update space'') (stmt env ''spaces.Update'' d
       (rguard (spr_id s \<in> set (space_ids d) \<longrightarrow> owner_known (spr_user s) d) (fk_violation ''spaces_user_public_key_fkey'')
         (Inr (spr_id s \<in> set (space_ids d),
           d\<lparr>t_spaces := update_where (\<lambda>r. spr_id r = spr_id s)
                (\<lambda>r. r\<lparr>spr_name := spr_name s, spr_user := spr_user s, spr_updated_at := spr_updated_at s\<rparr>) (t_spaces d)\<rparr>)))))
       (\<lambda>(hit, d1). affected hit ''space not found'' d1)"

subsection \<open>The service\<close>

definition CreateSpace :: "env \<Rightarrow> string \<Rightarrow> string option \<Rightarrow> db \<Rightarrow> (space_row \<times> db) result" where
  "CreateSpace env name key d =
     rguard (name \<noteq> []) (errorf ''space name cannot be empty'')
    (let s = \<lparr>spr_id = fresh_uuid env, spr_name = name, spr_user = key, spr_created_at = now env,
              spr_updated_at = now env\<rparr>
     in rbind (map_err (wrapf ''failed to create space'') (repoCreateSpace env s d)) (\<lambda>d1. Inr (s, d1)))"

definition DeleteSpace :: "env \<Rightarrow> string \<Rightarrow> db \<Rightarrow> db result" where
  "DeleteSpace env sid d = repoDeleteSpace env sid d"

definition GetMySpace :: "env \<Rightarrow> string \<Rightarrow> db \<Rightarrow> space_row option result" where
  "GetMySpace env key d = GetByUserPublicKey env key d"

definition claim_map :: "string \<Rightarrow> int \<Rightarrow> gmap" where
  "claim_map sid t = [(''spaceId'', GStr sid), (''type'', GStr ''space_claim''), (''iat'', GInt64 t), (''exp'', GInt64 (t + 48 * 3600))]"

definition GenerateClaimInvite :: "env \<Rightarrow> host \<Rightarrow> string \<Rightarrow> db \<Rightarrow> (string \<times> int) result" where
  "GenerateClaimInvite env h sid d =
     rbind (map_err (wrapf ''failed to look up space'') (repoGetSpaceByID env sid d)) (\<lambda>s.
     rguard (s \<noteq> None) (errorf ''space not found'')
    (rbind (map_err (wrapf ''failed to sign claim token'') (jwt_sign h (claim_map sid (now env)))) (\<lambda>token.
     Inr (token, now env + 48 * 3600))))"

text \<open>\<open>jwt.Parse\<close> under this space's key, with the library's validation of the times.\<close>

definition parse_own :: "env \<Rightarrow> host \<Rightarrow> string \<Rightarrow> gmap result" where
  "parse_own env h token =
     (case jwt_parse h token of
        None \<Rightarrow> Inl (errorf ''token is malformed'')
      | Some (_, m) \<Rightarrow> rguard (jwt_signed h token (space_key h) \<and> jwt_in_time h (now env) m) (errorf ''token is invalid'') (Inr m))"

definition ValidateClaimToken :: "env \<Rightarrow> host \<Rightarrow> string \<Rightarrow> string result" where
  "ValidateClaimToken env h token =
     rbind (map_err (wrapf ''invalid claim token'') (parse_own env h token)) (\<lambda>m.
     rguard (claim_str m ''type'' = ''space_claim'') (errorf ''invalid token type'')
    (rguard (claim_str m ''spaceId'' \<noteq> []) (errorf ''missing spaceId in claim token'') (Inr (claim_str m ''spaceId''))))"

text \<open>The check of the owner and the update are two statements.\<close>

definition ClaimSpace :: "env \<Rightarrow> string \<Rightarrow> string \<Rightarrow> db \<Rightarrow> (space_row \<times> db) result" where
  "ClaimSpace env sid key d =
     rbind (map_err (wrapf ''failed to look up space'') (repoGetSpaceByID env sid d)) (\<lambda>s.
     case s of
       None \<Rightarrow> Inl (errorf ''space not found'')
     | Some s \<Rightarrow>
         rguard (spr_user s = None \<or> spr_user s = Some key) (errorf ''space already claimed by another user'')
        (let s1 = s\<lparr>spr_user := Some key, spr_updated_at := now env\<rparr>
         in rbind (map_err (wrapf ''failed to claim space'') (repoUpdateSpace env s1 d)) (\<lambda>d1. Inr (s1, d1))))"

subsection \<open>The handlers\<close>

text \<open>
  A handler runs on the process and writes one answer. Its guards refuse with a status; its calls
  of a service refuse with what the error becomes.
\<close>

type_synonym 'a handler = "node \<Rightarrow> 'a answer \<times> node"

type_synonym ('s, 'a) responder = "'s \<Rightarrow> 'a answer \<times> 's"

definition hguard :: "bool \<Rightarrow> int \<Rightarrow> string \<Rightarrow> ('s, 'a) responder \<Rightarrow> ('s, 'a) responder" where
  "hguard ok code msg k = (if ok then k else (\<lambda>n. (Refuse code msg, n)))"

definition hsome :: "'b option \<Rightarrow> int \<Rightarrow> string \<Rightarrow> ('b \<Rightarrow> ('s, 'a) responder) \<Rightarrow> ('s, 'a) responder" where
  "hsome x code msg k = (case x of None \<Rightarrow> (\<lambda>n. (Refuse code msg, n)) | Some y \<Rightarrow> k y)"

definition hresult :: "'b result \<Rightarrow> (goerr \<Rightarrow> 'a answer) \<Rightarrow> ('b \<Rightarrow> ('s, 'a) responder) \<Rightarrow> ('s, 'a) responder" where
  "hresult r bad k = (case r of Inl e \<Rightarrow> (\<lambda>n. (bad e, n)) | Inr y \<Rightarrow> k y)"

definition hcall :: "('s, 'b) action \<Rightarrow> (goerr \<Rightarrow> 'a answer) \<Rightarrow> ('b \<Rightarrow> ('s, 'a) responder) \<Rightarrow> ('s, 'a) responder" where
  "hcall m bad k = (\<lambda>n. case m n of (Inl e, n1) \<Rightarrow> (bad e, n1) | (Inr y, n1) \<Rightarrow> k y n1)"

definition answer :: "int \<Rightarrow> 'a \<Rightarrow> ('s, 'a) responder" where
  "answer code x = (\<lambda>n. (Answer code x, n))"

definition epCreateSpace :: "env \<Rightarrow> account option \<Rightarrow> string option \<Rightarrow> space_row handler" where
  "epCreateSpace env u body =
     hsome body 400 ''Invalid request body'' (\<lambda>name.
     hguard (name \<noteq> []) 400 ''Name is required''
    (hsome u 401 ''Unauthorized'' (\<lambda>u.
     hcall (exec_ret (CreateSpace env name (Some (u_public_key u)))) (\<lambda>_. Refuse 500 ''Failed to create space'') (answer 201))))"

definition epListSpaces :: "env \<Rightarrow> space_row list handler" where
  "epListSpaces env = hcall (ask (repoListSpaces env)) (\<lambda>_. Refuse 500 ''Failed to list spaces'') (answer 200)"

definition epDeleteSpace :: "env \<Rightarrow> string \<Rightarrow> unit handler" where
  "epDeleteSpace env sid =
     hguard (sid \<noteq> []) 400 ''Space ID is required''
    (hcall (exec (DeleteSpace env sid))
       (\<lambda>e. if err_msg e = ''space not found'' then Refuse 404 ''Space not found'' else Refuse 500 ''Failed to delete space'')
       (answer 200))"

definition epGetMySpace :: "env \<Rightarrow> account option \<Rightarrow> space_row handler" where
  "epGetMySpace env u =
     hsome u 401 ''Unauthorized'' (\<lambda>u.
     hcall (ask (GetMySpace env (u_public_key u))) (\<lambda>_. Refuse 500 ''Failed to get space'') (\<lambda>s.
     hsome s 404 ''Space not found'' (answer 200)))"

definition epCreateClaimInvite :: "env \<Rightarrow> host \<Rightarrow> string \<Rightarrow> (string \<times> int) handler" where
  "epCreateClaimInvite env h sid =
     hguard (sid \<noteq> []) 400 ''Space ID is required''
    (hcall (ask (GenerateClaimInvite env h sid))
       (\<lambda>e. if err_msg e = ''space not found'' then Refuse 404 ''Space not found'' else Refuse 500 ''Failed to generate claim invite'')
       (answer 201))"

text \<open>A guest who claims a space becomes a user; that this fails is only logged.\<close>

definition epClaimSpace :: "env \<Rightarrow> host \<Rightarrow> account option \<Rightarrow> string option \<Rightarrow> space_row handler" where
  "epClaimSpace env h u body =
     hsome u 401 ''Unauthorized'' (\<lambda>u.
     hsome body 400 ''Token is required'' (\<lambda>token.
     hguard (token \<noteq> []) 400 ''Token is required''
    (hresult (ValidateClaimToken env h token) (\<lambda>_. Refuse 400 ''Invalid or expired claim token'') (\<lambda>sid.
     hcall (exec_ret (ClaimSpace env sid (u_public_key u))) (\<lambda>e. Refuse 409 (err_msg e)) (\<lambda>s.
     hcall (attempt (if u_role u = RoleGuest then exec (UpdateUserRole env h (u_public_key u) RoleUser) else ret ()) (\<lambda>_. ret ()))
       (\<lambda>_. Refuse 500 []) (\<lambda>_. answer 200 s))))))"

lemma hguard_simps [simp]: "hguard True c m k = k" "hguard False c m k n = (Refuse c m, n)"
  by (simp_all add: hguard_def)

lemma hguard_Answer [act_simps]: "hguard ok c m k n = (Answer s x, n1) \<longleftrightarrow> ok \<and> k n = (Answer s x, n1)"
  by (simp add: hguard_def)

lemma hsome_Answer [act_simps]: "hsome v c m k n = (Answer s x, n1) \<longleftrightarrow> (\<exists>y. v = Some y \<and> k y n = (Answer s x, n1))"
  by (cases v) (simp_all add: hsome_def)

lemma answer_simp [act_simps]: "answer c x n = (a, n1) \<longleftrightarrow> a = Answer c x \<and> n1 = n"
  by (auto simp: answer_def)


end
