(* ===== verification/Login.thy ===== *)
theory Login
  imports Bindings Spaces
begin

section \<open>Login, session tokens and agent tokens\<close>

text \<open>
  \<open>internal/user/user.go\<close>, \<open>user_service.go\<close> and \<open>agent_service.go\<close>: the challenges, the login of a
  device by its key (through the roster or a binding), the session token, and the access and
  refresh tokens of agents.
\<close>

record Config =
  cf_jwt_hours :: int
  cf_challenge_ttl :: int
  cf_external_url :: string
  cf_trust_proxy :: bool

subsection \<open>Challenges\<close>

definition maxChallenges :: nat where "maxChallenges = 10000"

definition now_ns :: "env \<Rightarrow> host \<Rightarrow> int" where
  "now_ns env h = now env * 1000000000 + nanos h"

text \<open>
  A full store first drops what has expired, then whatever the iteration over the map meets first.
\<close>

definition store_challenge :: "nat \<Rightarrow> int \<Rightarrow> string \<Rightarrow> challengeInfo \<Rightarrow> (string \<times> challengeInfo) list \<Rightarrow> (string \<times> challengeInfo) list" where
  "store_challenge limit t challenge info cs =
     (let cs1 = (if limit \<le> length cs then filter (\<lambda>(_, i). \<not> ch_expires_at i < t) cs else cs);
          cs2 = (if limit \<le> length cs \<and> limit \<le> length cs1 then tl cs1 else cs1)
      in AList.update challenge info cs2)"

definition consume :: "env \<Rightarrow> host \<Rightarrow> string \<Rightarrow> string \<Rightarrow> unit act" where
  "consume env h challenge key =
     (\<lambda>n. case map_of (nd_challenges n) challenge of
        None \<Rightarrow> (Inl (errorf ''no such challenge''), n)
      | Some info \<Rightarrow>
          (if ch_public_key info \<noteq> key then Inl (errorf ''challenge issued to another key'')
           else if ch_expires_at info < now_ns env h then Inl (errorf ''challenge has expired'')
           else Inr (),
           n\<lparr>nd_challenges := AList.delete challenge (nd_challenges n)\<rparr>))"

record ChallengeResponse =
  cr_challenge :: string
  cr_expires_at :: int
  cr_space_key :: string

definition generateChallenge :: "host \<Rightarrow> string result" where
  "generateChallenge h = rbind (rand_bytes h) (\<lambda>b. Inr (b64_encode url_alphabet ''='' b))"

text \<open>The key of the query is \<open>None\<close> where the parameter is missing.\<close>

definition GetChallenge :: "Config \<Rightarrow> env \<Rightarrow> host \<Rightarrow> string option \<Rightarrow> node \<Rightarrow> ChallengeResponse answer \<times> node" where
  "GetChallenge cf env h key n =
     (case key of
        None \<Rightarrow> (Refuse 400 ''Missing publicKey parameter'', n)
      | Some k \<Rightarrow>
          (if \<not> isPublicKey k then (Refuse 400 ''publicKey must be 32 std-base64-encoded bytes'', n)
           else case generateChallenge h of
             Inl e \<Rightarrow> (Refuse 500 ''Internal server error'', n)
           | Inr c \<Rightarrow>
               (let expires = now_ns env h + cf_challenge_ttl cf * 1000000000
                in (Answer 200 \<lparr>cr_challenge = c, cr_expires_at = expires div 1000000000, cr_space_key = space_public_key h\<rparr>,
                    n\<lparr>nd_challenges := store_challenge maxChallenges (now_ns env h) c
                        \<lparr>ch_public_key = k, ch_expires_at = expires\<rparr> (nd_challenges n)\<rparr>))))"

subsection \<open>The address a login is bound to\<close>

definition join_host_port :: "string \<Rightarrow> string \<Rightarrow> string" where
  "join_host_port hst port = (if CHR '':'' \<in> set hst then ''['' @ hst @ '']:'' @ port else hst @ '':'' @ port)"

definition normalizeSpaceURL :: "host \<Rightarrow> string \<Rightarrow> string result" where
  "normalizeSpaceURL h raw =
     (case url_parts h raw of
        None \<Rightarrow> Inl (errorf ''invalid space URL'')
      | Some (sch, name, port, has_user) \<Rightarrow>
         (let scheme = go_lower h sch
          in if (scheme \<noteq> ''http'' \<and> scheme \<noteq> ''https'') \<or> name = [] \<or> has_user
             then Inl (errorf ''invalid space URL: need http(s) scheme and host, no userinfo'')
             else let hst = go_lower h name;
                      port1 = (if (scheme = ''http'' \<and> port = ''80'') \<or> (scheme = ''https'' \<and> port = ''443'') then [] else port);
                      hst1 = (if port1 \<noteq> [] then join_host_port hst port1
                              else if CHR '':'' \<in> set hst then ''['' @ hst @ '']'' else hst)
                  in Inr (scheme @ ''://'' @ hst1)))"

record request =
  rq_tls :: bool
  rq_forwarded_proto :: string
  rq_host :: string

definition expectedSpaceURL :: "Config \<Rightarrow> host \<Rightarrow> request \<Rightarrow> string" where
  "expectedSpaceURL cf h rq =
     (let proto = TrimSpace (takeWhile (\<lambda>c. c \<noteq> CHR '','') (rq_forwarded_proto rq));
          scheme = (if cf_trust_proxy cf \<and> proto \<noteq> [] then proto else if rq_tls rq then ''https'' else ''http'');
          raw = (if cf_external_url cf \<noteq> [] then cf_external_url cf else scheme @ ''://'' @ rq_host rq)
      in case normalizeSpaceURL h raw of Inl _ \<Rightarrow> [] | Inr u \<Rightarrow> u)"

subsection \<open>The signed login\<close>

record loginClaims =
  lc_public_key :: string
  lc_challenge :: string
  lc_iat :: int
  lc_audience :: string

abbreviation malformed_login :: goerr where
  "malformed_login \<equiv> errw ErrMalformedLogin ''malformed login''"

definition check_audience :: "host \<Rightarrow> string \<Rightarrow> gmap \<Rightarrow> string result" where
  "check_audience h expectedAud m =
     (if map_of m ''aud'' = None then Inr []
      else case normalizeSpaceURL h (claim_str m ''aud'') of
             Inl _ \<Rightarrow> Inl (errw ErrAudienceMismatch ''login audience does not match this space'')
           | Inr u \<Rightarrow> rguard (expectedAud \<noteq> [] \<and> u = expectedAud)
                       (errw ErrAudienceMismatch ''login audience does not match this space'') (Inr u))"

text \<open>The challenge is spent before the audience is looked at.\<close>

definition verifyUserAuthJWS :: "env \<Rightarrow> host \<Rightarrow> string \<Rightarrow> int \<Rightarrow> string \<Rightarrow> loginClaims act" where
  "verifyUserAuthJWS env h signed ttl expectedAud =
     (case jwt_parse h signed of
        None \<Rightarrow> fail malformed_login
      | Some (_, m) \<Rightarrow>
         (let key = claim_str m ''publicKey''; challenge = claim_str m ''challenge''; iat = claim_int m ''iat''
          in andThen (require (isPublicKey key) malformed_login) (\<lambda>_.
             andThen (require (\<not> before_now env h (add_sec (unix_sec iat) ttl)) (errorf ''JWT has expired'')) (\<lambda>_.
             andThen (require (signed_by h signed key \<and> jwt_in_time h (now env) m)
                        (errorf ''failed to verify JWT signature'')) (\<lambda>_.
             andThen (consume env h challenge key) (\<lambda>_.
             andThen (lift (check_audience h expectedAud m)) (\<lambda>aud.
             ret \<lparr>lc_public_key = key, lc_challenge = challenge, lc_iat = iat, lc_audience = aud\<rparr>)))))))"

subsection \<open>Session tokens\<close>

definition GenerateJWT :: "Config \<Rightarrow> env \<Rightarrow> host \<Rightarrow> account \<Rightarrow> string \<Rightarrow> db \<Rightarrow> (string \<times> int) result" where
  "GenerateJWT cf env h acct deviceKey d =
     (let expiresAt = now env + cf_jwt_hours cf * 3600;
          spaceID = (case GetByUserPublicKey env (u_public_key acct) d of Inr (Some s) \<Rightarrow> spr_id s | _ \<Rightarrow> [])
      in rbind (sign_session h
           \<lparr>sc_user = u_public_key acct, sc_device = deviceKey, sc_username = u_username acct, sc_role = u_role acct,
            sc_space_id = spaceID, sc_bv = ac_binding_iat acct, sc_exp = expiresAt, sc_iat = now env\<rparr>) (\<lambda>token.
         Inr (token, expiresAt)))"

definition equal_fold_at_jwt :: "host \<Rightarrow> string \<Rightarrow> bool" where
  "equal_fold_at_jwt h typ \<longleftrightarrow> go_lower h typ = ''at+jwt''"

definition deviceTouchThrottle :: int where "deviceTouchThrottle = 300000000000"

text \<open>
  The write of the time a device was last seen, at most one in five minutes; it runs beside the
  request and its failure is only logged.
\<close>

definition touchDeviceLastSeenThrottled :: "env \<Rightarrow> host \<Rightarrow> string \<Rightarrow> unit act" where
  "touchDeviceLastSeenThrottled env h deviceKey =
     (\<lambda>n. case map_of (nd_touched n) deviceKey of
        Some t \<Rightarrow> (if now_ns env h - t < deviceTouchThrottle then (Inr (), n)
           else attempt (exec (TouchDeviceLastSeen env deviceKey (now env))) (\<lambda>_. ret ())
                  (n\<lparr>nd_touched := AList.update deviceKey (now_ns env h) (nd_touched n)\<rparr>))
      | None \<Rightarrow> attempt (exec (TouchDeviceLastSeen env deviceKey (now env))) (\<lambda>_. ret ())
                  (n\<lparr>nd_touched := AList.update deviceKey (now_ns env h) (nd_touched n)\<rparr>))"

definition ValidateJWT :: "env \<Rightarrow> host \<Rightarrow> string \<Rightarrow> account act" where
  "ValidateJWT env h token =
     andThen (lift (parse_session h (now env) token)) (\<lambda>(typ, c).
     andThen (require (\<not> equal_fold_at_jwt h typ) (errorf ''access token cannot authenticate'')) (\<lambda>_.
     andThen (ask (GetUserByPublicKey env (sc_user c))) (\<lambda>acct.
     case acct of
       None \<Rightarrow> fail (errorf ''user not found'')
     | Some u \<Rightarrow>
         andThen (require (\<not> sc_bv c < ac_binding_iat u) (errorf ''token predates the account's current binding'')) (\<lambda>_.
         let deviceKey = (if sc_device c = [] then sc_user c else sc_device c)
         in andThen (ask (GetDevice env deviceKey)) (\<lambda>v.
            andThen (require (case v of None \<Rightarrow> False | Some v \<Rightarrow> dv_revoked_at v = None \<and> dv_kind v \<noteq> DeviceKindAgent)
                       (errorf ''device not found or revoked'')) (\<lambda>_.
            andThen (touchDeviceLastSeenThrottled env h deviceKey) (\<lambda>_.
            ret (u\<lparr>u_space_id := sc_space_id c, ac_device_key := deviceKey\<rparr>))))))))"

text \<open>\<open>strings.Split(header, " ")\<close> into exactly two parts, the first one \<open>Bearer\<close>.\<close>

fun split_space :: "string \<Rightarrow> string \<Rightarrow> string list" where
  "split_space acc [] = [rev acc]"
| "split_space acc (c # r) = (if c = CHR '' '' then rev acc # split_space [] r else split_space (c # acc) r)"

definition extractBearer :: "string \<Rightarrow> string result" where
  "extractBearer header =
     (case split_space [] header of [b, t] \<Rightarrow> rguard (b = ''Bearer'') (errorf ''invalid Authorization header format'') (Inr t)
      | _ \<Rightarrow> Inl (errorf ''invalid Authorization header format''))"

definition ValidateJWTFromRequest :: "env \<Rightarrow> host \<Rightarrow> string option \<Rightarrow> account act" where
  "ValidateJWTFromRequest env h header =
     (case header of
        None \<Rightarrow> fail (errorf ''missing authorization header'')
      | Some hdr \<Rightarrow> andThen (lift (map_err (wrapf ''invalid authorization header'') (extractBearer hdr))) (ValidateJWT env h))"

subsection \<open>The login of a device\<close>

text \<open>The body of a login and the answers to it.\<close>

record userAuthRequest =
  ar_assertion :: string
  ar_binding :: string

datatype login_body = LoginResponse string int | BindingResponse string string

type_synonym login_step = "node \<Rightarrow> (login_body answer + account) \<times> node"

definition bindingLogin :: "Bindings \<Rightarrow> env \<Rightarrow> host \<Rightarrow> string \<Rightarrow> userAuthRequest \<Rightarrow> login_step" where
  "bindingLogin b env h deviceKey req n =
     (let iss = bindingIssuer h (ar_binding req)
      in case GetUserByPublicKey env iss (nd_db n) of
           Inl _ \<Rightarrow> (Inl (Refuse 500 ''Internal server error''), n)
         | Inr None \<Rightarrow> (Inl (Refuse 401 ''Unauthorized''), n)
         | Inr (Some acct) \<Rightarrow>
        (case VerifyAdmission env h iss deviceKey (ar_binding req) (ar_assertion req) of
           Inl _ \<Rightarrow> (Inl (Refuse 401 ''Unauthorized''), n)
         | Inr adm \<Rightarrow>
        (case Admit b env h iss deviceKey (ar_binding req) adm None n of
           (Inl e, n1) \<Rightarrow>
             ((case find (\<lambda>s. case s of BindingRequired _ \<Rightarrow> True | _ \<Rightarrow> False) (err_chain e) of
                 Some (BindingRequired stored) \<Rightarrow> Inl (Answer 401 (BindingResponse ''binding_required'' stored))
               | _ \<Rightarrow> if errors_is e ErrDeviceRowConflict then Inl (Refuse 401 ''Unauthorized'')
                      else Inl (Refuse 500 ''Internal server error'')), n1)
         | (Inr _, n1) \<Rightarrow>
             (Inr (acct\<lparr>ac_binding_iat := max (ac_binding_iat acct) (bc_iat (ad_claims adm))\<rparr>), n1))))"

definition rosterLogin :: "env \<Rightarrow> host \<Rightarrow> string \<Rightarrow> login_step" where
  "rosterLogin env h deviceKey n =
     (case GetDevice env deviceKey (nd_db n) of
        Inl _ \<Rightarrow> (Inl (Refuse 500 ''Internal server error''), n)
      | Inr None \<Rightarrow> (Inl (Refuse 401 ''Unauthorized''), n)
      | Inr (Some v) \<Rightarrow>
     (case GetUserByPublicKey env (dv_user v) (nd_db n) of
        Inl _ \<Rightarrow> (Inl (Refuse 500 ''Internal server error''), n)
      | Inr None \<Rightarrow> (Inl (Refuse 401 ''Unauthorized''), n)
      | Inr (Some acct) \<Rightarrow>
     (case RosterAllowed env h acct (Some v) (nd_db n) of
        Inl _ \<Rightarrow> (Inl (Refuse 500 ''Internal server error''), n)
      | Inr True \<Rightarrow> (Inr acct, n)
      | Inr False \<Rightarrow>
          (if 0 < ac_binding_iat acct then (Inl (Answer 401 (BindingResponse ''binding_required'' (ac_stored_binding acct))), n)
           else (Inl (Refuse 401 ''Unauthorized''), n)))))"

text \<open>\<open>None\<close> for a body that is not JSON; an empty body is a request with both fields empty.\<close>

definition hlogin :: "login_step \<Rightarrow> (account \<Rightarrow> login_body handler) \<Rightarrow> login_body handler" where
  "hlogin m k = (\<lambda>n. case m n of (Inl refusal, n1) \<Rightarrow> (refusal, n1) | (Inr acct, n1) \<Rightarrow> k acct n1)"

definition UserAuth ::
    "Bindings \<Rightarrow> Config \<Rightarrow> env \<Rightarrow> host \<Rightarrow> request \<Rightarrow> userAuthRequest option \<Rightarrow> string option \<Rightarrow> login_body handler" where
  "UserAuth b cf env h rq body header =
     hsome body 400 ''invalid request body'' (\<lambda>req.
     hguard ((ar_assertion req = []) = (ar_binding req = [])) 400 ''assertion and binding must be sent together''
    (hsome header 401 ''Unauthorized'' (\<lambda>hdr.
     hresult (extractBearer hdr) (\<lambda>_. Refuse 400 ''Invalid authorization header'') (\<lambda>jws.
     hcall (verifyUserAuthJWS env h jws (cf_challenge_ttl cf) (expectedSpaceURL cf h rq))
       (\<lambda>e. if errors_is e ErrMalformedLogin then Refuse 400 ''Failed to verify JWS'' else Refuse 401 ''Unauthorized'') (\<lambda>c.
     hlogin (if ar_binding req \<noteq> [] then bindingLogin b env h (lc_public_key c) req else rosterLogin env h (lc_public_key c)) (\<lambda>acct.
     hcall (ask (GenerateJWT cf env h acct (lc_public_key c))) (\<lambda>_. Refuse 500 ''Internal server error'') (\<lambda>(token, expiresAt).
     hcall (attempt (exec (TouchDeviceLastSeen env (lc_public_key c) (now env))) (\<lambda>_. ret ())) (\<lambda>_. Refuse 500 []) (\<lambda>_.
     answer 200 (LoginResponse token expiresAt)))))))))"

subsection \<open>Agents\<close>

definition agentAccessTokenTTL :: int where "agentAccessTokenTTL = 3600"
definition agentRefreshTokenTTL :: int where "agentRefreshTokenTTL = 90 * 24 * 3600"
definition maxLiveAgentsPerAccount :: nat where "maxLiveAgentsPerAccount = 5"

record AgentTokens =
  tk_device :: string
  tk_access :: string
  tk_access_exp :: int
  tk_refresh :: string

text \<open>\<open>strings.TrimRight(externalURL, "/")\<close>.\<close>

definition agent_issuer :: "string \<Rightarrow> string" where
  "agent_issuer externalURL = rev (dropWhile (\<lambda>c. c = CHR ''/'') (rev externalURL))"

definition agent_audience :: "string \<Rightarrow> string" where
  "agent_audience externalURL = agent_issuer externalURL @ ''/mcp''"

definition newRefreshToken :: "host \<Rightarrow> (string \<times> string) result" where
  "newRefreshToken h =
     rbind (map_err (wrapf ''failed to generate refresh token'') (rand_bytes h)) (\<lambda>b.
       let token = b64_encode url_alphabet [] b in Inr (token, sha256_hex h token))"

definition CanAddAgent :: "env \<Rightarrow> string \<Rightarrow> db \<Rightarrow> bool result" where
  "CanAddAgent env key d = rbind (countLiveAgents env key (now env) d) (\<lambda>n. Inr (n < maxLiveAgentsPerAccount))"

definition mintAccessToken :: "env \<Rightarrow> host \<Rightarrow> string \<Rightarrow> string \<Rightarrow> (string \<times> int) result" where
  "mintAccessToken env h url deviceKey =
     rbind (map_err (wrapf ''failed to sign access token'') (sign_access h ''at+jwt''
       \<lparr>xc_issuer = agent_issuer url, xc_subject = deviceKey, xc_audience = agent_audience url, xc_iat = now env,
        xc_exp = now env + agentAccessTokenTTL, xc_id = rand_text h\<rparr>)) (\<lambda>signed.
     Inr (signed, now env + agentAccessTokenTTL))"

text \<open>The key of an agent's device: its underscore is not base64.\<close>

definition agent_device_key :: "host \<Rightarrow> string" where
  "agent_device_key h = ''agent_'' @ rand_text h"

definition IssueTokens :: "env \<Rightarrow> host \<Rightarrow> string \<Rightarrow> string \<Rightarrow> string \<Rightarrow> db \<Rightarrow> (AgentTokens \<times> db) result" where
  "IssueTokens env h url key name d =
     rbind (countLiveAgents env key (now env) d) (\<lambda>n.
     rguard (n < maxLiveAgentsPerAccount) (errw ErrAgentLimit ''agent limit reached'')
    (rbind (newRefreshToken h) (\<lambda>(refresh, hash).
     rbind (mintAccessToken env h url (agent_device_key h)) (\<lambda>(access, ex).
     rbind (createAgent env (agent_device_key h) key (nullif name) hash (now env) (now env + agentRefreshTokenTTL) d) (\<lambda>d1.
     Inr (\<lparr>tk_device = agent_device_key h, tk_access = access, tk_access_exp = ex, tk_refresh = refresh\<rparr>, d1))))))"

abbreviation invalid_refresh :: goerr where
  "invalid_refresh \<equiv> errw ErrInvalidRefreshToken ''invalid refresh token''"

text \<open>A token that was already rotated away revokes its device.\<close>

definition Refresh :: "env \<Rightarrow> host \<Rightarrow> string \<Rightarrow> string \<Rightarrow> AgentTokens act" where
  "Refresh env h url refreshToken =
     (let oldHash = sha256_hex h refreshToken
      in andThen (lift (newRefreshToken h)) (\<lambda>(newToken, newHash).
         andThen (exec_ret (rotateRefreshToken env oldHash newHash (now env) (now env + agentRefreshTokenTTL))) (\<lambda>device.
         if device = [] then
           andThen (ask (deviceForPrevHash env oldHash)) (\<lambda>reused.
           andThen (if reused \<noteq> [] then exec (\<lambda>d. map_err (wrapf ''failed to revoke device after token reuse'')
                      (repoRevokeDevice env reused (now env) d)) else ret ()) (\<lambda>_.
           fail invalid_refresh))
         else andThen (lift (mintAccessToken env h url device)) (\<lambda>(access, ex).
           ret \<lparr>tk_device = device, tk_access = access, tk_access_exp = ex, tk_refresh = newToken\<rparr>))))"

definition ValidateAccessToken :: "env \<Rightarrow> host \<Rightarrow> string \<Rightarrow> string \<Rightarrow> db \<Rightarrow> account result" where
  "ValidateAccessToken env h url token d =
     rbind (parse_access h (now env) (agent_issuer url) (agent_audience url) token) (\<lambda>(typ, c).
     rguard (typ = ''at+jwt'') (errorf ''not an access token'')
    (rbind (GetDevice env (xc_subject c) d) (\<lambda>v.
     case v of
       None \<Rightarrow> Inl (errorf ''agent device not valid'')
     | Some v \<Rightarrow>
         rguard (dv_revoked_at v = None \<and> dv_kind v = DeviceKindAgent) (errorf ''agent device not valid'')
        (rbind (GetUserByPublicKey env (dv_user v) d) (\<lambda>u.
         case u of
           None \<Rightarrow> Inl (errorf ''user not found'')
         | Some u \<Rightarrow> Inr (u\<lparr>ac_device_key := dv_public_key v, u_agent := True\<rparr>))))))"

text \<open>What the profile handler shows of the caller's own account.\<close>

record Profile =
  pf_account :: account
  pf_has_password :: bool
  pf_state_blob :: string
  pf_has_escrow :: bool

definition GetProfile :: "env \<Rightarrow> host \<Rightarrow> account \<Rightarrow> db \<Rightarrow> Profile" where
  "GetProfile env h u d =
     (let hasPassword = (case GetPasswordCredential env h (u_username u) d of
            Inl _ \<Rightarrow> False | Inr (key, _) \<Rightarrow> key = u_public_key u);
          (blob, st) = (case GetEscrow env (u_public_key u) d of Inl _ \<Rightarrow> ([], []) | Inr (blob, st) \<Rightarrow> (blob, st))
      in \<lparr>pf_account = u, pf_has_password = hasPassword, pf_state_blob = st, pf_has_escrow = (blob \<noteq> [])\<rparr>)"

end
