(* ===== verification/Accounts.thy ===== *)
theory Accounts
  imports Login
begin

section \<open>Passwords, registration and devices\<close>

text \<open>
  \<open>internal/user/password.go\<close> and the handlers of \<open>password_endpoints.go\<close>, \<open>register_endpoints.go\<close>,
  \<open>owner_claim_endpoints.go\<close>, \<open>device_endpoints.go\<close> and \<open>assertion_endpoints.go\<close>. A body that is not
  JSON, and a request without an authenticated account, is \<open>None\<close>.
\<close>

subsection \<open>Names, blobs and secrets\<close>

definition maxAccountKeyBlobLen :: nat where "maxAccountKeyBlobLen = 512"
definition maxUserStateBlobLen :: nat where "maxUserStateBlobLen = 65536"
definition maxUsernameRunes :: nat where "maxUsernameRunes = 64"
definition maxDeviceNameRunes :: nat where "maxDeviceNameRunes = 64"

definition validateEscrowBlob :: "string \<Rightarrow> nat \<Rightarrow> unit result" where
  "validateEscrowBlob blob maxLen =
     (if blob = [] then Inr ()
      else rguard (length blob \<le> maxLen) (errw ErrInvalidEscrowBlob ''exceeds max length'')
          (rguard (StdDecode blob \<noteq> None) (errw ErrInvalidEscrowBlob ''not valid base64'') (Inr ())))"

definition NormalizeUsername :: "string \<Rightarrow> string result" where
  "NormalizeUsername raw =
     (let trimmed = TrimSpace raw
      in rguard (trimmed \<noteq> []) (errorf ''username cannot be empty'')
        (rguard (\<not> list_ex (IsControl \<circ> fst) (runes trimmed)) (errorf ''username cannot contain control characters'')
        (rguard (length (runes trimmed) \<le> maxUsernameRunes) (errorf ''username cannot exceed 64 characters'')
          (Inr trimmed))))"

definition NormalizeDeviceName :: "string \<Rightarrow> string option" where
  "NormalizeDeviceName raw =
     (let trimmed = TrimSpace raw
      in if trimmed = [] \<or> maxDeviceNameRunes < length (runes trimmed) then None else Some trimmed)"

definition deterministicSalt :: "host \<Rightarrow> string \<Rightarrow> string \<Rightarrow> string" where
  "deterministicSalt h secret usernameLower = hmac_sha256 h secret usernameLower"

definition verifierScheme :: string where "verifierScheme = ''hmac-sha256''"

definition hashAuthSecret :: "host \<Rightarrow> string \<Rightarrow> string \<Rightarrow> string result" where
  "hashAuthSecret h verifierKey authSecret =
     (case StdDecode authSecret of
        None \<Rightarrow> Inl (errw ErrInvalidAuthSecret ''authSecret must be 32 std-base64-encoded bytes'')
      | Some b \<Rightarrow> rguard (length b = 32) (errw ErrInvalidAuthSecret ''authSecret must be 32 std-base64-encoded bytes'')
          (Inr (verifierScheme @ ''$'' @ StdEncode (hmac_sha256 h verifierKey b))))"

definition verifyAuthSecret :: "host \<Rightarrow> string \<Rightarrow> string \<Rightarrow> string \<Rightarrow> bool" where
  "verifyAuthSecret h verifierKey stored authSecret =
     (let scheme = takeWhile (\<lambda>c. c \<noteq> CHR ''$'') stored; rest = dropWhile (\<lambda>c. c \<noteq> CHR ''$'') stored
      in rest \<noteq> [] \<and> scheme = verifierScheme
         \<and> (case StdDecode (tl rest) of None \<Rightarrow> False
            | Some mac \<Rightarrow> (case StdDecode authSecret of None \<Rightarrow> False
                | Some b \<Rightarrow> length b = 32 \<and> mac = hmac_sha256 h verifierKey b)))"

definition DerivePasswordSecrets :: "host \<Rightarrow> string \<Rightarrow> string \<times> string" where
  "DerivePasswordSecrets h seed = (hkdf h seed ''prappser/salt/v1'', hkdf h seed ''prappser/verifier/v1'')"

subsection \<open>Password endpoints\<close>

text \<open>The salt of a name: the stored handle if there is one, the lowered name otherwise.\<close>

definition GetSalt :: "env \<Rightarrow> host \<Rightarrow> string \<Rightarrow> string \<Rightarrow> string handler" where
  "GetSalt env h saltSecret raw =
     hresult (NormalizeUsername raw) (\<lambda>_. Refuse 400 ''username is required and must be valid'') (\<lambda>username n.
       let handle = (case GetPasswordHandle env h username (nd_db n) of Inl _ \<Rightarrow> [] | Inr x \<Rightarrow> x);
           input = (if handle \<noteq> [] then handle else go_lower h username)
       in answer 200 (StdEncode (deterministicSalt h saltSecret input)) n)"

record setPasswordRequest =
  sp_auth_secret :: string
  sp_key_blob :: string
  sp_state :: string

datatype unit_body = NoContent | CodedBody string string   \<comment> \<open>a code and the stored binding\<close>

definition escrow_answer :: "goerr \<Rightarrow> unit_body answer" where
  "escrow_answer e =
     (if errors_is e ErrIdentitySpaceEscrow then Answer 409 (CodedBody ''identity_space_escrow'' [])
      else if e = errw ErrUsernameTaken ''username already used for password login''
      then Refuse 409 ''username already used for password login on this space''
      else Refuse 500 ''internal server error'')"

definition SetPassword :: "env \<Rightarrow> host \<Rightarrow> string \<Rightarrow> account option \<Rightarrow> setPasswordRequest option \<Rightarrow> unit_body handler" where
  "SetPassword env h verifierKey u body =
     hsome u 401 ''Unauthorized'' (\<lambda>u.
     hsome body 400 ''invalid request body'' (\<lambda>req.
     hresult (hashAuthSecret h verifierKey (sp_auth_secret req)) (\<lambda>_. Refuse 400 ''authSecret is invalid'') (\<lambda>verifier.
     hresult (validateEscrowBlob (sp_key_blob req) maxAccountKeyBlobLen) (\<lambda>_. Refuse 400 ''accountKeyBlob is invalid'') (\<lambda>_.
     hresult (validateEscrowBlob (sp_state req) maxUserStateBlobLen) (\<lambda>_. Refuse 400 ''userState is invalid'') (\<lambda>_.
     hcall (exec (SetPasswordCredentials env h (u_public_key u) verifier (go_lower h (u_username u)) (sp_key_blob req)
              (sp_state req) (space_public_key h)))
       escrow_answer (\<lambda>_. answer 204 NoContent))))))"

definition UpdateUserState :: "env \<Rightarrow> host \<Rightarrow> account option \<Rightarrow> string option \<Rightarrow> unit_body handler" where
  "UpdateUserState env h u body =
     hsome u 401 ''Unauthorized'' (\<lambda>u.
     hsome body 400 ''invalid request body'' (\<lambda>blob.
     hresult (validateEscrowBlob blob maxUserStateBlobLen) (\<lambda>_. Refuse 400 ''userState is invalid'') (\<lambda>_.
     hcall (exec (repoUpdateUserState env h (u_public_key u) blob)) (\<lambda>_. Refuse 500 ''internal server error'')
       (\<lambda>_. answer 204 NoContent))))"

definition ClearEscrow :: "env \<Rightarrow> host \<Rightarrow> account option \<Rightarrow> unit_body handler" where
  "ClearEscrow env h u =
     hsome u 401 ''Unauthorized'' (\<lambda>u.
     hcall (exec (repoClearEscrow env h (u_public_key u) (space_public_key h)))
       (\<lambda>e. if errors_is e ErrIdentitySpaceEscrow then Answer 409 (CodedBody ''identity_space_escrow'' [])
            else Refuse 500 ''internal server error'')
       (\<lambda>_. answer 204 NoContent))"

subsection \<open>Registration and the claim of the space\<close>

record accountRequest =
  rg_username :: string
  rg_public_key :: string
  rg_device_key :: string
  rg_device_name :: string
  rg_auth_secret :: string
  rg_key_blob :: string
  rg_state :: string

record accountResponse =
  rp_public_key :: string
  rp_username :: string
  rp_role :: string
  rp_created_at :: int

record RegisterEndpoints =
  re_verifier_key :: string
  re_open :: bool
  re_max_accounts :: int

definition maxRegisterBodyLen :: int where "maxRegisterBodyLen = 131072"

definition accountLimitReached :: "RegisterEndpoints \<Rightarrow> env \<Rightarrow> db \<Rightarrow> bool result" where
  "accountLimitReached re env d =
     (if re_max_accounts re = 0 then Inr False
      else rbind (map_err (wrapf ''failed to count accounts'') (CountUsers env d)) (\<lambda>n. Inr (int n \<ge> re_max_accounts re)))"

definition register_refusal :: "goerr \<Rightarrow> 'a answer" where
  "register_refusal e =
     (if errors_is e ErrUsernameTaken then Refuse 409 ''username_taken''
      else if errors_is e ErrAccountExists then Refuse 409 ''account_exists''
      else if errors_is e ErrDeviceKeyTaken then Refuse 409 ''device_key_taken''
      else Refuse 500 ''internal server error'')"

text \<open>The length of the body is an argument of its own; a coded error is given by its code.\<close>

definition Register :: "RegisterEndpoints \<Rightarrow> env \<Rightarrow> host \<Rightarrow> int \<Rightarrow> accountRequest option \<Rightarrow> accountResponse handler" where
  "Register re env h len body =
     hguard (re_open re) 403 ''registration_closed''
    (hguard (len \<le> maxRegisterBodyLen) 400 ''request body too large''
    (hsome body 400 ''invalid request body'' (\<lambda>req.
     hresult (NormalizeUsername (rg_username req)) (\<lambda>_. Refuse 400 ''username is invalid'') (\<lambda>username.
     hguard (isPublicKey (rg_public_key req)) 400 ''publicKey must be 32 std-base64-encoded bytes''
    (hguard (isPublicKey (rg_device_key req)) 400 ''devicePublicKey must be 32 std-base64-encoded bytes''
    (hresult (hashAuthSecret h (re_verifier_key re) (rg_auth_secret req)) (\<lambda>_. Refuse 400 ''authSecret is invalid'') (\<lambda>verifier.
     hguard (rg_key_blob req \<noteq> []) 400 ''accountKeyBlob is required''
    (hresult (validateEscrowBlob (rg_key_blob req) maxAccountKeyBlobLen) (\<lambda>_. Refuse 400 ''accountKeyBlob is invalid'') (\<lambda>_.
     hresult (validateEscrowBlob (rg_state req) maxUserStateBlobLen) (\<lambda>_. Refuse 400 ''userState is invalid'') (\<lambda>_.
     hcall (ask (accountLimitReached re env)) (\<lambda>_. Refuse 500 ''internal server error'') (\<lambda>full.
     hguard (\<not> full) 403 ''account_limit_reached''
    (hcall (exec (repoRegisterUser env h (rg_public_key req) username
        \<lparr>cr_verifier = verifier, cr_handle = go_lower h username, cr_key_blob = rg_key_blob req, cr_state_blob = rg_state req\<rparr>
        (rg_device_key req) (NormalizeDeviceName (rg_device_name req)) (now env)))
       register_refusal (\<lambda>_.
     answer 201 \<lparr>rp_public_key = rg_public_key req, rp_username = username, rp_role = RoleUser, rp_created_at = now env\<rparr>)))))))))))))"

definition RegistrationOpen :: "RegisterEndpoints \<Rightarrow> env \<Rightarrow> db \<Rightarrow> bool" where
  "RegistrationOpen re env d \<longleftrightarrow> re_open re \<and> accountLimitReached re env d = Inr False"

definition ownerClaimWindow :: int where "ownerClaimWindow = 30 * 60 * 1000000000"

record OwnerClaimEndpoints =
  oe_verifier_key :: string
  oe_started_at :: int       \<comment> \<open>nanoseconds since 1970\<close>
  oe_space_creator :: bool

definition claim_refusal :: "goerr \<Rightarrow> 'a answer" where
  "claim_refusal e =
     (if e = errw ErrSpaceAlreadyClaimed ''space already claimed'' then Refuse 409 ''space already claimed''
      else if e = errw ErrUsernameTaken ''username already used for password login''
      then Refuse 409 ''username already used for password login on this space''
      else if e = errw ErrDeviceKeyTaken ''device key already registered on this space''
      then Refuse 409 ''device key is already registered on this space''
      else Refuse 500 ''internal server error'')"

definition Claim :: "OwnerClaimEndpoints \<Rightarrow> env \<Rightarrow> host \<Rightarrow> accountRequest option \<Rightarrow> accountResponse handler" where
  "Claim oe env h body =
     hsome body 400 ''invalid request body'' (\<lambda>req.
     hresult (NormalizeUsername (rg_username req)) (\<lambda>_. Refuse 400 ''username is invalid'') (\<lambda>username.
     hguard (isPublicKey (rg_public_key req)) 400 ''publicKey must be 32 std-base64-encoded bytes''
    (let dkey = (if rg_device_key req = [] then rg_public_key req else rg_device_key req)
     in hguard (rg_device_key req = [] \<or> isPublicKey dkey) 400 ''devicePublicKey must be 32 std-base64-encoded bytes''
    (hresult (validateEscrowBlob (rg_key_blob req) maxAccountKeyBlobLen) (\<lambda>_. Refuse 400 ''accountKeyBlob is invalid'') (\<lambda>_.
     hresult (validateEscrowBlob (rg_state req) maxUserStateBlobLen) (\<lambda>_. Refuse 400 ''userState is invalid'') (\<lambda>_.
     hresult (if rg_auth_secret req = [] then Inr ([], [])
              else rbind (hashAuthSecret h (oe_verifier_key oe) (rg_auth_secret req)) (\<lambda>v. Inr (v, go_lower h username)))
        (\<lambda>_. Refuse 400 ''authSecret is invalid'') (\<lambda>(verifier, handle).
     hcall (ask (HasClaim env)) (\<lambda>_. Refuse 500 ''internal server error'') (\<lambda>claimed.
     hguard (\<not> claimed) 409 ''space already claimed''
    (hguard (now_ns env h \<le> oe_started_at oe + ownerClaimWindow) 403 ''owner claim window closed, restart the server to reopen it''
    (hcall (exec (repoClaimOwner env h (rg_public_key req) username
        \<lparr>cr_verifier = verifier, cr_handle = handle, cr_key_blob = rg_key_blob req, cr_state_blob = rg_state req\<rparr>
        dkey (NormalizeDeviceName (rg_device_name req)) (now env)))
       claim_refusal (\<lambda>_.
     hcall (attempt (if oe_space_creator oe
              then andThen (exec_ret (CreateSpace env (username @ [CHR 0x27] @ ''s space'') (Some (rg_public_key req)))) (\<lambda>_. ret ())
              else ret ()) (\<lambda>_. ret ())) (\<lambda>_. Refuse 500 []) (\<lambda>_.
     answer 201 \<lparr>rp_public_key = rg_public_key req, rp_username = username, rp_role = RoleOwner, rp_created_at = now env\<rparr>))))))))))))"

subsection \<open>Enrolling a device\<close>

definition maxDelegationTTLSec :: int where "maxDelegationTTLSec = 600"

text \<open>Check and mark in one step; what has expired goes.\<close>

definition markUsed :: "env \<Rightarrow> host \<Rightarrow> string \<Rightarrow> int \<Rightarrow> bool act" where
  "markUsed env h jti expiresAt =
     (\<lambda>n. if map_of (nd_jtis n) jti \<noteq> None then (Inr False, n)
          else (Inr True, n\<lparr>nd_jtis := filter (\<lambda>(_, t). \<not> before_now env h t) (AList.update jti expiresAt (nd_jtis n))\<rparr>))"

text \<open>The signer: a live device, or an account's own key where it has no row at all.\<close>

definition delegation_signer :: "env \<Rightarrow> string \<Rightarrow> db \<Rightarrow> string result" where
  "delegation_signer env iss d =
     rbind (map_err (wrapf ''failed to look up signer device'') (GetDevice env iss d)) (\<lambda>v.
     case v of
       Some v \<Rightarrow> rguard (dv_revoked_at v = None) (errorf ''signer device not found or revoked'') (Inr (dv_user v))
     | None \<Rightarrow>
         rbind (map_err (wrapf ''failed to look up signer account'') (GetUserByPublicKey env iss d)) (\<lambda>acct.
         rguard (acct \<noteq> None) (errorf ''signer device not found or revoked'') (Inr iss)))"

text \<open>The account that the delegation's signer belongs to.\<close>

definition verifyDelegation :: "env \<Rightarrow> host \<Rightarrow> string \<Rightarrow> string \<Rightarrow> string act" where
  "verifyDelegation env h signed dpk =
     (case jwt_parse h signed of
        None \<Rightarrow> fail (errorf ''failed to parse delegation'')
      | Some (_, m) \<Rightarrow>
         (let iss = claim_str m ''iss''; jti = claim_str m ''jti''; aud = claim_str m ''aud''; named = claim_str m ''dpk'';
              iat = claim_int m ''iat''; ex = claim_int m ''exp''
          in andThen (require (iss \<noteq> [] \<and> jti \<noteq> [] \<and> aud \<noteq> []) (errorf ''missing iss, jti, or aud claim'')) (\<lambda>_.
             andThen (ask (delegation_signer env iss)) (\<lambda>acct.
             andThen (require (isPublicKey iss) (errorf ''invalid signer public key'')) (\<lambda>_.
             andThen (require (signed_by h signed iss \<and> jwt_in_time h (now env) m)
                        (errorf ''delegation signature verification failed'')) (\<lambda>_.
             andThen (require (named = [] \<or> named = dpk) (errorf ''delegation dpk does not match enrolling device'')) (\<lambda>_.
             andThen (require (aud = space_public_key h) (errorf ''delegation aud does not match this space'')) (\<lambda>_.
             andThen (require (ex \<noteq> 0 \<and> \<not> before_now env h (unix_sec ex)) (errorf ''delegation expired'')) (\<lambda>_.
             andThen (require (wrap64 (ex - iat) \<le> maxDelegationTTLSec) (errorf ''delegation ttl exceeds maximum'')) (\<lambda>_.
             andThen (markUsed env h jti (unix_sec ex)) (\<lambda>fresh.
             andThen (require fresh (errorf ''delegation already used'')) (\<lambda>_.
             ret acct))))))))))))"

record registerDeviceRequest =
  rd_delegation :: string
  rd_username :: string
  rd_auth_secret :: string
  rd_device_key :: string
  rd_device_name :: string

text \<open>The account, and whether a password proved it; or the status and the text of the refusal.\<close>

definition resolveEnrollCredential ::
    "env \<Rightarrow> host \<Rightarrow> string \<Rightarrow> registerDeviceRequest \<Rightarrow> node \<Rightarrow> (int \<times> string + string \<times> bool) \<times> node" where
  "resolveEnrollCredential env h verifierKey req n =
     (let byDelegation = rd_delegation req \<noteq> []; byName = rd_username req \<noteq> []; bySecret = rd_auth_secret req \<noteq> []
      in if byDelegation \<and> (byName \<or> bySecret) then (Inl (400, ''provide either delegation or username+authSecret, not both''), n)
         else if \<not> byDelegation \<and> \<not> (byName \<or> bySecret) then (Inl (400, ''delegation or username+authSecret is required''), n)
         else if (byName \<or> bySecret) \<and> (\<not> byName \<or> \<not> bySecret) then (Inl (400, ''username and authSecret are both required''), n)
         else if byDelegation then
           (case verifyDelegation env h (rd_delegation req) (rd_device_key req) n of
              (Inl _, n1) \<Rightarrow> (Inl (401, ''invalid delegation''), n1)
            | (Inr acct, n1) \<Rightarrow> (Inr (acct, False), n1))
         else (case NormalizeUsername (rd_username req) of
              Inl _ \<Rightarrow> (Inl (400, ''username is invalid''), n)
            | Inr username \<Rightarrow>
             (case GetPasswordCredential env h username (nd_db n) of
                Inl _ \<Rightarrow> (Inl (500, ''internal server error''), n)
              | Inr (key, verifier) \<Rightarrow>
                  if key = [] \<or> verifier = [] \<or> \<not> verifyAuthSecret h verifierKey verifier (rd_auth_secret req)
                  then (Inl (401, ''invalid credentials''), n) else (Inr (key, True), n))))"

record registerDeviceResponse =
  rr_account :: account
  rr_device :: string
  rr_created_at :: int
  rr_key_blob :: string
  rr_state :: string

text \<open>The rest of the handler, once the credential stands for an account.\<close>

definition enroll_device ::
    "env \<Rightarrow> registerDeviceRequest \<Rightarrow> string \<Rightarrow> bool \<Rightarrow> registerDeviceResponse handler" where
  "enroll_device env req acct viaPassword =
     hguard (isPublicKey (rd_device_key req)) 400 ''devicePublicKey must be 32 std-base64-encoded bytes''
    (hcall (ask (GetDevice env (rd_device_key req))) (\<lambda>_. Refuse 500 ''internal server error'') (\<lambda>existing.
     hguard (case existing of None \<Rightarrow> True | Some v \<Rightarrow> dv_revoked_at v = None) 409 ''device revoked''
    (hguard (case existing of None \<Rightarrow> True | Some v \<Rightarrow> dv_user v = acct) 409
       ''device public key already registered under a different account''
    (hguard (rd_device_name req = [] \<or> NormalizeDeviceName (rd_device_name req) \<noteq> None) 400 ''deviceName is invalid''
    (hcall (exec (EnsureDevice env (rd_device_key req) acct
         (if rd_device_name req = [] then None else NormalizeDeviceName (rd_device_name req)) (now env)))
       (\<lambda>_. Refuse 500 ''internal server error'') (\<lambda>_.
     hcall (ask (GetUserByPublicKey env acct)) (\<lambda>_. Refuse 500 ''internal server error'') (\<lambda>u.
     hsome u 500 ''internal server error'' (\<lambda>u.
     hcall (ask (\<lambda>d. if viaPassword then GetEscrow env acct d else Inr ([], []))) (\<lambda>_. Refuse 500 ''internal server error'')
       (\<lambda>(blob, st).
     answer (if existing = None then 201 else 200)
       \<lparr>rr_account = u, rr_device = rd_device_key req,
        rr_created_at = (case existing of None \<Rightarrow> now env | Some v \<Rightarrow> dv_created_at v), rr_key_blob = blob, rr_state = st\<rparr>)))))))))"

definition RegisterDevice :: "env \<Rightarrow> host \<Rightarrow> string \<Rightarrow> registerDeviceRequest option \<Rightarrow> registerDeviceResponse handler" where
  "RegisterDevice env h verifierKey body =
     hsome body 400 ''invalid request body'' (\<lambda>req.
     hguard (rd_device_key req \<noteq> []) 400 ''devicePublicKey is required''
       (\<lambda>n. case resolveEnrollCredential env h verifierKey req n of
          (Inl (code, msg), n1) \<Rightarrow> (Refuse code msg, n1)
        | (Inr (acct, viaPassword), n1) \<Rightarrow> enroll_device env req acct viaPassword n1))"

subsection \<open>The roster\<close>

record deviceResponse =
  dr_device :: string
  dr_name :: "string option"
  dr_created_at :: int
  dr_last_seen_at :: "int option"
  dr_current :: bool
  dr_kind :: string
  dr_revoked_at :: "int option"

definition ListDevices :: "env \<Rightarrow> account option \<Rightarrow> bool \<Rightarrow> deviceResponse list handler" where
  "ListDevices env u includeRevoked =
     hsome u 401 ''Unauthorized'' (\<lambda>u.
     hcall (ask (repoListDevices env (u_public_key u) includeRevoked)) (\<lambda>_. Refuse 500 ''internal server error'') (\<lambda>vs.
     answer 200 (map (\<lambda>v. \<lparr>dr_device = dv_public_key v, dr_name = dv_name v, dr_created_at = dv_created_at v,
        dr_last_seen_at = dv_last_seen_at v, dr_current = (dv_public_key v = ac_device_key u),
        dr_kind = (if dv_kind v = [] then DeviceKindHuman else dv_kind v), dr_revoked_at = dv_revoked_at v\<rparr>) vs)))"

definition RevokeDevice :: "Bindings \<Rightarrow> env \<Rightarrow> account option \<Rightarrow> string \<Rightarrow> unit handler" where
  "RevokeDevice hooked env u target =
     hsome u 401 ''Unauthorized'' (\<lambda>u.
     hguard (target \<noteq> []) 400 ''devicePublicKey is required''
    (hguard (target \<noteq> ac_device_key u) 403 ''cannot revoke the device currently in use''
    (hcall (ask (GetDevice env target)) (\<lambda>_. Refuse 500 ''internal server error'') (\<lambda>v.
     hguard (case v of None \<Rightarrow> False | Some v \<Rightarrow> dv_user v = u_public_key u) 404 ''device not found''
    (hcall (exec (repoRevokeDevice env target (now env))) (\<lambda>_. Refuse 500 ''internal server error'') (\<lambda>_.
     hcall (kick hooked (u_public_key u) target) (\<lambda>_. Refuse 500 []) (answer 204)))))))"

definition RenameDevice :: "env \<Rightarrow> account option \<Rightarrow> (string \<times> string) option \<Rightarrow> unit handler" where
  "RenameDevice env u body =
     hsome u 401 ''Unauthorized'' (\<lambda>u.
     hsome body 400 ''invalid request body'' (\<lambda>(target, rawName).
     hguard (target \<noteq> []) 400 ''devicePublicKey is required''
    (hsome (NormalizeDeviceName rawName) 400 ''deviceName is invalid'' (\<lambda>name.
     hcall (ask (GetDevice env target)) (\<lambda>_. Refuse 500 ''internal server error'') (\<lambda>v.
     hguard (case v of None \<Rightarrow> False | Some v \<Rightarrow> dv_revoked_at v = None \<and> dv_user v = u_public_key u) 404 ''device not found''
    (hcall (exec (repoRenameDevice env target name)) (\<lambda>_. Refuse 500 ''internal server error'') (answer 204)))))))"

subsection \<open>Vouching for an account\<close>

datatype assertion_body = AssertionBody string int string | AssertionRefused string string

definition IssueAssertion :: "env \<Rightarrow> host \<Rightarrow> account option \<Rightarrow> string option \<Rightarrow> assertion_body handler" where
  "IssueAssertion env h u body =
     hsome u 401 ''Unauthorized'' (\<lambda>u.
     hcall (ask (IsIdentitySpace env h u)) (\<lambda>_. Refuse 500 ''internal server error'') (\<lambda>identity.
     if \<not> identity then answer 409 (AssertionRefused ''not_identity_space'' (ac_stored_binding u))
     else hsome body 400 ''invalid request body'' (\<lambda>audience.
     hguard (audience \<noteq> []) 400 ''audience is required''
    (hguard (isPublicKey audience) 400 ''audience must be 32 std-base64-encoded bytes''
    (hguard (audience \<noteq> space_public_key h) 400 ''audience must not be this space's own key''
    (hresult (mintAssertion env h (space_public_key h) (u_public_key u) audience (u_username u) (ac_device_key u))
       (\<lambda>_. Refuse 500 ''internal server error'') (\<lambda>(token, ex).
     answer 200 (AssertionBody token ex (ac_stored_binding u)))))))))"

definition PutBinding :: "Bindings \<Rightarrow> env \<Rightarrow> host \<Rightarrow> account option \<Rightarrow> string option \<Rightarrow> unit_body handler" where
  "PutBinding b env h u body =
     hsome u 401 ''Unauthorized'' (\<lambda>u.
     hsome body 400 ''invalid request body'' (\<lambda>jws.
     hresult (verifyBinding env h jws (u_public_key u)) (\<lambda>_. Refuse 400 ''invalid binding'') (\<lambda>c.
     hcall (ask (\<lambda>d. if bc_subject c = space_public_key h
                     then rbind (GetEscrow env (u_public_key u) d) (\<lambda>(blob, _). Inr (blob \<noteq> [])) else Inr True))
       (\<lambda>_. Refuse 500 ''internal server error'') (\<lambda>escrowed.
     if \<not> escrowed then answer 409 (CodedBody ''no_escrow'' [])
     else hcall (Accept b env h (u_public_key u) jws c) (\<lambda>_. Refuse 500 ''internal server error'') (\<lambda>(stored, _).
          answer 200 (CodedBody [] stored))))))"

end
