(* ===== verification/Invitations.thy ===== *)
theory Invitations
  imports AppService Accounts
begin

section \<open>Invitations\<close>

text \<open>
  \<open>internal/invitation/invitation_repository.go\<close> and the part of \<open>invitation_service.go\<close> that creates,
  shows and revokes invitations. An invitation belongs to an application and carries what joining
  through it grants; the link that is shared is a token of this space that names it.
\<close>

subsection \<open>The repository\<close>

definition known_space :: "string option \<Rightarrow> db \<Rightarrow> bool" where
  "known_space sp d \<longleftrightarrow> (case sp of None \<Rightarrow> True | Some s \<Rightarrow> s \<in> spr_id ` set (t_spaces d))"

definition fits_opt :: "int option \<Rightarrow> bool" where
  "fits_opt n \<longleftrightarrow> (case n of None \<Rightarrow> True | Some k \<Rightarrow> fits_int4 k)"

definition CreateInvitationRow :: "env \<Rightarrow> invitation_row \<Rightarrow> db \<Rightarrow> db result" where
  "CreateInvitationRow env i d =
     stmt env ''invitations.Create'' d
       (rguard (fits_opt (iv_max_uses i) \<and> fits_int4 (iv_used_count i) \<and> fits_opt (iv_duration_hours i)) out_of_range
       (rguard (iv_role i \<in> {MemberRoleOwner, MemberRoleAdmin, MemberRoleMember, MemberRoleViewer})
          (check_violation ''invitations_role_check'')
       (rguard (iv_id i \<notin> iv_id ` set (t_invitations d)) (unique_violation ''invitations_pkey'')
       (rguard (iv_application_id i \<in> set (app_ids d)) (fk_violation ''invitations_application_id_fkey'')
       (rguard (iv_created_by i \<in> set (user_keys d)) (fk_violation ''invitations_created_by_public_key_fkey'')
       (rguard (known_space (iv_space_id i) d) (fk_violation ''invitations_space_id_fkey'')
         (Inr (d\<lparr>t_invitations := t_invitations d @ [i]\<rparr>))))))))"

definition invitation_of :: "db \<Rightarrow> string \<Rightarrow> invitation_row option" where
  "invitation_of d iid = find (\<lambda>i. iv_id i = iid) (t_invitations d)"

definition GetInvitation :: "env \<Rightarrow> string \<Rightarrow> db \<Rightarrow> invitation_row result" where
  "GetInvitation env iid d =
     stmt env ''invitations.GetByID'' d
       (case invitation_of d iid of None \<Rightarrow> Inl (errorf ''invitation not found'') | Some i \<Rightarrow> Inr i)"

definition DeleteInvitation :: "env \<Rightarrow> string \<Rightarrow> db \<Rightarrow> db result" where
  "DeleteInvitation env iid d =
     stmt env ''invitations.Delete'' d
       (affected (invitation_of d iid \<noteq> None) ''invitation not found'' (drop_invitations (\<lambda>i. iv_id i = iid) d))"

text \<open>A use is claimed and given back by conditional updates.\<close>

abbreviation max_uses_error :: goerr where
  "max_uses_error \<equiv> errw ErrMaxUsesReached ''invitation has reached maximum uses''"

definition claimable :: "string \<Rightarrow> invitation_row \<Rightarrow> bool" where
  "claimable iid i \<longleftrightarrow> iv_id i = iid \<and> (case iv_max_uses i of None \<Rightarrow> True | Some m \<Rightarrow> iv_used_count i < m)"

definition IncrementUseCount :: "env \<Rightarrow> string \<Rightarrow> db \<Rightarrow> db result" where
  "IncrementUseCount env iid d =
     stmt env ''IncrementUseCount'' d
       (rguard (list_all (\<lambda>i. claimable iid i \<longrightarrow> fits_int4 (iv_used_count i + 1)) (t_invitations d)) out_of_range
       (rguard (list_ex (claimable iid) (t_invitations d)) max_uses_error
         (Inr (d\<lparr>t_invitations := update_where (claimable iid) (\<lambda>i. i\<lparr>iv_used_count := iv_used_count i + 1\<rparr>) (t_invitations d)\<rparr>))))"

definition ReleaseUse :: "env \<Rightarrow> string \<Rightarrow> db \<Rightarrow> db result" where
  "ReleaseUse env iid d =
     stmt env ''ReleaseUse'' d
       (Inr (d\<lparr>t_invitations := update_where (\<lambda>i. iv_id i = iid \<and> 0 < iv_used_count i)
          (\<lambda>i. i\<lparr>iv_used_count := iv_used_count i - 1\<rparr>) (t_invitations d)\<rparr>))"

definition CountAccounts :: "env \<Rightarrow> db \<Rightarrow> nat result" where
  "CountAccounts env d = stmt env ''invitations.CountUsers'' d (Inr (length (t_users d)))"

definition RecordUse :: "env \<Rightarrow> string \<Rightarrow> string \<Rightarrow> string \<Rightarrow> db \<Rightarrow> db result" where
  "RecordUse env iid key useID d =
     stmt env ''RecordUse'' d
       (rguard (useID \<notin> iu_id ` set (t_invitation_uses d)) (unique_violation ''invitation_uses_pkey'')
       (rguard (iid \<in> iv_id ` set (t_invitations d)) (fk_violation ''invitation_uses_invitation_id_fkey'')
       (rguard (key \<in> set (user_keys d)) (fk_violation ''invitation_uses_user_public_key_fkey'')
         (Inr (d\<lparr>t_invitation_uses := t_invitation_uses d
            @ [\<lparr>iu_id = useID, iu_invitation_id = iid, iu_user = key, iu_used_at = now env\<rparr>]\<rparr>)))))"

definition GetInvitationsByApplicationID :: "env \<Rightarrow> string \<Rightarrow> db \<Rightarrow> invitation_row list result" where
  "GetInvitationsByApplicationID env appID d =
     stmt env ''invitations.GetByApplicationID'' d
       (Inr (sort_key (\<lambda>i. - iv_created_at i) (filter (\<lambda>i. iv_application_id i = appID) (t_invitations d))))"

definition HasBeenUsedBy :: "env \<Rightarrow> string \<Rightarrow> string \<Rightarrow> db \<Rightarrow> bool result" where
  "HasBeenUsedBy env iid key d =
     stmt env ''HasBeenUsedBy'' d (Inr (list_ex (\<lambda>u. iu_invitation_id u = iid \<and> iu_user u = key) (t_invitation_uses d)))"

subsection \<open>Who may manage them\<close>

abbreviation not_authorized :: goerr where
  "not_authorized \<equiv> errw ErrNotAppAuthorized ''not authorized for this application''"

text \<open>The missing member is told from a failing database by the text of the error.\<close>

definition AuthorizeAppRole :: "env \<Rightarrow> string \<Rightarrow> string \<Rightarrow> member_role list \<Rightarrow> db \<Rightarrow> unit result" where
  "AuthorizeAppRole env appID key allowed d =
     (case GetMemberByPublicKey env appID key d of
        Inl e \<Rightarrow> Inl (if err_msg e = ''member not found'' then not_authorized else e)
      | Inr m \<Rightarrow> rguard (m_role m \<in> set allowed) not_authorized (Inr ()))"

definition move_guard :: "env \<Rightarrow> string \<Rightarrow> string \<Rightarrow> bool \<Rightarrow> db \<Rightarrow> unit result" where
  "move_guard env appID key write d = (case MoveGuard env appID key write d of None \<Rightarrow> Inr () | Some e \<Rightarrow> Inl e)"

definition manager_roles :: "member_role list" where
  "manager_roles = [MemberRoleOwner, MemberRoleAdmin]"

subsection \<open>Creating\<close>

record InvitationService =
  is_single_use_signup :: bool
  is_max_accounts :: int
  is_external_url :: string
  is_hooked :: Bindings
  is_events :: EventService

record CreateInvitationOptions =
  io_application_id :: string
  io_role :: string
  io_max_uses :: "int option"
  io_expires_in_hours :: "int option"
  io_space_url :: string
  io_grants_membership :: "bool option"
  io_grants_identity :: "bool option"
  io_grants_space_use :: "bool option"
  io_duration_hours :: "int option"
  io_member_keys :: "string list"

definition MaxExpirationHours :: int where "MaxExpirationHours = 48"
definition MaxMemberBoundExpirationHours :: int where "MaxMemberBoundExpirationHours = 720"
definition MaxMembershipDurationHours :: int where "MaxMembershipDurationHours = 8760"

definition agent_may_invite :: "env \<Rightarrow> account \<Rightarrow> string \<Rightarrow> db \<Rightarrow> unit result" where
  "agent_may_invite env caller appID d =
     (if \<not> u_agent caller then Inr ()
      else case GetApplicationByID env appID d of
        Inl e \<Rightarrow> Inl (if errors_is e ErrNotFound then errw ErrAgentReadOff ''agent access is off for this application'' else e)
      | Inr app \<Rightarrow>
          rguard (AgentAllowed app (user.truncate caller) \<and> list_ex (\<lambda>m. mb_public_key m = u_public_key caller) (ap_members app))
            (errw ErrAgentReadOff ''agent access is off for this application'') (Inr ()))"

definition invalid_options :: "string \<Rightarrow> goerr" where
  "invalid_options m = errw ErrInvalidInviteOptions m"

text \<open>The limits on the options, after a member-bound invitation fixed its number of uses.\<close>

definition check_options :: "CreateInvitationOptions \<Rightarrow> int option \<Rightarrow> unit result" where
  "check_options opts maxUses =
     (let maxExpiry = (if io_member_keys opts \<noteq> [] then MaxMemberBoundExpirationHours else MaxExpirationHours)
      in rguard (case io_expires_in_hours opts of None \<Rightarrow> True | Some n \<Rightarrow> 0 \<le> n \<and> n \<le> maxExpiry)
           (invalid_options ''expiresInHours out of range'')
        (rguard (case maxUses of None \<Rightarrow> True | Some n \<Rightarrow> 1 \<le> n) (invalid_options ''maxUses must be at least 1'')
        (rguard (case io_duration_hours opts of None \<Rightarrow> True | Some n \<Rightarrow> 1 \<le> n \<and> n \<le> MaxMembershipDurationHours)
           (invalid_options ''membershipDurationHours out of range'') (Inr ()))))"

definition or_true :: "bool option \<Rightarrow> bool" where
  "or_true b \<longleftrightarrow> b \<noteq> Some False"

definition new_invitation :: "env \<Rightarrow> account \<Rightarrow> CreateInvitationOptions \<Rightarrow> string \<Rightarrow> int option \<Rightarrow> invitation_row" where
  "new_invitation env caller opts role maxUses =
     (let membership = or_true (io_grants_membership opts);
          identity = membership \<and> or_true (io_grants_identity opts);
          spaceUse = membership \<and> io_grants_space_use opts = Some True
      in \<lparr>iv_id = fresh_uuid env, iv_application_id = io_application_id opts, iv_created_by = u_public_key caller, iv_role = role,
          iv_max_uses = (if (identity \<or> spaceUse) \<and> maxUses = None then Some 1 else maxUses), iv_used_count = 0,
          iv_created_at = now env, iv_space_id = nullif (u_space_id caller), iv_grants_membership = membership,
          iv_grants_identity = identity, iv_grants_space_use = spaceUse, iv_duration_hours = io_duration_hours opts,
          iv_expires_at = map_option (\<lambda>n. now env + n * 3600) (io_expires_in_hours opts), iv_member_keys = io_member_keys opts\<rparr>)"

definition invite_map :: "env \<Rightarrow> string \<Rightarrow> string \<Rightarrow> int option \<Rightarrow> gmap" where
  "invite_map env iid url ex =
     [(''id'', GStr iid), (''spaceUrl'', GStr url), (''iat'', GInt64 (now env)), (''nbf'', GInt64 (now env))]
     @ (case ex of None \<Rightarrow> [] | Some t \<Rightarrow> [(''exp'', GInt64 t)])"

definition GenerateToken :: "env \<Rightarrow> host \<Rightarrow> string \<Rightarrow> string \<Rightarrow> int option \<Rightarrow> string result" where
  "GenerateToken env h iid url ex = map_err (wrapf ''failed to sign token'') (jwt_sign h (invite_map env iid url ex))"

record InvitationResponse =
  ir_id :: string
  ir_token :: string
  ir_url :: string
  ir_deep_link :: string
  ir_expires_at :: "int option"
  ir_created_at :: int
  ir_grants_space_use :: bool

text \<open>The member-bound form overrides the number of uses with the number of keys.\<close>

definition bound_uses :: "CreateInvitationOptions \<Rightarrow> int option" where
  "bound_uses opts = (if io_member_keys opts \<noteq> [] then Some (int (length (io_member_keys opts))) else io_max_uses opts)"

definition CreateInvitation ::
    "InvitationService \<Rightarrow> env \<Rightarrow> host \<Rightarrow> account option \<Rightarrow> CreateInvitationOptions \<Rightarrow> InvitationResponse act" where
  "CreateInvitation s env h u opts =
     andThen (require (io_application_id opts \<noteq> []) (errorf ''application ID is required'')) (\<lambda>_.
     case u of
       None \<Rightarrow> fail (errorf ''creator public key is required'')
     | Some caller \<Rightarrow>
         andThen (require (u_public_key caller \<noteq> []) (errorf ''creator public key is required'')) (\<lambda>_.
         andThen (ask (agent_may_invite env caller (io_application_id opts))) (\<lambda>_.
         andThen (ask (AuthorizeAppRole env (io_application_id opts) (u_public_key caller) manager_roles)) (\<lambda>_.
         andThen (ask (move_guard env (io_application_id opts) (u_public_key caller) True)) (\<lambda>_.
         andThen (require (io_grants_space_use opts = Some True \<longrightarrow> u_role caller = RoleOwner)
                    (errw ErrSpaceUseNotAllowed ''only the space owner can grant space use'')) (\<lambda>_.
         let url = (if is_external_url s = [] then io_space_url opts else is_external_url s);
             role = (if io_role opts = [] then MemberRoleMember else io_role opts)
         in andThen (require (url \<noteq> []) (errorf ''space URL is required'')) (\<lambda>_.
            andThen (require (IsGrantable role) (errw ErrInvalidInviteRole ''invalid invite role'')) (\<lambda>_.
            andThen (lift (check_options opts (bound_uses opts))) (\<lambda>_.
            let i = new_invitation env caller opts role (bound_uses opts)
            in andThen (exec (\<lambda>d. map_err (wrapf ''failed to create invitation'') (CreateInvitationRow env i d))) (\<lambda>_.
               andThen (lift (map_err (wrapf ''failed to generate token'') (GenerateToken env h (iv_id i) url (iv_expires_at i)))) (\<lambda>token.
               ret \<lparr>ir_id = iv_id i, ir_token = token, ir_url = ''https://prappser.app/join?token='' @ token,
                    ir_deep_link = ''prappser://join?token='' @ token, ir_expires_at = iv_expires_at i,
                    ir_created_at = iv_created_at i, ir_grants_space_use = iv_grants_space_use i\<rparr>)))))))))))"

subsection \<open>Showing\<close>

record InviteTokenClaims =
  it_id :: string
  it_space_url :: string
  it_iat :: int
  it_exp :: "int option"

definition ValidateToken :: "env \<Rightarrow> host \<Rightarrow> string \<Rightarrow> InviteTokenClaims result" where
  "ValidateToken env h token =
     rbind (map_err (wrapf ''failed to parse token'') (parse_own env h token)) (\<lambda>m.
     rguard (claim_str m ''id'' \<noteq> []) (errorf ''missing or invalid id claim'')
    (case mindex m ''iat'' of
       GFloat iat \<Rightarrow> Inr \<lparr>it_id = claim_str m ''id'', it_space_url = claim_str m ''spaceUrl'', it_iat = int_of_float iat,
          it_exp = (case mindex m ''exp'' of GFloat q \<Rightarrow> Some (int_of_float q) | _ \<Rightarrow> None)\<rparr>
     | _ \<Rightarrow> Inl (errorf ''missing or invalid iat claim'')))"

definition token_expired :: "env \<Rightarrow> InviteTokenClaims \<Rightarrow> bool" where
  "token_expired env c \<longleftrightarrow> (case it_exp c of None \<Rightarrow> False | Some t \<Rightarrow> t < now env)"

definition uses_reached :: "invitation_row \<Rightarrow> bool" where
  "uses_reached i \<longleftrightarrow> (case iv_max_uses i of None \<Rightarrow> False | Some m \<Rightarrow> m \<le> iv_used_count i)"

text \<open>The gates on a join that would create an account.\<close>

definition signupBlocked :: "InvitationService \<Rightarrow> env \<Rightarrow> invitation_row \<Rightarrow> db \<Rightarrow> unit result" where
  "signupBlocked s env i d =
     rguard (\<not> (is_single_use_signup s \<and> iv_member_keys i = [] \<and> iv_max_uses i \<noteq> Some 1))
       (GoErr [ErrSingleUseInviteRequired, ErrIdentityNotGranted] ''new accounts need a single-use invite'')
    (if is_max_accounts s \<le> 0 then Inr ()
     else rbind (map_err (wrapf ''failed to count accounts'') (CountAccounts env d)) (\<lambda>n.
       rguard (int n < is_max_accounts s)
         (GoErr [ErrAccountLimitReached, ErrIdentityNotGranted] ''this space is not accepting new accounts'') (Inr ())))"

record InviteInfo =
  ii_id :: string
  ii_application_name :: string
  ii_application_icon :: "string option"
  ii_creator_username :: string
  ii_role :: string
  ii_expires_at :: "int option"
  ii_expired :: bool
  ii_valid :: bool
  ii_grants_membership :: bool
  ii_grants_identity :: bool
  ii_duration_hours :: "int option"

definition GetInviteInfo :: "InvitationService \<Rightarrow> env \<Rightarrow> host \<Rightarrow> string \<Rightarrow> db \<Rightarrow> InviteInfo result" where
  "GetInviteInfo s env h token d =
     rbind (map_err (wrapf ''invalid token'') (ValidateToken env h token)) (\<lambda>c.
     Inr (case GetInvitation env (it_id c) d of
        Inl _ \<Rightarrow> \<lparr>ii_id = it_id c, ii_application_name = [], ii_application_icon = None, ii_creator_username = [],
            ii_role = [], ii_expires_at = None, ii_expired = token_expired env c, ii_valid = False,
            ii_grants_membership = True, ii_grants_identity = True, ii_duration_hours = None\<rparr>
      | Inr i \<Rightarrow>
         (let app = GetApplicationByID env (iv_application_id i) d;
              creator = GetUserByPublicKey env (iv_created_by i) d
          in \<lparr>ii_id = iv_id i,
              ii_application_name = (case app of Inr a \<Rightarrow> ap_name a | Inl _ \<Rightarrow> ''Unknown Application''),
              ii_application_icon = (case app of Inr a \<Rightarrow> ap_icon a | Inl _ \<Rightarrow> None),
              ii_creator_username = (case creator of Inr (Some u) \<Rightarrow> u_username u | _ \<Rightarrow> ''Unknown User''),
              ii_role = iv_role i, ii_expires_at = it_exp c, ii_expired = token_expired env c,
              ii_valid = (\<not> token_expired env c \<and> \<not> uses_reached i), ii_grants_membership = iv_grants_membership i,
              ii_grants_identity = (iv_grants_identity i \<and> signupBlocked s env i d = Inr ()),
              ii_duration_hours = iv_duration_hours i\<rparr>)))"

text \<open>The storage object behind the icon, and the application it must belong to.\<close>

definition GetInviteIconStorageID :: "env \<Rightarrow> host \<Rightarrow> string \<Rightarrow> db \<Rightarrow> (string \<times> string) result" where
  "GetInviteIconStorageID env h token d =
     rbind (map_err (wrapf ''invalid token'') (ValidateToken env h token)) (\<lambda>c.
     rbind (map_err (wrapf ''invite not found'') (GetInvitation env (it_id c) d)) (\<lambda>i.
     rbind (map_err (wrapf ''application not found'') (GetApplicationByID env (iv_application_id i) d)) (\<lambda>app.
     case ap_icon app of
       None \<Rightarrow> Inl (errorf ''application has no custom icon'')
     | Some icon \<Rightarrow> rguard (take 8 icon = ''storage:'') (errorf ''application has no custom icon'')
          (Inr (drop 8 icon, iv_application_id i)))))"

record CheckInvitationResult =
  cs_valid :: bool
  cs_already_used :: bool
  cs_is_member :: bool
  cs_expired :: bool
  cs_max_uses :: bool
  cs_application_name :: string
  cs_role :: string
  cs_message :: string
  cs_grants_membership :: bool
  cs_grants_identity :: bool

definition check_start :: CheckInvitationResult where
  "check_start = \<lparr>cs_valid = False, cs_already_used = False, cs_is_member = False, cs_expired = False, cs_max_uses = False,
     cs_application_name = [], cs_role = [], cs_message = [], cs_grants_membership = True, cs_grants_identity = True\<rparr>"

text \<open>The last part: the caller's membership, and the guest whom the invitation would promote.\<close>

definition check_membership :: "env \<Rightarrow> invitation_row \<Rightarrow> string \<Rightarrow> db \<Rightarrow> CheckInvitationResult \<Rightarrow> CheckInvitationResult" where
  "check_membership env i key d res =
     (if IsMember env (iv_application_id i) key d = Inr True then
        (if iv_grants_space_use i
            \<and> (case GetUserByPublicKey env key d of Inr (Some u) \<Rightarrow> u_role u = RoleGuest | _ \<Rightarrow> False)
         then res\<lparr>cs_is_member := True, cs_valid := True, cs_message := ''Invitation is valid and ready to use''\<rparr>
         else res\<lparr>cs_is_member := True, cs_message := ''You are already a member of this application''\<rparr>)
      else res\<lparr>cs_valid := True, cs_message := ''Invitation is valid and ready to use''\<rparr>)"

definition CheckInvitationUsage :: "env \<Rightarrow> host \<Rightarrow> string \<Rightarrow> string \<Rightarrow> db \<Rightarrow> CheckInvitationResult result" where
  "CheckInvitationUsage env h token key d =
     (case ValidateToken env h token of
        Inl _ \<Rightarrow> Inr (check_start\<lparr>cs_message := ''Invalid or malformed invitation link''\<rparr>)
      | Inr c \<Rightarrow>
     (if token_expired env c then Inr (check_start\<lparr>cs_expired := True, cs_message := ''This invitation has expired''\<rparr>)
      else case GetInvitation env (it_id c) d of
        Inl _ \<Rightarrow> Inr (check_start\<lparr>cs_message := ''Invitation not found or has been revoked''\<rparr>)
      | Inr i \<Rightarrow>
     (let res = check_start\<lparr>cs_grants_membership := iv_grants_membership i, cs_grants_identity := iv_grants_identity i,
           cs_application_name := (case GetApplicationByID env (iv_application_id i) d of Inr a \<Rightarrow> ap_name a | Inl _ \<Rightarrow> []),
           cs_role := iv_role i\<rparr>
      in if uses_reached i
         then Inr (res\<lparr>cs_max_uses := True, cs_message := ''This invitation has reached its maximum number of uses''\<rparr>)
         else rbind (map_err (wrapf ''failed to check invitation usage'') (HasBeenUsedBy env (iv_id i) key d)) (\<lambda>used.
              let member = used \<and> IsMember env (iv_application_id i) key d = Inr True
              in if member then Inr (res\<lparr>cs_is_member := True, cs_already_used := True,
                      cs_message := ''You have already joined this application''\<rparr>)
                 else Inr (check_membership env i key d res)))))"

subsection \<open>Revoking and listing\<close>

definition revoked_event :: "env \<Rightarrow> account \<Rightarrow> invitation_row \<Rightarrow> event" where
  "revoked_event env caller i =
     \<lparr>ev_id = fresh_uuid env, ev_created_at = now env, ev_application_id = iv_application_id i, ev_sequence = 0,
      ev_type = EventTypeInviteRevoked, ev_creator = u_public_key caller, ev_version = 0,
      ev_data = Some [(''version'', GInt 1), (''applicationId'', GStr (iv_application_id i)), (''inviteId'', GStr (iv_id i))],
      ev_space_id = null_string (iv_space_id i)\<rparr>"

text \<open>A failure to produce the event is only logged.\<close>

definition RevokeInvitation :: "InvitationService \<Rightarrow> env \<Rightarrow> account option \<Rightarrow> string \<Rightarrow> string \<Rightarrow> unit act" where
  "RevokeInvitation s env u appID iid =
     (case u of
        None \<Rightarrow> fail (errorf ''caller public key is required'')
      | Some caller \<Rightarrow>
          andThen (require (u_public_key caller \<noteq> []) (errorf ''caller public key is required'')) (\<lambda>_.
          andThen (ask (AuthorizeAppRole env appID (u_public_key caller) manager_roles)) (\<lambda>_.
          andThen (ask (move_guard env appID (u_public_key caller) True)) (\<lambda>_.
          andThen (ask (\<lambda>d. map_err (\<lambda>e. errw ErrInvitationNotFound (err_msg e)) (GetInvitation env iid d))) (\<lambda>i.
          andThen (require (iv_application_id i = appID)
                     (errw ErrInviteAppMismatch ''invitation does not belong to this application'')) (\<lambda>_.
          andThen (exec (DeleteInvitation env (iv_id i))) (\<lambda>_.
          attempt (produce (is_events s) env (revoked_event env caller i)) (\<lambda>_. ret ()))))))))"

definition GetInvitesForApp :: "env \<Rightarrow> account option \<Rightarrow> string \<Rightarrow> db \<Rightarrow> invitation_row list result" where
  "GetInvitesForApp env u appID d =
     (case u of
        None \<Rightarrow> Inl (errorf ''caller public key is required'')
      | Some caller \<Rightarrow>
          rguard (u_public_key caller \<noteq> []) (errorf ''caller public key is required'')
         (rbind (AuthorizeAppRole env appID (u_public_key caller) manager_roles d) (\<lambda>_.
          rbind (move_guard env appID (u_public_key caller) False d) (\<lambda>_.
          GetInvitationsByApplicationID env appID d))))"

end
