(* ===== verification/Join.thy ===== *)
theory Join
  imports Invitations
begin

section \<open>Joining through an invitation\<close>

text \<open>
  \<open>internal/invitation/join_proof.go\<close> and \<open>InvitationService.Join\<close>: an unauthenticated caller presents
  the token of an invitation and a proof signed by its device's key, and becomes a member; the
  account is created if there is none. A use of the invitation is claimed before the account is
  created and given back by the deferred call if anything fails while it is held.
\<close>

subsection \<open>The proof\<close>

definition joinProofTTLSec :: int where "joinProofTTLSec = 60"
definition joinProofSkewSec :: int where "joinProofSkewSec = 30"

record joinProofClaims =
  jp_public_key :: string
  jp_device :: string
  jp_username :: string
  jp_invite_id :: string
  jp_iat :: int

abbreviation invalid_proof :: goerr where
  "invalid_proof \<equiv> errw ErrInvalidProof ''invalid join proof''"

definition proof_timely :: "env \<Rightarrow> host \<Rightarrow> int \<Rightarrow> bool" where
  "proof_timely env h iat \<longleftrightarrow> iat \<noteq> 0
     \<and> \<not> unix_sec iat > add_sec (unix_sec (now env)) joinProofSkewSec
     \<and> \<not> before_now env h (add_sec (add_sec (unix_sec iat) joinProofTTLSec) joinProofSkewSec)"

definition verifyJoinProof :: "env \<Rightarrow> host \<Rightarrow> string \<Rightarrow> string \<Rightarrow> joinProofClaims result" where
  "verifyJoinProof env h signed expectedInviteID =
     (case jwt_parse h signed of
        None \<Rightarrow> Inl invalid_proof
      | Some (_, m) \<Rightarrow>
         (let c = \<lparr>jp_public_key = claim_str m ''publicKey'', jp_device = claim_str m ''devicePublicKey'',
                   jp_username = claim_str m ''username'', jp_invite_id = claim_str m ''inviteId'', jp_iat = claim_int m ''iat''\<rparr>
          in rguard (jp_public_key c \<noteq> [] \<and> jp_device c \<noteq> [] \<and> jp_username c \<noteq> [] \<and> jp_invite_id c \<noteq> []) invalid_proof
            (rguard (signed_by h signed (jp_device c)) invalid_proof
            (rguard (jp_invite_id c = expectedInviteID) invalid_proof
            (rguard (proof_timely env h (jp_iat c)) invalid_proof (Inr c))))))"

subsection \<open>The checks before anything is written\<close>

record JoinRequest =
  jr_token :: string
  jr_proof :: string
  jr_assertion :: string
  jr_binding :: string
  jr_device_name :: string

record JoinResult =
  jo_application_id :: string
  jo_member_id :: string
  jo_new_member :: bool
  jo_last_event_id :: string

text \<open>What the checks establish: the proof, the invitation, the admission of a presented binding.\<close>

record admitted =
  jm_proof :: joinProofClaims
  jm_invite :: invitation_row
  jm_admission :: "Admission option"
  jm_vouched :: bool
  jm_user :: "account option"       \<comment> \<open>\<open>None\<close>: a new account\<close>

definition check_invite :: "env \<Rightarrow> InviteTokenClaims \<Rightarrow> joinProofClaims \<Rightarrow> db \<Rightarrow> invitation_row result" where
  "check_invite env c p d =
     rguard (\<not> token_expired env c) (errorf ''invitation expired'')
    (rbind (map_err (wrapf ''invitation not found or revoked'') (GetInvitation env (it_id c) d)) (\<lambda>i.
     rguard (\<not> uses_reached i) (errorf ''invitation has reached maximum uses'')
    (rbind (move_guard env (iv_application_id i) (jp_public_key p) True d) (\<lambda>_.
     rguard (iv_member_keys i = [] \<or> jp_public_key p \<in> set (iv_member_keys i))
       (errw ErrInviteNotForMember ''invitation is not for this account'')
    (rguard (iv_grants_membership i) (errw ErrMembershipNotGranted ''invitation does not grant membership'')
    (rguard (IsGrantable (iv_role i)) (errw ErrInvalidInviteRole ''invalid invite role'') (Inr i)))))))"

text \<open>The voucher: a binding with its assertion, an assertion the account signed itself, or none.\<close>

definition check_voucher :: "env \<Rightarrow> host \<Rightarrow> JoinRequest \<Rightarrow> joinProofClaims \<Rightarrow> (Admission option \<times> bool) result" where
  "check_voucher env h jr p =
     (if jr_binding jr \<noteq> [] then
        rguard (jr_assertion jr \<noteq> []) (wrapf ''invalid assertion'' invalid_assertion)
       (rbind (VerifyAdmission env h (jp_public_key p) (jp_device p) (jr_binding jr) (jr_assertion jr)) (\<lambda>adm. Inr (Some adm, True)))
      else if jr_assertion jr \<noteq> [] then
        rbind (map_err (\<lambda>_. wrapf ''invalid assertion'' invalid_assertion)
          (VerifyAssertion env h (jr_assertion jr) (space_public_key h) (jp_device p) (jp_public_key p))) (\<lambda>a.
        rguard (as_user_id a = jp_public_key p) (wrapf ''invalid assertion'' invalid_assertion) (Inr (None, True)))
      else Inr (None, False))"

text \<open>A failed lookup counts as a new account.\<close>

definition known_account :: "env \<Rightarrow> string \<Rightarrow> db \<Rightarrow> account option" where
  "known_account env key d = (case GetUserByPublicKey env key d of Inr (Some u) \<Rightarrow> Some u | _ \<Rightarrow> None)"

text \<open>Without a voucher the device must be the account's own key or on the account's roster.\<close>

definition check_possession :: "env \<Rightarrow> host \<Rightarrow> joinProofClaims \<Rightarrow> bool \<Rightarrow> account option \<Rightarrow> db \<Rightarrow> unit result" where
  "check_possession env h p vouched u d =
     (if vouched \<or> jp_device p = jp_public_key p then Inr ()
      else rbind (map_err (wrapf ''failed to look up device'') (GetDevice env (jp_device p) d)) (\<lambda>v.
        rbind (case u of None \<Rightarrow> Inr False | Some acct \<Rightarrow> RosterAllowed env h acct v d) (\<lambda>allowed.
        rguard allowed (errw ErrAccountKeyNotProven ''account key not proven'') (Inr ()))))"

definition join_checks :: "InvitationService \<Rightarrow> env \<Rightarrow> host \<Rightarrow> JoinRequest \<Rightarrow> db \<Rightarrow> admitted result" where
  "join_checks s env h jr d =
     rbind (map_err (wrapf ''invalid token'') (ValidateToken env h (jr_token jr))) (\<lambda>c.
     rbind (verifyJoinProof env h (jr_proof jr) (it_id c)) (\<lambda>p.
     rbind (check_invite env c p d) (\<lambda>i.
     rbind (check_voucher env h jr p) (\<lambda>(adm, vouched).
     let u = known_account env (jp_public_key p) d
     in rguard (u \<noteq> None \<or> vouched \<or> iv_grants_identity i) (errw ErrIdentityNotGranted ''invitation does not grant identity'')
       (rbind (if u = None then signupBlocked s env i d else Inr ()) (\<lambda>_.
        rbind (check_possession env h p vouched u d) (\<lambda>_.
        Inr \<lparr>jm_proof = p, jm_invite = i, jm_admission = adm, jm_vouched = vouched, jm_user = u\<rparr>)))))))"

subsection \<open>The account\<close>

text \<open>The deferred release: an error while the claim is held gives the use back.\<close>

definition releasing :: "env \<Rightarrow> bool \<Rightarrow> string \<Rightarrow> 'a act \<Rightarrow> 'a act" where
  "releasing env held iid m =
     attempt m (\<lambda>r. case r of
        Inr x \<Rightarrow> ret x
      | Inl e \<Rightarrow> if held then attempt (exec (ReleaseUse env iid)) (\<lambda>_. fail e) else fail e)"

definition claim_use :: "env \<Rightarrow> string \<Rightarrow> unit act" where
  "claim_use env iid = exec (\<lambda>d. map_err (wrapf ''failed to claim invitation use'') (IncrementUseCount env iid d))"

definition new_guest :: "env \<Rightarrow> joinProofClaims \<Rightarrow> account" where
  "new_guest env p =
     (account_of_row (new_user_row (jp_public_key p) (jp_username p) RoleGuest (now env)))"

text \<open>Create the guest and its device; a vouched join that loses the race goes on with the winner's row.\<close>

definition create_account :: "env \<Rightarrow> host \<Rightarrow> admitted \<Rightarrow> string option \<Rightarrow> (account \<times> bool) act" where
  "create_account env h a name =
     (let p = jm_proof a
      in andThen (attempt (exec (CreateUser env h (new_guest env p))) (\<lambda>r. case r of
            Inl e \<Rightarrow> if jm_vouched a \<and> unique_constraint e \<noteq> None then ret False else fail (wrapf ''failed to create user'' e)
          | Inr _ \<Rightarrow>
              if jm_admission a = None
              then andThen (exec (\<lambda>d. map_err (wrapf ''failed to ensure device'')
                       (EnsureDevice env (jp_device p) (jp_public_key p) name (now env) d))) (\<lambda>_. ret True)
              else ret True)) (\<lambda>isNew.
         andThen (ask (\<lambda>d. map_err (wrapf ''failed to fetch newly created user'') (GetUserByPublicKey env (jp_public_key p) d))) (\<lambda>u.
         case u of None \<Rightarrow> fail (errorf ''failed to fetch newly created user'') | Some acct \<Rightarrow> ret (acct, isNew))))"

text \<open>An account without any live device gets the row of its own key.\<close>

definition settle_devices :: "InvitationService \<Rightarrow> env \<Rightarrow> host \<Rightarrow> JoinRequest \<Rightarrow> admitted \<Rightarrow> account \<Rightarrow> bool \<Rightarrow> string option \<Rightarrow> unit act" where
  "settle_devices s env h jr a acct isNew name =
     (let key = jp_public_key (jm_proof a)
      in andThen (case jm_admission a of
            None \<Rightarrow> ret ()
          | Some adm \<Rightarrow> Admit (is_hooked s) env h key (jp_device (jm_proof a)) (jr_binding jr) adm name) (\<lambda>_.
         if isNew \<or> jm_admission a \<noteq> None \<or> ac_binding_iat acct \<noteq> 0 then ret ()
         else andThen (ask (\<lambda>d. map_err (wrapf ''failed to list devices'') (repoListDevices env key False d))) (\<lambda>vs.
              if vs \<noteq> [] then ret ()
              else exec (\<lambda>d. map_err (wrapf ''failed to ensure device'') (EnsureDevice env key key name (now env) d)))))"

definition is_member :: "env \<Rightarrow> admitted \<Rightarrow> bool act" where
  "is_member env a =
     ask (\<lambda>d. map_err (wrapf ''failed to check membership'')
       (IsMember env (iv_application_id (jm_invite a)) (jp_public_key (jm_proof a)) d))"

text \<open>The account, whether a use is held for it, and whether it is a member already.\<close>

definition join_account ::
    "InvitationService \<Rightarrow> env \<Rightarrow> host \<Rightarrow> JoinRequest \<Rightarrow> admitted \<Rightarrow> string option \<Rightarrow> (account \<times> bool \<times> bool) act" where
  "join_account s env h jr a name =
     (let p = jm_proof a; iid = iv_id (jm_invite a)
      in case jm_user a of
           Some acct \<Rightarrow>
             andThen (settle_devices s env h jr a acct False name) (\<lambda>_.
             andThen (is_member env a) (\<lambda>m. ret (acct, False, m)))
         | None \<Rightarrow>
             andThen (require (jp_public_key p \<noteq> []) (errorf ''public key cannot be empty'')) (\<lambda>_.
             andThen (if jm_vouched a
                then andThen (ask (\<lambda>d. map_err (wrapf ''failed to look up device'') (GetDevice env (jp_device p) d))) (\<lambda>v.
                     require (case v of None \<Rightarrow> True | Some v \<Rightarrow> dv_user v = jp_public_key p \<and> dv_revoked_at v = None)
                       (errw ErrDeviceConflict ''device already registered to a different account''))
                else ret ()) (\<lambda>_.
             andThen (claim_use env iid) (\<lambda>_.
             releasing env True iid
               (andThen (create_account env h a name) (\<lambda>(acct, isNew).
                andThen (settle_devices s env h jr a acct isNew name) (\<lambda>_.
                andThen (is_member env a) (\<lambda>m. ret (acct, True, m))))))))
        )"

subsection \<open>Promotion\<close>

definition canPromote :: "env \<Rightarrow> invitation_row \<Rightarrow> account \<Rightarrow> string \<Rightarrow> db \<Rightarrow> bool" where
  "canPromote env i acct dkey d \<longleftrightarrow>
     iv_grants_space_use i \<and> u_role acct = RoleGuest
     \<and> (dkey = u_public_key acct
        \<or> (case GetDevice env dkey d of
             Inr (Some v) \<Rightarrow> dv_user v = u_public_key acct \<and> dv_revoked_at v = None | _ \<Rightarrow> False))"

definition promote :: "env \<Rightarrow> host \<Rightarrow> string \<Rightarrow> unit act" where
  "promote env h key =
     exec (\<lambda>d. map_err (wrapf ''failed to promote guest to user'') (UpdateUserRole env h key RoleUser d))"

definition record_use :: "env \<Rightarrow> host \<Rightarrow> string \<Rightarrow> string \<Rightarrow> unit act" where
  "record_use env h iid key = exec (\<lambda>d. map_err (wrapf ''failed to record invitation use'') (RecordUse env iid key (use_uuid h) d))"

subsection \<open>The member who comes back, and the new one\<close>

definition rejoin :: "env \<Rightarrow> host \<Rightarrow> admitted \<Rightarrow> account \<Rightarrow> bool \<Rightarrow> JoinResult act" where
  "rejoin env h a acct held =
     (let i = jm_invite a; key = jp_public_key (jm_proof a)
      in andThen (if held then attempt (exec (ReleaseUse env (iv_id i))) (\<lambda>_. ret ()) else ret ()) (\<lambda>_.
         andThen (ask (\<lambda>d. map_err (wrapf ''failed to get member'') (GetMemberByPublicKey env (iv_application_id i) key d))) (\<lambda>m.
         let result = \<lparr>jo_application_id = iv_application_id i, jo_member_id = m_id m, jo_new_member = False, jo_last_event_id = []\<rparr>
         in andThen (ask (\<lambda>d. Inr (canPromote env i acct (jp_device (jm_proof a)) d))) (\<lambda>can.
            if \<not> can then ret result
            else andThen (ask (\<lambda>d. map_err (wrapf ''failed to check invitation usage'') (HasBeenUsedBy env (iv_id i) key d))) (\<lambda>used.
              if used then ret result
              else andThen (claim_use env (iv_id i)) (\<lambda>_.
                   andThen (promote env h key) (\<lambda>_.
                   andThen (record_use env h (iv_id i) key) (\<lambda>_. ret result)))))))
        )"

definition member_added_event :: "env \<Rightarrow> invitation_row \<Rightarrow> account \<Rightarrow> string \<Rightarrow> event" where
  "member_added_event env i acct key =
     \<lparr>ev_id = fresh_uuid env, ev_created_at = now env, ev_application_id = iv_application_id i, ev_sequence = 0,
      ev_type = EventTypeMemberAdded, ev_creator = key, ev_version = 0,
      ev_data = Some ([(''applicationId'', GStr (iv_application_id i)), (''memberPublicKey'', GStr key),
         (''userDisplayName'', GStr (u_username acct)), (''role'', GStr (iv_role i)), (''inviteId'', GStr (iv_id i)),
         (''version'', GInt 1)]
         @ (case ac_avatar acct of None \<Rightarrow> [] | Some av \<Rightarrow> [(''userAvatarStorageId'', GStr av)])
         @ (case iv_duration_hours i of None \<Rightarrow> []
            | Some n \<Rightarrow> [(''membershipExpiresAt'', GInt64 (now env + n * 3600))])),
      ev_space_id = null_string (iv_space_id i)\<rparr>"

text \<open>The use is spent before the event is produced, and is not given back when that fails.\<close>

definition add_member :: "InvitationService \<Rightarrow> env \<Rightarrow> host \<Rightarrow> admitted \<Rightarrow> account \<Rightarrow> bool \<Rightarrow> JoinResult act" where
  "add_member s env h a acct held =
     (let i = jm_invite a; key = jp_public_key (jm_proof a)
      in andThen (if held then ret () else claim_use env (iv_id i)) (\<lambda>_.
         andThen (attempt (produce (is_events s) env (member_added_event env i acct key)) (\<lambda>r.
                    lift (map_err (wrapf ''failed to produce member_added event'') r))) (\<lambda>produced.
         andThen (record_use env h (iv_id i) key) (\<lambda>_.
         andThen (ask (\<lambda>d. Inr (canPromote env i acct (jp_device (jm_proof a)) d))) (\<lambda>can.
         andThen (if can then attempt (promote env h key) (\<lambda>_. ret ()) else ret ()) (\<lambda>_.
         ret \<lparr>jo_application_id = iv_application_id i, jo_member_id = [], jo_new_member = True,
              jo_last_event_id = ev_id produced\<rparr>))))))"

definition Join :: "InvitationService \<Rightarrow> env \<Rightarrow> host \<Rightarrow> JoinRequest \<Rightarrow> JoinResult act" where
  "Join s env h jr =
     (let name = NormalizeDeviceName (jr_device_name jr)
      in andThen (ask (join_checks s env h jr)) (\<lambda>a.
         andThen (join_account s env h jr a name) (\<lambda>(acct, held, member).
         if member then rejoin env h a acct held else add_member s env h a acct held)))"

end
