(* ===== verification/AccountFrame.thy ===== *)
theory AccountFrame
  imports SystemLaws Join
begin

section \<open>What an event leaves alone\<close>

text \<open>
  The tables of accounts, devices, invitations, subscriptions, storage and the space itself are outside what the
  execution of an event touches, whatever its outcome. The interface of the edit batch is
  interpreted with this frame, as it is for the frame of the log.
\<close>

definition sides where
  "sides d = ((t_invitations d, t_invitation_uses d, t_users d, t_spaces d, t_devices d),
     (t_agent_tokens d, t_owner_claim d, t_subscriptions d, t_digest_pending d, t_storage d, t_chunks d),
     (t_profile d, t_bundle d, t_vapid d))"

lemma sides_drop [simp]:
  "sides (drop_comps p d) = sides d" "sides (drop_groups q d) = sides d"
  by (simp_all add: sides_def drop_comps_def drop_groups_def Let_def)

lemma sides_update [simp]:
  "sides (d\<lparr>t_apps := a\<rparr>) = sides d" "sides (d\<lparr>t_groups := g\<rparr>) = sides d" "sides (d\<lparr>t_comps := c\<rparr>) = sides d"
  "sides (d\<lparr>t_members := m\<rparr>) = sides d" "sides (d\<lparr>t_events := e\<rparr>) = sides d" "sides (d\<lparr>next_ordinal := n\<rparr>) = sides d"
  "sides (d\<lparr>t_reminders := r\<rparr>) = sides d"
  by (simp_all add: sides_def)

interpretation side: edit_contract env appID "\<lambda>d. db_ok d \<and> sides d = sides d0" for env appID d0
proof
  show "keys_ok d" if "db_ok d \<and> sides d = sides d0" for d using that by (simp add: db_ok_def)
next
  fix d d1 cid v
  assume "db_ok d \<and> sides d = sides d0" "UpdateComponentData env cid v d = Inr d1"
  then show "db_ok d1 \<and> sides d1 = sides d0"
    using UpdateComponentData_ok
    by (fastforce simp: UpdateComponentData_def update_comps_def result_simps)
next
  fix d d1 cid n
  assume "db_ok d \<and> sides d = sides d0" "UpdateComponentIndex env cid n d = Inr d1"
  then show "db_ok d1 \<and> sides d1 = sides d0"
    using UpdateComponentIndex_ok
    by (fastforce simp: UpdateComponentIndex_def update_comps_def result_simps)
next
  fix d d1 cid
  assume "db_ok d \<and> sides d = sides d0" "DeleteComponent env cid d = Inr d1"
  then show "db_ok d1 \<and> sides d1 = sides d0"
    using DeleteComponent_ok by (fastforce simp: DeleteComponent_def result_simps)
next
  fix d d1 c
  assume "db_ok d \<and> sides d = sides d0" "CreateComponent env c d = Inr d1"
  then show "db_ok d1 \<and> sides d1 = sides d0"
    using CreateComponent_ok by (fastforce simp: CreateComponent_def Let_def result_simps)
next
  fix d d1 gid n
  assume "db_ok d \<and> sides d = sides d0" "UpdateComponentGroupIndex env gid n d = Inr d1"
  then show "db_ok d1 \<and> sides d1 = sides d0"
    using UpdateComponentGroupIndex_ok
    by (fastforce simp: UpdateComponentGroupIndex_def update_groups_def result_simps)
next
  fix d d1 gid nm n
  assume "db_ok d \<and> sides d = sides d0" "UpdateComponentGroup env gid nm n d = Inr d1"
  then show "db_ok d1 \<and> sides d1 = sides d0"
    using UpdateComponentGroup_ok
    by (fastforce simp: UpdateComponentGroup_def update_groups_def result_simps)
next
  fix d d1 gid
  assume "db_ok d \<and> sides d = sides d0" "DeleteComponentGroup env gid d = Inr d1"
  then show "db_ok d1 \<and> sides d1 = sides d0"
    using DeleteComponentGroup_ok by (fastforce simp: DeleteComponentGroup_def result_simps)
next
  fix d d1 g
  assume "db_ok d \<and> sides d = sides d0" "CreateComponentGroup env g d = Inr d1"
  then show "db_ok d1 \<and> sides d1 = sides d0"
    using CreateComponentGroup_ok by (fastforce simp: CreateComponentGroup_def result_simps)
qed

lemma batch_sides: "db_ok d \<Longrightarrow> executeApplicationAfterEditModeChanged env ev d = Inr d1 \<Longrightarrow> sides d1 = sides d"
  using side.batch_keeps by blast

lemma data_changed_sides: "db_ok d \<Longrightarrow> executeComponentDataChanged env ev d = Inr d1 \<Longrightarrow> sides d1 = sides d"
  using side.data_changed_keeps by blast

lemma update_apps_sides: "update_apps env site p f e d = Inr d1 \<Longrightarrow> sides d1 = sides d"
  by (auto simp: update_apps_def result_simps)

lemma executeEvent_sides:
  assumes "executeEvent s env ev d = Inr d1" and "db_ok d"
  shows "sides d1 = sides d"
proof (cases "ev_type ev")
  case EventTypeMemberAdded
  with assms show ?thesis
    by (auto simp: executeEvent_def executeMemberAdded_def CreateMember_def Let_def result_simps)
next
  case EventTypeMemberRemoved
  with assms show ?thesis
    by (auto simp: executeEvent_def executeMemberRemoved_def DeleteMember_def Let_def result_simps split: sum.splits if_splits)
next
  case EventTypeMemberRoleChanged
  with assms show ?thesis
    by (auto simp: executeEvent_def executeMemberRoleChanged_def UpdateMemberRole_def Let_def result_simps
        split: sum.splits if_splits)
next
  case EventTypeApplicationDeleted
  with assms show ?thesis
    by (auto simp: executeEvent_def executeApplicationDeleted_def repoDeleteApplication_def result_simps
        elim!: update_apps_sides)
next
  case EventTypeApplicationDataChanged
  with assms show ?thesis
    by (auto simp: executeEvent_def executeApplicationDataChanged_def UpdateApplicationMetadata_def Let_def
        result_simps elim!: update_apps_sides)
next
  case EventTypeComponentDataChanged
  with assms show ?thesis by (auto simp: executeEvent_def intro: data_changed_sides)
next
  case EventTypeApplicationAfterEditModeChanged
  with assms show ?thesis by (auto simp: executeEvent_def intro: batch_sides)
next
  case EventTypeReminderChanged
  then have "reminders_only d d1"
    using assms ApplyRuleChange_only(1)
    by (auto simp: executeEvent_def executeReminderChanged_def reminders_only_def split: if_splits option.splits)
  then show ?thesis by (cases d; cases d1) (simp add: reminders_only_def sides_def)
qed (use assms in \<open>simp_all add: executeEvent_def executeUserSettingsChanged_def\<close>)

lemma updateAppVersion_sides: "updateAppVersion env ev d = (d1, b) \<Longrightarrow> sides d1 = sides d"
  by (auto simp: updateAppVersion_def UpdateLastSequence_def update_apps_def result_simps split: if_splits sum.splits)

lemma CreateEvent_sides: "CreateEvent env ev d = Inr (e, d1) \<Longrightarrow> sides d1 = sides d"
  using CreateEvent_shape(3) [of env ev d e d1] by simp

lemma finish_event_sides:
  assumes run: "finish_event s env e sq ag d = (d1, r, ns)" and ok: "db_ok d"
  shows "sides d1 = sides d"
proof -
  obtain r1 where p: "persistAndApply s env e sq d = (d1, r1)"
    using run by (auto simp: finish_event_def split: prod.splits sum.splits)
  from p show ?thesis
  proof (cases rule: persist_cases)
    case (undone e0 ev1 d2)
    have "d1 = d\<lparr>next_ordinal := next_ordinal d1, t_reminders := t_reminders d1\<rparr>"
      using run_event_undone [OF undone(3) ok] undone(4) by (simp add: untouched_def)
    then show ?thesis by (metis sides_update(6,7))
  next
    case (fresh stored)
    then obtain ev1 d2 d3 where c: "CreateEvent env ev1 d = Inr (stored, d2)" and x: "executeEvent s env stored d2 = Inr d3"
      and up: "if sq then updateAppVersion env stored d3 = (d1, False) else d1 = d3"
      by (auto simp: fresh_run_def)
    have "sides d3 = sides d"
      using executeEvent_sides [OF x CreateEvent_ok [OF c ok]] CreateEvent_sides [OF c] by simp
    then show ?thesis using up updateAppVersion_sides by (cases sq) auto
  qed simp_all
qed

lemma ProduceEvent_sides: "ProduceEvent s env ev d = (d1, r, ns) \<Longrightarrow> db_ok d \<Longrightarrow> sides d1 = sides d"
  by (auto simp: ProduceEvent_def Let_def dest: finish_event_sides split: option.splits if_splits)

lemma ProduceEvent_ok: "ProduceEvent s env ev d = (d1, r, ns) \<Longrightarrow> db_ok d \<Longrightarrow> db_ok d1"
  using safe_ProduceEvent by (auto simp: safe_def)

end
