(* ===== verification/AccountLaws.thy ===== *)
theory AccountLaws
  imports AccountFrame
begin

section \<open>The invariant of accounts, devices and invitations\<close>

text \<open>
  What every operation of the account and invitation packages keeps, for every pattern of database
  failures: keys are unique, a device has an account, the one owner is the one who claimed the
  space, names with a password are distinct, the escrow of an account bound to this space is
  there, a refresh token belongs to a live agent, and an invitation is used no more often than it
  may be. The lemmas \<open>good_ops\<close> say so of each statement, the rules of \<open>table_relation\<close> compose them.
\<close>

named_theorems good_ops "statements that keep the invariants of the process"

subsection \<open>The invariant\<close>

definition uses_ok :: "invitation_row \<Rightarrow> bool" where
  "uses_ok i \<longleftrightarrow> 0 \<le> iv_used_count i \<and> (case iv_max_uses i of None \<Rightarrow> True | Some m \<Rightarrow> iv_used_count i \<le> m)"

definition escrow_ok :: "string \<Rightarrow> user_row \<Rightarrow> bool" where
  "escrow_ok own u \<longleftrightarrow> (us_binding_sub u = own \<longrightarrow> us_account_key u \<noteq> None)"

definition users_ok :: "(string \<Rightarrow> string) \<Rightarrow> string \<Rightarrow> db \<Rightarrow> bool" where
  "users_ok low own d \<longleftrightarrow> distinct (user_keys d) \<and> distinct (password_names low (t_users d))
     \<and> (\<forall>u \<in> set (t_users d). escrow_ok own u
          \<and> (us_role u = RoleOwner \<longrightarrow> us_public_key u \<in> fst ` set (t_owner_claim d)))
     \<and> length (t_owner_claim d) \<le> 1"

definition devices_ok :: "db \<Rightarrow> bool" where
  "devices_ok d \<longleftrightarrow> distinct (map dv_public_key (t_devices d)) \<and> (\<forall>v \<in> set (t_devices d). dv_user v \<in> set (user_keys d))"

text \<open>The device of a refresh token is a live agent's.\<close>

definition token_ok :: "db \<Rightarrow> agent_token_row \<Rightarrow> bool" where
  "token_ok d a \<longleftrightarrow> (\<exists>v \<in> set (t_devices d). dv_public_key v = at_device a \<and> dv_kind v = DeviceKindAgent \<and> dv_revoked_at v = None)"

definition accounts_ok :: "(string \<Rightarrow> string) \<Rightarrow> string \<Rightarrow> db \<Rightarrow> bool" where
  "accounts_ok low own d \<longleftrightarrow> users_ok low own d \<and> devices_ok d \<and> (\<forall>a \<in> set (t_agent_tokens d). token_ok d a)
     \<and> tokens_unique (t_agent_tokens d)
     \<and> (\<forall>i \<in> set (t_invitations d). uses_ok i \<and> IsGrantable (iv_role i))"

text \<open>The other half of the tables, which only the event pipeline and the application service change.\<close>

definition core where
  "core d = ((t_apps d, t_groups d, t_comps d, t_members d), (t_events d, next_ordinal d, t_reminders d))"

lemma core_update [simp]:
  "core (d\<lparr>t_invitations := a\<rparr>) = core d" "core (d\<lparr>t_invitation_uses := b\<rparr>) = core d" "core (d\<lparr>t_users := c\<rparr>) = core d"
  "core (d\<lparr>t_spaces := e\<rparr>) = core d" "core (d\<lparr>t_devices := f\<rparr>) = core d" "core (d\<lparr>t_agent_tokens := g\<rparr>) = core d"
  "core (d\<lparr>t_owner_claim := i\<rparr>) = core d" "core (d\<lparr>t_subscriptions := j\<rparr>) = core d" "core (d\<lparr>t_digest_pending := k\<rparr>) = core d"
  "core (drop_invitations p d) = core d" "core (drop_subscriptions q d) = core d"
  "core (update_devices r s d) = core d"
  by (simp_all add: core_def drop_invitations_def drop_subscriptions_def update_devices_def Let_def)

lemma safe_core: "core d1 = core d \<Longrightarrow> safe d d1"
  by (auto simp: core_def safe_def db_ok_def keys_ok_def refs_ok_def roles_ok_def log_ok_def app_ids_def group_ids_def
      event_ids_def one_owner_def numbered_def seqs_ok_def high_water_def last_seq_def)

definition good :: "(string \<Rightarrow> string) \<Rightarrow> string \<Rightarrow> db \<Rightarrow> db \<Rightarrow> bool" where
  "good low own d d1 \<longleftrightarrow> safe d d1 \<and> (db_ok d \<longrightarrow> accounts_ok low own d \<longrightarrow> accounts_ok low own d1)"

lemma good_refl [simp]: "good low own d d"
  by (simp add: good_def)

lemma good_trans: "good low own a b \<Longrightarrow> good low own b c \<Longrightarrow> good low own a c"
  unfolding good_def using safe_trans by (auto simp: safe_def)

lemma goodI: "core d1 = core d \<Longrightarrow> (accounts_ok low own d \<Longrightarrow> accounts_ok low own d1) \<Longrightarrow> good low own d d1"
  using safe_core by (auto simp: good_def)

text \<open>The invariant reads only the tables of accounts and invitations.\<close>

lemma accounts_ok_sides: "sides d1 = sides d \<Longrightarrow> accounts_ok low own d1 = accounts_ok low own d"
  by (simp add: sides_def accounts_ok_def users_ok_def devices_ok_def token_ok_def user_keys_def)

subsection \<open>Accounts\<close>

lemma update_users_shape:
  assumes "update_users h p f key d = Inr (hit, d1)"
  shows "d1 = d\<lparr>t_users := update_where (\<lambda>u. us_public_key u = key \<and> p u) f (t_users d)\<rparr>"
    "hit = list_ex (\<lambda>u. us_public_key u = key \<and> p u) (t_users d)"
    "hit \<Longrightarrow> distinct (password_names (sql_lower h) (t_users d1))"
  using assms by (auto simp: update_users_def Let_def result_simps)

lemma update_where_none: "\<not> list_ex p xs \<Longrightarrow> update_where p f xs = xs"
  by (auto simp: update_where_def list_ex_iff intro: map_idI)

lemma update_users_good:
  assumes u: "update_users h p f key d = Inr (hit, d1)" and low: "sql_lower h = low"
    and key: "\<And>u. us_public_key (f u) = us_public_key u"
    and role: "\<And>u. us_role (f u) = RoleOwner \<Longrightarrow> us_role u = RoleOwner"
    and esc: "\<And>u. p u \<Longrightarrow> escrow_ok own u \<Longrightarrow> escrow_ok own (f u)"
  shows "good low own d d1"
proof (rule goodI)
  note s = update_users_shape [OF u]
  show "core d1 = core d" by (simp add: s(1))
  assume ok: "accounts_ok low own d"
  have keys: "user_keys d1 = user_keys d"
    by (simp add: user_keys_def s(1) map_update_where key)
  have "distinct (password_names low (t_users d1))"
    using s ok low by (cases hit) (simp_all add: accounts_ok_def users_ok_def update_where_none)
  moreover have "escrow_ok own u \<and> (us_role u = RoleOwner \<longrightarrow> us_public_key u \<in> fst ` set (t_owner_claim d1))"
    if "u \<in> set (t_users d1)" for u
    using that ok role esc key by (force simp: s(1) accounts_ok_def users_ok_def in_update_where)
  ultimately show "accounts_ok low own d1"
    using ok keys by (simp add: accounts_ok_def users_ok_def devices_ok_def token_ok_def s(1))
qed

lemma insert_user_good:
  assumes "insert_user h u d = Inr d1" and "sql_lower h = low" and "escrow_ok own u" and "us_role u \<noteq> RoleOwner"
  shows "good low own d d1"
  using assms by (intro goodI)
    (auto simp: insert_user_def result_simps accounts_ok_def users_ok_def devices_ok_def token_ok_def user_keys_def)

lemma new_user_escrow [simp]: "own \<noteq> [] \<Longrightarrow> escrow_ok own (new_user_row key name role t)"
  by (simp add: escrow_ok_def new_user_row_def)

lemma new_user_sel [simp]: "us_role (new_user_row key name role t) = role" "us_public_key (new_user_row key name role t) = key"
  by (simp_all add: new_user_row_def)

lemma CreateUser_good [good_ops]:
  assumes "CreateUser env h acct d = Inr d1" and "sql_lower h = low" and "own \<noteq> []" and "u_role acct \<noteq> RoleOwner"
  shows "good low own d d1"
proof -
  have "insert_user h (new_user_row (u_public_key acct) (u_username acct) (u_role acct) (ac_created_at acct)) d = Inr d1"
    using assms(1) by (simp add: CreateUser_def result_simps)
  then show ?thesis by (rule insert_user_good) (use assms(2-4) in simp_all)
qed

lemma update_user_good:
  assumes "update_user env h site msg f key d = Inr d1" and "sql_lower h = low"
    and "\<And>u. us_public_key (f u) = us_public_key u \<and> us_role (f u) = us_role u \<and> us_binding_sub (f u) = us_binding_sub u
      \<and> us_account_key (f u) = us_account_key u"
  shows "good low own d d1"
  using assms by (auto simp: update_user_def result_simps escrow_ok_def intro!: update_users_good [of h "\<lambda>_. True" f key])

lemma UpdateUserRole_good [good_ops]:
  assumes "UpdateUserRole env h key role d = Inr d1" and "sql_lower h = low" and "role \<noteq> RoleOwner"
  shows "good low own d d1"
  using assms by (auto simp: UpdateUserRole_def result_simps escrow_ok_def
      intro!: update_users_good [of h "\<lambda>_. True" "\<lambda>u. u\<lparr>us_role := role\<rparr>" key])

lemma UpdateAvatarStorageID_good [good_ops]:
  "UpdateAvatarStorageID env h key av d = Inr d1 \<Longrightarrow> sql_lower h = low \<Longrightarrow> good low own d d1"
  by (auto simp: UpdateAvatarStorageID_def result_simps escrow_ok_def
      intro!: update_users_good [of h "\<lambda>_. True" "\<lambda>u. u\<lparr>us_avatar := av\<rparr>" key])

lemma UpdateUsername_good [good_ops]:
  "UpdateUsername env h key name d = Inr d1 \<Longrightarrow> sql_lower h = low \<Longrightarrow> good low own d d1"
  by (auto simp: UpdateUsername_def result_simps escrow_ok_def
      intro!: update_users_good [of h "\<lambda>_. True" "\<lambda>u. u\<lparr>us_username := name\<rparr>" key])

lemma UpdateTimezone_good [good_ops]:
  "UpdateTimezone env h key tz d = Inr d1 \<Longrightarrow> sql_lower h = low \<Longrightarrow> good low own d d1"
  unfolding UpdateTimezone_def by (erule update_user_good) auto

lemma UpdateLocale_good [good_ops]:
  "UpdateLocale env h key loc d = Inr d1 \<Longrightarrow> sql_lower h = low \<Longrightarrow> good low own d d1"
  unfolding UpdateLocale_def by (erule update_user_good) auto

lemma UpdateNotificationsSeenAt_good [good_ops]:
  "UpdateNotificationsSeenAt env h key t d = Inr d1 \<Longrightarrow> sql_lower h = low \<Longrightarrow> good low own d d1"
  unfolding UpdateNotificationsSeenAt_def by (erule update_user_good) auto

lemma good_digests [simp]: "good low own d (d\<lparr>t_digest_pending := g\<rparr>)"
  by (rule goodI) (simp_all add: accounts_ok_def users_ok_def devices_ok_def token_ok_def user_keys_def)

lemma UpdateNotifyMode_good [good_ops]:
  assumes run: "UpdateNotifyMode env h key mode d = Inr d1" and low: "sql_lower h = low"
  shows "good low own d d1"
proof -
  obtain d2 where u: "update_user env h ''UpdateNotifyMode.UPDATE'' ''failed to update notify mode''
           (\<lambda>u. u\<lparr>us_notify_mode := mode,
                 us_digest_sent_at := (if mode = NotifyModeDaily \<and> us_notify_mode u \<noteq> NotifyModeDaily then now env
                   else us_digest_sent_at u)\<rparr>) key d = Inr d2"
    and d1: "d1 = d2 \<or> (\<exists>g. d1 = d2\<lparr>t_digest_pending := g\<rparr>)"
    using run by (auto simp: UpdateNotifyMode_def result_simps split: option.splits if_splits)
  have "good low own d d2" by (rule update_user_good [OF u low]) auto
  then show ?thesis using d1 good_trans by auto
qed

text \<open>A binding to this space needs the escrow, and one to another space clears it.\<close>

lemma AcceptBinding_good [good_ops]:
  assumes "AcceptBinding env h key jws iat sub own d = Inr (stored, ssub, upd, d1)" and "sql_lower h = low"
  shows "good low own d d1"
proof -
  obtain hit where "update_users h (binding_accepted iat sub own) (with_binding jws iat sub own) key d = Inr (hit, d1)"
    using assms(1) by (auto simp: AcceptBinding_def result_simps split: if_splits option.splits)
  then show ?thesis
    by (rule update_users_good [OF _ assms(2)]) (auto simp: with_binding_def binding_accepted_def escrow_ok_def)
qed

lemma SetPasswordCredentials_good [good_ops]:
  assumes "SetPasswordCredentials env h key v hn kb sb own d = Inr d1" and "sql_lower h = low"
  shows "good low own d d1"
proof -
  obtain hit where "update_users h (\<lambda>u. kb \<noteq> [] \<or> us_binding_sub u \<noteq> own)
           (\<lambda>u. u\<lparr>us_verifier := Some v,
                 us_handle := Some (if us_verifier u = None then hn
                    else (case us_handle u of Some x \<Rightarrow> x | None \<Rightarrow> hn)),
                 us_account_key := nullif kb, us_state := nullif sb\<rparr>) key d = Inr (hit, d1)"
    using assms(1) by (auto simp: SetPasswordCredentials_def result_simps)
  then show ?thesis
    by (rule update_users_good [OF _ assms(2)]) (auto simp: escrow_ok_def nullif_def)
qed

lemma repoUpdateUserState_good [good_ops]:
  "repoUpdateUserState env h key b d = Inr d1 \<Longrightarrow> sql_lower h = low \<Longrightarrow> good low own d d1"
  by (auto simp: repoUpdateUserState_def result_simps escrow_ok_def
      intro!: update_users_good [of h "\<lambda>_. True" "\<lambda>u. u\<lparr>us_state := nullif b\<rparr>" key])

lemma repoClearEscrow_good [good_ops]:
  assumes "repoClearEscrow env h key own d = Inr d1" and "sql_lower h = low"
  shows "good low own d d1"
proof -
  obtain hit where "update_users h (\<lambda>u. us_binding_sub u \<noteq> own)
         (\<lambda>u. u\<lparr>us_account_key := None, us_state := None, us_verifier := None\<rparr>) key d = Inr (hit, d1)"
    using assms(1) by (auto simp: repoClearEscrow_def result_simps)
  then show ?thesis by (rule update_users_good [OF _ assms(2)]) (auto simp: escrow_ok_def)
qed

subsection \<open>The claim, registration and devices\<close>

lemma insert_device_shape:
  assumes "insert_device v d = Inr d1"
  shows "d1 = d\<lparr>t_devices := t_devices d @ [v]\<rparr>" "dv_public_key v \<notin> dv_public_key ` set (t_devices d)"
    "dv_user v \<in> set (user_keys d)"
  using assms by (auto simp: insert_device_def result_simps)

lemma insert_device_good:
  assumes "insert_device v d = Inr d1"
  shows "good low own d d1"
  using insert_device_shape [OF assms]
  by (intro goodI) (auto simp: accounts_ok_def users_ok_def devices_ok_def token_ok_def user_keys_def)

lemma insert_user_shape:
  assumes "insert_user h u d = Inr d1"
  shows "d1 = d\<lparr>t_users := t_users d @ [u]\<rparr>" "us_public_key u \<notin> set (user_keys d)"
    "distinct (password_names (sql_lower h) (t_users d @ [u]))"
  using assms by (auto simp: insert_user_def result_simps)

lemma repoRegisterUser_good [good_ops]:
  assumes run: "repoRegisterUser env h key name cr dkey dname t d = Inr d1" and low: "sql_lower h = low" and own: "own \<noteq> []"
  shows "good low own d d1"
proof -
  obtain u d2 where u: "insert_user h u d = Inr d2" "us_role u = RoleUser" "us_binding_sub u = []"
    and v: "insert_device (new_device_row dkey key dname t DeviceKindHuman) d2 = Inr d1"
    using run by (auto simp: repoRegisterUser_def result_simps new_user_row_def)
  have "good low own d d2" using u own by (intro insert_user_good [OF u(1) low]) (simp_all add: escrow_ok_def)
  then show ?thesis using insert_device_good [OF v] good_trans by blast
qed

lemma repoClaimOwner_shape:
  assumes run: "repoClaimOwner env h key name cr dkey dname t d = Inr d1"
  shows "\<exists>u. d1 = d\<lparr>t_users := t_users d @ [u], t_devices := t_devices d @ [new_device_row dkey key dname t DeviceKindHuman],
        t_owner_claim := [(key, t)]\<rparr> \<and> us_public_key u = key \<and> us_binding_sub u = [] \<and> key \<notin> set (user_keys d)
      \<and> distinct (password_names (sql_lower h) (t_users d @ [u])) \<and> dkey \<notin> dv_public_key ` set (t_devices d)
      \<and> t_owner_claim d = []"
proof -
  let ?u = "(new_user_row key name RoleOwner t)\<lparr>us_verifier := nullif (cr_verifier cr), us_handle := nullif (cr_handle cr),
              us_account_key := nullif (cr_key_blob cr), us_state := nullif (cr_state_blob cr)\<rparr>"
  obtain d2 d3 where u: "insert_user h ?u d = Inr d2"
    and v: "insert_device (new_device_row dkey key dname t DeviceKindHuman) d2 = Inr d3"
    and c: "t_owner_claim d3 = []" "d1 = d3\<lparr>t_owner_claim := [(key, t)]\<rparr>"
    using run by (auto simp: repoClaimOwner_def result_simps)
  have "us_public_key ?u = key" "us_binding_sub ?u = []" by (simp_all add: new_user_row_def)
  then show ?thesis
    using insert_user_shape [OF u] insert_device_shape [OF v] c by (intro exI [of _ ?u]) (simp add: new_device_row_def)
qed

lemma repoClaimOwner_good [good_ops]:
  assumes run: "repoClaimOwner env h key name cr dkey dname t d = Inr d1" and low: "sql_lower h = low" and own: "own \<noteq> []"
  shows "good low own d d1"
proof -
  obtain u where d1: "d1 = d\<lparr>t_users := t_users d @ [u], t_devices := t_devices d @ [new_device_row dkey key dname t DeviceKindHuman],
        t_owner_claim := [(key, t)]\<rparr>" and u: "us_public_key u = key" "us_binding_sub u = []" "key \<notin> set (user_keys d)"
      "distinct (password_names (sql_lower h) (t_users d @ [u]))" "dkey \<notin> dv_public_key ` set (t_devices d)"
      "t_owner_claim d = []"
    using repoClaimOwner_shape [OF run] by blast
  show ?thesis
    unfolding d1 using u low own
    by (intro goodI) (auto simp: accounts_ok_def users_ok_def devices_ok_def token_ok_def user_keys_def escrow_ok_def
        new_device_row_def)
qed

lemma EnsureDevice_good [good_ops]: "EnsureDevice env dkey key name t d = Inr d1 \<Longrightarrow> good low own d d1"
  using insert_device_good by (auto simp: EnsureDevice_def result_simps split: if_splits)

lemma update_devices_good:
  assumes "\<And>v. p v \<Longrightarrow> dv_public_key (f v) = dv_public_key v \<and> dv_user (f v) = dv_user v \<and> dv_kind (f v) = dv_kind v
      \<and> (dv_revoked_at v = None \<longrightarrow> dv_revoked_at (f v) = None)"
  shows "good low own d (update_devices p f d)"
proof (rule goodI)
  show "core (update_devices p f d) = core d" by simp
  assume ok: "accounts_ok low own d"
  have "token_ok (update_devices p f d) a" if t: "token_ok d a" for a
  proof -
    obtain v where "v \<in> set (t_devices d)" "dv_public_key v = at_device a" "dv_kind v = DeviceKindAgent" "dv_revoked_at v = None"
      using t by (auto simp: token_ok_def)
    moreover from this(1) have "(if p v then f v else v) \<in> set (update_where p f (t_devices d))"
      by (simp add: update_where_def)
    ultimately show ?thesis
      using assms unfolding token_ok_def update_devices_def
      by (intro bexI [of _ "if p v then f v else v"]) auto
  qed
  moreover have "map dv_public_key (update_where p f (t_devices d)) = map dv_public_key (t_devices d)"
    using assms by (intro map_update_where) blast
  moreover have "\<forall>v \<in> set (update_where p f (t_devices d)). dv_user v \<in> set (user_keys d)"
    using ok assms by (auto simp: accounts_ok_def devices_ok_def in_update_where)
  ultimately show "accounts_ok low own (update_devices p f d)"
    using ok by (auto simp: accounts_ok_def users_ok_def devices_ok_def update_devices_def user_keys_def)
qed

lemma ReviveDevice_good [good_ops]: "ReviveDevice env dkey key t d = Inr (b, d1) \<Longrightarrow> good low own d d1"
  by (auto simp: ReviveDevice_def result_simps intro!: update_devices_good)

lemma repoRenameDevice_good [good_ops]: "repoRenameDevice env dkey name d = Inr d1 \<Longrightarrow> good low own d d1"
  by (auto simp: repoRenameDevice_def result_simps intro!: update_devices_good)

lemma TouchDeviceLastSeen_good [good_ops]: "TouchDeviceLastSeen env dkey t d = Inr d1 \<Longrightarrow> good low own d d1"
  by (auto simp: TouchDeviceLastSeen_def result_simps intro!: update_devices_good)

lemma repoRevokeDevice_shape:
  assumes "repoRevokeDevice env dkey t d = Inr d1"
  shows "t_devices d1 = update_where (\<lambda>v. dv_public_key v = dkey) (\<lambda>v. v\<lparr>dv_revoked_at := Some t\<rparr>) (t_devices d)"
    "t_agent_tokens d1 = filter (\<lambda>a. at_device a \<noteq> dkey) (t_agent_tokens d)"
    "t_subscriptions d1 = filter (\<lambda>s. ps_device s \<noteq> dkey) (t_subscriptions d)"
    "t_users d1 = t_users d" "t_owner_claim d1 = t_owner_claim d" "t_invitations d1 = t_invitations d" "core d1 = core d"
  using assms by (auto simp: repoRevokeDevice_def result_simps update_devices_def drop_subscriptions_def Let_def core_def)

lemma unique_filter: "tokens_unique ts \<Longrightarrow> tokens_unique (filter p ts)"
  unfolding tokens_unique_def by (induction ts) (auto, metis image_eqI)

lemma repoRevokeDevice_good [good_ops]:
  assumes "repoRevokeDevice env dkey t d = Inr d1"
  shows "good low own d d1"
proof (rule goodI)
  note s = repoRevokeDevice_shape [OF assms]
  show "core d1 = core d" by (rule s(7))
  assume ok: "accounts_ok low own d"
  have keys: "map dv_public_key (t_devices d1) = map dv_public_key (t_devices d)"
    unfolding s(1) by (rule map_update_where) simp
  have "token_ok d1 a" if a: "a \<in> set (t_agent_tokens d1)" for a
  proof -
    have "a \<in> set (t_agent_tokens d)" "at_device a \<noteq> dkey" using a by (simp_all add: s(2))
    then obtain v where "v \<in> set (t_devices d)" "dv_public_key v = at_device a" "dv_kind v = DeviceKindAgent"
        "dv_revoked_at v = None" "dv_public_key v \<noteq> dkey"
      using ok by (auto simp: accounts_ok_def token_ok_def)
    then show ?thesis by (auto simp: token_ok_def s(1) in_update_where)
  qed
  moreover have "\<forall>v \<in> set (t_devices d1). dv_user v \<in> set (user_keys d)"
    using ok by (auto simp: s(1) accounts_ok_def devices_ok_def in_update_where)
  moreover have "tokens_unique (t_agent_tokens d1)"
    using ok unique_filter by (simp add: accounts_ok_def s(2))
  ultimately show "accounts_ok low own d1"
    using ok keys by (simp add: accounts_ok_def users_ok_def devices_ok_def user_keys_def s(4-6))
qed

subsection \<open>Agents\<close>

lemma createAgent_good [good_ops]:
  assumes "createAgent env dkey key name hash t ex d = Inr d1"
  shows "good low own d d1"
proof -
  let ?v = "new_device_row dkey key name t DeviceKindAgent"
  obtain d2 where v: "insert_device ?v d = Inr d2"
    and t: "d1 = d2\<lparr>t_agent_tokens := t_agent_tokens d2
        @ [\<lparr>at_device = dkey, at_hash = hash, at_prev_hash = None, at_expires_at = ex\<rparr>]\<rparr>"
    and uniq: "tokens_unique (t_agent_tokens d1)"
    using assms by (auto simp: createAgent_def Let_def result_simps)
  have "good low own d2 d1"
  proof (rule goodI)
    assume ok: "accounts_ok low own d2"
    have "?v \<in> set (t_devices d2)" using insert_device_shape(1) [OF v] by simp
    then have "token_ok d1 \<lparr>at_device = dkey, at_hash = hash, at_prev_hash = None, at_expires_at = ex\<rparr>"
      by (auto simp: token_ok_def t new_device_row_def intro!: bexI [of _ ?v])
    then show "accounts_ok low own d1"
      using ok uniq by (auto simp: t accounts_ok_def users_ok_def devices_ok_def token_ok_def user_keys_def)
  qed (simp add: t)
  then show ?thesis using insert_device_good [OF v] good_trans by blast
qed

lemma rotateRefreshToken_good [good_ops]:
  assumes "rotateRefreshToken env old new t ex d = Inr (dev, d1)"
  shows "good low own d d1"
  using assms
  by (intro goodI) (auto simp: rotateRefreshToken_def Let_def result_simps accounts_ok_def users_ok_def devices_ok_def
      token_ok_def user_keys_def in_update_where split: option.splits)

subsection \<open>Invitations and spaces\<close>

lemma invitations_good:
  assumes "\<And>i. i \<in> set is \<Longrightarrow> (\<forall>j \<in> set (t_invitations d). uses_ok j \<and> IsGrantable (iv_role j)) \<Longrightarrow> uses_ok i \<and> IsGrantable (iv_role i)"
  shows "good low own d (d\<lparr>t_invitations := is\<rparr>)"
  using assms by (intro goodI) (simp_all add: accounts_ok_def users_ok_def devices_ok_def token_ok_def user_keys_def)

lemma CreateInvitationRow_good [good_ops]:
  assumes "CreateInvitationRow env i d = Inr d1" and "uses_ok i" and "IsGrantable (iv_role i)"
  shows "good low own d d1"
  using assms by (auto simp: CreateInvitationRow_def result_simps intro!: invitations_good)

lemma good_uses [simp]: "good low own d (d\<lparr>t_invitation_uses := us\<rparr>)"
  by (rule goodI) (simp_all add: accounts_ok_def users_ok_def devices_ok_def token_ok_def user_keys_def)

lemma drop_invitations_good: "good low own d (drop_invitations p d)"
proof -
  have "drop_invitations p d = (d\<lparr>t_invitations := filter (\<lambda>i. \<not> p i) (t_invitations d)\<rparr>)
      \<lparr>t_invitation_uses := t_invitation_uses (drop_invitations p d)\<rparr>"
    by (simp add: drop_invitations_def Let_def)
  moreover have "good low own d (d\<lparr>t_invitations := filter (\<lambda>i. \<not> p i) (t_invitations d)\<rparr>)"
    by (rule invitations_good) auto
  ultimately show ?thesis using good_trans good_uses by metis
qed

lemma DeleteInvitation_good [good_ops]: "DeleteInvitation env iid d = Inr d1 \<Longrightarrow> good low own d d1"
  by (auto simp: DeleteInvitation_def result_simps intro: drop_invitations_good)

lemma update_invitations_good:
  assumes "\<And>i. p i \<Longrightarrow> uses_ok i \<Longrightarrow> uses_ok (f i)" and "\<And>i. iv_role (f i) = iv_role i"
  shows "good low own d (d\<lparr>t_invitations := update_where p f (t_invitations d)\<rparr>)"
  using assms by (intro invitations_good) (auto simp: in_update_where)

lemma IncrementUseCount_good [good_ops]: "IncrementUseCount env iid d = Inr d1 \<Longrightarrow> good low own d d1"
  by (auto simp: IncrementUseCount_def result_simps uses_ok_def claimable_def intro!: update_invitations_good
      split: option.splits)

lemma ReleaseUse_good [good_ops]: "ReleaseUse env iid d = Inr d1 \<Longrightarrow> good low own d d1"
  by (auto simp: ReleaseUse_def result_simps uses_ok_def intro!: update_invitations_good split: option.splits)

lemma RecordUse_good [good_ops]: "RecordUse env iid key uid d = Inr d1 \<Longrightarrow> good low own d d1"
  by (auto simp: RecordUse_def result_simps)

lemma good_spaces [simp]: "good low own d (d\<lparr>t_spaces := ss\<rparr>)"
  by (rule goodI) (simp_all add: accounts_ok_def users_ok_def devices_ok_def token_ok_def user_keys_def)

lemma repoCreateSpace_good [good_ops]: "repoCreateSpace env s d = Inr d1 \<Longrightarrow> good low own d d1"
  by (auto simp: repoCreateSpace_def result_simps)

lemma repoDeleteSpace_good [good_ops]: "repoDeleteSpace env sid d = Inr d1 \<Longrightarrow> good low own d d1"
  by (auto simp: repoDeleteSpace_def result_simps)

lemma repoUpdateSpace_good [good_ops]: "repoUpdateSpace env s d = Inr d1 \<Longrightarrow> good low own d d1"
  by (auto simp: repoUpdateSpace_def result_simps)

subsection \<open>The statements\<close>

text \<open>
  The writes of the account, space and invitation packages, one by one: a request is a sequence of
  them, and those of concurrent requests interleave. A statement that is a transaction in the code
  is one step; an event of the space itself is a transaction too.
\<close>

inductive account_stmt :: "(string \<Rightarrow> string) \<Rightarrow> string \<Rightarrow> db \<Rightarrow> db \<Rightarrow> bool" for low own where
  create_user: "CreateUser env h a d = Inr d1 \<Longrightarrow> sql_lower h = low \<Longrightarrow> own \<noteq> [] \<Longrightarrow> u_role a \<noteq> RoleOwner \<Longrightarrow> account_stmt low own d d1"
| set_role: "UpdateUserRole env h key role d = Inr d1 \<Longrightarrow> sql_lower h = low \<Longrightarrow> role \<noteq> RoleOwner \<Longrightarrow> account_stmt low own d d1"
| set_avatar: "UpdateAvatarStorageID env h key av d = Inr d1 \<Longrightarrow> sql_lower h = low \<Longrightarrow> account_stmt low own d d1"
| set_username: "UpdateUsername env h key name d = Inr d1 \<Longrightarrow> sql_lower h = low \<Longrightarrow> account_stmt low own d d1"
| set_timezone: "UpdateTimezone env h key tz d = Inr d1 \<Longrightarrow> sql_lower h = low \<Longrightarrow> account_stmt low own d d1"
| set_locale: "UpdateLocale env h key loc d = Inr d1 \<Longrightarrow> sql_lower h = low \<Longrightarrow> account_stmt low own d d1"
| set_seen: "UpdateNotificationsSeenAt env h key t d = Inr d1 \<Longrightarrow> sql_lower h = low \<Longrightarrow> account_stmt low own d d1"
| set_notify: "UpdateNotifyMode env h key mode d = Inr d1 \<Longrightarrow> sql_lower h = low \<Longrightarrow> account_stmt low own d d1"
| bind: "AcceptBinding env h key jws iat sub own d = Inr (stored, ssub, upd, d1) \<Longrightarrow> sql_lower h = low \<Longrightarrow> account_stmt low own d d1"
| set_password: "SetPasswordCredentials env h key v hn kb sb own d = Inr d1 \<Longrightarrow> sql_lower h = low \<Longrightarrow> account_stmt low own d d1"
| set_state: "repoUpdateUserState env h key b d = Inr d1 \<Longrightarrow> sql_lower h = low \<Longrightarrow> account_stmt low own d d1"
| clear_escrow: "repoClearEscrow env h key own d = Inr d1 \<Longrightarrow> sql_lower h = low \<Longrightarrow> account_stmt low own d d1"
| register: "repoRegisterUser env h key name cr dkey dname t d = Inr d1 \<Longrightarrow> sql_lower h = low \<Longrightarrow> own \<noteq> [] \<Longrightarrow> account_stmt low own d d1"
| claim: "repoClaimOwner env h key name cr dkey dname t d = Inr d1 \<Longrightarrow> sql_lower h = low \<Longrightarrow> own \<noteq> [] \<Longrightarrow> account_stmt low own d d1"
| ensure_device: "EnsureDevice env dkey key dname t d = Inr d1 \<Longrightarrow> account_stmt low own d d1"
| revive_device: "ReviveDevice env dkey key t d = Inr (b, d1) \<Longrightarrow> account_stmt low own d d1"
| rename_device: "repoRenameDevice env dkey name d = Inr d1 \<Longrightarrow> account_stmt low own d d1"
| touch_device: "TouchDeviceLastSeen env dkey t d = Inr d1 \<Longrightarrow> account_stmt low own d d1"
| revoke_device: "repoRevokeDevice env dkey t d = Inr d1 \<Longrightarrow> account_stmt low own d d1"
| create_agent: "createAgent env dkey key dname hash t ex d = Inr d1 \<Longrightarrow> account_stmt low own d d1"
| rotate: "rotateRefreshToken env old new t ex d = Inr (dkey, d1) \<Longrightarrow> account_stmt low own d d1"
| invite: "CreateInvitationRow env i d = Inr d1 \<Longrightarrow> uses_ok i \<Longrightarrow> IsGrantable (iv_role i) \<Longrightarrow> account_stmt low own d d1"
| uninvite: "DeleteInvitation env iid d = Inr d1 \<Longrightarrow> account_stmt low own d d1"
| claim_use: "IncrementUseCount env iid d = Inr d1 \<Longrightarrow> account_stmt low own d d1"
| release_use: "ReleaseUse env iid d = Inr d1 \<Longrightarrow> account_stmt low own d d1"
| record_use: "RecordUse env iid key uid d = Inr d1 \<Longrightarrow> account_stmt low own d d1"
| create_space: "repoCreateSpace env sp d = Inr d1 \<Longrightarrow> account_stmt low own d d1"
| delete_space: "repoDeleteSpace env sid d = Inr d1 \<Longrightarrow> account_stmt low own d d1"
| update_space: "repoUpdateSpace env sp d = Inr d1 \<Longrightarrow> account_stmt low own d d1"
| event: "ProduceEvent s env ev d = (d1, r, ns) \<Longrightarrow> account_stmt low own d d1"

text \<open>An event of the space keeps both halves.\<close>

lemma ProduceEvent_good [good_ops]: "ProduceEvent s env ev d = (d1, r, ns) \<Longrightarrow> good low own d d1"
  unfolding good_def using safe_ProduceEvent ProduceEvent_sides accounts_ok_sides by metis

lemma account_stmt_good: "account_stmt low own d d1 \<Longrightarrow> good low own d d1"
  by (erule account_stmt.cases) (simp, rule good_ops, assumption+)+

abbreviation stmts :: "(string \<Rightarrow> string) \<Rightarrow> string \<Rightarrow> db \<Rightarrow> db \<Rightarrow> bool" where
  "stmts low own \<equiv> (account_stmt low own)\<^sup>*\<^sup>*"

lemma stmts_one: "account_stmt low own d d1 \<Longrightarrow> stmts low own d d1"
  by (rule r_into_rtranclp)

lemmas stmt_ops = account_stmt.intros [THEN stmts_one]

lemma stmts_trans: "stmts low own a b \<Longrightarrow> stmts low own b c \<Longrightarrow> stmts low own a c"
  by (rule rtranclp_trans)

lemma stmts_good: "stmts low own d d1 \<Longrightarrow> good low own d d1"
  by (induction rule: rtranclp_induct) (auto intro: good_trans account_stmt_good)

end
