(* ===== verification/AccountSteps.thy ===== *)
theory AccountSteps
  imports AccountLaws
begin

section \<open>Handlers are sequences of statements\<close>

text \<open>
  Whatever it returns, each action and handler of the packages leaves the tables as some of the
  listed statements leave them; sequences of statements are a table relation, so the rules for
  actions compose them. The laws are stated for a host with this space's key and this database's
  case mapping, which do not change while the process runs.
\<close>

interpretation stmt: table_relation "stmts low own" for low own
  by unfold_locales auto

text \<open>What the handlers add to the rules for actions.\<close>

lemma steps_hguard: "(ok \<Longrightarrow> steps (stmts low own) k) \<Longrightarrow> steps (stmts low own) (hguard ok c m k)"
  by (simp add: steps_def hguard_def)

lemma steps_hsome: "(\<And>y. x = Some y \<Longrightarrow> steps (stmts low own) (k y)) \<Longrightarrow> steps (stmts low own) (hsome x c m k)"
  by (cases x) (simp_all add: steps_def hsome_def)

lemma steps_hresult: "(\<And>y. r = Inr y \<Longrightarrow> steps (stmts low own) (k y)) \<Longrightarrow> steps (stmts low own) (hresult r bad k)"
  by (cases r) (simp_all add: steps_def hresult_def)

lemma steps_answer: "steps (stmts low own) (answer c x)"
  by (simp add: steps_def answer_def)

lemma steps_hcall:
  assumes "steps (stmts low own) m" and "\<And>y. steps (stmts low own) (k y)"
  shows "steps (stmts low own) (hcall m bad k)"
  unfolding steps_def
proof
  fix n
  obtain r n1 where m: "m n = (r, n1)" by fastforce
  then show "stmts low own (nd_db n) (nd_db (snd (hcall m bad k n)))"
    using stepsD [OF assms(1) m] assms(2) stmts_trans by (cases r) (auto simp: hcall_def steps_def)
qed

lemma steps_hlogin:
  assumes "steps (stmts low own) m" and "\<And>y. steps (stmts low own) (k y)"
  shows "steps (stmts low own) (hlogin m k)"
  unfolding steps_def
proof
  fix n
  obtain r n1 where m: "m n = (r, n1)" by fastforce
  then show "stmts low own (nd_db n) (nd_db (snd (hlogin m k n)))"
    using stepsD [OF assms(1) m] assms(2) stmts_trans by (cases r) (auto simp: hlogin_def steps_def)
qed

lemmas hsteps_rules = steps_hguard steps_hsome steps_hresult steps_answer steps_hcall steps_hlogin

lemma steps_produce: "steps (stmts low own) (produce s env ev)"
  unfolding steps_def
proof
  fix n :: node
  obtain d1 r ns where p: "ProduceEvent s env ev (nd_db n) = (d1, r, ns)" by (metis prod_cases3)
  then show "stmts low own (nd_db n) (nd_db (snd (produce s env ev n)))"
    using stmt_ops(30) [OF p] by (simp add: produce_def)
qed

subsection \<open>Bindings and login\<close>

lemma steps_Accept: "sql_lower h = low \<Longrightarrow> space_public_key h = own \<Longrightarrow> steps (stmts low own) (Accept b env h acct jws c)"
  unfolding Accept_def
  by (intro stmt.steps_rules stmt.steps_exec_ret) (auto simp: result_simps dest: stmt_ops)

lemma steps_Admit:
  assumes "sql_lower h = low" and "space_public_key h = own"
  shows "steps (stmts low own) (Admit b env h acct dpk jws adm name)"
  unfolding Admit_def
  by (intro stmt.steps_rules steps_Accept stmt.steps_exec stmt.steps_exec_ret)
    (use assms in \<open>auto simp: result_simps intro: stmt_ops\<close>)

lemma consume_db [simp]: "nd_db (snd (consume env h c k n)) = nd_db n"
  by (simp add: consume_def split: option.split)

lemma markUsed_db [simp]: "nd_db (snd (markUsed env h jti ex n)) = nd_db n"
  by (simp add: markUsed_def)

lemma steps_verifyUserAuthJWS: "steps (stmts low own) (verifyUserAuthJWS env h jws ttl aud)"
  unfolding verifyUserAuthJWS_def Let_def
  by (intro stmt.steps_rules stmt.steps_same) simp_all

lemma steps_bindingLogin:
  assumes "sql_lower h = low" and "space_public_key h = own"
  shows "steps (stmts low own) (bindingLogin b env h k req)"
  unfolding steps_def bindingLogin_def Let_def
  using stepsD [OF steps_Admit [OF assms]] by (auto split: sum.splits option.splits prod.splits)

lemma steps_rosterLogin: "steps (stmts low own) (rosterLogin env h k)"
  by (auto simp: steps_def rosterLogin_def split: sum.splits option.splits bool.splits)

lemma steps_touch: "steps (stmts low own) (exec (TouchDeviceLastSeen env k t))"
  by (rule stmt.steps_exec) (rule stmt_ops)

lemma steps_UserAuth:
  assumes "sql_lower h = low" and "space_public_key h = own"
  shows "steps (stmts low own) (UserAuth b cf env h rq body header)"
  unfolding UserAuth_def
  by (intro hsteps_rules stmt.steps_rules steps_verifyUserAuthJWS steps_bindingLogin steps_rosterLogin steps_touch assms)

lemma steps_GetChallenge: "steps (stmts low own) (GetChallenge cf env h key)"
  by (auto simp: steps_def GetChallenge_def Let_def split: option.splits sum.splits)

lemma steps_touchThrottled: "steps (stmts low own) (touchDeviceLastSeenThrottled env h k)"
proof -
  have "stmts low own (nd_db n) (nd_db (snd (attempt (exec (TouchDeviceLastSeen env k (now env))) (\<lambda>_. ret ()) (n\<lparr>nd_touched := t\<rparr>))))" for n t
  proof -
    have "steps (stmts low own) (attempt (exec (TouchDeviceLastSeen env k (now env))) (\<lambda>_. ret ()))"
      by (intro stmt.steps_rules steps_touch)
    from this [unfolded steps_def, rule_format, of "n\<lparr>nd_touched := t\<rparr>"] show ?thesis by simp
  qed
  then show ?thesis by (simp add: steps_def touchDeviceLastSeenThrottled_def split: option.split)
qed

lemma steps_ValidateJWT: "steps (stmts low own) (ValidateJWT env h token)"
  unfolding ValidateJWT_def Let_def by (intro stmt.steps_rules steps_touchThrottled)

lemma steps_IssueTokens: "steps (stmts low own) (exec_ret (IssueTokens env h url key name))"
  by (rule stmt.steps_exec_ret) (auto simp: IssueTokens_def result_simps split_def intro: stmt_ops)

lemma steps_Refresh: "steps (stmts low own) (Refresh env h url token)"
  unfolding Refresh_def Let_def
  by (intro stmt.steps_rules stmt.steps_exec stmt.steps_exec_ret) (auto simp: result_simps intro: stmt_ops)

lemma CreateSpace_stmts: "CreateSpace env name key d = Inr (sp, d1) \<Longrightarrow> stmts low own d d1"
  by (auto simp: CreateSpace_def Let_def result_simps intro: stmt_ops)

lemma DeleteSpace_stmts: "DeleteSpace env sid d = Inr d1 \<Longrightarrow> stmts low own d d1"
  by (auto simp: DeleteSpace_def intro: stmt_ops)

lemma ClaimSpace_stmts: "ClaimSpace env sid key d = Inr (sp, d1) \<Longrightarrow> stmts low own d d1"
  by (auto simp: ClaimSpace_def Let_def result_simps split: option.splits intro: stmt_ops)

subsection \<open>Accounts and devices\<close>

lemma steps_SetPassword:
  "sql_lower h = low \<Longrightarrow> space_public_key h = own \<Longrightarrow> steps (stmts low own) (SetPassword env h vk u body)"
  unfolding SetPassword_def by (intro hsteps_rules stmt.steps_exec) (auto intro: stmt_ops)

lemma steps_GetSalt: "steps (stmts low own) (GetSalt env h secret raw)"
  by (simp add: steps_def GetSalt_def hresult_def answer_def Let_def split: sum.split)

lemma steps_UpdateUserState: "sql_lower h = low \<Longrightarrow> steps (stmts low own) (UpdateUserState env h u body)"
  unfolding UpdateUserState_def by (intro hsteps_rules stmt.steps_exec) (auto intro: stmt_ops)

lemma steps_ClearEscrow:
  "sql_lower h = low \<Longrightarrow> space_public_key h = own \<Longrightarrow> steps (stmts low own) (ClearEscrow env h u)"
  unfolding ClearEscrow_def by (intro hsteps_rules stmt.steps_exec) (auto intro: stmt_ops)

lemma steps_Register: "sql_lower h = low \<Longrightarrow> own \<noteq> [] \<Longrightarrow> steps (stmts low own) (Register re env h len body)"
  unfolding Register_def by (intro hsteps_rules stmt.steps_exec stmt.steps_pure) (auto intro: stmt_ops)

lemma steps_Claim: "sql_lower h = low \<Longrightarrow> own \<noteq> [] \<Longrightarrow> steps (stmts low own) (Claim oe env h body)"
  unfolding Claim_def Let_def
  by (intro hsteps_rules stmt.steps_rules stmt.steps_exec stmt.steps_exec_ret) (auto intro: stmt_ops CreateSpace_stmts DeleteSpace_stmts ClaimSpace_stmts)

lemma steps_verifyDelegation: "steps (stmts low own) (verifyDelegation env h jws dpk)"
  unfolding verifyDelegation_def Let_def by (intro stmt.steps_rules stmt.steps_same) simp_all

lemma steps_resolve: "steps (stmts low own) (resolveEnrollCredential env h vk req)"
  unfolding steps_def resolveEnrollCredential_def Let_def
  using stepsD [OF steps_verifyDelegation] by (auto split: sum.splits prod.splits)

lemma steps_enroll: "steps (stmts low own) (enroll_device env req acct via)"
  unfolding enroll_device_def by (intro hsteps_rules stmt.steps_rules stmt.steps_exec) (auto intro: stmt_ops)

lemma steps_RegisterDevice: "steps (stmts low own) (RegisterDevice env h vk body)"
proof -
  have "steps (stmts low own) (\<lambda>n. case resolveEnrollCredential env h vk req n of
          (Inl (code, msg), n1) \<Rightarrow> (Refuse code msg, n1)
        | (Inr (acct, via), n1) \<Rightarrow> enroll_device env req acct via n1)" for req
    unfolding steps_def
  proof
    fix n
    obtain r n1 where m: "resolveEnrollCredential env h vk req n = (r, n1)" by fastforce
    note pre = stepsD [OF steps_resolve m]
    show "stmts low own (nd_db n) (nd_db (snd (case resolveEnrollCredential env h vk req n of
          (Inl (code, msg), n1) \<Rightarrow> (Refuse code msg, n1)
        | (Inr (acct, via), n1) \<Rightarrow> enroll_device env req acct via n1)))"
    proof (cases r)
      case (Inl e)
      with pre m show ?thesis by (cases e) simp
    next
      case (Inr q)
      obtain acct via where q: "q = (acct, via)" by fastforce
      have "stmts low own (nd_db n1) (nd_db (snd (enroll_device env req acct via n1)))"
        using steps_enroll by (simp add: steps_def)
      then have "stmts low own (nd_db n) (nd_db (snd (enroll_device env req acct via n1)))" using stmts_trans [OF pre] by blast
      then show ?thesis using m Inr q by simp
    qed
  qed
  then show ?thesis unfolding RegisterDevice_def by (intro hsteps_rules)
qed

lemma steps_RevokeDevice: "steps (stmts low own) (RevokeDevice hk env u target)"
  unfolding RevokeDevice_def by (intro hsteps_rules stmt.steps_rules stmt.steps_exec) (auto intro: stmt_ops)

lemma steps_RenameDevice: "steps (stmts low own) (RenameDevice env u body)"
  unfolding RenameDevice_def by (intro hsteps_rules stmt.steps_rules stmt.steps_exec) (auto intro: stmt_ops)

lemma steps_PutBinding:
  "sql_lower h = low \<Longrightarrow> space_public_key h = own \<Longrightarrow> steps (stmts low own) (PutBinding b env h u body)"
  unfolding PutBinding_def by (intro hsteps_rules stmt.steps_rules steps_Accept)

subsection \<open>Spaces\<close>

lemma steps_epCreateSpace: "steps (stmts low own) (epCreateSpace env u body)"
  unfolding epCreateSpace_def by (intro hsteps_rules stmt.steps_exec_ret) (auto intro: stmt_ops CreateSpace_stmts DeleteSpace_stmts ClaimSpace_stmts)

lemma steps_epDeleteSpace: "steps (stmts low own) (epDeleteSpace env sid)"
  unfolding epDeleteSpace_def by (intro hsteps_rules stmt.steps_exec) (auto intro: stmt_ops CreateSpace_stmts DeleteSpace_stmts ClaimSpace_stmts)

lemma steps_epClaimSpace: "sql_lower h = low \<Longrightarrow> steps (stmts low own) (epClaimSpace env h u body)"
  unfolding epClaimSpace_def
  by (intro hsteps_rules stmt.steps_rules stmt.steps_exec stmt.steps_exec_ret) (auto intro: stmt_ops CreateSpace_stmts DeleteSpace_stmts ClaimSpace_stmts)

subsection \<open>Invitations\<close>

lemma new_invitation_ok:
  "check_options opts (bound_uses opts) = Inr () \<Longrightarrow> uses_ok (new_invitation env caller opts role (bound_uses opts))"
  by (auto simp: check_options_def new_invitation_def uses_ok_def Let_def result_simps split: option.splits)

lemma steps_andThen_lift: "(\<And>x. r = Inr x \<Longrightarrow> steps (stmts low own) (f x)) \<Longrightarrow> steps (stmts low own) (andThen (lift r) f)"
  by (cases r) (simp_all add: andThen_def lift_def steps_def)

lemma steps_andThen_require: "(b \<Longrightarrow> steps (stmts low own) (f ())) \<Longrightarrow> steps (stmts low own) (andThen (require b e) f)"
  by (cases b) (simp_all add: andThen_def require_def steps_def)

lemma steps_CreateInvitation: "steps (stmts low own) (CreateInvitation s env h u opts)"
proof -
  have row: "steps (stmts low own) (exec (\<lambda>d. map_err w (CreateInvitationRow env (new_invitation env caller opts role (bound_uses opts)) d)))"
    if "check_options opts (bound_uses opts) = Inr y" "IsGrantable role" for caller role y w
    using that new_invitation_ok [of opts env caller role]
    by (intro stmt.steps_exec) (auto simp: result_simps new_invitation_def Let_def intro!: account_stmt.invite [THEN stmts_one])
  show ?thesis
    unfolding CreateInvitation_def Let_def
    by (intro steps_andThen_require stmt.steps_option steps_andThen_lift stmt.steps_pure stmt.steps_andThen row)
qed

lemma steps_RevokeInvitation: "steps (stmts low own) (RevokeInvitation s env u appID iid)"
  unfolding RevokeInvitation_def
  by (intro stmt.steps_rules stmt.steps_exec steps_produce) (auto intro: stmt_ops)

lemma steps_claim_use: "steps (stmts low own) (claim_use env iid)"
  unfolding claim_use_def by (rule stmt.steps_exec) (auto simp: result_simps intro: stmt_ops)

lemma steps_releasing: "steps (stmts low own) m \<Longrightarrow> steps (stmts low own) (releasing env held iid m)"
  unfolding releasing_def by (intro stmt.steps_rules stmt.steps_exec) (auto intro: stmt_ops)

lemma new_guest_role [simp]: "u_role (new_guest env p) = RoleGuest"
  by (simp add: new_guest_def account_of_row_def)

lemma steps_create_account: "sql_lower h = low \<Longrightarrow> own \<noteq> [] \<Longrightarrow> steps (stmts low own) (create_account env h a name)"
  unfolding create_account_def Let_def
  by (intro stmt.steps_rules stmt.steps_exec) (auto simp: result_simps intro: stmt_ops)

lemma steps_settle_devices:
  "sql_lower h = low \<Longrightarrow> space_public_key h = own \<Longrightarrow> steps (stmts low own) (settle_devices s env h jr a acct isNew name)"
  unfolding settle_devices_def Let_def
  by (intro stmt.steps_rules stmt.steps_exec steps_Admit) (auto simp: result_simps intro: stmt_ops)

lemma steps_is_member: "steps (stmts low own) (is_member env a)"
  unfolding is_member_def by (rule stmt.steps_rules)

lemma steps_join_account:
  assumes "sql_lower h = low" and "space_public_key h = own" and "own \<noteq> []"
  shows "steps (stmts low own) (join_account s env h jr a name)"
  unfolding join_account_def Let_def
  by (intro stmt.steps_rules steps_releasing steps_claim_use steps_settle_devices steps_create_account steps_is_member assms)

lemma steps_promote: "sql_lower h = low \<Longrightarrow> steps (stmts low own) (promote env h key)"
  unfolding promote_def by (rule stmt.steps_exec) (auto simp: result_simps intro: stmt_ops)

lemma steps_record_use: "steps (stmts low own) (record_use env h iid key)"
  unfolding record_use_def by (rule stmt.steps_exec) (auto simp: result_simps intro: stmt_ops)

lemma steps_ReleaseUse: "steps (stmts low own) (exec (ReleaseUse env iid))"
  by (rule stmt.steps_exec) (rule stmt_ops)

lemma steps_rejoin: "sql_lower h = low \<Longrightarrow> steps (stmts low own) (rejoin env h a acct held)"
  unfolding rejoin_def Let_def
  by (intro stmt.steps_rules steps_claim_use steps_promote steps_record_use steps_ReleaseUse)

lemma steps_add_member: "sql_lower h = low \<Longrightarrow> steps (stmts low own) (add_member s env h a acct held)"
  unfolding add_member_def Let_def
  by (intro stmt.steps_rules steps_claim_use steps_promote steps_record_use steps_produce)

lemma steps_Join:
  assumes "sql_lower h = low" and "space_public_key h = own" and "own \<noteq> []"
  shows "steps (stmts low own) (Join s env h jr)"
  unfolding Join_def Let_def
  by (intro stmt.steps_rules steps_join_account steps_rejoin steps_add_member assms)

end
