(* ===== verification/Process.thy ===== *)
theory Process
  imports System AccountSteps
begin

section \<open>The whole process\<close>

text \<open>
  The transition system of the space server, from an empty database: the transactions of the event
  pipeline, of applications, moves and reminders, the checks made before a submitted event is
  stored, and the statements of accounts, devices, agents, bindings, spaces and invitations, in
  any interleaving and under any failures of the database.
\<close>

subsection \<open>What the other half leaves of the accounts\<close>

definition aside :: "db \<Rightarrow> db \<Rightarrow> bool" where
  "aside d d1 \<longleftrightarrow> safe d d1 \<and> (db_ok d \<longrightarrow>
     (\<exists>is us. sides d1 = sides (d\<lparr>t_invitations := is, t_invitation_uses := us\<rparr>) \<and> set is \<subseteq> set (t_invitations d)))"

lemma aside_sides: "safe d d1 \<Longrightarrow> sides d1 = sides d \<Longrightarrow> aside d d1"
  by (auto simp: aside_def sides_def intro: exI [of _ "t_invitations d"] exI [of _ "t_invitation_uses d"])

lemma aside_refl [simp]: "aside d d"
  by (rule aside_sides) simp_all

lemma aside_trans: "aside a b \<Longrightarrow> aside b c \<Longrightarrow> aside a c"
  unfolding aside_def using safe_trans by (fastforce simp: sides_def safe_def)

lemma aside_devices: "aside d d1 \<Longrightarrow> db_ok d \<Longrightarrow> t_devices d1 = t_devices d"
  by (auto simp: aside_def sides_def)

lemma aside_good: "aside d d1 \<Longrightarrow> good low own d d1"
  by (auto simp: aside_def good_def sides_def accounts_ok_def users_ok_def devices_ok_def token_ok_def user_keys_def)

lemma ProduceEvent_aside: "ProduceEvent s env ev d = (d1, r, ns) \<Longrightarrow> aside d d1"
  unfolding aside_def using safe_ProduceEvent ProduceEvent_sides aside_sides [OF safe_refl] by (metis aside_def)

lemma drop_invitations_sides: "sides d1 = sides d \<Longrightarrow> sides (drop_invitations p d1) = sides (drop_invitations p d)"
  by (simp add: sides_def drop_invitations_def Let_def)

lemma drop_apps_accounts: "\<exists>q. sides (drop_apps p d) = sides (drop_invitations q d)"
proof -
  let ?gone = "ar_id ` set (filter p (t_apps d))"
  let ?d = "d\<lparr>t_apps := filter (\<lambda>a. \<not> p a) (t_apps d),
     t_members := filter (\<lambda>m. m_application_id m \<notin> ?gone) (t_members d),
     t_events := filter (\<lambda>e. \<not> list_ex (\<lambda>a. p a \<and> of_app (ar_id a) (snd e)) (t_apps d)) (t_events d)\<rparr>"
  have "sides (drop_apps p d) = sides (drop_invitations (\<lambda>i. iv_application_id i \<in> ?gone) ?d)"
    unfolding drop_apps_def Let_def sides_drop ..
  also have "\<dots> = sides (drop_invitations (\<lambda>i. iv_application_id i \<in> ?gone) d)"
    by (rule drop_invitations_sides) (simp only: sides_update)
  finally show ?thesis by blast
qed

lemma PurgeApplication_accounts:
  assumes "PurgeApplication env a cutoff d = Inr d1"
  shows "\<exists>p. sides d1 = sides (drop_invitations p d)"
  using assms drop_apps_accounts unfolding PurgeApplication_def by (auto simp: result_simps simp del: drop_invitations_frame)

lemma repoCompleteMove_accounts:
  assumes "repoCompleteMove env a url token t d = Inr d1"
  shows "\<exists>p. sides d1 = sides (drop_invitations p d)"
proof -
  obtain d2 where u: "update_apps env ''CompleteMove'' (moving a)
         (\<lambda>a. a\<lparr>ar_moved_to_url := Some url, ar_move_invite_token := Some token,
               ar_moved_at := Some t, ar_deleted_at := Some t\<rparr>)
         (errw ErrApplicationNotMoving ''application is not moving'') d = Inr d2" and c: "clear_tables env a d2 = Inr d1"
    using assms by (auto simp: repoCompleteMove_def result_simps)
  let ?d3 = "drop_groups (\<lambda>g. g_application_id g = a) (drop_comps (\<lambda>c. c_application_id c = a)
     (d2\<lparr>t_events := filter (\<lambda>e. \<not> of_app a (snd e)) (t_events d2)\<rparr>))"
  have d1: "d1 = drop_invitations (\<lambda>i. iv_application_id i = a) ?d3"
    using c by (auto simp: clear_tables_def result_simps)
  have "sides ?d3 = sides d" using update_apps_sides [OF u] by simp
  then show ?thesis unfolding d1 using drop_invitations_sides by blast
qed

lemma aside_dropped: "safe d d1 \<Longrightarrow> \<exists>p. sides d1 = sides (drop_invitations p d) \<Longrightarrow> aside d d1"
  by (auto simp: aside_def sides_def drop_invitations_def Let_def)

lemma register_sides:
  "register_member env a mb d = Inr d1 \<Longrightarrow> sides d1 = sides d"
  "register_component env a g c d = Inr d1 \<Longrightarrow> sides d1 = sides d"
  by (auto simp: register_member_def register_component_def CreateMember_def CreateComponent_def Let_def result_simps)

lemma fold_res_sides:
  assumes "fold_res f xs d = Inr d1" and "\<And>x a b. f x a = Inr b \<Longrightarrow> sides b = sides a"
  shows "sides d1 = sides d"
  using assms(1) by (rule fold_res_invariant) (use assms(2) in auto)

lemma register_group_sides: "register_group env a g d = Inr d1 \<Longrightarrow> sides d1 = sides d"
  by (auto simp: register_group_def CreateComponentGroup_def result_simps dest!: fold_res_sides [OF _ register_sides(2)])

lemma RegisterApplication_sides:
  assumes "RegisterApplication env sp limit caller app d = (d1, r)"
  shows "sides d1 = sides d"
  using assms
proof (cases rule: RegisterApplication_cases)
  case (registered u app1)
  then obtain d2 d3 where "upsertApplication env app1 d = Inr d2"
    "fold_res (register_member env (ap_id app1)) (ap_members app1) d2 = Inr d3"
    "fold_res (register_group env (ap_id app1)) (ap_groups app1) d3 = Inr d1"
    by (auto simp: repoRegisterApplication_def result_simps)
  note run = this
  have "sides d2 = sides d" using run(1) by (auto simp: upsertApplication_def result_simps)
  moreover have "sides d3 = sides d2" using run(2) by (rule fold_res_sides) (rule register_sides(1))
  moreover have "sides d1 = sides d3" using run(3) by (rule fold_res_sides) (rule register_group_sides)
  ultimately show ?thesis by simp
qed simp

lemma require_owner_sides: "require_owner env a u e d r = Inr d1 \<Longrightarrow> (\<And>x. r = Inr x \<Longrightarrow> sides x = sides d) \<Longrightarrow> sides d1 = sides d"
  by (auto dest: safe_require_owner)

lemma update_reminder_sides: "update_reminder env site k f d = Inr d1 \<Longrightarrow> sides d1 = sides d"
  by (auto simp: update_reminder_def result_simps)

lemma aside_markSkipped: "markSkipped env row d = Inr d1 \<Longrightarrow> aside d d1"
  by (rule aside_sides [OF safe_markSkipped]) (auto simp: markSkipped_def intro: update_reminder_sides)

lemma aside_advance: "advance env rr row d = Inr d1 \<Longrightarrow> aside d d1"
  by (rule aside_sides [OF safe_advance]) (auto simp: advance_def intro: update_reminder_sides split: sum.splits option.splits)

lemma aside_fire: "fire s env key row d = (d1, r, ns) \<Longrightarrow> aside d d1"
  by (auto simp: fire_def intro: ProduceEvent_aside split: option.splits prod.splits)

lemma aside_processRow:
  assumes "processRow s env rr key row d = (d1, r, ns)"
  shows "aside d d1 \<and> (r = Inr d2 \<longrightarrow> aside d d2)"
proof -
  obtain d0 f n0 where f: "fire s env key row d = (d0, f, n0)" by (metis prod.exhaust)
  show ?thesis
  proof (cases "isWithinGrace (now env) (r_fire_at row)")
    case False
    then show ?thesis using assms aside_markSkipped by (auto simp: processRow_def)
  next
    case True
    note pre = aside_trans [OF aside_fire [OF f]]
    show ?thesis
      using assms f aside_fire [OF f] True
      by (auto simp: processRow_def intro: pre [OF aside_advance] pre [OF aside_markSkipped] split: sum.splits if_splits)
  qed
qed

lemma aside_processRowByKey:
  assumes "processRowByKey s env rr key k d = (d1, r, ns)"
  shows "aside d d1"
proof (cases "stmt env ''processRowByKey.Begin'' d (lockRow env k d)")
  case (Inl e)
  then show ?thesis using assms by (simp add: processRowByKey_def)
next
  case (Inr row)
  show ?thesis
  proof (cases row)
    case None
    then show ?thesis using assms Inr by (simp add: processRowByKey_def)
  next
    case (Some x)
    obtain d0 q n0 where p: "processRow s env rr key x d = (d0, q, n0)" by (metis prod.exhaust)
    then show ?thesis
      using assms Inr Some aside_processRow [OF p]
      by (auto simp: processRowByKey_def stmt_def split: sum.splits option.splits)
  qed
qed

lemma aside_process_keys: "process_keys s envs rr key i ks d = (d1, ns) \<Longrightarrow> aside d d1"
proof (induction ks arbitrary: i d ns)
  case (Cons k ks)
  obtain d0 r n0 where p: "processRowByKey s (envs i) rr key k d = (d0, r, n0)" by (metis prod.exhaust)
  obtain n1 where "process_keys s envs rr key (Suc i) ks d0 = (d1, n1)"
    using Cons.prems p by (auto split: prod.splits)
  then show ?case using Cons.IH aside_processRowByKey [OF p] aside_trans by blast
qed simp

lemma aside_CompleteMove:
  assumes "CompleteMove s env a key url token d = (d1, r, ns)"
  shows "aside d d1"
proof -
  consider "d1 = d" | d2 r2 n2 where "repoCompleteMove env a url token (now env) d = Inr d2"
      "ProduceApplicationMoved s env a key url token d2 = (d1, r2, n2)"
    using assms by (auto simp: CompleteMove_def split: if_splits sum.splits prod.splits)
  then show ?thesis
  proof cases
    case 2
    have "aside d2 d1"
      using 2(2) by (auto simp: ProduceApplicationMoved_def intro: ProduceEvent_aside split: prod.splits)
    moreover have "aside d d2"
      using aside_dropped [OF safe_repoCompleteMove [OF 2(1)] repoCompleteMove_accounts [OF 2(1)]] .
    ultimately show ?thesis using aside_trans by blast
  qed simp
qed

lemma space_op_aside:
  assumes "space_op s sp maxApps rr d d1"
  shows "aside d d1"
  using assms
proof (cases rule: space_op.cases)
  case (cleanup env days n)
  then show ?thesis
    by (intro aside_sides) (auto simp: CleanupOldEvents_def DeleteOlderThan_def Let_def result_simps intro: safe_ops)
next
  case (register env caller app ra)
  then show ?thesis using aside_sides safe_RegisterApplication RegisterApplication_sides by metis
next
  case (delete env a u)
  then have "repoDeleteApplication env a d = Inr d1" by (auto simp: DeleteApplication_def result_simps dest!: safe_require_owner)
  then show ?thesis
    by (intro aside_sides safe_repoDeleteApplication) (auto simp: repoDeleteApplication_def intro: update_apps_sides)
next
  case (agent_read env a u b)
  then have "SetAgentReadEnabled env a b d = Inr d1" by (auto simp: SetAgentRead_def dest!: safe_require_owner)
  then show ?thesis
    by (intro aside_sides safe_SetAgentReadEnabled) (auto simp: SetAgentReadEnabled_def intro: update_apps_sides)
next
  case (start_move env a key url ru)
  then show ?thesis
    by (intro aside_sides safe_StartMove)
      (auto simp: StartMove_def repoStartMove_def result_simps split: if_splits sum.splits prod.splits)
next
  case (abort_move env a key ru)
  then show ?thesis
    by (intro aside_sides safe_AbortMove) (auto simp: AbortMove_def repoAbortMove_def result_simps split: sum.splits)
next
  case (purge env a cutoff)
  then show ?thesis using aside_dropped safe_PurgeApplication PurgeApplication_accounts by metis
next
  case (tick env envs key ru ns)
  then show ?thesis by (auto simp: Tick_def intro: aside_process_keys split: sum.splits prod.splits)
qed (auto intro: ProduceEvent_aside aside_CompleteMove)

lemma finish_event_aside:
  assumes "finish_event s env e sq ag d = (d1, r, ns)" and "admissible e sq"
  shows "aside d d1"
  unfolding aside_def using safe_finish_event [OF assms] finish_event_sides [OF assms(1)] aside_sides [OF safe_refl]
  by (metis aside_def)

subsection \<open>The transition system\<close>

inductive process_step ::
    "EventService \<Rightarrow> string \<Rightarrow> int \<Rightarrow> recurrence \<Rightarrow> (string \<Rightarrow> string) \<Rightarrow> string \<Rightarrow> space \<Rightarrow> space \<Rightarrow> bool"
  for s sp maxApps rr low own where
  pipeline: "step s sp maxApps rr w w1 \<Longrightarrow> process_step s sp maxApps rr low own w w1"
| account: "account_stmt low own (sp_db w) d1 \<Longrightarrow> process_step s sp maxApps rr low own w (w\<lparr>sp_db := d1\<rparr>)"

abbreviation fresh_process :: space where
  "fresh_process \<equiv> \<lparr>sp_db = empty_db, sp_admitted = []\<rparr>"

definition process_inv :: "(string \<Rightarrow> string) \<Rightarrow> string \<Rightarrow> space \<Rightarrow> bool" where
  "process_inv low own w \<longleftrightarrow> space_inv w \<and> accounts_ok low own (sp_db w)"

lemma fresh_process_new: "fresh_process = new_space [] []"
  by (simp add: new_space_def empty_db_def)

lemma process_inv_fresh: "process_inv low own fresh_process"
  unfolding process_inv_def
  by (simp add: fresh_process_new space_inv_new)
    (simp add: new_space_def empty_db_def accounts_ok_def users_ok_def devices_ok_def user_keys_def password_names_def tokens_unique_def)

lemma process_inv_db:
  assumes "process_inv low own w" and "good low own (sp_db w) d1" and "set ps \<subseteq> set (sp_admitted w)"
  shows "process_inv low own (w\<lparr>sp_db := d1, sp_admitted := ps\<rparr>)"
  using assms space_inv_db [OF _ _ assms(3)] by (auto simp: process_inv_def good_def space_inv_def)

lemma process_inv_step:
  assumes "process_step s sp maxApps rr low own w w1" and inv: "process_inv low own w"
  shows "process_inv low own w1"
  using assms(1)
proof (cases rule: process_step.cases)
  case (account d1)
  then show ?thesis using process_inv_db [OF inv account_stmt_good, of d1 "sp_admitted w"] by simp
next
  case pipeline
  then show ?thesis
  proof (cases rule: step.cases)
    case (admit env ev u e sq)
    then show ?thesis using inv space_inv_step [OF pipeline] by (simp add: process_inv_def)
  next
    case (commit e sq ag env d1 r ns)
    have "admissible e sq" using inv commit(2) by (auto simp: process_inv_def space_inv_def)
    from aside_good [OF finish_event_aside [OF commit(3) this]]
    have "good low own (sp_db w) d1" .
    then show ?thesis unfolding commit(1) by (intro process_inv_db [OF inv _ set_remove1_subset])
  next
    case (transact d1)
    then show ?thesis using process_inv_db [OF inv aside_good [OF space_op_aside], of s sp maxApps rr d1 "sp_admitted w"] by simp
  qed
qed

definition process_reachable where
  "process_reachable s sp maxApps rr low own = (process_step s sp maxApps rr low own)\<^sup>*\<^sup>* fresh_process"

lemma process_reachable_inv: "process_reachable s sp maxApps rr low own w \<Longrightarrow> process_inv low own w"
  unfolding process_reachable_def
  by (induction rule: rtranclp_induct) (auto intro: process_inv_fresh process_inv_step)

text \<open>A sequence of statements, so every handler, is a sequence of steps.\<close>

lemma process_stmts:
  assumes "stmts low own (sp_db w) d1" and "process_reachable s sp maxApps rr low own w"
  shows "process_reachable s sp maxApps rr low own (w\<lparr>sp_db := d1\<rparr>)"
  using assms(1)
proof (induction rule: rtranclp_induct)
  case base
  then show ?case using assms(2) by simp
next
  case (step d2 d3)
  have "process_step s sp maxApps rr low own (w\<lparr>sp_db := d2\<rparr>) (w\<lparr>sp_db := d3\<rparr>)"
    using process_step.account [of low own "w\<lparr>sp_db := d2\<rparr>" d3 s sp maxApps rr] step(2) by simp
  then show ?case using step(3) unfolding process_reachable_def by (rule rtranclp.rtrancl_into_rtrancl [rotated])
qed

lemma process_handler:
  assumes "steps (stmts low own) m" and "m n = (a, n1)" and "nd_db n = sp_db w" and "process_reachable s sp maxApps rr low own w"
  shows "process_reachable s sp maxApps rr low own (w\<lparr>sp_db := nd_db n1\<rparr>)"
  using process_stmts stepsD [OF assms(1,2)] assms(3,4) by metis

end
