(* ===== verification/AccountDemo.thy ===== *)
theory AccountDemo
  imports Process Demo
begin

section \<open>A small space with accounts\<close>

text \<open>
  The concrete host, node and tables at which the theorems about accounts, devices and invitations
  are applied. The host's functions are small but lawful: a token is looked up in a list, one token
  is signed, the case mappings are the identity.
\<close>

definition demo_key :: "char \<Rightarrow> string" where
  "demo_key c = replicate 42 c @ ''A=''"

definition demo_host :: "(string \<times> gmap) list \<Rightarrow> host" where
  "demo_host tokens =
     \<lparr>jwt_parse = (\<lambda>t. map_option (\<lambda>m. ([], m)) (map_of tokens t)), jwt_signed = (\<lambda>t k. True), jwt_in_time = (\<lambda>t m. True),
      jwt_sign = (\<lambda>m. case find (\<lambda>(t, c). c = json_rt m) tokens of None \<Rightarrow> Inl (errorf ''no token'') | Some (t, _) \<Rightarrow> Inr t),
      sign_session = (\<lambda>c. Inl (errorf ''no session'')), parse_session = (\<lambda>t tok. Inl (errorf ''no session'')),
      sign_access = (\<lambda>typ c. Inr ''access''), parse_access = (\<lambda>t iss aud tok. Inl (errorf ''no access'')),
      hmac_sha256 = (\<lambda>k x. k @ x), hkdf = (\<lambda>s l. s @ l), sha256_hex = (\<lambda>s. s), rand_bytes = Inr ''abc'', rand_text = ''r1'',
      use_uuid = ''use1'', url_parts = (\<lambda>_. None), go_lower = (\<lambda>s. s), sql_lower = (\<lambda>s. s),
      space_key = replicate 32 CHR ''k'', nanos = 0\<rparr>"

definition demo_node :: "db \<Rightarrow> node" where
  "demo_node d = \<lparr>nd_db = d, nd_challenges = [], nd_jtis = [], nd_touched = [], nd_kicks = [], nd_notices = []\<rparr>"

definition demo_device :: "string \<Rightarrow> string \<Rightarrow> device_row" where
  "demo_device dkey key = new_device_row dkey key None 1600000000 DeviceKindHuman"

text \<open>Olga owns the space; she has a phone and a laptop. Kim is a guest.\<close>

definition demo_olga :: user_row where
  "demo_olga = new_user_row ''o'' ''Olga'' RoleOwner 1600000000"

definition demo_kim :: user_row where
  "demo_kim = new_user_row ''k'' ''Kim'' RoleGuest 1600000000"

definition demo_home :: db where
  "demo_home = empty_db\<lparr>t_users := [demo_olga, demo_kim], t_devices := [demo_device ''o'' ''o'', demo_device ''phone'' ''o''],
     t_owner_claim := [(''o'', 1600000000)]\<rparr>"

definition demo_caller :: account where
  "demo_caller = (account_of_row demo_olga)\<lparr>ac_device_key := ''o''\<rparr>"

lemmas account_demo_defs = demo_host_def demo_node_def demo_device_def demo_olga_def demo_kim_def demo_home_def demo_caller_def
  new_device_row_def new_user_row_def account_of_row_def empty_db_def

text \<open>The process reaches it: Olga claims the space, Kim's account is created, Olga enrolls her phone.\<close>

abbreviation no_credentials :: credentials where
  "no_credentials \<equiv> \<lparr>cr_verifier = [], cr_handle = [], cr_key_blob = [], cr_state_blob = []\<rparr>"

lemma demo_home_stmts:
  assumes "own \<noteq> []"
  shows "stmts (\<lambda>s. s) own empty_db demo_home"
proof -
  let ?d1 = "empty_db\<lparr>t_users := [demo_olga], t_devices := [demo_device ''o'' ''o''], t_owner_claim := [(''o'', 1600000000)]\<rparr>"
  let ?d2 = "?d1\<lparr>t_users := [demo_olga, demo_kim]\<rparr>"
  have "repoClaimOwner demo_env (demo_host []) ''o'' ''Olga'' no_credentials ''o'' None 1600000000 empty_db = Inr ?d1"
    by (simp add: repoClaimOwner_def insert_user_def insert_device_def account_demo_defs demo_env_def stmt_def user_keys_def
        password_names_def has_password_def nullif_def rguard_def)
  then have 1: "stmts (\<lambda>s. s) own empty_db ?d1"
    by (rule account_stmt.claim [THEN stmts_one]) (use assms in \<open>simp_all add: demo_host_def\<close>)
  have "CreateUser demo_env (demo_host []) (account_of_row demo_kim) ?d1 = Inr ?d2"
    by (simp add: CreateUser_def insert_user_def account_demo_defs demo_env_def stmt_def user_keys_def
        password_names_def has_password_def rguard_def)
  then have 2: "stmts (\<lambda>s. s) own ?d1 ?d2"
    by (rule account_stmt.create_user [THEN stmts_one])
      (use assms in \<open>simp_all add: demo_host_def account_of_row_def demo_kim_def new_user_row_def\<close>)
  have "EnsureDevice demo_env ''phone'' ''o'' None 1600000000 ?d2 = Inr demo_home"
    by (simp add: EnsureDevice_def insert_device_def account_demo_defs demo_env_def stmt_def user_keys_def rguard_def)
  then have "stmts (\<lambda>s. s) own ?d2 demo_home" by (rule account_stmt.ensure_device [THEN stmts_one])
  then show ?thesis using 1 2 stmts_trans by blast
qed

lemma reachable_stmts:
  "stmts low own empty_db d \<Longrightarrow> process_reachable s sp maxApps rr low own \<lparr>sp_db = d, sp_admitted = []\<rparr>"
  using process_stmts [of low own fresh_process d s sp maxApps rr] by (simp add: process_reachable_def)

lemmas demo_home_reachable = reachable_stmts [OF demo_home_stmts]

text \<open>Olga lets an agent in.\<close>

definition demo_agent_home :: db where
  "demo_agent_home = demo_home\<lparr>t_devices := t_devices demo_home @ [new_device_row ''agent'' ''o'' None 1600000000 DeviceKindAgent],
     t_agent_tokens := [\<lparr>at_device = ''agent'', at_hash = ''old'', at_prev_hash = None, at_expires_at = 1800000000\<rparr>]\<rparr>"

lemma demo_agent_ok: "accounts_ok (\<lambda>s. s) ''own'' demo_agent_home"
proof -
  have "createAgent demo_env ''agent'' ''o'' None ''old'' 1600000000 1800000000 demo_home = Inr demo_agent_home"
    by (simp add: createAgent_def insert_device_def demo_agent_home_def account_demo_defs demo_env_def stmt_def user_keys_def
        rguard_def tokens_unique_def)
  then have "stmts (\<lambda>s. s) ''own'' demo_home demo_agent_home" by (rule account_stmt.create_agent [THEN stmts_one])
  then have "process_reachable demo_service ''sp'' 0 demo_rr (\<lambda>s. s) ''own'' \<lparr>sp_db = demo_agent_home, sp_admitted = []\<rparr>"
    using demo_home_stmts [of "''own''"] by (auto intro: reachable_stmts stmts_trans)
  then show ?thesis using process_reachable_inv by (fastforce simp: process_inv_def)
qed

end
