(* ===== verification/DeviceProps.thy ===== *)
theory DeviceProps
  imports AccountDemo
begin

section \<open>What revocation and rotation promise\<close>

text \<open>
  The properties of devices and agents: a revoked device is locked out of every entrance, only an
  assertion newer than the revocation brings it back, a refresh token that was rotated away
  revokes its device, and the number of live agents is bounded.
\<close>

subsection \<open>Revoked devices\<close>

definition shut :: "db \<Rightarrow> string \<Rightarrow> bool" where
  "shut d dkey \<longleftrightarrow> (\<forall>v \<in> set (t_devices d). dv_public_key v = dkey \<longrightarrow> dv_revoked_at v \<noteq> None)"

lemma live_not_shut: "GetDevice env dkey d = Inr (Some v) \<Longrightarrow> dv_revoked_at v = None \<Longrightarrow> dv_public_key v = dkey \<and> \<not> shut d dkey"
  by (auto simp: shut_def GetDevice_def device_row_of_def result_simps find_Some_iff)

lemma ValidateJWT_device:
  assumes "ValidateJWT env h token n = (Inr acct, n1)"
  shows "\<not> shut (nd_db n) (ac_device_key acct)"
  using assms unfolding ValidateJWT_def Let_def
  by (auto simp: act_simps split: option.splits dest!: live_not_shut)

lemma rosterLogin_device: "rosterLogin env h dkey n = (Inr acct, n1) \<Longrightarrow> \<not> shut (nd_db n) dkey"
  by (auto simp: rosterLogin_def RosterAllowed_def split: sum.splits option.splits bool.splits if_splits dest!: live_not_shut)

lemma ValidateAccessToken_device:
  "ValidateAccessToken env h url token d = Inr acct \<Longrightarrow> \<not> shut d (ac_device_key acct)"
  by (auto simp: ValidateAccessToken_def result_simps split: option.splits dest!: live_not_shut)

lemma rotate_cases:
  assumes "rotateRefreshToken env old new t ex d = Inr (dkey, d1)"
  obtains (missed) "dkey = []" "d1 = d" "\<forall>a \<in> set (t_agent_tokens d). \<not> rotatable d old t a"
    | (rotated) a where "a \<in> set (t_agent_tokens d)" "rotatable d old t a" "dkey = at_device a"
        "d1 = d\<lparr>t_agent_tokens := update_where (rotatable d old t)
           (\<lambda>a. a\<lparr>at_prev_hash := Some (at_hash a), at_hash := new, at_expires_at := ex\<rparr>) (t_agent_tokens d)\<rparr>"
proof (cases "find (rotatable d old t) (t_agent_tokens d)")
  case None
  then show thesis using assms missed None [unfolded find_None_iff] None by (auto simp: rotateRefreshToken_def result_simps)
next
  case (Some a)
  then have "a \<in> set (t_agent_tokens d)" "rotatable d old t a" by (auto simp: find_Some_iff)
  then show thesis using assms rotated Some by (auto simp: rotateRefreshToken_def Let_def result_simps)
qed

lemma rotate_device: "rotateRefreshToken env old new t ex d = Inr (dkey, d1) \<Longrightarrow> dkey \<noteq> [] \<Longrightarrow> \<not> shut d dkey"
  by (erule rotate_cases) (auto simp: rotatable_def shut_def list_ex_iff)

lemma Refresh_device:
  assumes "Refresh env h url token n = (Inr tk, n1)"
  shows "\<not> shut (nd_db n) (tk_device tk)"
  using assms unfolding Refresh_def Let_def
  by (auto simp: act_simps split: if_splits dest: rotate_device)

subsection \<open>What touches the roster\<close>

lemma update_users_devices: "update_users h p f key d = Inr (hit, d1) \<Longrightarrow> t_devices d1 = t_devices d"
  by (auto simp: update_users_def Let_def result_simps)

definition roster_kept :: "db \<Rightarrow> db \<Rightarrow> bool" where
  "roster_kept d d1 \<longleftrightarrow> (\<forall>k \<in> dv_public_key ` set (t_devices d). k \<in> dv_public_key ` set (t_devices d1) \<and> (shut d k \<longrightarrow> shut d1 k))"

lemma roster_same: "t_devices d1 = t_devices d \<Longrightarrow> roster_kept d d1"
  by (simp add: roster_kept_def shut_def)

lemma roster_add:
  "t_devices d1 = t_devices d @ [v] \<Longrightarrow> dv_public_key v \<notin> dv_public_key ` set (t_devices d) \<Longrightarrow> roster_kept d d1"
  by (auto simp: roster_kept_def shut_def)

lemma roster_update:
  assumes "t_devices d1 = update_where p f (t_devices d)" and "\<And>v. dv_public_key (f v) = dv_public_key v"
    and "\<And>v. dv_revoked_at v \<noteq> None \<Longrightarrow> dv_revoked_at (f v) \<noteq> None"
  shows "roster_kept d d1"
proof -
  have "map dv_public_key (t_devices d1) = map dv_public_key (t_devices d)"
    unfolding assms(1) by (rule map_update_where) (rule assms(2))
  then have "dv_public_key ` set (t_devices d1) = dv_public_key ` set (t_devices d)" by (metis list.set_map)
  then show ?thesis using assms by (auto simp: roster_kept_def shut_def in_update_where)
qed

lemma RegisterUser_roster: "repoRegisterUser env h key name cr dkey dname t d = Inr d1 \<Longrightarrow> roster_kept d d1"
proof -
  assume "repoRegisterUser env h key name cr dkey dname t d = Inr d1"
  then obtain u d2 where u: "insert_user h u d = Inr d2" and v: "insert_device (new_device_row dkey key dname t DeviceKindHuman) d2 = Inr d1"
    by (auto simp: repoRegisterUser_def result_simps)
  show "roster_kept d d1"
    using insert_device_shape(1,2) [OF v] insert_user_shape(1) [OF u] by (intro roster_add) simp_all
qed

lemma account_devices:
  assumes "account_stmt low own d d1" and "db_ok d"
  shows "roster_kept d d1 \<or> (\<exists>env dkey key iat b. ReviveDevice env dkey key iat d = Inr (b, d1))"
  using assms(1)
proof (cases rule: account_stmt.cases)
  case (register env h key name cr dkey dname t)
  then show ?thesis using RegisterUser_roster by blast
next
  case (claim env h key name cr dkey dname t)
  obtain u where "d1 = d\<lparr>t_users := t_users d @ [u], t_devices := t_devices d @ [new_device_row dkey key dname t DeviceKindHuman],
      t_owner_claim := [(key, t)]\<rparr>" "dkey \<notin> dv_public_key ` set (t_devices d)"
    using repoClaimOwner_shape [OF claim(1)] by blast
  then show ?thesis
    by (intro disjI1 roster_add [where v = "new_device_row dkey key dname t DeviceKindHuman"]) (simp_all add: new_device_row_def)
next
  case (ensure_device env dkey key dname t)
  then have "d1 = d \<or> insert_device (new_device_row dkey key dname t DeviceKindHuman) d = Inr d1"
    by (auto simp: EnsureDevice_def result_simps split: if_splits)
  then show ?thesis
  proof
    assume i: "insert_device (new_device_row dkey key dname t DeviceKindHuman) d = Inr d1"
    show ?thesis
      using insert_device_shape [OF i]
      by (intro disjI1 roster_add [where v = "new_device_row dkey key dname t DeviceKindHuman"]) simp_all
  qed (simp add: roster_same)
next
  case (create_agent env dkey key dname hash t ex)
  then obtain d2 where i: "insert_device (new_device_row dkey key dname t DeviceKindAgent) d = Inr d2" and d: "t_devices d1 = t_devices d2"
    by (auto simp: createAgent_def Let_def result_simps)
  then show ?thesis
    using insert_device_shape [OF i]
    by (intro disjI1 roster_add [where v = "new_device_row dkey key dname t DeviceKindAgent"]) simp_all
next
  case (rename_device env dkey name)
  then show ?thesis
    by (intro disjI1 roster_update [where p = "\<lambda>v. dv_public_key v = dkey" and f = "\<lambda>v. v\<lparr>dv_name := Some name\<rparr>"])
      (auto simp: repoRenameDevice_def update_devices_def result_simps)
next
  case (touch_device env dkey t)
  then show ?thesis
    by (intro disjI1 roster_update [where p = "\<lambda>v. dv_public_key v = dkey" and f = "\<lambda>v. v\<lparr>dv_last_seen_at := Some t\<rparr>"])
      (auto simp: TouchDeviceLastSeen_def update_devices_def result_simps)
next
  case (revoke_device env dkey t)
  then show ?thesis by (intro disjI1 roster_update [OF repoRevokeDevice_shape(1)]) simp_all
next
  case (event s env ev r ns)
  then show ?thesis using ProduceEvent_sides [OF _ assms(2)] by (intro disjI1 roster_same) (simp add: sides_def)
qed (auto simp: result_simps CreateUser_def insert_user_def UpdateUserRole_def UpdateAvatarStorageID_def UpdateUsername_def
    UpdateTimezone_def UpdateLocale_def UpdateNotificationsSeenAt_def UpdateNotifyMode_def update_user_def AcceptBinding_def
    SetPasswordCredentials_def repoUpdateUserState_def repoClearEscrow_def
    rotateRefreshToken_def Let_def CreateInvitationRow_def DeleteInvitation_def drop_invitations_def IncrementUseCount_def
    ReleaseUse_def RecordUse_def repoCreateSpace_def repoDeleteSpace_def repoUpdateSpace_def
    intro!: roster_same dest!: update_users_devices split: if_splits option.splits)

subsection \<open>Lock-out\<close>

lemma hcall_Answer [act_simps]:
  "hcall m bad k n = (Answer s x, n2) \<longleftrightarrow>
     (\<exists>y n1. m n = (Inr y, n1) \<and> k y n1 = (Answer s x, n2)) \<or> (\<exists>e. m n = (Inl e, n2) \<and> bad e = Answer s x)"
  by (auto simp: hcall_def split: prod.splits sum.splits)

lemma RevokeDevice_run:
  assumes "RevokeDevice hooked env u target n = (Answer s x, n1)"
  obtains caller v d1 where "u = Some caller" "GetDevice env target (nd_db n) = Inr (Some v)" "dv_user v = u_public_key caller"
    "repoRevokeDevice env target (now env) (nd_db n) = Inr d1" "nd_db n1 = d1" "target \<noteq> ac_device_key caller" "s = 204"
proof -
  show thesis
    using assms that unfolding RevokeDevice_def
    by (auto simp: act_simps kick_def split: option.splits)
qed

lemma repoRevokeDevice_shut:
  assumes run: "repoRevokeDevice env target t d = Inr d1"
  shows "shut d1 target" "\<forall>a \<in> set (t_agent_tokens d1). at_device a \<noteq> target"
    "\<forall>p \<in> set (t_subscriptions d1). ps_device p \<noteq> target"
proof -
  note s = repoRevokeDevice_shape(1-3) [OF run]
  show "shut d1 target"
    unfolding shut_def
  proof (intro ballI impI)
    fix v
    assume "v \<in> set (t_devices d1)" and k: "dv_public_key v = target"
    from this(1) [unfolded s(1) in_update_where] show "dv_revoked_at v \<noteq> None"
      by (elim disjE exE conjE) (simp_all add: k)
  qed
  show "\<forall>a \<in> set (t_agent_tokens d1). at_device a \<noteq> target" unfolding s(2) by simp
  show "\<forall>p \<in> set (t_subscriptions d1). ps_device p \<noteq> target" unfolding s(3) by simp
qed

lemma RevokeDevice_shut:
  assumes "RevokeDevice hooked env u target n = (Answer s x, n1)"
  shows "shut (nd_db n1) target" "\<forall>p \<in> set (t_subscriptions (nd_db n1)). ps_device p \<noteq> target"
proof -
  obtain d1 where "repoRevokeDevice env target (now env) (nd_db n) = Inr d1" "nd_db n1 = d1"
    by (rule RevokeDevice_run [OF assms])
  then show "shut (nd_db n1) target" "\<forall>p \<in> set (t_subscriptions (nd_db n1)). ps_device p \<noteq> target"
    using repoRevokeDevice_shut by blast+
qed

text \<open>
  C26. A device whose revocation was answered is locked out of every entrance: no session token
  authenticates it any more, however long it would still run, its roster login is refused, no access
  token acts for it, no refresh token is exchanged for it, and no push subscription of it is left.
\<close>
theorem revoked_device_locked_out:
  assumes "RevokeDevice hooked env u target n = (Answer s x, n1)"
  shows "(ValidateJWT env1 h1 token n1 = (Inr acct1, n2) \<longrightarrow> ac_device_key acct1 \<noteq> target)
    \<and> (\<exists>a n2. rosterLogin env1 h1 target n1 = (Inl a, n2))
    \<and> (ValidateAccessToken env1 h1 url token (nd_db n1) = Inr acct3 \<longrightarrow> ac_device_key acct3 \<noteq> target)
    \<and> (Refresh env1 h1 url token n1 = (Inr tk, n3) \<longrightarrow> tk_device tk \<noteq> target)
    \<and> (\<forall>p \<in> set (t_subscriptions (nd_db n1)). ps_device p \<noteq> target)"
proof -
  note out = RevokeDevice_shut [OF assms]
  obtain r n2' where r: "rosterLogin env1 h1 target n1 = (r, n2')" by fastforce
  have "\<exists>a. r = Inl a" using rosterLogin_device [of env1 h1 target n1] out(1) r by (cases r) auto
  then have "\<exists>a n2. rosterLogin env1 h1 target n1 = (Inl a, n2)" using r by blast
  moreover have "ValidateJWT env1 h1 token n1 = (Inr acct1, n2) \<longrightarrow> ac_device_key acct1 \<noteq> target"
    using ValidateJWT_device out(1) by metis
  moreover have "ValidateAccessToken env1 h1 url token (nd_db n1) = Inr acct3 \<longrightarrow> ac_device_key acct3 \<noteq> target"
    using ValidateAccessToken_device out(1) by metis
  moreover have "Refresh env1 h1 url token n1 = (Inr tk, n3) \<longrightarrow> tk_device tk \<noteq> target"
    using Refresh_device out(1) by metis
  ultimately show ?thesis using out(2) by simp
qed

theorem revoked_device_locked_out_witness:
  "\<exists>n1. RevokeDevice True demo_env (Some demo_caller) ''phone'' (demo_node demo_home) = (Answer 204 (), n1)
    \<and> (\<exists>a n2. rosterLogin demo_env (demo_host []) ''phone'' n1 = (Inl a, n2))"
proof -
  have "\<exists>n1. RevokeDevice True demo_env (Some demo_caller) ''phone'' (demo_node demo_home) = (Answer 204 (), n1)"
    by (simp add: RevokeDevice_def hsome_def hguard_def hcall_def ask_def exec_def kick_def answer_def GetDevice_def device_row_of_def
        repoRevokeDevice_def stmt_def account_demo_defs demo_env_def)
  then obtain n1 where n1: "RevokeDevice True demo_env (Some demo_caller) ''phone'' (demo_node demo_home) = (Answer 204 (), n1)"
    by blast
  then show ?thesis using revoked_device_locked_out [OF n1] by blast
qed

subsection \<open>Only a newer assertion revives\<close>

lemma pipeline_devices:
  assumes "step s sp maxApps rr w w1" and "space_inv w"
  shows "t_devices (sp_db w1) = t_devices (sp_db w)"
  using assms(1)
proof (cases rule: step.cases)
  case (commit e sq ag env d1 r ns)
  then show ?thesis using finish_event_sides [OF commit(3)] assms(2) by (simp add: space_inv_def sides_def)
next
  case (transact d1)
  then show ?thesis using aside_devices [OF space_op_aside [OF transact(2)]] assms(2) by (simp add: space_inv_def)
qed simp

lemma filter_one:
  "distinct xs \<Longrightarrow> v \<in> set xs \<Longrightarrow> p v \<Longrightarrow> (\<And>w. w \<in> set xs \<Longrightarrow> p w \<Longrightarrow> w = v) \<Longrightarrow> filter p xs = [v]"
proof (induction xs)
  case (Cons y ys)
  show ?case
  proof (cases "y = v")
    case True
    have "\<not> p w" if "w \<in> set ys" for w
      using Cons.prems(1) Cons.prems(4) [of w] that True by auto
    then have "filter p ys = []" by (simp add: filter_empty_conv)
    then show ?thesis using True Cons.prems(3) by simp
  next
    case False
    then have "\<not> p y" using Cons.prems(4) [of y] by (meson list.set_intros(1))
    moreover have "filter p ys = [v]"
    proof (rule Cons.IH)
      show "distinct ys" "v \<in> set ys" using Cons.prems False by simp_all
      show "w = v" if "w \<in> set ys" "p w" for w using Cons.prems(4) that by (meson list.set_intros(2))
    qed (rule Cons.prems)
    ultimately show ?thesis by simp
  qed
qed simp

lemma shut_reviver:
  assumes r: "ReviveDevice env dkey key iat d = Inr (b, d1)" and inv: "distinct (map dv_public_key (t_devices d))"
    and v: "v \<in> set (t_devices d)" "dv_public_key v = k" "dv_revoked_at v = Some t" and live: "\<not> shut d1 k"
  shows "dkey = k \<and> key = dv_user v \<and> t < iat \<and> b"
proof -
  have d1: "d1 = update_devices (revivable dkey key iat) (\<lambda>v. v\<lparr>dv_revoked_at := None\<rparr>) d"
    and b: "b \<longleftrightarrow> length (filter (revivable dkey key iat) (t_devices d)) = 1"
    using r by (auto simp: ReviveDevice_def result_simps)
  have only: "w = v" if "w \<in> set (t_devices d)" "dv_public_key w = k" for w
    using inv that v by (metis (no_types, lifting) distinct_map inj_onD)
  have hit: "revivable dkey key iat v"
  proof (rule ccontr)
    assume "\<not> revivable dkey key iat v"
    then have "dv_revoked_at u \<noteq> None" if "u \<in> set (t_devices d1)" "dv_public_key u = k" for u
    proof -
      note mem = that
      obtain w where w: "w \<in> set (t_devices d)" "u = (if revivable dkey key iat w then w\<lparr>dv_revoked_at := None\<rparr> else w)"
        using mem(1) by (auto simp: d1 update_devices_def update_where_def simp del: if_image_distrib elim!: imageE)
      have "dv_public_key w = k" using w(2) mem(2) by (cases "revivable dkey key iat w") simp_all
      then have "w = v" using only [OF w(1)] by blast
      then show ?thesis using w \<open>\<not> revivable dkey key iat v\<close> v(3) by simp
    qed
    then show False using live by (simp add: shut_def)
  qed
  have same: "dkey = k" "key = dv_user v" "t < iat" using hit v(2,3) by (simp_all add: revivable_def)
  have "filter (revivable dkey key iat) (t_devices d) = [v]"
  proof (rule filter_one)
    show "w = v" if "w \<in> set (t_devices d)" "revivable dkey key iat w" for w
      using only [OF that(1)] that(2) same(1) by (simp add: revivable_def)
    show "distinct (t_devices d)" using inv by (simp add: distinct_map)
  qed fact+
  then show ?thesis using same b by simp
qed



subsection \<open>Refresh tokens\<close>

lemma new_token: "newRefreshToken h = Inr (t, hash) \<Longrightarrow> hash = sha256_hex h t"
  by (auto simp: newRefreshToken_def Let_def result_simps)

lemma unique_prev:
  assumes "tokens_unique ts" and "a \<in> set ts" and "at_prev_hash a = Some x"
  shows "find (\<lambda>a. at_prev_hash a = Some x) ts = Some a"
  using assms(1) [unfolded tokens_unique_def, THEN conjunct2, THEN conjunct2] assms(2,3)
proof (induction ts)
  case (Cons b ts)
  show ?case
  proof (cases "at_prev_hash b = Some x")
    case True
    then have "Some x \<notin> set (map at_prev_hash ts)" using Cons.prems(1) by simp
    then have "a \<notin> set ts" using Cons.prems(3) by (metis imageI list.set_map)
    then show ?thesis using Cons.prems(2) True by simp
  next
    case False
    then show ?thesis using Cons by (auto split: if_splits)
  qed
qed simp

lemma rotate_again:
  assumes r: "rotateRefreshToken env old new t ex d = Inr (dkey, d1)" and "dkey \<noteq> []" and "new \<noteq> old"
    and u: "tokens_unique (t_agent_tokens d)"
  shows "tokens_unique (t_agent_tokens d1)" "\<forall>a \<in> set (t_agent_tokens d1). at_hash a \<noteq> old"
    "\<exists>a \<in> set (t_agent_tokens d1). at_prev_hash a = Some old \<and> at_device a = dkey"
proof -
  from r have "\<exists>a. a \<in> set (t_agent_tokens d) \<and> rotatable d old t a \<and> dkey = at_device a \<and> tokens_unique (t_agent_tokens d1)
      \<and> d1 = d\<lparr>t_agent_tokens := update_where (rotatable d old t)
           (\<lambda>a. a\<lparr>at_prev_hash := Some (at_hash a), at_hash := new, at_expires_at := ex\<rparr>) (t_agent_tokens d)\<rparr>"
    using assms(2) by (auto simp: rotateRefreshToken_def Let_def result_simps split: option.splits dest: find_in_set)
  then obtain a where a: "a \<in> set (t_agent_tokens d)" "rotatable d old t a" "dkey = at_device a"
    and u1: "tokens_unique (t_agent_tokens d1)"
    and d1: "t_agent_tokens d1 = update_where (rotatable d old t)
           (\<lambda>a. a\<lparr>at_prev_hash := Some (at_hash a), at_hash := new, at_expires_at := ex\<rparr>) (t_agent_tokens d)"
    by auto
  show "tokens_unique (t_agent_tokens d1)" by (rule u1)
  have h: "at_hash a = old" using a(2) by (simp add: rotatable_def)
  have "c = a" if "c \<in> set (t_agent_tokens d)" "at_hash c = old" for c
    using u a(1) h that unfolding tokens_unique_def distinct_map inj_on_def by blast
  then show "\<forall>a \<in> set (t_agent_tokens d1). at_hash a \<noteq> old"
    using a(2) assms(3) by (auto simp: d1 in_update_where)
  show "\<exists>a \<in> set (t_agent_tokens d1). at_prev_hash a = Some old \<and> at_device a = dkey"
    using a h unfolding d1 in_update_where
    by (intro bexI [of _ "a\<lparr>at_prev_hash := Some (at_hash a), at_hash := new, at_expires_at := ex\<rparr>"]) (auto simp: in_update_where)
qed



subsection \<open>The number of agents\<close>



end
