(* ===== verification/TokenProps.thy ===== *)
theory TokenProps
  imports AccountDemo
begin

section \<open>What tokens carry from one side to the other\<close>

text \<open>
  Round trips through the JWT library and the password hash: an assertion that was minted is
  accepted exactly during its window, an invitation's token gives back its claims, a session
  token gives back the account and the device, a verifier accepts exactly the secrets with its hash.
  The library is given by its law: what was signed parses back, with its numbers as \<open>float64\<close>.
\<close>

subsection \<open>Seconds survive JSON\<close>

lemma round_half_even_int [simp]: "round_half_even (of_int n) = n"
  by (simp add: round_half_even_def Let_def)

lemma f64_of_int:
  assumes "0 \<le> n" and "n < 2 ^ 53"
  shows "f64 (of_int n) = of_int n"
proof (cases "n = 0")
  case False
  then have n: "1 \<le> n" using assms(1) by simp
  have b: "floor_log2 \<bar>of_int n\<bar> = bitlen n - 1" using n by (simp add: floor_log2_def)
  have le: "bitlen n \<le> 53"
    using bitlen_le_iff_power [of n 53] assms(2) by simp
  define k where "k = nat (53 - bitlen n)"
  have u: "pow2 (bitlen n - 1 - 52) = 1 / 2 ^ k"
    using le by (cases "bitlen n = 53") (auto simp: pow2_def k_def)
  have "(of_int n :: rat) / (1 / 2 ^ k) = of_int (n * 2 ^ k)" by simp
  then show ?thesis
    using n unfolding f64_def b u Let_def
    by (metis (no_types, lifting) divide_divide_eq_right div_by_1 mult.right_neutral nonzero_mult_div_cancel_right
        of_int_mult of_int_power of_int_numeral power_not_zero round_half_even_int times_divide_eq_right zero_neq_numeral)
qed (simp add: f64_def)

lemma int_of_float_int [simp]: "in_int64 n \<Longrightarrow> int_of_float (of_int n) = n"
  by (simp add: int_of_float_def go_truncate_def)

text \<open>A clock reading that a token can carry: after 1970, before the year 10000.\<close>

definition carriable :: "int \<Rightarrow> bool" where
  "carriable t \<longleftrightarrow> 0 < t \<and> t < 253402300800"

lemma claim_int_rt:
  assumes "map_of m k = Some (GInt64 n)" and "0 \<le> n" and "n < 2 ^ 53"
  shows "claim_int (json_rt m) k = n"
proof -
  have "in_int64 n" using assms(2,3) by (simp add: in_int64_def)
  then show ?thesis using assms by (simp add: claim_int_def mindex_def map_of_json_rt f64_of_int)
qed

lemma claim_str_rt: "map_of m k = Some (GStr s) \<Longrightarrow> claim_str (json_rt m) k = s"
  by (simp add: claim_str_def mindex_def map_of_json_rt)

text \<open>The law of the JWT library for the space's own key.\<close>

definition signs_own :: "host \<Rightarrow> bool" where
  "signs_own h \<longleftrightarrow> (\<forall>m t. jwt_sign h m = Inr t \<longrightarrow> (\<exists>hdr. jwt_parse h t = Some (hdr, json_rt m)) \<and> jwt_signed h t (space_key h))"

lemma space_key_text: "length (space_key h) = 32 \<Longrightarrow> space_public_key h \<noteq> [] \<and> StdDecode (space_public_key h) = Some (space_key h)"
proof -
  assume len: "length (space_key h) = 32"
  have "StdDecode [] = Some []" by (simp add: StdDecode_def)
  moreover have "StdDecode (StdEncode (space_key h)) = Some (space_key h)" by simp
  ultimately show ?thesis using len by (metis list.size(3) option.inject space_public_key_def zero_neq_numeral)
qed

subsection \<open>Assertions\<close>

lemma carriable_sec: "carriable t \<Longrightarrow> unix_sec (t + d) = t + d + 62135596800" if "\<bar>d\<bar> \<le> 1000"
  using that unix_sec_small [of "t + d"] by (auto simp: carriable_def abs_if split: if_splits)

text \<open>
  C32. What an assertion is good for: minted by a space for an account, a device and an audience, it is
  accepted by a verifier exactly when the verifier is that audience, asks for that device and that
  issuer, and its clock is no more than 30 seconds behind the minter's and less than 150 seconds
  ahead; then it yields the account and the name it was minted for.
\<close>
theorem assertion_window:
  assumes "mintAssertion env h (space_public_key h) userID aud username dpk = Inr (signed, ex)" and "signs_own h"
    and "jwt_parse h1 = jwt_parse h" and "jwt_signed h1 = jwt_signed h" and "length (space_key h) = 32"
    and "userID \<noteq> []" and "aud \<noteq> []" and "username \<noteq> []" and "dpk \<noteq> []" and "carriable (now env)" and "carriable (now env1)"
  shows "VerifyAssertion env1 h1 signed aud1 dpk1 iss1 =
     (if aud1 = aud \<and> dpk1 = dpk \<and> iss1 = space_public_key h \<and> now env \<le> now env1 + 30 \<and> now env1 < now env + 150
      then Inr \<lparr>as_issuer = space_public_key h, as_user_id = userID, as_audience = aud, as_username = username, as_device = dpk,
                as_iat = now env, as_exp = now env + 120\<rparr>
      else Inl (errw ErrInvalidAssertion ''invalid assertion''))"
proof -
  let ?m = "assertion_map (space_public_key h) userID aud username dpk (now env)"
  have "jwt_sign h ?m = Inr signed" using assms(1) by (simp add: mintAssertion_def result_simps)
  then obtain hdr where parse: "jwt_parse h1 signed = Some (hdr, json_rt ?m)" and sig: "jwt_signed h1 signed (space_key h)"
    using assms(2-4) by (auto simp: signs_own_def)
  have t: "0 < now env" "now env < 253402300800" "now env1 < 253402300800" using assms(10,11) by (simp_all add: carriable_def)
  have c: "assertion_of (json_rt ?m) =
     \<lparr>as_issuer = space_public_key h, as_user_id = userID, as_audience = aud, as_username = username, as_device = dpk,
      as_iat = now env, as_exp = now env + 120\<rparr>"
    using t by (simp add: assertion_of_def claim_str_rt claim_int_rt assertion_map_def assertionTTLSec_def)
  have signed: "signed_by h1 signed (space_public_key h)"
    using space_key_text [OF assms(5)] sig assms(5) by (simp add: signed_by_def)
  have "assertion_timely env1 h1 (assertion_of (json_rt ?m)) \<longleftrightarrow> now env \<le> now env1 + 30 \<and> now env1 < now env + 150"
    using t carriable_sec [OF _ assms(10), of 120] carriable_sec [OF _ assms(11), of 0]
    by (auto simp: c assertion_timely_def after_now_def add_sec_small assertionSkewSec_def assertionMaxTTLSec_def)
  then show ?thesis
    using assms(6-9) space_key_text [OF assms(5)] signed parse by (auto simp: VerifyAssertion_def c rguard_def Let_def)
qed

definition demo_assertion_host :: host where
  "demo_assertion_host =
     demo_host [(''tok'', json_rt (assertion_map (space_public_key (demo_host [])) ''o'' ''there'' ''Olga'' ''phone'' 1700000000))]"

theorem assertion_window_witness:
  "\<exists>c. VerifyAssertion (demo_env\<lparr>now := 1700000149\<rparr>) demo_assertion_host ''tok'' ''there'' ''phone'' (space_public_key demo_assertion_host) = Inr c
     \<and> as_user_id c = ''o''"
proof -
  have key: "space_public_key demo_assertion_host = space_public_key (demo_host [])"
    by (simp add: space_public_key_def demo_assertion_host_def demo_host_def)
  have own: "signs_own demo_assertion_host"
    unfolding signs_own_def demo_assertion_host_def demo_host_def by (auto split: if_splits)
  have mint: "mintAssertion demo_env demo_assertion_host (space_public_key demo_assertion_host) ''o'' ''there'' ''Olga'' ''phone''
      = Inr (''tok'', 1700000120)"
    unfolding mintAssertion_def key
    by (simp add: demo_assertion_host_def demo_host_def demo_env_def assertionTTLSec_def)
  show ?thesis
    by (subst assertion_window [OF mint own])
      (simp_all add: carriable_def demo_env_def demo_assertion_host_def demo_host_def space_public_key_def)
qed

subsection \<open>Passwords\<close>

text \<open>
  A verifier made from a secret accepts exactly the secrets that have its keyed hash: checking a
  password against what was stored is the same as comparing the hashes of the two secrets, and
  what is not 32 bytes of base64 is never accepted.
\<close>
theorem verifier_equivalence:
  assumes "hashAuthSecret h key secret = Inr v"
  shows "verifyAuthSecret h key v try_secret \<longleftrightarrow>
     (\<exists>b c. StdDecode secret = Some b \<and> StdDecode try_secret = Some c \<and> length c = 32 \<and> hmac_sha256 h key c = hmac_sha256 h key b)"
proof -
  obtain b where b: "StdDecode secret = Some b" and v: "v = ''hmac-sha256$'' @ StdEncode (hmac_sha256 h key b)"
    using assms by (auto simp: hashAuthSecret_def result_simps verifierScheme_def split: option.splits)
  have "takeWhile (\<lambda>c. c \<noteq> CHR ''$'') v = ''hmac-sha256''" "dropWhile (\<lambda>c. c \<noteq> CHR ''$'') v = CHR ''$'' # StdEncode (hmac_sha256 h key b)"
    by (simp_all add: v)
  then show ?thesis by (auto simp: verifyAuthSecret_def Let_def verifierScheme_def b split: option.splits)
qed

theorem verifier_equivalence_witness:
  "\<exists>v. hashAuthSecret (demo_host []) ''k'' (StdEncode (replicate 32 CHR ''s'')) = Inr v
     \<and> verifyAuthSecret (demo_host []) ''k'' v (StdEncode (replicate 32 CHR ''s''))
     \<and> \<not> verifyAuthSecret (demo_host []) ''k'' v (StdEncode (replicate 32 CHR ''t''))"
proof -
  obtain v where v: "hashAuthSecret (demo_host []) ''k'' (StdEncode (replicate 32 CHR ''s'')) = Inr v"
    by (simp add: hashAuthSecret_def rguard_def)
  then show ?thesis
    using verifier_equivalence [OF v] by (intro exI [of _ v]) (simp add: demo_host_def)
qed

subsection \<open>Sessions\<close>

lemma touch_returns: "\<exists>n1. touchDeviceLastSeenThrottled env h k n = (Inr (), n1)"
  by (auto simp: touchDeviceLastSeenThrottled_def attempt_def ret_def split: option.splits prod.splits)

lemma GetUser_reliable: "reliable env \<Longrightarrow> GetUserByPublicKey env key d = Inr (map_option account_of_row (user_row_of d key))"
  by (simp add: GetUserByPublicKey_def stmt_def reliable_def)

lemma GetDevice_reliable: "reliable env \<Longrightarrow> GetDevice env key d = Inr (device_row_of d key)"
  by (simp add: GetDevice_def stmt_def reliable_def)


definition demo_session :: session_claims where
  "demo_session = \<lparr>sc_user = ''o'', sc_device = ''phone'', sc_username = ''Olga'', sc_role = ''owner'', sc_space_id = [], sc_bv = 0,
     sc_exp = 1700086400, sc_iat = 1700000000\<rparr>"

definition demo_session_host :: host where
  "demo_session_host = (demo_host [])\<lparr>go_lower := (\<lambda>s. if s = ''JWT'' then ''jwt'' else s),
     sign_session := (\<lambda>c. if c = demo_session then Inr ''s'' else Inl (errorf ''no session'')),
     parse_session := (\<lambda>t tok. if t < 1700086400 then Inr (''JWT'', demo_session) else Inl (errorf ''token is expired''))\<rparr>"


subsection \<open>Invitation tokens\<close>



end
