(* ===== verification/LoginProps.thy ===== *)
theory LoginProps
  imports TokenProps
begin

section \<open>What is used once, and what converges\<close>

text \<open>
  A login challenge and a delegation work once, also when the store is pruned in between; bindings
  converge to the newest whatever order they arrive in.
\<close>

subsection \<open>Challenges\<close>

lemma consume_Inr:
  "consume env h c key n = (Inr u, n1) \<longleftrightarrow>
     (\<exists>info. map_of (nd_challenges n) c = Some info \<and> ch_public_key info = key \<and> now_ns env h \<le> ch_expires_at info)
     \<and> n1 = n\<lparr>nd_challenges := AList.delete c (nd_challenges n)\<rparr>"
  by (auto simp: consume_def split: option.split)

text \<open>
  C29. A login challenge works once: a login that verified had a live challenge issued to its own key,
  and it spent it; wherever that challenge is gone, no login that carries it verifies again.
\<close>
theorem login_challenge_once:
  assumes "verifyUserAuthJWS env h jws ttl aud n = (Inr c, n1)"
  shows "(\<exists>info. map_of (nd_challenges n) (lc_challenge c) = Some info \<and> ch_public_key info = lc_public_key c
            \<and> now_ns env h \<le> ch_expires_at info)
    \<and> map_of (nd_challenges n1) (lc_challenge c) = None
    \<and> (map_of (nd_challenges n2) (lc_challenge c) = None \<longrightarrow> jwt_parse h1 = jwt_parse h \<longrightarrow>
         (\<exists>e. verifyUserAuthJWS env1 h1 jws ttl1 aud1 n2 = (Inl e, n2)))"
proof -
  obtain hdr m where p: "jwt_parse h jws = Some (hdr, m)"
    using assms by (auto simp: verifyUserAuthJWS_def act_simps split: option.splits)
  have c: "lc_public_key c = claim_str m ''publicKey''" "lc_challenge c = claim_str m ''challenge''"
    and used: "consume env h (lc_challenge c) (lc_public_key c) n = (Inr (), n1)"
    using assms by (auto simp: verifyUserAuthJWS_def Let_def p act_simps)
  have "\<exists>e. verifyUserAuthJWS env1 h1 jws ttl1 aud1 n2 = (Inl e, n2)"
    if "map_of (nd_challenges n2) (lc_challenge c) = None" "jwt_parse h1 = jwt_parse h"
  proof -
    have "consume env1 h1 (claim_str m ''challenge'') (claim_str m ''publicKey'') n2 = (Inl (errorf ''no such challenge''), n2)"
      using that(1) c by (simp add: consume_def)
    then show ?thesis
      using that(2) p by (simp add: verifyUserAuthJWS_def Let_def andThen_def require_def)
  qed
  then show ?thesis using used by (auto simp: consume_Inr delete_conv)
qed

definition demo_signer :: string where
  "demo_signer = space_public_key (demo_host [])"

lemma demo_signer_text: "demo_signer = StdEncode (replicate 32 CHR ''k'')" "demo_signer \<noteq> []"
proof -
  show "demo_signer = StdEncode (replicate 32 CHR ''k'')" by (simp add: demo_signer_def space_public_key_def demo_host_def)
  show "demo_signer \<noteq> []" using StdDecode_Encode [of "replicate 32 CHR ''k''"] by (auto simp: demo_signer_def space_public_key_def demo_host_def StdDecode_def)
qed

lemma demo_signer_key: "StdDecode demo_signer = Some (replicate 32 CHR ''k'')"
  by (simp add: demo_signer_def space_public_key_def demo_host_def)

definition login_host :: host where
  "login_host = demo_host [(''tok'', [(''challenge'', GStr ''ch''), (''publicKey'', GStr demo_signer), (''iat'', GFloat 1700000000)])]"

definition login_node :: node where
  "login_node = (demo_node demo_home)\<lparr>nd_challenges := [(''ch'', \<lparr>ch_public_key = demo_signer, ch_expires_at = 1700000001000000000\<rparr>)]\<rparr>"

lemma login_verifies:
  "verifyUserAuthJWS demo_env login_host ''tok'' 60 ''aud'' login_node =
     (Inr \<lparr>lc_public_key = demo_signer, lc_challenge = ''ch'', lc_iat = 1700000000, lc_audience = []\<rparr>, demo_node demo_home)"
  by (simp add: verifyUserAuthJWS_def login_host_def demo_host_def login_node_def demo_node_def isPublicKey_def signed_by_def
      claim_str_def claim_int_def mindex_def str_or_empty_def demo_signer_key andThen_def require_def lift_def ret_def consume_def
      check_audience_def before_now_def now_ns_def unix_sec_def add_sec_def demo_env_def int_of_float_def go_truncate_def Let_def
      wrap64_def in_int64_def)

theorem login_challenge_once_witness:
  "\<exists>e. verifyUserAuthJWS demo_env login_host ''tok'' 60 ''aud'' (demo_node demo_home) = (Inl e, demo_node demo_home)"
  using login_challenge_once [OF login_verifies, of "demo_node demo_home" login_host demo_env 60 "''aud''"]
  by (simp add: demo_node_def)

subsection \<open>Delegations\<close>

text \<open>Later calls of the enrolment, each with its own clock, token and device.\<close>

definition delegations :: "(env \<times> host \<times> string \<times> string) list \<Rightarrow> node \<Rightarrow> node" where
  "delegations calls n = fold (\<lambda>(env, h, jws, dpk) n. snd (verifyDelegation env h jws dpk n)) calls n"

text \<open>The checks leave the node as it is; only the store of used delegations is written.\<close>

lemma andThen_checked:
  assumes "\<And>x. snd (m n) = n" and "\<And>x. fst (m n) = Inr x \<Longrightarrow> P (snd (f x n))" and "P n"
  shows "P (snd (andThen m f n))"
  using assms by (auto simp: andThen_def split: prod.splits sum.splits)

lemma snd_checks: "snd (require b e n) = n" "snd (ask q n) = n" "snd (ret x n) = n"
  by (simp_all add: require_def ask_def ret_def)

lemma snd_last_check: "snd (andThen m (\<lambda>y. andThen (require (g y) e) (\<lambda>_. ret x)) n) = snd (m n)"
  by (simp add: andThen_def require_def ret_def split: prod.split sum.split)

lemma snd_marked:
  "snd (andThen (markUsed env h j t) (\<lambda>y. andThen (require (g y) e) (\<lambda>_. ret x)) n) = n
   \<or> (\<exists>jti ex. snd (andThen (markUsed env h j t) (\<lambda>y. andThen (require (g y) e) (\<lambda>_. ret x)) n) = snd (markUsed env h jti ex n))"
  by (auto simp: snd_last_check)

lemma verifyDelegation_cases:
  obtains "snd (verifyDelegation env h jws dpk n) = n"
    | jti ex where "snd (verifyDelegation env h jws dpk n) = snd (markUsed env h jti ex n)"
proof -
  have "snd (verifyDelegation env h jws dpk n) = n \<or>
      (\<exists>jti ex. snd (verifyDelegation env h jws dpk n) = snd (markUsed env h jti ex n))"
  proof (cases "jwt_parse h jws")
    case None
    then show ?thesis by (simp add: verifyDelegation_def fail_def)
  next
    case (Some p)
    then show ?thesis
      unfolding verifyDelegation_def Let_def Some option.case prod.case_eq_if
      by (intro snd_marked andThen_checked [where P = "\<lambda>k. k = n \<or> (\<exists>jti ex. k = snd (markUsed env h jti ex n))"] snd_checks)
        simp_all
  qed
  then show thesis using that by blast
qed

lemma map_of_filter_kept: "map_of al k = Some v \<Longrightarrow> P (k, v) \<Longrightarrow> map_of (filter P al) k = Some v"
  by (induction al) (auto split: if_splits)

definition spent :: "env \<Rightarrow> host \<Rightarrow> string \<Rightarrow> int \<Rightarrow> node \<Rightarrow> bool" where
  "spent env h jti ex n \<longleftrightarrow> map_of (nd_jtis n) jti = Some ex \<or> before_now env h ex"

lemma spent_mark:
  assumes "spent env1 h1 jti ex n" and "\<forall>t. before_now env h t \<longrightarrow> before_now env1 h1 t"
  shows "spent env1 h1 jti ex (snd (markUsed env h j t n))"
proof (cases "before_now env1 h1 ex \<or> map_of (nd_jtis n) j \<noteq> None")
  case True
  then show ?thesis using assms(1) by (auto simp: spent_def markUsed_def)
next
  case False
  then have m: "map_of (nd_jtis n) jti = Some ex" "jti \<noteq> j" "\<not> before_now env h ex"
    using assms by (auto simp: spent_def)
  then have "map_of (AList.update j t (nd_jtis n)) jti = Some ex" by (simp add: update_conv')
  then show ?thesis using False m(3) by (auto simp: spent_def markUsed_def map_of_filter_kept)
qed

lemma spent_delegations:
  assumes "\<forall>(e, k, jws, dpk) \<in> set calls. \<forall>t. before_now e k t \<longrightarrow> before_now env1 h1 t" and "spent env1 h1 jti ex n"
  shows "spent env1 h1 jti ex (delegations calls n)"
  using assms
proof (induction calls arbitrary: n)
  case (Cons c calls)
  obtain e k jws dpk where c: "c = (e, k, jws, dpk)" by (cases c) auto
  have "spent env1 h1 jti ex (snd (verifyDelegation e k jws dpk n))"
  proof (cases rule: verifyDelegation_cases [of e k jws dpk n])
    case (2 j t)
    then show ?thesis using spent_mark [OF Cons.prems(2), of e k j t] Cons.prems(1) by (auto simp: c)
  qed (use Cons.prems in simp)
  then show ?case using Cons by (simp add: delegations_def c)
qed (simp add: delegations_def)

text \<open>
  C30. A delegation enrolls one device: when it was accepted once, presenting it again is refused,
  whatever delegations are presented in between and although the store forgets what has expired,
  as long as the clock does not go back.
\<close>
theorem delegation_once:
  assumes "verifyDelegation env h jws dpk n = (Inr acct, n1)" and "jwt_parse h1 = jwt_parse h"
    and "\<forall>(e, k, j, p) \<in> set calls. \<forall>t. before_now e k t \<longrightarrow> before_now env1 h1 t"
  shows "\<exists>e. fst (verifyDelegation env1 h1 jws dpk1 (delegations calls n1)) = Inl e"
proof -
  obtain hdr m where p: "jwt_parse h jws = Some (hdr, m)"
    using assms(1) by (auto simp: verifyDelegation_def act_simps split: option.splits)
  let ?jti = "claim_str m ''jti''" and ?ex = "unix_sec (claim_int m ''exp'')"
  have live: "\<not> before_now env h ?ex" and mark: "markUsed env h ?jti ?ex n = (Inr True, n1)"
    using assms(1) by (auto simp: verifyDelegation_def Let_def p act_simps)
  have n1: "nd_jtis n1 = filter (\<lambda>(_, t). \<not> before_now env h t) (AList.update ?jti ?ex (nd_jtis n))"
    using mark by (auto simp: markUsed_def split: if_splits)
  have "map_of (nd_jtis n1) ?jti = Some ?ex"
    unfolding n1 by (rule map_of_filter_kept) (simp_all add: update_conv' live)
  then have s: "spent env1 h1 ?jti ?ex (delegations calls n1)"
    by (intro spent_delegations [OF assms(3)]) (simp add: spent_def)
  show ?thesis
  proof (rule ccontr)
    assume "\<not> ?thesis"
    then obtain acct2 n3 where again: "verifyDelegation env1 h1 jws dpk1 (delegations calls n1) = (Inr acct2, n3)"
      by (metis old.sum.exhaust prod.collapse)
    then have "\<not> before_now env1 h1 ?ex" "markUsed env1 h1 ?jti ?ex (delegations calls n1) = (Inr True, n3)"
      using p assms(2) by (auto simp: verifyDelegation_def Let_def act_simps)
    then show False using s by (simp add: spent_def markUsed_def)
  qed
qed

definition delegation_host :: host where
  "delegation_host = demo_host [(''tok'', [(''iss'', GStr demo_signer), (''jti'', GStr ''j''), (''aud'', GStr demo_signer),
     (''iat'', GFloat 1700000000), (''exp'', GFloat 1700000060)])]"

definition delegation_home :: db where
  "delegation_home = demo_home\<lparr>t_devices := [demo_device demo_signer ''o'']\<rparr>"

lemma delegation_verifies:
  "verifyDelegation demo_env delegation_host ''tok'' ''new'' (demo_node delegation_home) =
     (Inr ''o'', (demo_node delegation_home)\<lparr>nd_jtis := [(''j'', 63835596860)]\<rparr>)"
  by (simp add: verifyDelegation_def delegation_host_def demo_host_def demo_node_def isPublicKey_def signed_by_def claim_str_def
      claim_int_def mindex_def str_or_empty_def demo_signer_key andThen_def require_def ask_def ret_def markUsed_def
      delegation_signer_def GetDevice_def stmt_def device_row_of_def delegation_home_def demo_device_def new_device_row_def
      rguard_def rbind_def before_now_def now_ns_def unix_sec_def demo_env_def int_of_float_def go_truncate_def Let_def
      maxDelegationTTLSec_def space_public_key_def wrap64_def in_int64_def demo_signer_text(1) [symmetric] demo_signer_text(2))

theorem delegation_once_witness:
  "\<exists>e. fst (verifyDelegation (demo_env\<lparr>now := 1700000030\<rparr>) delegation_host ''tok'' ''other''
          (delegations [(demo_env, delegation_host, ''tok'', ''third'')]
             ((demo_node delegation_home)\<lparr>nd_jtis := [(''j'', 63835596860)]\<rparr>))) = Inl e"
  by (rule delegation_once [OF delegation_verifies]) (auto simp: before_now_def now_ns_def unix_sec_def demo_env_def delegation_host_def demo_host_def wrap64_def)

subsection \<open>Bindings\<close>

lemma bytes_less_irrefl [simp]: "\<not> bytes_less x x"
  by (induction x) simp_all

lemma bytes_less_Nil [simp]: "bytes_less [] x \<longleftrightarrow> x \<noteq> []"
  by (cases x) simp_all

lemma bytes_less_total: "x \<noteq> y \<Longrightarrow> bytes_less x y \<or> bytes_less y x"
proof (induction x y rule: bytes_less.induct)
  case (3 a as b bs)
  then show ?case using of_char_eq_iff [of a b, where 'a = nat] by (auto simp: neq_iff)
qed simp_all

lemma bytes_less_trans: "bytes_less x y \<Longrightarrow> bytes_less y z \<Longrightarrow> bytes_less x z"
proof (induction x z arbitrary: y rule: bytes_less.induct)
  case (3 a as c cs)
  then obtain b bs where y: "y = b # bs" by (cases y) simp_all
  show ?case using 3 unfolding y by (auto dest: less_trans)
qed simp_all

lemma binding_less_irrefl [simp]: "\<not> binding_less a a"
  by (simp add: binding_less_def)

lemma binding_less_trans: "binding_less a b \<Longrightarrow> binding_less b c \<Longrightarrow> binding_less a c"
  using bytes_less_trans by (auto simp: binding_less_def)

lemma binding_less_total: "a \<noteq> b \<Longrightarrow> binding_less a b \<or> binding_less b a"
  using bytes_less_total by (auto simp: binding_less_def prod_eq_iff)

text \<open>The register that an account's row implements: the newest binding seen.\<close>

definition newer :: "int \<times> string \<Rightarrow> int \<times> string \<Rightarrow> int \<times> string" where
  "newer b a = (if binding_less a b then b else a)"

lemma fold_newer_max: "fold newer bs a \<in> insert a (set bs) \<and> (\<forall>b \<in> insert a (set bs). \<not> binding_less (fold newer bs a) b)"
proof (induction bs arbitrary: a)
  case (Cons b bs)
  let ?m = "fold newer bs (newer b a)"
  have m: "?m \<in> insert (newer b a) (set bs)" "\<not> binding_less ?m (newer b a)" "\<forall>x \<in> set bs. \<not> binding_less ?m x"
    using Cons.IH [of "newer b a"] by auto
  have "\<not> binding_less ?m a \<and> \<not> binding_less ?m b"
    using m(2) binding_less_trans [of ?m a b] binding_less_trans [of ?m b a] binding_less_total [of a b]
    by (auto simp: newer_def split: if_splits)
  moreover have "newer b a = a \<or> newer b a = b" by (simp add: newer_def)
  ultimately show ?case using m(1,3) by auto
qed simp

lemma fold_newer_set:
  assumes "set bs = set bs1"
  shows "fold newer bs a = fold newer bs1 a"
  using fold_newer_max [of bs a] fold_newer_max [of bs1 a] binding_less_total assms by blast

text \<open>Bindings of one account presented one after the other.\<close>

fun accept_bindings :: "env \<Rightarrow> host \<Rightarrow> string \<Rightarrow> string \<Rightarrow> (string \<times> int \<times> string) list \<Rightarrow> db \<Rightarrow> db result" where
  "accept_bindings env h key own [] d = Inr d"
| "accept_bindings env h key own ((jws, iat, sub) # bs) d =
     rbind (AcceptBinding env h key jws iat sub own d) (\<lambda>(_, _, _, d1). accept_bindings env h key own bs d1)"

lemma password_names_drop:
  assumes "\<And>u. \<not> has_password (f u)"
  shows "password_names low (update_where p f us) = map (low \<circ> us_username) (filter (\<lambda>u. \<not> p u) (filter has_password us))"
  using assms by (induction us) (auto simp: password_names_def update_where_def)

definition bindable :: "(string \<Rightarrow> string) \<Rightarrow> string \<Rightarrow> db \<Rightarrow> user_row \<Rightarrow> bool" where
  "bindable low key d u \<longleftrightarrow> distinct (user_keys d) \<and> distinct (password_names low (t_users d)) \<and> user_row_of d key = Some u"

lemma accept_step:
  assumes ok: "bindable (sql_lower h) key d u" and env: "reliable env" and sub: "sub \<noteq> own"
  shows "\<exists>st up d1 u1. AcceptBinding env h key jws iat sub own d = Inr (st, us_binding_sub u1, up, d1)
    \<and> bindable (sql_lower h) key d1 u1 \<and> binding_of u1 = newer (iat, sub) (binding_of u)"
proof -
  let ?p = "\<lambda>u. us_public_key u = key \<and> binding_accepted iat sub own u" and ?f = "with_binding jws iat sub own"
  let ?us = "update_where ?p ?f (t_users d)"
  have key: "us_public_key (?f x) = us_public_key x" "\<not> has_password (?f x)" "\<not> ?p (?f x)" for x
    using sub by (simp_all add: with_binding_def has_password_def binding_accepted_def binding_of_def)
  have "filter ?p ?us = []"
    using key(3) by (auto simp: filter_empty_conv in_update_where)
  moreover have "distinct (password_names (sql_lower h) ?us)"
    using ok unfolding password_names_drop [OF key(2)] by (intro distinct_map_filter [of _ "filter has_password (t_users d)"]) (simp add: bindable_def password_names_def)
  ultimately have upd: "update_users h (binding_accepted iat sub own) ?f key d = Inr (list_ex ?p (t_users d), d\<lparr>t_users := ?us\<rparr>)"
    by (simp add: update_users_def Let_def rguard_def)
  have u: "u \<in> set (t_users d)" "us_public_key u = key"
    using ok find_in_set by (fastforce simp: bindable_def user_row_of_def)+
  have only: "x = u" if "x \<in> set (t_users d)" "us_public_key x = key" for x
    using ok u that inj_onD by (fastforce simp: bindable_def user_keys_def distinct_map)
  have row: "user_row_of (d\<lparr>t_users := ?us\<rparr>) key = Some (if ?p u then ?f u else u)"
    using ok by (simp add: user_row_of_def find_update_where key(1) bindable_def)
  have ok1: "bindable (sql_lower h) key (d\<lparr>t_users := ?us\<rparr>) (if ?p u then ?f u else u)"
    using row \<open>distinct (password_names (sql_lower h) ?us)\<close> ok by (simp add: bindable_def user_keys_def map_update_where key(1))
  have nb: "binding_of (if ?p u then ?f u else u) = newer (iat, sub) (binding_of u)"
    using sub u(2) by (auto simp: newer_def binding_accepted_def binding_of_def with_binding_def)
  show ?thesis
  proof (cases "?p u")
    case True
    then have "list_ex ?p (t_users d)" using u(1) by (auto simp: list_ex_iff)
    then show ?thesis using upd ok1 nb env True
      by (intro exI [of _ jws] exI [of _ True] exI [of _ "d\<lparr>t_users := ?us\<rparr>"] exI [of _ "?f u"])
        (simp add: AcceptBinding_def with_binding_def rbind_def)
  next
    case False
    then have "\<not> list_ex ?p (t_users d)" using only by (auto simp: list_ex_iff)
    then show ?thesis using upd ok1 nb env False row by (auto simp: AcceptBinding_def rbind_def)
  qed
qed

lemma accept_bindings_fold:
  assumes "bindable (sql_lower h) key d u" and "reliable env" and "\<forall>(_, _, sub) \<in> set bs. sub \<noteq> own"
  shows "\<exists>d1 u1. accept_bindings env h key own bs d = Inr d1 \<and> user_row_of d1 key = Some u1
    \<and> binding_of u1 = fold newer (map snd bs) (binding_of u)"
  using assms
proof (induction bs arbitrary: d u)
  case (Cons b bs)
  obtain jws iat sub where b: "b = (jws, iat, sub)" by (cases b) auto
  have "sub \<noteq> own" using Cons.prems(3) by (simp add: b)
  from accept_step [OF Cons.prems(1,2) this]
  obtain st up d1 u1 where 1: "AcceptBinding env h key jws iat sub own d = Inr (st, us_binding_sub u1, up, d1)"
    "bindable (sql_lower h) key d1 u1" "binding_of u1 = newer (iat, sub) (binding_of u)"
    by blast
  have "\<forall>(_, _, sub) \<in> set bs. sub \<noteq> own" using Cons.prems(3) by simp
  from Cons.IH [OF 1(2) Cons.prems(2) this] show ?case by (simp add: b 1 rbind_def)
qed (simp add: bindable_def)

text \<open>
  C31. Bindings converge: presented in any order, and some of them again, bindings of one account to
  other spaces are all processed and leave the same one stored, the newest by time and then by
  subject, among them and the one stored before: the row implements a register of the maximum.
\<close>
theorem bindings_converge:
  assumes "reliable env" and "distinct (user_keys d)" and "distinct (password_names (sql_lower h) (t_users d))"
    and "user_row_of d key = Some u" and "\<forall>(jws, iat, sub) \<in> set bs. sub \<noteq> own" and "set bs1 = set bs"
  shows "\<exists>d1 d2 u1 u2. accept_bindings env h key own bs d = Inr d1 \<and> user_row_of d1 key = Some u1
    \<and> accept_bindings env h key own bs1 d = Inr d2 \<and> user_row_of d2 key = Some u2
    \<and> binding_of u1 = fold newer (map snd bs) (binding_of u) \<and> binding_of u2 = binding_of u1
    \<and> (\<forall>(jws, iat, sub) \<in> set bs. \<not> binding_less (binding_of u1) (iat, sub)) \<and> \<not> binding_less (binding_of u1) (binding_of u)"
proof -
  have ok: "bindable (sql_lower h) key d u" using assms by (simp add: bindable_def)
  obtain d1 u1 where 1: "accept_bindings env h key own bs d = Inr d1" "user_row_of d1 key = Some u1"
      "binding_of u1 = fold newer (map snd bs) (binding_of u)"
    using accept_bindings_fold [OF ok assms(1)] assms(5) by blast
  have "\<forall>(jws, iat, sub) \<in> set bs1. sub \<noteq> own" using assms(5,6) by simp
  then obtain d2 u2 where 2: "accept_bindings env h key own bs1 d = Inr d2" "user_row_of d2 key = Some u2"
      "binding_of u2 = fold newer (map snd bs1) (binding_of u)"
    using accept_bindings_fold [OF ok assms(1), of bs1] by blast
  have "fold newer (map snd bs1) (binding_of u) = fold newer (map snd bs) (binding_of u)"
    by (rule fold_newer_set) (simp add: assms(6))
  moreover have "\<forall>(jws, iat, sub) \<in> set bs. \<not> binding_less (binding_of u1) (iat, sub)" "\<not> binding_less (binding_of u1) (binding_of u)"
    using fold_newer_max [of "map snd bs" "binding_of u"] by (force simp: 1(3))+
  moreover have "binding_of u2 = binding_of u1" using 1(3) 2(3) calculation(1) by simp
  ultimately show ?thesis using 1 2 by blast
qed

theorem bindings_converge_witness:
  "\<exists>d1 u1. accept_bindings demo_env (demo_host []) ''o'' ''own'' [(''j1'', 5, ''b''), (''j2'', 7, ''a''), (''j3'', 7, ''c'')] demo_home = Inr d1
    \<and> user_row_of d1 ''o'' = Some u1 \<and> binding_of u1 = (7, ''c'')"
  using bindings_converge [of demo_env demo_home "demo_host []" "''o''" demo_olga
      "[(''j1'', 5, ''b''), (''j2'', 7, ''a''), (''j3'', 7, ''c'')]" "''own''"
      "[(''j1'', 5, ''b''), (''j2'', 7, ''a''), (''j3'', 7, ''c'')]"]
  by (auto simp: reliable_def account_demo_defs demo_env_def user_keys_def password_names_def has_password_def user_row_of_def
      newer_def binding_less_def binding_of_def)

end
