(* ===== verification/Storage.thy ===== *)
theory Storage
  imports Spaces "HOL-Library.Sublist"
begin

section \<open>Files: the rows, the disk and the content types\<close>

text \<open>
  \<open>internal/storage/models.go\<close>, \<open>repository.go\<close> and \<open>local_storage.go\<close>. The rows of the files and of the
  chunks of a running upload are tables of the database; the contents are files under a base
  directory, here a map from the path below it.
\<close>

subsection \<open>The record of a file\<close>

record Storage =
  st_id :: string
  st_application_id :: "string option"
  st_space_id :: "string option"
  st_uploader :: string
  st_filename :: string
  st_content_type :: string
  st_size :: int
  st_path :: string
  st_thumbnail :: string
  st_width :: "int option"
  st_height :: "int option"
  st_duration_ms :: "int option"
  st_checksum :: string
  st_created_at :: int
  st_status :: string
  st_url :: string
  st_thumbnail_url :: string

record StorageChunk =
  sc_storage_id :: string
  sc_index :: int
  sc_size :: int
  sc_checksum :: string
  sc_uploaded_at :: int

abbreviation StorageStatusPending :: string where "StorageStatusPending \<equiv> ''pending''"
abbreviation StorageStatusReady :: string where "StorageStatusReady \<equiv> ''ready''"

record UploadRequest =
  ur_id :: string
  ur_filename :: string
  ur_content_type :: string
  ur_size :: int
  ur_checksum :: string

record ChunkedUploadInitRequest =
  ci_id :: string
  ci_filename :: string
  ci_content_type :: string
  ci_total_size :: int
  ci_checksum :: string

record ChunkedUploadInitResponse =
  cu_storage_id :: string
  cu_uploaded_at :: int
  cu_path :: string

text \<open>
  What the code asks of other code: whether \<open>mime.ParseMediaType\<close> accepts a type, the bounds of a
  decoded image and its thumbnail (\<open>imaging\<close>), the year and month of a time in the process's zone,
  and the text that a JSON column holds.
\<close>

record media =
  md_media_type :: "string \<Rightarrow> bool"
  md_bounds :: "string \<Rightarrow> (int \<times> int) option"
  md_thumb :: "string \<Rightarrow> string result"
  md_year_month :: "int \<Rightarrow> string \<times> string"
  md_json :: "gmap \<Rightarrow> string"

subsection \<open>The repository\<close>

definition storage_ids :: "db \<Rightarrow> string list" where
  "storage_ids d = map sg_id (t_storage d)"

definition row_of_storage :: "Storage \<Rightarrow> storage_row" where
  "row_of_storage s =
     \<lparr>sg_id = st_id s, sg_application_id = st_application_id s, sg_uploader = st_uploader s, sg_filename = st_filename s,
      sg_content_type = st_content_type s, sg_size = st_size s, sg_path = st_path s, sg_thumbnail = Some (st_thumbnail s),
      sg_width = st_width s, sg_height = st_height s, sg_duration_ms = st_duration_ms s, sg_checksum = st_checksum s,
      sg_created_at = st_created_at s, sg_status = st_status s, sg_space_id = st_space_id s, sg_last_referenced_at = None\<rparr>"

definition repoCreateStorage :: "env \<Rightarrow> Storage \<Rightarrow> db \<Rightarrow> db result" where
  "repoCreateStorage env s d =
     stmt env ''storage.Create'' d
       (rguard (st_id s \<notin> set (storage_ids d)) (unique_violation ''storage_pkey'')
       (rguard (case st_space_id s of None \<Rightarrow> True | Some x \<Rightarrow> x \<in> set (space_ids d)) (fk_violation ''storage_space_id_fkey'')
         (Inr (d\<lparr>t_storage := t_storage d @ [row_of_storage s]\<rparr>))))"

text \<open>A row read back; the queries do not ask for the space, and \<open>NULL\<close> is the empty thumbnail.\<close>

definition storage_of_row :: "storage_row \<Rightarrow> Storage" where
  "storage_of_row r =
     \<lparr>st_id = sg_id r, st_application_id = sg_application_id r, st_space_id = None, st_uploader = sg_uploader r,
      st_filename = sg_filename r, st_content_type = sg_content_type r, st_size = sg_size r, st_path = sg_path r,
      st_thumbnail = null_string (sg_thumbnail r), st_width = sg_width r, st_height = sg_height r,
      st_duration_ms = sg_duration_ms r, st_checksum = sg_checksum r, st_created_at = sg_created_at r,
      st_status = sg_status r, st_url = [], st_thumbnail_url = []\<rparr>"

definition storage_row_of :: "db \<Rightarrow> string \<Rightarrow> storage_row option" where
  "storage_row_of d sid = find (\<lambda>r. sg_id r = sid) (t_storage d)"

definition repoGetStorage :: "env \<Rightarrow> string \<Rightarrow> db \<Rightarrow> Storage result" where
  "repoGetStorage env sid d =
     stmt env ''storage.GetByID'' d
       (case storage_row_of d sid of None \<Rightarrow> Inl (errorf ''storage not found'') | Some r \<Rightarrow> Inr (storage_of_row r))"

definition repoStorageOfApp :: "env \<Rightarrow> string \<Rightarrow> db \<Rightarrow> Storage list result" where
  "repoStorageOfApp env appID d =
     stmt env ''storage.GetByApplicationID'' d
       (Inr (map storage_of_row (sort_key (\<lambda>r. - sg_created_at r) (filter (\<lambda>r. sg_application_id r = Some appID) (t_storage d)))))"

text \<open>Only the id and the two paths are read.\<close>

definition paths_of_row :: "storage_row \<Rightarrow> Storage" where
  "paths_of_row r =
     \<lparr>st_id = sg_id r, st_application_id = None, st_space_id = None, st_uploader = [], st_filename = [], st_content_type = [],
      st_size = 0, st_path = sg_path r, st_thumbnail = null_string (sg_thumbnail r), st_width = None, st_height = None,
      st_duration_ms = None, st_checksum = [], st_created_at = 0, st_status = [], st_url = [], st_thumbnail_url = []\<rparr>"

definition personal_of :: "string \<Rightarrow> storage_row \<Rightarrow> bool" where
  "personal_of key r \<longleftrightarrow> sg_uploader r = key \<and> sg_application_id r = None"

definition GetPersonalByUploader :: "env \<Rightarrow> string \<Rightarrow> db \<Rightarrow> Storage list result" where
  "GetPersonalByUploader env key d =
     stmt env ''storage.GetPersonalByUploader'' d (Inr (map paths_of_row (filter (personal_of key) (t_storage d))))"

text \<open>An update that reports a missing row.\<close>

definition execWithRowCheck :: "env \<Rightarrow> string \<Rightarrow> (storage_row \<Rightarrow> storage_row) \<Rightarrow> string \<Rightarrow> db \<Rightarrow> db result" where
  "execWithRowCheck env site f sid d =
     stmt env site d
       (rguard (sid \<in> set (storage_ids d)) (errorf ''storage not found'')
         (Inr (d\<lparr>t_storage := update_where (\<lambda>r. sg_id r = sid) f (t_storage d)\<rparr>)))"

definition UpdateStorageStatus :: "env \<Rightarrow> string \<Rightarrow> string \<Rightarrow> db \<Rightarrow> db result" where
  "UpdateStorageStatus env sid st = execWithRowCheck env ''storage.UpdateStatus'' (\<lambda>r. r\<lparr>sg_status := st\<rparr>) sid"

definition UpdateThumbnail :: "env \<Rightarrow> string \<Rightarrow> string \<Rightarrow> db \<Rightarrow> db result" where
  "UpdateThumbnail env sid path = execWithRowCheck env ''storage.UpdateThumbnail'' (\<lambda>r. r\<lparr>sg_thumbnail := Some path\<rparr>) sid"

definition UpdateDimensions :: "env \<Rightarrow> string \<Rightarrow> int \<Rightarrow> int \<Rightarrow> db \<Rightarrow> db result" where
  "UpdateDimensions env sid w ht d =
     rguard (fits_int4 w \<and> fits_int4 ht) out_of_range
       (execWithRowCheck env ''storage.UpdateDimensions'' (\<lambda>r. r\<lparr>sg_width := Some w, sg_height := Some ht\<rparr>) sid d)"

text \<open>Rows go; \<open>users.avatar_storage_id\<close> becomes \<open>NULL\<close> where it referred to one of them.\<close>

definition drop_storage :: "(storage_row \<Rightarrow> bool) \<Rightarrow> db \<Rightarrow> db" where
  "drop_storage p d =
     (let gone = sg_id ` set (filter p (t_storage d))
      in d\<lparr>t_storage := filter (\<lambda>r. \<not> p r) (t_storage d),
           t_users := update_where (\<lambda>u. us_avatar u \<in> Some ` gone) (\<lambda>u. u\<lparr>us_avatar := None\<rparr>) (t_users d)\<rparr>)"

definition repoDeleteStorage :: "env \<Rightarrow> string \<Rightarrow> db \<Rightarrow> db result" where
  "repoDeleteStorage env sid d =
     stmt env ''storage.Delete'' d
       (rguard (sid \<in> set (storage_ids d)) (errorf ''storage not found'') (Inr (drop_storage (\<lambda>r. sg_id r = sid) d)))"

definition DeleteByApplicationID :: "env \<Rightarrow> string \<Rightarrow> db \<Rightarrow> db result" where
  "DeleteByApplicationID env appID d =
     stmt env ''storage.DeleteByApplicationID'' d (Inr (drop_storage (\<lambda>r. sg_application_id r = Some appID) d))"

definition CreateChunk :: "env \<Rightarrow> StorageChunk \<Rightarrow> db \<Rightarrow> db result" where
  "CreateChunk env c d =
     stmt env ''storage.CreateChunk'' d
       (rguard (fits_int4 (sc_index c)) out_of_range
         (Inr (d\<lparr>t_chunks := upsert (\<lambda>r. ck_storage_id r = sc_storage_id c \<and> ck_index r = sc_index c)
            (\<lambda>r. r\<lparr>ck_size := sc_size c, ck_checksum := sc_checksum c, ck_uploaded_at := sc_uploaded_at c\<rparr>)
            \<lparr>ck_storage_id = sc_storage_id c, ck_index = sc_index c, ck_size = sc_size c, ck_checksum = sc_checksum c,
             ck_uploaded_at = sc_uploaded_at c\<rparr> (t_chunks d)\<rparr>)))"

definition chunk_of_row :: "chunk_row \<Rightarrow> StorageChunk" where
  "chunk_of_row r = \<lparr>sc_storage_id = ck_storage_id r, sc_index = ck_index r, sc_size = ck_size r, sc_checksum = ck_checksum r,
     sc_uploaded_at = ck_uploaded_at r\<rparr>"

definition GetChunks :: "env \<Rightarrow> string \<Rightarrow> db \<Rightarrow> StorageChunk list result" where
  "GetChunks env sid d =
     stmt env ''storage.GetChunks'' d (Inr (map chunk_of_row (sort_key ck_index (filter (\<lambda>r. ck_storage_id r = sid) (t_chunks d)))))"

definition DeleteChunks :: "env \<Rightarrow> string \<Rightarrow> db \<Rightarrow> db result" where
  "DeleteChunks env sid d =
     stmt env ''storage.DeleteChunks'' d (Inr (d\<lparr>t_chunks := filter (\<lambda>r. ck_storage_id r \<noteq> sid) (t_chunks d)\<rparr>))"

definition stale_pending :: "int \<Rightarrow> storage_row \<Rightarrow> bool" where
  "stale_pending cutoff r \<longleftrightarrow> sg_status r = StorageStatusPending \<and> sg_created_at r < cutoff"

text \<open>One transaction, chunks first.\<close>

definition DeleteStalePending :: "env \<Rightarrow> int \<Rightarrow> db \<Rightarrow> (int \<times> db) result" where
  "DeleteStalePending env cutoff d =
     rbind (stmt env ''storage.DeleteStalePending.Begin'' d (Inr ())) (\<lambda>_.
     rbind (stmt env ''storage.DeleteStalePending.chunks'' d
       (Inr (d\<lparr>t_chunks := filter (\<lambda>c. ck_storage_id c \<notin> sg_id ` set (filter (stale_pending cutoff) (t_storage d))) (t_chunks d)\<rparr>))) (\<lambda>d1.
     rbind (stmt env ''storage.DeleteStalePending.storage'' d1
       (Inr (int (length (filter (stale_pending cutoff) (t_storage d1))), drop_storage (stale_pending cutoff) d1))) (\<lambda>(n, d2).
     stmt env ''storage.DeleteStalePending.Commit'' d2 (Inr (n, d2)))))"

text \<open>
  Something on the space mentions the id: a component's data, an event's, an application's icon, an
  account's image or the space's own. \<open>strpos(text, id) > 0\<close>.
\<close>

definition referenced :: "media \<Rightarrow> db \<Rightarrow> string \<Rightarrow> bool" where
  "referenced md d sid \<longleftrightarrow>
     list_ex (\<lambda>c. sublist sid (case c_data c of None \<Rightarrow> [] | Some m \<Rightarrow> md_json md m)) (t_comps d)
     \<or> list_ex (\<lambda>(_, e). sublist sid (case ev_data e of None \<Rightarrow> ''null'' | Some m \<Rightarrow> md_json md m)) (t_events d)
     \<or> list_ex (\<lambda>a. case ar_icon a of None \<Rightarrow> False | Some i \<Rightarrow> sublist sid i) (t_apps d)
     \<or> list_ex (\<lambda>u. us_avatar u = Some sid) (t_users d)
     \<or> (case t_profile d of None \<Rightarrow> False | Some p \<Rightarrow> pf_avatar p = Some sid)"

definition MarkReferenced :: "env \<Rightarrow> media \<Rightarrow> int \<Rightarrow> db \<Rightarrow> db result" where
  "MarkReferenced env md t d =
     stmt env ''storage.MarkReferenced'' d
       (Inr (d\<lparr>t_storage := update_where (\<lambda>r. sg_status r \<noteq> StorageStatusPending
            \<and> (case sg_last_referenced_at r of None \<Rightarrow> True | Some x \<Rightarrow> x < t - 86400) \<and> referenced md d (sg_id r))
          (\<lambda>r. r\<lparr>sg_last_referenced_at := Some t\<rparr>) (t_storage d)\<rparr>))"

definition last_use :: "storage_row \<Rightarrow> int" where
  "last_use r = (case sg_last_referenced_at r of None \<Rightarrow> sg_created_at r | Some t \<Rightarrow> t)"

definition purge_candidates :: "int \<Rightarrow> nat \<Rightarrow> db \<Rightarrow> storage_row list" where
  "purge_candidates cutoff limit d =
     take limit (sort_key sg_created_at (filter (\<lambda>r. sg_status r \<noteq> StorageStatusPending \<and> last_use r < cutoff) (t_storage d)))"

definition unreferenced :: "media \<Rightarrow> int \<Rightarrow> nat \<Rightarrow> db \<Rightarrow> storage_row \<Rightarrow> bool" where
  "unreferenced md cutoff limit d r \<longleftrightarrow>
     sg_id r \<in> sg_id ` set (purge_candidates cutoff limit d) \<and> \<not> referenced md d (sg_id r)"

definition DeleteUnreferenced :: "env \<Rightarrow> media \<Rightarrow> int \<Rightarrow> nat \<Rightarrow> db \<Rightarrow> (Storage list \<times> db) result" where
  "DeleteUnreferenced env md cutoff limit d =
     stmt env ''storage.DeleteUnreferenced'' d
       (Inr (map paths_of_row (filter (unreferenced md cutoff limit d) (t_storage d)),
             drop_storage (unreferenced md cutoff limit d) d))"

text \<open>The sum of a \<open>BIGINT\<close> column is a \<open>NUMERIC\<close>; what does not fit an \<open>int64\<close> is not scanned.\<close>

definition scan_sum :: "int \<Rightarrow> int result" where
  "scan_sum n = rguard (in_int64 n) (errorf ''converting driver.Value type to a int64'') (Inr n)"

definition used_bytes :: "string \<Rightarrow> db \<Rightarrow> int" where
  "used_bytes key d = sum_list (map sg_size (filter (\<lambda>r. sg_uploader r = key) (t_storage d)))"

definition GetUsedBytesByUploader :: "env \<Rightarrow> string \<Rightarrow> db \<Rightarrow> int result" where
  "GetUsedBytesByUploader env key d = rbind (stmt env ''storage.GetUsedBytesByUploader'' d (Inr (used_bytes key d))) scan_sum"

definition GetTotalUsedBytes :: "env \<Rightarrow> db \<Rightarrow> int result" where
  "GetTotalUsedBytes env d =
     rbind (stmt env ''storage.GetTotalUsedBytes'' d (Inr (sum_list (map sg_size (t_storage d))))) scan_sum"

end
