(* ===== verification/Disk.thy ===== *)
theory Disk
  imports Storage
begin

section \<open>The backend of the files\<close>

text \<open>
  \<open>internal/storage/storage.go\<close> and \<open>local_storage.go\<close>. The interface \<open>StorageBackend\<close> is a record of
  actions on the contents; \<open>local_storage\<close> is the one on the local disk, whose state maps a path below
  the base directory to the content of the file there. What the operating system refuses is a
  parameter.
\<close>

type_synonym blobs = "(string \<times> string) list"

text \<open>A reader that was opened: all of its content, or the error on the way.\<close>

type_synonym reader = "string result"

record backend =
  bk_store :: "string \<Rightarrow> string \<Rightarrow> (blobs, unit) action"
  bk_get :: "string \<Rightarrow> (blobs, reader) action"
  bk_delete :: "string \<Rightarrow> (blobs, unit) action"
  bk_url :: "string \<Rightarrow> string \<Rightarrow> string"

subsection \<open>Ids and paths\<close>

definition validateStorageID :: "string \<Rightarrow> unit result" where
  "validateStorageID sid =
     (if sid = [] \<or> CHR ''/'' \<in> set sid \<or> CHR 0x5C \<in> set sid \<or> prefix ''.'' sid
      then Inl (errw ErrInvalidPath ''invalid storage path'') else Inr ())"

text \<open>\<open>strings.Split(path, "/")\<close>.\<close>

fun split_path :: "string \<Rightarrow> string list" where
  "split_path [] = [[]]"
| "split_path (c # r) =
     (if c = CHR ''/'' then [] # split_path r
      else case split_path r of [] \<Rightarrow> [[c]] | s # ss \<Rightarrow> (c # s) # ss)"

text \<open>
  Once every segment is plain, joining the base directory and asking whether the result is local
  never fails: the file is the one at that path below the base.
\<close>

definition resolve :: "string \<Rightarrow> string result" where
  "resolve path =
     (if path = [] \<or> prefix ''/'' path then Inl (errw ErrInvalidPath ''invalid storage path'')
      else if list_ex (\<lambda>s. s = [] \<or> prefix ''.'' s) (split_path path) then Inl (errw ErrInvalidPath ''invalid storage path'')
      else Inr path)"

text \<open>\<open>filepath.Ext\<close>: from the last dot of the last segment.\<close>

definition Ext :: "string \<Rightarrow> string" where
  "Ext path =
     (let name = rev (takeWhile (\<lambda>c. c \<noteq> CHR ''/'') (rev path))
      in if CHR ''.'' \<in> set name then CHR ''.'' # rev (takeWhile (\<lambda>c. c \<noteq> CHR ''.'') (rev name)) else [])"

text \<open>\<open>filepath.Base\<close>: the last segment, without slashes at the end.\<close>

definition Base :: "string \<Rightarrow> string" where
  "Base path =
     (if path = [] then ''.''
      else let p = rev (dropWhile (\<lambda>c. c = CHR ''/'') (rev path)); name = rev (takeWhile (\<lambda>c. c \<noteq> CHR ''/'') (rev p))
           in if name = [] then ''/'' else name)"

definition TrimSuffix :: "string \<Rightarrow> string \<Rightarrow> string" where
  "TrimSuffix s suf = (if suffix suf s then take (length s - length suf) s else s)"

subsection \<open>The local disk\<close>

text \<open>
  What a call of the operating system on a path does: its error, if any; of \<open>remove\<close> and \<open>open\<close>, an
  error other than \<open>not exist\<close>. \<open>ds_partial\<close> is what a failed write leaves in the file.
\<close>

record disk =
  ds_fault :: "string \<Rightarrow> string \<Rightarrow> blobs \<Rightarrow> goerr option"
  ds_partial :: "string \<Rightarrow> string"

text \<open>A file that could not be written is removed, if it can be.\<close>

definition localStore :: "disk \<Rightarrow> string \<Rightarrow> string \<Rightarrow> (blobs, unit) action" where
  "localStore ds path content =
     andThen (lift (resolve path)) (\<lambda>p b.
       case ds_fault ds ''mkdir'' p b of Some e \<Rightarrow> (Inl e, b) | None \<Rightarrow>
      (case ds_fault ds ''create'' p b of Some e \<Rightarrow> (Inl e, b) | None \<Rightarrow>
      (case ds_fault ds ''write'' p b of
         None \<Rightarrow> (Inr (), AList.update p content b)
       | Some e \<Rightarrow>
          (Inl e, (case ds_fault ds ''remove partial'' p b of None \<Rightarrow> AList.delete p b
                   | Some _ \<Rightarrow> AList.update p (ds_partial ds content) b)))))"

definition localGet :: "disk \<Rightarrow> string \<Rightarrow> (blobs, reader) action" where
  "localGet ds path =
     andThen (lift (resolve path)) (\<lambda>p b.
       (case ds_fault ds ''open'' p b of
          Some e \<Rightarrow> Inl e
        | None \<Rightarrow>
            (case map_of b p of
               None \<Rightarrow> Inl (errw ErrBlobNotFound ''blob not found'')
             | Some content \<Rightarrow> Inr (case ds_fault ds ''read'' p b of Some e \<Rightarrow> Inl e | None \<Rightarrow> Inr content)), b))"

definition localDelete :: "disk \<Rightarrow> string \<Rightarrow> (blobs, unit) action" where
  "localDelete ds path =
     andThen (lift (resolve path)) (\<lambda>p b.
       case ds_fault ds ''remove'' p b of Some e \<Rightarrow> (Inl e, b) | None \<Rightarrow> (Inr (), AList.delete p b))"

definition localURL :: "string \<Rightarrow> string \<Rightarrow> string" where
  "localURL path baseURL = baseURL @ ''/storage/'' @ TrimSuffix (Base path) (Ext (Base path))"

definition local_storage :: "disk \<Rightarrow> backend" where
  "local_storage ds = \<lparr>bk_store = localStore ds, bk_get = localGet ds, bk_delete = localDelete ds, bk_url = localURL\<rparr>"

text \<open>A disk on which every call succeeds.\<close>

definition sound_disk :: "disk \<Rightarrow> bool" where
  "sound_disk ds \<longleftrightarrow> (\<forall>op p b. ds_fault ds op p b = None)"

subsection \<open>What a client relies on\<close>

text \<open>
  The laws of a working backend, for the paths it accepts: reading gives what was stored last, and
  neither writing nor deleting one path shows at another.
\<close>

locale blob_store =
  fixes put :: "string \<Rightarrow> string \<Rightarrow> (blobs, unit) action"
    and get :: "string \<Rightarrow> (blobs, reader) action"
    and del :: "string \<Rightarrow> (blobs, unit) action"
    and accepts :: "string \<Rightarrow> bool"
    and holds :: "blobs \<Rightarrow> string \<Rightarrow> string option"
  assumes put_ok: "accepts p \<Longrightarrow> \<exists>b1. put p x b = (Inr (), b1) \<and> (\<forall>q. holds b1 q = (if q = p then Some x else holds b q))"
    and get_ok: "accepts p \<Longrightarrow> get p b =
          ((case holds b p of None \<Rightarrow> Inl (errw ErrBlobNotFound ''blob not found'') | Some x \<Rightarrow> Inr (Inr x)), b)"
    and del_ok: "accepts p \<Longrightarrow> \<exists>b1. del p b = (Inr (), b1) \<and> (\<forall>q. holds b1 q = (if q = p then None else holds b q))"
begin

lemma get_stored: "accepts p \<Longrightarrow> holds b p = Some x \<Longrightarrow> get p b = (Inr (Inr x), b)"
  by (simp add: get_ok)

lemma get_gone: "accepts p \<Longrightarrow> holds b p = None \<Longrightarrow> get p b = (Inl (errw ErrBlobNotFound ''blob not found''), b)"
  by (simp add: get_ok)

lemma put_holds: "accepts p \<Longrightarrow> put p x b = (r, b1) \<Longrightarrow> r = Inr () \<and> (\<forall>q. holds b1 q = (if q = p then Some x else holds b q))"
  using put_ok [of p x b] by auto

lemma del_holds: "accepts p \<Longrightarrow> del p b = (r, b1) \<Longrightarrow> r = Inr () \<and> (\<forall>q. holds b1 q = (if q = p then None else holds b q))"
  using del_ok [of p b] by auto

end

definition plain_path :: "string \<Rightarrow> bool" where
  "plain_path p \<longleftrightarrow> resolve p = Inr p"

definition sound :: disk where
  "sound = \<lparr>ds_fault = (\<lambda>_ _ _. None), ds_partial = (\<lambda>_. [])\<rparr>"

lemma resolve_same: "resolve p = Inr q \<Longrightarrow> q = p"
  by (simp add: resolve_def split: if_splits)

interpretation local_disk: blob_store "localStore ds" "localGet ds" "localDelete ds"
    "\<lambda>p. sound_disk ds \<and> plain_path p" map_of for ds
proof
  fix p x b
  assume "sound_disk ds \<and> plain_path p"
  then show "\<exists>b1. localStore ds p x b = (Inr (), b1) \<and> (\<forall>q. map_of b1 q = (if q = p then Some x else map_of b q))"
    by (auto simp: localStore_def andThen_def lift_def plain_path_def sound_disk_def update_conv')
next
  fix p b
  assume "sound_disk ds \<and> plain_path p"
  then show "localGet ds p b =
      ((case map_of b p of None \<Rightarrow> Inl (errw ErrBlobNotFound ''blob not found'') | Some x \<Rightarrow> Inr (Inr x)), b)"
    by (auto simp: localGet_def andThen_def lift_def plain_path_def sound_disk_def split: option.split)
next
  fix p b
  assume "sound_disk ds \<and> plain_path p"
  then show "\<exists>b1. localDelete ds p b = (Inr (), b1) \<and> (\<forall>q. map_of b1 q = (if q = p then None else map_of b q))"
    by (auto simp: localDelete_def andThen_def lift_def plain_path_def sound_disk_def delete_conv')
qed

end
