(* ===== verification/StorageService.thy ===== *)
theory StorageService
  imports Disk Login
begin

section \<open>Uploads, downloads and purging\<close>

text \<open>
  \<open>internal/storage/service.go\<close> and \<open>purge.go\<close>: uploads in one piece and in chunks, the quota of an account,
  thumbnails, deletion, and the two purges. The state is the process and the contents of the files;
  rows and contents are not in one transaction, so the order of the two is part of the model.
\<close>

record vault =
  vt_node :: node
  vt_blobs :: blobs

definition on_node :: "'a act \<Rightarrow> (vault, 'a) action" where
  "on_node m = (\<lambda>v. case m (vt_node v) of (r, n) \<Rightarrow> (r, v\<lparr>vt_node := n\<rparr>))"

definition on_blobs :: "(blobs, 'a) action \<Rightarrow> (vault, 'a) action" where
  "on_blobs m = (\<lambda>v. case m (vt_blobs v) of (r, b) \<Rightarrow> (r, v\<lparr>vt_blobs := b\<rparr>))"

abbreviation vask :: "(db \<Rightarrow> 'a result) \<Rightarrow> (vault, 'a) action" where "vask q \<equiv> on_node (ask q)"
abbreviation vexec :: "(db \<Rightarrow> db result) \<Rightarrow> (vault, unit) action" where "vexec u \<equiv> on_node (exec u)"

text \<open>An error is logged, or wrapped.\<close>

definition ignoring :: "('s, 'a) action \<Rightarrow> ('s, unit) action" where
  "ignoring m = attempt m (\<lambda>_. ret ())"

definition failing_with :: "(goerr \<Rightarrow> goerr) \<Rightarrow> ('s, 'a) action \<Rightarrow> ('s, 'a) action" where
  "failing_with f m = attempt m (\<lambda>r. lift (map_err f r))"

subsection \<open>The service and its limits\<close>

definition maxContentTypeLength :: nat where "maxContentTypeLength = 255"

record StorageService =
  ss_backend :: backend
  ss_max_file :: int
  ss_quota :: int

definition NewStorageService :: "backend \<Rightarrow> int \<Rightarrow> int \<Rightarrow> StorageService" where
  "NewStorageService bk maxFileSize accountQuota =
     \<lparr>ss_backend = bk, ss_max_file = (if maxFileSize \<le> 0 then 500 * 1024 * 1024 else maxFileSize), ss_quota = accountQuota\<rparr>"

definition isValidContentType :: "media \<Rightarrow> string \<Rightarrow> bool" where
  "isValidContentType md ct \<longleftrightarrow> ct \<noteq> [] \<and> length ct \<le> maxContentTypeLength
     \<and> list_all (\<lambda>c. (0x20 :: nat) \<le> of_char c \<and> (of_char c :: nat) \<noteq> 0x7F) ct \<and> md_media_type md ct"

text \<open>The sum is an \<open>int64\<close> and wraps.\<close>

definition checkQuota :: "StorageService \<Rightarrow> env \<Rightarrow> string \<Rightarrow> int \<Rightarrow> bool \<Rightarrow> db \<Rightarrow> unit result" where
  "checkQuota s env uploader bytes quotaExempt d =
     (if ss_quota s \<le> 0 \<or> quotaExempt then Inr ()
      else rbind (map_err (wrapf ''failed to read used storage'') (GetUsedBytesByUploader env uploader d)) (\<lambda>used.
           rguard (\<not> ss_quota s < wrap64 (used + bytes)) (errw ErrStorageQuotaExceeded ''storage quota exceeded'') (Inr ())))"

subsection \<open>Paths\<close>

definition content_type_extensions :: "(string \<times> string) list" where
  "content_type_extensions =
     [(''image/jpeg'', ''.jpg''), (''image/png'', ''.png''), (''image/gif'', ''.gif''), (''image/webp'', ''.webp''),
      (''image/bmp'', ''.bmp''), (''image/svg+xml'', ''.svg''), (''video/mp4'', ''.mp4''), (''video/webm'', ''.webm''),
      (''video/mov'', ''.mov''), (''video/x-msvideo'', ''.avi''), (''video/x-matroska'', ''.mkv''), (''audio/mpeg'', ''.mp3''),
      (''audio/wav'', ''.wav''), (''audio/ogg'', ''.ogg''), (''audio/flac'', ''.flac''), (''application/pdf'', ''.pdf''),
      (''application/msword'', ''.doc''),
      (''application/vnd.openxmlformats-officedocument.wordprocessingml.document'', ''.docx''),
      (''application/vnd.ms-excel'', ''.xls''),
      (''application/vnd.openxmlformats-officedocument.spreadsheetml.sheet'', ''.xlsx''),
      (''application/vnd.ms-powerpoint'', ''.ppt''),
      (''application/vnd.openxmlformats-officedocument.presentationml.presentation'', ''.pptx''),
      (''text/plain'', ''.txt''), (''text/csv'', ''.csv''), (''application/json'', ''.json''), (''application/xml'', ''.xml''),
      (''text/html'', ''.html''), (''application/zip'', ''.zip''), (''application/x-rar-compressed'', ''.rar''),
      (''application/x-7z-compressed'', ''.7z'')]"

definition extensionFromContentType :: "string \<Rightarrow> string" where
  "extensionFromContentType ct = (case map_of content_type_extensions ct of Some e \<Rightarrow> e | None \<Rightarrow> [])"

definition buildStoragePath :: "media \<Rightarrow> string option \<Rightarrow> string \<Rightarrow> string \<Rightarrow> string \<Rightarrow> int \<Rightarrow> string" where
  "buildStoragePath md appID storageID filename contentType t =
     (let (year, month) = md_year_month md t;
          ext = (if Ext filename = [] then extensionFromContentType contentType else Ext filename);
          pre = (case appID of None \<Rightarrow> ''_user'' | Some a \<Rightarrow> a)
      in pre @ ''/'' @ year @ ''/'' @ month @ ''/'' @ storageID @ ext)"

definition chunk_path :: "string \<Rightarrow> int \<Rightarrow> string" where
  "chunk_path path i = path @ ''.chunk.'' @ format_int i"

subsection \<open>Images\<close>

definition populateURLs :: "StorageService \<Rightarrow> string \<Rightarrow> Storage \<Rightarrow> Storage" where
  "populateURLs s baseURL stored =
     (let url = bk_url (ss_backend s) (st_path stored) baseURL
      in stored\<lparr>st_url := url, st_thumbnail_url := (if st_thumbnail stored \<noteq> [] then url @ ''/thumb'' else st_thumbnail_url stored)\<rparr>)"

definition generateThumbnail :: "StorageService \<Rightarrow> media \<Rightarrow> Storage \<Rightarrow> string \<Rightarrow> (vault, Storage) action" where
  "generateThumbnail s md stored content =
     andThen (lift (md_thumb md content)) (\<lambda>thumb.
     (let path = TrimSuffix (st_path stored) (Ext (st_path stored)) @ ''_thumb.jpg''
      in andThen (failing_with (wrapf ''failed to store thumbnail'') (on_blobs (bk_store (ss_backend s) path thumb))) (\<lambda>_.
         ret (stored\<lparr>st_thumbnail := path\<rparr>))))"

definition processImage :: "StorageService \<Rightarrow> media \<Rightarrow> Storage \<Rightarrow> string \<Rightarrow> (vault, Storage) action" where
  "processImage s md stored content =
     (case md_bounds md content of
        None \<Rightarrow> ret stored
      | Some (w, ht) \<Rightarrow>
          (let sized = stored\<lparr>st_width := Some w, st_height := Some ht\<rparr>
           in attempt (generateThumbnail s md sized content) (\<lambda>r.
                ret (case r of Inl _ \<Rightarrow> sized | Inr thumbed \<Rightarrow> thumbed))))"

text \<open>The part of both uploads that follows the row: an image gets its bounds and its thumbnail.\<close>

definition record_image :: "StorageService \<Rightarrow> env \<Rightarrow> media \<Rightarrow> Storage \<Rightarrow> string \<Rightarrow> (vault, Storage) action" where
  "record_image s env md stored content =
     (if \<not> prefix ''image/'' (st_content_type stored) then ret stored
      else andThen (processImage s md stored content) (\<lambda>stored1.
           andThen (case (st_width stored1, st_height stored1) of
                (Some w, Some ht) \<Rightarrow> ignoring (vexec (UpdateDimensions env (st_id stored1) w ht)) | _ \<Rightarrow> ret ()) (\<lambda>_.
           andThen (if st_thumbnail stored1 \<noteq> [] then ignoring (vexec (UpdateThumbnail env (st_id stored1) (st_thumbnail stored1)))
                else ret ()) (\<lambda>_.
           ret stored1))))"

subsection \<open>An upload in one piece\<close>

text \<open>
  The body is its bytes and, when it breaks off, the error after them. Reading stops one byte after
  the largest size allowed.
\<close>

definition read_limited :: "int \<Rightarrow> string \<times> goerr option \<Rightarrow> string result" where
  "read_limited limit body =
     (let content = take (nat limit) (fst body)
      in case snd body of
           Some e \<Rightarrow> if int (length content) < limit then Inl (wrapf ''failed to read data'' e) else Inr content
         | None \<Rightarrow> Inr content)"

definition new_storage ::
    "string option \<Rightarrow> string \<Rightarrow> string option \<Rightarrow> string \<Rightarrow> string \<Rightarrow> string \<Rightarrow> int \<Rightarrow> string \<Rightarrow> string \<Rightarrow> int \<Rightarrow> string \<Rightarrow> Storage" where
  "new_storage appID uploader spaceID sid filename contentType bytes path checksum t st =
     \<lparr>st_id = sid, st_application_id = appID, st_space_id = spaceID, st_uploader = uploader, st_filename = filename,
      st_content_type = contentType, st_size = bytes, st_path = path, st_thumbnail = [], st_width = None, st_height = None,
      st_duration_ms = None, st_checksum = checksum, st_created_at = t, st_status = st, st_url = [], st_thumbnail_url = []\<rparr>"

definition is_unique_violation :: "goerr \<Rightarrow> bool" where
  "is_unique_violation e \<longleftrightarrow> unique_constraint e \<noteq> None"

text \<open>The checks that come before anything is written, with the content that was read.\<close>

definition check_upload ::
    "StorageService \<Rightarrow> env \<Rightarrow> host \<Rightarrow> media \<Rightarrow> string \<Rightarrow> UploadRequest \<Rightarrow> string \<times> goerr option \<Rightarrow> bool \<Rightarrow> db \<Rightarrow> string result" where
  "check_upload s env h md uploader req body quotaExempt d =
     rbind (validateStorageID (ur_id req)) (\<lambda>_.
     rguard (isValidContentType md (ur_content_type req)) (errorf ''invalid content type'')
    (rguard (\<not> ss_max_file s < ur_size req) (errw ErrFileTooLarge ''file too large'')
    (rbind (read_limited (wrap64 (ss_max_file s + 1)) body) (\<lambda>content.
     rguard (\<not> ss_max_file s < int (length content)) (errw ErrFileTooLarge ''file too large'')
    (rbind (checkQuota s env uploader (int (length content)) quotaExempt d) (\<lambda>_.
     rguard (ur_checksum req = [] \<or> sha256_hex h content = ur_checksum req) (errorf ''checksum mismatch'') (Inr content)))))))"

text \<open>
  The content is written before the row. When the id is taken, the content just written is deleted
  again and the row of that id is the answer.
\<close>

definition Upload ::
    "StorageService \<Rightarrow> env \<Rightarrow> host \<Rightarrow> media \<Rightarrow> string option \<Rightarrow> string \<Rightarrow> string option \<Rightarrow> UploadRequest
     \<Rightarrow> string \<times> goerr option \<Rightarrow> string \<Rightarrow> bool \<Rightarrow> (vault, Storage) action" where
  "Upload s env h md appID uploader spaceID req body baseURL quotaExempt =
     andThen (vask (check_upload s env h md uploader req body quotaExempt)) (\<lambda>content.
     (let path = buildStoragePath md appID (ur_id req) (ur_filename req) (ur_content_type req) (now env);
          stored = new_storage appID uploader spaceID (ur_id req) (ur_filename req) (ur_content_type req)
            (int (length content)) path (sha256_hex h content) (now env) StorageStatusReady
      in andThen (failing_with (wrapf ''failed to store file'') (on_blobs (bk_store (ss_backend s) path content))) (\<lambda>_.
         attempt (vexec (repoCreateStorage env stored)) (\<lambda>r.
         case r of
           Inl e \<Rightarrow>
             andThen (ignoring (on_blobs (bk_delete (ss_backend s) path))) (\<lambda>_.
             if is_unique_violation e
             then andThen (vask (\<lambda>d. map_err (wrapf ''failed to fetch existing storage record'') (repoGetStorage env (ur_id req) d))) (\<lambda>existing.
                  ret (populateURLs s baseURL existing))
             else fail (wrapf ''failed to save storage record'' e))
         | Inr _ \<Rightarrow>
             andThen (record_image s env md stored content) (\<lambda>stored1. ret (populateURLs s baseURL stored1))))))"

subsection \<open>Downloads and deletion\<close>

definition GetFileRecord :: "StorageService \<Rightarrow> env \<Rightarrow> string \<Rightarrow> string \<Rightarrow> (vault, Storage) action" where
  "GetFileRecord s env sid baseURL = andThen (vask (repoGetStorage env sid)) (\<lambda>stored. ret (populateURLs s baseURL stored))"

definition GetData :: "StorageService \<Rightarrow> env \<Rightarrow> string \<Rightarrow> (vault, reader \<times> Storage) action" where
  "GetData s env sid =
     andThen (vask (repoGetStorage env sid)) (\<lambda>stored.
     andThen (on_blobs (bk_get (ss_backend s) (st_path stored))) (\<lambda>reader. ret (reader, stored)))"

definition GetThumbnail :: "StorageService \<Rightarrow> env \<Rightarrow> string \<Rightarrow> (vault, reader \<times> Storage) action" where
  "GetThumbnail s env sid =
     andThen (vask (repoGetStorage env sid)) (\<lambda>stored.
     andThen (require (st_thumbnail stored \<noteq> []) (errorf ''no thumbnail available'')) (\<lambda>_.
     andThen (on_blobs (bk_get (ss_backend s) (st_thumbnail stored))) (\<lambda>reader. ret (reader, stored))))"

definition DeleteStored :: "StorageService \<Rightarrow> env \<Rightarrow> string \<Rightarrow> string \<Rightarrow> (vault, unit) action" where
  "DeleteStored s env sid requestor =
     andThen (vask (repoGetStorage env sid)) (\<lambda>stored.
     andThen (require (st_uploader stored = requestor) (errorf ''not authorized to delete this file'')) (\<lambda>_.
     andThen (ignoring (on_blobs (bk_delete (ss_backend s) (st_path stored)))) (\<lambda>_.
     andThen (if st_thumbnail stored \<noteq> [] then ignoring (on_blobs (bk_delete (ss_backend s) (st_thumbnail stored))) else ret ()) (\<lambda>_.
     vexec (repoDeleteStorage env sid)))))"

text \<open>\<open>errors.Join\<close>.\<close>

definition join_errors :: "goerr list \<Rightarrow> unit result" where
  "join_errors es = (if es = [] then Inr () else Inl (GoErr (concat (map err_chain es)) (concat (map err_msg es))))"

definition deleteBlobs :: "StorageService \<Rightarrow> Storage \<Rightarrow> (vault, unit) action" where
  "deleteBlobs s stored =
     attempt (failing_with (wrapf ''failed to delete storage file'') (on_blobs (bk_delete (ss_backend s) (st_path stored)))) (\<lambda>r1.
     attempt (if st_thumbnail stored \<noteq> []
          then failing_with (wrapf ''failed to delete thumbnail'') (on_blobs (bk_delete (ss_backend s) (st_thumbnail stored)))
          else ret ()) (\<lambda>r2.
     lift (join_errors ((case r1 of Inl e \<Rightarrow> [e] | Inr _ \<Rightarrow> []) @ (case r2 of Inl e \<Rightarrow> [e] | Inr _ \<Rightarrow> [])))))"

fun delete_all_blobs :: "StorageService \<Rightarrow> Storage list \<Rightarrow> (vault, unit) action" where
  "delete_all_blobs s [] = ret ()"
| "delete_all_blobs s (x # xs) = andThen (deleteBlobs s x) (\<lambda>_. delete_all_blobs s xs)"

definition CleanupApplicationStorage :: "StorageService \<Rightarrow> env \<Rightarrow> string \<Rightarrow> (vault, unit) action" where
  "CleanupApplicationStorage s env appID =
     andThen (vask (repoStorageOfApp env appID)) (\<lambda>xs.
     andThen (delete_all_blobs s xs) (\<lambda>_.
     vexec (DeleteByApplicationID env appID)))"

definition DeletePersonalBlobs :: "StorageService \<Rightarrow> env \<Rightarrow> string \<Rightarrow> (vault, unit) action" where
  "DeletePersonalBlobs s env key = andThen (vask (GetPersonalByUploader env key)) (delete_all_blobs s)"

text \<open>The rows go first; a content that cannot be deleted is logged and left.\<close>

fun try_all_blobs :: "StorageService \<Rightarrow> Storage list \<Rightarrow> (vault, unit) action" where
  "try_all_blobs s [] = ret ()"
| "try_all_blobs s (x # xs) = andThen (ignoring (deleteBlobs s x)) (\<lambda>_. try_all_blobs s xs)"

definition PurgeUnreferenced :: "StorageService \<Rightarrow> env \<Rightarrow> media \<Rightarrow> int \<Rightarrow> nat \<Rightarrow> (vault, unit) action" where
  "PurgeUnreferenced s env md cutoff limit =
     andThen (vexec (\<lambda>d. map_err (wrapf ''failed to mark referenced storage'') (MarkReferenced env md (now env) d))) (\<lambda>_.
     andThen (on_node (exec_ret (\<lambda>d. map_err (wrapf ''failed to delete unreferenced storage'') (DeleteUnreferenced env md cutoff limit d))))
       (try_all_blobs s))"

subsection \<open>An upload in chunks\<close>

definition check_init :: "StorageService \<Rightarrow> env \<Rightarrow> media \<Rightarrow> string \<Rightarrow> ChunkedUploadInitRequest \<Rightarrow> bool \<Rightarrow> db \<Rightarrow> unit result" where
  "check_init s env md uploader req quotaExempt d =
     rbind (validateStorageID (ci_id req)) (\<lambda>_.
     rguard (isValidContentType md (ci_content_type req)) (errorf ''invalid content type'')
    (rguard (\<not> ss_max_file s < ci_total_size req) (errw ErrFileTooLarge ''file too large'')
      (checkQuota s env uploader (ci_total_size req) quotaExempt d)))"

definition InitChunkedUpload ::
    "StorageService \<Rightarrow> env \<Rightarrow> media \<Rightarrow> string option \<Rightarrow> string \<Rightarrow> string option \<Rightarrow> ChunkedUploadInitRequest \<Rightarrow> bool
     \<Rightarrow> (vault, ChunkedUploadInitResponse) action" where
  "InitChunkedUpload s env md appID uploader spaceID req quotaExempt =
     andThen (vask (check_init s env md uploader req quotaExempt)) (\<lambda>_.
     (let path = buildStoragePath md appID (ci_id req) (ci_filename req) (ci_content_type req) (now env);
          stored = new_storage appID uploader spaceID (ci_id req) (ci_filename req) (ci_content_type req)
            (ci_total_size req) path (ci_checksum req) (now env) StorageStatusPending
      in andThen (vexec (\<lambda>d. map_err (\<lambda>e. if is_unique_violation e then errorf ''chunked upload already initialized''
                                        else wrapf ''failed to create storage record'' e) (repoCreateStorage env stored d))) (\<lambda>_.
         ret \<lparr>cu_storage_id = ci_id req, cu_uploaded_at = now env, cu_path = path\<rparr>)))"

definition UploadChunk :: "StorageService \<Rightarrow> env \<Rightarrow> host \<Rightarrow> string \<Rightarrow> int \<Rightarrow> string \<times> goerr option \<Rightarrow> (vault, unit) action" where
  "UploadChunk s env h sid i body =
     andThen (vask (repoGetStorage env sid)) (\<lambda>stored.
     andThen (require (st_status stored = StorageStatusPending) (errorf ''cannot upload chunks for storage in this status'')) (\<lambda>_.
     andThen (case snd body of Some e \<Rightarrow> fail (wrapf ''failed to read chunk data'' e) | None \<Rightarrow> ret ()) (\<lambda>_.
     andThen (failing_with (wrapf ''failed to store chunk'')
       (on_blobs (bk_store (ss_backend s) (chunk_path (st_path stored) i) (fst body)))) (\<lambda>_.
     vexec (CreateChunk env \<lparr>sc_storage_id = sid, sc_index = i, sc_size = int (length (fst body)),
       sc_checksum = sha256_hex h (fst body), sc_uploaded_at = now env\<rparr>)))))"

text \<open>The chunks in the order of their indices, which must be 0, 1, and so on.\<close>

fun combine_chunks :: "backend \<Rightarrow> string \<Rightarrow> int \<Rightarrow> StorageChunk list \<Rightarrow> string \<Rightarrow> (blobs, string) action" where
  "combine_chunks bk path i [] acc = ret acc"
| "combine_chunks bk path i (c # cs) acc =
     andThen (require (sc_index c = i) (errorf ''missing chunk'')) (\<lambda>_.
     andThen (failing_with (wrapf ''failed to read chunk'') (bk_get bk (chunk_path path i))) (\<lambda>reader.
     case reader of
       Inl e \<Rightarrow> fail (wrapf ''failed to combine chunk'' e)
     | Inr x \<Rightarrow> combine_chunks bk path (i + 1) cs (acc @ x)))"

fun delete_chunk_blobs :: "backend \<Rightarrow> string \<Rightarrow> StorageChunk list \<Rightarrow> (blobs, unit) action" where
  "delete_chunk_blobs bk path [] = ret ()"
| "delete_chunk_blobs bk path (c # cs) =
     andThen (ignoring (bk_delete bk (chunk_path path (sc_index c)))) (\<lambda>_. delete_chunk_blobs bk path cs)"

definition check_combined :: "StorageService \<Rightarrow> host \<Rightarrow> Storage \<Rightarrow> string \<Rightarrow> unit result" where
  "check_combined s h stored content =
     rguard (\<not> (st_size stored < int (length content) \<or> ss_max_file s < int (length content)))
       (errw ErrFileTooLarge ''file too large'')
    (rguard (st_checksum stored = [] \<or> sha256_hex h content = st_checksum stored) (errorf ''checksum mismatch'') (Inr ()))"

definition CompleteChunkedUpload :: "StorageService \<Rightarrow> env \<Rightarrow> host \<Rightarrow> media \<Rightarrow> string \<Rightarrow> string \<Rightarrow> (vault, Storage) action" where
  "CompleteChunkedUpload s env h md sid baseURL =
     andThen (vask (repoGetStorage env sid)) (\<lambda>stored.
     andThen (require (st_status stored = StorageStatusPending) (errorf ''cannot complete upload for storage in this status'')) (\<lambda>_.
     andThen (vask (GetChunks env sid)) (\<lambda>chunks.
     andThen (require (chunks \<noteq> []) (errorf ''no chunks uploaded'')) (\<lambda>_.
     andThen (on_blobs (combine_chunks (ss_backend s) (st_path stored) 0 chunks [])) (\<lambda>content.
     andThen (lift (check_combined s h stored content)) (\<lambda>_.
     andThen (failing_with (wrapf ''failed to store combined file'') (on_blobs (bk_store (ss_backend s) (st_path stored) content))) (\<lambda>_.
     andThen (on_blobs (delete_chunk_blobs (ss_backend s) (st_path stored) chunks)) (\<lambda>_.
     andThen (ignoring (vexec (DeleteChunks env sid))) (\<lambda>_.
     andThen (record_image s env md stored content) (\<lambda>stored1.
     andThen (vexec (UpdateStorageStatus env sid StorageStatusReady)) (\<lambda>_.
     ret (populateURLs s baseURL (stored1\<lparr>st_size := int (length content), st_status := StorageStatusReady\<rparr>)))))))))))))"

definition CleanupStalePendingUploads :: "env \<Rightarrow> int act" where
  "CleanupStalePendingUploads env = exec_ret (DeleteStalePending env (now env - 3600))"

subsection \<open>The purge of deleted applications and of what nothing mentions\<close>

definition deletedAppRetention :: int where "deletedAppRetention = 30 * 24 * 3600"
definition unreferencedBlobGrace :: int where "unreferencedBlobGrace = 90 * 24 * 3600"
definition purgeBatch :: nat where "purgeBatch = 100"

fun purge_apps :: "StorageService \<Rightarrow> env \<Rightarrow> int \<Rightarrow> string list \<Rightarrow> (vault, unit) action" where
  "purge_apps s env cutoff [] = ret ()"
| "purge_apps s env cutoff (a # as) =
     andThen (ignoring (andThen (CleanupApplicationStorage s env a) (\<lambda>_. vexec (PurgeApplication env a cutoff)))) (\<lambda>_.
     purge_apps s env cutoff as)"

definition PurgeDeletedApps :: "StorageService \<Rightarrow> env \<Rightarrow> (vault, unit) action" where
  "PurgeDeletedApps s env =
     attempt (vask (GetPurgeableApplicationIDs env (now env - deletedAppRetention) purgeBatch)) (\<lambda>r.
     case r of Inl _ \<Rightarrow> ret () | Inr ids \<Rightarrow> purge_apps s env (now env - deletedAppRetention) ids)"

definition PurgeUnreferencedBlobs :: "StorageService \<Rightarrow> env \<Rightarrow> media \<Rightarrow> (vault, unit) action" where
  "PurgeUnreferencedBlobs s env md = ignoring (PurgeUnreferenced s env md (now env - unreferencedBlobGrace) purgeBatch)"

definition purge_runOnce :: "StorageService \<Rightarrow> env \<Rightarrow> media \<Rightarrow> (vault, unit) action" where
  "purge_runOnce s env md = andThen (PurgeDeletedApps s env) (\<lambda>_. PurgeUnreferencedBlobs s env md)"

end
