(* ===== verification/Responses.thy ===== *)
theory Responses
  imports Login AppService
begin

section \<open>What the HTTP handlers share\<close>

text \<open>
  \<open>WriteMoveError\<close> of \<open>internal/application/move.go\<close> and \<open>internal/httputil\<close>: the refusals of a moving or moved
  application, and the address under which the space is reached. The text of a refusal is its
  message or, where its body is an object, its code and what comes with it.
\<close>

definition move_refusal :: "goerr \<Rightarrow> 'a answer option" where
  "move_refusal e =
     (if errors_is e ErrApplicationMoving then Some (Refuse 409 ''application_moving'')
      else if errors_is e ErrApplicationNotMoving then Some (Refuse 409 ''application_not_moving'')
      else case find (\<lambda>s. case s of MovedError _ _ \<Rightarrow> True | _ \<Rightarrow> False) (err_chain e) of
        Some (MovedError url token) \<Rightarrow> Some (Refuse 410 (''application_moved '' @ url @ '' '' @ token))
      | _ \<Rightarrow> None)"

definition or_move_refusal :: "goerr \<Rightarrow> 'a answer \<Rightarrow> 'a answer" where
  "or_move_refusal e other = (case move_refusal e of Some a \<Rightarrow> a | None \<Rightarrow> other)"

text \<open>The headers of a request that the address depends on.\<close>

record public_request =
  pq_forwarded_proto :: string
  pq_tls :: bool
  pq_forwarded_host :: string
  pq_host :: string

definition PublicURL :: "public_request \<Rightarrow> string \<Rightarrow> string" where
  "PublicURL rq override =
     (if override \<noteq> [] then override
      else (if pq_forwarded_proto rq \<noteq> [] then pq_forwarded_proto rq else if pq_tls rq then ''https'' else ''http'')
           @ ''://'' @ (if pq_forwarded_host rq \<noteq> [] then pq_forwarded_host rq else pq_host rq))"

end
