(* ===== verification/StorageEndpoints.thy ===== *)
theory StorageEndpoints
  imports StorageService Responses
begin

section \<open>The handlers of files\<close>

text \<open>
  \<open>internal/storage/endpoints.go\<close>: who may upload, read and delete, the events that follow, and how a refusal
  is told. A request without an authenticated account, a form that does not parse and a body that
  is not JSON are \<open>None\<close>.
\<close>

subsection \<open>Content types\<close>

definition extension_content_types :: "(string \<times> string) list" where
  "extension_content_types =
     [(''jpg'', ''image/jpeg''), (''jpeg'', ''image/jpeg''), (''png'', ''image/png''), (''gif'', ''image/gif''),
      (''webp'', ''image/webp''), (''bmp'', ''image/bmp''), (''svg'', ''image/svg+xml''), (''mp4'', ''video/mp4''),
      (''webm'', ''video/webm''), (''mov'', ''video/mov''), (''avi'', ''video/x-msvideo''), (''mkv'', ''video/x-matroska''),
      (''mp3'', ''audio/mpeg''), (''wav'', ''audio/wav''), (''ogg'', ''audio/ogg''), (''flac'', ''audio/flac''),
      (''pdf'', ''application/pdf''), (''doc'', ''application/msword''),
      (''docx'', ''application/vnd.openxmlformats-officedocument.wordprocessingml.document''),
      (''xls'', ''application/vnd.ms-excel''),
      (''xlsx'', ''application/vnd.openxmlformats-officedocument.spreadsheetml.sheet''),
      (''ppt'', ''application/vnd.ms-powerpoint''),
      (''pptx'', ''application/vnd.openxmlformats-officedocument.presentationml.presentation''),
      (''txt'', ''text/plain''), (''csv'', ''text/csv''), (''json'', ''application/json''), (''xml'', ''application/xml''),
      (''html'', ''text/html''), (''zip'', ''application/zip''), (''rar'', ''application/x-rar-compressed''),
      (''7z'', ''application/x-7z-compressed'')]"

abbreviation octet_stream :: string where "octet_stream \<equiv> ''application/octet-stream''"

text \<open>The extension is what follows the last dot of the whole name.\<close>

definition detectContentType :: "host \<Rightarrow> string \<Rightarrow> string" where
  "detectContentType h filename =
     (let ext = rev (takeWhile (\<lambda>c. c \<noteq> CHR ''.'') (rev filename))
      in if CHR ''.'' \<notin> set filename \<or> ext = [] then octet_stream
         else case map_of extension_content_types (go_lower h ext) of Some t \<Rightarrow> t | None \<Rightarrow> octet_stream)"

definition inlineContentTypes :: "string list" where
  "inlineContentTypes = [''image/jpeg'', ''image/png'', ''image/gif'', ''image/webp'', ''video/mp4'', ''video/webm'', ''video/mov'']"

definition avatarContentTypes :: "string list" where
  "avatarContentTypes = [''image/jpeg'', ''image/png'', ''image/gif'', ''image/webp'']"

definition IsAvatarContentType :: "string \<Rightarrow> bool" where
  "IsAvatarContentType ct \<longleftrightarrow> ct \<in> set avatarContentTypes"

text \<open>
  The four characters are one byte each and no part of a longer one, so dropping the runes is
  dropping the bytes.
\<close>

definition sanitizeFilenameForHeader :: "string \<Rightarrow> string" where
  "sanitizeFilenameForHeader filename = filter (\<lambda>c. c \<notin> {CHR 0x22, CHR 0x5C, CHR 0x0D, CHR 0x0A}) filename"

subsection \<open>Requests\<close>

record form_file =
  ff_filename :: string
  ff_content_type :: string
  ff_size :: int
  ff_opens :: bool
  ff_body :: "string \<times> goerr option"

record form =
  fm_files :: "form_file list"
  fm_ids :: "string list"
  fm_checksums :: "string list"

definition first_or_empty :: "string list \<Rightarrow> string" where
  "first_or_empty xs = (case xs of [] \<Rightarrow> [] | x # _ \<Rightarrow> x)"

text \<open>The handlers' context: the service, the event service, and the calling account.\<close>

record files_api =
  fa_service :: StorageService
  fa_events :: EventService
  fa_external_url :: string
  fa_media :: media

definition isSpaceOwner :: "account option \<Rightarrow> bool" where
  "isSpaceOwner u = (case u of None \<Rightarrow> False | Some a \<Rightarrow> u_role a = RoleOwner)"

definition limit_refusal :: "goerr \<Rightarrow> 'a answer option" where
  "limit_refusal e =
     (if errors_is e ErrFileTooLarge then Some (Refuse 413 ''file_too_large'')
      else if errors_is e ErrStorageQuotaExceeded then Some (Refuse 403 ''storage_quota_exceeded'')
      else None)"

text \<open>How a failed upload is told.\<close>

definition upload_refusal :: "goerr \<Rightarrow> 'a answer" where
  "upload_refusal e =
     (if errors_is e ErrInvalidPath then Refuse 400 ''Invalid storage id''
      else case limit_refusal e of Some a \<Rightarrow> a | None \<Rightarrow> Refuse 400 (err_msg e))"

definition guardAppWrite :: "env \<Rightarrow> string option \<Rightarrow> string \<Rightarrow> (vault, 'a) responder \<Rightarrow> (vault, 'a) responder" where
  "guardAppWrite env appID key k v =
     (case appID of
        None \<Rightarrow> k v
      | Some a \<Rightarrow>
         (case MoveGuard env a key True (nd_db (vt_node v)) of
            None \<Rightarrow> k v
          | Some e \<Rightarrow> (or_move_refusal e (Refuse 500 ''Failed to verify application state''), v)))"

definition user_space :: "account \<Rightarrow> string option" where
  "user_space u = nullif (u_space_id u)"

text \<open>The application named in the query must be one the caller is a member of and may write to.\<close>

definition checkAuthorization ::
    "env \<Rightarrow> account option \<Rightarrow> string \<Rightarrow> (string \<times> string \<times> string option \<Rightarrow> (vault, 'a) responder) \<Rightarrow> (vault, 'a) responder" where
  "checkAuthorization env u appID k =
     hsome u 401 ''Unauthorized'' (\<lambda>a.
     hguard (appID \<noteq> []) 400 ''applicationId is required''
    (guardAppWrite env (Some appID) (u_public_key a)
    (hcall (vask (IsMember env appID (u_public_key a))) (\<lambda>_. Refuse 500 ''Failed to verify membership'') (\<lambda>member.
     hguard member 403 ''Not a member of this application''
       (k (appID, u_public_key a, user_space a))))))"

text \<open>The file of a multipart request; an unknown type is guessed from the name.\<close>

definition read_form ::
    "host \<Rightarrow> string \<Rightarrow> form option \<Rightarrow> (UploadRequest \<times> string \<times> goerr option \<Rightarrow> (vault, 'a) responder) \<Rightarrow> (vault, 'a) responder" where
  "read_form h contentType body k =
     hguard (prefix ''multipart/form-data'' contentType) 400 ''Content-Type must be multipart/form-data''
    (hsome body 400 ''Failed to parse multipart form'' (\<lambda>fm.
     case fm_files fm of
       [] \<Rightarrow> (\<lambda>v. (Refuse 400 ''No file uploaded'', v))
     | f # _ \<Rightarrow>
        hguard (ff_opens f) 500 ''Failed to open uploaded file''
       (hguard (first_or_empty (fm_ids fm) \<noteq> []) 400 ''Storage ID is required''
         (k (\<lparr>ur_id = first_or_empty (fm_ids fm), ur_filename = ff_filename f,
              ur_content_type = (if ff_content_type f = [] \<or> ff_content_type f = octet_stream
                                 then detectContentType h (ff_filename f) else ff_content_type f),
              ur_size = ff_size f, ur_checksum = first_or_empty (fm_checksums fm)\<rparr>, ff_body f)))))"

definition file_event :: "env \<Rightarrow> event_type \<Rightarrow> string \<Rightarrow> string \<Rightarrow> gmap \<Rightarrow> event" where
  "file_event env t key appID rest =
     \<lparr>ev_id = fresh_uuid env, ev_created_at = 0, ev_application_id = appID, ev_sequence = 0, ev_type = t,
      ev_creator = key, ev_version = 0,
      ev_data = Some ([(''version'', GInt 1), (''applicationId'', GStr appID)] @ rest), ev_space_id = []\<rparr>"

definition file_created_event :: "env \<Rightarrow> string \<Rightarrow> string \<Rightarrow> string \<Rightarrow> Storage \<Rightarrow> event" where
  "file_created_event env key appID baseURL stored =
     file_event env EventTypeApplicationFileCreated key appID
       [(''fileId'', GStr (st_id stored)), (''filename'', GStr (st_filename stored)), (''contentType'', GStr (st_content_type stored)),
        (''sizeBytes'', GInt64 (st_size stored)), (''remoteUrl'', GStr (baseURL @ ''/storage/'' @ st_id stored))]"

text \<open>Whether the event can be produced changes nothing in the answer.\<close>

definition produce_quietly :: "files_api \<Rightarrow> env \<Rightarrow> event \<Rightarrow> (vault, unit) action" where
  "produce_quietly fa env ev = ignoring (on_node (produce (fa_events fa) env ev))"

subsection \<open>Uploads\<close>

definition epUpload ::
    "files_api \<Rightarrow> env \<Rightarrow> host \<Rightarrow> account option \<Rightarrow> string \<Rightarrow> string \<Rightarrow> form option \<Rightarrow> public_request \<Rightarrow> (vault, Storage) responder" where
  "epUpload fa env h u appIDStr contentType body rq =
     (let base = PublicURL rq (fa_external_url fa);
          go = (\<lambda>(appID, key, spaceID).
             read_form h contentType body (\<lambda>(req, content).
             hcall (Upload (fa_service fa) env h (fa_media fa) appID key spaceID req content base (isSpaceOwner u)) upload_refusal (\<lambda>stored.
             hcall (case appID of None \<Rightarrow> ret ()
                    | Some a \<Rightarrow> produce_quietly fa env (file_created_event env key a base stored)) (\<lambda>_. Refuse 500 []) (\<lambda>_.
             answer 201 stored))))
      in if appIDStr \<noteq> [] then checkAuthorization env u appIDStr (\<lambda>(a, key, spaceID). go (Some a, key, spaceID))
         else hsome u 401 ''Unauthorized'' (\<lambda>a. go (None, u_public_key a, user_space a)))"

text \<open>The change of an account's settings goes to every application that it is a member of, each with an id of its own.\<close>

fun announce_avatar :: "files_api \<Rightarrow> (nat \<Rightarrow> env) \<Rightarrow> string \<Rightarrow> string \<Rightarrow> nat \<Rightarrow> application list \<Rightarrow> (vault, unit) action" where
  "announce_avatar fa envs key sid i [] = ret ()"
| "announce_avatar fa envs key sid i (a # as) =
     andThen (produce_quietly fa (envs i)
       \<lparr>ev_id = fresh_uuid (envs i), ev_created_at = 0, ev_application_id = ap_id a, ev_sequence = 0,
        ev_type = EventTypeUserSettingsChanged, ev_creator = key, ev_version = 0,
        ev_data = Some [(''version'', GInt 1), (''userPublicKey'', GStr key), (''avatarStorageId'', GStr sid),
          (''applicationId'', GStr (ap_id a))],
        ev_space_id = null_string (ap_space_id a)\<rparr>) (\<lambda>_.
     announce_avatar fa envs key sid (i + 1) as)"

definition UploadUserAvatar ::
    "files_api \<Rightarrow> env \<Rightarrow> (nat \<Rightarrow> env) \<Rightarrow> host \<Rightarrow> account option \<Rightarrow> string \<Rightarrow> form option \<Rightarrow> public_request \<Rightarrow> (vault, Storage) responder" where
  "UploadUserAvatar fa env envs h u contentType body rq =
     hsome u 401 ''Unauthorized'' (\<lambda>a.
     read_form h contentType body (\<lambda>(req, content).
     hguard (IsAvatarContentType (ur_content_type req)) 400 ''Avatar must be a JPEG, PNG, GIF, or WebP image''
    (hcall (Upload (fa_service fa) env h (fa_media fa) None (u_public_key a) (user_space a) req content
              (PublicURL rq (fa_external_url fa)) (isSpaceOwner u))
       (\<lambda>e. case limit_refusal e of Some r \<Rightarrow> r | None \<Rightarrow> Refuse 500 ''Failed to upload avatar'') (\<lambda>stored.
     hcall (vexec (UpdateAvatarStorageID env h (u_public_key a) (Some (st_id stored))))
       (\<lambda>_. Refuse 500 ''Failed to update avatar'') (\<lambda>_.
     hcall (attempt (vask (GetApplicationsByMemberPublicKey env (u_public_key a))) (\<lambda>r.
              case r of Inl _ \<Rightarrow> ret () | Inr apps \<Rightarrow> announce_avatar fa envs (u_public_key a) (st_id stored) 0 apps))
       (\<lambda>_. Refuse 500 []) (\<lambda>_.
     hcall (case ac_avatar a of None \<Rightarrow> ret ()
            | Some old \<Rightarrow> ignoring (DeleteStored (fa_service fa) env old (u_public_key a))) (\<lambda>_. Refuse 500 []) (\<lambda>_.
     answer 201 stored)))))))"

definition epInitChunkedUpload ::
    "files_api \<Rightarrow> env \<Rightarrow> host \<Rightarrow> account option \<Rightarrow> string \<Rightarrow> ChunkedUploadInitRequest option
     \<Rightarrow> (vault, ChunkedUploadInitResponse) responder" where
  "epInitChunkedUpload fa env h u appIDStr body =
     checkAuthorization env u appIDStr (\<lambda>(appID, key, spaceID).
     hsome body 400 ''Invalid request body'' (\<lambda>req.
     hcall (InitChunkedUpload (fa_service fa) env (fa_media fa) (Some appID) key spaceID
              (if ci_content_type req = [] \<or> ci_content_type req = octet_stream
               then req\<lparr>ci_content_type := detectContentType h (ci_filename req)\<rparr> else req) (isSpaceOwner u))
       upload_refusal (answer 201)))"

text \<open>The stored file that the caller uploaded, and may still write.\<close>

definition own_upload ::
    "files_api \<Rightarrow> env \<Rightarrow> account \<Rightarrow> string \<Rightarrow> (Storage \<Rightarrow> (vault, 'a) responder) \<Rightarrow> (vault, 'a) responder" where
  "own_upload fa env a sid k =
     hcall (GetFileRecord (fa_service fa) env sid []) (\<lambda>_. Refuse 404 ''Storage not found'') (\<lambda>stored.
     hguard (st_uploader stored = u_public_key a) 403 ''Not authorized''
       (guardAppWrite env (st_application_id stored) (u_public_key a) (k stored)))"

definition epUploadChunk ::
    "files_api \<Rightarrow> env \<Rightarrow> host \<Rightarrow> account option \<Rightarrow> string \<Rightarrow> string \<Rightarrow> string \<Rightarrow> (vault, unit) responder" where
  "epUploadChunk fa env h u sid indexStr body =
     hsome u 401 ''Unauthorized'' (\<lambda>a.
     hguard (sid \<noteq> []) 400 ''Storage ID is required''
    (hsome (atoi indexStr) 400 ''Invalid chunk index'' (\<lambda>i.
     own_upload fa env a sid (\<lambda>_.
     hcall (UploadChunk (fa_service fa) env h sid i (body, None)) (\<lambda>e. Refuse 400 (err_msg e)) (answer 200)))))"

definition epCompleteChunkedUpload ::
    "files_api \<Rightarrow> env \<Rightarrow> host \<Rightarrow> account option \<Rightarrow> string \<Rightarrow> public_request \<Rightarrow> (vault, Storage) responder" where
  "epCompleteChunkedUpload fa env h u sid rq =
     (let base = PublicURL rq (fa_external_url fa)
      in hsome u 401 ''Unauthorized'' (\<lambda>a.
         hguard (sid \<noteq> []) 400 ''Storage ID is required''
        (own_upload fa env a sid (\<lambda>_.
         hcall (CompleteChunkedUpload (fa_service fa) env h (fa_media fa) sid base) upload_refusal (\<lambda>stored.
         hcall (case st_application_id stored of None \<Rightarrow> ret ()
                | Some appID \<Rightarrow> produce_quietly fa env (file_created_event env (u_public_key a) appID base stored))
           (\<lambda>_. Refuse 500 []) (\<lambda>_.
         answer 200 stored))))))"

subsection \<open>Reading\<close>

text \<open>A file of an application is for its members; one without an application, for every account.\<close>

definition getStorageAndCheckAccess ::
    "files_api \<Rightarrow> env \<Rightarrow> account option \<Rightarrow> string \<Rightarrow> (Storage \<Rightarrow> (vault, 'a) responder) \<Rightarrow> (vault, 'a) responder" where
  "getStorageAndCheckAccess fa env u sid k =
     hsome u 401 ''Unauthorized'' (\<lambda>a.
     hguard (sid \<noteq> []) 400 ''Storage ID is required''
    (hcall (GetFileRecord (fa_service fa) env sid []) (\<lambda>_. Refuse 404 ''Storage not found'') (\<lambda>stored.
     hguard (st_status stored = StorageStatusReady) 404 ''Storage not found''
    (case st_application_id stored of
       None \<Rightarrow> k stored
     | Some appID \<Rightarrow>
         hcall (vask (IsMember env appID (u_public_key a))) (\<lambda>_. Refuse 500 ''Failed to verify membership'') (\<lambda>member.
         hguard member 403 ''Not a member of this application'' (k stored))))))"

record file_response =
  fr_content_type :: string
  fr_disposition :: string
  fr_length :: int
  fr_body :: reader

definition epGetFile :: "files_api \<Rightarrow> env \<Rightarrow> account option \<Rightarrow> string \<Rightarrow> (vault, file_response) responder" where
  "epGetFile fa env u sid =
     getStorageAndCheckAccess fa env u sid (\<lambda>stored0.
     hcall (GetData (fa_service fa) env (st_id stored0))
       (\<lambda>e. if errors_is e ErrBlobNotFound then Refuse 404 ''file not found''
            else if errors_is e ErrInvalidPath then Refuse 400 ''Invalid storage id''
            else Refuse 500 ''Failed to retrieve file'') (\<lambda>(reader, stored).
     answer 200
       \<lparr>fr_content_type = (if isValidContentType (fa_media fa) (st_content_type stored) then st_content_type stored else octet_stream),
        fr_disposition = (if st_content_type stored \<in> set inlineContentTypes then ''inline'' else ''attachment'')
          @ ''; filename='' @ [CHR 0x22] @ sanitizeFilenameForHeader (st_filename stored) @ [CHR 0x22],
        fr_length = st_size stored, fr_body = reader\<rparr>))"

definition epGetThumbnail :: "files_api \<Rightarrow> env \<Rightarrow> account option \<Rightarrow> string \<Rightarrow> (vault, reader) responder" where
  "epGetThumbnail fa env u sid =
     getStorageAndCheckAccess fa env u sid (\<lambda>stored.
     hcall (GetThumbnail (fa_service fa) env (st_id stored)) (\<lambda>_. Refuse 404 ''Thumbnail not available'') (\<lambda>(reader, _).
     answer 200 reader))"

subsection \<open>Deleting\<close>

text \<open>The message of the error decides, after the path.\<close>

definition delete_refusal :: "goerr \<Rightarrow> 'a answer" where
  "delete_refusal e =
     (if errors_is e ErrInvalidPath then Refuse 400 ''Invalid storage id''
      else if sublist ''not authorized'' (err_msg e) then Refuse 403 ''Not authorized to delete this file''
      else if sublist ''not found'' (err_msg e) then Refuse 404 ''Storage not found''
      else Refuse 500 ''Failed to delete file'')"

definition epDeleteFile :: "files_api \<Rightarrow> env \<Rightarrow> account option \<Rightarrow> string \<Rightarrow> (vault, unit) responder" where
  "epDeleteFile fa env u sid =
     hsome u 401 ''Unauthorized'' (\<lambda>a.
     hguard (sid \<noteq> []) 400 ''Storage ID is required''
    (hcall (GetFileRecord (fa_service fa) env sid []) (\<lambda>_. Refuse 404 ''Storage not found'') (\<lambda>stored.
     guardAppWrite env (st_application_id stored) (u_public_key a)
    (hcall (DeleteStored (fa_service fa) env sid (u_public_key a)) delete_refusal (\<lambda>_.
     hcall (case st_application_id stored of None \<Rightarrow> ret ()
            | Some appID \<Rightarrow> produce_quietly fa env
                (file_event env EventTypeApplicationFileDeleted (u_public_key a) appID [(''fileId'', GStr sid)]))
       (\<lambda>_. Refuse 500 []) (\<lambda>_.
     answer 204 ()))))))"

end
