(* ===== verification/StorageLaws.thy ===== *)
theory StorageLaws
  imports StorageEndpoints AccountDemo
begin

section \<open>How files behave\<close>

text \<open>
  Facts about paths, about actions on rows and contents, and what each operation does on a working
  disk. The properties of the uploads and purges rest on them.
\<close>

subsection \<open>Actions on the process and on the contents\<close>

lemma on_node_simp [act_simps]: "on_node m v = (r, v1) \<longleftrightarrow> (\<exists>n. m (vt_node v) = (r, n) \<and> v1 = v\<lparr>vt_node := n\<rparr>)"
  by (auto simp: on_node_def split: prod.splits)

lemma on_blobs_simp [act_simps]: "on_blobs m v = (r, v1) \<longleftrightarrow> (\<exists>b. m (vt_blobs v) = (r, b) \<and> v1 = v\<lparr>vt_blobs := b\<rparr>)"
  by (auto simp: on_blobs_def split: prod.splits)

lemma ignoring_simp [act_simps]: "ignoring m v = (r, v1) \<longleftrightarrow> r = Inr () \<and> v1 = snd (m v)"
  by (auto simp: ignoring_def attempt_def ret_def split: prod.splits)

lemma failing_with_Inr [act_simps]: "failing_with f m v = (Inr x, v1) \<longleftrightarrow> m v = (Inr x, v1)"
  by (auto simp: failing_with_def attempt_def lift_def map_err_def split: prod.splits sum.splits)

lemma failing_with_Inl [act_simps]: "failing_with f m v = (Inl e, v1) \<longleftrightarrow> (\<exists>e0. m v = (Inl e0, v1) \<and> e = f e0)"
  by (auto simp: failing_with_def attempt_def lift_def map_err_def split: prod.splits sum.splits)

text \<open>Going forward through a sequence whose first step is known.\<close>

lemma andThen_step: "m v = (Inr x, w) \<Longrightarrow> andThen m f v = f x w"
  by (simp add: andThen_def)

subsection \<open>Paths\<close>

lemma split_path_ne [simp]: "split_path p \<noteq> []"
  by (induction p) (auto split: list.splits)

lemma split_path_append:
  "CHR ''/'' \<notin> set s \<Longrightarrow> split_path (p @ s) = butlast (split_path p) @ [last (split_path p) @ s]"
proof (induction p)
  case Nil
  then show ?case by (induction s) (auto split: list.splits)
next
  case (Cons c p)
  then show ?case by (cases "split_path p") auto
qed

definition plain_segment :: "string \<Rightarrow> bool" where
  "plain_segment s \<longleftrightarrow> s \<noteq> [] \<and> \<not> prefix ''.'' s"

lemma plain_segment_append: "plain_segment s \<Longrightarrow> plain_segment (s @ t)"
  by (cases s) (auto simp: plain_segment_def)

lemma plain_path_iff: "plain_path p \<longleftrightarrow> list_all plain_segment (split_path p)"
proof -
  have "split_path p = [] # split_path (tl p)" if "prefix ''/'' p" using that by (cases p) auto
  then have "prefix ''/'' p \<Longrightarrow> \<not> list_all plain_segment (split_path p)" by (simp add: plain_segment_def)
  moreover have "p = [] \<Longrightarrow> \<not> list_all plain_segment (split_path p)" by (simp add: plain_segment_def)
  moreover have "list_ex (\<lambda>s. s = [] \<or> prefix ''.'' s) (split_path p) \<longleftrightarrow> \<not> list_all plain_segment (split_path p)"
    by (auto simp: list_ex_iff list_all_iff plain_segment_def)
  ultimately show ?thesis by (auto simp: plain_path_def resolve_def)
qed

lemma plain_path_append: "plain_path p \<Longrightarrow> CHR ''/'' \<notin> set s \<Longrightarrow> plain_path (p @ s)"
  using append_butlast_last_id [of "split_path p"] plain_segment_append
  by (auto simp: plain_path_iff split_path_append list_all_iff in_set_butlastD)

lemma digits_no_slash: "CHR ''/'' \<notin> set (digits_of_nat n)"
  using digits_of_nat_ok [of n] by (auto simp: digits_ok_def list_all_iff is_digit_def char_between_def)

lemma chunk_path_plain: "plain_path p \<Longrightarrow> plain_path (chunk_path p i)"
  unfolding chunk_path_def by (rule plain_path_append) (auto simp: format_int_def digits_no_slash)

lemma chunk_path_inj: "0 \<le> i \<Longrightarrow> 0 \<le> j \<Longrightarrow> chunk_path p i = chunk_path p j \<longleftrightarrow> i = j"
proof -
  assume "0 \<le> i" "0 \<le> j"
  moreover have "digits_of_nat (nat i) = digits_of_nat (nat j) \<Longrightarrow> nat i = nat j" by (metis nat_of_digits_of_nat)
  ultimately show ?thesis by (auto simp: chunk_path_def format_int_def)
qed

lemma chunk_path_other [simp]: "chunk_path p i \<noteq> p"
  by (simp add: chunk_path_def)

text \<open>What the storage builds of a plain application, a valid id and any file name is a plain path.\<close>

lemma Ext_shape: "CHR ''/'' \<notin> set (Ext p)"
proof -
  have "CHR ''/'' \<notin> set (takeWhile (\<lambda>c. c \<noteq> CHR ''/'') xs)" for xs by (auto dest: set_takeWhileD)
  then have "CHR ''/'' \<notin> set (rev (takeWhile (\<lambda>c. c \<noteq> CHR ''/'') (rev p)))" by simp
  then show ?thesis unfolding Ext_def Let_def by (auto dest!: set_takeWhileD)
qed

lemma extension_shape: "CHR ''/'' \<notin> set (extensionFromContentType ct)"
proof -
  have "\<forall>(t, e) \<in> set content_type_extensions. CHR ''/'' \<notin> set e" by (simp add: content_type_extensions_def)
  then show ?thesis by (cases "map_of content_type_extensions ct") (auto simp: extensionFromContentType_def dest!: map_of_SomeD)
qed

lemma split_path_slash: "split_path (p @ CHR ''/'' # q) = split_path p @ split_path q"
  by (induction p) (auto split: list.splits)

lemma split_path_plain: "CHR ''/'' \<notin> set s \<Longrightarrow> split_path s = [s]"
  using split_path_append [of s "[]"] by simp

lemma buildStoragePath_plain:
  assumes "validateStorageID sid = Inr ()" and "plain_path (case appID of None \<Rightarrow> ''_user'' | Some a \<Rightarrow> a)"
    and "plain_path (fst (md_year_month md t))" and "plain_path (snd (md_year_month md t))"
  shows "plain_path (buildStoragePath md appID sid filename ct t)"
proof -
  let ?ext = "if Ext filename = [] then extensionFromContentType ct else Ext filename"
  obtain y mo where ym: "md_year_month md t = (y, mo)" by fastforce
  have sid: "CHR ''/'' \<notin> set sid" "plain_segment sid"
    using assms(1) by (auto simp: validateStorageID_def plain_segment_def split: if_splits)
  have "CHR ''/'' \<notin> set ?ext" using Ext_shape extension_shape by simp
  then have "split_path (sid @ ?ext) = [sid @ ?ext]" using sid(1) by (intro split_path_plain) auto
  then have "plain_path (sid @ ?ext)" by (simp only: plain_path_iff) (simp add: plain_segment_append sid(2))
  then have "list_all plain_segment (split_path (x @ ''/'' @ y @ ''/'' @ mo @ ''/'' @ sid @ ?ext))" if "plain_path x" for x
    using that assms(3,4) by (simp add: ym split_path_slash plain_path_iff)
  then show ?thesis using assms(2) by (simp add: buildStoragePath_def ym Let_def plain_path_iff)
qed

subsection \<open>The chunks of an upload\<close>

abbreviation vdb :: "vault \<Rightarrow> db" where "vdb v \<equiv> nd_db (vt_node v)"

definition chunks_of :: "db \<Rightarrow> string \<Rightarrow> chunk_row list" where
  "chunks_of d sid = filter (\<lambda>r. ck_storage_id r = sid) (t_chunks d)"

text \<open>The rows of the chunks of one file: each index once, and exactly these indices.\<close>

definition has_chunks :: "db \<Rightarrow> string \<Rightarrow> int set \<Rightarrow> bool" where
  "has_chunks d sid is \<longleftrightarrow> distinct (map ck_index (chunks_of d sid)) \<and> ck_index ` set (chunks_of d sid) = is"

lemma CreateChunk_chunks:
  assumes "CreateChunk env c d = Inr d1" and "has_chunks d (sc_storage_id c) is"
  shows "has_chunks d1 (sc_storage_id c) (insert (sc_index c) is) \<and> t_storage d1 = t_storage d"
proof -
  let ?p = "\<lambda>r. ck_storage_id r = sc_storage_id c \<and> ck_index r = sc_index c"
  obtain f new where d1: "d1 = d\<lparr>t_chunks := upsert ?p f new (t_chunks d)\<rparr>" and new: "ck_storage_id new = sc_storage_id c" "ck_index new = sc_index c"
    and f: "\<And>r. ck_storage_id (f r) = ck_storage_id r \<and> ck_index (f r) = ck_index r"
    using assms(1) by (auto simp: CreateChunk_def result_simps)
  show ?thesis
  proof (cases "list_ex ?p (t_chunks d)")
    case True
    have "chunks_of d1 (sc_storage_id c) = update_where ?p f (chunks_of d (sc_storage_id c))"
      using True f by (simp add: d1 upsert_def chunks_of_def update_where_def filter_map comp_def)
        (rule arg_cong [where f = "map _"], rule filter_cong, auto)
    moreover have "map ck_index (update_where ?p f (chunks_of d (sc_storage_id c))) = map ck_index (chunks_of d (sc_storage_id c))"
      by (rule map_update_where) (simp add: f)
    ultimately have "map ck_index (chunks_of d1 (sc_storage_id c)) = map ck_index (chunks_of d (sc_storage_id c))" by simp
    moreover have "sc_index c \<in> is" using True assms(2)
      by (auto simp: has_chunks_def chunks_of_def list_ex_iff intro!: rev_image_eqI)
    ultimately show ?thesis using assms(2) by (simp add: has_chunks_def d1 insert_absorb flip: set_map)
  next
    case False
    then have "chunks_of d1 (sc_storage_id c) = chunks_of d (sc_storage_id c) @ [new]"
      using new by (simp add: d1 upsert_def chunks_of_def)
    moreover have "sc_index c \<notin> ck_index ` set (chunks_of d (sc_storage_id c))"
      using False by (auto simp: chunks_of_def list_ex_iff)
    ultimately show ?thesis using assms(2) new by (auto simp: has_chunks_def d1)
  qed
qed

text \<open>The chunks read back are those of the indices \<open>0 .. n - 1\<close>, in order.\<close>

lemma GetChunks_complete:
  assumes "reliable env" and "has_chunks d sid (int ` {0..<n})"
  shows "\<exists>cs. GetChunks env sid d = Inr cs \<and> map sc_index cs = map int [0..<n]"
proof -
  let ?rs = "sort_key ck_index (chunks_of d sid)"
  have "map ck_index ?rs = map int [0..<n]"
  proof (rule sorted_distinct_set_unique)
    show "sorted (map ck_index ?rs)" by simp
    show "distinct (map ck_index ?rs)" using assms(2) by (simp add: has_chunks_def distinct_map)
    show "set (map ck_index ?rs) = set (map int [0..<n])" using assms(2) by (simp add: has_chunks_def)
  qed (simp_all add: distinct_map sorted_iff_nth_mono)
  then show ?thesis
    using assms(1) by (auto simp: GetChunks_def chunks_of_def [symmetric] comp_def chunk_of_row_def)
qed

text \<open>The content put together from the files of the chunks.\<close>

lemma combine_chunks_ok:
  assumes "sound_disk ds" and "plain_path p" and "map sc_index cs = map int [k..<n]"
    and "\<And>j. k \<le> j \<Longrightarrow> j < n \<Longrightarrow> map_of b (chunk_path p (int j)) = Some (f j)"
  shows "combine_chunks (local_storage ds) p (int k) cs acc b = (Inr (acc @ concat (map f [k..<n])), b)"
  using assms(3,4)
proof (induction cs arbitrary: k acc)
  case Nil
  then show ?case by (auto simp: ret_def)
next
  case (Cons c cs)
  have k: "k < n" using Cons.prems(1) by (cases "k < n") auto
  then have c: "sc_index c = int k" "map sc_index cs = map int [Suc k..<n]"
    using Cons.prems(1) by (simp_all add: upt_rec [of k n])
  have "localGet ds (chunk_path p (int k)) b = (Inr (Inr (f k)), b)"
    using assms(1) chunk_path_plain [OF assms(2)] Cons.prems(2) [of k] k by (intro local_disk.get_stored) simp_all
  then have "combine_chunks (local_storage ds) p (int k) (c # cs) acc b
      = combine_chunks (local_storage ds) p (int (Suc k)) cs (acc @ f k) b"
    by (simp add: andThen_def require_def c failing_with_def attempt_def lift_def map_err_def local_storage_def add.commute)
  also have "\<dots> = (Inr ((acc @ f k) @ concat (map f [Suc k..<n])), b)"
    by (rule Cons.IH) (use c(2) Cons.prems(2) in auto)
  finally show ?case using k by (simp add: upt_rec [of k n])
qed

lemma delete_chunk_blobs_ok:
  assumes "sound_disk ds" and "plain_path p"
  shows "\<exists>b1. delete_chunk_blobs (local_storage ds) p cs b = (Inr (), b1) \<and> map_of b1 p = map_of b p"
proof (induction cs arbitrary: b)
  case (Cons c cs)
  obtain b1 where 1: "localDelete ds (chunk_path p (sc_index c)) b = (Inr (), b1)"
      "\<forall>q. map_of b1 q = (if q = chunk_path p (sc_index c) then None else map_of b q)"
    using local_disk.del_ok [of ds "chunk_path p (sc_index c)" b] assms chunk_path_plain by blast
  obtain b2 where 2: "delete_chunk_blobs (local_storage ds) p cs b1 = (Inr (), b2)" "map_of b2 p = map_of b1 p"
    using Cons.IH by blast
  have "delete_chunk_blobs (local_storage ds) p (c # cs) b = (Inr (), b2)"
    using 1(1) 2(1) by (simp add: andThen_def ignoring_def attempt_def ret_def local_storage_def)
  then show ?case using 1(2) 2(2) chunk_path_other [of p] by (metis (no_types, lifting))
qed (simp add: ret_def)

subsection \<open>Rows that keep their ids and paths\<close>

definition file_paths :: "db \<Rightarrow> (string \<times> string) list" where
  "file_paths d = map (\<lambda>r. (sg_id r, sg_path r)) (t_storage d)"

lemma file_paths_row:
  "(\<exists>r. storage_row_of d sid = Some r \<and> sg_path r = p) \<longleftrightarrow> map_of (file_paths d) sid = Some p"
proof -
  have "map_of (map (\<lambda>r. (sg_id r, sg_path r)) rs) sid = map_option sg_path (find (\<lambda>r. sg_id r = sid) rs)" for rs
    by (induction rs) auto
  note this [of "t_storage d"]
  then show ?thesis by (auto simp: file_paths_def storage_row_of_def)
qed

lemma file_paths_ids: "sid \<in> set (storage_ids d) \<longleftrightarrow> map_of (file_paths d) sid \<noteq> None"
  by (auto simp: storage_ids_def file_paths_def map_of_eq_None_iff comp_def image_image)

lemma execWithRowCheck_paths:
  assumes "execWithRowCheck env site f sid d = Inr d1" and "\<And>r. sg_id (f r) = sg_id r \<and> sg_path (f r) = sg_path r"
  shows "file_paths d1 = file_paths d"
  using assms by (auto simp: execWithRowCheck_def result_simps file_paths_def intro!: map_update_where)

lemma thumb_path_other: "TrimSuffix p (Ext p) @ ''_thumb.jpg'' \<noteq> p"
proof (cases "Ext p = [] \<or> \<not> suffix (Ext p) p")
  case True
  then show ?thesis by (auto simp: TrimSuffix_def)
next
  case False
  then obtain q where q: "p = q @ Ext p" by (auto simp: suffix_def)
  obtain e where e: "Ext p = CHR ''.'' # e" using False by (auto simp: Ext_def Let_def split: if_splits)
  have "TrimSuffix p (Ext p) = take (length p - length (Ext p)) p" using False by (simp add: TrimSuffix_def)
  also have "\<dots> = q" by (subst (1 2) q) simp
  finally show ?thesis using e by (subst (2) q) simp
qed

lemma localStore_other: "q \<noteq> p \<Longrightarrow> map_of (snd (localStore ds p x b)) q = map_of b q"
  by (auto simp: localStore_def andThen_def lift_def update_conv' delete_conv' dest: resolve_same split: option.split sum.split)

lemma ignored_update_paths:
  assumes "\<And>d d1. u d = Inr d1 \<Longrightarrow> file_paths d1 = file_paths d"
  shows "file_paths (vdb (snd (ignoring (vexec u) v))) = file_paths (vdb v) \<and> vt_blobs (snd (ignoring (vexec u) v)) = vt_blobs v"
  using assms by (auto simp: ignoring_def attempt_def ret_def on_node_def exec_def split: prod.split sum.split)

text \<open>Whatever happens to the image, the file and the ids and paths of the rows stay.\<close>

definition same_file :: "Storage \<Rightarrow> Storage \<Rightarrow> bool" where
  "same_file x y \<longleftrightarrow> st_id x = st_id y \<and> st_path x = st_path y \<and> st_application_id x = st_application_id y \<and> st_uploader x = st_uploader y"

lemma same_file_update [simp]:
  "same_file (x\<lparr>st_width := a, st_height := c\<rparr>) x" "same_file x x" "same_file (x\<lparr>st_thumbnail := t\<rparr>) y = same_file x y"
  by (simp_all add: same_file_def)

lemma generateThumbnail_keeps:
  assumes "ss_backend s = local_storage ds"
  obtains r b1 where "generateThumbnail s md stored content v = (r, v\<lparr>vt_blobs := b1\<rparr>)"
    "map_of b1 (st_path stored) = map_of (vt_blobs v) (st_path stored)" "\<And>x. r = Inr x \<Longrightarrow> same_file x stored"
proof (cases "md_thumb md content")
  case (Inl e)
  then show thesis using that [of "Inl e" "vt_blobs v"] by (simp add: generateThumbnail_def andThen_def lift_def)
next
  case (Inr thumb)
  let ?q = "TrimSuffix (st_path stored) (Ext (st_path stored)) @ ''_thumb.jpg''"
  obtain r b1 where g: "localStore ds ?q thumb (vt_blobs v) = (r, b1)" by fastforce
  have keep: "map_of b1 (st_path stored) = map_of (vt_blobs v) (st_path stored)"
    using localStore_other [OF thumb_path_other [symmetric], of ds "st_path stored" thumb "vt_blobs v"] g by simp
  have "generateThumbnail s md stored content v
      = ((case r of Inl e \<Rightarrow> Inl (wrapf ''failed to store thumbnail'' e) | Inr _ \<Rightarrow> Inr (stored\<lparr>st_thumbnail := ?q\<rparr>)), v\<lparr>vt_blobs := b1\<rparr>)"
    using assms g by (cases r) (simp_all add: generateThumbnail_def Inr andThen_def lift_def ret_def on_blobs_def failing_with_def
        attempt_def map_err_def local_storage_def Let_def)
  from that [OF this keep] show thesis by (cases r) auto
qed

lemma processImage_keeps:
  assumes "ss_backend s = local_storage ds"
  obtains st1 b1 where "processImage s md stored content v = (Inr st1, v\<lparr>vt_blobs := b1\<rparr>)" "same_file st1 stored"
    "map_of b1 (st_path stored) = map_of (vt_blobs v) (st_path stored)"
proof (cases "md_bounds md content")
  case None
  then show thesis using that [of stored "vt_blobs v"] by (simp add: processImage_def ret_def)
next
  case (Some wh)
  obtain w ht where wh: "wh = (w, ht)" by fastforce
  let ?sized = "stored\<lparr>st_width := Some w, st_height := Some ht\<rparr>"
  obtain r b1 where g: "generateThumbnail s md ?sized content v = (r, v\<lparr>vt_blobs := b1\<rparr>)"
      "map_of b1 (st_path stored) = map_of (vt_blobs v) (st_path stored)" and x: "\<And>x. r = Inr x \<Longrightarrow> same_file x ?sized"
    by (rule generateThumbnail_keeps [OF assms, of md ?sized content v]) auto
  have "processImage s md stored content v = (Inr (case r of Inl _ \<Rightarrow> ?sized | Inr t \<Rightarrow> t), v\<lparr>vt_blobs := b1\<rparr>)"
    by (simp add: processImage_def Some wh Let_def attempt_def g(1) ret_def)
  moreover have "same_file (case r of Inl _ \<Rightarrow> ?sized | Inr t \<Rightarrow> t) stored"
    using x by (cases r) (auto simp: same_file_def)
  ultimately show thesis using that g(2) by blast
qed

lemma update_row_quietly:
  assumes "\<And>d d1. u d = Inr d1 \<Longrightarrow> file_paths d1 = file_paths d"
  obtains v1 where "(if c then ignoring (vexec u) else ret ()) v = (Inr (), v1)" "file_paths (vdb v1) = file_paths (vdb v)"
    "vt_blobs v1 = vt_blobs v"
proof -
  obtain r v1 where 1: "(if c then ignoring (vexec u) else ret ()) v = (r, v1)" by fastforce
  have "r = Inr ()" using 1 by (auto simp: act_simps split: if_splits)
  moreover have "file_paths (vdb v1) = file_paths (vdb v) \<and> vt_blobs v1 = vt_blobs v"
    using 1 ignored_update_paths [of u v] assms by (cases c) (auto simp: ret_def)
  ultimately show thesis using that 1 by blast
qed

lemma record_image_keeps:
  assumes "ss_backend s = local_storage ds"
  obtains st1 v1 where "record_image s env md stored content v = (Inr st1, v1)" "same_file st1 stored"
    "map_of (vt_blobs v1) (st_path stored) = map_of (vt_blobs v) (st_path stored)" "file_paths (vdb v1) = file_paths (vdb v)"
proof (cases "prefix ''image/'' (st_content_type stored)")
  case False
  then show thesis using that [of stored v] by (simp add: record_image_def ret_def)
next
  case True
  obtain st1 b1 where p: "processImage s md stored content v = (Inr st1, v\<lparr>vt_blobs := b1\<rparr>)" "same_file st1 stored"
      "map_of b1 (st_path stored) = map_of (vt_blobs v) (st_path stored)"
    by (rule processImage_keeps [OF assms, of md stored content v])
  have dim: "UpdateDimensions env i w ht d = Inr d1 \<Longrightarrow> file_paths d1 = file_paths d" for i w ht d d1
    by (auto simp: UpdateDimensions_def result_simps intro: execWithRowCheck_paths)
  have th: "UpdateThumbnail env i w d = Inr d1 \<Longrightarrow> file_paths d1 = file_paths d" for i w d d1
    by (auto simp: UpdateThumbnail_def intro: execWithRowCheck_paths)
  let ?m1 = "case (st_width st1, st_height st1) of
      (Some w, Some ht) \<Rightarrow> ignoring (vexec (UpdateDimensions env (st_id st1) w ht)) | _ \<Rightarrow> ret ()"
  let ?m2 = "if st_thumbnail st1 \<noteq> [] then ignoring (vexec (UpdateThumbnail env (st_id st1) (st_thumbnail st1))) else ret ()"
  have m1: "?m1 = (if st_width st1 \<noteq> None \<and> st_height st1 \<noteq> None
      then ignoring (vexec (UpdateDimensions env (st_id st1) (the (st_width st1)) (the (st_height st1)))) else ret ())"
    by (auto split: option.split)
  obtain v1 where v1: "?m1 (v\<lparr>vt_blobs := b1\<rparr>) = (Inr (), v1)" "file_paths (vdb v1) = file_paths (vdb v)" "vt_blobs v1 = b1"
    unfolding m1
    by (rule update_row_quietly [where u = "UpdateDimensions env (st_id st1) (the (st_width st1)) (the (st_height st1))"
        and c = "st_width st1 \<noteq> None \<and> st_height st1 \<noteq> None" and v = "v\<lparr>vt_blobs := b1\<rparr>", OF dim]) simp_all
  obtain v2 where v2: "?m2 v1 = (Inr (), v2)" "file_paths (vdb v2) = file_paths (vdb v1)" "vt_blobs v2 = vt_blobs v1"
    by (rule update_row_quietly [OF th])
  have "record_image s env md stored content v = (Inr st1, v2)"
    unfolding record_image_def if_not_P [OF not_not [THEN iffD2, OF True]]
    by (subst andThen_step, rule p(1), subst andThen_step, rule v1(1), subst andThen_step, rule v2(1)) (simp add: ret_def)
  then show thesis using that p(2,3) v1(2,3) v2(2,3) by simp
qed

end
