(* ===== verification/StorageProps.thy ===== *)
theory StorageProps
  imports StorageLaws
begin

section \<open>Files: what an upload, a retry and a purge do\<close>

text \<open>
  Uploads in chunks: chunks sent in any order, some again, and completed read back in the order of
  their indices.
\<close>

subsection \<open>An upload in chunks\<close>

text \<open>Calls with their environments, indices and bodies, one after the other.\<close>

fun upload_chunks :: "StorageService \<Rightarrow> host \<Rightarrow> string \<Rightarrow> (env \<times> int \<times> string) list \<Rightarrow> (vault, unit) action" where
  "upload_chunks s h sid [] = ret ()"
| "upload_chunks s h sid ((env, i, x) # cs) =
     andThen (UploadChunk s env h sid i (x, None)) (\<lambda>_. upload_chunks s h sid cs)"

lemma UploadChunk_ok:
  assumes "reliable env" and ds: "sound_disk ds" "ss_backend s = local_storage ds"
    and r: "storage_row_of (vdb v) sid = Some r" "sg_status r = StorageStatusPending" "plain_path (sg_path r)"
    and "has_chunks (vdb v) sid is" and "fits_int4 i"
  obtains v1 where "UploadChunk s env h sid i (x, None) v = (Inr (), v1)" "t_storage (vdb v1) = t_storage (vdb v)"
    "has_chunks (vdb v1) sid (insert i is)"
    "\<And>q. map_of (vt_blobs v1) q = (if q = chunk_path (sg_path r) i then Some x else map_of (vt_blobs v) q)"
proof -
  let ?p = "chunk_path (sg_path r) i"
  let ?c = "\<lparr>sc_storage_id = sid, sc_index = i, sc_size = int (length x), sc_checksum = sha256_hex h x, sc_uploaded_at = now env\<rparr>"
  obtain b1 where b1: "localStore ds ?p x (vt_blobs v) = (Inr (), b1)"
      "\<forall>q. map_of b1 q = (if q = ?p then Some x else map_of (vt_blobs v) q)"
    using local_disk.put_ok [of ds ?p x "vt_blobs v"] ds r(3) chunk_path_plain by blast
  obtain d1 where d1: "CreateChunk env ?c (vdb v) = Inr d1"
    using assms(1,8) by (simp add: CreateChunk_def rguard_def)
  have "UploadChunk s env h sid i (x, None) v = (Inr (), v\<lparr>vt_node := (vt_node v)\<lparr>nd_db := d1\<rparr>, vt_blobs := b1\<rparr>)"
    using assms(1) ds(2) r b1(1) d1
    by (simp add: UploadChunk_def repoGetStorage_def andThen_def on_node_def on_blobs_def ask_def exec_def require_def ret_def
        failing_with_def attempt_def lift_def map_err_def storage_of_row_def local_storage_def)
  moreover have "has_chunks d1 sid (insert i is) \<and> t_storage d1 = t_storage (vdb v)"
    using CreateChunk_chunks [OF d1, of "is"] assms(7) by simp
  ultimately show thesis using that b1(2) by simp
qed

lemma upload_chunks_ok:
  assumes ds: "sound_disk ds" "ss_backend s = local_storage ds"
    and r: "storage_row_of (vdb v) sid = Some r" "sg_status r = StorageStatusPending" "plain_path (sg_path r)"
    and "has_chunks (vdb v) sid is" and "\<forall>(env, i, x) \<in> set cs. reliable env \<and> fits_int4 i \<and> 0 \<le> i"
  shows "\<exists>v1. upload_chunks s h sid cs v = (Inr (), v1) \<and> t_storage (vdb v1) = t_storage (vdb v)
    \<and> has_chunks (vdb v1) sid (is \<union> (fst \<circ> snd) ` set cs)
    \<and> (\<forall>i \<ge> 0. map_of (vt_blobs v1) (chunk_path (sg_path r) i)
         = (case map_of (rev (map snd cs)) i of Some x \<Rightarrow> Some x | None \<Rightarrow> map_of (vt_blobs v) (chunk_path (sg_path r) i)))"
  using r(1) assms(6,7)
proof (induction cs arbitrary: v "is")
  case (Cons c cs)
  obtain env i x where c: "c = (env, i, x)" by (cases c) auto
  have env: "reliable env" "fits_int4 i" "0 \<le> i" using Cons.prems(3) by (auto simp: c)
  obtain v1 where v1: "UploadChunk s env h sid i (x, None) v = (Inr (), v1)" "t_storage (vdb v1) = t_storage (vdb v)"
      "has_chunks (vdb v1) sid (insert i is)"
      "\<And>q. map_of (vt_blobs v1) q = (if q = chunk_path (sg_path r) i then Some x else map_of (vt_blobs v) q)"
    by (rule UploadChunk_ok [OF env(1) ds Cons.prems(1) r(2,3) Cons.prems(2) env(2), of h x]) blast
  have "storage_row_of (vdb v1) sid = Some r" using Cons.prems(1) v1(2) by (simp add: storage_row_of_def)
  then obtain v2 where v2: "upload_chunks s h sid cs v1 = (Inr (), v2)" "t_storage (vdb v2) = t_storage (vdb v1)"
      "has_chunks (vdb v2) sid (insert i is \<union> (fst \<circ> snd) ` set cs)"
      "\<forall>j \<ge> 0. map_of (vt_blobs v2) (chunk_path (sg_path r) j)
         = (case map_of (rev (map snd cs)) j of Some x \<Rightarrow> Some x | None \<Rightarrow> map_of (vt_blobs v1) (chunk_path (sg_path r) j))"
    using Cons.IH [of v1 "insert i is"] v1(3) Cons.prems(3) by auto
  have "map_of (vt_blobs v2) (chunk_path (sg_path r) j)
      = (case map_of (rev (map snd (c # cs))) j of Some y \<Rightarrow> Some y | None \<Rightarrow> map_of (vt_blobs v) (chunk_path (sg_path r) j))"
    if "0 \<le> j" for j
    using v2(4) that v1(4) env(3) by (auto simp: c chunk_path_inj map_add_def split: option.split)
  then show ?case using v1(1,2) v2(1-3) by (auto simp: c andThen_def)
qed (simp add: ret_def)

text \<open>What the chunks make up: for each index the body sent last.\<close>

definition chunk_content :: "(env \<times> int \<times> string) list \<Rightarrow> nat \<Rightarrow> string" where
  "chunk_content calls n = concat (map (\<lambda>i. the (map_of (rev (map snd calls)) (int i))) [0..<n])"

lemma CompleteChunkedUpload_ok:
  assumes env: "reliable env" and ds: "sound_disk ds" "ss_backend s = local_storage ds"
    and r: "storage_row_of (vdb v) sid = Some r" "sg_status r = StorageStatusPending" "plain_path (sg_path r)"
    and chunks: "has_chunks (vdb v) sid (int ` {0..<n})" "0 < n"
    and files: "\<And>i. i < n \<Longrightarrow> map_of (vt_blobs v) (chunk_path (sg_path r) (int i)) = Some (f i)"
    and content: "content = concat (map f [0..<n])" "int (length content) \<le> sg_size r" "int (length content) \<le> ss_max_file s"
      "sg_checksum r = [] \<or> sha256_hex h content = sg_checksum r"
  shows "\<exists>st v2 st2. CompleteChunkedUpload s env h md sid base v = (Inr st, v2) \<and> st_size st = int (length content)
    \<and> st_status st = StorageStatusReady \<and> GetData s env sid v2 = (Inr (Inr content, st2), v2) \<and> st_status st2 = StorageStatusReady"
proof -
  let ?p = "sg_path r" and ?st = "storage_of_row r"
  have sid: "sg_id r = sid" using r(1) by (auto simp: storage_row_of_def dest: find_in_set)
  obtain cs where cs: "GetChunks env sid (vdb v) = Inr cs" "map sc_index cs = map int [0..<n]"
    using GetChunks_complete [OF env chunks(1)] by blast
  have ne: "cs \<noteq> []" using cs(2) chunks(2) by auto
  have comb: "combine_chunks (local_storage ds) ?p 0 cs [] (vt_blobs v) = (Inr content, vt_blobs v)"
    using combine_chunks_ok [OF ds(1) r(3), of cs 0 n "vt_blobs v" f "[]"] cs(2) files by (simp add: content(1))
  obtain b1 where b1: "localStore ds ?p content (vt_blobs v) = (Inr (), b1)" "map_of b1 ?p = Some content"
    using local_disk.put_ok [of ds ?p content "vt_blobs v"] ds r(3) by auto
  obtain b2 where b2: "delete_chunk_blobs (local_storage ds) ?p cs b1 = (Inr (), b2)" "map_of b2 ?p = map_of b1 ?p"
    using delete_chunk_blobs_ok [OF ds(1) r(3)] by blast
  let ?d3 = "(vdb v)\<lparr>t_chunks := filter (\<lambda>r. ck_storage_id r \<noteq> sid) (t_chunks (vdb v))\<rparr>"
  let ?v3 = "v\<lparr>vt_node := (vt_node v)\<lparr>nd_db := ?d3\<rparr>, vt_blobs := b2\<rparr>"
  have stored: "st_path ?st = ?p" "st_id ?st = sid" by (simp_all add: storage_of_row_def sid)
  obtain st1 v4 where v4: "record_image s env md ?st content ?v3 = (Inr st1, v4)" "same_file st1 ?st"
      "map_of (vt_blobs v4) ?p = Some content" "file_paths (vdb v4) = file_paths (vdb v)"
    by (rule record_image_keeps [OF ds(2), of env md ?st content ?v3]) (simp add: stored b1 b2 file_paths_def)
  have row4: "map_of (file_paths (vdb v4)) sid = Some ?p"
    using file_paths_row [of "vdb v" sid ?p] r(1) v4(4) by auto
  let ?d5 = "(vdb v4)\<lparr>t_storage := update_where (\<lambda>r. sg_id r = sid) (\<lambda>r. r\<lparr>sg_status := StorageStatusReady\<rparr>) (t_storage (vdb v4))\<rparr>"
  let ?v5 = "v4\<lparr>vt_node := (vt_node v4)\<lparr>nd_db := ?d5\<rparr>\<rparr>"
  have up: "UpdateStorageStatus env sid StorageStatusReady (vdb v4) = Inr ?d5"
    using row4 env by (simp add: UpdateStorageStatus_def execWithRowCheck_def file_paths_ids rguard_def)
  have "CompleteChunkedUpload s env h md sid base v
      = (Inr (populateURLs s base (st1\<lparr>st_size := int (length content), st_status := StorageStatusReady\<rparr>)), ?v5)"
    unfolding CompleteChunkedUpload_def
    apply (subst andThen_step [where x = ?st and w = v])
     apply (simp add: on_node_def ask_def repoGetStorage_def env r(1))
    apply (subst andThen_step [where x = "()" and w = v])
     apply (simp add: require_def storage_of_row_def r(2))
    apply (subst andThen_step [where x = cs and w = v])
     apply (simp add: on_node_def ask_def cs)
    apply (subst andThen_step [where x = "()" and w = v])
     apply (simp add: require_def ne)
    apply (subst andThen_step [where x = content and w = v])
     apply (simp add: on_blobs_def ds(2) stored comb)
    apply (subst andThen_step [where x = "()" and w = v])
     apply (use content in \<open>simp add: lift_def check_combined_def storage_of_row_def rguard_def\<close>)
    apply (subst andThen_step [where x = "()" and w = "v\<lparr>vt_blobs := b1\<rparr>"])
     apply (simp add: failing_with_def attempt_def lift_def map_err_def on_blobs_def ds(2) local_storage_def stored b1)
    apply (subst andThen_step [where x = "()" and w = "v\<lparr>vt_blobs := b2\<rparr>"])
     apply (simp add: on_blobs_def ds(2) stored b2)
    apply (subst andThen_step [where x = "()" and w = ?v3])
     apply (simp add: ignoring_def attempt_def ret_def on_node_def exec_def DeleteChunks_def env)
    apply (subst andThen_step, rule v4(1))
    apply (subst andThen_step [where x = "()" and w = ?v5])
     apply (simp add: on_node_def exec_def up)
    apply (simp add: ret_def)
    done
  moreover have "\<exists>st2. GetData s env sid ?v5 = (Inr (Inr content, st2), ?v5) \<and> st_status st2 = StorageStatusReady"
  proof -
    obtain r4 where r4: "storage_row_of (vdb v4) sid = Some r4" "sg_path r4 = ?p" using row4 file_paths_row by blast
    have "find (\<lambda>r. sg_id r = sid) (update_where (\<lambda>r. sg_id r = sid) (\<lambda>r. r\<lparr>sg_status := StorageStatusReady\<rparr>) rs)
        = map_option (\<lambda>r. r\<lparr>sg_status := StorageStatusReady\<rparr>) (find (\<lambda>r. sg_id r = sid) rs)" for rs
      by (induction rs) (auto simp: update_where_def)
    from this [of "t_storage (vdb v4)"] have "storage_row_of ?d5 sid = Some (r4\<lparr>sg_status := StorageStatusReady\<rparr>)"
      using r4(1) by (simp add: storage_row_of_def)
    moreover have "localGet ds ?p (vt_blobs v4) = (Inr (Inr content), vt_blobs v4)"
      using ds r(3) v4(3) by (intro local_disk.get_stored) simp_all
    ultimately show ?thesis using r4(2) env ds(2)
      by (simp add: GetData_def andThen_def on_node_def on_blobs_def ask_def repoGetStorage_def ret_def storage_of_row_def local_storage_def)
  qed
  ultimately show ?thesis by (auto simp: populateURLs_def Let_def)
qed

lemma InitChunkedUpload_ok:
  assumes "InitChunkedUpload s env md appID uploader spaceID req ex v = (Inr resp, v1)"
  shows "\<exists>r. storage_row_of (vdb v1) (ci_id req) = Some r \<and> sg_status r = StorageStatusPending \<and> sg_path r = cu_path resp
    \<and> sg_size r = ci_total_size req \<and> sg_checksum r = ci_checksum req \<and> ci_total_size req \<le> ss_max_file s
    \<and> t_chunks (vdb v1) = t_chunks (vdb v)"
proof -
  let ?st = "new_storage appID uploader spaceID (ci_id req) (ci_filename req) (ci_content_type req) (ci_total_size req)
      (buildStoragePath md appID (ci_id req) (ci_filename req) (ci_content_type req) (now env)) (ci_checksum req) (now env) StorageStatusPending"
  have run: "check_init s env md uploader req ex (vdb v) = Inr ()" "repoCreateStorage env ?st (vdb v) = Inr (vdb v1)"
      "cu_path resp = st_path ?st"
    using assms by (auto simp: InitChunkedUpload_def Let_def act_simps result_simps new_storage_def)
  then have new: "ci_id req \<notin> set (storage_ids (vdb v))" and d1: "vdb v1 = (vdb v)\<lparr>t_storage := t_storage (vdb v) @ [row_of_storage ?st]\<rparr>"
    by (simp_all add: repoCreateStorage_def result_simps new_storage_def)
  have "find (\<lambda>r. sg_id r = ci_id req) (t_storage (vdb v)) = None"
    using new by (simp add: find_None_iff storage_ids_def image_iff) metis
  then have "storage_row_of (vdb v1) (ci_id req) = Some (row_of_storage ?st)"
    by (simp add: d1 storage_row_of_def find_append row_of_storage_def new_storage_def)
  moreover have "ci_total_size req \<le> ss_max_file s" using run(1) by (simp add: check_init_def result_simps)
  ultimately show ?thesis by (simp add: d1 run(3) row_of_storage_def new_storage_def)
qed

text \<open>
  C12. An upload in chunks puts the file together: after it was started, the chunks may arrive in any
  order and again; as long as every index from 0 on was sent, and the bodies sent last for each fit
  the declared size and checksum, completing it succeeds and the file reads as those bodies in the
  order of their indices.
\<close>
theorem chunked_upload_round_trip:
  assumes "InitChunkedUpload s env0 md appID uploader spaceID req ex v0 = (Inr resp, v)"
    and "sound_disk ds" and "ss_backend s = local_storage ds" and "plain_path (cu_path resp)"
    and "chunks_of (vdb v0) (ci_id req) = []"
    and "\<forall>(env, i, x) \<in> set calls. reliable env" and "(fst \<circ> snd) ` set calls = int ` {0..<n}" and "0 < n" and "n \<le> 2 ^ 31"
    and "int (length (chunk_content calls n)) \<le> ci_total_size req"
    and "ci_checksum req = [] \<or> sha256_hex h (chunk_content calls n) = ci_checksum req" and "reliable env1"
  shows "\<exists>v1 st v2 st2. upload_chunks s h (ci_id req) calls v = (Inr (), v1)
    \<and> CompleteChunkedUpload s env1 h md (ci_id req) base v1 = (Inr st, v2)
    \<and> st_size st = int (length (chunk_content calls n)) \<and> st_status st = StorageStatusReady
    \<and> GetData s env1 (ci_id req) v2 = (Inr (Inr (chunk_content calls n), st2), v2) \<and> st_status st2 = StorageStatusReady"
proof -
  let ?sid = "ci_id req"
  obtain r where r: "storage_row_of (vdb v) ?sid = Some r" "sg_status r = StorageStatusPending" "sg_path r = cu_path resp"
      "sg_size r = ci_total_size req" "sg_checksum r = ci_checksum req" "ci_total_size req \<le> ss_max_file s"
      "t_chunks (vdb v) = t_chunks (vdb v0)"
    using InitChunkedUpload_ok [OF assms(1)] by blast
  have none: "has_chunks (vdb v) ?sid {}" using assms(5) by (simp add: has_chunks_def chunks_of_def r(7))
  have calls: "\<forall>(env, i, x) \<in> set calls. reliable env \<and> fits_int4 i \<and> 0 \<le> i"
  proof (intro ballI, clarify)
    fix env i x
    assume m: "(env, i, x) \<in> set calls"
    then have "i \<in> int ` {0..<n}" using assms(7) by force
    then show "reliable env \<and> fits_int4 i \<and> 0 \<le> i" using m assms(6,9) by (auto simp: fits_int4_def)
  qed
  obtain v1 where v1: "upload_chunks s h ?sid calls v = (Inr (), v1)" "t_storage (vdb v1) = t_storage (vdb v)"
      "has_chunks (vdb v1) ?sid (int ` {0..<n})"
      "\<forall>i \<ge> 0. map_of (vt_blobs v1) (chunk_path (sg_path r) i)
         = (case map_of (rev (map snd calls)) i of Some x \<Rightarrow> Some x | None \<Rightarrow> map_of (vt_blobs v) (chunk_path (sg_path r) i))"
    using upload_chunks_ok [OF assms(2,3) r(1,2) _ none calls, of h] assms(4,7) r(3) by auto
  let ?f = "\<lambda>i. the (map_of (rev (map snd calls)) (int i))"
  have "map_of (vt_blobs v1) (chunk_path (sg_path r) (int i)) = Some (?f i)" if "i < n" for i
  proof -
    have "int i \<in> (fst \<circ> snd) ` set calls" using that assms(7) by simp
    then have "map_of (rev (map snd calls)) (int i) \<noteq> None" unfolding map_of_eq_None_iff by (simp add: image_comp)
    then show ?thesis using v1(4) by auto
  qed
  moreover have "storage_row_of (vdb v1) ?sid = Some r" using r(1) v1(2) by (simp add: storage_row_of_def)
  ultimately show ?thesis
    using CompleteChunkedUpload_ok [OF assms(12,2,3) _ r(2) _ v1(3) assms(8), of ?f "chunk_content calls n" h md base]
      assms(4,10,11) r(3-6) v1(1) unfolding chunk_content_def by fastforce
qed

text \<open>The second of two chunks arrives first, the first one twice.\<close>

definition demo_media :: media where
  "demo_media = \<lparr>md_media_type = (\<lambda>_. True), md_bounds = (\<lambda>_. None), md_thumb = (\<lambda>_. Inl (errorf ''no image'')),
     md_year_month = (\<lambda>_. (''2023'', ''11'')), md_json = (\<lambda>_. [])\<rparr>"

definition demo_files :: StorageService where
  "demo_files = NewStorageService (local_storage sound) 100 1000"

definition demo_vault :: "db \<Rightarrow> blobs \<Rightarrow> vault" where
  "demo_vault d b = \<lparr>vt_node = demo_node d, vt_blobs = b\<rparr>"

lemmas storage_demo_defs = demo_media_def demo_files_def demo_vault_def NewStorageService_def

definition demo_init :: ChunkedUploadInitRequest where
  "demo_init = \<lparr>ci_id = ''f'', ci_filename = ''x.txt'', ci_content_type = ''text/plain'', ci_total_size = 10, ci_checksum = []\<rparr>"

lemma demo_init_run:
  "\<exists>v. InitChunkedUpload demo_files demo_env demo_media (Some ''app'') ''k'' None demo_init False (demo_vault demo_home [])
     = (Inr \<lparr>cu_storage_id = ''f'', cu_uploaded_at = 1700000000, cu_path = ''app/2023/11/f.txt''\<rparr>, v)"
  by (simp add: InitChunkedUpload_def check_init_def demo_init_def storage_demo_defs validateStorageID_def isValidContentType_def
      maxContentTypeLength_def checkQuota_def GetUsedBytesByUploader_def used_bytes_def scan_sum_def repoCreateStorage_def
      storage_ids_def new_storage_def buildStoragePath_def Ext_def demo_node_def demo_home_def demo_env_def stmt_def rguard_def rbind_def
      andThen_def on_node_def ask_def exec_def ret_def Let_def map_err_def wrap64_def in_int64_def)

theorem chunked_upload_round_trip_witness:
  "\<exists>v v1 st v2 st2. upload_chunks demo_files (demo_host []) ''f'' [(demo_env, 1, ''cd''), (demo_env, 0, ''x''), (demo_env, 0, ''ab'')] v = (Inr (), v1)
     \<and> CompleteChunkedUpload demo_files demo_env (demo_host []) demo_media ''f'' ''u'' v1 = (Inr st, v2)
     \<and> GetData demo_files demo_env ''f'' v2 = (Inr (Inr ''abcd'', st2), v2)"
proof -
  let ?calls = "[(demo_env, 1, ''cd''), (demo_env, 0, ''x''), (demo_env, 0, ''ab'')] :: (env \<times> int \<times> string) list"
  obtain v where v: "InitChunkedUpload demo_files demo_env demo_media (Some ''app'') ''k'' None demo_init False (demo_vault demo_home [])
     = (Inr \<lparr>cu_storage_id = ''f'', cu_uploaded_at = 1700000000, cu_path = ''app/2023/11/f.txt''\<rparr>, v)"
    using demo_init_run by blast
  have c: "chunk_content ?calls 2 = ''abcd''" by (simp add: chunk_content_def upt_rec)
  have "{0..<2} = {0, 1 :: nat}" by auto
  then have idx: "(fst \<circ> snd) ` set ?calls = int ` {0..<2}" by auto
  have 1: "sound_disk sound" "ss_backend demo_files = local_storage sound" "plain_path ''app/2023/11/f.txt''"
    "chunks_of (vdb (demo_vault demo_home [])) (ci_id demo_init) = []" "\<forall>(env, i, x) \<in> set ?calls. reliable env" "reliable demo_env"
    by (simp_all add: sound_disk_def sound_def demo_files_def NewStorageService_def plain_path_def resolve_def chunks_of_def
        demo_vault_def demo_node_def demo_home_def reliable_def demo_env_def)
  have 2: "int (length (chunk_content ?calls 2)) \<le> ci_total_size demo_init"
    "ci_checksum demo_init = [] \<or> sha256_hex (demo_host []) (chunk_content ?calls 2) = ci_checksum demo_init"
    by (simp_all only: c) (simp_all add: demo_init_def)
  have "ci_id demo_init = ''f''" by (simp add: demo_init_def)
  then show ?thesis
    using chunked_upload_round_trip [OF v 1(1,2) _ 1(4,5) idx _ _ 2 1(6), of "''u''"] 1(3) by (simp only: c) fastforce
qed

end
