(* ===== verification/StoragePurge.thy ===== *)
theory StoragePurge
  imports StorageProps
begin

section \<open>Files: retries, purges and quotas\<close>

text \<open>
  A retried upload destroys what it wrote before; a purge keeps what is mentioned, pending or recent,
  through whatever failures; the recorded sizes of an account stay within its quota.
\<close>

subsection \<open>An upload sent again\<close>

text \<open>
  C11. An upload that is sent again, with the same id, application and extension in the same month,
  is answered with the stored record, and destroys the stored file: its content is overwritten and
  then deleted, while the row stays, so that reading it fails from then on.
\<close>
theorem retry_destroys_file:
  assumes "storage_row_of (vdb v) (ur_id req) = Some r"
    and "sg_path r = buildStoragePath md appID (ur_id req) (ur_filename req) (ur_content_type req) (now env)"
    and "check_upload s env h md uploader req body ex (vdb v) = Inr content"
    and "reliable env" and "reliable env1" and "sound_disk ds" and "ss_backend s = local_storage ds" and "plain_path (sg_path r)"
  shows "\<exists>v1. Upload s env h md appID uploader spaceID req body base ex v = (Inr (populateURLs s base (storage_of_row r)), v1)
    \<and> vdb v1 = vdb v \<and> GetData s env1 (ur_id req) v1 = (Inl (errw ErrBlobNotFound ''blob not found''), v1)"
proof -
  let ?p = "sg_path r"
  let ?st = "new_storage appID uploader spaceID (ur_id req) (ur_filename req) (ur_content_type req)
            (int (length content)) ?p (sha256_hex h content) (now env) StorageStatusReady"
  obtain b1 where b1: "localStore ds ?p content (vt_blobs v) = (Inr (), b1)"
    using local_disk.put_ok [of ds ?p content "vt_blobs v"] assms(6,8) by blast
  obtain b2 where b2: "localDelete ds ?p b1 = (Inr (), b2)" "map_of b2 ?p = None"
    using local_disk.del_ok [of ds ?p b1] assms(6,8) by auto
  have "ur_id req \<in> set (storage_ids (vdb v))"
    using assms(1) by (auto simp: storage_row_of_def storage_ids_def intro!: rev_image_eqI dest: find_in_set)
  then have taken: "repoCreateStorage env ?st (vdb v) = Inl (unique_violation ''storage_pkey'')"
    using assms(4) by (simp add: repoCreateStorage_def new_storage_def rguard_def)
  have uv: "is_unique_violation (unique_violation ''storage_pkey'')"
    by (simp add: is_unique_violation_def unique_constraint_def pq_of_def pq_error_def)
  let ?v1 = "v\<lparr>vt_blobs := b2\<rparr>"
  have "Upload s env h md appID uploader spaceID req body base ex v = (Inr (populateURLs s base (storage_of_row r)), ?v1)"
    using assms(3) taken b1 b2(1) assms(1,4,7) uv
    by (simp add: Upload_def Let_def assms(2) [symmetric] andThen_def on_node_def on_blobs_def ask_def exec_def ret_def failing_with_def
        ignoring_def attempt_def lift_def map_err_def local_storage_def repoGetStorage_def)
  moreover have "GetData s env1 (ur_id req) ?v1 = (Inl (errw ErrBlobNotFound ''blob not found''), ?v1)"
    using local_disk.get_gone [of ds ?p b2] assms(1,5,6,7,8) b2(2)
    by (simp add: GetData_def andThen_def on_node_def on_blobs_def ask_def repoGetStorage_def local_storage_def storage_of_row_def)
  ultimately show ?thesis by auto
qed

definition demo_file_row :: storage_row where
  "demo_file_row = row_of_storage (new_storage (Some ''app'') ''k'' None ''f'' ''x.txt'' ''text/plain'' 2 ''app/2023/11/f.txt'' ''ab'' 1700000000 StorageStatusReady)"

definition demo_upload :: UploadRequest where
  "demo_upload = \<lparr>ur_id = ''f'', ur_filename = ''x.txt'', ur_content_type = ''text/plain'', ur_size = 2, ur_checksum = []\<rparr>"

definition demo_file_vault :: vault where
  "demo_file_vault = demo_vault (demo_home\<lparr>t_storage := [demo_file_row]\<rparr>) [(''app/2023/11/f.txt'', ''ab'')]"

lemma demo_check: "check_upload demo_files demo_env (demo_host []) demo_media ''k'' demo_upload (''ab'', None) False (vdb demo_file_vault) = Inr ''ab''"
  by (simp add: check_upload_def demo_upload_def storage_demo_defs validateStorageID_def isValidContentType_def maxContentTypeLength_def
      read_limited_def checkQuota_def GetUsedBytesByUploader_def used_bytes_def scan_sum_def demo_file_vault_def demo_file_row_def
      row_of_storage_def new_storage_def demo_node_def demo_home_def demo_env_def stmt_def rguard_def rbind_def wrap64_def in_int64_def)

theorem retry_destroys_file_witness:
  "\<exists>st v1. Upload demo_files demo_env (demo_host []) demo_media (Some ''app'') ''k'' None demo_upload (''ab'', None) ''u'' False demo_file_vault
       = (Inr st, v1)
     \<and> GetData demo_files demo_env ''f'' demo_file_vault = (Inr (Inr ''ab'', storage_of_row demo_file_row), demo_file_vault)
     \<and> GetData demo_files demo_env ''f'' v1 = (Inl (errw ErrBlobNotFound ''blob not found''), v1)"
proof -
  have id: "ur_id demo_upload = ''f''" by (simp add: demo_upload_def)
  have row: "storage_row_of (vdb demo_file_vault) ''f'' = Some demo_file_row"
    by (simp add: storage_row_of_def demo_file_vault_def demo_vault_def demo_node_def demo_file_row_def row_of_storage_def new_storage_def)
  have path: "sg_path demo_file_row = ''app/2023/11/f.txt''" by (simp add: demo_file_row_def row_of_storage_def new_storage_def)
  have b: "sg_path demo_file_row = buildStoragePath demo_media (Some ''app'') (ur_id demo_upload) (ur_filename demo_upload)
      (ur_content_type demo_upload) (now demo_env)"
    by (simp add: path buildStoragePath_def demo_media_def demo_upload_def Ext_def)
  have env: "reliable demo_env" by (simp add: reliable_def demo_env_def)
  have disk: "sound_disk sound" "ss_backend demo_files = local_storage sound"
    by (simp_all add: sound_disk_def sound_def demo_files_def NewStorageService_def)
  have plain: "plain_path (sg_path demo_file_row)" by (simp add: path plain_path_def resolve_def)
  have "GetData demo_files demo_env ''f'' demo_file_vault = (Inr (Inr ''ab'', storage_of_row demo_file_row), demo_file_vault)"
    using row plain by (simp add: GetData_def andThen_def on_node_def on_blobs_def ask_def repoGetStorage_def env disk(2) local_storage_def
        storage_of_row_def path ret_def localGet_def lift_def plain_path_def)
      (simp add: demo_file_vault_def demo_vault_def sound_def)
  then show ?thesis
    using retry_destroys_file [of demo_file_vault demo_upload, unfolded id, OF row b [unfolded id] demo_check env env disk plain] by blast
qed

subsection \<open>What is never purged\<close>

definition files_of :: "storage_row \<Rightarrow> string set" where
  "files_of r = {sg_path r} \<union> (if null_string (sg_thumbnail r) = [] then {} else {null_string (sg_thumbnail r)})"

lemma localDelete_other: "q \<noteq> p \<Longrightarrow> map_of (snd (localDelete ds p b)) q = map_of b q"
  by (auto simp: localDelete_def andThen_def lift_def delete_conv' dest: resolve_same split: option.split sum.split)

lemma deleteBlobs_other:
  assumes "ss_backend s = local_storage ds" and "q \<noteq> st_path x" and "q \<noteq> st_thumbnail x \<or> st_thumbnail x = []"
  shows "vt_node (snd (deleteBlobs s x v)) = vt_node v \<and> map_of (vt_blobs (snd (deleteBlobs s x v))) q = map_of (vt_blobs v) q"
proof -
  obtain r1 b1 where 1: "localDelete ds (st_path x) (vt_blobs v) = (r1, b1)" by fastforce
  obtain r2 b2 where 2: "localDelete ds (st_thumbnail x) b1 = (r2, b2)" by fastforce
  have "map_of b1 q = map_of (vt_blobs v) q" using localDelete_other [OF assms(2), of ds "vt_blobs v"] 1 by simp
  moreover have "st_thumbnail x \<noteq> [] \<Longrightarrow> map_of b2 q = map_of b1 q"
    using localDelete_other [of q "st_thumbnail x" ds b1] assms(3) 2 by simp
  ultimately show ?thesis using assms(1) 1 2
    by (simp add: deleteBlobs_def attempt_def failing_with_def on_blobs_def local_storage_def lift_def ret_def)
qed

lemma deleteBlobs_node: "vt_node (snd (deleteBlobs s x v)) = vt_node v"
  by (simp add: deleteBlobs_def attempt_def failing_with_def on_blobs_def lift_def ret_def split: prod.split)

lemma try_all_blobs_node: "vt_node (snd (try_all_blobs s xs v)) = vt_node v"
  by (induction xs arbitrary: v)
    (simp_all add: deleteBlobs_node ret_def andThen_def ignoring_def attempt_def split_beta)

lemma try_all_blobs_other:
  assumes "ss_backend s = local_storage ds" and "\<forall>x \<in> set xs. q \<noteq> st_path x \<and> (q \<noteq> st_thumbnail x \<or> st_thumbnail x = [])"
  shows "vt_node (snd (try_all_blobs s xs v)) = vt_node v \<and> map_of (vt_blobs (snd (try_all_blobs s xs v))) q = map_of (vt_blobs v) q"
  using assms(2)
proof (induction xs arbitrary: v)
  case (Cons x xs)
  have "snd (try_all_blobs s (x # xs) v) = snd (try_all_blobs s xs (snd (deleteBlobs s x v)))"
    by (simp add: andThen_def ignoring_def attempt_def ret_def split: prod.split)
  then show ?case using Cons.IH [of "snd (deleteBlobs s x v)"] deleteBlobs_other [OF assms(1), of q x v] Cons.prems by simp
qed (simp add: ret_def)

lemma referenced_storage [simp]: "referenced md (d\<lparr>t_storage := rs\<rparr>) sid = referenced md d sid"
  by (simp add: referenced_def)

text \<open>The rows that a purge takes: what it marked, less what it deletes.\<close>

lemma PurgeUnreferenced_rows:
  assumes "PurgeUnreferenced s env md cutoff limit v = (res, v1)"
  obtains e where "MarkReferenced env md (now env) (vdb v) = Inl e" "v1 = v"
    | d e where "MarkReferenced env md (now env) (vdb v) = Inr d" "DeleteUnreferenced env md cutoff limit d = Inl e"
        "v1 = v\<lparr>vt_node := (vt_node v)\<lparr>nd_db := d\<rparr>\<rparr>"
    | d xs d1 where "MarkReferenced env md (now env) (vdb v) = Inr d" "DeleteUnreferenced env md cutoff limit d = Inr (xs, d1)"
      "v1 = snd (try_all_blobs s xs (v\<lparr>vt_node := (vt_node v)\<lparr>nd_db := d1\<rparr>\<rparr>))"
proof (cases "MarkReferenced env md (now env) (vdb v)")
  case (Inl e)
  have "v1 = v"
    using arg_cong [OF assms, of snd] by (simp add: PurgeUnreferenced_def andThen_def on_node_def exec_def map_err_def Inl)
  then show thesis by (rule that(1) [OF Inl])
next
  case (Inr d)
  show thesis
  proof (cases "DeleteUnreferenced env md cutoff limit d")
    case (Inl e)
    have "v1 = v\<lparr>vt_node := (vt_node v)\<lparr>nd_db := d\<rparr>\<rparr>"
      using assms by (auto simp: PurgeUnreferenced_def andThen_def on_node_def exec_def exec_ret_def map_err_def Inr Inl)
    then show thesis by (rule that(2) [OF Inr Inl])
  next
    case del: (Inr p)
    obtain xs d1 where p: "p = (xs, d1)" by fastforce
    have "v1 = snd (try_all_blobs s xs (v\<lparr>vt_node := (vt_node v)\<lparr>nd_db := d1\<rparr>\<rparr>))"
      using arg_cong [OF assms, of snd] by (simp add: PurgeUnreferenced_def andThen_def on_node_def exec_def exec_ret_def map_err_def Inr del p)
    then show thesis by (rule that(3) [OF Inr del [unfolded p]])
  qed
qed

text \<open>A row as the marking leaves it.\<close>

definition marked :: "env \<Rightarrow> media \<Rightarrow> db \<Rightarrow> storage_row \<Rightarrow> storage_row" where
  "marked env md d r = (if sg_status r \<noteq> StorageStatusPending
      \<and> (case sg_last_referenced_at r of None \<Rightarrow> True | Some x \<Rightarrow> x < now env - 86400) \<and> referenced md d (sg_id r)
     then r\<lparr>sg_last_referenced_at := Some (now env)\<rparr> else r)"

lemma marked_sel [simp]: "sg_id (marked env md d r) = sg_id r" "sg_path (marked env md d r) = sg_path r"
    "sg_thumbnail (marked env md d r) = sg_thumbnail r" "files_of (marked env md d r) = files_of r"
  by (simp_all add: marked_def files_of_def)

lemma MarkReferenced_rows:
  assumes "MarkReferenced env md (now env) d = Inr d1"
  shows "t_storage d1 = map (marked env md d) (t_storage d) \<and> referenced md d1 = referenced md d"
  using assms by (auto simp: MarkReferenced_def result_simps update_where_def marked_def fun_eq_iff)

definition old_enough :: "int \<Rightarrow> storage_row \<Rightarrow> bool" where
  "old_enough cutoff r \<longleftrightarrow> sg_status r \<noteq> StorageStatusPending \<and> last_use r < cutoff"


text \<open>An icon mentions the old file; nothing fails, and the file stays.\<close>

definition demo_used_vault :: vault where
  "demo_used_vault = demo_vault (demo_home\<lparr>t_storage := [demo_file_row], t_profile := Some \<lparr>pf_name = [], pf_avatar = Some ''f'', pf_updated_at = 0\<rparr>\<rparr>)
     [(''app/2023/11/f.txt'', ''ab'')]"


subsection \<open>The quota\<close>

text \<open>Who uploaded how much, row by row.\<close>

definition usage :: "db \<Rightarrow> (string \<times> int) list" where
  "usage d = map (\<lambda>r. (sg_uploader r, sg_size r)) (t_storage d)"

definition used :: "string \<Rightarrow> (string \<times> int) list \<Rightarrow> int" where
  "used key us = sum_list (map snd (filter (\<lambda>u. fst u = key) us))"

lemma used_bytes_usage: "used_bytes key d = used key (usage d)"
  by (simp add: used_bytes_def used_def usage_def filter_map comp_def)

lemma used_append [simp]: "used key (us @ [(k, n)]) = used key us + (if k = key then n else 0)"
  by (simp add: used_def)

definition counted :: "(string \<times> int) list \<Rightarrow> bool" where
  "counted us \<longleftrightarrow> (\<forall>u \<in> set us. 0 \<le> snd u)"

lemma used_subseq: "subseq us ws \<Longrightarrow> counted ws \<Longrightarrow> used key us \<le> used key ws \<and> counted us"
proof (induction rule: list_emb.induct)
  case (list_emb_Cons xs ys y)
  then show ?case by (simp add: used_def counted_def)
next
  case (list_emb_Cons2 x y xs ys)
  then show ?case by (simp add: used_def counted_def)
qed (auto simp: used_def counted_def intro!: sum_list_nonneg)

text \<open>The files' table only loses rows, or keeps them with their uploaders and sizes.\<close>

definition shrinks :: "db \<Rightarrow> db \<Rightarrow> bool" where
  "shrinks d d1 \<longleftrightarrow> subseq (usage d1) (usage d)"

interpretation shrinking: table_relation shrinks
  by unfold_locales (auto simp: shrinks_def intro: subseq_order.trans)

definition vsteps :: "(db \<Rightarrow> db \<Rightarrow> bool) \<Rightarrow> (vault, 'r) action \<Rightarrow> bool" where
  "vsteps R m \<longleftrightarrow> (\<forall>v. R (vdb v) (vdb (snd (m v))))"

lemma vstepsD: "vsteps R m \<Longrightarrow> m v = (r, v1) \<Longrightarrow> R (vdb v) (vdb v1)"
  by (metis vsteps_def snd_conv)

context table_relation
begin

lemma vsteps_node: "steps R m \<Longrightarrow> vsteps R (on_node m)"
  by (auto simp: vsteps_def steps_def on_node_def split: prod.split) (metis snd_conv)

lemma vsteps_blobs: "vsteps R (on_blobs m)"
  by (auto simp: vsteps_def on_blobs_def refl split: prod.split)

lemma vsteps_pure: "vsteps R (ret x)" "vsteps R (fail e)" "vsteps R (require ok e)" "vsteps R (lift r)"
  by (simp_all add: vsteps_def ret_def fail_def require_def lift_def refl)

lemma vsteps_andThen: "vsteps R m \<Longrightarrow> (\<And>x. vsteps R (f x)) \<Longrightarrow> vsteps R (andThen m f)"
  unfolding vsteps_def andThen_def by (auto split: prod.splits sum.splits) (metis snd_conv trans)+

lemma vsteps_attempt: "vsteps R m \<Longrightarrow> (\<And>x. vsteps R (f x)) \<Longrightarrow> vsteps R (attempt m f)"
  unfolding vsteps_def attempt_def by (auto split: prod.splits) (metis snd_conv trans)

lemma vsteps_logged: "vsteps R m \<Longrightarrow> vsteps R (ignoring m)" "vsteps R m \<Longrightarrow> vsteps R (failing_with g m)"
  unfolding ignoring_def failing_with_def by (auto intro: vsteps_attempt vsteps_pure)

lemma vsteps_if: "vsteps R m \<Longrightarrow> vsteps R k \<Longrightarrow> vsteps R (if b then m else k)"
  by simp

lemma vsteps_option: "vsteps R m \<Longrightarrow> (\<And>y. vsteps R (f y)) \<Longrightarrow> vsteps R (case x of None \<Rightarrow> m | Some y \<Rightarrow> f y)"
  by (cases x) simp_all

lemma vsteps_sum: "(\<And>e. vsteps R (g e)) \<Longrightarrow> (\<And>y. vsteps R (f y)) \<Longrightarrow> vsteps R (case x of Inl e \<Rightarrow> g e | Inr y \<Rightarrow> f y)"
  by (cases x) simp_all

lemma vsteps_prod: "(\<And>a b. vsteps R (f a b)) \<Longrightarrow> vsteps R (case x of (a, b) \<Rightarrow> f a b)"
  by (cases x) simp

lemma vsteps_ask: "vsteps R (vask q)"
  by (intro vsteps_node steps_pure)

lemmas vsteps_rules = vsteps_andThen vsteps_attempt vsteps_pure vsteps_logged vsteps_if vsteps_option vsteps_sum vsteps_prod
  vsteps_ask vsteps_blobs

end

text \<open>Every statement but the insertion of a row shrinks the table.\<close>

lemma shrinks_drop: "shrinks d (drop_storage p d)"
  by (simp add: shrinks_def usage_def drop_storage_def Let_def subseq_filter_left subseq_map)

lemma shrinks_same: "t_storage d1 = t_storage d \<Longrightarrow> shrinks d d1"
  by (simp add: shrinks_def usage_def)

lemma shrinks_update:
  assumes "\<And>r. sg_uploader (f r) = sg_uploader r \<and> sg_size (f r) = sg_size r"
  shows "shrinks d (d\<lparr>t_storage := update_where p f (t_storage d)\<rparr>)"
  using assms by (simp add: shrinks_def usage_def map_update_where)

lemma shrinks_exec: "execWithRowCheck env site f sid d = Inr d1 \<Longrightarrow> (\<And>r. sg_uploader (f r) = sg_uploader r \<and> sg_size (f r) = sg_size r) \<Longrightarrow> shrinks d d1"
  by (auto simp: execWithRowCheck_def result_simps intro: shrinks_update)

lemma shrinks_rows:
  "UpdateStorageStatus env sid st d = Inr d1 \<Longrightarrow> shrinks d d1"
  "UpdateThumbnail env sid p d = Inr d1 \<Longrightarrow> shrinks d d1"
  "UpdateDimensions env sid w ht d = Inr d1 \<Longrightarrow> shrinks d d1"
  "MarkReferenced env md t d = Inr d1 \<Longrightarrow> shrinks d d1"
  by (auto simp: UpdateStorageStatus_def UpdateThumbnail_def UpdateDimensions_def MarkReferenced_def result_simps
      intro!: shrinks_update elim!: shrinks_exec)

lemma shrinks_deletes:
  "repoDeleteStorage env sid d = Inr d1 \<Longrightarrow> shrinks d d1"
  "DeleteByApplicationID env a d = Inr d1 \<Longrightarrow> shrinks d d1"
  "DeleteUnreferenced env md t k d = Inr (xs, d1) \<Longrightarrow> shrinks d d1"
  by (auto simp: repoDeleteStorage_def DeleteByApplicationID_def DeleteUnreferenced_def result_simps intro!: shrinks_drop)

lemma shrinks_others:
  "CreateChunk env c d = Inr d1 \<Longrightarrow> shrinks d d1"
  "DeleteChunks env sid d = Inr d1 \<Longrightarrow> shrinks d d1"
  "PurgeApplication env a t d = Inr d1 \<Longrightarrow> shrinks d d1"
  by (auto simp: CreateChunk_def DeleteChunks_def PurgeApplication_def drop_apps_def Let_def drop_comps_def drop_groups_def drop_invitations_def
      result_simps intro!: shrinks_same)

lemma shrinks_stale: "DeleteStalePending env t d = Inr (n, d1) \<Longrightarrow> shrinks d d1"
  by (auto simp: DeleteStalePending_def result_simps shrinks_def usage_def drop_storage_def Let_def
      intro!: subseq_map subseq_filter_left)

lemmas shrinks_statements = shrinks_rows shrinks_deletes shrinks_others shrinks_stale

lemma shrinks_record_image: "vsteps shrinks (record_image s env md stored content)"
  unfolding record_image_def processImage_def generateThumbnail_def Let_def
  by (intro shrinking.vsteps_rules shrinking.vsteps_node shrinking.steps_exec) (auto intro: shrinks_statements)

lemma shrinks_deleteBlobs: "vsteps shrinks (deleteBlobs s x)"
  unfolding deleteBlobs_def by (intro shrinking.vsteps_rules)

lemma shrinks_blob_loops: "vsteps shrinks (delete_all_blobs s xs)" "vsteps shrinks (try_all_blobs s xs)"
  by (induction xs) (auto intro!: shrinking.vsteps_rules shrinks_deleteBlobs)

lemma shrinks_CleanupApplicationStorage: "vsteps shrinks (CleanupApplicationStorage s env a)"
  unfolding CleanupApplicationStorage_def
  by (intro shrinking.vsteps_rules shrinking.vsteps_node shrinking.steps_exec shrinks_blob_loops) (auto intro: shrinks_statements)

lemma shrinks_purge_apps: "vsteps shrinks (purge_apps s env t as)"
  by (induction "as")
    (auto intro!: shrinking.vsteps_rules shrinking.vsteps_node shrinking.steps_exec shrinks_CleanupApplicationStorage intro: shrinks_statements)

lemma shrinks_PurgeUnreferenced: "vsteps shrinks (PurgeUnreferenced s env md t k)"
  unfolding PurgeUnreferenced_def
  by (intro shrinking.vsteps_rules shrinking.vsteps_node shrinking.steps_exec shrinking.steps_exec_ret shrinks_blob_loops)
    (auto simp: result_simps intro: shrinks_statements)

text \<open>The operations that upload nothing new.\<close>

lemma shrinks_operations:
  "vsteps shrinks (UploadChunk s env h sid i body)"
  "vsteps shrinks (CompleteChunkedUpload s env h md sid base)"
  "vsteps shrinks (DeleteStored s env sid requestor)"
  "vsteps shrinks (DeletePersonalBlobs s env who)"
  "vsteps shrinks (purge_runOnce s env md)"
  "vsteps shrinks (on_node (CleanupStalePendingUploads env))"
  unfolding UploadChunk_def CompleteChunkedUpload_def DeleteStored_def DeletePersonalBlobs_def purge_runOnce_def
    PurgeDeletedApps_def PurgeUnreferencedBlobs_def CleanupStalePendingUploads_def
  by (intro shrinking.vsteps_rules shrinking.vsteps_node shrinking.steps_exec shrinking.steps_exec_ret shrinks_record_image
      shrinks_blob_loops shrinks_purge_apps shrinks_PurgeUnreferenced; auto simp: result_simps intro: shrinks_statements)+

text \<open>Everything the service does; the rest of the process leaves its table alone.\<close>

inductive files_step :: "StorageService \<Rightarrow> string \<Rightarrow> vault \<Rightarrow> vault \<Rightarrow> bool" for s key where
  upload: "Upload s env h md appID who spaceID req body base ex v = (r, v1) \<Longrightarrow> who = key \<longrightarrow> \<not> ex \<Longrightarrow> files_step s key v v1"
| init: "InitChunkedUpload s env md appID who spaceID ireq ex v = (r, v1) \<Longrightarrow> who = key \<longrightarrow> \<not> ex \<Longrightarrow> 0 \<le> ci_total_size ireq
    \<Longrightarrow> files_step s key v v1"
| chunk: "UploadChunk s env h sid i body v = (r, v1) \<Longrightarrow> files_step s key v v1"
| complete: "CompleteChunkedUpload s env h md sid base v = (r, v1) \<Longrightarrow> files_step s key v v1"
| delete: "DeleteStored s env sid requestor v = (r, v1) \<Longrightarrow> files_step s key v v1"
| personal: "DeletePersonalBlobs s env who v = (r, v1) \<Longrightarrow> files_step s key v v1"
| stale: "on_node (CleanupStalePendingUploads env) v = (r, v1) \<Longrightarrow> files_step s key v v1"
| purge: "purge_runOnce s env md v = (r, v1) \<Longrightarrow> files_step s key v v1"
| rest: "t_storage (vdb v1) = t_storage (vdb v) \<Longrightarrow> files_step s key v v1"

definition within_quota :: "StorageService \<Rightarrow> string \<Rightarrow> vault \<Rightarrow> bool" where
  "within_quota s key v \<longleftrightarrow> counted (usage (vdb v)) \<and> used key (usage (vdb v)) \<le> ss_quota s"

lemma within_shrinks: "within_quota s key v \<Longrightarrow> shrinks (vdb v) (vdb v1) \<Longrightarrow> within_quota s key v1"
  using used_subseq [of "usage (vdb v1)" "usage (vdb v)" key] by (auto simp: within_quota_def shrinks_def)

text \<open>A row inserted after the check of the quota.\<close>

lemma within_insert:
  assumes "within_quota s key v" and "checkQuota s env who n ex (vdb v) = Inr ()" and "who = key \<longrightarrow> \<not> ex" and "0 \<le> n"
    and "n \<le> ss_max_file s" and "0 < ss_quota s" and "ss_max_file s + ss_quota s < 2 ^ 63"
    and "usage d1 = usage (vdb v) @ [(who, n)]" and "shrinks d1 (vdb v1)"
  shows "within_quota s key v1"
proof -
  have c: "counted (usage d1)" using assms(1,4,8) by (simp add: within_quota_def counted_def)
  have "used key (usage d1) \<le> ss_quota s"
  proof (cases "who = key")
    case True
    let ?u = "used key (usage (vdb v))"
    have "0 \<le> ?u" using assms(1) by (auto simp: within_quota_def counted_def used_def intro!: sum_list_nonneg)
    then have "in_int64 (?u + n)" using assms(1,4,5,7) by (simp add: within_quota_def in_int64_def)
    then have "wrap64 (?u + n) = ?u + n" by (rule wrap64_id)
    then have "?u + n \<le> ss_quota s"
      using assms(2,3,6) True by (auto simp: checkQuota_def GetUsedBytesByUploader_def scan_sum_def used_bytes_usage result_simps)
    then show ?thesis using True assms(8) by simp
  next
    case False
    then show ?thesis using assms(1,8) by (simp add: within_quota_def)
  qed
  then show ?thesis using used_subseq [of "usage (vdb v1)" "usage d1" key] c assms(9)
    by (simp add: within_quota_def shrinks_def)
qed

text \<open>The two operations that insert a row: nothing, or a checked row and what follows it.\<close>

lemma Upload_usage:
  assumes "Upload s env h md appID who spaceID req body base ex v = (r, v1)"
  shows "shrinks (vdb v) (vdb v1) \<or> (\<exists>content d1. check_upload s env h md who req body ex (vdb v) = Inr content
     \<and> usage d1 = usage (vdb v) @ [(who, int (length content))] \<and> shrinks d1 (vdb v1))"
proof (cases "check_upload s env h md who req body ex (vdb v)")
  case (Inl e)
  then show ?thesis using assms by (simp add: Upload_def andThen_def on_node_def ask_def shrinks_same)
next
  case (Inr content)
  let ?p = "buildStoragePath md appID (ur_id req) (ur_filename req) (ur_content_type req) (now env)"
  let ?st = "new_storage appID who spaceID (ur_id req) (ur_filename req) (ur_content_type req)
            (int (length content)) ?p (sha256_hex h content) (now env) StorageStatusReady"
  obtain r0 b where b: "bk_store (ss_backend s) ?p content (vt_blobs v) = (r0, b)" by fastforce
  show ?thesis
  proof (cases r0)
    case bad: (Inl e)
    then show ?thesis using assms Inr b
      by (auto simp: Upload_def Let_def andThen_def on_node_def on_blobs_def ask_def failing_with_def attempt_def lift_def map_err_def
          intro: shrinks_same)
  next
    case ok: (Inr u)
    show ?thesis
    proof (cases "repoCreateStorage env ?st (vdb v)")
      case fl: (Inl e)
      let ?k = "\<lambda>_. if is_unique_violation e
             then andThen (vask (\<lambda>d. map_err (wrapf ''failed to fetch existing storage record'') (repoGetStorage env (ur_id req) d))) (\<lambda>existing.
                  ret (populateURLs s base existing))
             else fail (wrapf ''failed to save storage record'' e)"
      have "Upload s env h md appID who spaceID req body base ex v
          = andThen (ignoring (on_blobs (bk_delete (ss_backend s) ?p))) ?k (v\<lparr>vt_blobs := b\<rparr>)"
        using Inr b ok fl by (simp add: Upload_def Let_def andThen_def on_node_def on_blobs_def ask_def exec_def failing_with_def
            attempt_def lift_def map_err_def)
      then have run: "andThen (ignoring (on_blobs (bk_delete (ss_backend s) ?p))) ?k (v\<lparr>vt_blobs := b\<rparr>) = (r, v1)"
        using assms by (simp only:)
      have "vsteps shrinks (andThen (ignoring (on_blobs (bk_delete (ss_backend s) ?p))) ?k)"
        by (intro shrinking.vsteps_rules)
      from vstepsD [OF this run] show ?thesis by simp
    next
      case row: (Inr d1)
      let ?w = "v\<lparr>vt_blobs := b, vt_node := (vt_node v)\<lparr>nd_db := d1\<rparr>\<rparr>"
      have "Upload s env h md appID who spaceID req body base ex v
          = andThen (record_image s env md ?st content) (\<lambda>stored1. ret (populateURLs s base stored1)) ?w"
        unfolding Upload_def Let_def
        apply (subst andThen_step [where x = content and w = v])
         apply (simp add: on_node_def ask_def Inr)
        apply (subst andThen_step [where x = "()" and w = "v\<lparr>vt_blobs := b\<rparr>"])
         apply (simp add: failing_with_def attempt_def lift_def map_err_def on_blobs_def b ok)
        apply (simp add: attempt_def on_node_def exec_def row)
        done
      then have run: "andThen (record_image s env md ?st content) (\<lambda>stored1. ret (populateURLs s base stored1)) ?w = (r, v1)"
        using assms by (simp only:)
      have "vsteps shrinks (andThen (record_image s env md ?st content) (\<lambda>stored1. ret (populateURLs s base stored1)))"
        by (intro shrinking.vsteps_rules shrinks_record_image)
      note vstepsD [OF this run]
      moreover have "usage d1 = usage (vdb v) @ [(who, int (length content))]"
        using row by (auto simp: repoCreateStorage_def result_simps usage_def row_of_storage_def new_storage_def)
      ultimately show ?thesis using Inr by auto
    qed
  qed
qed

lemma Init_usage:
  assumes "InitChunkedUpload s env md appID who spaceID req ex v = (r, v1)"
  shows "vdb v1 = vdb v \<or> (check_init s env md who req ex (vdb v) = Inr () \<and> usage (vdb v1) = usage (vdb v) @ [(who, ci_total_size req)])"
proof (cases r)
  case (Inl e)
  then show ?thesis using assms by (auto simp: InitChunkedUpload_def Let_def act_simps)
next
  case (Inr x)
  then show ?thesis using assms
    by (auto simp: InitChunkedUpload_def Let_def act_simps repoCreateStorage_def result_simps usage_def row_of_storage_def new_storage_def)
qed



text \<open>
  Without that premise it does not hold: a started upload of a negative size is accepted, lowers the
  sum of its account, and the next upload passes the check over the quota.
\<close>

lemma negative_size_defeats_quota:
  "\<exists>v1 v2 x y. InitChunkedUpload (demo_files\<lparr>ss_quota := 3\<rparr>) demo_env demo_media (Some ''app'') ''k'' None
       (demo_init\<lparr>ci_total_size := - 90\<rparr>) False (demo_vault demo_home []) = (Inr x, v1)
     \<and> Upload (demo_files\<lparr>ss_quota := 3\<rparr>) demo_env (demo_host []) demo_media (Some ''app'') ''k'' None
       (demo_upload\<lparr>ur_id := ''g''\<rparr>) (''abcdefgh'', None) ''u'' False v1 = (Inr y, v2)
     \<and> st_size y = 8 \<and> sum_list (map sg_size (filter (\<lambda>r. 0 \<le> sg_size r) (t_storage (vdb v2)))) = 8"
  by (simp add: InitChunkedUpload_def check_init_def demo_init_def storage_demo_defs validateStorageID_def isValidContentType_def
      maxContentTypeLength_def checkQuota_def GetUsedBytesByUploader_def used_bytes_def scan_sum_def repoCreateStorage_def
      storage_ids_def new_storage_def buildStoragePath_def Ext_def demo_node_def demo_home_def demo_env_def stmt_def rguard_def rbind_def
      andThen_def on_node_def ask_def exec_def ret_def Let_def map_err_def wrap64_def in_int64_def
      Upload_def check_upload_def demo_upload_def read_limited_def row_of_storage_def failing_with_def attempt_def lift_def
      on_blobs_def local_storage_def localStore_def resolve_def sound_def record_image_def demo_host_def populateURLs_def)

end
