(* ===== verification/PurgeDrain.thy ===== *)
theory PurgeDrain
  imports StoragePurge
begin

section \<open>Purging in batches comes to an end\<close>

text \<open>
  The loop that purges unmentioned old files batch by batch: a measure, the number of such files, that
  each batch lowers by what it takes, so that enough batches leave none.
\<close>

text \<open>What a purge would take if its batch had no limit.\<close>

definition to_purge :: "media \<Rightarrow> int \<Rightarrow> db \<Rightarrow> storage_row list" where
  "to_purge md cutoff d = filter (\<lambda>r. \<not> referenced md d (sg_id r) \<and> old_enough cutoff r) (t_storage d)"

lemma distinct_by_id: "distinct (storage_ids d) \<Longrightarrow> distinct (t_storage d)"
  by (simp add: storage_ids_def distinct_map)

lemma same_by_id: "distinct (storage_ids d) \<Longrightarrow> x \<in> set (t_storage d) \<Longrightarrow> y \<in> set (t_storage d) \<Longrightarrow> sg_id x = sg_id y \<Longrightarrow> x = y"
  by (auto simp: storage_ids_def distinct_map inj_on_def)

text \<open>After the marking only rows that nothing mentions are old.\<close>

lemma marked_old:
  assumes "cutoff \<le> now env - 86400" and "old_enough cutoff (marked env md d r)"
  shows "\<not> referenced md d (sg_id r) \<and> old_enough cutoff r"
  using assms by (auto simp: marked_def old_enough_def last_use_def split: if_splits option.splits)

lemma to_purge_marked:
  assumes "cutoff \<le> now env - 86400" and "MarkReferenced env md (now env) d = Inr d1"
  shows "to_purge md cutoff d1 = filter (old_enough cutoff) (t_storage d1)" "length (to_purge md cutoff d1) = length (to_purge md cutoff d)"
proof -
  have m: "old_enough cutoff (marked env md d r) \<longleftrightarrow> \<not> referenced md d (sg_id r) \<and> old_enough cutoff r" for r
    using marked_old [OF assms(1), of md d r] by (auto simp: marked_def)
  then show "to_purge md cutoff d1 = filter (old_enough cutoff) (t_storage d1)"
    using MarkReferenced_rows [OF assms(2)] by (auto simp: to_purge_def m intro!: filter_cong)
  show "length (to_purge md cutoff d1) = length (to_purge md cutoff d)"
    using MarkReferenced_rows [OF assms(2)] m by (simp add: to_purge_def filter_map o_def)
qed

text \<open>A batch takes as many as it can.\<close>

lemma batch_length:
  assumes "distinct (storage_ids d)" and "to_purge md cutoff d = filter (old_enough cutoff) (t_storage d)"
  shows "length (filter (\<lambda>r. \<not> unreferenced md cutoff limit d r) (to_purge md cutoff d)) = length (to_purge md cutoff d) - limit"
proof -
  let ?C = "to_purge md cutoff d" and ?P = "purge_candidates cutoff limit d" and ?g = "unreferenced md cutoff limit d"
  have c: "?P = take limit (sort_key sg_created_at ?C)"
    by (simp add: purge_candidates_def assms(2) old_enough_def cong: filter_cong)
  have dC: "distinct ?C" using distinct_by_id [OF assms(1)] by (simp add: to_purge_def)
  have sub: "set ?P \<subseteq> set ?C" using set_take_subset [of limit "sort_key sg_created_at ?C"] by (simp add: c)
  have rows: "set ?C \<subseteq> set (t_storage d)" by (auto simp: to_purge_def)
  have "set (filter ?g ?C) = set ?P"
    using sub rows same_by_id [OF assms(1)] by (auto simp: unreferenced_def to_purge_def subset_eq)
  moreover have "distinct ?P" using dC by (simp add: c)
  ultimately have "length (filter ?g ?C) = length ?P" using dC by (metis distinct_card distinct_filter)
  then show ?thesis using sum_length_filter_compl [of ?g ?C] by (simp add: c)
qed

lemma update_where_idle: "(\<And>x. x \<in> set xs \<Longrightarrow> \<not> p x) \<Longrightarrow> update_where p f xs = xs"
  by (auto simp: update_where_def intro: map_idI)

lemma purge_once:
  assumes "reliable env" and "cutoff \<le> now env - 86400" and "distinct (storage_ids (vdb v))"
  shows "distinct (storage_ids (vdb (snd (PurgeUnreferenced s env md cutoff limit v))))"
    "length (to_purge md cutoff (vdb (snd (PurgeUnreferenced s env md cutoff limit v)))) = length (to_purge md cutoff (vdb v)) - limit"
proof -
  obtain res v1 where run: "PurgeUnreferenced s env md cutoff limit v = (res, v1)" by fastforce
  obtain d where d: "MarkReferenced env md (now env) (vdb v) = Inr d" using assms(1) by (simp add: MarkReferenced_def)
  obtain xs d1 where d1: "DeleteUnreferenced env md cutoff limit d = Inr (xs, d1)"
    "v1 = snd (try_all_blobs s xs (v\<lparr>vt_node := (vt_node v)\<lparr>nd_db := d1\<rparr>\<rparr>))"
    by (rule PurgeUnreferenced_rows [OF run]) (use assms(1) d in \<open>auto simp: DeleteUnreferenced_def\<close>)
  have v1: "vdb v1 = d1" using try_all_blobs_node [of s xs] by (simp add: d1(2))
  let ?g = "unreferenced md cutoff limit d"
  have users: "update_where (\<lambda>u. us_avatar u \<in> Some ` sg_id ` set (filter ?g (t_storage d))) (\<lambda>u. u\<lparr>us_avatar := None\<rparr>) (t_users d) = t_users d"
    by (rule update_where_idle) (auto simp: unreferenced_def referenced_def list_ex_iff)
  have rows: "t_storage d1 = filter (\<lambda>r. \<not> ?g r) (t_storage d)" "referenced md d1 = referenced md d"
    using d1(1) assms(1) users by (auto simp: DeleteUnreferenced_def drop_storage_def Let_def fun_eq_iff referenced_def)
  have ids: "distinct (storage_ids d)" using MarkReferenced_rows [OF d] assms(3) by (simp add: storage_ids_def o_def)
  have "to_purge md cutoff d1 = filter (\<lambda>r. \<not> unreferenced md cutoff limit d r) (to_purge md cutoff d)"
    by (simp add: to_purge_def rows conj_commute)
  then show "length (to_purge md cutoff (vdb (snd (PurgeUnreferenced s env md cutoff limit v)))) = length (to_purge md cutoff (vdb v)) - limit"
    using batch_length [OF ids to_purge_marked(1) [OF assms(2) d], of limit] to_purge_marked(2) [OF assms(2) d] by (simp add: run v1)
  show "distinct (storage_ids (vdb (snd (PurgeUnreferenced s env md cutoff limit v))))"
    using ids by (simp add: run v1 storage_ids_def rows distinct_map_filter)
qed

text \<open>
  C20. Purging repeatedly comes to an end: every run of the purge takes as many of the files that
  nothing mentions as its batch allows, so that after enough of them none is left, whatever
  happens to the contents on the disk.
\<close>
theorem purge_drains:
  assumes "reliable env" and "cutoff \<le> now env - 86400" and "distinct (storage_ids (vdb v))"
  shows "length (to_purge md cutoff (vdb (((\<lambda>v. snd (PurgeUnreferenced s env md cutoff limit v)) ^^ k) v)))
    = length (to_purge md cutoff (vdb v)) - k * limit"
proof -
  let ?run = "\<lambda>v. snd (PurgeUnreferenced s env md cutoff limit v)"
  have "distinct (storage_ids (vdb ((?run ^^ k) v))) \<and> length (to_purge md cutoff (vdb ((?run ^^ k) v))) = length (to_purge md cutoff (vdb v)) - k * limit"
  proof (induction k)
    case (Suc k)
    then show ?case using purge_once(1) [OF assms(1,2), of "(?run ^^ k) v" s md limit] purge_once(2) [OF assms(1,2), of "(?run ^^ k) v" md s limit] by simp
  qed (use assms(3) in simp)
  then show ?thesis by simp
qed

text \<open>Two files that nothing mentions, and a batch of one: two runs.\<close>

definition demo_litter :: vault where
  "demo_litter = demo_vault (demo_home\<lparr>t_storage := [demo_file_row, demo_file_row\<lparr>sg_id := ''g''\<rparr>]\<rparr>) []"

theorem purge_drains_witness:
  "let env = demo_env\<lparr>now := 1800000000\<rparr>; run = (\<lambda>v. snd (PurgeUnreferenced demo_files env demo_media 1790000000 1 v))
   in length (to_purge demo_media 1790000000 (vdb demo_litter)) = 2 \<and> to_purge demo_media 1790000000 (vdb ((run ^^ 2) demo_litter)) = []"
proof -
  have two: "length (to_purge demo_media 1790000000 (vdb demo_litter)) = 2"
    by (simp add: to_purge_def demo_litter_def demo_vault_def demo_node_def referenced_def old_enough_def last_use_def
        demo_file_row_def row_of_storage_def new_storage_def demo_home_def empty_db_def demo_olga_def demo_kim_def new_user_row_def)
  have "reliable (demo_env\<lparr>now := 1800000000\<rparr>)" by (simp add: reliable_def demo_env_def)
  moreover have "distinct (storage_ids (vdb demo_litter))"
    by (simp add: demo_litter_def demo_vault_def demo_node_def storage_ids_def demo_file_row_def row_of_storage_def new_storage_def)
  ultimately show ?thesis
    using purge_drains [where env = "demo_env\<lparr>now := 1800000000\<rparr>" and cutoff = 1790000000 and v = demo_litter
        and md = demo_media and s = demo_files and limit = 1 and k = 2] two
    by (simp add: Let_def)
qed

end
