(* ===== verification/PushTexts.thy ===== *)
theory PushTexts
  imports Node
begin

section \<open>The texts of a notification\<close>

text \<open>
  \<open>internal/push/push.go\<close> (the kinds) and \<open>push_texts.go\<close>. Go's string literals are UTF-8; the bytes
  outside ASCII are written out.
\<close>

datatype Kind = KindChat | KindItem | KindPoll | KindFile | KindMember | KindRole | KindReminder | KindDigest

fun kind_string :: "Kind \<Rightarrow> string" where
  "kind_string KindChat = ''chat''"
| "kind_string KindItem = ''item''"
| "kind_string KindPoll = ''poll''"
| "kind_string KindFile = ''file''"
| "kind_string KindMember = ''member''"
| "kind_string KindRole = ''role''"
| "kind_string KindReminder = ''reminder''"
| "kind_string KindDigest = ''digest''"

abbreviation NotifyModeChat :: string where "NotifyModeChat \<equiv> ''chat''"

definition sendsIn :: "Kind \<Rightarrow> string \<Rightarrow> bool" where
  "sendsIn k mode \<longleftrightarrow> mode \<noteq> NotifyModeChat \<or> k = KindChat \<or> k = KindReminder \<or> k = KindRole"

definition digestsIn :: "Kind \<Rightarrow> string \<Rightarrow> bool" where
  "digestsIn k mode \<longleftrightarrow> mode = NotifyModeDaily \<and> k \<noteq> KindReminder \<and> k \<noteq> KindRole"

record push_notice =
  pn_kind :: Kind
  pn_scope :: string
  pn_component_id :: string
  pn_body :: string
  pn_view :: string

text \<open>A format with one verb is a function of what it prints.\<close>

record texts =
  tx_someone :: string
  tx_agentSuffix :: string
  tx_photo :: string
  tx_file :: string
  tx_pollClosed :: string
  tx_itemsMore :: "int \<Rightarrow> string"
  tx_newMember :: "string \<Rightarrow> string"
  tx_roleNow :: "string \<Rightarrow> string"
  tx_reminder :: string
  tx_roleLabels :: "(string \<times> string) list"
  tx_digestTitle :: "int \<Rightarrow> int \<Rightarrow> string"

definition camera :: string where
  "camera = [CHR 0xF0, CHR 0x9F, CHR 0x93, CHR 0xB7]"

definition alarm_clock :: string where
  "alarm_clock = [CHR 0xE2, CHR 0x8F, CHR 0xB0]"

definition ellipsis :: string where
  "ellipsis = [CHR 0xE2, CHR 0x80, CHR 0xA6]"

definition textsEN :: texts where
  "textsEN = \<lparr>tx_someone = ''Someone'', tx_agentSuffix = '' (agent)'', tx_photo = camera @ '' Photo'', tx_file = ''File'',
     tx_pollClosed = ''Poll closed'', tx_itemsMore = (\<lambda>n. ''and '' @ format_int n @ '' more''),
     tx_newMember = (\<lambda>s. ''New member: '' @ s), tx_roleNow = (\<lambda>s. ''Your role is now: '' @ s), tx_reminder = ''Reminder'',
     tx_roleLabels = [(''owner'', ''Owner''), (''admin'', ''Admin''), (''member'', ''Member''), (''viewer'', ''Viewer'')],
     tx_digestTitle = (\<lambda>n apps. if apps = 1 then format_int n @ '' new in 1 app''
       else format_int n @ '' new in '' @ format_int apps @ '' apps'')\<rparr>"

definition l_stroke :: string where "l_stroke = [CHR 0xC5, CHR 0x82]"
definition s_acute :: string where "s_acute = [CHR 0xC5, CHR 0x9B]"
definition e_ogonek :: string where "e_ogonek = [CHR 0xC4, CHR 0x99]"

text \<open>Polish has two plural forms besides the singular; here the singular shares the first.\<close>

definition pl_word :: "int \<Rightarrow> string" where
  "pl_word n =
     (if n = 1 \<or> (go_rem n 10 \<ge> 2 \<and> go_rem n 10 \<le> 4 \<and> (go_rem n 100 < 12 \<or> go_rem n 100 > 14))
      then ''nowe'' else ''nowych'')"

definition textsPL :: texts where
  "textsPL = \<lparr>tx_someone = ''Kto'' @ s_acute, tx_agentSuffix = '' (agent)'', tx_photo = camera @ '' Zdj'' @ e_ogonek @ ''cie'',
     tx_file = ''Plik'', tx_pollClosed = ''Ankieta zamkni'' @ e_ogonek @ ''ta'',
     tx_itemsMore = (\<lambda>n. ''i '' @ format_int n @ '' innych''),
     tx_newMember = (\<lambda>s. ''Nowa osoba: '' @ s), tx_roleNow = (\<lambda>s. ''Twoja rola: '' @ s), tx_reminder = ''Przypomnienie'',
     tx_roleLabels = [(''owner'', ''W'' @ l_stroke @ ''a'' @ s_acute @ ''ciciel''), (''admin'', ''Administrator''),
       (''member'', ''Cz'' @ l_stroke @ ''onek''), (''viewer'', ''Obserwator'')],
     tx_digestTitle = (\<lambda>n apps. if apps = 1 then format_int n @ '' '' @ pl_word n @ '' w 1 aplikacji''
       else format_int n @ '' '' @ pl_word n @ '' w '' @ format_int apps @ '' aplikacjach'')\<rparr>"

definition textsFor :: "string \<Rightarrow> texts" where
  "textsFor lang = (if lang = ''pl'' then textsPL else textsEN)"

definition langOf :: "string \<Rightarrow> string" where
  "langOf locale = (if locale = ''pl'' then ''pl'' else ''en'')"

subsection \<open>Cutting a text\<close>

text \<open>\<open>strings.Fields\<close>: the runs of runes between white space.\<close>

definition space_rune :: "nat \<times> string \<Rightarrow> bool" where
  "space_rune r = IsSpace (fst r)"

function rune_fields :: "(nat \<times> string) list \<Rightarrow> (nat \<times> string) list list" where
  "rune_fields rs =
     (case dropWhile space_rune rs of
        [] \<Rightarrow> []
      | r # w \<Rightarrow> takeWhile (\<lambda>x. \<not> space_rune x) (r # w) # rune_fields (dropWhile (\<lambda>x. \<not> space_rune x) (r # w)))"
  by pat_completeness auto

termination
proof (relation "measure length", simp)
  fix rs w :: "(nat \<times> string) list" and r
  assume w: "dropWhile space_rune rs = r # w"
  then have "\<not> space_rune r" using hd_dropWhile [of space_rune rs] by simp
  then have "length (dropWhile (\<lambda>x. \<not> space_rune x) (r # w)) \<le> length w" by (simp add: length_dropWhile_le)
  also have "\<dots> < length rs" using w length_dropWhile_le [of space_rune rs] by simp
  finally show "(dropWhile (\<lambda>x. \<not> space_rune x) (r # w), rs) \<in> measure length" by simp
qed

declare rune_fields.simps [simp del]

definition bytes_of :: "(nat \<times> string) list \<Rightarrow> string" where
  "bytes_of rs = concat (map snd rs)"

definition Fields :: "string \<Rightarrow> string list" where
  "Fields s = map bytes_of (rune_fields (runes s))"

fun join_with :: "string \<Rightarrow> string list \<Rightarrow> string" where
  "join_with sep [] = []"
| "join_with sep [x] = x"
| "join_with sep (x # y # r) = x @ sep @ join_with sep (y # r)"

text \<open>A rune written back: an invalid byte became \<open>U+FFFD\<close>.\<close>

definition rune_bytes :: "nat \<times> string \<Rightarrow> string" where
  "rune_bytes r = (if fst r = rune_error then [CHR 0xEF, CHR 0xBF, CHR 0xBD] else snd r)"

definition maxWhatRunes :: nat where
  "maxWhatRunes = 120"

definition cut_text :: "string \<Rightarrow> string" where
  "cut_text s =
     (let t = join_with '' '' (Fields s); r = runes t
      in if length r \<le> maxWhatRunes then t else concat (map rune_bytes (take maxWhatRunes r)) @ ellipsis)"

definition isEmpty :: "gany \<Rightarrow> bool" where
  "isEmpty v \<longleftrightarrow> v = GNil \<or> v = GStr []"

definition person :: "texts \<Rightarrow> string \<Rightarrow> bool \<Rightarrow> string" where
  "person t name agent =
     (let n = TrimSpace name; n1 = (if n = [] then tx_someone t else n) in if agent then n1 @ tx_agentSuffix t else n1)"

definition textByID :: "texts \<Rightarrow> string \<Rightarrow> string option" where
  "textByID t i = (if i = ''photo'' then Some (tx_photo t) else if i = ''file'' then Some (tx_file t)
     else if i = ''pollClosed'' then Some (tx_pollClosed t) else None)"

end
