(* ===== verification/ComponentValidator.thy ===== *)
theory ComponentValidator
  imports Database WriteBack "HOL-Library.List_Lexorder" "HOL-Library.Char_ord" "HOL-Library.Product_Lexorder"
begin

section \<open>The component validator\<close>

text \<open>
  \<open>internal/component/validator.go\<close>. The JSON schema library and the regular expressions are
  parameters: a schema that was compiled is known by its location, and the library answers for
  the resources that were added. What the space itself reads of a schema file (who may write a
  key, how it merges, what it notifies) is computed here.
\<close>

subsection \<open>Data\<close>

abbreviation AccessManage :: string where "AccessManage \<equiv> ''manage''"
abbreviation AccessMember :: string where "AccessMember \<equiv> ''member''"
abbreviation AccessNone :: string where "AccessNone \<equiv> ''none''"

record flag_spec =
  fl_name :: string
  fl_default :: bool

definition flag_On :: "flag_spec \<Rightarrow> gmap \<Rightarrow> bool" where
  "flag_On f data = (case as_bool (mindex data (fl_name f)) of Some b \<Rightarrow> b | None \<Rightarrow> fl_default f)"

text \<open>A compiled regular expression is its source text.\<close>

record access =
  xa_level :: string
  xa_gate :: "flag_spec option"
  xa_unless :: "flag_spec option"
  xa_fields :: "(string \<times> flag_spec option) list option"   \<comment> \<open>\<open>None\<close> is the nil map\<close>
  xa_append :: bool
  xa_author :: string
  xa_content :: string
  xa_own :: "string option"

definition no_access :: access where
  "no_access = \<lparr>xa_level = [], xa_gate = None, xa_unless = None, xa_fields = None, xa_append = False, xa_author = [],
     xa_content = [], xa_own = None\<rparr>"

record rule_spec =
  rl_re :: "string option"
  rl_merge :: string
  rl_access :: access
  rl_encoded :: bool
  rl_key :: string
  rl_notify :: gany

record rule_set =
  rs_props :: "(string \<times> rule_spec) list"
  rs_patterns :: "rule_spec list"

record typeVersions =
  tv_lo :: int
  tv_current :: int
  tv_steps :: gany

record FieldError =
  fe_path :: string
  fe_message :: string

text \<open>What the library reports: a tree of errors, of which only the leaves name a field.\<close>

datatype verror = VError "string list" bool string "verror list"
  \<comment> \<open>the instance location, whether the kind is \<open>Required\<close>, its text, the causes\<close>

datatype verdict = Accepted | Rejected verror | Broken goerr

type_synonym resources = "(string \<times> gmap) list"

record schema_lib =
  sl_regexps :: regexps
  sl_submatch :: "string \<Rightarrow> string \<Rightarrow> string list option"   \<comment> \<open>\<open>FindStringSubmatch\<close>\<close>
  sl_unmarshal :: "string \<Rightarrow> gany result"
  sl_decode :: "string \<Rightarrow> gany result"                       \<comment> \<open>the lens's own decoder\<close>
  sl_add :: "resources \<Rightarrow> string \<Rightarrow> gmap \<Rightarrow> goerr option"
  sl_compile :: "resources \<Rightarrow> string \<Rightarrow> goerr option"
  sl_validate :: "resources \<Rightarrow> string \<Rightarrow> gany \<Rightarrow> verdict"
  sl_ranges :: "string \<Rightarrow> (string \<times> int \<times> int) list result"   \<comment> \<open>\<open>types\<close> of the bundle: the name, \<open>min\<close>, \<open>current\<close>\<close>

record file_system =
  fs_glob :: "string \<Rightarrow> string list result"
  fs_read :: "string \<Rightarrow> string result"

record Validator =
  vd_resources :: resources
  vd_components :: "(string \<times> string) list"
  vd_template :: "string option"
  vd_rules :: "(string \<times> rule_set) list"
  vd_content :: "((string \<times> string) \<times> string) list"
  vd_raw :: "(string \<times> string) list"
  vd_desc :: "(string \<times> string) list"
  vd_versions :: "(string \<times> typeVersions) list"

definition mergeModes :: "string list" where
  "mergeModes = [''single'', ''per-entry'', ''per-member'']"

subsection \<open>Reading the rules of a schema\<close>

definition map_or_nil :: "gany \<Rightarrow> gmap" where
  "map_or_nil v = (case as_map v of Some m \<Rightarrow> m | None \<Rightarrow> [])"

definition parseFlag :: "gmap \<Rightarrow> string \<Rightarrow> flag_spec result" where
  "parseFlag props name =
     (case as_bool (mindex (map_or_nil (mindex props name)) ''default'') of
        None \<Rightarrow> Inl (errorf ''flag has no boolean default'')
      | Some b \<Rightarrow> Inr \<lparr>fl_name = name, fl_default = b\<rparr>)"

text \<open>Go's maps have no order; the loops follow the order of the list.\<close>

fun parse_fields :: "gmap \<Rightarrow> gmap \<Rightarrow> (string \<times> flag_spec option) list \<Rightarrow> (string \<times> flag_spec option) list result" where
  "parse_fields props [] acc = Inr acc"
| "parse_fields props ((field, GNil) # rest) acc = parse_fields props rest (AList.update field None acc)"
| "parse_fields props ((field, GStr name) # rest) acc =
     rbind (parseFlag props name) (\<lambda>f. parse_fields props rest (AList.update field (Some f) acc))"
| "parse_fields props ((field, _) # rest) acc = Inl (errorf ''x-access field must be a string or null'')"

definition access_key :: "gmap \<Rightarrow> gmap \<Rightarrow> string \<times> gany \<Rightarrow> access \<Rightarrow> access result" where
  "access_key props defs kv a = (case kv of (k, val) \<Rightarrow>
     if k = ''gate'' then
       (case as_str val of None \<Rightarrow> Inl (errorf ''x-access gate must be a string'')
        | Some name \<Rightarrow> rbind (parseFlag props name) (\<lambda>f. Inr (a\<lparr>xa_gate := Some f\<rparr>)))
     else if k = ''unless'' then
       (case as_str val of None \<Rightarrow> Inl (errorf ''x-access unless must be a string'')
        | Some name \<Rightarrow> rbind (parseFlag props name) (\<lambda>f. Inr (a\<lparr>xa_unless := Some f\<rparr>)))
     else if k = ''fields'' then
       (case as_map val of None \<Rightarrow> Inl (errorf ''x-access fields must be an object'')
        | Some flds \<Rightarrow> rbind (parse_fields props flds []) (\<lambda>fs. Inr (a\<lparr>xa_fields := Some fs\<rparr>)))
     else if k = ''append'' then
       (case as_bool val of None \<Rightarrow> Inl (errorf ''x-access append must be a boolean'') | Some b \<Rightarrow> Inr (a\<lparr>xa_append := b\<rparr>))
     else if k = ''author'' then
       rguard (str_or_empty val \<noteq> []) (errorf ''x-access author must be a string'') (Inr (a\<lparr>xa_author := str_or_empty val\<rparr>))
     else if k = ''content'' then
       rguard (str_or_empty val \<noteq> []) (errorf ''x-access content must be a string'')
         (rguard (map_of defs (str_or_empty val) \<noteq> None) (errorf ''x-access content is not in $defs'')
           (Inr (a\<lparr>xa_content := str_or_empty val\<rparr>)))
     else Inl (errorf ''unknown x-access key''))"

definition parseAccess :: "gany \<Rightarrow> gmap \<Rightarrow> gmap \<Rightarrow> access result" where
  "parseAccess raw props defs =
     (case raw of
        GStr t \<Rightarrow> rguard (t = AccessManage \<or> t = AccessMember \<or> t = AccessNone) (errorf ''invalid x-access'')
                   (Inr (no_access\<lparr>xa_level := t\<rparr>))
      | GMap t \<Rightarrow> fold_res (access_key props defs) t (no_access\<lparr>xa_level := AccessMember\<rparr>)
      | _ \<Rightarrow> Inl (errorf ''missing x-access''))"

definition compiles :: "schema_lib \<Rightarrow> string \<Rightarrow> bool" where
  "compiles lib p \<longleftrightarrow> sl_regexps lib p \<noteq> None"

definition CutSuffix :: "string \<Rightarrow> string \<Rightarrow> string option" where
  "CutSuffix s suffix =
     (if length suffix \<le> length s \<and> drop (length s - length suffix) s = suffix
      then Some (take (length s - length suffix) s) else None)"

definition rule_merge :: "gmap \<Rightarrow> string result" where
  "rule_merge m =
     (case map_of m ''x-merge'' of None \<Rightarrow> Inr []
      | Some raw \<Rightarrow> rguard (str_or_empty raw \<in> set mergeModes) (errorf ''invalid x-merge'') (Inr (str_or_empty raw)))"

definition parseRule :: "schema_lib \<Rightarrow> string \<Rightarrow> gany \<Rightarrow> gmap \<Rightarrow> gmap \<Rightarrow> bool \<Rightarrow> rule_spec result" where
  "parseRule lib key entry props defs pattern =
     (let m = map_or_nil entry in
      rbind (map_err (wrapf ''rule'') (parseAccess (mindex m ''x-access'') props defs)) (\<lambda>acc.
      rbind (rule_merge m) (\<lambda>mode.
      let r = \<lparr>rl_re = None, rl_merge = mode, rl_access = acc,
               rl_encoded = (mindex m ''contentMediaType'' = GStr ''application/json''),
               rl_key = key, rl_notify = mindex m ''x-notify''\<rparr>
      in if \<not> pattern then rguard (mode \<noteq> ''per-member'') (errorf ''per-member property must be a pattern ending in .+$'') (Inr r)
         else rguard (compiles lib key) (errorf ''invalid pattern'')
           (if mode = ''per-member'' then
              (case CutSuffix key ''.+$'' of None \<Rightarrow> Inl (errorf ''per-member pattern must end in .+$'')
               | Some own \<Rightarrow> rguard (compiles lib (own @ ''(.+)$'')) (errorf ''invalid pattern'')
                   (Inr (r\<lparr>rl_re := Some key, rl_access := acc\<lparr>xa_own := Some (own @ ''(.+)$'')\<rparr>\<rparr>)))
            else Inr (r\<lparr>rl_re := Some key\<rparr>)))))"

definition parseRules :: "schema_lib \<Rightarrow> gmap \<Rightarrow> rule_set result" where
  "parseRules lib doc =
     (let props = map_or_nil (mindex doc ''properties''); defs = map_or_nil (mindex doc ''$defs'');
          pats = map_or_nil (mindex doc ''patternProperties'')
      in rbind (fold_res (\<lambda>(k, e) ps. rbind (parseRule lib k e props defs False) (\<lambda>r. Inr (AList.update k r ps))) props [])
           (\<lambda>ps.
         rbind (fold_res (\<lambda>p rs. rbind (parseRule lib p (mindex pats p) props defs True) (\<lambda>r. Inr (rs @ [r]))) (sort (map fst pats)) [])
           (\<lambda>rs. Inr \<lparr>rs_props = ps, rs_patterns = rs\<rparr>)))"

subsection \<open>Loading the schema files\<close>

text \<open>\<open>^([a-z][a-z0-9-]*)\.v([1-9][0-9]*)\.schema\.json$\<close>: the name and the number.\<close>

definition name_char :: "char \<Rightarrow> bool" where
  "name_char c \<longleftrightarrow> char_between 97 122 c \<or> is_digit c \<or> c = CHR ''-''"

definition schemaFileName :: "string \<Rightarrow> (string \<times> string) option" where
  "schemaFileName s =
     (let name = takeWhile name_char s; rest = dropWhile name_char s;
          ds = takeWhile is_digit (drop 2 rest); end1 = dropWhile is_digit (drop 2 rest)
      in if name \<noteq> [] \<and> char_between 97 122 (hd name) \<and> take 2 rest = ''.v'' \<and> ds \<noteq> [] \<and> hd ds \<noteq> CHR ''0''
            \<and> end1 = ''.schema.json''
         then Some (name, ds) else None)"

definition path_Base :: "string \<Rightarrow> string" where
  "path_Base p = rev (takeWhile (\<lambda>c. c \<noteq> CHR ''/'') (rev p))"

definition capitalize :: "string \<Rightarrow> string" where
  "capitalize s = (case s of [] \<Rightarrow> []
     | c # r \<Rightarrow> (if char_between 97 122 c then char_of (of_char c - (32::nat)) else c) # r)"

record schemaFile =
  sf_file :: string
  sf_raw :: string
  sf_doc :: gmap
  sf_id :: string
  sf_rules :: rule_set

text \<open>A pending schema has no name when it is the template.\<close>

record loading =
  ld_resources :: resources
  ld_pending :: "(string \<times> string) list"
  ld_found :: "(string \<times> (int \<times> schemaFile) list) list"

definition found_versions :: "loading \<Rightarrow> string \<Rightarrow> (int \<times> schemaFile) list" where
  "found_versions l name = (case map_of (ld_found l) name of Some vs \<Rightarrow> vs | None \<Rightarrow> [])"

definition load_file :: "schema_lib \<Rightarrow> file_system \<Rightarrow> string \<Rightarrow> string \<Rightarrow> loading \<Rightarrow> loading result" where
  "load_file lib fs dir file l =
     rbind (map_err (wrapf ''failed to read schema'') (fs_read fs file)) (\<lambda>raw.
     rbind (map_err (wrapf ''failed to parse schema'') (sl_unmarshal lib raw)) (\<lambda>parsed.
     let doc = map_or_nil parsed; sid = str_or_empty (mindex doc ''$id'') in
     rguard (sid \<noteq> []) (errorf ''schema has no $id'')
     (case sl_add lib (ld_resources l) sid doc of
        Some e \<Rightarrow> Inl (wrapf ''failed to add schema'' e)
      | None \<Rightarrow>
          (let l1 = l\<lparr>ld_resources := ld_resources l @ [(sid, doc)]\<rparr> in
           if dir = ''schemas/template'' then Inr (l1\<lparr>ld_pending := ld_pending l @ [([], sid)]\<rparr>)
           else (case schemaFileName (path_Base file) of
              None \<Rightarrow> Inl (errorf ''invalid schema file name'')
            | Some (base, digits) \<Rightarrow>
                if base = ''common'' then Inr l1
                else (case atoi digits of
                   None \<Rightarrow> Inl (errorf ''invalid schema file name'')
                 | Some n \<Rightarrow>
                     rbind (map_err (wrapf ''failed to read x-merge or x-access'') (parseRules lib doc)) (\<lambda>rs.
                     Inr (l1\<lparr>ld_found := AList.update (capitalize base)
                       (AList.update n \<lparr>sf_file = file, sf_raw = raw, sf_doc = doc, sf_id = sid, sf_rules = rs\<rparr>
                          (found_versions l (capitalize base))) (ld_found l)\<rparr>))))))))"

definition load_dir :: "schema_lib \<Rightarrow> file_system \<Rightarrow> string \<Rightarrow> loading \<Rightarrow> loading result" where
  "load_dir lib fs dir l =
     rbind (map_err (wrapf ''failed to list schemas'') (fs_glob fs (dir @ ''/*.schema.json''))) (\<lambda>files.
     fold_res (load_file lib fs dir) files l)"

definition bundleFile :: string where
  "bundleFile = ''schemas/bundle.json''"

definition readBundleRanges :: "schema_lib \<Rightarrow> file_system \<Rightarrow> (string \<times> int \<times> int) list result" where
  "readBundleRanges lib fs =
     (case fs_read fs bundleFile of
        Inl e \<Rightarrow> if errors_is e ErrNotExist then Inl (errorf ''bundle is missing'') else Inl (wrapf ''failed to read'' e)
      | Inr raw \<Rightarrow> map_err (wrapf ''failed to parse'') (sl_ranges lib raw))"

text \<open>One type: its range, and the files of all its versions.\<close>

definition load_type ::
    "schema_lib \<Rightarrow> (string \<times> int \<times> int) list \<Rightarrow> loading \<Rightarrow> string \<Rightarrow> Validator \<times> (string \<times> string) list
       \<Rightarrow> (Validator \<times> (string \<times> string) list) result" where
  "load_type lib ranges l name st = (case st of (v, pending) \<Rightarrow>
     case map_of ranges name of None \<Rightarrow> Inl (errorf ''has schema files but is not listed'')
     | Some (lo, cur) \<Rightarrow>
       rguard (\<not> (lo < 1 \<or> lo > cur)) (errorf ''invalid version range'')
       (rguard (\<forall>n \<in> set (map fst (found_versions l name)). \<not> n > cur) (errorf ''schema file is above current version'')
       (rguard (list_all (\<lambda>n. map_of (found_versions l name) n \<noteq> None) [lo..cur]) (errorf ''version has no schema file'')
       (case map_of (found_versions l name) cur of None \<Rightarrow> Inl (errorf ''version has no schema file'')
        | Some f \<Rightarrow>
          rbind (map_err (wrapf ''failed to read x-migrations'') (Steps (sl_decode lib) (sf_raw f))) (\<lambda>steps.
          Inr (v\<lparr>vd_versions := AList.update name \<lparr>tv_lo = lo, tv_current = cur, tv_steps = steps\<rparr> (vd_versions v),
                vd_rules := AList.update name (sf_rules f) (vd_rules v),
                vd_raw := AList.update name (sf_raw f) (vd_raw v),
                vd_desc := AList.update name (str_or_empty (mindex (sf_doc f) ''description'')) (vd_desc v)\<rparr>,
               pending @ [(name, sf_id f)]))))))"

definition rules_of :: "Validator \<Rightarrow> string \<Rightarrow> rule_set" where
  "rules_of v name = (case map_of (vd_rules v) name of Some rs \<Rightarrow> rs | None \<Rightarrow> \<lparr>rs_props = [], rs_patterns = []\<rparr>)"

definition all_rules :: "rule_set \<Rightarrow> rule_spec list" where
  "all_rules rs = rs_patterns rs @ map snd (rs_props rs)"

definition compile_content :: "schema_lib \<Rightarrow> string \<Rightarrow> string \<Rightarrow> rule_spec \<Rightarrow> Validator \<Rightarrow> Validator result" where
  "compile_content lib name sid r v =
     (let def = xa_content (rl_access r) in
      if def = [] \<or> map_of (vd_content v) (name, def) \<noteq> None then Inr v
      else (case sl_compile lib (vd_resources v) (sid @ ''#/$defs/'' @ def) of
              Some e \<Rightarrow> Inl (wrapf ''failed to compile content'' e)
            | None \<Rightarrow> Inr (v\<lparr>vd_content := AList.update (name, def) (sid @ ''#/$defs/'' @ def) (vd_content v)\<rparr>)))"

definition compile_pending :: "schema_lib \<Rightarrow> string \<times> string \<Rightarrow> Validator \<Rightarrow> Validator result" where
  "compile_pending lib c v = (case c of (name, sid) \<Rightarrow>
     case sl_compile lib (vd_resources v) sid of
       Some e \<Rightarrow> Inl (wrapf ''failed to compile schema'' e)
     | None \<Rightarrow>
         if name = [] then Inr (v\<lparr>vd_template := Some sid\<rparr>)
         else fold_res (compile_content lib name sid) (all_rules (rules_of v name))
                (v\<lparr>vd_components := AList.update name sid (vd_components v)\<rparr>))"

definition empty_validator :: "resources \<Rightarrow> Validator" where
  "empty_validator rs = \<lparr>vd_resources = rs, vd_components = [], vd_template = None, vd_rules = [], vd_content = [],
     vd_raw = [], vd_desc = [], vd_versions = []\<rparr>"

definition NewValidatorFS :: "schema_lib \<Rightarrow> file_system \<Rightarrow> Validator result" where
  "NewValidatorFS lib fs =
     rbind (fold_res (load_dir lib fs) [''schemas/component'', ''schemas/template'']
       \<lparr>ld_resources = [], ld_pending = [], ld_found = []\<rparr>) (\<lambda>l.
     rbind (readBundleRanges lib fs) (\<lambda>ranges.
     rguard (list_all (\<lambda>(name, _). map_of (ld_found l) name \<noteq> None) ranges) (errorf ''bundle lists a type that has no schema file'')
     (rbind (fold_res (load_type lib ranges l) (sort (map fst (ld_found l))) (empty_validator (ld_resources l), ld_pending l))
       (\<lambda>(v, pending).
     rbind (fold_res (compile_pending lib) pending v) (\<lambda>v1.
     rguard (vd_template v1 \<noteq> None) (errorf ''template doc schema not found'') (Inr v1))))))"

subsection \<open>Validation\<close>

text \<open>RFC 6901: \<open>~\<close> and \<open>/\<close> are escaped, each token after a slash.\<close>

definition escape_char :: "char \<Rightarrow> string" where
  "escape_char c = (if c = CHR ''~'' then ''~0'' else if c = CHR ''/'' then ''~1'' else [c])"

definition jsonPointer :: "string list \<Rightarrow> string" where
  "jsonPointer loc = concat (map (\<lambda>t. CHR ''/'' # concat (map escape_char t)) loc)"

fun collectLeaves :: "bool \<Rightarrow> verror \<Rightarrow> FieldError list" where
  "collectLeaves partial (VError loc required msg causes) =
     (if causes = [] then (if partial \<and> required \<and> loc = [] then [] else [\<lparr>fe_path = jsonPointer loc, fe_message = msg\<rparr>])
      else concat (map (collectLeaves partial) causes))"

text \<open>A failed validation: field errors, which unwrap to \<open>ErrInvalidData\<close>, or another error.\<close>

datatype data_error = FieldErrors "FieldError list" | DataError goerr

definition field_order :: "FieldError \<Rightarrow> string \<times> string" where
  "field_order f = (fe_path f, fe_message f)"

definition validate_sch :: "schema_lib \<Rightarrow> resources \<Rightarrow> string \<Rightarrow> gany \<Rightarrow> bool \<Rightarrow> data_error option" where
  "validate_sch lib rs sch data partial =
     (case sl_validate lib rs sch data of
        Accepted \<Rightarrow> None
      | Broken e \<Rightarrow> Some (DataError (joinw ErrInvalidData e))
      | Rejected verr \<Rightarrow>
          (let out = collectLeaves partial verr in if out = [] then None else Some (FieldErrors (sort_key field_order out))))"

definition ValidateComponentData :: "schema_lib \<Rightarrow> Validator \<Rightarrow> string \<Rightarrow> gmap \<Rightarrow> data_error option" where
  "ValidateComponentData lib v typ data =
     (case map_of (vd_components v) typ of None \<Rightarrow> Some (DataError (errw ErrUnknownComponentType typ))
      | Some sch \<Rightarrow> validate_sch lib (vd_resources v) sch (GMap data) False)"

definition ValidateComponentKeys :: "schema_lib \<Rightarrow> Validator \<Rightarrow> string \<Rightarrow> gmap \<Rightarrow> data_error option" where
  "ValidateComponentKeys lib v typ data =
     (case map_of (vd_components v) typ of None \<Rightarrow> Some (DataError (errw ErrUnknownComponentType typ))
      | Some sch \<Rightarrow> validate_sch lib (vd_resources v) sch (GMap data) True)"

definition ValidateContent :: "schema_lib \<Rightarrow> Validator \<Rightarrow> string \<Rightarrow> string \<Rightarrow> string \<Rightarrow> data_error option" where
  "ValidateContent lib v typ def raw =
     (case map_of (vd_content v) (typ, def) of None \<Rightarrow> Some (DataError (errw ErrUnknownComponentType typ))
      | Some sch \<Rightarrow>
          (case sl_unmarshal lib raw of
             Inl _ \<Rightarrow> Some (FieldErrors [\<lparr>fe_path = [], fe_message = ''not valid JSON''\<rparr>])
           | Inr decoded \<Rightarrow> validate_sch lib (vd_resources v) sch decoded False))"

definition ValidateTemplateDoc :: "schema_lib \<Rightarrow> Validator \<Rightarrow> gmap \<Rightarrow> data_error option" where
  "ValidateTemplateDoc lib v doc =
     (case vd_template v of None \<Rightarrow> Some (DataError (errorf ''nil schema''))
      | Some sch \<Rightarrow> validate_sch lib (vd_resources v) sch (GMap doc) False)"

record TypeInfo =
  ti_type :: string
  ti_description :: string

definition Types :: "Validator \<Rightarrow> TypeInfo list" where
  "Types v = sort_key ti_type (map (\<lambda>(name, _). \<lparr>ti_type = name,
     ti_description = (case map_of (vd_desc v) name of Some d \<Rightarrow> d | None \<Rightarrow> [])\<rparr>) (vd_components v))"

definition SchemaOf :: "Validator \<Rightarrow> string \<Rightarrow> string option" where
  "SchemaOf v typ = map_of (vd_raw v) typ"

subsection \<open>Questions about a key\<close>

definition matches :: "schema_lib \<Rightarrow> string \<Rightarrow> string \<Rightarrow> bool" where
  "matches lib p s = (case sl_regexps lib p of Some f \<Rightarrow> f s | None \<Rightarrow> False)"

definition OwnKey :: "schema_lib \<Rightarrow> access \<Rightarrow> string \<Rightarrow> string \<Rightarrow> bool" where
  "OwnKey lib a key publicKey =
     (case xa_own a of None \<Rightarrow> True
      | Some p \<Rightarrow> (case sl_submatch lib p key of Some (_ # g # _) \<Rightarrow> g = publicKey | _ \<Rightarrow> False))"

definition rule_matches :: "schema_lib \<Rightarrow> string \<Rightarrow> rule_spec \<Rightarrow> bool" where
  "rule_matches lib key r = (case rl_re r of Some p \<Rightarrow> matches lib p key | None \<Rightarrow> False)"

definition resolveRule :: "schema_lib \<Rightarrow> Validator \<Rightarrow> string \<Rightarrow> string \<Rightarrow> rule_spec option" where
  "resolveRule lib v typ key =
     (case map_of (vd_rules v) typ of None \<Rightarrow> None
      | Some rs \<Rightarrow> (case map_of (rs_props rs) key of Some r \<Rightarrow> Some r
                    | None \<Rightarrow> find (rule_matches lib key) (rs_patterns rs)))"

definition MergeMode :: "schema_lib \<Rightarrow> Validator \<Rightarrow> string \<Rightarrow> string \<Rightarrow> string option" where
  "MergeMode lib v typ key =
     (case resolveRule lib v typ key of None \<Rightarrow> None | Some r \<Rightarrow> if rl_merge r \<noteq> [] then Some (rl_merge r) else None)"

definition NotifyRule :: "schema_lib \<Rightarrow> Validator \<Rightarrow> string \<Rightarrow> string \<Rightarrow> (string \<times> gany) option" where
  "NotifyRule lib v typ key =
     (case resolveRule lib v typ key of None \<Rightarrow> None
      | Some r \<Rightarrow> if rl_notify r = GNil then None else Some (rl_key r, rl_notify r))"

definition AccessOf :: "schema_lib \<Rightarrow> Validator \<Rightarrow> string \<Rightarrow> string \<Rightarrow> access option" where
  "AccessOf lib v typ key = map_option rl_access (resolveRule lib v typ key)"

definition Versions :: "Validator \<Rightarrow> string \<Rightarrow> (int \<times> int) option" where
  "Versions v typ = map_option (\<lambda>tv. (tv_lo tv, tv_current tv)) (map_of (vd_versions v) typ)"

definition type_steps :: "Validator \<Rightarrow> string \<Rightarrow> gany" where
  "type_steps v typ = (case map_of (vd_versions v) typ of Some tv \<Rightarrow> tv_steps tv | None \<Rightarrow> GNil)"

text \<open>Whether the value is encoded, for a key of a per-entry family.\<close>

definition EntryOf :: "schema_lib \<Rightarrow> Validator \<Rightarrow> string \<Rightarrow> string \<Rightarrow> bool option" where
  "EntryOf lib v typ key =
     (case resolveRule lib v typ key of None \<Rightarrow> None
      | Some r \<Rightarrow> if rl_merge r = ''per-entry'' then Some (rl_encoded r) else None)"

end
