(* ===== verification/PushNotify.thy ===== *)
theory PushNotify
  imports PushTexts ComponentValidator EventHandlers
begin

section \<open>What an event says: the notification rules\<close>

text \<open>
  \<open>internal/push/push_notify.go\<close>. A rule is the \<open>x-notify\<close> value of a schema, decoded strictly into a
  struct and checked; \<open>describe\<close> turns an event into a notice, or into nothing.
\<close>

subsection \<open>Rules\<close>

record whenSpec =
  wn_field :: string
  wn_startsWith :: string

record suffixSpec =
  sx_component :: string
  sx_sep :: string

record textCandidate =
  tc_field :: string
  tc_id :: string
  tc_when :: "whenSpec option"
  tc_unless :: string
  tc_prefix :: string
  tc_empty :: string
  tc_suffix :: "suffixSpec option"

record joinSpec =
  jn_prefix :: string
  jn_sep :: string
  jn_show :: int
  jn_more :: string

record skipListedSpec =
  sk_list :: string
  sk_prefix :: string

record notifyRule =
  nr_on :: string
  nr_kind :: string
  nr_scope :: string
  nr_view :: string
  nr_text :: "textCandidate list"
  nr_join :: "joinSpec option"
  nr_skipListed :: "skipListedSpec option"

definition ruleKinds :: "(string \<times> Kind) list" where
  "ruleKinds = [(''chat'', KindChat), (''item'', KindItem), (''poll'', KindPoll), (''file'', KindFile)]"

subsection \<open>Decoding\<close>

text \<open>
  \<open>encoding/json\<close> with \<open>DisallowUnknownFields\<close>: an object is decoded over the current value, field by
  field; a key that is no field's name, without regard to case, is an error.
\<close>

definition known_fields :: "string list \<Rightarrow> gmap \<Rightarrow> bool" where
  "known_fields names es \<longleftrightarrow> list_all (\<lambda>(k, _). k \<in> set (map fold_name names)) es"

definition dec_pointer_to :: "'a \<Rightarrow> ('a \<Rightarrow> gmap \<Rightarrow> 'a option) \<Rightarrow> 'a option \<Rightarrow> gany \<Rightarrow> 'a option option" where
  "dec_pointer_to zero dec cur v =
     (case v of GNil \<Rightarrow> Some None
      | GMap m \<Rightarrow> map_option Some (dec (case cur of None \<Rightarrow> zero | Some x \<Rightarrow> x) (folded_entries m))
      | _ \<Rightarrow> None)"

definition dec_when :: "whenSpec \<Rightarrow> gmap \<Rightarrow> whenSpec option" where
  "dec_when w es =
     (case (known_fields [''field'', ''startsWith''] es, field dec_string (wn_field w) es ''field'',
            field dec_string (wn_startsWith w) es ''startsWith'') of
        (True, Some f, Some s) \<Rightarrow> Some \<lparr>wn_field = f, wn_startsWith = s\<rparr>
      | _ \<Rightarrow> None)"

definition dec_suffix :: "suffixSpec \<Rightarrow> gmap \<Rightarrow> suffixSpec option" where
  "dec_suffix x es =
     (case (known_fields [''component'', ''sep''] es, field dec_string (sx_component x) es ''component'',
            field dec_string (sx_sep x) es ''sep'') of
        (True, Some c, Some s) \<Rightarrow> Some \<lparr>sx_component = c, sx_sep = s\<rparr>
      | _ \<Rightarrow> None)"

definition dec_join :: "env \<Rightarrow> joinSpec \<Rightarrow> gmap \<Rightarrow> joinSpec option" where
  "dec_join env j es =
     (case (known_fields [''prefix'', ''sep'', ''show'', ''more''] es, field dec_string (jn_prefix j) es ''prefix'',
            field dec_string (jn_sep j) es ''sep'', field (dec_int64 env) (jn_show j) es ''show'',
            field dec_string (jn_more j) es ''more'') of
        (True, Some p, Some s, Some n, Some m) \<Rightarrow> Some \<lparr>jn_prefix = p, jn_sep = s, jn_show = n, jn_more = m\<rparr>
      | _ \<Rightarrow> None)"

definition dec_skip :: "skipListedSpec \<Rightarrow> gmap \<Rightarrow> skipListedSpec option" where
  "dec_skip k es =
     (case (known_fields [''list'', ''prefix''] es, field dec_string (sk_list k) es ''list'',
            field dec_string (sk_prefix k) es ''prefix'') of
        (True, Some l, Some p) \<Rightarrow> Some \<lparr>sk_list = l, sk_prefix = p\<rparr>
      | _ \<Rightarrow> None)"

definition no_candidate :: textCandidate where
  "no_candidate = \<lparr>tc_field = [], tc_id = [], tc_when = None, tc_unless = [], tc_prefix = [], tc_empty = [], tc_suffix = None\<rparr>"

definition dec_candidate :: "textCandidate \<Rightarrow> gmap \<Rightarrow> textCandidate option" where
  "dec_candidate c es =
     (let str = (\<lambda>z. field dec_string z es)
      in case (known_fields [''field'', ''id'', ''when'', ''unless'', ''prefix'', ''empty'', ''suffix''] es,
               str (tc_field c) ''field'', str (tc_id c) ''id'',
               field (dec_pointer_to \<lparr>wn_field = [], wn_startsWith = []\<rparr> dec_when) (tc_when c) es ''when'',
               str (tc_unless c) ''unless'', str (tc_prefix c) ''prefix'', str (tc_empty c) ''empty'',
               field (dec_pointer_to \<lparr>sx_component = [], sx_sep = []\<rparr> dec_suffix) (tc_suffix c) es ''suffix'') of
           (True, Some f, Some i, Some w, Some u, Some p, Some e, Some s) \<Rightarrow>
             Some \<lparr>tc_field = f, tc_id = i, tc_when = w, tc_unless = u, tc_prefix = p, tc_empty = e, tc_suffix = s\<rparr>
         | _ \<Rightarrow> None)"

fun dec_candidate_list :: "textCandidate list \<Rightarrow> gany list \<Rightarrow> textCandidate list option" where
  "dec_candidate_list cur [] = Some []"
| "dec_candidate_list cur (v # vs) =
     (case (let c = (case cur of [] \<Rightarrow> no_candidate | c # _ \<Rightarrow> c)
            in case v of GNil \<Rightarrow> Some c | GMap m \<Rightarrow> dec_candidate c (folded_entries m) | _ \<Rightarrow> None) of
        None \<Rightarrow> None
      | Some c \<Rightarrow> map_option (\<lambda>cs. c # cs) (dec_candidate_list (case cur of [] \<Rightarrow> [] | _ # r \<Rightarrow> r) vs))"

fun dec_candidates :: "textCandidate list \<Rightarrow> gany \<Rightarrow> textCandidate list option" where
  "dec_candidates cur GNil = Some []"
| "dec_candidates cur (GList xs) = dec_candidate_list cur xs"
| "dec_candidates cur _ = None"

definition dec_rule :: "env \<Rightarrow> gmap \<Rightarrow> notifyRule option" where
  "dec_rule env es =
     (let str = field dec_string [] es
      in case (known_fields [''on'', ''kind'', ''scope'', ''view'', ''text'', ''join'', ''skipListed''] es,
               str ''on'', str ''kind'', str ''scope'', str ''view'', field dec_candidates [] es ''text'',
               field (dec_pointer_to \<lparr>jn_prefix = [], jn_sep = [], jn_show = 0, jn_more = []\<rparr> (dec_join env)) None es ''join'',
               field (dec_pointer_to \<lparr>sk_list = [], sk_prefix = []\<rparr> dec_skip) None es ''skipListed'') of
           (True, Some ev, Some k, Some s, Some v, Some t, Some j, Some sk) \<Rightarrow>
             Some \<lparr>nr_on = ev, nr_kind = k, nr_scope = s, nr_view = v, nr_text = t, nr_join = j, nr_skipListed = sk\<rparr>
         | _ \<Rightarrow> None)"

definition candidate_check :: "textCandidate \<Rightarrow> goerr option" where
  "candidate_check c =
     (if (tc_field c = []) = (tc_id c = []) then Some (errorf ''needs exactly one of field and id'')
      else if tc_id c \<noteq> [] \<and> textByID textsEN (tc_id c) = None then Some (errorf ''unknown text id'')
      else if tc_empty c \<noteq> [] \<and> tc_field c = [] then Some (errorf ''empty needs field'')
      else if tc_empty c \<noteq> [] \<and> textByID textsEN (tc_empty c) = None then Some (errorf ''unknown text id'')
      else if (case tc_when c of Some w \<Rightarrow> wn_field w = [] | None \<Rightarrow> False) then Some (errorf ''when needs field'')
      else if (case tc_suffix c of Some x \<Rightarrow> sx_component x = [] | None \<Rightarrow> False) then Some (errorf ''suffix needs component'')
      else None)"

fun candidates_check :: "textCandidate list \<Rightarrow> goerr option" where
  "candidates_check [] = None"
| "candidates_check (c # cs) = (case candidate_check c of Some e \<Rightarrow> Some (wrapf ''text'' e) | None \<Rightarrow> candidates_check cs)"

definition rule_check :: "notifyRule \<Rightarrow> goerr option" where
  "rule_check r =
     (if nr_on r \<notin> {''new'', ''becomesTrue'', ''added''} then Some (errorf ''unknown on'')
      else if map_of ruleKinds (nr_kind r) = None then Some (errorf ''unknown kind'')
      else if nr_scope r \<noteq> ''component'' \<and> nr_scope r \<noteq> ''event'' then Some (errorf ''unknown scope'')
      else if nr_view r \<noteq> [] \<and> nr_view r \<noteq> ''chat'' then Some (errorf ''unknown view'')
      else if nr_text r = [] then Some (errorf ''text is empty'')
      else case candidates_check (nr_text r) of Some e \<Rightarrow> Some e
      | None \<Rightarrow>
          if nr_on r \<noteq> ''new'' \<and> (nr_join r \<noteq> None \<or> nr_skipListed r \<noteq> None) then Some (errorf ''join and skipListed need on new'')
          else if (case nr_join r of Some j \<Rightarrow> jn_show j < 1 \<or> jn_more j \<noteq> ''itemsMore'' | None \<Rightarrow> False)
          then Some (errorf ''invalid join'')
          else if (case nr_skipListed r of Some s \<Rightarrow> sk_list s = [] | None \<Rightarrow> False) then Some (errorf ''invalid skipListed'')
          else None)"

definition parseNotifyRule :: "env \<Rightarrow> gany \<Rightarrow> notifyRule result" where
  "parseNotifyRule env raw =
     (case raw of
        GMap m \<Rightarrow> (case dec_rule env (folded_entries m) of
            None \<Rightarrow> Inl (errorf ''failed to decode rule'')
          | Some r \<Rightarrow> (case rule_check r of Some e \<Rightarrow> Inl e | None \<Rightarrow> Inr r))
      | _ \<Rightarrow> Inl (errorf ''failed to decode rule''))"

subsection \<open>What fired\<close>

record fired =
  fi_key :: string
  fi_value :: "gany option"   \<comment> \<open>\<open>None\<close> when the new value could not be read\<close>

definition change :: "gmap \<Rightarrow> string \<Rightarrow> gany \<times> gany" where
  "change flds key = (let m = map_or_nil (mindex flds key) in (mindex m ''oldValue'', mindex m ''newValue''))"

definition list_or_nil :: "gany \<Rightarrow> gany list" where
  "list_or_nil v = (case as_list v of Some xs \<Rightarrow> xs | None \<Rightarrow> [])"

definition listed_ids :: "gany list \<Rightarrow> string list" where
  "listed_ids items = List.map_filter (\<lambda>it. map_option (\<lambda>m. str_or_empty (mindex m ''id'')) (as_map it)) items"

definition lastAdded :: "gany \<Rightarrow> gany \<Rightarrow> gmap option" where
  "lastAdded ov nv =
     (let oldIDs = listed_ids (list_or_nil ov);
          fresh = (\<lambda>it. case as_map it of None \<Rightarrow> None
                   | Some m \<Rightarrow> let i = str_or_empty (mindex m ''id'') in if i \<noteq> [] \<and> i \<notin> set oldIDs then Some m else None)
      in case rev (List.map_filter fresh (list_or_nil nv)) of [] \<Rightarrow> None | m # _ \<Rightarrow> Some m)"

definition newValue :: "schema_lib \<Rightarrow> Validator \<Rightarrow> string \<Rightarrow> string \<Rightarrow> gany \<Rightarrow> gany option" where
  "newValue lib v typ key nv =
     (let entry = EntryOf lib v typ key;
          decoded = (if entry = Some True then map_option (DecodeEncoded (sl_decode lib)) (as_str nv) else Some nv)
      in case decoded of None \<Rightarrow> None
         | Some x \<Rightarrow>
             (case (entry, Versions v typ) of
                (Some _, Some (_, cur)) \<Rightarrow>
                  (case Migrate (sl_regexps lib) (type_steps v typ) key x cur of Inr (m, _) \<Rightarrow> Some m | Inl _ \<Rightarrow> Some x)
              | _ \<Rightarrow> Some x))"

definition fire_key :: "schema_lib \<Rightarrow> Validator \<Rightarrow> notifyRule \<Rightarrow> string \<Rightarrow> gmap \<Rightarrow> string \<Rightarrow> fired list" where
  "fire_key lib v r typ flds k =
     (case change flds k of (ov, nv) \<Rightarrow>
        if nr_on r = ''new'' then
          (if \<not> isEmpty ov \<or> isEmpty nv then [] else [\<lparr>fi_key = k, fi_value = newValue lib v typ k nv\<rparr>])
        else if nr_on r = ''becomesTrue'' then
          (if nv = GBool True \<and> ov \<noteq> GBool True then [\<lparr>fi_key = k, fi_value = Some nv\<rparr>] else [])
        else if nr_on r = ''added'' then
          (case lastAdded ov nv of None \<Rightarrow> [] | Some el \<Rightarrow> [\<lparr>fi_key = k, fi_value = Some (GMap el)\<rparr>])
        else [])"

definition firedKeys :: "schema_lib \<Rightarrow> Validator \<Rightarrow> notifyRule \<Rightarrow> string \<Rightarrow> gmap \<Rightarrow> string list \<Rightarrow> fired list" where
  "firedKeys lib v r typ flds keys = concat (map (fire_key lib v r typ flds) keys)"

definition TrimPrefix :: "string \<Rightarrow> string \<Rightarrow> string" where
  "TrimPrefix s p = (if p \<noteq> [] \<and> take (length p) s = p then drop (length p) s else s)"

definition comp_data :: "component \<Rightarrow> gmap" where
  "comp_data c = (case c_data c of None \<Rightarrow> [] | Some m \<Rightarrow> m)"

definition dropListed :: "notifyRule \<Rightarrow> fired list \<Rightarrow> component \<Rightarrow> fired list" where
  "dropListed r hits c =
     (case nr_skipListed r of None \<Rightarrow> hits
      | Some sl \<Rightarrow>
          (let listed = listed_ids (list_or_nil (mindex (comp_data c) (sk_list sl)))
           in filter (\<lambda>h. TrimPrefix (fi_key h) (sk_prefix sl) \<notin> set listed) hits))"

subsection \<open>The text\<close>

fun dotted_path :: "gany \<Rightarrow> string list \<Rightarrow> gany option" where
  "dotted_path v [] = Some v"
| "dotted_path v (seg # segs) =
     (case v of
        GMap m \<Rightarrow> (case map_of m seg of None \<Rightarrow> None | Some next \<Rightarrow> dotted_path next segs)
      | GList xs \<Rightarrow> (case atoi seg of None \<Rightarrow> None
          | Some i \<Rightarrow> if i < 0 \<or> i \<ge> int (length xs) then None else dotted_path (xs ! nat i) segs)
      | _ \<Rightarrow> None)"

definition dotted :: "gany \<Rightarrow> string \<Rightarrow> gany option" where
  "dotted v path = dotted_path v (split_dots path)"

definition value_or_nil :: "gany option \<Rightarrow> gany" where
  "value_or_nil v = (case v of Some x \<Rightarrow> x | None \<Rightarrow> GNil)"

definition HasPrefix :: "string \<Rightarrow> string \<Rightarrow> bool" where
  "HasPrefix s p \<longleftrightarrow> take (length p) s = p"

text \<open>Whether \<open>when\<close> or \<open>unless\<close> rules the candidate out.\<close>

definition ruled_out :: "textCandidate \<Rightarrow> gany \<Rightarrow> bool" where
  "ruled_out c value \<longleftrightarrow>
     (case tc_when c of None \<Rightarrow> False
      | Some w \<Rightarrow> (case dotted value (wn_field w) of None \<Rightarrow> True
          | Some v \<Rightarrow> wn_startsWith w \<noteq> [] \<and> \<not> HasPrefix (str_or_empty v) (wn_startsWith w)))
     \<or> (tc_unless c \<noteq> [] \<and> value_or_nil (dotted value (tc_unless c)) = GBool True)"

definition text_or_empty :: "texts \<Rightarrow> string \<Rightarrow> string" where
  "text_or_empty t i = (case textByID t i of Some s \<Rightarrow> s | None \<Rightarrow> [])"

definition suffix_text :: "textCandidate \<Rightarrow> component \<Rightarrow> string" where
  "suffix_text c cmp =
     (case tc_suffix c of None \<Rightarrow> []
      | Some x \<Rightarrow> (let extra = TrimSpace (str_or_empty (mindex (comp_data cmp) (sx_component x)))
                  in if extra \<noteq> [] then sx_sep x @ extra else []))"

definition candidate_eval :: "textCandidate \<Rightarrow> gany \<Rightarrow> component \<Rightarrow> texts \<Rightarrow> string" where
  "candidate_eval c value cmp t =
     (if ruled_out c value then []
      else if tc_id c \<noteq> [] then tc_prefix c @ text_or_empty t (tc_id c) @ suffix_text c cmp
      else (let text = TrimSpace (str_or_empty (value_or_nil (dotted value (tc_field c))))
            in if text \<noteq> [] then tc_prefix c @ text @ suffix_text c cmp
               else if tc_empty c = [] then []
               else tc_prefix c @ text_or_empty t (tc_empty c) @ suffix_text c cmp))"

fun evalText :: "textCandidate list \<Rightarrow> gany \<Rightarrow> component \<Rightarrow> texts \<Rightarrow> string" where
  "evalText [] value cmp t = []"
| "evalText (c # cs) value cmp t =
     (let s = candidate_eval c value cmp t in if s \<noteq> [] then s else evalText cs value cmp t)"

definition evalRule ::
    "schema_lib \<Rightarrow> Validator \<Rightarrow> notifyRule \<Rightarrow> string \<Rightarrow> component \<Rightarrow> gmap \<Rightarrow> string list \<Rightarrow> texts \<Rightarrow> string option" where
  "evalRule lib v r typ cmp flds keys t =
     (let hits = dropListed r (firedKeys lib v r typ flds keys) cmp
      in case nr_join r of
           None \<Rightarrow>
             (case rev hits of [] \<Rightarrow> None
              | h # _ \<Rightarrow> (case fi_value h of None \<Rightarrow> None
                  | Some x \<Rightarrow> let what = evalText (nr_text r) x cmp t in if what \<noteq> [] then Some what else None))
         | Some j \<Rightarrow>
             (let parts = filter (\<lambda>p. p \<noteq> []) (map (\<lambda>x. evalText (nr_text r) x cmp t) (List.map_filter fi_value hits));
                  shown = take (nat (jn_show j)) parts;
                  rest = int (length parts) - int (length shown);
                  out = jn_prefix j @ join_with (jn_sep j) shown
              in if parts = [] then None else Some (if rest > 0 then out @ '' '' @ tx_itemsMore t rest else out)))"

subsection \<open>Describing an event\<close>

definition findComponent :: "application option \<Rightarrow> string \<Rightarrow> component option" where
  "findComponent app i =
     (case app of None \<Rightarrow> None
      | Some a \<Rightarrow> if i = [] then None else find (\<lambda>c. c_id c = i) (concat (map g_components (ap_groups a))))"

definition schemaType :: "string \<Rightarrow> string" where
  "schemaType name = (if name = ''Gallery'' then ''Files'' else name)"

definition add_key :: "schema_lib \<Rightarrow> Validator \<Rightarrow> string \<Rightarrow> string
    \<Rightarrow> (string \<times> gany \<times> string list) list \<Rightarrow> (string \<times> gany \<times> string list) list" where
  "add_key lib v typ k gs =
     (case NotifyRule lib v typ k of None \<Rightarrow> gs
      | Some (rk, raw) \<Rightarrow>
          (case map_of gs rk of None \<Rightarrow> gs @ [(rk, raw, [k])]
           | Some (raw0, ks) \<Rightarrow> AList.update rk (raw0, ks @ [k]) gs))"

definition rule_groups :: "schema_lib \<Rightarrow> Validator \<Rightarrow> string \<Rightarrow> gmap \<Rightarrow> (string \<times> gany \<times> string list) list" where
  "rule_groups lib v typ flds = sort_key fst (fold (add_key lib v typ) (map fst flds) [])"

fun first_notice ::
    "env \<Rightarrow> schema_lib \<Rightarrow> Validator \<Rightarrow> event \<Rightarrow> string \<Rightarrow> component \<Rightarrow> gmap \<Rightarrow> texts \<Rightarrow> string
       \<Rightarrow> (string \<times> gany \<times> string list) list \<Rightarrow> push_notice option" where
  "first_notice env lib v ev typ cmp flds t who [] = None"
| "first_notice env lib v ev typ cmp flds t who ((rk, raw, ks) # gs) =
     (case parseNotifyRule env raw of
        Inl _ \<Rightarrow> first_notice env lib v ev typ cmp flds t who gs
      | Inr r \<Rightarrow>
          (case evalRule lib v r typ cmp flds (sort ks) t of
             None \<Rightarrow> first_notice env lib v ev typ cmp flds t who gs
           | Some what \<Rightarrow>
               Some \<lparr>pn_kind = the (map_of ruleKinds (nr_kind r)),
                     pn_scope = (if nr_scope r = ''component'' then str_or_empty (mindex (data_of ev) ''componentId'') else ev_id ev),
                     pn_component_id = str_or_empty (mindex (data_of ev) ''componentId''),
                     pn_body = who @ '': '' @ cut_text what, pn_view = nr_view r\<rparr>))"

definition describeComponent ::
    "env \<Rightarrow> (schema_lib \<times> Validator) option \<Rightarrow> event \<Rightarrow> application option \<Rightarrow> texts \<Rightarrow> string \<Rightarrow> push_notice option" where
  "describeComponent env val ev app t who =
     (case (val, findComponent app (str_or_empty (mindex (data_of ev) ''componentId'')),
            as_map (mindex (data_of ev) ''changedFields'')) of
        (Some (lib, v), Some cmp, Some flds) \<Rightarrow>
          first_notice env lib v ev (schemaType (c_name cmp)) cmp flds t who
            (rule_groups lib v (schemaType (c_name cmp)) flds)
      | _ \<Rightarrow> None)"

definition plain_notice :: "Kind \<Rightarrow> string \<Rightarrow> string \<Rightarrow> push_notice" where
  "plain_notice k scope body = \<lparr>pn_kind = k, pn_scope = scope, pn_component_id = [], pn_body = body, pn_view = []\<rparr>"

definition or_text :: "string \<Rightarrow> string \<Rightarrow> string" where
  "or_text s d = (if s = [] then d else s)"

definition describe ::
    "env \<Rightarrow> (schema_lib \<times> Validator) option \<Rightarrow> event \<Rightarrow> application option \<Rightarrow> string \<Rightarrow> bool \<Rightarrow> string \<Rightarrow> push_notice option" where
  "describe env val ev app creatorName agent lang =
     (let t = textsFor lang; get = (\<lambda>k. str_or_empty (mindex (data_of ev) k))
      in case ev_type ev of
           EventTypeMemberAdded \<Rightarrow>
             Some (plain_notice KindMember (ev_id ev)
               (tx_newMember t (or_text (cut_text (get ''userDisplayName'')) (tx_someone t))))
         | EventTypeMemberRoleChanged \<Rightarrow>
             (let role = get ''newRole''
              in Some (plain_notice KindRole (ev_id ev)
                   (tx_roleNow t (cut_text (case map_of (tx_roleLabels t) role of Some l \<Rightarrow> l | None \<Rightarrow> role)))))
         | EventTypeReminderFired \<Rightarrow>
             Some (plain_notice KindReminder (ev_id ev)
               (alarm_clock @ '' '' @ or_text (cut_text (get ''itemTitle'')) (tx_reminder t)))
         | EventTypeComponentDataChanged \<Rightarrow> describeComponent env val ev app t (person t creatorName agent)
         | _ \<Rightarrow> None)"

end
