(* ===== verification/PushRepo.thy ===== *)
theory PushRepo
  imports Node
begin

section \<open>Push: subscriptions and pending digests\<close>

text \<open>
  \<open>internal/push/push_repository.go\<close>. Two partial indexes keep the subscriptions apart: an endpoint has
  one web push subscription, a device one over its own socket. A pending digest is a counter per
  subscription and application; it goes with its subscription.
\<close>

abbreviation TransportWebpush :: string where "TransportWebpush \<equiv> ''webpush''"
abbreviation TransportWS :: string where "TransportWS \<equiv> ''ws''"

record Subscription =
  sn_id :: string
  sn_device :: string
  sn_transport :: string
  sn_endpoint :: string
  sn_p256dh :: string
  sn_auth :: string
  sn_label :: "string option"
  sn_muted :: "string list"
  sn_created_at :: int
  sn_last_success_at :: "int option"
  sn_failure_count :: int
  sn_locale :: string
  sn_user :: string
  sn_notify_mode :: string
  sn_seen_at :: int

record DigestUser =
  du_public_key :: string
  du_timezone :: string
  du_sent_at :: int

record DigestRow =
  dr_subscription :: string
  dr_application :: string
  dr_name :: string
  dr_count :: int

subsection \<open>The key pair\<close>

definition UpsertSpaceVapid :: "env \<Rightarrow> vapid_row \<Rightarrow> db \<Rightarrow> db result" where
  "UpsertSpaceVapid env v d =
     map_err (wrapf ''failed to upsert space vapid'') (stmt env ''push.UpsertSpaceVapid'' d
       (Inr (d\<lparr>t_vapid := Some (case t_vapid d of None \<Rightarrow> v
          | Some old \<Rightarrow> old\<lparr>vk_public := vk_public v, vk_private := vk_private v, vk_updated_at := vk_updated_at v\<rparr>)\<rparr>)))"

definition GetSpaceVapid :: "env \<Rightarrow> db \<Rightarrow> vapid_row option result" where
  "GetSpaceVapid env d = map_err (wrapf ''failed to get space vapid'') (stmt env ''push.GetSpaceVapid'' d (Inr (t_vapid d)))"

subsection \<open>Subscriptions\<close>

definition transportOrDefault :: "string \<Rightarrow> string" where
  "transportOrDefault t = (if t = [] then TransportWebpush else t)"

definition row_of_subscription :: "Subscription \<Rightarrow> subscription_row" where
  "row_of_subscription s =
     \<lparr>ps_id = sn_id s, ps_device = sn_device s, ps_endpoint = sn_endpoint s, ps_p256dh = sn_p256dh s, ps_auth = sn_auth s,
      ps_label = sn_label s, ps_muted = sn_muted s, ps_transport = transportOrDefault (sn_transport s),
      ps_created_at = sn_created_at s, ps_last_success_at = sn_last_success_at s, ps_failure_count = sn_failure_count s\<rparr>"

text \<open>What every insert and update of a subscription is checked for.\<close>

definition subscription_keys :: "subscription_row list \<Rightarrow> bool" where
  "subscription_keys rs \<longleftrightarrow> distinct (map ps_id rs)
     \<and> distinct (map ps_endpoint (filter (\<lambda>r. ps_transport r = TransportWebpush) rs))
     \<and> distinct (map ps_device (filter (\<lambda>r. ps_transport r = TransportWS) rs))"

definition insert_subscription :: "subscription_row \<Rightarrow> db \<Rightarrow> db result" where
  "insert_subscription r d =
     rguard (fits_int4 (ps_failure_count r)) out_of_range
       (rguard (subscription_keys (t_subscriptions d @ [r])) (unique_violation ''push_subscriptions'')
         (rguard (device_row_of d (ps_device r) \<noteq> None) (fk_violation ''push_subscriptions_device_fkey'')
           (Inr (d\<lparr>t_subscriptions := t_subscriptions d @ [r]\<rparr>))))"

definition repoCreateSubscription :: "env \<Rightarrow> Subscription \<Rightarrow> db \<Rightarrow> db result" where
  "repoCreateSubscription env s d =
     map_err (wrapf ''failed to create subscription'')
       (stmt env ''push.CreateSubscription'' d (insert_subscription (row_of_subscription s) d))"

text \<open>\<open>ON CONFLICT (device_public_key) WHERE transport = 'ws' DO UPDATE\<close>; the id returned is the row's.\<close>

definition UpsertWSSubscription :: "env \<Rightarrow> Subscription \<Rightarrow> db \<Rightarrow> (string \<times> db) result" where
  "UpsertWSSubscription env s d =
     map_err (wrapf ''failed to upsert ws subscription'') (stmt env ''push.UpsertWSSubscription'' d
       (let p = (\<lambda>r. ps_transport r = TransportWS \<and> ps_device r = sn_device s)
        in case find p (t_subscriptions d) of
             Some old \<Rightarrow> Inr (ps_id old, d\<lparr>t_subscriptions :=
               update_where p (\<lambda>r. r\<lparr>ps_muted := sn_muted s, ps_label := sn_label s\<rparr>) (t_subscriptions d)\<rparr>)
           | None \<Rightarrow>
               rbind (insert_subscription
                 \<lparr>ps_id = sn_id s, ps_device = sn_device s, ps_endpoint = [], ps_p256dh = [], ps_auth = [], ps_label = sn_label s,
                  ps_muted = sn_muted s, ps_transport = TransportWS, ps_created_at = sn_created_at s,
                  ps_last_success_at = None, ps_failure_count = 0\<rparr> d) (\<lambda>d1. Inr (sn_id s, d1))))"

definition owned_subscription :: "string \<Rightarrow> string \<Rightarrow> subscription_row \<Rightarrow> bool" where
  "owned_subscription sid device r \<longleftrightarrow> ps_id r = sid \<and> ps_device r = device"

definition repoUpdateSubscription :: "env \<Rightarrow> Subscription \<Rightarrow> db \<Rightarrow> db result" where
  "repoUpdateSubscription env s d =
     (let p = owned_subscription (sn_id s) (sn_device s);
          rs = update_where p (\<lambda>r. r\<lparr>ps_endpoint := sn_endpoint s, ps_p256dh := sn_p256dh s, ps_auth := sn_auth s,
                 ps_muted := sn_muted s\<rparr>) (t_subscriptions d)
      in rbind (map_err (wrapf ''failed to update subscription'') (stmt env ''push.UpdateSubscription'' d
             (rguard (list_ex p (t_subscriptions d) \<longrightarrow> subscription_keys rs) (unique_violation ''push_subscriptions'') (Inr ())))) (\<lambda>_.
         rguard (list_ex p (t_subscriptions d)) (errorf ''subscription not found'') (Inr (d\<lparr>t_subscriptions := rs\<rparr>))))"

definition repoDeleteSubscription :: "env \<Rightarrow> string \<Rightarrow> string \<Rightarrow> db \<Rightarrow> db result" where
  "repoDeleteSubscription env sid device d =
     rbind (map_err (wrapf ''failed to delete subscription'') (stmt env ''push.DeleteSubscription'' d (Inr ()))) (\<lambda>_.
     rguard (list_ex (owned_subscription sid device) (t_subscriptions d)) (errorf ''subscription not found'')
       (Inr (drop_subscriptions (owned_subscription sid device) d)))"

definition subscription_of_row :: "subscription_row \<Rightarrow> Subscription" where
  "subscription_of_row r =
     \<lparr>sn_id = ps_id r, sn_device = ps_device r, sn_transport = ps_transport r, sn_endpoint = ps_endpoint r,
      sn_p256dh = ps_p256dh r, sn_auth = ps_auth r, sn_label = ps_label r, sn_muted = ps_muted r, sn_created_at = ps_created_at r,
      sn_last_success_at = ps_last_success_at r, sn_failure_count = ps_failure_count r, sn_locale = [], sn_user = [],
      sn_notify_mode = [], sn_seen_at = 0\<rparr>"

text \<open>The subscription joined with its device, which must be live, and the device's account.\<close>

definition joined_subscription :: "string list \<Rightarrow> db \<Rightarrow> subscription_row \<Rightarrow> Subscription option" where
  "joined_subscription users d r =
     (case device_row_of d (ps_device r) of None \<Rightarrow> None
      | Some v \<Rightarrow>
          if dv_user v \<in> set users \<and> dv_revoked_at v = None
          then map_option (\<lambda>u. (subscription_of_row r)\<lparr>sn_locale := us_locale u, sn_user := us_public_key u,
                 sn_notify_mode := us_notify_mode u, sn_seen_at := us_seen_at u\<rparr>) (user_row_of d (dv_user v))
          else None)"

definition GetSubscriptionsForUsers :: "env \<Rightarrow> string list \<Rightarrow> db \<Rightarrow> Subscription list result" where
  "GetSubscriptionsForUsers env users d =
     (if users = [] then Inr []
      else map_err (wrapf ''failed to query subscriptions'') (stmt env ''push.GetSubscriptionsForUsers'' d
        (Inr (List.map_filter (joined_subscription users d) (t_subscriptions d)))))"

definition GetSubscriptionByID :: "env \<Rightarrow> string \<Rightarrow> string \<Rightarrow> db \<Rightarrow> Subscription option result" where
  "GetSubscriptionByID env sid device d =
     map_err (wrapf ''failed to get subscription'') (stmt env ''push.GetSubscriptionByID'' d
       (Inr (map_option subscription_of_row (find (owned_subscription sid device) (t_subscriptions d)))))"

definition MarkSuccess :: "env \<Rightarrow> string \<Rightarrow> int \<Rightarrow> db \<Rightarrow> db result" where
  "MarkSuccess env sid ts d =
     map_err (wrapf ''failed to mark success'') (stmt env ''push.MarkSuccess'' d
       (Inr (d\<lparr>t_subscriptions := update_where (\<lambda>r. ps_id r = sid)
          (\<lambda>r. r\<lparr>ps_last_success_at := Some ts, ps_failure_count := 0\<rparr>) (t_subscriptions d)\<rparr>)))"

definition IncrementFailure :: "env \<Rightarrow> string \<Rightarrow> db \<Rightarrow> db result" where
  "IncrementFailure env sid d =
     map_err (wrapf ''failed to increment failure'') (stmt env ''push.IncrementFailure'' d
       (rguard (list_all (\<lambda>r. ps_id r = sid \<longrightarrow> fits_int4 (ps_failure_count r + 1)) (t_subscriptions d)) out_of_range
         (Inr (d\<lparr>t_subscriptions := update_where (\<lambda>r. ps_id r = sid)
            (\<lambda>r. r\<lparr>ps_failure_count := ps_failure_count r + 1\<rparr>) (t_subscriptions d)\<rparr>))))"

subsection \<open>Digests\<close>

definition digest_key :: "string \<Rightarrow> string \<Rightarrow> digest_row \<Rightarrow> bool" where
  "digest_key sid appID g \<longleftrightarrow> dg_subscription g = sid \<and> dg_application g = appID"

text \<open>The count starts again once the account has looked at its notifications.\<close>

definition counted_row :: "int \<Rightarrow> digest_row \<Rightarrow> int" where
  "counted_row seenAt g = (if dg_last_at g \<le> seenAt then 1 else dg_count g + 1)"

definition CountDigest :: "env \<Rightarrow> string \<Rightarrow> string \<Rightarrow> int \<Rightarrow> int \<Rightarrow> db \<Rightarrow> db result" where
  "CountDigest env sid appID t seenAt d =
     map_err (wrapf ''failed to count digest'') (stmt env ''push.CountDigest'' d
       (rguard (list_ex (\<lambda>r. ps_id r = sid) (t_subscriptions d)) (fk_violation ''push_digest_pending_subscription_id_fkey'')
         (rguard (list_all (\<lambda>g. digest_key sid appID g \<longrightarrow> fits_int4 (counted_row seenAt g)) (t_digest_pending d)) out_of_range
           (Inr (d\<lparr>t_digest_pending := upsert (digest_key sid appID) (\<lambda>g. g\<lparr>dg_count := counted_row seenAt g, dg_last_at := t\<rparr>)
              \<lparr>dg_subscription = sid, dg_application = appID, dg_count = 1, dg_last_at = t\<rparr> (t_digest_pending d)\<rparr>)))))"

definition GetDailyUsers :: "env \<Rightarrow> db \<Rightarrow> DigestUser list result" where
  "GetDailyUsers env d =
     map_err (wrapf ''failed to query daily users'') (stmt env ''push.GetDailyUsers'' d
       (Inr (map (\<lambda>u. \<lparr>du_public_key = us_public_key u, du_timezone = us_timezone u, du_sent_at = us_digest_sent_at u\<rparr>)
          (filter (\<lambda>u. us_notify_mode u = NotifyModeDaily) (t_users d)))))"

definition digest_due :: "string \<Rightarrow> int \<Rightarrow> user_row \<Rightarrow> bool" where
  "digest_due key due u \<longleftrightarrow> us_public_key u = key \<and> us_notify_mode u = NotifyModeDaily \<and> us_digest_sent_at u < due"

definition pending_of :: "db \<Rightarrow> string \<Rightarrow> digest_row \<Rightarrow> bool" where
  "pending_of d key g \<longleftrightarrow> dg_subscription g \<in> set (account_subscriptions d key)"

definition has_member :: "db \<Rightarrow> string \<Rightarrow> string \<Rightarrow> bool" where
  "has_member d appID key \<longleftrightarrow> list_ex (\<lambda>m. m_application_id m = appID \<and> m_public_key m = key) (t_members d)"

definition live_app :: "db \<Rightarrow> string \<Rightarrow> app_row option" where
  "live_app d appID = find (\<lambda>a. ar_id a = appID \<and> ar_deleted_at a = None) (t_apps d)"

text \<open>The rows taken that the digest shows: seen since, of a live application, to a member.\<close>

definition shown_row :: "db \<Rightarrow> string \<Rightarrow> int \<Rightarrow> digest_row \<Rightarrow> DigestRow option" where
  "shown_row d key seenAt g =
     (case live_app d (dg_application g) of None \<Rightarrow> None
      | Some a \<Rightarrow> if seenAt < dg_last_at g \<and> has_member d (dg_application g) key
          then Some \<lparr>dr_subscription = dg_subscription g, dr_application = dg_application g, dr_name = ar_name a, dr_count = dg_count g\<rparr>
          else None)"

text \<open>One transaction; an account that is not due leaves it rolled back.\<close>

definition ClaimDigest :: "env \<Rightarrow> string \<Rightarrow> int \<Rightarrow> int \<Rightarrow> db \<Rightarrow> ((DigestRow list \<times> bool) \<times> db) result" where
  "ClaimDigest env key due nw d =
     rbind (map_err (wrapf ''failed to begin digest claim'') (stmt env ''push.ClaimDigest.Begin'' d (Inr ()))) (\<lambda>_.
     rbind (map_err (wrapf ''failed to stamp digest'') (stmt env ''push.ClaimDigest.UPDATE'' d (Inr (find (digest_due key due) (t_users d))))) (\<lambda>row.
     case row of None \<Rightarrow> Inr (([], False), d)
     | Some u \<Rightarrow>
         (let d1 = d\<lparr>t_users := update_where (digest_due key due) (\<lambda>u. u\<lparr>us_digest_sent_at := nw\<rparr>) (t_users d)\<rparr>;
              gone = filter (pending_of d1 key) (t_digest_pending d1);
              d2 = d1\<lparr>t_digest_pending := filter (\<lambda>g. \<not> pending_of d1 key g) (t_digest_pending d1)\<rparr>
          in rbind (map_err (wrapf ''failed to take pending digest rows'') (stmt env ''push.ClaimDigest.DELETE'' d1 (Inr ()))) (\<lambda>_.
             rbind (map_err (wrapf ''failed to commit digest claim'') (stmt env ''push.ClaimDigest.Commit'' d2 (Inr ()))) (\<lambda>_.
             Inr ((sort_key (\<lambda>r. - dr_count r) (List.map_filter (shown_row d1 key (us_seen_at u)) gone), True), d2))))))"

end
