(* ===== verification/PushService.thy ===== *)
theory PushService
  imports PushNotify PushRepo
begin

section \<open>Push: fanout, delivery and the daily digest\<close>

text \<open>
  \<open>internal/push/push_service.go\<close>, \<open>digest.go\<close>, \<open>digest_scheduler.go\<close>, \<open>push_sender.go\<close>,
  \<open>push_endpoint_url.go\<close> and \<open>space_vapid_service.go\<close>. The state is the tables and what left the space:
  pushes to the push services and to open sockets. How a push service answers is a parameter, a
  function of everything sent before, so that it may answer differently each time.
\<close>

record SendOptions =
  so_urgency :: string
  so_ttl :: int
  so_topic :: string

record digestApp =
  da_application :: string
  da_name :: string
  da_count :: int

record digestData =
  dd_space_url :: string
  dd_apps :: "digestApp list"
  dd_total :: int

text \<open>The payload before \<open>json.Marshal\<close>.\<close>

record pushPayload =
  pp_v :: int
  pp_application :: string
  pp_event :: string
  pp_kind :: Kind
  pp_title :: string
  pp_body :: string
  pp_tag :: string
  pp_view :: string
  pp_data :: "digestData option"

datatype delivery =
    WebPush Subscription pushPayload SendOptions
  | WsPush string string pushPayload      \<comment> \<open>the account, the device\<close>

record push_state =
  pz_node :: node
  pz_sent :: "delivery list"              \<comment> \<open>the last one first\<close>
  pz_warned :: "string list"              \<comment> \<open>\<open>warnedTZ\<close>\<close>

text \<open>
  The push services and the sockets, the hash, and the time zones: the day on which an instant falls
  in a zone and the instant of an hour of a day there.
\<close>

record push_host =
  ph_host :: host
  ph_send :: "delivery list \<Rightarrow> Subscription \<Rightarrow> pushPayload \<Rightarrow> SendOptions \<Rightarrow> int result"   \<comment> \<open>webpush-go: the status\<close>
  ph_socket :: "(delivery list \<Rightarrow> string \<Rightarrow> string \<Rightarrow> bool) option"            \<comment> \<open>\<open>SendPush\<close>, if it is wired\<close>
  ph_sha256 :: "string \<Rightarrow> string"
  ph_day :: "string \<Rightarrow> int \<Rightarrow> int"
  ph_instant :: "string \<Rightarrow> int \<Rightarrow> int \<Rightarrow> int"
  ph_validator :: "(schema_lib \<times> Validator) option"

definition on_push :: "'a act \<Rightarrow> (push_state, 'a) action" where
  "on_push m = (\<lambda>p. case m (pz_node p) of (r, n) \<Rightarrow> (r, p\<lparr>pz_node := n\<rparr>))"

abbreviation pask :: "(db \<Rightarrow> 'a result) \<Rightarrow> (push_state, 'a) action" where "pask q \<equiv> on_push (ask q)"
abbreviation pexec :: "(db \<Rightarrow> db result) \<Rightarrow> (push_state, unit) action" where "pexec u \<equiv> on_push (exec u)"

definition logged :: "('s, 'a) action \<Rightarrow> ('s, unit) action" where
  "logged m = attempt m (\<lambda>_. ret ())"

fun for_each :: "('x \<Rightarrow> ('s, unit) action) \<Rightarrow> 'x list \<Rightarrow> ('s, unit) action" where
  "for_each f [] = ret ()"
| "for_each f (x # xs) = andThen (f x) (\<lambda>_. for_each f xs)"

subsection \<open>Sending\<close>

definition validateEndpoint :: "host \<Rightarrow> string \<Rightarrow> goerr option" where
  "validateEndpoint h raw =
     (case url_parts h raw of
        None \<Rightarrow> Some (errw ErrInvalidEndpoint [])
      | Some (scheme, name, port, userinfo) \<Rightarrow>
          if scheme \<noteq> ''https'' \<or> name = [] \<or> userinfo then Some (errw ErrInvalidEndpoint []) else None)"

text \<open>\<open>HTTPWebpushSender.Send\<close>: a response without a status counts as 200.\<close>

definition Send :: "push_host \<Rightarrow> Subscription \<Rightarrow> pushPayload \<Rightarrow> SendOptions \<Rightarrow> (push_state, int result) action" where
  "Send ph sub payload opts = (\<lambda>p.
     case validateEndpoint (ph_host ph) (sn_endpoint sub) of
       Some e \<Rightarrow> (Inr (Inl e), p)
     | None \<Rightarrow> (Inr (case ph_send ph (pz_sent p) sub payload opts of Inl e \<Rightarrow> Inl e | Inr st \<Rightarrow> Inr (if st = 0 then 200 else st)),
                p\<lparr>pz_sent := WebPush sub payload opts # pz_sent p\<rparr>))"

definition deliverWS :: "push_host \<Rightarrow> Subscription \<Rightarrow> pushPayload \<Rightarrow> (push_state, unit) action" where
  "deliverWS ph sub payload = (\<lambda>p.
     case ph_socket ph of
       None \<Rightarrow> (Inr (), p)
     | Some accepts \<Rightarrow> (Inr (), if accepts (pz_sent p) (sn_user sub) (sn_device sub)
                          then p\<lparr>pz_sent := WsPush (sn_user sub) (sn_device sub) payload # pz_sent p\<rparr> else p))"

definition deliver :: "env \<Rightarrow> push_host \<Rightarrow> Subscription \<Rightarrow> pushPayload \<Rightarrow> SendOptions \<Rightarrow> (push_state, unit) action" where
  "deliver env ph sub payload opts =
     andThen (Send ph sub payload opts) (\<lambda>res.
     case res of
       Inl _ \<Rightarrow> logged (pexec (IncrementFailure env (sn_id sub)))
     | Inr st \<Rightarrow>
         if 200 \<le> st \<and> st < 300 then logged (pexec (MarkSuccess env (sn_id sub) (now env)))
         else if st = 404 \<or> st = 410 then logged (pexec (repoDeleteSubscription env (sn_id sub) (sn_device sub)))
         else logged (pexec (IncrementFailure env (sn_id sub))))"

definition send :: "env \<Rightarrow> push_host \<Rightarrow> Subscription \<Rightarrow> pushPayload \<Rightarrow> SendOptions \<Rightarrow> (push_state, unit) action" where
  "send env ph sub payload opts =
     (if sn_transport sub = TransportWS then deliverWS ph sub payload else deliver env ph sub payload opts)"

subsection \<open>The fanout of an event\<close>

definition appName :: "application option \<Rightarrow> string" where
  "appName app = (case app of None \<Rightarrow> [] | Some a \<Rightarrow> ap_name a)"

definition buildPayload :: "event \<Rightarrow> string \<Rightarrow> push_notice \<Rightarrow> pushPayload" where
  "buildPayload ev name n =
     \<lparr>pp_v = 2, pp_application = ev_application_id ev, pp_event = ev_id ev, pp_kind = pn_kind n,
      pp_title = or_text (cut_text name) ''Prappser'', pp_body = pn_body n,
      pp_tag = ev_application_id ev @ ''|'' @ kind_string (pn_kind n) @ ''|'' @ pn_scope n, pp_view = pn_view n, pp_data = None\<rparr>"

definition topicFor :: "push_host \<Rightarrow> string \<Rightarrow> string \<Rightarrow> string \<Rightarrow> string" where
  "topicFor ph appID componentID creator =
     take 32 (b64_encode url_alphabet [] (ph_sha256 ph (appID @ ''|'' @ componentID @ ''|'' @ creator)))"

definition sendOptionsFor :: "push_host \<Rightarrow> push_notice \<Rightarrow> event \<Rightarrow> SendOptions" where
  "sendOptionsFor ph n ev =
     (case pn_kind n of
        KindChat \<Rightarrow> \<lparr>so_urgency = ''high'', so_ttl = 21600, so_topic = []\<rparr>
      | KindItem \<Rightarrow> \<lparr>so_urgency = ''normal'', so_ttl = 43200, so_topic = topicFor ph (ev_application_id ev) (pn_component_id n) (ev_creator ev)\<rparr>
      | KindRole \<Rightarrow> \<lparr>so_urgency = ''high'', so_ttl = 86400, so_topic = []\<rparr>
      | KindReminder \<Rightarrow> \<lparr>so_urgency = ''high'', so_ttl = 86400, so_topic = []\<rparr>
      | _ \<Rightarrow> \<lparr>so_urgency = ''normal'', so_ttl = 43200, so_topic = []\<rparr>)"

definition empty_notice :: push_notice where
  "empty_notice = \<lparr>pn_kind = KindChat, pn_scope = [], pn_component_id = [], pn_body = [], pn_view = []\<rparr>"

text \<open>
  One subscription of the loop. The notice is rendered per language; the code keeps the rendering
  of a language, which gives the same notice, and does not look at the second result of \<open>describe\<close>.
\<close>

definition fan_one ::
    "env \<Rightarrow> push_host \<Rightarrow> event \<Rightarrow> application option \<Rightarrow> string \<Rightarrow> bool \<Rightarrow> Kind \<Rightarrow> Subscription \<Rightarrow> (push_state, unit) action" where
  "fan_one env ph ev app creator agent kind sub =
     (if ev_application_id ev \<noteq> [] \<and> ev_application_id ev \<in> set (sn_muted sub) then ret ()
      else if digestsIn kind (sn_notify_mode sub)
      then (if ev_application_id ev \<noteq> []
            then logged (pexec (CountDigest env (sn_id sub) (ev_application_id ev) (now env) (sn_seen_at sub))) else ret ())
      else if \<not> sendsIn kind (sn_notify_mode sub) then ret ()
      else (let n = (case describe env (ph_validator ph) ev app creator agent (langOf (sn_locale sub)) of Some n \<Rightarrow> n | None \<Rightarrow> empty_notice)
            in send env ph sub (buildPayload ev (appName app) n) (sendOptionsFor ph n ev)))"

definition fanout ::
    "env \<Rightarrow> push_host \<Rightarrow> event \<Rightarrow> application option \<Rightarrow> string \<Rightarrow> bool \<Rightarrow> string list \<Rightarrow> (push_state, unit) action" where
  "fanout env ph ev app creator agent keys =
     (case describe env (ph_validator ph) ev app creator agent ''en'' of
        None \<Rightarrow> ret ()
      | Some en \<Rightarrow>
          attempt (pask (GetSubscriptionsForUsers env keys)) (\<lambda>r.
            case r of Inl _ \<Rightarrow> ret ()
            | Inr subs \<Rightarrow> for_each (fan_one env ph ev app creator agent (pn_kind en)) subs))"

definition Push ::
    "env \<Rightarrow> push_host \<Rightarrow> event \<Rightarrow> application option \<Rightarrow> string \<Rightarrow> bool \<Rightarrow> string list \<Rightarrow> (push_state, unit) action" where
  "Push env ph ev app creator agent keys =
     (if keys = [] then ret () else fanout env ph ev app creator agent keys)"

subsection \<open>The daily digest\<close>

definition digestHour :: int where
  "digestHour = 19"

definition digestSendOptions :: SendOptions where
  "digestSendOptions = \<lparr>so_urgency = ''normal'', so_ttl = 43200, so_topic = ''digest''\<rparr>"

definition lastDigestAt :: "push_host \<Rightarrow> int \<Rightarrow> string \<Rightarrow> int" where
  "lastDigestAt ph nw loc =
     (let day = ph_day ph loc nw; t = ph_instant ph loc day digestHour
      in if nw < t then ph_instant ph loc (day - 1) digestHour else t)"

definition digestPayload :: "string \<Rightarrow> string \<Rightarrow> digestApp list \<Rightarrow> pushPayload" where
  "digestPayload lang spaceURL apps =
     (let n = foldl (\<lambda>t a. wrap64 (t + da_count a)) 0 apps;
          parts = map (\<lambda>a. da_name a @ '' '' @ format_int (da_count a)) apps;
          body = (if length apps = 1 then da_name (hd apps) else join_with '', '' parts)
      in \<lparr>pp_v = 2, pp_application = [], pp_event = [], pp_kind = KindDigest,
          pp_title = tx_digestTitle (textsFor lang) n (int (length apps)), pp_body = cut_text body, pp_tag = ''digest'', pp_view = [],
          pp_data = Some \<lparr>dd_space_url = spaceURL, dd_apps = apps, dd_total = n\<rparr>\<rparr>)"

definition apps_for :: "DigestRow list \<Rightarrow> Subscription \<Rightarrow> digestApp list" where
  "apps_for rows sub =
     map (\<lambda>r. \<lparr>da_application = dr_application r, da_name = dr_name r, da_count = dr_count r\<rparr>)
       (filter (\<lambda>r. dr_subscription r = sn_id sub \<and> dr_application r \<notin> set (sn_muted sub)) rows)"

definition digest_to :: "env \<Rightarrow> push_host \<Rightarrow> string \<Rightarrow> DigestRow list \<Rightarrow> Subscription \<Rightarrow> (push_state, unit) action" where
  "digest_to env ph spaceURL rows sub =
     (if apps_for rows sub = [] then ret ()
      else send env ph sub (digestPayload (langOf (sn_locale sub)) spaceURL (apps_for rows sub)) digestSendOptions)"

text \<open>The zone of an account: an unknown name is UTC, with one warning.\<close>

definition zone_of :: "env \<Rightarrow> DigestUser \<Rightarrow> string" where
  "zone_of env u = (if du_timezone u \<noteq> [] \<and> loads_tz env (du_timezone u) then du_timezone u else ''UTC'')"

definition warn_zone :: "env \<Rightarrow> DigestUser \<Rightarrow> (push_state, unit) action" where
  "warn_zone env u = (\<lambda>p. (Inr (),
     if du_timezone u \<noteq> [] \<and> \<not> loads_tz env (du_timezone u) \<and> du_public_key u \<notin> set (pz_warned p)
     then p\<lparr>pz_warned := du_public_key u # pz_warned p\<rparr> else p))"

definition digestFor :: "env \<Rightarrow> push_host \<Rightarrow> string \<Rightarrow> int \<Rightarrow> DigestUser \<Rightarrow> (push_state, unit) action" where
  "digestFor env ph spaceURL nw u =
     andThen (warn_zone env u) (\<lambda>_.
     let due = lastDigestAt ph nw (zone_of env u) in
     if due \<le> du_sent_at u then ret ()
     else
       andThen (attempt (pask (GetSubscriptionsForUsers env [du_public_key u])) (\<lambda>r. lift (map_err (wrapf ''get subscriptions'') r))) (\<lambda>subs.
       andThen (attempt (on_push (exec_ret (ClaimDigest env (du_public_key u) due nw))) (\<lambda>r. lift (map_err (wrapf ''claim digest'') r)))
         (\<lambda>(rows, claimed).
       if \<not> claimed \<or> rows = [] then ret () else for_each (digest_to env ph spaceURL rows) subs)))"

definition digest_tick :: "env \<Rightarrow> push_host \<Rightarrow> string \<Rightarrow> (push_state, unit) action" where
  "digest_tick env ph spaceURL =
     andThen (attempt (pask (GetDailyUsers env)) (\<lambda>r. lift (map_err (wrapf ''get daily users'') r))) (\<lambda>users.
     for_each (\<lambda>u. logged (digestFor env ph spaceURL (now env) u)) users)"

subsection \<open>The space's key pair\<close>

text \<open>\<open>GenerateVAPIDKeys\<close> gives the private and the public key; what the service keeps is the result.\<close>

definition vapid_Initialize :: "env \<Rightarrow> (string \<times> string) result \<Rightarrow> (string \<times> string) act" where
  "vapid_Initialize env generated =
     andThen (attempt (ask (GetSpaceVapid env)) (\<lambda>r. lift (map_err (wrapf ''failed to load space vapid'') r))) (\<lambda>existing.
     case existing of
       Some v \<Rightarrow> ret (vk_public v, vk_private v)
     | None \<Rightarrow>
         andThen (lift (map_err (wrapf ''failed to generate VAPID keys'') generated)) (\<lambda>(privKey, pubKey).
         andThen (attempt (exec (UpsertSpaceVapid env \<lparr>vk_public = pubKey, vk_private = privKey, vk_created_at = now env, vk_updated_at = now env\<rparr>))
           (\<lambda>r. lift (map_err (wrapf ''failed to persist space vapid'') r))) (\<lambda>_.
         andThen (attempt (ask (GetSpaceVapid env)) (\<lambda>r. lift (map_err (wrapf ''failed to reload space vapid after upsert'') r))) (\<lambda>persisted.
         case persisted of None \<Rightarrow> fail (errorf ''space vapid row missing after upsert'')
         | Some v \<Rightarrow> ret (vk_public v, vk_private v)))))"

end
