(* ===== verification/PushEndpoints.thy ===== *)
theory PushEndpoints
  imports PushService Spaces
begin

section \<open>Push: the handlers of subscriptions\<close>

text \<open>
  \<open>internal/push/push_endpoints.go\<close>. A body is what \<open>json.Unmarshal\<close> makes of it, \<open>None\<close> when it
  fails; absent strings are empty.
\<close>

record createSubscriptionRequest =
  sq_transport :: string
  sq_endpoint :: string
  sq_p256dh :: string
  sq_auth :: string
  sq_label :: "string option"
  sq_muted :: "string list"

record updateSubscriptionRequest =
  uq_endpoint :: string
  uq_p256dh :: string
  uq_auth :: string
  uq_muted :: "string list"

definition epGetVapidPublicKey :: "string \<times> string \<Rightarrow> string handler" where
  "epGetVapidPublicKey keys = answer 200 (fst keys)"

definition new_subscription :: "env \<Rightarrow> account \<Rightarrow> createSubscriptionRequest \<Rightarrow> Subscription" where
  "new_subscription env u req =
     \<lparr>sn_id = fresh_uuid env, sn_device = ac_device_key u, sn_transport = sq_transport req, sn_endpoint = sq_endpoint req,
      sn_p256dh = sq_p256dh req, sn_auth = sq_auth req, sn_label = sq_label req, sn_muted = sq_muted req, sn_created_at = now env,
      sn_last_success_at = None, sn_failure_count = 0, sn_locale = [], sn_user = [], sn_notify_mode = [], sn_seen_at = 0\<rparr>"

definition check_create :: "host \<Rightarrow> createSubscriptionRequest \<Rightarrow> string option" where
  "check_create h req =
     (if sq_transport req = TransportWebpush then
        (if sq_endpoint req = [] \<or> sq_p256dh req = [] \<or> sq_auth req = [] then Some ''endpoint, p256dh, and auth are required''
         else if validateEndpoint h (sq_endpoint req) \<noteq> None then Some ''endpoint must be an https URL without credentials''
         else None)
      else if sq_transport req = TransportWS then
        (if sq_endpoint req \<noteq> [] \<or> sq_p256dh req \<noteq> [] \<or> sq_auth req \<noteq> []
         then Some ''ws subscriptions take no endpoint, p256dh or auth'' else None)
      else Some ''unknown transport'')"

definition epCreateSubscription :: "env \<Rightarrow> host \<Rightarrow> account option \<Rightarrow> createSubscriptionRequest option \<Rightarrow> string handler" where
  "epCreateSubscription env h u body =
     hsome u 401 ''Unauthorized'' (\<lambda>u.
     hsome body 400 ''invalid request body'' (\<lambda>req0.
     let req = req0\<lparr>sq_transport := transportOrDefault (sq_transport req0)\<rparr> in
     case check_create h req of Some msg \<Rightarrow> (\<lambda>n. (Refuse 400 msg, n))
     | None \<Rightarrow>
       (let sub = new_subscription env u req in
        if sn_transport sub = TransportWS
        then hcall (exec_ret (UpsertWSSubscription env sub)) (\<lambda>_. Refuse 500 ''Failed to create subscription'') (answer 201)
        else hcall (exec (repoCreateSubscription env sub)) (\<lambda>_. Refuse 500 ''Failed to create subscription'') (\<lambda>_. answer 201 (sn_id sub)))))"

definition patched :: "Subscription \<Rightarrow> updateSubscriptionRequest \<Rightarrow> Subscription" where
  "patched s req =
     s\<lparr>sn_endpoint := (if uq_endpoint req \<noteq> [] then uq_endpoint req else sn_endpoint s),
       sn_p256dh := (if uq_p256dh req \<noteq> [] then uq_p256dh req else sn_p256dh s),
       sn_auth := (if uq_auth req \<noteq> [] then uq_auth req else sn_auth s), sn_muted := uq_muted req\<rparr>"

definition epUpdateSubscription ::
    "env \<Rightarrow> host \<Rightarrow> account option \<Rightarrow> string \<Rightarrow> updateSubscriptionRequest option \<Rightarrow> unit handler" where
  "epUpdateSubscription env h u sid body =
     hsome u 401 ''Unauthorized'' (\<lambda>u.
     hguard (sid \<noteq> []) 400 ''Subscription ID is required''
    (hcall (ask (GetSubscriptionByID env sid (ac_device_key u))) (\<lambda>_. Refuse 500 ''Failed to fetch subscription'') (\<lambda>found.
     hsome found 404 ''Subscription not found'' (\<lambda>existing.
     hsome body 400 ''invalid request body'' (\<lambda>req.
     hguard (\<not> (sn_transport existing = TransportWS \<and> (uq_endpoint req \<noteq> [] \<or> uq_p256dh req \<noteq> [] \<or> uq_auth req \<noteq> [])))
       400 ''ws subscriptions only accept mutedApplicationIds''
    (hguard (\<not> (uq_endpoint req \<noteq> [] \<and> validateEndpoint h (uq_endpoint req) \<noteq> None))
       400 ''endpoint must be an https URL without credentials''
    (hcall (exec (repoUpdateSubscription env (patched existing req))) (\<lambda>_. Refuse 500 ''Failed to update subscription'')
       (\<lambda>_. answer 200 ()))))))))"

definition epDeleteSubscription :: "env \<Rightarrow> account option \<Rightarrow> string \<Rightarrow> unit handler" where
  "epDeleteSubscription env u sid =
     hsome u 401 ''Unauthorized'' (\<lambda>u.
     hguard (sid \<noteq> []) 400 ''Subscription ID is required''
    (hcall (exec (repoDeleteSubscription env sid (ac_device_key u)))
       (\<lambda>e. if err_msg e = ''subscription not found'' then Refuse 404 ''Subscription not found'' else Refuse 500 ''Failed to delete subscription'')
       (\<lambda>_. answer 204 ())))"

end
