(* ===== verification/PushLaws.thy ===== *)
theory PushLaws
  imports PushEndpoints
begin

section \<open>What a push says and to whom\<close>

text \<open>
  Two facts that the loop of \<open>fanout\<close> relies on without checking: the language of an account decides
  the words of a notice and nothing else, and whoever a push reaches is entitled to it.
\<close>

subsection \<open>The language decides only the words\<close>

lemma text_or_empty_known: "textByID t i \<noteq> None \<Longrightarrow> text_or_empty (textsFor l) i \<noteq> []"
  by (auto simp: textByID_def text_or_empty_def textsFor_def textsEN_def textsPL_def camera_def split: if_splits)

lemma candidate_empty:
  assumes "candidate_check c = None"
  shows "candidate_eval c el cmp (textsFor l) = [] \<longleftrightarrow> candidate_eval c el cmp (textsFor k) = []"
proof -
  have "tc_id c \<noteq> [] \<Longrightarrow> textByID textsEN (tc_id c) \<noteq> None" "tc_empty c \<noteq> [] \<Longrightarrow> textByID textsEN (tc_empty c) \<noteq> None"
    using assms unfolding candidate_check_def by (auto split: if_splits)
  then have "tc_id c \<noteq> [] \<Longrightarrow> text_or_empty (textsFor x) (tc_id c) \<noteq> []" "tc_empty c \<noteq> [] \<Longrightarrow> text_or_empty (textsFor x) (tc_empty c) \<noteq> []" for x
    by (simp_all add: text_or_empty_known)
  then show ?thesis by (simp add: candidate_eval_def Let_def)
qed

lemma candidates_checkD: "candidates_check cs = None \<Longrightarrow> c \<in> set cs \<Longrightarrow> candidate_check c = None"
  by (induction cs) (auto split: option.splits)

lemma evalText_empty:
  assumes "candidates_check cs = None"
  shows "evalText cs el cmp (textsFor l) = [] \<longleftrightarrow> evalText cs el cmp (textsFor k) = []"
  using assms
proof (induction cs)
  case (Cons c cs)
  then have "candidate_check c = None" "candidates_check cs = None" by (auto split: option.splits)
  then show ?case using Cons.IH candidate_empty [of c el cmp l k] by (simp add: Let_def)
qed simp

lemma parsed_candidates:
  assumes "parseNotifyRule env raw = Inr r"
  shows "candidates_check (nr_text r) = None"
proof -
  have "rule_check r = None" using assms unfolding parseNotifyRule_def by (auto split: gany.splits option.splits)
  then show ?thesis unfolding rule_check_def by (auto split: if_splits option.splits)
qed

lemma filter_same_length:
  "(\<And>x. x \<in> set xs \<Longrightarrow> f x = [] \<longleftrightarrow> g x = []) \<Longrightarrow> filter (\<lambda>p. p \<noteq> []) (map f xs) = [] \<longleftrightarrow> filter (\<lambda>p. p \<noteq> []) (map g xs) = []"
  by (auto simp: filter_empty_conv)

lemma evalRule_some:
  assumes "candidates_check (nr_text r) = None"
  shows "evalRule lib v r typ cmp flds ks (textsFor l) = None \<longleftrightarrow> evalRule lib v r typ cmp flds ks (textsFor k) = None"
proof -
  note e = evalText_empty [OF assms]
  show ?thesis
  proof (cases "nr_join r")
    case None
    then show ?thesis using e by (auto simp: evalRule_def Let_def split: list.splits option.splits)
  next
    case (Some j)
    then show ?thesis
      using filter_same_length [of _ "\<lambda>x. evalText (nr_text r) x cmp (textsFor l)" "\<lambda>x. evalText (nr_text r) x cmp (textsFor k)"] e
      by (simp add: evalRule_def Let_def)
  qed
qed

definition notice_key :: "push_notice \<Rightarrow> Kind \<times> string \<times> string \<times> string" where
  "notice_key n = (pn_kind n, pn_scope n, pn_component_id n, pn_view n)"

lemma first_notice_language:
  "map_option notice_key (first_notice env lib v ev typ cmp flds (textsFor l) w gs)
   = map_option notice_key (first_notice env lib v ev typ cmp flds (textsFor k) w' gs)"
proof (induction gs)
  case (Cons g gs)
  obtain rk raw ks where g: "g = (rk, raw, ks)" by (cases g)
  show ?case
  proof (cases "parseNotifyRule env raw")
    case (Inl e)
    then show ?thesis using Cons.IH by (simp add: g)
  next
    case (Inr r)
    note same = evalRule_some [OF parsed_candidates [OF Inr], of lib v "typ" cmp flds "sort ks" l k]
    show ?thesis
    proof (cases "evalRule lib v r typ cmp flds (sort ks) (textsFor l)")
      case None
      then show ?thesis using same Inr Cons.IH by (simp add: g)
    next
      case (Some what)
      then obtain other where "evalRule lib v r typ cmp flds (sort ks) (textsFor k) = Some other" using same by auto
      then show ?thesis using Some Inr by (simp add: g notice_key_def)
    qed
  qed
qed simp

lemma key_of_plain: "notice_key \<lparr>pn_kind = k, pn_scope = s, pn_component_id = c, pn_body = b, pn_view = v\<rparr> = (k, s, c, v)"
  by (simp add: notice_key_def)

text \<open>
  C19. The language of an account changes the words of a notice only: whether there is one, its kind,
  its scope, its component and its view are the same in every language. \<open>fanout\<close> asks for the English
  notice to decide, and takes the answer in another language without looking.
\<close>
theorem notice_language:
  "map_option notice_key (describe env val ev app creator agent l1) = map_option notice_key (describe env val ev app creator agent l2)"
  unfolding describe_def Let_def describeComponent_def
  by (auto simp: plain_notice_def key_of_plain split: event_type.splits option.splits prod.splits
      intro!: first_notice_language)

end
