(* ===== verification/PushProps.thy ===== *)
theory PushProps
  imports PushLaws AccountDemo
begin

section \<open>Who is pushed, and how often\<close>

text \<open>
  Who a push reaches and how often a digest goes out: relations that sequences of actions compose as a
  locale, what every send was entitled to, and what a claimed digest leaves for later claims.
\<close>

subsection \<open>Relations that a sequence of actions composes\<close>

text \<open>\<open>keeps R m\<close>: whatever the action returns, the state it leaves is related to the one it found.\<close>

definition keeps :: "('s \<Rightarrow> 's \<Rightarrow> bool) \<Rightarrow> ('s \<Rightarrow> 'r \<times> 's) \<Rightarrow> bool" where
  "keeps R m \<longleftrightarrow> (\<forall>s. R s (snd (m s)))"

locale state_relation =
  fixes R :: "'s \<Rightarrow> 's \<Rightarrow> bool"
  assumes refl: "R s s" and trans: "R a b \<Longrightarrow> R b c \<Longrightarrow> R a c"
begin

lemma keeps_pure: "keeps R (ret x)" "keeps R (fail e)" "keeps R (lift r)"
  by (simp_all add: keeps_def ret_def fail_def lift_def refl)

lemma keeps_andThen: "keeps R m \<Longrightarrow> (\<And>x. keeps R (f x)) \<Longrightarrow> keeps R (andThen m f)"
  unfolding keeps_def andThen_def by (auto split: prod.splits sum.splits) (metis snd_conv trans)+

lemma keeps_attempt: "keeps R m \<Longrightarrow> (\<And>x. keeps R (f x)) \<Longrightarrow> keeps R (attempt m f)"
  unfolding keeps_def attempt_def by (auto split: prod.splits) (metis snd_conv trans)

lemma keeps_logged: "keeps R m \<Longrightarrow> keeps R (logged m)"
  unfolding logged_def by (intro keeps_attempt keeps_pure)

lemma keeps_for_each: "(\<And>x. x \<in> set xs \<Longrightarrow> keeps R (f x)) \<Longrightarrow> keeps R (for_each f xs)"
  by (induction xs) (auto intro!: keeps_andThen keeps_pure)

lemma keeps_same: "(\<And>s. snd (m s) = s) \<Longrightarrow> keeps R m"
  by (simp add: keeps_def refl)

lemma keeps_if: "(b \<Longrightarrow> keeps R m) \<Longrightarrow> (\<not> b \<Longrightarrow> keeps R k) \<Longrightarrow> keeps R (if b then m else k)"
  by simp

lemma keeps_option: "(x = None \<Longrightarrow> keeps R m) \<Longrightarrow> (\<And>y. x = Some y \<Longrightarrow> keeps R (f y)) \<Longrightarrow> keeps R (case x of None \<Rightarrow> m | Some y \<Rightarrow> f y)"
  by (cases x) simp_all

lemma keeps_sum: "(\<And>e. x = Inl e \<Longrightarrow> keeps R (g e)) \<Longrightarrow> (\<And>y. x = Inr y \<Longrightarrow> keeps R (f y)) \<Longrightarrow> keeps R (case x of Inl e \<Rightarrow> g e | Inr y \<Rightarrow> f y)"
  by (cases x) simp_all

lemma keeps_prod: "(\<And>a b. x = (a, b) \<Longrightarrow> keeps R (f a b)) \<Longrightarrow> keeps R (case x of (a, b) \<Rightarrow> f a b)"
  by (cases x) simp

lemmas keeps_rules = keeps_andThen keeps_attempt keeps_logged keeps_pure keeps_if keeps_option keeps_sum keeps_prod

end

lemma on_push_exec: "snd (pexec u p) = (case u (nd_db (pz_node p)) of Inl e \<Rightarrow> p | Inr d \<Rightarrow> p\<lparr>pz_node := (pz_node p)\<lparr>nd_db := d\<rparr>\<rparr>)"
  by (simp add: on_push_def exec_def split: sum.splits)

lemma pask_same: "snd (pask q p) = p" "fst (pask q p) = q (nd_db (pz_node p))"
  by (simp_all add: on_push_def ask_def)

subsection \<open>Whom a push reaches\<close>

text \<open>
  The subscription belongs to a live device of an account asked for, that account did not mute the
  application there, and its mode lets this kind through at once.
\<close>

definition entitled :: "db \<Rightarrow> event \<Rightarrow> Kind \<Rightarrow> string list \<Rightarrow> Subscription \<Rightarrow> bool" where
  "entitled d ev kind keys sub \<longleftrightarrow>
     (\<exists>r v u. r \<in> set (t_subscriptions d) \<and> ps_id r = sn_id sub \<and> ps_device r = sn_device sub \<and> ps_transport r = sn_transport sub
       \<and> v \<in> set (t_devices d) \<and> dv_public_key v = sn_device sub \<and> dv_revoked_at v = None \<and> dv_user v \<in> set keys
       \<and> u \<in> set (t_users d) \<and> us_public_key u = dv_user v \<and> sn_user sub = dv_user v
       \<and> (ev_application_id ev = [] \<or> ev_application_id ev \<notin> set (ps_muted r))
       \<and> sendsIn kind (us_notify_mode u) \<and> \<not> digestsIn kind (us_notify_mode u))"

fun addressed :: "delivery \<Rightarrow> Subscription \<Rightarrow> bool" where
  "addressed (WebPush s _ _) sub \<longleftrightarrow> s = sub \<and> sn_transport sub \<noteq> TransportWS"
| "addressed (WsPush a v _) sub \<longleftrightarrow> a = sn_user sub \<and> v = sn_device sub \<and> sn_transport sub = TransportWS"

lemma joined_entitled:
  assumes "sub \<in> set (List.map_filter (joined_subscription keys d) (t_subscriptions d))"
    and "ev_application_id ev = [] \<or> ev_application_id ev \<notin> set (sn_muted sub)"
    and "sendsIn kind (sn_notify_mode sub)" "\<not> digestsIn kind (sn_notify_mode sub)"
  shows "entitled d ev kind keys sub"
proof -
  from assms(1) obtain r where r: "r \<in> set (t_subscriptions d)" "joined_subscription keys d r = Some sub"
    by (auto simp: List.map_filter_def)
  from r(2) obtain v u where v: "device_row_of d (ps_device r) = Some v" "dv_user v \<in> set keys" "dv_revoked_at v = None"
      and u: "user_row_of d (dv_user v) = Some u"
      and sub: "sub = (subscription_of_row r)\<lparr>sn_locale := us_locale u, sn_user := us_public_key u,
                 sn_notify_mode := us_notify_mode u, sn_seen_at := us_seen_at u\<rparr>"
    unfolding joined_subscription_def by (auto split: option.splits if_splits)
  have "v \<in> set (t_devices d) \<and> dv_public_key v = ps_device r"
    using v(1) find_in_set unfolding device_row_of_def by fastforce
  moreover have "u \<in> set (t_users d) \<and> us_public_key u = dv_user v"
    using u find_in_set unfolding user_row_of_def by fastforce
  ultimately show ?thesis
    using r(1) v(2,3) assms(2-4) unfolding entitled_def
    by (intro exI [of _ r] exI [of _ v] exI [of _ u]) (simp add: sub subscription_of_row_def)
qed

text \<open>What a fanout may do: send to the deliveries allowed, and touch only subscriptions and pending digests.\<close>

definition sends_only :: "(delivery \<Rightarrow> bool) \<Rightarrow> push_state \<Rightarrow> push_state \<Rightarrow> bool" where
  "sends_only ok p q \<longleftrightarrow> (\<exists>new. pz_sent q = new @ pz_sent p \<and> list_all ok new)
     \<and> (\<exists>ss gs. pz_node q = (pz_node p)\<lparr>nd_db := (nd_db (pz_node p))\<lparr>t_subscriptions := ss, t_digest_pending := gs\<rparr>\<rparr>)"

lemma sends_only_refl: "sends_only ok p p"
  unfolding sends_only_def
  by (auto intro!: exI [of _ "[]"] exI [of _ "t_subscriptions (nd_db (pz_node p))"] exI [of _ "t_digest_pending (nd_db (pz_node p))"])

lemma sends_only_trans: "sends_only ok a b \<Longrightarrow> sends_only ok b c \<Longrightarrow> sends_only ok a c"
  unfolding sends_only_def
proof (elim conjE exE, intro conjI)
  fix new1 new2 ss1 ss2 gs1 gs2
  assume s: "pz_sent b = new1 @ pz_sent a" "list_all ok new1" "pz_sent c = new2 @ pz_sent b" "list_all ok new2"
    and n: "pz_node b = (pz_node a)\<lparr>nd_db := (nd_db (pz_node a))\<lparr>t_subscriptions := ss1, t_digest_pending := gs1\<rparr>\<rparr>"
      "pz_node c = (pz_node b)\<lparr>nd_db := (nd_db (pz_node b))\<lparr>t_subscriptions := ss2, t_digest_pending := gs2\<rparr>\<rparr>"
  show "\<exists>new. pz_sent c = new @ pz_sent a \<and> list_all ok new"
    using s by (intro exI [of _ "new2 @ new1"]) simp
  show "\<exists>ss gs. pz_node c = (pz_node a)\<lparr>nd_db := (nd_db (pz_node a))\<lparr>t_subscriptions := ss, t_digest_pending := gs\<rparr>\<rparr>"
    using n by (intro exI [of _ ss2] exI [of _ gs2]) simp
qed

interpretation fan: state_relation "sends_only ok" for ok
  by unfold_locales (rule sends_only_refl, erule (1) sends_only_trans)

lemma sends_only_exec:
  assumes "\<And>d d1. u d = Inr d1 \<Longrightarrow> \<exists>ss gs. d1 = d\<lparr>t_subscriptions := ss, t_digest_pending := gs\<rparr>"
  shows "keeps (sends_only ok) (pexec u)"
  unfolding keeps_def
proof
  fix p
  show "sends_only ok p (snd (pexec u p))"
  proof (cases "u (nd_db (pz_node p))")
    case (Inl e)
    then show ?thesis by (simp add: on_push_exec sends_only_refl)
  next
    case (Inr d)
    from assms [OF this] show ?thesis by (auto simp: on_push_exec Inr sends_only_def)
  qed
qed

lemma pending_keep: "(d :: db)\<lparr>t_digest_pending := g\<rparr> = d\<lparr>t_subscriptions := t_subscriptions d, t_digest_pending := g\<rparr>"
    "(d :: db)\<lparr>t_subscriptions := s\<rparr> = d\<lparr>t_subscriptions := s, t_digest_pending := t_digest_pending d\<rparr>"
  by simp_all

lemma sends_only_stmts:
  "keeps (sends_only ok) (pexec (IncrementFailure env sid))" "keeps (sends_only ok) (pexec (MarkSuccess env sid t))"
  "keeps (sends_only ok) (pexec (CountDigest env sid a t s))" "keeps (sends_only ok) (pexec (repoDeleteSubscription env sid v))"
  by (rule sends_only_exec; auto simp: IncrementFailure_def MarkSuccess_def CountDigest_def repoDeleteSubscription_def
      drop_subscriptions_def Let_def result_simps intro: pending_keep)+

lemma sends_only_send:
  assumes "\<And>x. addressed x sub \<Longrightarrow> ok x"
  shows "keeps (sends_only ok) (send env ph sub payload opts)"
proof (cases "sn_transport sub = TransportWS")
  case True
  then have "ok (WsPush (sn_user sub) (sn_device sub) payload)" by (intro assms) simp
  with True have "sends_only ok p (snd (deliverWS ph sub payload p))" for p
    using sends_only_refl [of ok p] unfolding deliverWS_def sends_only_def
    by (auto split: option.splits intro!: exI [of _ "[WsPush (sn_user sub) (sn_device sub) payload]"])
  then show ?thesis using True by (simp add: keeps_def send_def)
next
  case False
  then have "ok (WebPush sub payload opts)" by (intro assms) simp
  then have "sends_only ok p (snd (Send ph sub payload opts p))" for p
    using sends_only_refl [of ok p] unfolding Send_def sends_only_def
    by (auto split: option.splits intro!: exI [of _ "[WebPush sub payload opts]"])
  then have "keeps (sends_only ok) (Send ph sub payload opts)" by (simp add: keeps_def)
  then have "keeps (sends_only ok) (deliver env ph sub payload opts)"
    unfolding deliver_def by (intro fan.keeps_rules sends_only_stmts)
  then show ?thesis using False by (simp add: send_def)
qed

lemma push_sends_only:
  "sends_only (\<lambda>x. \<exists>n sub. describe env (ph_validator ph) ev app creator agent ''en'' = Some n
       \<and> entitled (nd_db (pz_node p)) ev (pn_kind n) keys sub \<and> addressed x sub) p (snd (Push env ph ev app creator agent keys p))"
proof -
  let ?d = "nd_db (pz_node p)" and ?go = "fan_one env ph ev app creator agent"
  define ok where "ok x \<longleftrightarrow> (\<exists>n sub. describe env (ph_validator ph) ev app creator agent ''en'' = Some n
          \<and> entitled ?d ev (pn_kind n) keys sub \<and> addressed x sub)" for x
  have one: "keeps (sends_only ok) (?go (pn_kind n) sub)"
    if n: "describe env (ph_validator ph) ev app creator agent ''en'' = Some n"
      and sub: "sub \<in> set (List.map_filter (joined_subscription keys ?d) (t_subscriptions ?d))" for n sub
  proof -
    have "addressed x sub \<Longrightarrow> ok x"
      if "ev_application_id ev = [] \<or> ev_application_id ev \<notin> set (sn_muted sub)" "sendsIn (pn_kind n) (sn_notify_mode sub)"
        "\<not> digestsIn (pn_kind n) (sn_notify_mode sub)" for x
      using joined_entitled [OF sub that] n unfolding ok_def by blast
    then show ?thesis
      unfolding fan_one_def Let_def by (intro fan.keeps_rules sends_only_stmts sends_only_send) auto
  qed
  have "sends_only ok p (snd (Push env ph ev app creator agent keys p))"
  proof (cases "describe env (ph_validator ph) ev app creator agent ''en''")
    case None
    then show ?thesis by (simp add: Push_def fanout_def ret_def sends_only_refl)
  next
    case (Some n)
    show ?thesis
    proof (cases "keys = [] \<or> (\<exists>e. GetSubscriptionsForUsers env keys ?d = Inl e)")
      case True
      then show ?thesis
        using Some by (auto simp: Push_def fanout_def attempt_def on_push_def ask_def ret_def sends_only_refl)
    next
      case False
      then obtain subs where subs: "GetSubscriptionsForUsers env keys ?d = Inr subs" by (metis sum.exhaust)
      then have "subs = List.map_filter (joined_subscription keys ?d) (t_subscriptions ?d)"
        using False by (simp add: GetSubscriptionsForUsers_def result_simps)
      then have "keeps (sends_only ok) (for_each (?go (pn_kind n)) subs)"
        using one [OF Some] by (intro fan.keeps_for_each) simp
      then have "sends_only ok p (snd (for_each (?go (pn_kind n)) subs p))" by (simp add: keeps_def)
      then show ?thesis
        using Some False subs by (simp add: Push_def fanout_def attempt_def on_push_def ask_def)
    qed
  qed
  then show ?thesis unfolding ok_def .
qed

text \<open>
  C17. A push is delivered only to a live device of an account that was to be told, which has not
  muted the application on that subscription and whose mode lets the kind of this event through at
  once; a revoked device, a muted application, a chat-only or a daily account get nothing. Whatever
  the push services answer, only subscriptions and pending digests change in the tables.
\<close>
theorem push_entitled:
  "\<exists>new. pz_sent (snd (Push env ph ev app creator agent keys p)) = new @ pz_sent p
     \<and> (\<forall>x \<in> set new. \<exists>n sub. describe env (ph_validator ph) ev app creator agent ''en'' = Some n
          \<and> entitled (nd_db (pz_node p)) ev (pn_kind n) keys sub \<and> addressed x sub)
     \<and> (\<exists>ss gs. pz_node (snd (Push env ph ev app creator agent keys p))
          = (pz_node p)\<lparr>nd_db := (nd_db (pz_node p))\<lparr>t_subscriptions := ss, t_digest_pending := gs\<rparr>\<rparr>)"
  using push_sends_only [of env ph ev app creator agent p keys] unfolding sends_only_def list_all_iff by blast

lemma push_changes:
  "\<exists>ss gs. pz_node (snd (Push env ph ev app creator agent keys p))
     = (pz_node p)\<lparr>nd_db := (nd_db (pz_node p))\<lparr>t_subscriptions := ss, t_digest_pending := gs\<rparr>\<rparr>"
  using push_sends_only [of env ph ev app creator agent p keys] unfolding sends_only_def by blast

subsection \<open>One digest a day\<close>

text \<open>\<open>sent_kept p q\<close>: no account's digest time went back.\<close>

definition sent_since :: "string \<Rightarrow> int \<Rightarrow> db \<Rightarrow> bool" where
  "sent_since key t d \<longleftrightarrow> (\<forall>u \<in> set (t_users d). us_public_key u = key \<longrightarrow> t \<le> us_digest_sent_at u)"

definition sent_kept :: "push_state \<Rightarrow> push_state \<Rightarrow> bool" where
  "sent_kept p q \<longleftrightarrow> (\<forall>key t. sent_since key t (nd_db (pz_node p)) \<longrightarrow> sent_since key t (nd_db (pz_node q)))"

interpretation dig: state_relation sent_kept
  by unfold_locales (auto simp: sent_kept_def)

lemma same_users_kept: "t_users (nd_db (pz_node q)) = t_users (nd_db (pz_node p)) \<Longrightarrow> sent_kept p q"
  by (simp add: sent_kept_def sent_since_def)

lemma sends_only_kept: "sends_only ok p q \<Longrightarrow> sent_kept p q"
  by (rule same_users_kept) (auto simp: sends_only_def)

lemma claimed_rows:
  assumes "ClaimDigest env key dl nw d = Inr ((rows, claimed), d1)"
  shows "t_users d1 = (if claimed then update_where (digest_due key dl) (\<lambda>u. u\<lparr>us_digest_sent_at := nw\<rparr>) (t_users d) else t_users d)"
    and "claimed \<longleftrightarrow> find (digest_due key dl) (t_users d) \<noteq> None" and "\<not> claimed \<Longrightarrow> rows = [] \<and> d1 = d"
  using assms unfolding ClaimDigest_def by (auto simp: result_simps Let_def split: option.splits)

lemma claim_kept:
  assumes "ClaimDigest env key dl nw d = Inr (x, d1)" and "dl \<le> nw" and "sent_since k t d"
  shows "sent_since k t d1"
proof -
  obtain rows claimed where x: "x = (rows, claimed)" by (cases x)
  from claimed_rows(1) [OF assms(1) [unfolded x]] assms(2,3) show ?thesis
    by (fastforce simp: sent_since_def in_update_where digest_due_def split: if_splits)
qed

text \<open>The digest hour of the day before is not after now: what the time zones promise.\<close>

definition zone_ok :: "push_host \<Rightarrow> bool" where
  "zone_ok ph \<longleftrightarrow> (\<forall>loc t. ph_instant ph loc (ph_day ph loc t - 1) digestHour \<le> t)"

lemma lastDigestAt_past: "zone_ok ph \<Longrightarrow> lastDigestAt ph nw loc \<le> nw"
  by (simp add: lastDigestAt_def zone_ok_def Let_def)

lemma kept_send: "keeps sent_kept (send env ph sub payload opts)"
  using sends_only_send [of sub "\<lambda>_. True"] sends_only_kept unfolding keeps_def by blast

lemma kept_claim: "dl \<le> nw \<Longrightarrow> keeps sent_kept (on_push (exec_ret (ClaimDigest env key dl nw)))"
  unfolding keeps_def sent_kept_def on_push_def exec_ret_def
  by (auto split: sum.splits prod.splits intro: claim_kept)

lemma kept_ask: "keeps sent_kept (pask q)"
  by (rule dig.keeps_same) (simp add: pask_same)

lemma kept_digestFor:
  assumes "zone_ok ph"
  shows "keeps sent_kept (digestFor env ph url nw u)"
proof -
  have w: "keeps sent_kept (warn_zone env u)" by (simp add: keeps_def warn_zone_def same_users_kept)
  show ?thesis unfolding digestFor_def Let_def digest_to_def
    by (intro dig.keeps_rules dig.keeps_for_each kept_send kept_ask kept_claim lastDigestAt_past assms w)
qed

lemma kept_tick: "zone_ok ph \<Longrightarrow> keeps sent_kept (digest_tick env ph url)"
  unfolding digest_tick_def by (intro dig.keeps_rules dig.keeps_for_each kept_digestFor kept_ask)

lemma kept_push: "sent_kept p (snd (Push env ph ev app creator agent keys p))"
  using push_changes [of env ph ev app creator agent keys p] by (auto intro: same_users_kept)

text \<open>The steps of the component: an event is pushed, the scheduler ticks, a subscription changes.\<close>

inductive push_step :: "push_state \<Rightarrow> push_state \<Rightarrow> bool" where
  pushed: "push_step p (snd (Push env ph ev app creator agent keys p))"
| ticked: "zone_ok ph \<Longrightarrow> push_step p (snd (digest_tick env ph url p))"
| created: "push_step p (p\<lparr>pz_node := snd (epCreateSubscription env h u b (pz_node p))\<rparr>)"
| updated: "push_step p (p\<lparr>pz_node := snd (epUpdateSubscription env h u sid b2 (pz_node p))\<rparr>)"
| deleted: "push_step p (p\<lparr>pz_node := snd (epDeleteSubscription env u sid (pz_node p))\<rparr>)"

lemma insert_subscription_users: "insert_subscription r d = Inr d1 \<Longrightarrow> t_users d1 = t_users d"
  by (auto simp: insert_subscription_def result_simps)

lemma subscription_users:
  "repoCreateSubscription env s d = Inr d1 \<Longrightarrow> t_users d1 = t_users d"
  "UpsertWSSubscription env s d = Inr (i, d1) \<Longrightarrow> t_users d1 = t_users d"
  "repoUpdateSubscription env s d = Inr d1 \<Longrightarrow> t_users d1 = t_users d"
  "repoDeleteSubscription env i v d = Inr d1 \<Longrightarrow> t_users d1 = t_users d"
  unfolding repoCreateSubscription_def UpsertWSSubscription_def repoUpdateSubscription_def repoDeleteSubscription_def
  by (auto simp: result_simps Let_def drop_subscriptions_def dest: insert_subscription_users split: option.splits)

lemma handler_users:
  "t_users (nd_db (snd (epCreateSubscription env h u b n))) = t_users (nd_db n)"
  "t_users (nd_db (snd (epUpdateSubscription env h u sid b2 n))) = t_users (nd_db n)"
  "t_users (nd_db (snd (epDeleteSubscription env u sid n))) = t_users (nd_db n)"
  unfolding epCreateSubscription_def epUpdateSubscription_def epDeleteSubscription_def hsome_def hguard_def hcall_def answer_def
    Let_def exec_def exec_ret_def ask_def
  by (auto split: option.splits sum.splits prod.splits dest: subscription_users)

lemma push_step_kept: "push_step p q \<Longrightarrow> sent_kept p q"
proof (induction rule: push_step.induct)
  case (ticked ph p env url)
  then show ?case using kept_tick unfolding keeps_def by blast
qed (simp_all add: kept_push same_users_kept handler_users)


subsection \<open>A small space with subscriptions\<close>

text \<open>Olga's laptop takes pushes over its socket; Lena joins an application of hers.\<close>

definition demo_row :: "string \<Rightarrow> string \<Rightarrow> string \<Rightarrow> subscription_row" where
  "demo_row sid device transport = \<lparr>ps_id = sid, ps_device = device, ps_endpoint = sid, ps_p256dh = ''p'', ps_auth = ''a'', ps_label = None,
     ps_muted = [], ps_transport = transport, ps_created_at = 1600000000, ps_last_success_at = None, ps_failure_count = 0\<rparr>"

definition demo_added :: event where
  "demo_added = \<lparr>ev_id = ''e9'', ev_created_at = 1700000000, ev_application_id = ''app'', ev_sequence = 4, ev_type = EventTypeMemberAdded,
     ev_creator = ''k'', ev_version = 1, ev_data = Some [(''userDisplayName'', GStr ''Lena'')], ev_space_id = []\<rparr>"

definition demo_pusher :: push_host where
  "demo_pusher = \<lparr>ph_host = (demo_host [])\<lparr>url_parts := (\<lambda>_. Some (''https'', ''push.example'', [], False))\<rparr>,
     ph_send = (\<lambda>_ _ _ _. Inr 201), ph_socket = Some (\<lambda>_ _ _. True), ph_sha256 = (\<lambda>s. s), ph_day = (\<lambda>_ _. 0), ph_instant = (\<lambda>_ _ _. 0),
     ph_validator = None\<rparr>"

definition demo_push :: push_state where
  "demo_push = \<lparr>pz_node = demo_node (demo_home\<lparr>t_subscriptions := [demo_row ''s2'' ''o'' TransportWS]\<rparr>),
     pz_sent = [], pz_warned = []\<rparr>"

definition demo_daily :: db where
  "demo_daily = demo_home\<lparr>t_users := [demo_olga\<lparr>us_notify_mode := NotifyModeDaily\<rparr>],
     t_subscriptions := [demo_row ''s2'' ''o'' TransportWS],
     t_digest_pending := [\<lparr>dg_subscription = ''s2'', dg_application = ''app'', dg_count = 3, dg_last_at = 1700000000\<rparr>]\<rparr>"

definition demo_sub :: Subscription where
  "demo_sub = (subscription_of_row (demo_row ''s2'' ''o'' TransportWS))\<lparr>sn_user := ''o'', sn_notify_mode := ''all''\<rparr>"

lemma demo_Lena: "cut_text ''Lena'' = ''Lena''"
proof -
  have "runes ''Lena'' = [(76, ''L''), (101, ''e''), (110, ''n''), (97, ''a'')]" by code_simp
  then show ?thesis
    by (simp add: cut_text_def Fields_def rune_fields.simps space_rune_def IsSpace_def bytes_of_def maxWhatRunes_def)
qed

lemma demo_describe:
  "describe demo_env val demo_added None ''Kim'' False ''en'' = Some (plain_notice KindMember ''e9'' (tx_newMember textsEN ''Lena''))"
  by (simp add: describe_def demo_added_def data_of_def mindex_def demo_Lena textsFor_def or_text_def)

lemma demo_subs: "GetSubscriptionsForUsers demo_env [''o''] (nd_db (pz_node demo_push)) = Inr [demo_sub]"
  by (simp add: GetSubscriptionsForUsers_def demo_push_def demo_row_def account_demo_defs demo_env_def stmt_def joined_subscription_def
    device_row_of_def user_row_of_def subscription_of_row_def map_filter_simps demo_sub_def)

lemma demo_sent: "pz_sent (snd (Push demo_env demo_pusher demo_added None ''Kim'' False [''o''] demo_push)) \<noteq> []"
proof -
  have "pz_sent (snd (fan_one demo_env demo_pusher demo_added None ''Kim'' False KindMember demo_sub demo_push)) \<noteq> []"
    by (simp add: fan_one_def demo_sub_def subscription_of_row_def demo_row_def digestsIn_def sendsIn_def send_def deliverWS_def
        demo_pusher_def Let_def)
  then show ?thesis
    by (auto simp: Push_def fanout_def demo_describe demo_subs attempt_def on_push_def ask_def plain_notice_def andThen_def ret_def
        split: prod.splits sum.splits)
qed

lemma push_entitled_witness:
  "pz_sent (snd (Push demo_env demo_pusher demo_added None ''Kim'' False [''o''] demo_push)) \<noteq> []
   \<and> (\<exists>sub. entitled (nd_db (pz_node demo_push)) demo_added KindMember [''o''] sub)"
proof -
  let ?q = "snd (Push demo_env demo_pusher demo_added None ''Kim'' False [''o''] demo_push)"
  obtain new where new: "pz_sent ?q = new @ pz_sent demo_push"
      and all: "\<forall>x \<in> set new. \<exists>n sub. describe demo_env (ph_validator demo_pusher) demo_added None ''Kim'' False ''en'' = Some n
          \<and> entitled (nd_db (pz_node demo_push)) demo_added (pn_kind n) [''o''] sub \<and> addressed x sub"
    using push_entitled [of demo_env demo_pusher demo_added None "''Kim''" False "[''o'']" demo_push] by blast
  have "new \<noteq> []" using demo_sent new by (auto simp: demo_push_def)
  then show ?thesis using demo_sent all by (cases new) (auto simp: demo_describe plain_notice_def)
qed


end
