(* ===== verification/OAuthStore.thy ===== *)
theory OAuthStore
  imports Login PushTexts
begin

section \<open>OAuth: clients, pending requests and codes\<close>

text \<open>
  \<open>internal/oauth/oauth.go\<close> and \<open>client_metadata.go\<close>. A client is the document behind its \<open>https\<close> URL; an
  authorization request waits in memory for the consent of an account, and an approved one becomes a
  code of one minute, kept under its hash. Times are nanoseconds.
\<close>

abbreviation scopeMCP :: string where "scopeMCP \<equiv> ''mcp''"
abbreviation scopeOfflineAccess :: string where "scopeOfflineAccess \<equiv> ''offline_access''"

definition pendingTTL :: int where "pendingTTL = 600 * 1000000000"
definition codeTTL :: int where "codeTTL = 60 * 1000000000"
definition maxPending :: nat where "maxPending = 1000"
definition maxPendingPerClientIP :: nat where "maxPendingPerClientIP = 20"
definition maxMetadataLen :: nat where "maxMetadataLen = 5 * 1024"
definition maxClientName :: nat where "maxClientName = 100"

datatype oauth_code = CodeInvalidRequest | CodeInvalidGrant | CodeInvalidScope | CodeInvalidTarget
  | CodeUnsupportedGrantType | CodeServerError

text \<open>An error is an \<open>*oauth.Error\<close> or any other.\<close>

datatype oauth_error = OAuthError oauth_code string | OtherError goerr

type_synonym 'a oauth_result = "oauth_error + 'a"

definition newError :: "oauth_code \<Rightarrow> string \<Rightarrow> oauth_error" where
  "newError = OAuthError"

text \<open>A URL as \<open>net/url\<close> takes it apart.\<close>

record url =
  ur_scheme :: string
  ur_host :: string
  ur_hostname :: string
  ur_path :: string
  ur_escaped :: string
  ur_query :: string
  ur_userinfo :: bool

record oauth_host =
  oh_host :: host
  oh_url :: "string \<Rightarrow> url option"                       \<comment> \<open>\<open>url.Parse\<close>\<close>
  oh_fetch :: "string \<Rightarrow> (int \<times> string) result"           \<comment> \<open>the response to a GET: status and body\<close>
  oh_json :: "string \<Rightarrow> gmap option"                     \<comment> \<open>\<open>json.Unmarshal\<close> into a map\<close>
  oh_sha256 :: "string \<Rightarrow> string"
  oh_query :: "string \<Rightarrow> string"                         \<comment> \<open>\<open>url.QueryEscape\<close>\<close>

subsection \<open>Clients\<close>

definition contains_char :: "char \<Rightarrow> string \<Rightarrow> bool" where
  "contains_char c s \<longleftrightarrow> c \<in> set s"

fun split_slash :: "string \<Rightarrow> string list" where
  "split_slash [] = [[]]"
| "split_slash (c # s) =
     (if c = CHR ''/'' then [] # split_slash s else case split_slash s of [] \<Rightarrow> [[c]] | n # ns \<Rightarrow> (c # n) # ns)"

definition has_dot_segment :: "string \<Rightarrow> bool" where
  "has_dot_segment p \<longleftrightarrow> list_ex (\<lambda>seg. seg = ''.'' \<or> seg = ''..'') (split_slash p)"

definition parseClientID :: "oauth_host \<Rightarrow> string \<Rightarrow> url result" where
  "parseClientID oh raw =
     (case oh_url oh raw of None \<Rightarrow> Inl (errorf ''client_id is not a valid URL'')
      | Some u \<Rightarrow>
          rguard (\<not> contains_char (CHR ''#'') raw) (errorf ''client_id is not a valid URL'')
         (rguard (ur_scheme u = ''https'' \<and> ur_hostname u \<noteq> []) (errorf ''client_id must be an https URL'')
         (rguard (\<not> ur_userinfo u) (errorf ''client_id must not contain credentials'')
         (rguard (ur_path u \<noteq> [] \<and> ur_path u \<noteq> ''/'') (errorf ''client_id must have a path'')
         (rguard (\<not> has_dot_segment (ur_path u) \<and> \<not> has_dot_segment (ur_escaped u)) (errorf ''client_id must not contain dot segments'')
           (Inr u))))))"

record clientInfo =
  ci_cid :: string
  ci_host :: string
  ci_name :: string
  ci_uri :: string
  ci_logo :: string
  ci_redirects :: "string list"

definition fetch :: "oauth_host \<Rightarrow> string \<Rightarrow> gmap result" where
  "fetch oh clientID =
     rbind (map_err (wrapf ''failed to fetch client metadata'') (oh_fetch oh clientID)) (\<lambda>(status, body).
     rguard (status = 200) (errorf ''client metadata status'')
    (rguard (length (take (maxMetadataLen + 1) body) \<le> maxMetadataLen) (errorf ''client metadata too large'')
    (case oh_json oh (take (maxMetadataLen + 1) body) of None \<Rightarrow> Inl (errorf ''client metadata is not a JSON object'') | Some doc \<Rightarrow> Inr doc)))"

definition isPublicClient :: "gmap \<Rightarrow> bool" where
  "isPublicClient doc \<longleftrightarrow>
     mindex doc ''token_endpoint_auth_method'' = GStr ''none''
     \<or> (case as_list (mindex doc ''token_endpoint_auth_methods_supported'') of None \<Rightarrow> False
        | Some xs \<Rightarrow> list_ex (\<lambda>v. v = GStr ''none'') xs)"

text \<open>Control characters go, by \<open>strings.Map\<close>; at most a hundred runes stay.\<close>

definition sanitizeName :: "string \<Rightarrow> string" where
  "sanitizeName s =
     (let t = TrimSpace (concat (map rune_bytes (filter (\<lambda>r. \<not> IsControl (fst r)) (runes s)))); r = runes t
      in if length r > maxClientName then TrimSpace (concat (map rune_bytes (take maxClientName r))) else t)"

definition httpsOnly :: "oauth_host \<Rightarrow> gany \<Rightarrow> string" where
  "httpsOnly oh v =
     (let s = str_or_empty v
      in case oh_url oh s of None \<Rightarrow> [] | Some u \<Rightarrow> if ur_scheme u \<noteq> ''https'' \<or> ur_hostname u = [] then [] else s)"

fun redirect_strings :: "gany list \<Rightarrow> string list result" where
  "redirect_strings [] = Inr []"
| "redirect_strings (GStr s # vs) = rbind (redirect_strings vs) (\<lambda>ss. Inr (s # ss))"
| "redirect_strings (_ # vs) = Inl (errorf ''redirect_uris must be strings'')"

definition parseClientDoc :: "oauth_host \<Rightarrow> string \<Rightarrow> gmap \<Rightarrow> clientInfo result" where
  "parseClientDoc oh clientID doc =
     rbind (parseClientID oh clientID) (\<lambda>u.
     rguard (str_or_empty (mindex doc ''client_id'') = clientID) (errorf ''client metadata client_id does not match the URL'')
    (rguard (map_of doc ''client_secret'' = None) (errorf ''client metadata must not contain a client_secret'')
    (let raw = (case as_list (mindex doc ''redirect_uris'') of Some xs \<Rightarrow> xs | None \<Rightarrow> []) in
     rguard (raw \<noteq> []) (errorf ''client metadata has no redirect_uris'')
    (rbind (redirect_strings raw) (\<lambda>uris.
     rguard (isPublicClient doc) (errorf ''only public clients are supported'')
    (let name = sanitizeName (str_or_empty (mindex doc ''client_name'')) in
     Inr \<lparr>ci_cid = clientID, ci_host = ur_host u, ci_name = (if name = [] then ur_host u else name),
          ci_uri = httpsOnly oh (mindex doc ''client_uri''), ci_logo = httpsOnly oh (mindex doc ''logo_uri''), ci_redirects = uris\<rparr>))))))"

definition isLoopbackHost :: "string \<Rightarrow> bool" where
  "isLoopbackHost h \<longleftrightarrow> h = ''127.0.0.1'' \<or> h = ''::1'' \<or> h = ''localhost''"

definition parseRedirectURI :: "oauth_host \<Rightarrow> string \<Rightarrow> url result" where
  "parseRedirectURI oh raw =
     (case oh_url oh raw of None \<Rightarrow> Inl (errorf ''redirect_uri is not a valid URL'')
      | Some u \<Rightarrow>
          rguard (\<not> (contains_char (CHR ''#'') raw \<or> ur_hostname u = [] \<or> ur_userinfo u)) (errorf ''redirect_uri is not a valid URL'')
         (rguard (ur_scheme u = ''https'' \<or> (ur_scheme u = ''http'' \<and> isLoopbackHost (ur_hostname u)))
            (errorf ''redirect_uri must be https or http on a loopback host'') (Inr u)))"

text \<open>A loopback redirect may use any port.\<close>

definition loopback_match :: "oauth_host \<Rightarrow> url \<Rightarrow> string \<Rightarrow> bool" where
  "loopback_match oh requested e \<longleftrightarrow>
     (case oh_url oh e of None \<Rightarrow> False
      | Some u \<Rightarrow> ur_scheme u = ''http'' \<and> \<not> ur_userinfo u \<and> \<not> contains_char (CHR ''#'') e
          \<and> ur_hostname u = ur_hostname requested \<and> ur_escaped u = ur_escaped requested \<and> ur_query u = ur_query requested)"

definition redirectMatches :: "oauth_host \<Rightarrow> url \<Rightarrow> string \<Rightarrow> string list \<Rightarrow> bool" where
  "redirectMatches oh requested raw registered \<longleftrightarrow>
     list_ex (\<lambda>e. e = raw \<or> (ur_scheme requested = ''http'' \<and> loopback_match oh requested e)) registered"

subsection \<open>The store\<close>

record pendingRequest =
  pq_client :: string
  pq_source :: string
  pq_client_name :: string
  pq_client_host :: string
  pq_client_uri :: string
  pq_logo :: string
  pq_redirect :: string
  pq_redirect_host :: string
  pq_loopback :: bool
  pq_challenge :: string
  pq_state :: string
  pq_scope :: string
  pq_user :: string
  pq_expires :: int

record authCode =
  cd_client :: string
  cd_client_name :: string
  cd_redirect :: string
  cd_challenge :: string
  cd_user :: string
  cd_device :: string
  cd_used :: bool
  cd_reuse_seen :: bool
  cd_expires :: int

record store =
  sto_pending :: "(string \<times> pendingRequest) list"
  sto_codes :: "(string \<times> authCode) list"

definition randomToken :: "host \<Rightarrow> string result" where
  "randomToken h = rbind (map_err (wrapf ''failed to generate random token'') (rand_bytes h)) (\<lambda>b. Inr (b64_encode url_alphabet [] b))"

definition sweep :: "int \<Rightarrow> store \<Rightarrow> store" where
  "sweep t s = s\<lparr>sto_pending := filter (\<lambda>(i, p). \<not> pq_expires p < t) (sto_pending s),
                sto_codes := filter (\<lambda>(i, c). \<not> cd_expires c < t) (sto_codes s)\<rparr>"

definition of_client_ip :: "string \<Rightarrow> string \<Rightarrow> string \<times> pendingRequest \<Rightarrow> bool" where
  "of_client_ip clientID sourceIP e \<longleftrightarrow> pq_client (snd e) = clientID \<and> pq_source (snd e) = sourceIP"

text \<open>The oldest request of the client and address that no account has looked at; the first found wins a tie.\<close>

fun oldest :: "(string \<times> pendingRequest) list \<Rightarrow> (string \<times> int) option \<Rightarrow> (string \<times> int) option" where
  "oldest [] best = best"
| "oldest ((i, p) # es) best =
     oldest es (if pq_user p \<noteq> [] then best
       else case best of None \<Rightarrow> Some (i, pq_expires p)
         | Some (j, t) \<Rightarrow> if j = [] \<or> pq_expires p < t then Some (i, pq_expires p) else best)"

definition evictOldestOfClientIP :: "string \<Rightarrow> string \<Rightarrow> store \<Rightarrow> store option" where
  "evictOldestOfClientIP clientID sourceIP s =
     (let mine = filter (of_client_ip clientID sourceIP) (sto_pending s)
      in if length mine < maxPendingPerClientIP then Some s
         else case oldest mine None of None \<Rightarrow> None
           | Some (i, _) \<Rightarrow> if i = [] then None else Some (s\<lparr>sto_pending := AList.delete i (sto_pending s)\<rparr>))"

type_synonym 'a store_op = "store \<Rightarrow> 'a result \<times> store"

definition addPending :: "env \<Rightarrow> host \<Rightarrow> pendingRequest \<Rightarrow> string store_op" where
  "addPending env h p s =
     (case randomToken h of Inl e \<Rightarrow> (Inl e, s)
      | Inr i \<Rightarrow>
          (let t = now_ns env h; s1 = sweep t s
           in case evictOldestOfClientIP (pq_client p) (pq_source p) s1 of
                None \<Rightarrow> (Inl (errw ErrStoreFull []), s1)
              | Some s2 \<Rightarrow>
                  if length (sto_pending s2) \<ge> maxPending then (Inl (errw ErrStoreFull []), s2)
                  else (Inr i, s2\<lparr>sto_pending := AList.update i (p\<lparr>pq_expires := t + pendingTTL\<rparr>) (sto_pending s2)\<rparr>)))"

text \<open>The first account that looks at a request owns it.\<close>

definition lookupPending :: "env \<Rightarrow> host \<Rightarrow> string \<Rightarrow> string \<Rightarrow> pendingRequest store_op" where
  "lookupPending env h i key s =
     (case map_of (sto_pending s) i of
        None \<Rightarrow> (Inl (errw ErrRequestNotFound []), s\<lparr>sto_pending := AList.delete i (sto_pending s)\<rparr>)
      | Some p \<Rightarrow>
          if pq_expires p < now_ns env h
          then (Inl (errw ErrRequestNotFound []), s\<lparr>sto_pending := AList.delete i (sto_pending s)\<rparr>)
          else if pq_user p = []
          then (Inr (p\<lparr>pq_user := key\<rparr>), s\<lparr>sto_pending := AList.update i (p\<lparr>pq_user := key\<rparr>) (sto_pending s)\<rparr>)
          else if pq_user p \<noteq> key then (Inl (errw ErrWrongUser []), s)
          else (Inr p, s))"

definition getPending :: "env \<Rightarrow> host \<Rightarrow> string \<Rightarrow> string \<Rightarrow> pendingRequest store_op" where
  "getPending = lookupPending"

definition takePending :: "env \<Rightarrow> host \<Rightarrow> string \<Rightarrow> string \<Rightarrow> pendingRequest store_op" where
  "takePending env h i key s =
     (case lookupPending env h i key s of
        (Inl e, s1) \<Rightarrow> (Inl e, s1)
      | (Inr p, s1) \<Rightarrow> (Inr p, s1\<lparr>sto_pending := AList.delete i (sto_pending s1)\<rparr>))"

definition hashCode :: "host \<Rightarrow> string \<Rightarrow> string" where
  "hashCode h code = sha256_hex h code"

definition addCode :: "env \<Rightarrow> host \<Rightarrow> authCode \<Rightarrow> string store_op" where
  "addCode env h c s =
     (case randomToken h of Inl e \<Rightarrow> (Inl e, s)
      | Inr code \<Rightarrow>
          (let s1 = sweep (now_ns env h) s
           in (Inr code, s1\<lparr>sto_codes := AList.update (hashCode h code) (c\<lparr>cd_expires := now_ns env h + codeTTL\<rparr>) (sto_codes s1)\<rparr>)))"

text \<open>The entry, and whether it had been used before; \<open>None\<close> when it is not found.\<close>

definition consumeCode :: "env \<Rightarrow> host \<Rightarrow> string \<Rightarrow> store \<Rightarrow> (authCode \<times> bool) option \<times> store" where
  "consumeCode env h code s =
     (case map_of (sto_codes s) (hashCode h code) of None \<Rightarrow> (None, s)
      | Some c \<Rightarrow>
          if cd_expires c < now_ns env h then (None, s)
          else (let c1 = c\<lparr>cd_used := True, cd_reuse_seen := (cd_used c \<or> cd_reuse_seen c)\<rparr>
                in (Some (c1, cd_used c), s\<lparr>sto_codes := AList.update (hashCode h code) c1 (sto_codes s)\<rparr>)))"

definition unmarkCode :: "host \<Rightarrow> string \<Rightarrow> store \<Rightarrow> store" where
  "unmarkCode h code s =
     (case map_of (sto_codes s) (hashCode h code) of None \<Rightarrow> s
      | Some c \<Rightarrow> if cd_reuse_seen c then s
          else s\<lparr>sto_codes := AList.update (hashCode h code) (c\<lparr>cd_used := False\<rparr>) (sto_codes s)\<rparr>)"

definition setCodeDevice :: "host \<Rightarrow> string \<Rightarrow> string \<Rightarrow> store \<Rightarrow> bool \<times> store" where
  "setCodeDevice h code device s =
     (case map_of (sto_codes s) (hashCode h code) of None \<Rightarrow> (False, s)
      | Some c \<Rightarrow> (cd_reuse_seen c, s\<lparr>sto_codes := AList.update (hashCode h code) (c\<lparr>cd_device := device\<rparr>) (sto_codes s)\<rparr>))"

end
