(* ===== verification/OAuth.thy ===== *)
theory OAuth
  imports OAuthStore Spaces
begin

section \<open>OAuth: authorization, consent and tokens\<close>

text \<open>
  \<open>internal/oauth/oauth_service.go\<close> and \<open>oauth_endpoints.go\<close>. The exchange of a code for tokens is
  three sections of its own: the code is consumed under the lock of the store, the tokens are issued by the
  agent service, the device is noted with the code under the lock again. Requests interleave between
  them, so each section is a definition, and \<open>exchangeCode\<close> runs them in a row.
\<close>

record oauth_state =
  oa_store :: store
  oa_node :: node

record oauth_service =
  osv_url :: string       \<comment> \<open>\<open>externalURL\<close>\<close>
  osv_app_url :: string

definition os_issuer :: "oauth_service \<Rightarrow> string" where
  "os_issuer sv = agent_issuer (osv_url sv)"

definition os_resource :: "oauth_service \<Rightarrow> string" where
  "os_resource sv = os_issuer sv @ ''/mcp''"

record authorizeParams =
  az_client :: string
  az_redirect :: string
  az_response_type :: string
  az_challenge :: string
  az_method :: string
  az_state :: string
  az_scope :: string
  az_resource :: "string option"     \<comment> \<open>the parameter, if the request has it\<close>
  az_source :: string

record tokenParams =
  tp_grant :: string
  tp_code :: string
  tp_redirect :: string
  tp_client :: string
  tp_verifier :: string
  tp_refresh :: string
  tp_scope :: "string option"
  tp_resource :: "string option"

record TokenResponse =
  tr_access :: string
  tr_type :: string
  tr_expires_in :: int
  tr_refresh :: string
  tr_scope :: string

record RequestInfo =
  ri_client :: string
  ri_host :: string
  ri_name :: string
  ri_uri :: string
  ri_logo :: string
  ri_redirect_host :: string
  ri_loopback :: bool
  ri_scope :: string
  ri_expires :: int

subsection \<open>Checks\<close>

definition checkResource :: "oauth_service \<Rightarrow> string option \<Rightarrow> oauth_error option" where
  "checkResource sv resource =
     (case resource of None \<Rightarrow> None
      | Some r \<Rightarrow> if r \<noteq> os_resource sv then Some (newError CodeInvalidTarget ''resource must be'') else None)"

definition checkScope :: "string \<Rightarrow> oauth_error option" where
  "checkScope scope =
     (if list_ex (\<lambda>tok. tok \<noteq> scopeMCP \<and> tok \<noteq> scopeOfflineAccess) (Fields scope)
      then Some (newError CodeInvalidScope ''unsupported scope'') else None)"

definition isBase64URL :: "nat \<Rightarrow> bool" where
  "isBase64URL r \<longleftrightarrow> 65 \<le> r \<and> r \<le> 90 \<or> 97 \<le> r \<and> r \<le> 122 \<or> 48 \<le> r \<and> r \<le> 57 \<or> r = 45 \<or> r = 95"

definition validChallenge :: "string \<Rightarrow> bool" where
  "validChallenge c \<longleftrightarrow> length c = 43 \<and> list_all (\<lambda>r. isBase64URL (fst r)) (runes c)"

definition validVerifier :: "string \<Rightarrow> bool" where
  "validVerifier v \<longleftrightarrow> 43 \<le> length v \<and> length v \<le> 128
     \<and> list_all (\<lambda>r. isBase64URL (fst r) \<or> fst r = 46 \<or> fst r = 126) (runes v)"

definition pkceMatches :: "oauth_host \<Rightarrow> string \<Rightarrow> string \<Rightarrow> bool" where
  "pkceMatches oh verifier challenge \<longleftrightarrow> b64_encode url_alphabet [] (oh_sha256 oh verifier) = challenge"

subsection \<open>Authorization\<close>

definition check_authorize :: "oauth_host \<Rightarrow> oauth_service \<Rightarrow> authorizeParams \<Rightarrow> (clientInfo \<times> url) oauth_result" where
  "check_authorize oh sv p =
     (case parseClientID oh (az_client p) of Inl e \<Rightarrow> Inl (newError CodeInvalidRequest (err_msg e))
      | Inr _ \<Rightarrow>
     (case fetch oh (az_client p) of Inl e \<Rightarrow> Inl (newError CodeInvalidRequest ''client metadata document could not be fetched'')
      | Inr doc \<Rightarrow>
     (case parseClientDoc oh (az_client p) doc of Inl e \<Rightarrow> Inl (newError CodeInvalidRequest (err_msg e))
      | Inr client \<Rightarrow>
     (case parseRedirectURI oh (az_redirect p) of Inl e \<Rightarrow> Inl (newError CodeInvalidRequest (err_msg e))
      | Inr redirect \<Rightarrow>
         if \<not> redirectMatches oh redirect (az_redirect p) (ci_redirects client)
         then Inl (newError CodeInvalidRequest ''redirect_uri is not registered for this client'')
         else if az_response_type p \<noteq> ''code'' then Inl (newError CodeInvalidRequest ''response_type must be code'')
         else if az_method p \<noteq> ''S256'' then Inl (newError CodeInvalidRequest ''code_challenge_method must be S256'')
         else if \<not> validChallenge (az_challenge p) then Inl (newError CodeInvalidRequest ''code_challenge is invalid'')
         else (case checkResource sv (az_resource p) of Some e \<Rightarrow> Inl e
          | None \<Rightarrow> (case checkScope (az_scope p) of Some e \<Rightarrow> Inl e | None \<Rightarrow> Inr (client, redirect)))))))"

definition new_pending :: "authorizeParams \<Rightarrow> clientInfo \<Rightarrow> url \<Rightarrow> pendingRequest" where
  "new_pending p client redirect =
     \<lparr>pq_client = ci_cid client, pq_source = az_source p, pq_client_name = ci_name client, pq_client_host = ci_host client,
      pq_client_uri = ci_uri client, pq_logo = ci_logo client, pq_redirect = az_redirect p, pq_redirect_host = ur_host redirect,
      pq_loopback = (ur_scheme redirect = ''http''), pq_challenge = az_challenge p, pq_state = az_state p, pq_scope = scopeMCP,
      pq_user = [], pq_expires = 0\<rparr>"

definition trim_slashes :: "string \<Rightarrow> string" where
  "trim_slashes s = rev (dropWhile (\<lambda>c. c = CHR ''/'') (rev s))"

definition Authorize :: "env \<Rightarrow> oauth_host \<Rightarrow> oauth_service \<Rightarrow> authorizeParams \<Rightarrow> oauth_state \<Rightarrow> string oauth_result \<times> oauth_state" where
  "Authorize env oh sv p st =
     (case check_authorize oh sv p of Inl e \<Rightarrow> (Inl e, st)
      | Inr (client, redirect) \<Rightarrow>
          (case addPending env (oh_host oh) (new_pending p client redirect) (oa_store st) of
             (Inl e, s1) \<Rightarrow> (Inl (OtherError e), st\<lparr>oa_store := s1\<rparr>)
           | (Inr i, s1) \<Rightarrow> (Inr (trim_slashes (osv_app_url sv) @ ''/#/oauth/consent?space='' @ oh_query oh (os_issuer sv)
                @ ''&request='' @ oh_query oh i), st\<lparr>oa_store := s1\<rparr>)))"

subsection \<open>Consent\<close>

definition GetRequest :: "env \<Rightarrow> oauth_host \<Rightarrow> string \<Rightarrow> string \<Rightarrow> oauth_state \<Rightarrow> RequestInfo result \<times> oauth_state" where
  "GetRequest env oh i key st =
     (case getPending env (oh_host oh) i key (oa_store st) of
        (Inl e, s1) \<Rightarrow> (Inl e, st\<lparr>oa_store := s1\<rparr>)
      | (Inr p, s1) \<Rightarrow> (Inr \<lparr>ri_client = pq_client p, ri_host = pq_client_host p, ri_name = pq_client_name p, ri_uri = pq_client_uri p,
           ri_logo = pq_logo p, ri_redirect_host = pq_redirect_host p, ri_loopback = pq_loopback p, ri_scope = pq_scope p,
           ri_expires = pq_expires p div 1000000000\<rparr>, st\<lparr>oa_store := s1\<rparr>))"

text \<open>\<open>url.Values.Encode\<close>: the keys in order, escaped.\<close>

definition encode_pair :: "oauth_host \<Rightarrow> string \<times> string \<Rightarrow> string" where
  "encode_pair oh kv = oh_query oh (fst kv) @ ''='' @ oh_query oh (snd kv)"

definition redirectURL :: "oauth_host \<Rightarrow> oauth_service \<Rightarrow> pendingRequest \<Rightarrow> string \<times> string \<Rightarrow> string" where
  "redirectURL oh sv p kv =
     pq_redirect p @ (if contains_char (CHR ''?'') (pq_redirect p) then ''&'' else ''?'')
     @ join_with ''&'' (map (encode_pair oh) ([kv, (''iss'', os_issuer sv)] @ (if pq_state p \<noteq> [] then [(''state'', pq_state p)] else [])))"

definition Approve :: "env \<Rightarrow> oauth_host \<Rightarrow> oauth_service \<Rightarrow> string \<Rightarrow> string \<Rightarrow> oauth_state \<Rightarrow> string result \<times> oauth_state" where
  "Approve env oh sv i key st =
     (case getPending env (oh_host oh) i key (oa_store st) of
        (Inl e, s1) \<Rightarrow> (Inl e, st\<lparr>oa_store := s1\<rparr>)
      | (Inr _, s1) \<Rightarrow>
          (case CanAddAgent env key (nd_db (oa_node st)) of
             Inl e \<Rightarrow> (Inl e, st\<lparr>oa_store := s1\<rparr>)
           | Inr ok \<Rightarrow>
               if \<not> ok then (Inl (errw ErrAgentLimit []), st\<lparr>oa_store := s1\<rparr>)
               else (case takePending env (oh_host oh) i key s1 of
                  (Inl e, s2) \<Rightarrow> (Inl e, st\<lparr>oa_store := s2\<rparr>)
                | (Inr p, s2) \<Rightarrow>
                    (case addCode env (oh_host oh) \<lparr>cd_client = pq_client p, cd_client_name = pq_client_name p, cd_redirect = pq_redirect p,
                         cd_challenge = pq_challenge p, cd_user = key, cd_device = [], cd_used = False, cd_reuse_seen = False, cd_expires = 0\<rparr> s2 of
                       (Inl e, s3) \<Rightarrow> (Inl e, st\<lparr>oa_store := s3\<rparr>)
                     | (Inr code, s3) \<Rightarrow> (Inr (redirectURL oh sv p (''code'', code)), st\<lparr>oa_store := s3\<rparr>)))))"

definition Deny :: "env \<Rightarrow> oauth_host \<Rightarrow> oauth_service \<Rightarrow> string \<Rightarrow> string \<Rightarrow> oauth_state \<Rightarrow> string result \<times> oauth_state" where
  "Deny env oh sv i key st =
     (case takePending env (oh_host oh) i key (oa_store st) of
        (Inl e, s1) \<Rightarrow> (Inl e, st\<lparr>oa_store := s1\<rparr>)
      | (Inr p, s1) \<Rightarrow> (Inr (redirectURL oh sv p (''error'', ''access_denied'')), st\<lparr>oa_store := s1\<rparr>))"

subsection \<open>Tokens\<close>

definition tokenResponse :: "env \<Rightarrow> AgentTokens \<Rightarrow> TokenResponse" where
  "tokenResponse env t = \<lparr>tr_access = tk_access t, tr_type = ''Bearer'', tr_expires_in = max (wrap64 (tk_access_exp t - now env)) 0,
     tr_refresh = tk_refresh t, tr_scope = scopeMCP\<rparr>"

abbreviation code_invalid :: oauth_error where
  "code_invalid \<equiv> newError CodeInvalidGrant ''authorization code is invalid or expired''"

text \<open>A device is revoked; that it fails is only logged.\<close>

definition revoke_quietly :: "env \<Rightarrow> string \<Rightarrow> node \<Rightarrow> node" where
  "revoke_quietly env device n = snd (exec (repoRevokeDevice env device (now env)) n)"

text \<open>The first section: the code is consumed and its entry checked.\<close>

definition exchange_consume ::
    "env \<Rightarrow> oauth_host \<Rightarrow> oauth_service \<Rightarrow> tokenParams \<Rightarrow> oauth_state \<Rightarrow> authCode oauth_result \<times> oauth_state" where
  "exchange_consume env oh sv p st =
     (if tp_code p = [] \<or> tp_redirect p = [] \<or> tp_client p = [] \<or> tp_verifier p = []
      then (Inl (newError CodeInvalidRequest ''code, redirect_uri, client_id and code_verifier are required''), st)
      else case consumeCode env (oh_host oh) (tp_code p) (oa_store st) of
        (None, s1) \<Rightarrow> (Inl code_invalid, st\<lparr>oa_store := s1\<rparr>)
      | (Some (entry, reused), s1) \<Rightarrow>
          if reused
          then (Inl code_invalid, st\<lparr>oa_store := s1,
                  oa_node := (if cd_device entry \<noteq> [] then revoke_quietly env (cd_device entry) (oa_node st) else oa_node st)\<rparr>)
          else if tp_client p \<noteq> cd_client entry \<or> tp_redirect p \<noteq> cd_redirect entry
          then (Inl (newError CodeInvalidGrant ''client_id or redirect_uri does not match the authorization request''), st\<lparr>oa_store := s1\<rparr>)
          else if \<not> validVerifier (tp_verifier p) \<or> \<not> pkceMatches oh (tp_verifier p) (cd_challenge entry)
          then (Inl (newError CodeInvalidGrant ''code_verifier does not match''), st\<lparr>oa_store := s1\<rparr>)
          else (case checkResource sv (tp_resource p) of Some e \<Rightarrow> (Inl e, st\<lparr>oa_store := s1\<rparr>) | None \<Rightarrow> (Inr entry, st\<lparr>oa_store := s1\<rparr>)))"

text \<open>The second: the agent service issues tokens for a new device.\<close>

definition exchange_issue ::
    "env \<Rightarrow> oauth_host \<Rightarrow> oauth_service \<Rightarrow> authCode \<Rightarrow> oauth_state \<Rightarrow> AgentTokens result \<times> oauth_state" where
  "exchange_issue env oh sv entry st =
     (case exec_ret (IssueTokens env (oh_host oh) (osv_url sv) (cd_user entry) (cd_client_name entry)) (oa_node st) of
        (r, n) \<Rightarrow> (r, st\<lparr>oa_node := n\<rparr>))"

text \<open>The third: a failure gives the code back, a success notes the device, unless the code was replayed meanwhile.\<close>

definition exchange_settle ::
    "env \<Rightarrow> oauth_host \<Rightarrow> tokenParams \<Rightarrow> AgentTokens result \<Rightarrow> oauth_state \<Rightarrow> TokenResponse oauth_result \<times> oauth_state" where
  "exchange_settle env oh p issued st =
     (case issued of
        Inl e \<Rightarrow>
          if errors_is e ErrAgentLimit
          then (Inl (newError CodeInvalidGrant ''agent limit reached, revoke an agent in Prappser settings''), st)
          else (Inl (newError CodeServerError ''failed to issue tokens''), st\<lparr>oa_store := unmarkCode (oh_host oh) (tp_code p) (oa_store st)\<rparr>)
      | Inr tokens \<Rightarrow>
          (case setCodeDevice (oh_host oh) (tp_code p) (tk_device tokens) (oa_store st) of
             (True, s1) \<Rightarrow> (Inl code_invalid, st\<lparr>oa_store := s1, oa_node := revoke_quietly env (tk_device tokens) (oa_node st)\<rparr>)
           | (False, s1) \<Rightarrow> (Inr (tokenResponse env tokens), st\<lparr>oa_store := s1\<rparr>)))"

definition exchangeCode ::
    "env \<Rightarrow> oauth_host \<Rightarrow> oauth_service \<Rightarrow> tokenParams \<Rightarrow> oauth_state \<Rightarrow> TokenResponse oauth_result \<times> oauth_state" where
  "exchangeCode env oh sv p st =
     (case exchange_consume env oh sv p st of
        (Inl e, st1) \<Rightarrow> (Inl e, st1)
      | (Inr entry, st1) \<Rightarrow> (case exchange_issue env oh sv entry st1 of (issued, st2) \<Rightarrow> exchange_settle env oh p issued st2))"

definition oauth_refresh ::
    "env \<Rightarrow> oauth_host \<Rightarrow> oauth_service \<Rightarrow> tokenParams \<Rightarrow> oauth_state \<Rightarrow> TokenResponse oauth_result \<times> oauth_state" where
  "oauth_refresh env oh sv p st =
     (if tp_refresh p = [] then (Inl (newError CodeInvalidRequest ''refresh_token is required''), st)
      else case checkResource sv (tp_resource p) of Some e \<Rightarrow> (Inl e, st)
      | None \<Rightarrow> (case (case tp_scope p of None \<Rightarrow> None | Some s \<Rightarrow> checkScope s) of Some e \<Rightarrow> (Inl e, st)
      | None \<Rightarrow>
          (case Refresh env (oh_host oh) (osv_url sv) (tp_refresh p) (oa_node st) of
             (Inl e, n) \<Rightarrow> (Inl (if errors_is e ErrInvalidRefreshToken then newError CodeInvalidGrant ''refresh token is invalid or expired''
                              else newError CodeServerError ''failed to refresh tokens''), st\<lparr>oa_node := n\<rparr>)
           | (Inr t, n) \<Rightarrow> (Inr (tokenResponse env t), st\<lparr>oa_node := n\<rparr>))))"

definition Token ::
    "env \<Rightarrow> oauth_host \<Rightarrow> oauth_service \<Rightarrow> tokenParams \<Rightarrow> oauth_state \<Rightarrow> TokenResponse oauth_result \<times> oauth_state" where
  "Token env oh sv p st =
     (if tp_grant p = ''authorization_code'' then exchangeCode env oh sv p st
      else if tp_grant p = ''refresh_token'' then oauth_refresh env oh sv p st
      else if tp_grant p = [] then (Inl (newError CodeInvalidRequest ''grant_type is required''), st)
      else (Inl (newError CodeUnsupportedGrantType ''grant_type must be authorization_code or refresh_token''), st))"

subsection \<open>Handlers\<close>

record serverMetadata =
  sm_issuer :: string
  sm_authorization :: string
  sm_token :: string
  sm_response_types :: "string list"
  sm_grant_types :: "string list"
  sm_challenge_methods :: "string list"
  sm_auth_methods :: "string list"
  sm_scopes :: "string list"
  sm_metadata_document :: bool
  sm_iss_parameter :: bool

definition epMetadata :: "oauth_service \<Rightarrow> serverMetadata" where
  "epMetadata sv = \<lparr>sm_issuer = os_issuer sv, sm_authorization = os_issuer sv @ ''/oauth/authorize'',
     sm_token = os_issuer sv @ ''/oauth/token'', sm_response_types = [''code''],
     sm_grant_types = [''authorization_code'', ''refresh_token''], sm_challenge_methods = [''S256''], sm_auth_methods = [''none''],
     sm_scopes = [scopeMCP], sm_metadata_document = True, sm_iss_parameter = True\<rparr>"

definition epAuthorize :: "env \<Rightarrow> oauth_host \<Rightarrow> oauth_service \<Rightarrow> authorizeParams \<Rightarrow> (oauth_state, string) responder" where
  "epAuthorize env oh sv p st =
     (case Authorize env oh sv p st of
        (Inl (OAuthError c m), st1) \<Rightarrow> (Refuse 400 m, st1)
      | (Inl (OtherError e), st1) \<Rightarrow>
          (if errors_is e ErrStoreFull then Refuse 503 ''Too many pending authorization requests, try again later''
           else Refuse 500 ''Internal Server Error'', st1)
      | (Inr u, st1) \<Rightarrow> (Answer 302 u, st1))"

definition maxTokenBodyLen :: nat where "maxTokenBodyLen = 8 * 1024"

definition writeTokenError :: "oauth_error \<Rightarrow> 'a answer" where
  "writeTokenError e = (case e of
     OAuthError c m \<Rightarrow> Refuse (if c = CodeServerError then 500 else 400) m | OtherError _ \<Rightarrow> Refuse 500 ''internal error'')"

definition epToken :: "env \<Rightarrow> oauth_host \<Rightarrow> oauth_service \<Rightarrow> nat \<Rightarrow> tokenParams \<Rightarrow> (oauth_state, TokenResponse) responder" where
  "epToken env oh sv bodyLen p st =
     (if bodyLen > maxTokenBodyLen then (writeTokenError (newError CodeInvalidRequest ''request body too large''), st)
      else case Token env oh sv p st of (Inl e, st1) \<Rightarrow> (writeTokenError e, st1) | (Inr r, st1) \<Rightarrow> (Answer 200 r, st1))"

definition writeConsentError :: "goerr \<Rightarrow> 'a answer" where
  "writeConsentError e =
     (if errors_is e ErrRequestNotFound then Refuse 410 ''request_expired''
      else if errors_is e ErrWrongUser then Refuse 403 ''wrong_user''
      else if errors_is e ErrAgentLimit then Refuse 409 ''agent_limit'' else Refuse 500 ''internal_error'')"

definition consent :: "account option \<Rightarrow> (string \<Rightarrow> oauth_state \<Rightarrow> 'a result \<times> oauth_state) \<Rightarrow> (oauth_state, 'a) responder" where
  "consent u act st =
     (case u of None \<Rightarrow> (Refuse 401 ''Unauthorized'', st)
      | Some a \<Rightarrow> (case act (u_public_key a) st of (Inl e, st1) \<Rightarrow> (writeConsentError e, st1) | (Inr x, st1) \<Rightarrow> (Answer 200 x, st1)))"

definition epGetRequest :: "env \<Rightarrow> oauth_host \<Rightarrow> account option \<Rightarrow> string \<Rightarrow> (oauth_state, RequestInfo) responder" where
  "epGetRequest env oh u i = consent u (GetRequest env oh i)"

definition epApprove :: "env \<Rightarrow> oauth_host \<Rightarrow> oauth_service \<Rightarrow> account option \<Rightarrow> string \<Rightarrow> (oauth_state, string) responder" where
  "epApprove env oh sv u i = consent u (Approve env oh sv i)"

definition epDeny :: "env \<Rightarrow> oauth_host \<Rightarrow> oauth_service \<Rightarrow> account option \<Rightarrow> string \<Rightarrow> (oauth_state, string) responder" where
  "epDeny env oh sv u i = consent u (Deny env oh sv i)"

end
