(* ===== verification/OAuthDemo.thy ===== *)
theory OAuthDemo
  imports OAuth AccountDemo
begin

section \<open>A client asks, Olga consents\<close>

text \<open>
  The concrete client, request and states at which the theorems about codes are applied: one
  client, its metadata document, and Olga of the small space.
\<close>

definition demo_url :: "string \<Rightarrow> string \<Rightarrow> url" where
  "demo_url h p = \<lparr>ur_scheme = ''https'', ur_host = h, ur_hostname = h, ur_path = p, ur_escaped = p, ur_query = [], ur_userinfo = False\<rparr>"

definition demo_client :: string where "demo_client = ''https://c/meta''"
definition demo_back :: string where "demo_back = ''https://c/back''"

definition demo_oauth :: oauth_host where
  "demo_oauth = \<lparr>oh_host = demo_host [],
     oh_url = (\<lambda>s. if s = demo_client then Some (demo_url ''c'' ''/meta'') else if s = demo_back then Some (demo_url ''c'' ''/back'') else None),
     oh_fetch = (\<lambda>s. Inr (200, ''doc'')),
     oh_json = (\<lambda>s. Some [(''client_id'', GStr demo_client), (''token_endpoint_auth_method'', GStr ''none''),
       (''redirect_uris'', GList [GStr demo_back]), (''client_name'', GStr ''Claude'')]),
     oh_sha256 = (\<lambda>s. replicate 32 (CHR 0x00)), oh_query = (\<lambda>s. s)\<rparr>"

definition demo_server :: oauth_service where
  "demo_server = \<lparr>osv_url = ''https://s'', osv_app_url = ''https://app''\<rparr>"

definition demo_ask :: authorizeParams where
  "demo_ask = \<lparr>az_client = demo_client, az_redirect = demo_back, az_response_type = ''code'', az_challenge = replicate 43 CHR ''A'',
     az_method = ''S256'', az_state = [], az_scope = ''mcp'', az_resource = None, az_source = ''1.2.3.4''\<rparr>"

definition demo_params :: tokenParams where
  "demo_params = \<lparr>tp_grant = ''authorization_code'', tp_code = ''YWJj'', tp_redirect = demo_back, tp_client = demo_client,
     tp_verifier = replicate 43 CHR ''v'', tp_refresh = [], tp_scope = None, tp_resource = None\<rparr>"

definition demo_waiting :: pendingRequest where
  "demo_waiting = \<lparr>pq_client = demo_client, pq_source = ''1.2.3.4'', pq_client_name = ''Claude'', pq_client_host = ''c'',
     pq_client_uri = [], pq_logo = [], pq_redirect = demo_back, pq_redirect_host = ''c'', pq_loopback = False,
     pq_challenge = replicate 43 CHR ''A'', pq_state = [], pq_scope = scopeMCP, pq_user = [], pq_expires = 1700000600 * 1000000000\<rparr>"

definition demo_code :: authCode where
  "demo_code = \<lparr>cd_client = demo_client, cd_client_name = ''Claude'', cd_redirect = demo_back, cd_challenge = replicate 43 CHR ''A'',
     cd_user = ''o'', cd_device = [], cd_used = False, cd_reuse_seen = False, cd_expires = 1700000060 * 1000000000\<rparr>"

definition demo_with :: "(string \<times> pendingRequest) list \<Rightarrow> (string \<times> authCode) list \<Rightarrow> db \<Rightarrow> oauth_state" where
  "demo_with ps cs d = \<lparr>oa_store = \<lparr>sto_pending = ps, sto_codes = cs\<rparr>, oa_node = demo_node d\<rparr>"

definition demo_tokens :: AgentTokens where
  "demo_tokens = \<lparr>tk_device = ''agent_r1'', tk_access = ''access'', tk_access_exp = 1700000000 + agentAccessTokenTTL, tk_refresh = ''YWJj''\<rparr>"

definition demo_agent :: db where
  "demo_agent = demo_home\<lparr>t_devices := t_devices demo_home @ [new_device_row ''agent_r1'' ''o'' (Some ''Claude'') 1700000000 DeviceKindAgent],
     t_agent_tokens := [\<lparr>at_device = ''agent_r1'', at_hash = ''YWJj'', at_prev_hash = None, at_expires_at = 1700000000 + agentRefreshTokenTTL\<rparr>]\<rparr>"

lemma demo_sha [simp]: "sha256_hex (oh_host demo_oauth) = (\<lambda>s. s)"
  by (simp add: demo_oauth_def demo_host_def)

lemma demo_rand [simp]: "rand_bytes (oh_host demo_oauth) = Inr ''abc''"
  by (simp add: demo_oauth_def demo_host_def)

lemma demo_sha256: "oh_sha256 demo_oauth s = replicate 32 (CHR 0x00)"
  by (simp add: demo_oauth_def)

lemma demo_now [simp]: "now_ns demo_env (oh_host demo_oauth) = 1700000000 * 1000000000" "now demo_env = 1700000000"
  by (simp_all add: now_ns_def demo_env_def demo_oauth_def demo_host_def)

lemma demo_reliable [simp]: "reliable demo_env"
  by (simp add: reliable_def demo_env_def)

lemma demo_code_text [simp]: "b64_encode url_alphabet [] ''abc'' = ''YWJj''"
  by (simp add: url_alphabet_def)

lemma demo_random [simp]: "randomToken (oh_host demo_oauth) = Inr ''YWJj''"
  by (simp add: randomToken_def del: b64_encode.simps)

lemma demo_challenge: "validChallenge (replicate 43 CHR ''A'')" "validVerifier (replicate 43 CHR ''v'')"
    "b64_encode url_alphabet [] (replicate 32 (CHR 0x00)) = replicate 43 CHR ''A''"
proof -
  have "list_all (\<lambda>c. (of_char c :: nat) < 128) (replicate n c) \<longleftrightarrow> n = 0 \<or> (of_char c :: nat) < 128" for n c
    by (auto simp: list_all_iff)
  then show "validChallenge (replicate 43 CHR ''A'')" "validVerifier (replicate 43 CHR ''v'')"
    by (simp_all add: validChallenge_def validVerifier_def runes_plain isBase64URL_def list_all_iff)
  show "b64_encode url_alphabet [] (replicate 32 (CHR 0x00)) = replicate 43 CHR ''A''"
    by code_simp
qed

lemma demo_name: "sanitizeName ''Claude'' = ''Claude''"
  by (simp add: sanitizeName_def TrimSpace_def trim_runes_def runes_plain IsControl_def IsSpace_def rune_bytes_def rune_error_def Let_def maxClientName_def)

lemma demo_scope: "checkScope ''mcp'' = None"
  by (simp add: checkScope_def Fields_def runes_plain IsSpace_def rune_fields.simps space_rune_def bytes_of_def)

lemma demo_parse: "parseClientID demo_oauth demo_client = Inr (demo_url ''c'' ''/meta'')"
    "parseRedirectURI demo_oauth demo_back = Inr (demo_url ''c'' ''/back'')"
  by (simp_all add: parseClientID_def parseRedirectURI_def rguard_def demo_oauth_def demo_client_def demo_back_def demo_url_def
      contains_char_def has_dot_segment_def)

definition demo_doc :: gmap where
  "demo_doc = [(''client_id'', GStr demo_client), (''token_endpoint_auth_method'', GStr ''none''),
       (''redirect_uris'', GList [GStr demo_back]), (''client_name'', GStr ''Claude'')]"

definition demo_info :: clientInfo where
  "demo_info = \<lparr>ci_cid = demo_client, ci_host = ''c'', ci_name = ''Claude'', ci_uri = [], ci_logo = [], ci_redirects = [demo_back]\<rparr>"

lemma demo_fetch: "fetch demo_oauth demo_client = Inr demo_doc"
  by (simp add: fetch_def demo_oauth_def rguard_def maxMetadataLen_def demo_doc_def)

lemma demo_nowhere: "httpsOnly demo_oauth GNil = []"
  by (simp add: httpsOnly_def str_or_empty_def demo_oauth_def)

lemma demo_client_doc: "parseClientDoc demo_oauth demo_client demo_doc = Inr demo_info"
  by (simp add: parseClientDoc_def demo_parse rguard_def mindex_def str_or_empty_def isPublicClient_def demo_name demo_nowhere
      demo_doc_def demo_info_def demo_url_def)

lemma demo_checked: "check_authorize demo_oauth demo_server demo_ask = Inr (demo_info, demo_url ''c'' ''/back'')"
proof -
  have "redirectMatches demo_oauth (demo_url ''c'' ''/back'') demo_back (ci_redirects demo_info)"
    by (simp add: redirectMatches_def demo_info_def)
  then show ?thesis
    using demo_challenge(1) demo_scope
    by (simp add: check_authorize_def demo_ask_def demo_parse demo_fetch demo_client_doc checkResource_def)
qed

lemma demo_authorize:
  "snd (Authorize demo_env demo_oauth demo_server demo_ask (demo_with [] [] d)) = demo_with [(''YWJj'', demo_waiting)] [] d"
  unfolding Authorize_def demo_checked
  by (simp add: addPending_def demo_with_def sweep_def evictOldestOfClientIP_def maxPendingPerClientIP_def
      maxPending_def new_pending_def demo_waiting_def demo_ask_def demo_url_def demo_info_def pendingTTL_def Let_def)

lemma demo_approve:
  "snd (Approve demo_env demo_oauth demo_server ''YWJj'' ''o'' (demo_with [(''YWJj'', demo_waiting)] [] demo_home))
     = demo_with [] [(''YWJj'', demo_code)] demo_home"
proof -
  have "CanAddAgent demo_env ''o'' demo_home = Inr True"
    by (simp add: CanAddAgent_def countLiveAgents_def account_demo_defs demo_env_def stmt_def maxLiveAgentsPerAccount_def)
  then show ?thesis
    by (simp add: Approve_def getPending_def takePending_def lookupPending_def addCode_def sweep_def hashCode_def demo_with_def
        demo_waiting_def demo_code_def demo_node_def codeTTL_def Let_def)
qed

lemma demo_consume:
  "exchange_consume demo_env demo_oauth demo_server demo_params (demo_with [] [(''YWJj'', demo_code)] d)
     = (Inr (demo_code\<lparr>cd_used := True\<rparr>), demo_with [] [(''YWJj'', demo_code\<lparr>cd_used := True\<rparr>)] d)"
  using demo_challenge
  by (simp add: exchange_consume_def consumeCode_def hashCode_def demo_params_def demo_code_def demo_with_def demo_client_def demo_back_def
      pkceMatches_def checkResource_def Let_def demo_sha256)

lemma demo_create: "createAgent demo_env ''agent_r1'' ''o'' (Some ''Claude'') ''YWJj'' 1700000000 (1700000000 + agentRefreshTokenTTL) demo_home = Inr demo_agent"
  by (simp add: createAgent_def insert_device_def account_demo_defs demo_env_def demo_agent_def stmt_def user_keys_def rguard_def
      tokens_unique_def)

lemma demo_tokens_issued: "IssueTokens demo_env (oh_host demo_oauth) url ''o'' ''Claude'' demo_home = Inr (demo_tokens, demo_agent)"
proof -
  have count: "countLiveAgents demo_env ''o'' 1700000000 demo_home = Inr 0"
    by (simp add: countLiveAgents_def live_agent_def account_demo_defs demo_env_def stmt_def)
  have key: "agent_device_key (oh_host demo_oauth) = ''agent_r1''"
    by (simp add: agent_device_key_def demo_oauth_def demo_host_def)
  have refresh: "newRefreshToken (oh_host demo_oauth) = Inr (''YWJj'', ''YWJj'')"
    by (simp add: newRefreshToken_def Let_def del: b64_encode.simps)
  have access: "mintAccessToken demo_env (oh_host demo_oauth) url ''agent_r1'' = Inr (''access'', 1700000000 + agentAccessTokenTTL)"
    by (simp add: mintAccessToken_def demo_oauth_def demo_host_def demo_env_def)
  show ?thesis
    by (simp add: IssueTokens_def count key refresh access demo_create maxLiveAgentsPerAccount_def rguard_def nullif_def demo_tokens_def)
qed

lemma demo_issue:
  "exchange_issue demo_env demo_oauth demo_server (demo_code\<lparr>cd_used := True\<rparr>) (demo_with [] cs demo_home)
     = (Inr demo_tokens, demo_with [] cs demo_agent)"
  using demo_tokens_issued by (simp add: exchange_issue_def exec_ret_def demo_with_def demo_code_def demo_node_def)

lemma demo_settle:
  "exchange_settle demo_env demo_oauth demo_params (Inr demo_tokens) (demo_with [] [(''YWJj'', demo_code\<lparr>cd_used := True\<rparr>)] demo_agent)
     = (Inr (tokenResponse demo_env demo_tokens), demo_with [] [(''YWJj'', demo_code\<lparr>cd_used := True, cd_device := ''agent_r1''\<rparr>)] demo_agent)"
  by (simp add: exchange_settle_def setCodeDevice_def hashCode_def demo_params_def demo_code_def demo_with_def demo_tokens_def)

end
