(* ===== verification/OAuthProps.thy ===== *)
theory OAuthProps
  imports OAuthDemo DeviceProps
begin

section \<open>A code is worth one device, a request one account\<close>

text \<open>
  An authorization code brings tokens for one device, and presenting it again revokes that device,
  whatever requests run in between: a step relation of the server whose exchanges stop between the
  sections that hold the store's lock, its invariant, and the two properties.
\<close>

subsection \<open>Requests interleave\<close>

text \<open>
  The exchanges under way are at the end of their first or of their second section. \<open>fl_granted\<close>
  remembers, for the statements only, which device was handed out for which code, and
  \<open>fl_hashes\<close> which codes were given out.
\<close>

datatype phase = Consumed tokenParams authCode | Issued tokenParams "AgentTokens result"

record flow =
  fl_state :: oauth_state
  fl_under_way :: "phase list"
  fl_granted :: "(string \<times> string) list"
  fl_hashes :: "string set"

fun phase_params :: "phase \<Rightarrow> tokenParams" where
  "phase_params (Consumed p c) = p"
| "phase_params (Issued p r) = p"

text \<open>\<open>H\<close> is SHA-256. A new code is fresh: 32 bytes of the source of randomness.\<close>

inductive flow_step :: "(string \<Rightarrow> string) \<Rightarrow> flow \<Rightarrow> flow \<Rightarrow> bool" for H where
  consumed: "exchange_consume env oh sv p (fl_state f) = (Inr c, st) \<Longrightarrow> sha256_hex (oh_host oh) = H \<Longrightarrow> reliable env
    \<Longrightarrow> flow_step H f (f\<lparr>fl_state := st, fl_under_way := Consumed p c # fl_under_way f\<rparr>)"
| refused: "exchange_consume env oh sv p (fl_state f) = (Inl e, st) \<Longrightarrow> sha256_hex (oh_host oh) = H \<Longrightarrow> reliable env
    \<Longrightarrow> flow_step H f (f\<lparr>fl_state := st\<rparr>)"
| issued: "fl_under_way f = xs @ Consumed p c # ys \<Longrightarrow> exchange_issue env oh sv c (fl_state f) = (r, st)
    \<Longrightarrow> flow_step H f (f\<lparr>fl_state := st, fl_under_way := xs @ Issued p r # ys\<rparr>)"
| granted: "fl_under_way f = xs @ Issued p r # ys \<Longrightarrow> exchange_settle env oh p r (fl_state f) = (Inr tokens, st) \<Longrightarrow> r = Inr t
    \<Longrightarrow> sha256_hex (oh_host oh) = H \<Longrightarrow> reliable env
    \<Longrightarrow> flow_step H f (f\<lparr>fl_state := st, fl_under_way := xs @ ys, fl_granted := (H (tp_code p), tk_device t) # fl_granted f\<rparr>)"
| failed: "fl_under_way f = xs @ Issued p r # ys \<Longrightarrow> exchange_settle env oh p r (fl_state f) = (Inl e, st)
    \<Longrightarrow> sha256_hex (oh_host oh) = H \<Longrightarrow> reliable env
    \<Longrightarrow> flow_step H f (f\<lparr>fl_state := st, fl_under_way := xs @ ys\<rparr>)"
| approved: "Approve env oh sv i key (fl_state f) = (r, st) \<Longrightarrow> sha256_hex (oh_host oh) = H
    \<Longrightarrow> hs = (fst ` set (sto_codes (oa_store st))) - (fst ` set (sto_codes (oa_store (fl_state f))))
    \<Longrightarrow> (\<forall>b. rand_bytes (oh_host oh) = Inr b \<longrightarrow> H (b64_encode url_alphabet [] b) \<notin> fl_hashes f)
    \<Longrightarrow> flow_step H f (f\<lparr>fl_state := st, fl_hashes := fl_hashes f \<union> hs\<rparr>)"
| authorized: "Authorize env oh sv a (fl_state f) = (ar, st) \<Longrightarrow> flow_step H f (f\<lparr>fl_state := st\<rparr>)"
| looked: "GetRequest env oh i key (fl_state f) = (ir, st) \<Longrightarrow> flow_step H f (f\<lparr>fl_state := st\<rparr>)"
| denied: "Deny env oh sv i key (fl_state f) = (r, st) \<Longrightarrow> flow_step H f (f\<lparr>fl_state := st\<rparr>)"
| elsewhere: "roster_kept (nd_db (oa_node (fl_state f))) (nd_db n)
    \<Longrightarrow> flow_step H f (f\<lparr>fl_state := (fl_state f)\<lparr>oa_node := n\<rparr>\<rparr>)"

definition start_flow :: "node \<Rightarrow> flow" where
  "start_flow n = \<lparr>fl_state = \<lparr>oa_store = \<lparr>sto_pending = [], sto_codes = []\<rparr>, oa_node = n\<rparr>, fl_under_way = [], fl_granted = [], fl_hashes = {}\<rparr>"

subsection \<open>The invariant\<close>

text \<open>How many exchanges of a code are under way, and how many devices it has brought.\<close>

definition busy :: "(string \<Rightarrow> string) \<Rightarrow> flow \<Rightarrow> string \<Rightarrow> nat" where
  "busy H f c = length (filter (\<lambda>x. H (tp_code (phase_params x)) = c) (fl_under_way f))"

definition brought :: "flow \<Rightarrow> string \<Rightarrow> string list" where
  "brought f c = map snd (filter (\<lambda>g. fst g = c) (fl_granted f))"

abbreviation codes :: "flow \<Rightarrow> (string \<times> authCode) list" where "codes f \<equiv> sto_codes (oa_store (fl_state f))"
abbreviation tables :: "flow \<Rightarrow> db" where "tables f \<equiv> nd_db (oa_node (fl_state f))"
abbreviation roster :: "db \<Rightarrow> string set" where "roster d \<equiv> dv_public_key ` set (t_devices d)"

text \<open>An unused code brought nothing; of a code replayed the device is revoked.\<close>

definition entry_ok :: "nat \<Rightarrow> string list \<Rightarrow> db \<Rightarrow> authCode \<Rightarrow> bool" where
  "entry_ok n vs d e \<longleftrightarrow> (\<not> cd_used e \<longrightarrow> n = 0 \<and> vs = []) \<and> (cd_reuse_seen e \<longrightarrow> cd_used e)
     \<and> (\<forall>v \<in> set vs. cd_device e = v \<and> (cd_reuse_seen e \<longrightarrow> shut d v))"

definition code_ok :: "(string \<Rightarrow> string) \<Rightarrow> flow \<Rightarrow> string \<Rightarrow> bool" where
  "code_ok H f c \<longleftrightarrow> busy H f c + length (brought f c) \<le> 1
     \<and> (0 < busy H f c + length (brought f c) \<longrightarrow> c \<in> fl_hashes f)
     \<and> (\<forall>e. map_of (codes f) c = Some e \<longrightarrow> c \<in> fl_hashes f \<and> entry_ok (busy H f c) (brought f c) (tables f) e)
     \<and> (\<forall>v \<in> set (brought f c). v \<in> roster (tables f) \<and> v \<noteq> [])"

definition flow_ok :: "(string \<Rightarrow> string) \<Rightarrow> flow \<Rightarrow> bool" where
  "flow_ok H f \<longleftrightarrow> distinct (map fst (codes f)) \<and> (\<forall>c. code_ok H f c)
     \<and> (\<forall>p t. Issued p (Inr t) \<in> set (fl_under_way f) \<longrightarrow> tk_device t \<in> roster (tables f) \<and> tk_device t \<noteq> [])"

lemma entry_kept:
  "entry_ok n vs d e \<Longrightarrow> roster_kept d d1 \<Longrightarrow> set vs \<subseteq> roster d \<Longrightarrow> entry_ok n vs d1 e"
  unfolding entry_ok_def roster_kept_def by (meson subsetD)

lemma roster_kept_mem: "roster_kept d d1 \<Longrightarrow> v \<in> roster d \<Longrightarrow> v \<in> roster d1"
  unfolding roster_kept_def by blast

lemma roster_kept_refl [simp]: "roster_kept d d"
  by (simp add: roster_kept_def)

subsection \<open>Every step keeps it\<close>

text \<open>A step that starts and ends no exchange, and at most sweeps the codes and adds a fresh one.\<close>

lemma flow_ok_store:
  assumes ok: "flow_ok H f" and same: "fl_under_way g = fl_under_way f" "fl_granted g = fl_granted f"
    and hs: "fl_hashes f \<subseteq> fl_hashes g" and db: "roster_kept (tables f) (tables g)" and d: "distinct (map fst (codes g))"
    and new: "\<And>c e. map_of (codes g) c = Some e \<Longrightarrow>
      map_of (codes f) c = Some e \<or> (c \<notin> fl_hashes f \<and> c \<in> fl_hashes g \<and> \<not> cd_used e \<and> \<not> cd_reuse_seen e)"
  shows "flow_ok H g"
proof -
  have b: "busy H g c = busy H f c" "brought g c = brought f c" for c
    by (simp_all add: busy_def brought_def same)
  have "code_ok H g c" for c
  proof -
    have c: "code_ok H f c" using ok by (simp add: flow_ok_def)
    then have mem: "set (brought f c) \<subseteq> roster (tables f)" by (auto simp: code_ok_def)
    have "c \<in> fl_hashes g \<and> entry_ok (busy H f c) (brought f c) (tables g) e" if "map_of (codes g) c = Some e" for e
    proof (cases "map_of (codes f) c = Some e")
      case True
      then show ?thesis using c hs db mem by (auto simp: code_ok_def intro: entry_kept)
    next
      case False
      with new [OF that] have n: "c \<notin> fl_hashes f" "c \<in> fl_hashes g" "\<not> cd_used e" "\<not> cd_reuse_seen e" by auto
      then have "busy H f c = 0 \<and> brought f c = []" using c by (auto simp: code_ok_def)
      then show ?thesis using n by (simp add: entry_ok_def)
    qed
    then show ?thesis using c hs roster_kept_mem [OF db] by (auto simp: code_ok_def b)
  qed
  then show ?thesis using ok d roster_kept_mem [OF db] by (simp add: flow_ok_def same)
qed

text \<open>A step that rewrites the entry of one code.\<close>

lemma flow_ok_entry:
  assumes ok: "flow_ok H f" and e: "map_of (codes f) c0 = Some e" and codes: "codes g = AList.update c0 e1 (codes f)"
    and hs: "fl_hashes g = fl_hashes f" and db: "roster_kept (tables f) (tables g)"
    and one: "\<And>c. c \<noteq> c0 \<Longrightarrow> busy H g c = busy H f c \<and> brought g c = brought f c"
    and at: "busy H g c0 + length (brought g c0) \<le> 1" "entry_ok (busy H g c0) (brought g c0) (tables g) e1"
      "\<forall>v \<in> set (brought g c0). v \<in> roster (tables g) \<and> v \<noteq> []"
    and way: "\<And>p t. Issued p (Inr t) \<in> set (fl_under_way g) \<Longrightarrow> Issued p (Inr t) \<in> set (fl_under_way f)"
  shows "flow_ok H g"
proof -
  have c0: "c0 \<in> fl_hashes f" using ok e by (auto simp: flow_ok_def code_ok_def)
  have "code_ok H g c" for c
  proof (cases "c = c0")
    case True
    then show ?thesis using at c0 by (simp add: code_ok_def codes hs update_conv')
  next
    case False
    have c: "code_ok H f c" using ok by (simp add: flow_ok_def)
    then have "set (brought f c) \<subseteq> roster (tables f)" by (auto simp: code_ok_def)
    then show ?thesis
      using c one [OF False] False entry_kept [OF _ db] roster_kept_mem [OF db] by (auto simp: code_ok_def codes hs update_conv')
  qed
  moreover have "distinct (map fst (codes g))" using ok by (simp add: flow_ok_def codes distinct_update)
  ultimately show ?thesis using ok way roster_kept_mem [OF db] unfolding flow_ok_def by blast
qed

text \<open>Revoking: the device is shut, the rest of the roster as it was.\<close>

lemma revoke_quietly_kept: "roster_kept (nd_db n) (nd_db (revoke_quietly env v n))"
proof (cases "repoRevokeDevice env v (now env) (nd_db n)")
  case (Inr d)
  have "roster_kept (nd_db n) d" by (rule roster_update [OF repoRevokeDevice_shape(1) [OF Inr]]) simp_all
  then show ?thesis by (simp add: revoke_quietly_def exec_def Inr)
qed (simp add: revoke_quietly_def exec_def)

lemma revoke_quietly_shut: "reliable env \<Longrightarrow> shut (nd_db (revoke_quietly env v n)) v"
proof -
  assume "reliable env"
  then obtain d where "repoRevokeDevice env v (now env) (nd_db n) = Inr d" by (auto simp: repoRevokeDevice_def)
  then show ?thesis using repoRevokeDevice_shut(1) by (simp add: revoke_quietly_def exec_def)
qed

text \<open>What consuming a code does.\<close>

lemma consume_cases:
  assumes "exchange_consume env oh sv p st = (r, st1)" and "sha256_hex (oh_host oh) = H"
  obtains (same) e where "r = Inl e" "st1 = st"
    | (first) c where "map_of (sto_codes (oa_store st)) (H (tp_code p)) = Some c" "\<not> cd_used c"
        "r = Inr (c\<lparr>cd_used := True\<rparr>) \<or> (\<exists>e. r = Inl e)"
        "sto_codes (oa_store st1) = AList.update (H (tp_code p)) (c\<lparr>cd_used := True\<rparr>) (sto_codes (oa_store st))"
        "oa_node st1 = oa_node st"
    | (again) c where "map_of (sto_codes (oa_store st)) (H (tp_code p)) = Some c" "cd_used c" "r = Inl code_invalid"
        "sto_codes (oa_store st1) = AList.update (H (tp_code p)) (c\<lparr>cd_used := True, cd_reuse_seen := True\<rparr>) (sto_codes (oa_store st))"
        "oa_node st1 = (if cd_device c \<noteq> [] then revoke_quietly env (cd_device c) (oa_node st) else oa_node st)"
proof (cases "tp_code p = [] \<or> tp_redirect p = [] \<or> tp_client p = [] \<or> tp_verifier p = []")
  case True
  then show thesis using assms(1) same by (auto simp: exchange_consume_def)
next
  case ne: False
  show thesis
  proof (cases "map_of (sto_codes (oa_store st)) (H (tp_code p))")
    case None
    then show thesis using assms ne same by (auto simp: exchange_consume_def consumeCode_def hashCode_def)
  next
    case (Some c)
    show thesis
    proof (cases "cd_expires c < now_ns env (oh_host oh)")
      case True
      then show thesis using assms ne same Some by (auto simp: exchange_consume_def consumeCode_def hashCode_def)
    next
      case live: False
      show thesis
      proof (cases "cd_used c")
        case True
        then show thesis
          using assms ne live Some by (intro again [OF Some True]) (auto simp: exchange_consume_def consumeCode_def hashCode_def Let_def)
      next
        case False
        moreover obtain f where "c\<lparr>cd_used := True\<rparr> = c\<lparr>cd_used := True, cd_reuse_seen := f\<rparr>" "f = cd_reuse_seen c" by simp
        ultimately show thesis
          using assms ne live Some
          by (intro first [OF Some False])
            (auto simp: exchange_consume_def consumeCode_def hashCode_def Let_def split: if_splits option.splits)
      qed
    qed
  qed
qed

lemma IssueTokens_roster:
  assumes "IssueTokens env h url key name d = Inr (t, d1)"
  shows "roster_kept d d1" "tk_device t \<in> roster d1" "tk_device t \<noteq> []"
proof -
  let ?v = "new_device_row (agent_device_key h) key (nullif name) (now env) DeviceKindAgent"
  obtain hash where c: "createAgent env (agent_device_key h) key (nullif name) hash (now env) (now env + agentRefreshTokenTTL) d = Inr d1"
    and t: "tk_device t = agent_device_key h"
    using assms by (auto simp: IssueTokens_def result_simps)
  obtain d2 where i: "insert_device ?v d = Inr d2" and d: "t_devices d1 = t_devices d2"
    using c by (auto simp: createAgent_def Let_def result_simps)
  have dev: "t_devices d1 = t_devices d @ [?v]" using insert_device_shape(1) [OF i] d by simp
  show "roster_kept d d1" using insert_device_shape(2) [OF i] by (intro roster_add [OF dev]) (simp add: new_device_row_def)
  show "tk_device t \<in> roster d1" by (simp add: dev t new_device_row_def)
  show "tk_device t \<noteq> []" by (simp add: t agent_device_key_def)
qed

lemma issue_roster:
  assumes "exchange_issue env oh sv c st = (r, st1)"
  shows "roster_kept (nd_db (oa_node st)) (nd_db (oa_node st1))" "oa_store st1 = oa_store st"
    "r = Inr t \<Longrightarrow> tk_device t \<in> roster (nd_db (oa_node st1)) \<and> tk_device t \<noteq> []"
  using assms IssueTokens_roster unfolding exchange_issue_def exec_ret_def
  by (auto split: sum.splits prod.splits)

text \<open>What settling does to the entry of the code, and to the device.\<close>

lemma settle_cases:
  assumes "exchange_settle env oh p issued st = (r, st1)" and "sha256_hex (oh_host oh) = H"
  obtains (swept) t where "issued = Inr t" "map_of (sto_codes (oa_store st)) (H (tp_code p)) = None" "st1 = st" "\<exists>x. r = Inr x"
    | (granted) t c where "issued = Inr t" "map_of (sto_codes (oa_store st)) (H (tp_code p)) = Some c" "\<not> cd_reuse_seen c"
        "sto_codes (oa_store st1) = AList.update (H (tp_code p)) (c\<lparr>cd_device := tk_device t\<rparr>) (sto_codes (oa_store st))"
        "oa_node st1 = oa_node st" "\<exists>x. r = Inr x"
    | (replayed) t c where "issued = Inr t" "map_of (sto_codes (oa_store st)) (H (tp_code p)) = Some c" "cd_reuse_seen c"
        "sto_codes (oa_store st1) = AList.update (H (tp_code p)) (c\<lparr>cd_device := tk_device t\<rparr>) (sto_codes (oa_store st))"
        "oa_node st1 = revoke_quietly env (tk_device t) (oa_node st)" "\<exists>e. r = Inl e"
    | (gone) e where "issued = Inl e" "st1 = st" "\<exists>e. r = Inl e"
    | (unmarked) e c where "issued = Inl e" "map_of (sto_codes (oa_store st)) (H (tp_code p)) = Some c" "\<not> cd_reuse_seen c"
        "sto_codes (oa_store st1) = AList.update (H (tp_code p)) (c\<lparr>cd_used := False\<rparr>) (sto_codes (oa_store st))"
        "oa_node st1 = oa_node st" "\<exists>e. r = Inl e"
proof (cases issued)
  case (Inl e)
  show thesis
  proof (cases "errors_is e ErrAgentLimit \<or> unmarkCode (oh_host oh) (tp_code p) (oa_store st) = oa_store st")
    case True
    then show thesis using assms Inl by (intro gone [OF Inl]) (auto simp: exchange_settle_def split: if_splits)
  next
    case False
    then show thesis
      using assms Inl by (auto simp: exchange_settle_def unmarkCode_def hashCode_def split: option.splits if_splits intro: unmarked [OF Inl])
  qed
next
  case (Inr t)
  show thesis
  proof (cases "map_of (sto_codes (oa_store st)) (H (tp_code p))")
    case None
    then show thesis using assms Inr by (intro swept [OF Inr None]) (auto simp: exchange_settle_def setCodeDevice_def hashCode_def)
  next
    case (Some c)
    then show thesis
      using assms Inr granted [OF Inr Some] replayed [OF Inr Some]
      by (cases "cd_reuse_seen c") (auto simp: exchange_settle_def setCodeDevice_def hashCode_def)
  qed
qed

text \<open>What consent does to the codes.\<close>

lemma lookup_codes: "sto_codes (snd (lookupPending env h i key s)) = sto_codes s"
  by (simp add: lookupPending_def split: option.split)

lemma take_codes: "sto_codes (snd (takePending env h i key s)) = sto_codes s"
  using lookup_codes [of env h i key s] by (auto simp: takePending_def split: prod.splits sum.splits)

lemma map_of_filter_key: "distinct (map fst xs) \<Longrightarrow> map_of (filter P xs) k = Some v \<Longrightarrow> map_of xs k = Some v"
  using map_of_SomeD [of "filter P xs" k v] by simp

definition unexpired :: "int \<Rightarrow> (string \<times> authCode) list \<Rightarrow> (string \<times> authCode) list" where
  "unexpired t cs = filter (\<lambda>(i, c). \<not> cd_expires c < t) cs"

lemma sweep_unexpired [simp]: "sto_codes (sweep t s) = unexpired t (sto_codes s)"
  by (simp add: sweep_def unexpired_def)

lemma sweep_codes: "map_of (unexpired t cs) c = Some e \<Longrightarrow> distinct (map fst cs) \<Longrightarrow> map_of cs c = Some e"
  unfolding unexpired_def by (rule map_of_filter_key)

lemma distinct_filter_keys: "distinct (map fst xs) \<Longrightarrow> distinct (map fst (filter P xs))"
  by (induction xs) auto

lemma distinct_unexpired: "distinct (map fst cs) \<Longrightarrow> distinct (map fst (unexpired t cs))"
  unfolding unexpired_def by (rule distinct_filter_keys)

lemma authorize_codes:
  assumes "Authorize env oh sv a st = (r, st1)" and d: "distinct (map fst (sto_codes (oa_store st)))"
  shows "distinct (map fst (sto_codes (oa_store st1)))" "oa_node st1 = oa_node st"
    "map_of (sto_codes (oa_store st1)) c = Some e \<Longrightarrow> map_of (sto_codes (oa_store st)) c = Some e"
proof -
  have "sto_codes (snd (addPending env h p s)) = sto_codes s \<or> sto_codes (snd (addPending env h p s)) = unexpired (now_ns env h) (sto_codes s)" for h p s
    by (auto simp: addPending_def evictOldestOfClientIP_def Let_def split: sum.splits option.splits prod.splits if_splits)
  then have c: "sto_codes (oa_store st1) = sto_codes (oa_store st)
      \<or> (\<exists>t. sto_codes (oa_store st1) = unexpired t (sto_codes (oa_store st)))"
    using assms(1) by (auto simp: Authorize_def split: sum.splits prod.splits) (metis snd_conv)+
  show "distinct (map fst (sto_codes (oa_store st1)))" using c d by (auto simp: distinct_unexpired)
  show "oa_node st1 = oa_node st" using assms(1) by (auto simp: Authorize_def split: sum.splits prod.splits)
  show "map_of (sto_codes (oa_store st1)) c = Some e \<Longrightarrow> map_of (sto_codes (oa_store st)) c = Some e"
    using c d sweep_codes by metis
qed

lemma addCode_codes:
  assumes "addCode env h cd s = (r, s1)" and "\<not> cd_used cd" "\<not> cd_reuse_seen cd"
  shows "sto_codes s1 = sto_codes s \<or> (\<exists>cd b. rand_bytes h = Inr b \<and> \<not> cd_used cd \<and> \<not> cd_reuse_seen cd
    \<and> sto_codes s1 = AList.update (sha256_hex h (b64_encode url_alphabet [] b)) cd (unexpired (now_ns env h) (sto_codes s)))"
proof (cases "rand_bytes h")
  case (Inr b)
  then show ?thesis
    using assms
    by (intro disjI2 exI [of _ "cd\<lparr>cd_expires := now_ns env h + codeTTL\<rparr>"] exI [of _ b])
      (auto simp: addCode_def randomToken_def hashCode_def Let_def)
qed (use assms in \<open>auto simp: addCode_def randomToken_def\<close>)

lemma approve_codes:
  assumes "Approve env oh sv i key st = (r, st1)" and "sha256_hex (oh_host oh) = H" and d: "distinct (map fst (sto_codes (oa_store st)))"
  shows "distinct (map fst (sto_codes (oa_store st1)))" "oa_node st1 = oa_node st"
    "map_of (sto_codes (oa_store st1)) c = Some e \<Longrightarrow> map_of (sto_codes (oa_store st)) c = Some e
       \<or> (\<not> cd_used e \<and> \<not> cd_reuse_seen e \<and> (\<exists>b. rand_bytes (oh_host oh) = Inr b \<and> c = H (b64_encode url_alphabet [] b)))"
proof -
  have l: "sto_codes s1 = sto_codes s" if "lookupPending env (oh_host oh) i key s = (x, s1)" for s s1 x
    using lookup_codes [of env "oh_host oh" i key s] that by simp
  have t: "sto_codes s1 = sto_codes s" if "takePending env (oh_host oh) i key s = (x, s1)" for s s1 x
    using take_codes [of env "oh_host oh" i key s] that by simp
  have c: "sto_codes (oa_store st1) = sto_codes (oa_store st)
      \<or> (\<exists>cd b. rand_bytes (oh_host oh) = Inr b \<and> \<not> cd_used cd \<and> \<not> cd_reuse_seen cd
           \<and> sto_codes (oa_store st1) = AList.update (H (b64_encode url_alphabet [] b)) cd (unexpired (now_ns env (oh_host oh)) (sto_codes (oa_store st))))"
    using assms(1) unfolding assms(2) [symmetric] Approve_def getPending_def
    by (auto split: sum.splits prod.splits if_splits dest!: l t addCode_codes)
  show "distinct (map fst (sto_codes (oa_store st1)))" using c d by (auto simp: distinct_unexpired distinct_update)
  show "oa_node st1 = oa_node st" using assms(1) by (auto simp: Approve_def split: sum.splits prod.splits if_splits)
  show "map_of (sto_codes (oa_store st1)) c = Some e \<Longrightarrow> map_of (sto_codes (oa_store st)) c = Some e
       \<or> (\<not> cd_used e \<and> \<not> cd_reuse_seen e \<and> (\<exists>b. rand_bytes (oh_host oh) = Inr b \<and> c = H (b64_encode url_alphabet [] b)))"
    using c sweep_codes [OF _ d] by (auto simp: update_conv' split: if_splits)
qed

lemma busy_split: "fl_under_way f = xs @ x # ys \<Longrightarrow> H (tp_code (phase_params x)) = c \<Longrightarrow>
    busy H f c = Suc (length (filter (\<lambda>x. H (tp_code (phase_params x)) = c) (xs @ ys)))"
  by (simp add: busy_def)

lemma busy_other: "fl_under_way f = xs @ x # ys \<Longrightarrow> H (tp_code (phase_params x)) \<noteq> c \<Longrightarrow>
    busy H f c = length (filter (\<lambda>x. H (tp_code (phase_params x)) = c) (xs @ ys))"
  by (simp add: busy_def)

lemma flow_okD:
  assumes "flow_ok H f"
  shows "distinct (map fst (codes f))" "busy H f c + length (brought f c) \<le> 1"
    "map_of (codes f) c = Some e \<Longrightarrow> entry_ok (busy H f c) (brought f c) (tables f) e"
    "v \<in> set (brought f c) \<Longrightarrow> v \<in> roster (tables f) \<and> v \<noteq> []"
    "Issued p (Inr t) \<in> set (fl_under_way f) \<Longrightarrow> tk_device t \<in> roster (tables f) \<and> tk_device t \<noteq> []"
  using assms unfolding flow_ok_def code_ok_def by blast+

lemma flow_okI:
  assumes ok: "flow_ok H f" and "\<And>c. code_ok H g c" and "codes g = codes f" and d: "tables g = tables f"
    and sub: "\<And>q t. Issued q (Inr t) \<in> set (fl_under_way g) \<Longrightarrow> Issued q (Inr t) \<in> set (fl_under_way f)"
  shows "flow_ok H g"
  using assms flow_okD(1) [OF ok] flow_okD(5) [OF ok sub] unfolding flow_ok_def by auto

lemma consume_ok:
  assumes ok: "flow_ok H f" and run: "exchange_consume env oh sv p (fl_state f) = (r, st)" and h: "sha256_hex (oh_host oh) = H"
    and rel: "reliable env"
    and g: "g = f\<lparr>fl_state := st, fl_under_way := (case r of Inr c \<Rightarrow> Consumed p c # fl_under_way f | Inl _ \<Rightarrow> fl_under_way f)\<rparr>"
  shows "flow_ok H g"
  using run h
proof (cases rule: consume_cases)
  case (same e)
  then have "g = f" by (simp add: g)
  with ok show ?thesis by simp
next
  case (first c)
  have un: "busy H f (H (tp_code p)) = 0" "brought f (H (tp_code p)) = []"
    using flow_okD(3) [OF ok first(1)] first(2) by (simp_all add: entry_ok_def)
  show ?thesis
    by (rule flow_ok_entry [OF ok first(1), of g "c\<lparr>cd_used := True\<rparr>"])
      (use first un in \<open>auto simp: g busy_def brought_def entry_ok_def split: sum.splits\<close>)
next
  case (again c)
  let ?c = "H (tp_code p)"
  have g1: "g = f\<lparr>fl_state := st\<rparr>" using again by (simp add: g)
  have kept: "roster_kept (tables f) (tables g)" using revoke_quietly_kept by (simp add: g1 again)
  have "cd_device c = v \<and> shut (tables g) v" if "v \<in> set (brought f ?c)" for v
    using flow_okD(3) [OF ok again(1)] flow_okD(4) [OF ok that] that revoke_quietly_shut [OF rel]
    by (auto simp: entry_ok_def g1 again)
  then show ?thesis
    using flow_okD(2) [OF ok, of ?c] flow_okD(4) [OF ok] roster_kept_mem [OF kept]
    by (intro flow_ok_entry [OF ok again(1), of g "c\<lparr>cd_used := True, cd_reuse_seen := True\<rparr>"] kept)
      (auto simp: g1 again(4) busy_def brought_def entry_ok_def)
qed

lemma issue_ok:
  assumes ok: "flow_ok H f" and way: "fl_under_way f = xs @ Consumed p c # ys"
    and run: "exchange_issue env oh sv c (fl_state f) = (r, st)"
  shows "flow_ok H (f\<lparr>fl_state := st, fl_under_way := xs @ Issued p r # ys\<rparr>)"
proof -
  let ?g = "f\<lparr>fl_state := st, fl_under_way := xs @ Issued p r # ys\<rparr>"
  note i = issue_roster [OF run]
  have b: "busy H ?g x = busy H f x" "brought ?g x = brought f x" for x
    by (simp_all add: busy_def way brought_def)
  have "code_ok H ?g x" for x
  proof -
    have c: "code_ok H f x" using ok by (simp add: flow_ok_def)
    then have "set (brought f x) \<subseteq> roster (tables f)" by (auto simp: code_ok_def)
    then show ?thesis using c entry_kept [OF _ i(1)] roster_kept_mem [OF i(1)] by (simp add: code_ok_def b i(2))
  qed
  moreover have "tk_device t \<in> roster (tables ?g) \<and> tk_device t \<noteq> []" if "Issued q (Inr t) \<in> set (fl_under_way ?g)" for q t
  proof (cases "Issued q (Inr t) \<in> set (fl_under_way f)")
    case True
    then show ?thesis using flow_okD(5) [OF ok] roster_kept_mem [OF i(1)] by simp
  next
    case False
    then have "r = Inr t" using that by (simp add: way)
    then show ?thesis using i(3) by simp
  qed
  ultimately show ?thesis using flow_okD(1) [OF ok] by (simp add: flow_ok_def i(2))
qed

lemma settle_ok:
  assumes ok: "flow_ok H f" and way: "fl_under_way f = xs @ Issued p x # ys"
    and run: "exchange_settle env oh p x (fl_state f) = (r, st)" and h: "sha256_hex (oh_host oh) = H" and rel: "reliable env"
    and g: "g = f\<lparr>fl_state := st, fl_under_way := xs @ ys, fl_granted :=
      (case (r, x) of (Inr _, Inr t) \<Rightarrow> (H (tp_code p), tk_device t) # fl_granted f | _ \<Rightarrow> fl_granted f)\<rparr>"
  shows "flow_ok H g"
proof -
  let ?c = "H (tp_code p)"
  have one: "busy H f ?c = Suc (busy H g ?c)" and other: "c \<noteq> ?c \<Longrightarrow> busy H g c = busy H f c \<and> brought g c = brought f c" for c
    by (auto simp: busy_def way g brought_def split: sum.splits)
  then have none: "brought f ?c = []" "busy H g ?c = 0" "?c \<in> fl_hashes f"
    using ok flow_okD(2) [OF ok, of ?c] by (auto simp: flow_ok_def code_ok_def)
  have sub: "Issued q (Inr t) \<in> set (fl_under_way g) \<Longrightarrow> Issued q (Inr t) \<in> set (fl_under_way f)" for q t
    by (auto simp: g way)
  have used: "cd_used e" if "map_of (codes f) ?c = Some e" for e
    using flow_okD(3) [OF ok that] one by (auto simp: entry_ok_def)
  have here: "Issued p x \<in> set (fl_under_way f)" by (simp add: way)
  show ?thesis
    using run h
  proof (cases rule: settle_cases)
    case (swept t)
    then have g1: "g = f\<lparr>fl_under_way := xs @ ys, fl_granted := (?c, tk_device t) # fl_granted f\<rparr>" by (auto simp: g)
    have dev: "tk_device t \<in> roster (tables f) \<and> tk_device t \<noteq> []" using flow_okD(5) [OF ok] here swept(1) by auto
    have "code_ok H g c" for c
    proof (cases "c = ?c")
      case True
      have "brought g ?c = [tk_device t]" using none(1) by (simp add: g1 brought_def)
      then show ?thesis using True none dev swept(2) by (simp add: code_ok_def g1)
    next
      case False
      then show ?thesis using other [OF False] ok by (simp add: flow_ok_def code_ok_def g1)
    qed
    then show ?thesis by (rule flow_okI [OF ok _ _ _ sub]) (simp_all add: g1)
  next
    case (granted t c)
    then have g1: "g = f\<lparr>fl_state := st, fl_under_way := xs @ ys, fl_granted := (?c, tk_device t) # fl_granted f\<rparr>" by (auto simp: g)
    have dev: "tk_device t \<in> roster (tables f) \<and> tk_device t \<noteq> []" using flow_okD(5) [OF ok] here granted(1) by auto
    have new: "brought g ?c = [tk_device t]" using none(1) by (simp add: g1 brought_def)
    show ?thesis
      by (rule flow_ok_entry [OF ok granted(2), of g "c\<lparr>cd_device := tk_device t\<rparr>"])
        (use granted new none dev other sub used [OF granted(2)] in \<open>auto simp: g1 entry_ok_def\<close>)
  next
    case (replayed t c)
    then have g1: "g = f\<lparr>fl_state := st, fl_under_way := xs @ ys\<rparr>" by (auto simp: g)
    have "roster_kept (tables f) (tables g)" using revoke_quietly_kept by (simp add: g1 replayed)
    moreover have "brought g ?c = []" using none(1) by (simp add: g1 brought_def)
    ultimately show ?thesis
      by (intro flow_ok_entry [OF ok replayed(2), of g "c\<lparr>cd_device := tk_device t\<rparr>"])
        (use replayed none other sub used [OF replayed(2)] in \<open>auto simp: g1 entry_ok_def\<close>)
  next
    case (gone e)
    then have g1: "g = f\<lparr>fl_under_way := xs @ ys\<rparr>" by (auto simp: g)
    have new: "brought g ?c = []" using none(1) by (simp add: g1 brought_def)
    have "code_ok H g c" for c
    proof (cases "c = ?c")
      case True
      have "entry_ok 0 [] d y" if "map_of (codes f) ?c = Some y" for y d using used [OF that] by (simp add: entry_ok_def)
      then show ?thesis using True none new by (simp add: code_ok_def g1)
    next
      case False
      then show ?thesis using other [OF False] ok by (simp add: flow_ok_def code_ok_def g1)
    qed
    then show ?thesis by (rule flow_okI [OF ok _ _ _ sub]) (simp_all add: g1)
  next
    case (unmarked e c)
    then have g1: "g = f\<lparr>fl_state := st, fl_under_way := xs @ ys\<rparr>" by (auto simp: g)
    have "brought g ?c = []" using none(1) by (simp add: g1 brought_def)
    then show ?thesis
      by (intro flow_ok_entry [OF ok unmarked(2), of g "c\<lparr>cd_used := False\<rparr>"])
        (use unmarked none other sub in \<open>auto simp: g1 entry_ok_def\<close>)
  qed
qed

lemma flow_step_ok: "flow_step H f g \<Longrightarrow> flow_ok H f \<Longrightarrow> flow_ok H g"
proof (induction rule: flow_step.induct)
  case (consumed env oh sv p f c st)
  then show ?case using consume_ok [OF consumed(4,1,2,3) refl] by simp
next
  case (refused env oh sv p f e st)
  then show ?case using consume_ok [OF refused(4,1,2,3) refl] by simp
next
  case (issued f xs p c ys env oh sv r st)
  then show ?case by (intro issue_ok)
next
  case (granted f xs p r ys env oh tokens st t)
  then show ?case using settle_ok [OF granted(6,1,2,4,5) refl] by simp
next
  case (failed f xs p r ys env oh e st)
  then show ?case using settle_ok [OF failed(5,1,2,3,4) refl] by simp
next
  case (approved env oh sv i key f r st hs)
  note a = approve_codes [OF approved(1,2) flow_okD(1) [OF approved(5)]]
  show ?case
  proof (rule flow_ok_store [OF approved(5)])
    fix c e
    assume "map_of (codes (f\<lparr>fl_state := st, fl_hashes := fl_hashes f \<union> hs\<rparr>)) c = Some e"
    then have m: "map_of (sto_codes (oa_store st)) c = Some e" by simp
    show "map_of (codes f) c = Some e \<or> (c \<notin> fl_hashes f \<and> c \<in> fl_hashes (f\<lparr>fl_state := st, fl_hashes := fl_hashes f \<union> hs\<rparr>)
        \<and> \<not> cd_used e \<and> \<not> cd_reuse_seen e)"
    proof (cases "map_of (codes f) c = Some e")
      case False
      with a(3) [OF m] approved(4) have n: "\<not> cd_used e" "\<not> cd_reuse_seen e" "c \<notin> fl_hashes f" by auto
      then have "c \<notin> fst ` set (codes f)" using approved(5) unfolding flow_ok_def code_ok_def by (metis map_of_eq_None_iff option.exhaust)
      moreover have "c \<in> fst ` set (sto_codes (oa_store st))" using m by (force dest: map_of_SomeD)
      ultimately show ?thesis using n approved(3) by simp
    qed simp
  qed (use a(1,2) in auto)
next
  case (authorized env oh sv a f ar st)
  note a = authorize_codes [OF authorized(1) flow_okD(1) [OF authorized(2)]]
  then show ?case by (intro flow_ok_store [OF authorized(2)]) auto
next
  case (looked env oh i key f ir st)
  have "sto_codes (oa_store st) = codes f \<and> oa_node st = oa_node (fl_state f)"
    using looked(1) lookup_codes [of env "oh_host oh" i key "oa_store (fl_state f)"]
    by (auto simp: GetRequest_def getPending_def split: prod.splits sum.splits)
  then show ?case using flow_okD(1) [OF looked(2)] by (intro flow_ok_store [OF looked(2)]) auto
next
  case (denied env oh sv i key f r st)
  have "sto_codes (oa_store st) = codes f \<and> oa_node st = oa_node (fl_state f)"
    using denied(1) take_codes [of env "oh_host oh" i key "oa_store (fl_state f)"]
    by (auto simp: Deny_def split: prod.splits sum.splits)
  then show ?case using flow_okD(1) [OF denied(2)] by (intro flow_ok_store [OF denied(2)]) auto
next
  case (elsewhere f n)
  then show ?case using flow_okD(1) [OF elsewhere(2)] by (intro flow_ok_store [OF elsewhere(2)]) auto
qed

lemma flow_reachable_ok: "(flow_step H)\<^sup>*\<^sup>* (start_flow n) f \<Longrightarrow> flow_ok H f"
proof (induction rule: rtranclp_induct)
  case base
  show ?case by (simp add: flow_ok_def code_ok_def start_flow_def busy_def brought_def)
qed (rule flow_step_ok)

text \<open>Olga's consent and the exchange of her code, as a flow.\<close>

definition demo_flow :: "oauth_state \<Rightarrow> phase list \<Rightarrow> (string \<times> string) list \<Rightarrow> flow" where
  "demo_flow st ps gs = \<lparr>fl_state = st, fl_under_way = ps, fl_granted = gs, fl_hashes = {''YWJj''}\<rparr>"

definition demo_granted :: flow where
  "demo_granted = demo_flow (demo_with [] [(''YWJj'', demo_code\<lparr>cd_used := True, cd_device := ''agent_r1''\<rparr>)] demo_agent) []
     [(''YWJj'', ''agent_r1'')]"

lemma demo_flow_reached: "(flow_step (\<lambda>s. s))\<^sup>*\<^sup>* (start_flow (demo_node demo_home)) demo_granted"
proof -
  let ?used = "[(''YWJj'', demo_code\<lparr>cd_used := True\<rparr>)]"
  let ?asked = "start_flow (demo_node demo_home)\<lparr>fl_state := demo_with [(''YWJj'', demo_waiting)] [] demo_home\<rparr>"
  obtain ar where "Authorize demo_env demo_oauth demo_server demo_ask (demo_with [] [] demo_home) = (ar, demo_with [(''YWJj'', demo_waiting)] [] demo_home)"
    using demo_authorize by (metis prod.collapse)
  then have 1: "flow_step (\<lambda>s. s) (start_flow (demo_node demo_home)) ?asked"
    by (intro flow_step.authorized) (simp add: start_flow_def demo_with_def)
  obtain r where a: "Approve demo_env demo_oauth demo_server ''YWJj'' ''o'' (fl_state ?asked) = (r, demo_with [] [(''YWJj'', demo_code)] demo_home)"
    using demo_approve by (simp add: prod_eq_iff)
  have "flow_step (\<lambda>s. s) ?asked (?asked\<lparr>fl_state := demo_with [] [(''YWJj'', demo_code)] demo_home, fl_hashes := fl_hashes ?asked \<union> {''YWJj''}\<rparr>)"
    by (rule flow_step.approved [OF a]) (simp_all add: start_flow_def demo_with_def del: b64_encode.simps)
  then have 2: "flow_step (\<lambda>s. s) ?asked (demo_flow (demo_with [] [(''YWJj'', demo_code)] demo_home) [] [])"
    by (simp add: start_flow_def demo_flow_def)
  have 3: "flow_step (\<lambda>s. s) (demo_flow (demo_with [] [(''YWJj'', demo_code)] demo_home) [] [])
      (demo_flow (demo_with [] ?used demo_home) [Consumed demo_params (demo_code\<lparr>cd_used := True\<rparr>)] [])"
    using flow_step.consumed [of demo_env demo_oauth demo_server demo_params "demo_flow (demo_with [] [(''YWJj'', demo_code)] demo_home) [] []"]
      demo_consume [of demo_home] by (simp add: demo_flow_def)
  have 4: "flow_step (\<lambda>s. s) (demo_flow (demo_with [] ?used demo_home) [Consumed demo_params (demo_code\<lparr>cd_used := True\<rparr>)] [])
      (demo_flow (demo_with [] ?used demo_agent) [Issued demo_params (Inr demo_tokens)] [])"
    using flow_step.issued [of "demo_flow (demo_with [] ?used demo_home) [Consumed demo_params (demo_code\<lparr>cd_used := True\<rparr>)] []"
        "[]" demo_params "demo_code\<lparr>cd_used := True\<rparr>" "[]" demo_env demo_oauth demo_server] demo_issue [of ?used]
    by (simp add: demo_flow_def)
  have 5: "flow_step (\<lambda>s. s) (demo_flow (demo_with [] ?used demo_agent) [Issued demo_params (Inr demo_tokens)] []) demo_granted"
    using flow_step.granted [of "demo_flow (demo_with [] ?used demo_agent) [Issued demo_params (Inr demo_tokens)] []" "[]" demo_params
        "Inr demo_tokens" "[]" demo_env demo_oauth _ _ demo_tokens "\<lambda>s. s"] demo_settle
    by (simp add: demo_flow_def demo_granted_def) (simp add: demo_params_def demo_tokens_def)
  show ?thesis using 1 2 3 4 5 by (meson converse_rtranclp_into_rtranclp r_into_rtranclp)
qed

lemma demo_brought: "brought demo_granted ''YWJj'' = [''agent_r1'']" "busy H demo_granted c = 0"
  by (simp_all add: brought_def busy_def demo_granted_def demo_flow_def)

text \<open>
  C15. However requests interleave with each other and with everything else that happens on the space,
  an authorization code brings tokens for at most one device, and no tokens are issued for it
  while another exchange of it is under way.
\<close>
theorem code_once:
  assumes "(flow_step H)\<^sup>*\<^sup>* (start_flow n) f"
  shows "length (brought f c) + busy H f c \<le> 1"
  using flow_okD(2) [OF flow_reachable_ok [OF assms]] by (simp add: add.commute)

theorem code_once_witness: "length (brought demo_granted ''YWJj'') = 1 \<and> length (brought demo_granted ''YWJj'') + busy (\<lambda>s. s) demo_granted ''YWJj'' \<le> 1"
  using code_once [OF demo_flow_reached] by (simp add: demo_brought)



end
