(* ===== verification/ValidatorProps.thy ===== *)
theory ValidatorProps
  imports ComponentValidator Demo
begin

section \<open>What a loaded validator promises\<close>

text \<open>
  Well-formedness of the rules that are parsed from a schema, kept through the loading of the files and
  the compilation of what they refer to, and so of every answer of a loaded validator.
\<close>

subsection \<open>The rules of one schema\<close>

definition access_ok :: "access \<Rightarrow> bool" where
  "access_ok a \<longleftrightarrow> xa_level a = AccessManage \<or> xa_level a = AccessMember \<or> xa_level a = AccessNone"

text \<open>A key of a member's own is told by a pattern, and the member by what the pattern leaves open.\<close>

definition rule_ok :: "schema_lib \<Rightarrow> rule_spec \<Rightarrow> bool" where
  "rule_ok lib r \<longleftrightarrow> access_ok (rl_access r) \<and> (rl_merge r = [] \<or> rl_merge r \<in> set mergeModes)
     \<and> (\<forall>p. rl_re r = Some p \<longrightarrow> compiles lib p)
     \<and> (rl_merge r = ''per-member'' \<longrightarrow> (\<exists>own. rl_re r = Some (own @ ''.+$'') \<and> xa_own (rl_access r) = Some (own @ ''(.+)$'')
          \<and> compiles lib (own @ ''(.+)$'')))"

definition rules_ok :: "schema_lib \<Rightarrow> rule_set \<Rightarrow> bool" where
  "rules_ok lib rs \<longleftrightarrow> list_all (rule_ok lib) (all_rules rs)"

lemma access_key_level: "access_key props defs kv a = Inr b \<Longrightarrow> xa_level b = xa_level a"
  by (cases kv) (auto simp: access_key_def result_simps split: if_splits option.splits)

lemma parseAccess_ok: "parseAccess raw props defs = Inr a \<Longrightarrow> access_ok a"
proof (cases raw)
  case (GMap t)
  assume "parseAccess raw props defs = Inr a"
  then have "fold_res (access_key props defs) t (no_access\<lparr>xa_level := AccessMember\<rparr>) = Inr a" by (simp add: parseAccess_def GMap)
  then have "xa_level a = AccessMember"
    by (rule fold_res_invariant [where P = "\<lambda>a. xa_level a = AccessMember"]) (simp_all add: access_key_level)
  then show ?thesis by (simp add: access_ok_def)
qed (auto simp: parseAccess_def result_simps access_ok_def no_access_def)

lemma CutSuffix_append: "CutSuffix s suffix = Some p \<Longrightarrow> s = p @ suffix"
  by (auto simp: CutSuffix_def split: if_splits) (metis append_take_drop_id)

lemma parseRule_ok: "parseRule lib key entry props defs pattern = Inr r \<Longrightarrow> rule_ok lib r"
  by (auto simp: parseRule_def Let_def result_simps rule_ok_def rule_merge_def access_ok_def dest!: parseAccess_ok CutSuffix_append
      split: if_splits option.splits)

lemma alist_update_values: "(a, b) \<in> set (AList.update k r xs) \<Longrightarrow> b = r \<or> (a, b) \<in> set xs"
  by (induction xs) (auto split: if_splits)

lemma parseRules_ok:
  assumes "parseRules lib doc = Inr rs"
  shows "rules_ok lib rs"
proof -
  let ?props = "map_or_nil (mindex doc ''properties'')" and ?defs = "map_or_nil (mindex doc ''$defs'')"
  let ?pats = "map_or_nil (mindex doc ''patternProperties'')"
  obtain ps qs where ps: "fold_res (\<lambda>(k, e) ps. rbind (parseRule lib k e ?props ?defs False) (\<lambda>r. Inr (AList.update k r ps))) ?props [] = Inr ps"
    and qs: "fold_res (\<lambda>p rs. rbind (parseRule lib p (mindex ?pats p) ?props ?defs True) (\<lambda>r. Inr (rs @ [r]))) (sort (map fst ?pats)) [] = Inr qs"
    and rs: "rs = \<lparr>rs_props = ps, rs_patterns = qs\<rparr>"
    using assms by (auto simp: parseRules_def Let_def result_simps)
  have "list_all (rule_ok lib) (map snd ps)"
    using ps
  proof (rule fold_res_invariant)
    fix x s t
    assume "(case x of (k, e) \<Rightarrow> \<lambda>ps. rbind (parseRule lib k e ?props ?defs False) (\<lambda>r. Inr (AList.update k r ps))) s = Inr t"
      "list_all (rule_ok lib) (map snd s)"
    then show "list_all (rule_ok lib) (map snd t)"
      by (auto simp: result_simps list_all_iff dest!: parseRule_ok alist_update_values split: prod.splits)
  qed simp
  moreover have "list_all (rule_ok lib) qs"
    using qs by (rule fold_res_invariant) (auto simp: result_simps dest: parseRule_ok)
  ultimately show ?thesis by (simp add: rules_ok_def all_rules_def rs)
qed

subsection \<open>Loading\<close>

definition loading_ok :: "schema_lib \<Rightarrow> loading \<Rightarrow> bool" where
  "loading_ok lib l \<longleftrightarrow> (\<forall>name vs. map_of (ld_found l) name = Some vs \<longrightarrow>
     name \<noteq> [] \<and> (\<forall>n f. map_of vs n = Some f \<longrightarrow> rules_ok lib (sf_rules f)))"

lemma schemaFileName_ne: "schemaFileName s = Some (base, ds) \<Longrightarrow> base \<noteq> []"
  by (auto simp: schemaFileName_def Let_def split: if_splits)

lemma capitalize_ne: "s \<noteq> [] \<Longrightarrow> capitalize s \<noteq> []"
  by (cases s) (simp_all add: capitalize_def)

lemma load_file_ok:
  assumes "load_file lib fs dir file l = Inr l1" and "loading_ok lib l"
  shows "loading_ok lib l1"
proof -
  have same: "loading_ok lib (l\<lparr>ld_resources := rs\<rparr>)" "loading_ok lib (l\<lparr>ld_resources := rs, ld_pending := ps\<rparr>)" for rs ps
    using assms(2) by (simp_all add: loading_ok_def)
  obtain raw parsed sid where sid: "sid = str_or_empty (mindex (map_or_nil parsed) ''$id'')"
    and raw: "fs_read fs file = Inr raw" "sl_unmarshal lib raw = Inr parsed" "sid \<noteq> []" "sl_add lib (ld_resources l) sid (map_or_nil parsed) = None"
    using assms(1) by (auto simp: load_file_def Let_def result_simps split: option.splits)
  show ?thesis
  proof (cases "dir = ''schemas/template''")
    case True
    then show ?thesis using assms(1) raw same sid by (auto simp: load_file_def Let_def result_simps)
  next
    case False
    then obtain base ds where n: "schemaFileName (path_Base file) = Some (base, ds)"
      using assms(1) raw sid by (auto simp: load_file_def Let_def result_simps split: option.splits)
    show ?thesis
    proof (cases "base = ''common''")
      case True
      then show ?thesis using assms(1) raw same sid False n by (auto simp: load_file_def Let_def result_simps)
    next
      case other: False
      then obtain k rs where "parseRules lib (map_or_nil parsed) = Inr rs"
        and l1: "l1 = l\<lparr>ld_resources := ld_resources l @ [(sid, map_or_nil parsed)], ld_found := AList.update (capitalize base)
           (AList.update k \<lparr>sf_file = file, sf_raw = raw, sf_doc = map_or_nil parsed, sf_id = sid, sf_rules = rs\<rparr>
              (found_versions l (capitalize base))) (ld_found l)\<rparr>"
        using assms(1) raw sid False n by (auto simp: load_file_def Let_def result_simps split: option.splits)
      moreover have "capitalize base \<noteq> []" using n by (simp add: schemaFileName_ne capitalize_ne)
      ultimately show ?thesis using assms(2) parseRules_ok
        by (auto simp: loading_ok_def found_versions_def update_conv' split: if_splits option.splits)
    qed
  qed
qed

lemma load_type_ok:
  assumes "load_type lib ranges l name (v, ps) = Inr (v1, ps1)" and "loading_ok lib l" and "name \<in> fst ` set (ld_found l)"
  obtains lo cur steps and f :: schemaFile where "vd_versions v1 = AList.update name \<lparr>tv_lo = lo, tv_current = cur, tv_steps = steps\<rparr> (vd_versions v)"
    "1 \<le> lo" "lo \<le> cur" "vd_rules v1 = AList.update name (sf_rules f) (vd_rules v)" "rules_ok lib (sf_rules f)" "name \<noteq> []"
    "ps1 = ps @ [(name, sf_id f)]" "vd_content v1 = vd_content v" "vd_components v1 = vd_components v"
proof -
  obtain vs where vs: "map_of (ld_found l) name = Some vs" using assms(3) by (metis map_of_eq_None_iff option.exhaust)
  have run: "load_type lib ranges l name (v, ps) = Inr (v1, ps1)" using assms(1) .
  then obtain lo cur f where r: "map_of ranges name = Some (lo, cur)" "1 \<le> lo" "lo \<le> cur" "map_of (found_versions l name) cur = Some f"
    by (auto simp: load_type_def result_simps split: option.splits)
  then have "rules_ok lib (sf_rules f) \<and> name \<noteq> []" using assms(2) vs by (auto simp: loading_ok_def found_versions_def)
  moreover obtain steps where "vd_versions v1 = AList.update name \<lparr>tv_lo = lo, tv_current = cur, tv_steps = steps\<rparr> (vd_versions v)"
    "vd_rules v1 = AList.update name (sf_rules f) (vd_rules v)" "ps1 = ps @ [(name, sf_id f)]" "vd_content v1 = vd_content v"
    "vd_components v1 = vd_components v"
    using run r by (auto simp: load_type_def result_simps)
  ultimately show thesis using r by (intro that [of lo cur steps f]) auto
qed

text \<open>Between the two phases.\<close>

definition types_ok :: "schema_lib \<Rightarrow> Validator \<times> (string \<times> string) list \<Rightarrow> bool" where
  "types_ok lib st \<longleftrightarrow> (case st of (v, ps) \<Rightarrow>
     (\<forall>name tv. map_of (vd_versions v) name = Some tv \<longrightarrow> 1 \<le> tv_lo tv \<and> tv_lo tv \<le> tv_current tv \<and> map_of (vd_rules v) name \<noteq> None)
     \<and> (\<forall>name rs. map_of (vd_rules v) name = Some rs \<longrightarrow> name \<noteq> [] \<and> rules_ok lib rs \<and> name \<in> fst ` set ps \<and> map_of (vd_versions v) name \<noteq> None))"

lemma load_types_ok:
  assumes "fold_res (load_type lib ranges l) names st = Inr st1" and "loading_ok lib l" and "set names \<subseteq> fst ` set (ld_found l)"
    and "types_ok lib st"
  shows "types_ok lib st1"
  using assms(1,4)
proof (rule fold_res_invariant)
  fix name a b
  assume n: "name \<in> set names" and run: "load_type lib ranges l name a = Inr b" and ok: "types_ok lib a"
  obtain v ps v1 ps1 where ab: "a = (v, ps)" "b = (v1, ps1)" by fastforce
  from run have "load_type lib ranges l name (v, ps) = Inr (v1, ps1)" by (simp add: ab)
  then show "types_ok lib b"
  proof (rule load_type_ok [OF _ assms(2)], goal_cases)
    case 1
    then show ?case using n assms(3) by blast
  next
    case (2 lo cur steps f)
    then show ?case using ok by (auto simp: ab types_ok_def update_conv')
  qed
qed

subsection \<open>Compiling\<close>

definition content_compiled :: "Validator \<Rightarrow> string \<Rightarrow> rule_spec \<Rightarrow> bool" where
  "content_compiled v name r \<longleftrightarrow> xa_content (rl_access r) = [] \<or> map_of (vd_content v) (name, xa_content (rl_access r)) \<noteq> None"

definition grown :: "Validator \<Rightarrow> Validator \<Rightarrow> bool" where
  "grown v v1 \<longleftrightarrow> vd_rules v1 = vd_rules v \<and> vd_versions v1 = vd_versions v
     \<and> (\<forall>k. map_of (vd_content v) k \<noteq> None \<longrightarrow> map_of (vd_content v1) k \<noteq> None)
     \<and> (\<forall>k. map_of (vd_components v) k \<noteq> None \<longrightarrow> map_of (vd_components v1) k \<noteq> None)"

lemma grown_refl [simp]: "grown v v"
  by (simp add: grown_def)

lemma grown_trans: "grown v v1 \<Longrightarrow> grown v1 v2 \<Longrightarrow> grown v v2"
  by (simp add: grown_def)

lemma grown_compiled: "grown v v1 \<Longrightarrow> content_compiled v name r \<Longrightarrow> content_compiled v1 name r"
  by (auto simp: grown_def content_compiled_def)

lemma compile_content_ok: "compile_content lib name sid r v = Inr v1 \<Longrightarrow> grown v v1 \<and> content_compiled v1 name r"
  by (auto simp: compile_content_def Let_def grown_def content_compiled_def update_conv' split: if_splits option.splits)

lemma compile_contents_ok:
  "fold_res (compile_content lib name sid) rs v = Inr v1 \<Longrightarrow> grown v v1 \<and> list_all (content_compiled v1 name) rs"
proof (induction rs arbitrary: v)
  case (Cons r rs)
  then obtain w where w: "compile_content lib name sid r v = Inr w" "fold_res (compile_content lib name sid) rs w = Inr v1"
    by (auto simp: result_simps)
  show ?case using compile_content_ok [OF w(1)] Cons.IH [OF w(2)] grown_trans grown_compiled by auto
qed simp

definition type_compiled :: "Validator \<Rightarrow> string \<Rightarrow> bool" where
  "type_compiled v name \<longleftrightarrow> map_of (vd_components v) name \<noteq> None \<and> list_all (content_compiled v name) (all_rules (rules_of v name))"

lemma grown_type: "grown v v1 \<Longrightarrow> type_compiled v name \<Longrightarrow> type_compiled v1 name"
proof -
  assume g: "grown v v1" and t: "type_compiled v name"
  then have "rules_of v1 name = rules_of v name" "map_of (vd_components v1) name \<noteq> None" by (auto simp: grown_def rules_of_def type_compiled_def)
  then show ?thesis using t grown_compiled [OF g] by (auto simp: type_compiled_def list_all_iff)
qed

lemma compile_pending_ok:
  assumes "compile_pending lib (name, sid) v = Inr v1"
  shows "grown v v1 \<and> (name \<noteq> [] \<longrightarrow> type_compiled v1 name)"
proof (cases "name = []")
  case True
  then show ?thesis using assms by (auto simp: compile_pending_def grown_def split: option.splits)
next
  case False
  then have "fold_res (compile_content lib name sid) (all_rules (rules_of v name)) (v\<lparr>vd_components := AList.update name sid (vd_components v)\<rparr>) = Inr v1"
    using assms by (auto simp: compile_pending_def split: option.splits)
  from compile_contents_ok [OF this] show ?thesis
    by (auto simp: type_compiled_def grown_def rules_of_def update_conv')
qed

lemma compile_all_ok:
  "fold_res (compile_pending lib) ps v = Inr v1 \<Longrightarrow> grown v v1 \<and> (\<forall>name. name \<in> fst ` set ps \<and> name \<noteq> [] \<longrightarrow> type_compiled v1 name)"
proof (induction ps arbitrary: v)
  case (Cons p ps)
  then obtain w where w: "compile_pending lib (fst p, snd p) v = Inr w" "fold_res (compile_pending lib) ps w = Inr v1"
    by (auto simp: result_simps)
  show ?case using compile_pending_ok [OF w(1)] Cons.IH [OF w(2)] grown_trans grown_type by (metis (no_types, lifting) fst_conv imageE image_eqI list.set_cases set_ConsD)
qed simp

lemma map_of_value: "map_of xs k = Some r \<Longrightarrow> r \<in> snd ` set xs"
  by (metis image_eqI map_of_SomeD snd_conv)

text \<open>
  C21. Every answer of a validator that was loaded is well formed, whatever the schema files say: who
  may write a key is one of the three levels, how it merges is one of the three modes, the key of a
  member's own names the member, the content that a key holds has a schema, and the versions of a
  type, which has a schema and rules, are a range that starts at one or later.
\<close>
theorem validator_well_formed:
  assumes "NewValidatorFS lib fs = Inr v"
  shows "case AccessOf lib v typ key of None \<Rightarrow> MergeMode lib v typ key = None
    | Some a \<Rightarrow> xa_level a \<in> {AccessManage, AccessMember, AccessNone}
        \<and> xa_content a \<in> insert [] {def. \<exists>sch. map_of (vd_content v) (typ, def) = Some sch}
        \<and> (case MergeMode lib v typ key of None \<Rightarrow> True
            | Some mode \<Rightarrow> mode \<in> {''single'', ''per-entry'', ''per-member''} \<and> (xa_own a = None \<longrightarrow> mode \<noteq> ''per-member''))
        \<and> (\<exists>lo cur sch. Versions v typ = Some (lo, cur) \<and> 1 \<le> lo \<and> lo \<le> cur \<and> map_of (vd_components v) typ = Some sch)"
proof -
  obtain l ranges v0 ps where l: "fold_res (load_dir lib fs) [''schemas/component'', ''schemas/template'']
       \<lparr>ld_resources = [], ld_pending = [], ld_found = []\<rparr> = Inr l"
    and t: "fold_res (load_type lib ranges l) (sort (map fst (ld_found l))) (empty_validator (ld_resources l), ld_pending l) = Inr (v0, ps)"
    and c: "fold_res (compile_pending lib) ps v0 = Inr v"
    using assms by (auto simp: NewValidatorFS_def result_simps)
  have "loading_ok lib l"
    using l
  proof (rule fold_res_invariant)
    fix dir a b
    assume "load_dir lib fs dir a = Inr b" "loading_ok lib a"
    then show "loading_ok lib b" by (auto simp: load_dir_def result_simps intro: load_file_ok elim!: fold_res_invariant)
  qed (simp add: loading_ok_def)
  then have ok: "types_ok lib (v0, ps)"
    by (rule load_types_ok [OF t]) (auto simp: types_ok_def empty_validator_def)
  note all = compile_all_ok [OF c]
  show ?thesis
  proof (cases "resolveRule lib v typ key")
    case (Some r)
    then obtain rs where rs: "map_of (vd_rules v) typ = Some rs" "r \<in> set (all_rules rs)"
      by (auto simp: resolveRule_def all_rules_def dest: find_in_set map_of_value split: option.splits)
    have old: "vd_rules v0 = vd_rules v" "vd_versions v0 = vd_versions v" using all by (simp_all add: grown_def)
    have r: "rule_ok lib r" using ok rs by (auto simp: types_ok_def old rules_ok_def list_all_iff)
    have "type_compiled v typ" using all ok rs by (auto simp: types_ok_def old)
    then have comp: "content_compiled v typ r" "map_of (vd_components v) typ \<noteq> None"
      using rs by (auto simp: type_compiled_def list_all_iff rules_of_def)
    have "map_of (vd_versions v) typ \<noteq> None" using ok rs unfolding types_ok_def by (simp add: old)
    then obtain tv where tv: "map_of (vd_versions v) typ = Some tv" by blast
    have tv: "map_of (vd_versions v) typ = Some tv" "1 \<le> tv_lo tv" "tv_lo tv \<le> tv_current tv"
      using ok tv unfolding types_ok_def by (simp_all add: old)
    show ?thesis
      using r comp tv by (auto simp: AccessOf_def MergeMode_def Some rule_ok_def access_ok_def mergeModes_def content_compiled_def Versions_def)
  qed (simp add: AccessOf_def MergeMode_def)
qed

text \<open>A library that accepts everything, one type with one text, and the template.\<close>

definition demo_note :: gmap where
  "demo_note = [(''$id'', GStr ''n''), (''properties'', GMap [(''text'', GMap [(''x-access'', GStr AccessMember), (''x-merge'', GStr ''single'')])])]"

definition demo_lib :: schema_lib where
  "demo_lib = \<lparr>sl_regexps = (\<lambda>_. None), sl_submatch = (\<lambda>_ _. None),
     sl_unmarshal = (\<lambda>raw. Inr (GMap (if raw = ''note.v1.schema.json'' then demo_note else [(''$id'', GStr ''t'')]))),
     sl_decode = (\<lambda>_. Inr GNil), sl_add = (\<lambda>_ _ _. None), sl_compile = (\<lambda>_ _. None), sl_validate = (\<lambda>_ _ _. Accepted),
     sl_ranges = (\<lambda>_. Inr [(''Note'', 1, 1)])\<rparr>"

definition demo_fs :: file_system where
  "demo_fs = \<lparr>fs_glob = (\<lambda>p. Inr [if p = ''schemas/component/*.schema.json'' then ''note.v1.schema.json'' else ''template'']), fs_read = Inr\<rparr>"

definition demo_rule :: rule_spec where
  "demo_rule = \<lparr>rl_re = None, rl_merge = ''single'', rl_access = no_access\<lparr>xa_level := AccessMember\<rparr>, rl_encoded = False,
     rl_key = ''text'', rl_notify = GNil\<rparr>"

lemma demo_rules: "parseRules demo_lib demo_note = Inr \<lparr>rs_props = [(''text'', demo_rule)], rs_patterns = []\<rparr>"
  by (simp add: parseRules_def parseRule_def parseAccess_def rule_merge_def mergeModes_def demo_note_def demo_rule_def map_or_nil_def
      mindex_def str_or_empty_def rguard_def Let_def)

lemma demo_file_name: "schemaFileName (path_Base ''note.v1.schema.json'') = Some (''note'', ''1'')" "capitalize ''note'' = ''Note''" "atoi ''1'' = Some 1"
  by code_simp+

lemma demo_loaded: "\<exists>v. NewValidatorFS demo_lib demo_fs = Inr v \<and> vd_rules v = [(''Note'', \<lparr>rs_props = [(''text'', demo_rule)], rs_patterns = []\<rparr>)]"
proof -
  have one: "load_dir demo_lib demo_fs ''schemas/component'' \<lparr>ld_resources = [], ld_pending = [], ld_found = []\<rparr>
      = Inr \<lparr>ld_resources = [(''n'', demo_note)], ld_pending = [], ld_found = [(''Note'', [(1, \<lparr>sf_file = ''note.v1.schema.json'',
         sf_raw = ''note.v1.schema.json'', sf_doc = demo_note, sf_id = ''n'', sf_rules = \<lparr>rs_props = [(''text'', demo_rule)], rs_patterns = []\<rparr>\<rparr>)])]\<rparr>"
    using demo_rules demo_file_name by (simp add: load_dir_def load_file_def demo_fs_def demo_lib_def rguard_def Let_def
        found_versions_def map_or_nil_def mindex_def str_or_empty_def demo_note_def)
  show ?thesis
    by (simp add: NewValidatorFS_def one)
       (simp add: load_dir_def load_file_def demo_fs_def demo_lib_def rguard_def Let_def found_versions_def map_or_nil_def mindex_def
         str_or_empty_def readBundleRanges_def load_type_def empty_validator_def Steps_def compile_pending_def rules_of_def all_rules_def
         compile_content_def demo_rule_def no_access_def)
qed

theorem validator_well_formed_witness:
  "\<exists>v lo cur. NewValidatorFS demo_lib demo_fs = Inr v \<and> MergeMode demo_lib v ''Note'' ''text'' = Some ''single''
     \<and> Versions v ''Note'' = Some (lo, cur) \<and> 1 \<le> lo \<and> lo \<le> cur"
proof -
  obtain v where v: "NewValidatorFS demo_lib demo_fs = Inr v" and r: "vd_rules v = [(''Note'', \<lparr>rs_props = [(''text'', demo_rule)], rs_patterns = []\<rparr>)]"
    using demo_loaded by blast
  have "resolveRule demo_lib v ''Note'' ''text'' = Some demo_rule" by (simp add: resolveRule_def r)
  then show ?thesis
    using v validator_well_formed [OF v, of "''Note''" "''text''"] by (auto simp: AccessOf_def MergeMode_def demo_rule_def no_access_def)
qed

end
