(* ===== verification/Hub.thy ===== *)
theory Hub
  imports Login
begin

section \<open>The hub of open sockets\<close>

text \<open>
  \<open>internal/websocket\<close>: \<open>hub.go\<close>, \<open>client.go\<close>, \<open>handler.go\<close> and \<open>message.go\<close>. A client is known by a
  number, the one it got when its socket was opened; the maps of the hub hold such numbers. A Go
  statement that panics ends the process: a send on a closed channel, closing a channel twice, cutting
  a key shorter than 20 bytes for the log (the key is cut whether the line is logged or not). A send on a
  full channel outside a \<open>select\<close> waits. So an operation runs, blocks or panics.
\<close>

datatype 'a outcome = Ran 'a | Blocks | Panics

fun ran :: "'a outcome \<Rightarrow> ('a \<Rightarrow> 'b outcome) \<Rightarrow> 'b outcome" where
  "ran (Ran x) f = f x"
| "ran Blocks f = Blocks"
| "ran Panics f = Panics"

definition sendBufferSize :: nat where "sendBufferSize = 256"
definition hubBufferSize :: nat where "hubBufferSize = 256"

subsection \<open>Messages\<close>

record IncomingMessage =
  im_type :: string
  im_application :: string

datatype ws_message =
    WsConnected string
  | WsPong
  | WsError string
  | WsEvents event
  | WsPayload string

record BroadcastMessage =
  bm_application :: string
  bm_event :: event
  bm_recipients :: "string list"

record UserBroadcastMessage =
  ub_user :: string
  ub_event :: event

subsection \<open>Clients and the hub\<close>

record client =
  wc_user :: account
  wc_send :: "ws_message list"      \<comment> \<open>what waits in the channel, the first first\<close>
  wc_closed :: bool                 \<comment> \<open>the channel is closed\<close>
  wc_conn_closed :: bool
  wc_writer :: bool                 \<comment> \<open>\<open>WritePump\<close> runs\<close>
  wc_subs :: "string list"
  wc_written :: "ws_message list"   \<comment> \<open>what left over the connection, the last first\<close>

record hub =
  hb_all :: "client list"           \<comment> \<open>every client there ever was, by its number\<close>
  hb_clients :: "nat list"
  hb_byUser :: "(string \<times> nat list) list"
  hb_byApp :: "(string \<times> nat list) list"
  hb_broadcast :: "BroadcastMessage list"
  hb_userBroadcast :: "UserBroadcastMessage list"

definition NewHub :: hub where
  "NewHub = \<lparr>hb_all = [], hb_clients = [], hb_byUser = [], hb_byApp = [], hb_broadcast = [], hb_userBroadcast = []\<rparr>"

definition NewClient :: "account \<Rightarrow> client" where
  "NewClient u = \<lparr>wc_user = u, wc_send = [], wc_closed = False, wc_conn_closed = False, wc_writer = True, wc_subs = [], wc_written = []\<rparr>"

definition the_client :: "hub \<Rightarrow> nat \<Rightarrow> client" where
  "the_client h c = hb_all h ! c"

definition client_key :: "hub \<Rightarrow> nat \<Rightarrow> string" where
  "client_key h c = u_public_key (wc_user (the_client h c))"

definition client_device :: "hub \<Rightarrow> nat \<Rightarrow> string" where
  "client_device h c = ac_device_key (wc_user (the_client h c))"

definition put_client :: "nat \<Rightarrow> client \<Rightarrow> hub \<Rightarrow> hub" where
  "put_client c x h = h\<lparr>hb_all := (hb_all h)[c := x]\<rparr>"

definition listed :: "(string \<times> nat list) list \<Rightarrow> string \<Rightarrow> nat list" where
  "listed m k = (case map_of m k of Some cs \<Rightarrow> cs | None \<Rightarrow> [])"

text \<open>The first occurrence goes, and an empty list goes with its key.\<close>

definition drop_listed :: "nat \<Rightarrow> string \<Rightarrow> (string \<times> nat list) list \<Rightarrow> (string \<times> nat list) list" where
  "drop_listed c k m = (let cs = remove1 c (listed m k) in if cs = [] then AList.delete k m else AList.update k cs m)"

text \<open>\<open>key[:20]\<close>, which only a log line reads.\<close>

definition cut_for_log :: "hub \<Rightarrow> nat \<Rightarrow> unit outcome" where
  "cut_for_log h c = (if length (client_key h c) < 20 then Panics else Ran ())"

subsection \<open>Sending to a client\<close>

text \<open>\<open>c.send <- m\<close>.\<close>

definition send_to :: "nat \<Rightarrow> ws_message \<Rightarrow> hub \<Rightarrow> hub outcome" where
  "send_to c m h =
     (let x = the_client h c
      in if wc_closed x then Panics
         else if length (wc_send x) \<ge> sendBufferSize then Blocks
         else Ran (put_client c (x\<lparr>wc_send := wc_send x @ [m]\<rparr>) h))"

text \<open>The same in a \<open>select\<close> with a default: whether it was accepted.\<close>

definition try_send :: "nat \<Rightarrow> ws_message \<Rightarrow> hub \<Rightarrow> (bool \<times> hub) outcome" where
  "try_send c m h =
     (let x = the_client h c
      in if wc_closed x then Panics
         else if length (wc_send x) \<ge> sendBufferSize then Ran (False, h)
         else Ran (True, put_client c (x\<lparr>wc_send := wc_send x @ [m]\<rparr>) h))"

subsection \<open>What the hub's own goroutine does\<close>

definition registerClient :: "nat \<Rightarrow> hub \<Rightarrow> hub outcome" where
  "registerClient c h =
     (let k = client_key h c;
          h1 = h\<lparr>hb_clients := (if c \<in> set (hb_clients h) then hb_clients h else c # hb_clients h),
                 hb_byUser := AList.update k (listed (hb_byUser h) k @ [c]) (hb_byUser h)\<rparr>
      in ran (cut_for_log h1 c) (\<lambda>_. Ran h1))"

definition removeFromAppSubscribers :: "nat \<Rightarrow> string \<Rightarrow> hub \<Rightarrow> hub" where
  "removeFromAppSubscribers c appID h = h\<lparr>hb_byApp := drop_listed c appID (hb_byApp h)\<rparr>"

definition unregisterClient :: "nat \<Rightarrow> hub \<Rightarrow> hub outcome" where
  "unregisterClient c h =
     (if c \<notin> set (hb_clients h) then Ran h
      else let x = the_client h c; h1 = h\<lparr>hb_clients := remove1 c (hb_clients h)\<rparr>
           in if wc_closed x then Panics
              else let h2 = put_client c (x\<lparr>wc_closed := True\<rparr>) h1;
                       h3 = h2\<lparr>hb_byUser := drop_listed c (client_key h c) (hb_byUser h2)\<rparr>;
                       h4 = fold (removeFromAppSubscribers c) (wc_subs x) h3
                   in ran (cut_for_log h4 c) (\<lambda>_. Ran h4))"

definition close_conn :: "nat \<Rightarrow> hub \<Rightarrow> hub" where
  "close_conn c h = put_client c ((the_client h c)\<lparr>wc_conn_closed := True\<rparr>) h"

definition disconnectClients :: "string \<Rightarrow> string \<Rightarrow> hub \<Rightarrow> hub" where
  "disconnectClients account device h =
     fold (\<lambda>c h. if device = [] \<or> client_device h c = device then close_conn c h else h) (listed (hb_byUser h) account) h"

text \<open>A message that finds the buffer full is dropped, with a log line.\<close>

fun send_all :: "ws_message \<Rightarrow> nat list \<Rightarrow> hub \<Rightarrow> hub outcome" where
  "send_all m [] h = Ran h"
| "send_all m (c # cs) h =
     ran (try_send c m h) (\<lambda>(ok, h1).
       if ok then send_all m cs h1 else ran (cut_for_log h1 c) (\<lambda>_. send_all m cs h1))"

definition broadcastToApp :: "BroadcastMessage \<Rightarrow> hub \<Rightarrow> hub outcome" where
  "broadcastToApp msg h =
     send_all (WsEvents (bm_event msg))
       (filter (\<lambda>c. client_key h c \<in> set (bm_recipients msg)) (listed (hb_byApp h) (bm_application msg))) h"

definition broadcastToUser :: "UserBroadcastMessage \<Rightarrow> hub \<Rightarrow> hub outcome" where
  "broadcastToUser msg h = send_all (WsEvents (ub_event msg)) (listed (hb_byUser h) (ub_user msg)) h"

subsection \<open>What others do with the hub\<close>

definition hubSubscribe :: "nat \<Rightarrow> string \<Rightarrow> hub \<Rightarrow> hub" where
  "hubSubscribe c appID h =
     (if c \<in> set (listed (hb_byApp h) appID) then h
      else h\<lparr>hb_byApp := AList.update appID (listed (hb_byApp h) appID @ [c]) (hb_byApp h)\<rparr>)"

definition hubUnsubscribe :: "nat \<Rightarrow> string \<Rightarrow> hub \<Rightarrow> hub" where
  "hubUnsubscribe = removeFromAppSubscribers"

fun push_all :: "string \<Rightarrow> string \<Rightarrow> nat list \<Rightarrow> bool \<times> hub \<Rightarrow> (bool \<times> hub) outcome" where
  "push_all device payload [] st = Ran st"
| "push_all device payload (c # cs) (delivered, h) =
     (if client_device h c \<noteq> device then push_all device payload cs (delivered, h)
      else ran (try_send c (WsPayload payload) h) (\<lambda>(ok, h1). push_all device payload cs (delivered \<or> ok, h1)))"

definition SendPush :: "string \<Rightarrow> string \<Rightarrow> string \<Rightarrow> hub \<Rightarrow> (bool \<times> hub) outcome" where
  "SendPush account device payload h = push_all device payload (listed (hb_byUser h) account) (False, h)"

text \<open>The accounts a broadcast is for: the members as they are now, and whoever was just removed.\<close>

definition removed_key :: "event \<Rightarrow> string list" where
  "removed_key ev = (if ev_type ev = EventTypeMemberRemoved \<and> str_or_empty (mindex (data_of ev) ''memberPublicKey'') \<noteq> []
     then [str_or_empty (mindex (data_of ev) ''memberPublicKey'')] else [])"

definition BroadcastToApplication :: "env \<Rightarrow> db \<Rightarrow> string \<Rightarrow> event \<Rightarrow> hub \<Rightarrow> hub outcome" where
  "BroadcastToApplication env d appID ev h =
     (case GetMembersByApplicationID env appID d of
        Inl _ \<Rightarrow> Ran h
      | Inr members \<Rightarrow>
          if length (hb_broadcast h) \<ge> hubBufferSize then Blocks
          else Ran (h\<lparr>hb_broadcast := hb_broadcast h @ [\<lparr>bm_application = appID, bm_event = ev,
                 bm_recipients = map mb_public_key members @ removed_key ev\<rparr>]\<rparr>))"

definition BroadcastToUser :: "string \<Rightarrow> event \<Rightarrow> hub \<Rightarrow> hub outcome" where
  "BroadcastToUser key ev h =
     (if length (hb_userBroadcast h) \<ge> hubBufferSize then Blocks
      else Ran (h\<lparr>hb_userBroadcast := hb_userBroadcast h @ [\<lparr>ub_user = key, ub_event = ev\<rparr>]\<rparr>))"

definition GetStats :: "hub \<Rightarrow> nat \<times> nat" where
  "GetStats h = (length (hb_clients h), sum_list (map (length \<circ> snd) (hb_byApp h)))"

subsection \<open>What a client does\<close>

definition clientSubscribe :: "env \<Rightarrow> db \<Rightarrow> nat \<Rightarrow> string \<Rightarrow> hub \<Rightarrow> hub outcome" where
  "clientSubscribe env d c appID h =
     (case IsMember env appID (client_key h c) d of
        Inl _ \<Rightarrow> ran (cut_for_log h c) (\<lambda>_. send_to c (WsError ''failed to check membership'') h)
      | Inr member \<Rightarrow>
          if \<not> member then ran (cut_for_log h c) (\<lambda>_. send_to c (WsError ''not a member of this application'') h)
          else let x = the_client h c;
                   h1 = hubSubscribe c appID (put_client c (x\<lparr>wc_subs := List.insert appID (wc_subs x)\<rparr>) h)
               in ran (cut_for_log h1 c) (\<lambda>_. Ran h1))"

definition clientUnsubscribe :: "nat \<Rightarrow> string \<Rightarrow> hub \<Rightarrow> hub outcome" where
  "clientUnsubscribe c appID h =
     (let x = the_client h c; h1 = hubUnsubscribe c appID (put_client c (x\<lparr>wc_subs := removeAll appID (wc_subs x)\<rparr>) h)
      in ran (cut_for_log h1 c) (\<lambda>_. Ran h1))"

definition IsSubscribed :: "nat \<Rightarrow> string \<Rightarrow> hub \<Rightarrow> bool" where
  "IsSubscribed c appID h \<longleftrightarrow> appID \<in> set (wc_subs (the_client h c))"

definition handleMessage :: "env \<Rightarrow> db \<Rightarrow> nat \<Rightarrow> IncomingMessage \<Rightarrow> hub \<Rightarrow> hub outcome" where
  "handleMessage env d c msg h =
     (if im_type msg = ''subscribe'' then (if im_application msg \<noteq> [] then clientSubscribe env d c (im_application msg) h else Ran h)
      else if im_type msg = ''unsubscribe'' then (if im_application msg \<noteq> [] then clientUnsubscribe c (im_application msg) h else Ran h)
      else if im_type msg = ''ping'' then send_to c WsPong h
      else Ran h)"

text \<open>
  A turn of \<open>WritePump\<close>: the first message leaves, or writing fails and the pump ends, which closes the
  connection; so does a ping that fails, and a channel that is closed and empty. \<open>ok\<close> says whether the
  network takes what is written.
\<close>

definition end_writer :: "client \<Rightarrow> client" where
  "end_writer x = x\<lparr>wc_writer := False, wc_conn_closed := True\<rparr>"

definition write_turn :: "bool \<Rightarrow> nat \<Rightarrow> hub \<Rightarrow> hub outcome" where
  "write_turn ok c h =
     (let x = the_client h c
      in case wc_send x of
           [] \<Rightarrow> if wc_closed x then Ran (put_client c (end_writer x) h) else Blocks
         | m # ms \<Rightarrow>
             Ran (put_client c (if ok \<and> \<not> wc_conn_closed x then x\<lparr>wc_send := ms, wc_written := m # wc_written x\<rparr>
                                else end_writer (x\<lparr>wc_send := ms\<rparr>)) h))"

definition ping_turn :: "bool \<Rightarrow> nat \<Rightarrow> hub \<Rightarrow> hub" where
  "ping_turn ok c h =
     (let x = the_client h c in if ok \<and> \<not> wc_conn_closed x then h else put_client c (end_writer x) h)"

text \<open>
  \<open>HandleFastHTTP\<close>: the token is checked first; the socket is opened, registered and greeted later,
  in a function that the upgrade calls.
\<close>

definition bearer_or_query :: "string \<Rightarrow> string \<Rightarrow> string" where
  "bearer_or_query query header =
     (if query \<noteq> [] then query else if take 7 header = ''Bearer '' then drop 7 header else [])"

definition HandleFastHTTP :: "env \<Rightarrow> host \<Rightarrow> string \<Rightarrow> string \<Rightarrow> account act" where
  "HandleFastHTTP env h query header =
     (let token = bearer_or_query query header
      in if token = [] then fail (errorf ''Unauthorized: missing token'')
         else attempt (ValidateJWT env h token) (\<lambda>r. case r of Inl _ \<Rightarrow> fail (errorf ''Unauthorized: invalid token'') | Inr u \<Rightarrow> ret u))"

definition register_socket :: "account \<Rightarrow> hub \<Rightarrow> hub outcome" where
  "register_socket u h = registerClient (length (hb_all h)) (h\<lparr>hb_all := hb_all h @ [NewClient u]\<rparr>)"

definition greet :: "nat \<Rightarrow> hub \<Rightarrow> hub outcome" where
  "greet c h = ran (send_to c (WsConnected (client_key h c)) h) (\<lambda>h1. ran (cut_for_log h1 c) (\<lambda>_. Ran h1))"

end
