(* ===== verification/HubProps.thy ===== *)
theory HubProps
  imports Hub TokenProps
begin

section \<open>Open sockets: no panic, and who is told what\<close>

text \<open>
  All goroutines around the hub as a step relation, the invariant of its maps and of what waits in its
  channels, and what follows: nothing panics, a socket is sent only what is for its account, and a socket
  that was admitted is served whatever was revoked in between.
\<close>

subsection \<open>All goroutines together\<close>

text \<open>
  A state is the hub, the accounts whose token was checked and whose socket is about to be registered,
  the sockets that are about to be greeted and those whose \<open>ReadPump\<close> runs. For the statements only it remembers
  for whom an event of an application was broadcast, which events went to one account, and who was
  found to be a member when it subscribed. The tables are read as they are at that moment. A
  connection may be closed at any time: by the peer, the network or the handler that ends.
\<close>

record hub_run =
  hr_hub :: hub
  hr_admitted :: "account list"
  hr_greeting :: "nat list"
  hr_reading :: "nat list"
  hr_told :: "(string \<times> event \<times> string) set"
  hr_own :: "(event \<times> string) set"
  hr_joined :: "(string \<times> string) set"

definition fresh_run_hub :: hub_run where
  "fresh_run_hub = \<lparr>hr_hub = NewHub, hr_admitted = [], hr_greeting = [], hr_reading = [], hr_told = {}, hr_own = {}, hr_joined = {}\<rparr>"

text \<open>Those an event is for: the members now, and the one it removes.\<close>

definition told_by :: "env \<Rightarrow> db \<Rightarrow> string \<Rightarrow> event \<Rightarrow> (string \<times> event \<times> string) set" where
  "told_by env d appID ev = {(appID, ev, k) | k.
     (\<exists>m \<in> set (t_members d). m_application_id m = appID \<and> m_public_key m = k \<and> activeMember env m)
     \<or> (ev_type ev = EventTypeMemberRemoved \<and> k = str_or_empty (mindex (data_of ev) ''memberPublicKey''))}"

definition joined_by :: "env \<Rightarrow> db \<Rightarrow> IncomingMessage \<Rightarrow> string \<Rightarrow> (string \<times> string) set" where
  "joined_by env d msg k = (if IsMember env (im_application msg) k d = Inr True then {(im_application msg, k)} else {})"

inductive hub_step :: "hub_run \<Rightarrow> hub_run \<Rightarrow> bool" where
  admitted: "HandleFastHTTP env h query header n = (Inr u, n1) \<Longrightarrow> 20 \<le> length (u_public_key u)
    \<Longrightarrow> hub_step r (r\<lparr>hr_admitted := u # hr_admitted r\<rparr>)"
| registered: "u \<in> set (hr_admitted r) \<Longrightarrow> register_socket u (hr_hub r) = Ran h
    \<Longrightarrow> hub_step r (r\<lparr>hr_hub := h, hr_admitted := remove1 u (hr_admitted r), hr_greeting := length (hb_all (hr_hub r)) # hr_greeting r\<rparr>)"
| greeted: "c \<in> set (hr_greeting r) \<Longrightarrow> greet c (hr_hub r) = Ran h
    \<Longrightarrow> hub_step r (r\<lparr>hr_greeting := remove1 c (hr_greeting r), hr_reading := c # hr_reading r, hr_hub := h\<rparr>)"
| handled: "c \<in> set (hr_reading r) \<Longrightarrow> handleMessage env d c msg (hr_hub r) = Ran h
    \<Longrightarrow> hub_step r (r\<lparr>hr_joined := hr_joined r \<union> joined_by env d msg (client_key (hr_hub r) c), hr_hub := h\<rparr>)"
| ended: "c \<in> set (hr_reading r) \<Longrightarrow> unregisterClient c (hr_hub r) = Ran h
    \<Longrightarrow> hub_step r (r\<lparr>hr_hub := h, hr_reading := remove1 c (hr_reading r)\<rparr>)"
| kicked: "hub_step r (r\<lparr>hr_hub := disconnectClients account device (hr_hub r)\<rparr>)"
| app_event: "BroadcastToApplication env d appID ev (hr_hub r) = Ran h
    \<Longrightarrow> hub_step r (r\<lparr>hr_told := hr_told r \<union> told_by env d appID ev, hr_hub := h\<rparr>)"
| own_event: "BroadcastToUser key ev (hr_hub r) = Ran h \<Longrightarrow> hub_step r (r\<lparr>hr_own := insert (ev, key) (hr_own r), hr_hub := h\<rparr>)"
| app_sent: "hb_broadcast (hr_hub r) = m # ms \<Longrightarrow> broadcastToApp m ((hr_hub r)\<lparr>hb_broadcast := ms\<rparr>) = Ran h
    \<Longrightarrow> hub_step r (r\<lparr>hr_hub := h\<rparr>)"
| own_sent: "hb_userBroadcast (hr_hub r) = um # ums \<Longrightarrow> broadcastToUser um ((hr_hub r)\<lparr>hb_userBroadcast := ums\<rparr>) = Ran h
    \<Longrightarrow> hub_step r (r\<lparr>hr_hub := h\<rparr>)"
| pushed: "SendPush account device payload (hr_hub r) = Ran (ok, h) \<Longrightarrow> hub_step r (r\<lparr>hr_hub := h\<rparr>)"
| wrote: "c < length (hb_all (hr_hub r)) \<Longrightarrow> wc_writer (the_client (hr_hub r) c) \<Longrightarrow> write_turn ok c (hr_hub r) = Ran h
    \<Longrightarrow> hub_step r (r\<lparr>hr_hub := h\<rparr>)"
| pinged: "c < length (hb_all (hr_hub r)) \<Longrightarrow> wc_writer (the_client (hr_hub r) c) \<Longrightarrow> hub_step r (r\<lparr>hr_hub := ping_turn ok c (hr_hub r)\<rparr>)"
| dropped: "c < length (hb_all (hr_hub r)) \<Longrightarrow> hub_step r (r\<lparr>hr_hub := close_conn c (hr_hub r)\<rparr>)"

subsection \<open>The invariant\<close>

text \<open>
  Who is in the maps is registered and open; who reads or is greeted is registered. A message about an
  application went to a socket of somebody it was for and who had joined it, and an event of an account
  to a socket of that account.
\<close>

definition may_have :: "hub_run \<Rightarrow> string \<Rightarrow> ws_message \<Rightarrow> bool" where
  "may_have r k m \<longleftrightarrow> (case m of
     WsEvents ev \<Rightarrow> (ev, k) \<in> hr_own r \<or> (\<exists>a. (a, ev, k) \<in> hr_told r \<and> (a, k) \<in> hr_joined r)
   | _ \<Rightarrow> True)"

definition maps_ok :: "hub \<Rightarrow> bool" where
  "maps_ok h \<longleftrightarrow> distinct (hb_clients h)
     \<and> (\<forall>c \<in> set (hb_clients h). c < length (hb_all h) \<and> \<not> wc_closed (the_client h c) \<and> c \<in> set (listed (hb_byUser h) (client_key h c)))
     \<and> (\<forall>k. distinct (listed (hb_byUser h) k) \<and> (\<forall>c \<in> set (listed (hb_byUser h) k). c \<in> set (hb_clients h) \<and> client_key h c = k))
     \<and> (\<forall>a. distinct (listed (hb_byApp h) a) \<and> (\<forall>c \<in> set (listed (hb_byApp h) a). c \<in> set (hb_clients h) \<and> a \<in> set (wc_subs (the_client h c))))
     \<and> (\<forall>c < length (hb_all h). 20 \<le> length (client_key h c))"

definition threads_ok :: "hub_run \<Rightarrow> bool" where
  "threads_ok r \<longleftrightarrow> distinct (hr_greeting r @ hr_reading r) \<and> set (hr_greeting r @ hr_reading r) \<subseteq> set (hb_clients (hr_hub r))
     \<and> (\<forall>u \<in> set (hr_admitted r). 20 \<le> length (u_public_key u))"

definition mail_ok :: "hub_run \<Rightarrow> bool" where
  "mail_ok r \<longleftrightarrow>
     (\<forall>c < length (hb_all (hr_hub r)). (\<forall>m \<in> set (wc_send (the_client (hr_hub r) c)) \<union> set (wc_written (the_client (hr_hub r) c)).
        may_have r (client_key (hr_hub r) c) m)
        \<and> (\<forall>a \<in> set (wc_subs (the_client (hr_hub r) c)). (a, client_key (hr_hub r) c) \<in> hr_joined r))
     \<and> (\<forall>b \<in> set (hb_broadcast (hr_hub r)). \<forall>k \<in> set (bm_recipients b). (bm_application b, bm_event b, k) \<in> hr_told r)
     \<and> (\<forall>b \<in> set (hb_userBroadcast (hr_hub r)). (ub_event b, ub_user b) \<in> hr_own r)"

definition run_ok :: "hub_run \<Rightarrow> bool" where
  "run_ok r \<longleftrightarrow> maps_ok (hr_hub r) \<and> threads_ok r \<and> mail_ok r"

subsection \<open>Clients that change in place\<close>

lemma put_client_sel [simp]: "hb_clients (put_client c x h) = hb_clients h" "hb_byUser (put_client c x h) = hb_byUser h"
    "hb_byApp (put_client c x h) = hb_byApp h" "hb_broadcast (put_client c x h) = hb_broadcast h"
    "hb_userBroadcast (put_client c x h) = hb_userBroadcast h" "length (hb_all (put_client c x h)) = length (hb_all h)"
  by (simp_all add: put_client_def)

lemma the_client_put: "c < length (hb_all h) \<Longrightarrow> the_client (put_client c x h) c1 = (if c1 = c then x else the_client h c1)"
  by (simp add: the_client_def put_client_def nth_list_update)

lemma client_key_put: "c < length (hb_all h) \<Longrightarrow> wc_user x = wc_user (the_client h c) \<Longrightarrow> client_key (put_client c x h) c1 = client_key h c1"
  by (simp add: client_key_def the_client_put)

lemma client_sel [simp]: "the_client (h\<lparr>hb_clients := cs\<rparr>) c = the_client h c" "the_client (h\<lparr>hb_byUser := us\<rparr>) c = the_client h c"
    "the_client (h\<lparr>hb_byApp := as\<rparr>) c = the_client h c" "the_client (h\<lparr>hb_broadcast := bs\<rparr>) c = the_client h c"
    "the_client (h\<lparr>hb_userBroadcast := ubs\<rparr>) c = the_client h c" "client_key (h\<lparr>hb_clients := cs\<rparr>) c = client_key h c"
    "client_key (h\<lparr>hb_byUser := us\<rparr>) c = client_key h c" "client_key (h\<lparr>hb_byApp := as\<rparr>) c = client_key h c"
    "client_key (h\<lparr>hb_broadcast := bs\<rparr>) c = client_key h c" "client_key (h\<lparr>hb_userBroadcast := ubs\<rparr>) c = client_key h c"
  by (simp_all add: the_client_def client_key_def)

lemma listed_update: "listed (AList.update k cs m) k1 = (if k1 = k then cs else listed m k1)"
  by (simp add: listed_def update_conv')

lemma listed_drop: "listed (drop_listed c k m) k1 = (if k1 = k then remove1 c (listed m k) else listed m k1)"
  by (simp add: drop_listed_def listed_def update_conv' delete_conv' Let_def)

text \<open>The same maps, and every client with the same account, as open as before, and its mail changed as \<open>P\<close> says.\<close>

definition same_maps :: "hub \<Rightarrow> hub \<Rightarrow> bool" where
  "same_maps h h1 \<longleftrightarrow> hb_clients h1 = hb_clients h \<and> hb_byUser h1 = hb_byUser h \<and> hb_byApp h1 = hb_byApp h
     \<and> length (hb_all h1) = length (hb_all h)
     \<and> (\<forall>c < length (hb_all h). wc_user (the_client h1 c) = wc_user (the_client h c) \<and> wc_closed (the_client h1 c) = wc_closed (the_client h c)
          \<and> wc_subs (the_client h1 c) = wc_subs (the_client h c))"

definition mail :: "hub \<Rightarrow> nat \<Rightarrow> ws_message set" where
  "mail h c = set (wc_send (the_client h c)) \<union> set (wc_written (the_client h c))"

lemma same_maps_refl [simp]: "same_maps h h"
  by (simp add: same_maps_def)

lemma same_maps_trans: "same_maps h h1 \<Longrightarrow> same_maps h1 h2 \<Longrightarrow> same_maps h h2"
  by (simp add: same_maps_def)

lemma same_maps_put:
  "c < length (hb_all h) \<Longrightarrow> wc_user x = wc_user (the_client h c) \<Longrightarrow> wc_closed x = wc_closed (the_client h c)
     \<Longrightarrow> wc_subs x = wc_subs (the_client h c) \<Longrightarrow> same_maps h (put_client c x h)"
  by (simp add: same_maps_def the_client_put)

lemma same_maps_key: "same_maps h h1 \<Longrightarrow> c < length (hb_all h) \<Longrightarrow> client_key h1 c = client_key h c"
  by (simp add: same_maps_def client_key_def)

lemma maps_ok_in: "maps_ok h \<Longrightarrow> c \<in> set (hb_clients h) \<Longrightarrow> c < length (hb_all h) \<and> \<not> wc_closed (the_client h c) \<and> 20 \<le> length (client_key h c)"
  by (simp add: maps_ok_def)

lemma maps_ok_listed: "maps_ok h \<Longrightarrow> c \<in> set (listed (hb_byUser h) k) \<or> c \<in> set (listed (hb_byApp h) k) \<Longrightarrow> c \<in> set (hb_clients h)"
  unfolding maps_ok_def by blast

lemma maps_ok_users: "maps_ok h \<Longrightarrow> distinct (listed (hb_byUser h) k)"
    "maps_ok h \<Longrightarrow> c \<in> set (hb_clients h) \<Longrightarrow> client_key h c = k \<Longrightarrow> c \<in> set (listed (hb_byUser h) k)"
  unfolding maps_ok_def by blast+

lemma same_maps_ok:
  assumes "maps_ok h" and "same_maps h h1"
  shows "maps_ok h1"
proof -
  have in_range: "c \<in> set (hb_clients h) \<Longrightarrow> c < length (hb_all h)" for c using assms(1) by (simp add: maps_ok_def)
  have "client_key h1 c = client_key h c" if "c < length (hb_all h)" for c using assms(2) that by (rule same_maps_key)
  then show ?thesis using assms in_range unfolding maps_ok_def same_maps_def by (simp; metis)
qed

subsection \<open>Mail\<close>

text \<open>The same hub but for mail, of which only \<open>m\<close> is new, and only with the clients \<open>cs\<close>.\<close>

definition mailed :: "nat list \<Rightarrow> ws_message \<Rightarrow> hub \<Rightarrow> hub \<Rightarrow> bool" where
  "mailed cs m h h1 \<longleftrightarrow> same_maps h h1 \<and> hb_broadcast h1 = hb_broadcast h \<and> hb_userBroadcast h1 = hb_userBroadcast h
     \<and> (\<forall>c < length (hb_all h). mail h1 c \<subseteq> (if c \<in> set cs then insert m (mail h c) else mail h c))"

lemma mailed_refl [simp]: "mailed cs m h h"
  by (auto simp: mailed_def)

lemma mailed_trans: "mailed cs m h h1 \<Longrightarrow> mailed cs m h1 h2 \<Longrightarrow> mailed cs m h h2"
  unfolding mailed_def using same_maps_trans by (fastforce simp: same_maps_def split: if_splits)

lemma mailed_mono: "mailed cs m h h1 \<Longrightarrow> set cs \<subseteq> set ds \<Longrightarrow> mailed ds m h h1"
  unfolding mailed_def by (fastforce split: if_splits)

lemma mailed_put:
  assumes "c < length (hb_all h)" and "wc_user x = wc_user (the_client h c)" "wc_closed x = wc_closed (the_client h c)"
    "wc_subs x = wc_subs (the_client h c)" and "set (wc_send x) \<union> set (wc_written x) \<subseteq> insert m (mail h c)"
  shows "mailed [c] m h (put_client c x h)"
  using assms same_maps_put [OF assms(1-4)] by (auto simp: mailed_def mail_def the_client_put)

lemma send_to_mailed: "c < length (hb_all h) \<Longrightarrow> send_to c m h = Ran h1 \<Longrightarrow> mailed [c] m h h1"
  by (auto simp: send_to_def Let_def mail_def intro!: mailed_put split: if_splits)

lemma try_send_mailed:
  assumes "maps_ok h" and "c \<in> set (hb_clients h)"
  obtains ok h1 where "try_send c m h = Ran (ok, h1)" "mailed [c] m h h1"
proof -
  have c: "c < length (hb_all h)" "\<not> wc_closed (the_client h c)" using maps_ok_in [OF assms] by simp_all
  show thesis
  proof (cases "length (wc_send (the_client h c)) \<ge> sendBufferSize")
    case True
    then show thesis using that [of False h] c by (simp add: try_send_def)
  next
    case False
    then show thesis using c by (intro that) (auto simp: try_send_def Let_def mail_def intro!: mailed_put)
  qed
qed

lemma cut_ran: "maps_ok h \<Longrightarrow> c \<in> set (hb_clients h) \<Longrightarrow> cut_for_log h c = Ran ()"
  using maps_ok_in [of h c] by (simp add: cut_for_log_def)

lemma mailed_ok: "mailed cs m h h1 \<Longrightarrow> maps_ok h \<Longrightarrow> maps_ok h1 \<and> hb_clients h1 = hb_clients h"
  using same_maps_ok by (simp add: mailed_def same_maps_def)

lemma send_all_mailed:
  "maps_ok h \<Longrightarrow> set cs \<subseteq> set (hb_clients h) \<Longrightarrow> \<exists>h1. send_all m cs h = Ran h1 \<and> mailed cs m h h1"
proof (induction cs arbitrary: h)
  case (Cons c cs)
  obtain ok h1 where t: "try_send c m h = Ran (ok, h1)" "mailed [c] m h h1" using try_send_mailed Cons.prems by (metis list.set_intros(1) subsetD)
  have ok1: "maps_ok h1" "hb_clients h1 = hb_clients h" using mailed_ok [OF t(2) Cons.prems(1)] by auto
  then obtain h2 where "send_all m cs h1 = Ran h2" "mailed cs m h1 h2" using Cons.IH [of h1] Cons.prems(2) by auto
  moreover from this have "mailed (c # cs) m h h2"
    using mailed_trans [OF mailed_mono [OF t(2)] mailed_mono, of "c # cs" cs h2] by auto
  ultimately show ?case using t(1) cut_ran [OF ok1(1), of c] ok1(2) Cons.prems(2) by simp
qed simp

lemma push_all_mailed:
  "maps_ok h \<Longrightarrow> set cs \<subseteq> set (hb_clients h) \<Longrightarrow> \<exists>ok h1. push_all device p cs (b, h) = Ran (ok, h1) \<and> mailed cs (WsPayload p) h h1"
proof (induction cs arbitrary: h b)
  case (Cons c cs)
  obtain ok h1 where t: "try_send c (WsPayload p) h = Ran (ok, h1)" "mailed [c] (WsPayload p) h h1"
    using try_send_mailed Cons.prems by (metis list.set_intros(1) subsetD)
  have ok1: "maps_ok h1" "hb_clients h1 = hb_clients h" using mailed_ok [OF t(2) Cons.prems(1)] by auto
  show ?case
  proof (cases "client_device h c = device")
    case True
    obtain ok2 h2 where r: "push_all device p cs (b \<or> ok, h1) = Ran (ok2, h2)" "mailed cs (WsPayload p) h1 h2"
      using Cons.IH [of h1 "b \<or> ok"] ok1 Cons.prems(2) by auto
    then have "mailed (c # cs) (WsPayload p) h h2"
      using mailed_trans [OF mailed_mono [OF t(2)] mailed_mono, of "c # cs" cs h2] by auto
    then show ?thesis using True t(1) r(1) by simp
  next
    case False
    then show ?thesis using Cons.IH [of h b] Cons.prems mailed_mono [of cs _ h _ "c # cs"] by force
  qed
qed simp

lemma close_conn_mailed: "c < length (hb_all h) \<Longrightarrow> mailed cs m h (close_conn c h)"
  using mailed_mono [of "[]" m h "close_conn c h" cs]
  by (auto simp: close_conn_def mailed_def mail_def the_client_put same_maps_def)

lemma disconnect_mailed:
  assumes "maps_ok h"
  shows "mailed [] m h (disconnectClients account device h)"
proof -
  let ?f = "\<lambda>c h. if device = [] \<or> client_device h c = device then close_conn c h else h"
  have "mailed [] m h (fold ?f cs h)" if "set cs \<subseteq> {..< length (hb_all h)}" for cs
    using that
  proof (induction cs arbitrary: h)
    case (Cons c cs)
    have "mailed [] m h (?f c h)" using Cons.prems close_conn_mailed by auto
    moreover have "length (hb_all (?f c h)) = length (hb_all h)" by (simp add: close_conn_def)
    ultimately have "mailed [] m h (?f c h)" "mailed [] m (?f c h) (fold ?f cs (?f c h))" using Cons.IH [of "?f c h"] Cons.prems by auto
    then show ?case unfolding fold_Cons comp_apply by (rule mailed_trans)
  qed simp
  moreover have "set (listed (hb_byUser h) account) \<subseteq> {..< length (hb_all h)}"
    using maps_ok_in [OF assms] maps_ok_listed [OF assms] by blast
  ultimately show ?thesis by (simp add: disconnectClients_def)
qed

subsection \<open>Every step keeps the invariant\<close>

lemma may_have_hub [simp]: "may_have (r\<lparr>hr_hub := h\<rparr>) = may_have r"
  by (intro ext) (simp add: may_have_def split: ws_message.split)

lemma may_have_cong: "hr_told r1 = hr_told r \<Longrightarrow> hr_own r1 = hr_own r \<Longrightarrow> hr_joined r1 = hr_joined r \<Longrightarrow> may_have r1 = may_have r"
  by (intro ext) (simp add: may_have_def split: ws_message.split)

lemma may_have_mono:
  "may_have r k m \<Longrightarrow> hr_told r \<subseteq> hr_told r1 \<Longrightarrow> hr_own r \<subseteq> hr_own r1 \<Longrightarrow> hr_joined r \<subseteq> hr_joined r1 \<Longrightarrow> may_have r1 k m"
  by (auto simp: may_have_def split: ws_message.splits)

lemma run_ok_mailed:
  assumes "run_ok r" and m: "mailed cs m (hr_hub r) h" and "\<forall>c \<in> set cs. may_have r (client_key (hr_hub r) c) m"
  shows "run_ok (r\<lparr>hr_hub := h\<rparr>)"
proof -
  let ?h = "hr_hub r"
  have sm: "same_maps ?h h" using m by (simp add: mailed_def)
  have len: "length (hb_all h) = length (hb_all ?h)" using sm by (simp add: same_maps_def)
  have maps: "maps_ok h" using assms(1) sm same_maps_ok by (auto simp: run_ok_def)
  have threads: "threads_ok (r\<lparr>hr_hub := h\<rparr>)" using assms(1) sm by (simp add: run_ok_def threads_ok_def same_maps_def)
  have may: "may_have (r\<lparr>hr_hub := h\<rparr>) = may_have r" by simp
  have "may_have r (client_key h c) x" if "c < length (hb_all ?h)" "x \<in> mail h c" for c x
  proof -
    have "x \<in> mail ?h c \<or> (c \<in> set cs \<and> x = m)" using m that by (auto simp: mailed_def split: if_splits)
    then show ?thesis using assms(1,3) that(1) same_maps_key [OF sm that(1)] by (auto simp: run_ok_def mail_ok_def mail_def)
  qed
  moreover have "(a, client_key h c) \<in> hr_joined r" if "c < length (hb_all ?h)" "a \<in> set (wc_subs (the_client h c))" for a c
    using assms(1) that same_maps_key [OF sm that(1)] sm by (auto simp: run_ok_def mail_ok_def same_maps_def)
  ultimately have "mail_ok (r\<lparr>hr_hub := h\<rparr>)"
    using assms(1) m unfolding mail_ok_def may by (auto simp: len run_ok_def mail_ok_def mailed_def mail_def)
  with maps threads show ?thesis by (simp add: run_ok_def)
qed

lemma run_ok_more:
  assumes "run_ok r" and "hr_told r \<subseteq> hr_told r1" "hr_own r \<subseteq> hr_own r1" "hr_joined r \<subseteq> hr_joined r1"
    and same: "hr_hub r1 = hr_hub r" "hr_greeting r1 = hr_greeting r" "hr_reading r1 = hr_reading r" "hr_admitted r1 = hr_admitted r"
  shows "run_ok r1"
proof -
  have "mail_ok r1"
    unfolding mail_ok_def same using assms(1-4) may_have_mono [OF _ assms(2-4)] by (auto simp: run_ok_def mail_ok_def)
  then show ?thesis using assms(1) by (simp add: run_ok_def threads_ok_def same)
qed

lemma maps_ok_queues [simp]: "maps_ok (h\<lparr>hb_broadcast := bs\<rparr>) = maps_ok h" "maps_ok (h\<lparr>hb_userBroadcast := us\<rparr>) = maps_ok h"
  by (simp_all add: maps_ok_def)

lemma run_ok_queues:
  assumes "run_ok r"
  shows "(\<forall>b \<in> set bs. b \<in> set (hb_broadcast (hr_hub r)) \<or> (\<forall>k \<in> set (bm_recipients b). (bm_application b, bm_event b, k) \<in> hr_told r))
      \<Longrightarrow> run_ok (r\<lparr>hr_hub := (hr_hub r)\<lparr>hb_broadcast := bs\<rparr>\<rparr>)"
    "(\<forall>b \<in> set us. b \<in> set (hb_userBroadcast (hr_hub r)) \<or> (ub_event b, ub_user b) \<in> hr_own r)
      \<Longrightarrow> run_ok (r\<lparr>hr_hub := (hr_hub r)\<lparr>hb_userBroadcast := us\<rparr>\<rparr>)"
  using assms by (auto simp: run_ok_def threads_ok_def mail_ok_def)

lemma maps_ok_apps: "maps_ok h \<Longrightarrow> distinct (listed (hb_byApp h) a)"
    "maps_ok h \<Longrightarrow> c \<in> set (listed (hb_byApp h) a) \<Longrightarrow> a \<in> set (wc_subs (the_client h c))"
  by (simp_all add: maps_ok_def)

text \<open>A socket is registered.\<close>

definition with_socket :: "account \<Rightarrow> hub \<Rightarrow> hub" where
  "with_socket u h = h\<lparr>hb_all := hb_all h @ [NewClient u], hb_clients := length (hb_all h) # hb_clients h,
     hb_byUser := AList.update (u_public_key u) (listed (hb_byUser h) (u_public_key u) @ [length (hb_all h)]) (hb_byUser h)\<rparr>"

lemma with_socket_client: "c < Suc (length (hb_all h)) \<Longrightarrow>
    the_client (with_socket u h) c = (if c = length (hb_all h) then NewClient u else the_client h c)"
  by (auto simp: with_socket_def the_client_def nth_append)

lemma with_socket_key: "c < Suc (length (hb_all h)) \<Longrightarrow>
    client_key (with_socket u h) c = (if c = length (hb_all h) then u_public_key u else client_key h c)"
  by (simp add: client_key_def with_socket_client NewClient_def)

lemma with_socket_sel [simp]: "hb_clients (with_socket u h) = length (hb_all h) # hb_clients h" "length (hb_all (with_socket u h)) = Suc (length (hb_all h))"
    "hb_byApp (with_socket u h) = hb_byApp h" "hb_broadcast (with_socket u h) = hb_broadcast h" "hb_userBroadcast (with_socket u h) = hb_userBroadcast h"
    "listed (hb_byUser (with_socket u h)) k = (if k = u_public_key u then listed (hb_byUser h) k @ [length (hb_all h)] else listed (hb_byUser h) k)"
  by (simp_all add: with_socket_def listed_update)

lemma maps_ok_fresh: "maps_ok h \<Longrightarrow> length (hb_all h) \<notin> set (hb_clients h)"
  using maps_ok_in by blast

lemma register_socket_ran:
  assumes "maps_ok h" and "20 \<le> length (u_public_key u)"
  shows "register_socket u h = Ran (with_socket u h)"
proof -
  have "client_key (h\<lparr>hb_all := hb_all h @ [NewClient u]\<rparr>) (length (hb_all h)) = u_public_key u"
    by (simp add: client_key_def the_client_def NewClient_def)
  then show ?thesis
    using assms maps_ok_fresh [OF assms(1)] with_socket_key [of "length (hb_all h)" h u]
    by (simp add: register_socket_def registerClient_def Let_def cut_for_log_def with_socket_def)
qed

lemma with_socket_maps:
  assumes "maps_ok h" and "20 \<le> length (u_public_key u)"
  shows "maps_ok (with_socket u h)"
proof -
  let ?n = "length (hb_all h)"
  have new: "?n \<notin> set (hb_clients h)" "?n \<notin> set (listed (hb_byUser h) k)" "?n \<notin> set (listed (hb_byApp h) k)" for k
    using maps_ok_fresh [OF assms(1)] maps_ok_listed [OF assms(1)] by blast+
  have old: "c \<in> set (hb_clients h) \<Longrightarrow> c < Suc ?n \<and> c \<noteq> ?n" for c using maps_ok_in [OF assms(1)] by (metis less_SucI less_irrefl)
  have users: "c \<in> set (listed (hb_byUser h) k) \<Longrightarrow> c \<in> set (hb_clients h) \<and> client_key h c = k" for c k
    using assms(1) by (simp add: maps_ok_def)
  have apps: "c \<in> set (listed (hb_byApp h) a) \<Longrightarrow> c \<in> set (hb_clients h) \<and> a \<in> set (wc_subs (the_client h c))" for c a
    using assms(1) by (simp add: maps_ok_def)
  have dist: "distinct (hb_clients h)" "distinct (listed (hb_byUser h) k)" "distinct (listed (hb_byApp h) k)" for k
    using assms(1) by (simp_all add: maps_ok_def)
  have regs: "c \<in> set (hb_clients h) \<Longrightarrow> \<not> wc_closed (the_client h c) \<and> c \<in> set (listed (hb_byUser h) (client_key h c))" for c
    using assms(1) by (simp add: maps_ok_def)
  have keys: "c < ?n \<Longrightarrow> 20 \<le> length (client_key h c)" for c using assms(1) by (simp add: maps_ok_def)
  have kept: "the_client (with_socket u h) c = the_client h c" "client_key (with_socket u h) c = client_key h c"
    if "c \<in> set (hb_clients h)" for c using old [OF that] by (simp_all add: with_socket_client with_socket_key)
  have newest: "the_client (with_socket u h) ?n = NewClient u" "client_key (with_socket u h) ?n = u_public_key u"
    by (simp_all add: with_socket_client with_socket_key)
  show ?thesis
    unfolding maps_ok_def
  proof (intro conjI ballI allI impI)
    fix c
    assume "c < length (hb_all (with_socket u h))"
    then show "20 \<le> length (client_key (with_socket u h) c)" using keys assms(2) by (simp add: with_socket_key)
  next
    fix c
    assume "c \<in> set (hb_clients (with_socket u h))"
    then show "c \<in> set (listed (hb_byUser (with_socket u h)) (client_key (with_socket u h) c))"
      using regs [of c] kept newest by (cases "c = ?n") auto
  next
    fix c k
    assume "c \<in> set (listed (hb_byUser (with_socket u h)) k)"
    then have "c = ?n \<and> k = u_public_key u \<or> c \<in> set (listed (hb_byUser h) k)" by (auto split: if_splits)
    then show "c \<in> set (hb_clients (with_socket u h))" "client_key (with_socket u h) c = k" using users kept newest by auto
  qed (use new(1) dist old in \<open>auto simp: newest new(2,3) kept NewClient_def dest: apps regs\<close>)
qed

lemma run_ok_registered:
  assumes "run_ok r" and u: "u \<in> set (hr_admitted r)" and "register_socket u (hr_hub r) = Ran h"
  shows "run_ok (r\<lparr>hr_hub := h, hr_admitted := remove1 u (hr_admitted r), hr_greeting := length (hb_all (hr_hub r)) # hr_greeting r\<rparr>)"
proof -
  let ?h = "hr_hub r" and ?n = "length (hb_all (hr_hub r))"
  let ?r = "r\<lparr>hr_hub := with_socket u ?h, hr_admitted := remove1 u (hr_admitted r), hr_greeting := ?n # hr_greeting r\<rparr>"
  have maps: "maps_ok ?h" and key: "20 \<le> length (u_public_key u)" using assms(1) u by (auto simp: run_ok_def threads_ok_def)
  have h: "h = with_socket u ?h" using assms(3) register_socket_ran [OF maps key] by simp
  have "threads_ok ?r"
    using assms(1) maps_ok_fresh [OF maps] by (auto simp: run_ok_def threads_ok_def dest: notin_set_remove1)
  moreover have may: "may_have ?r = may_have r" by (rule may_have_cong) simp_all
  have "mail_ok ?r"
    using assms(1) unfolding mail_ok_def may
    by (auto simp: run_ok_def mail_ok_def with_socket_client with_socket_key NewClient_def less_Suc_eq)
  ultimately show ?thesis using with_socket_maps [OF maps key] by (simp add: run_ok_def h)
qed

text \<open>A client joins an application, or leaves one.\<close>

lemma run_ok_subs:
  assumes ok: "run_ok r" and c: "c \<in> set (hb_clients (hr_hub r))"
    and h: "hb_clients h = hb_clients (hr_hub r)" "hb_byUser h = hb_byUser (hr_hub r)" "hb_broadcast h = hb_broadcast (hr_hub r)"
      "hb_userBroadcast h = hb_userBroadcast (hr_hub r)" "hb_all h = hb_all (put_client c (the_client (hr_hub r) c\<lparr>wc_subs := as\<rparr>) (hr_hub r))"
    and apps: "\<And>a. distinct (listed (hb_byApp h) a)"
      "\<And>a x. x \<in> set (listed (hb_byApp h) a) \<Longrightarrow> x \<in> set (listed (hb_byApp (hr_hub r)) a) \<and> x \<noteq> c \<or> x = c \<and> a \<in> set as"
    and joined: "\<And>a. a \<in> set as \<Longrightarrow> (a, client_key (hr_hub r) c) \<in> hr_joined r"
  shows "run_ok (r\<lparr>hr_hub := h\<rparr>)"
proof -
  let ?h = "hr_hub r"
  have maps: "maps_ok ?h" using ok by (simp add: run_ok_def)
  have cl: "c < length (hb_all ?h)" using maps_ok_in [OF maps c] by simp
  have at: "the_client h x = (if x = c then the_client ?h c\<lparr>wc_subs := as\<rparr> else the_client ?h x)" for x
    using the_client_put [OF cl] h(5) by (simp add: the_client_def)
  have key: "client_key h x = client_key ?h x" for x by (simp add: client_key_def at)
  have len: "length (hb_all h) = length (hb_all ?h)" by (simp add: h(5))
  have "x \<in> set (hb_clients ?h) \<and> a \<in> set (wc_subs (the_client h x))" if "x \<in> set (listed (hb_byApp h) a)" for x a
    using apps(2) [OF that] c maps_ok_listed [OF maps, of x a] maps_ok_apps(2) [OF maps, of x a] by (auto simp: at)
  then have "maps_ok h"
    using maps apps(1) unfolding maps_ok_def h(1,2) key len by (simp add: at)
  moreover have "mail_ok (r\<lparr>hr_hub := h\<rparr>)"
    using ok joined unfolding mail_ok_def by (auto simp: run_ok_def mail_ok_def len key at h)
  ultimately show ?thesis using ok by (simp add: run_ok_def threads_ok_def h(1))
qed

lemma hubSubscribe_sel [simp]: "hb_clients (hubSubscribe c a h) = hb_clients h" "hb_byUser (hubSubscribe c a h) = hb_byUser h"
    "hb_all (hubSubscribe c a h) = hb_all h" "hb_broadcast (hubSubscribe c a h) = hb_broadcast h" "hb_userBroadcast (hubSubscribe c a h) = hb_userBroadcast h"
    "listed (hb_byApp (hubSubscribe c a h)) b = (if b = a \<and> c \<notin> set (listed (hb_byApp h) a) then listed (hb_byApp h) a @ [c] else listed (hb_byApp h) b)"
  by (simp_all add: hubSubscribe_def listed_update)

lemma removeFrom_sel [simp]: "hb_clients (removeFromAppSubscribers c a h) = hb_clients h" "hb_byUser (removeFromAppSubscribers c a h) = hb_byUser h"
    "hb_all (removeFromAppSubscribers c a h) = hb_all h" "hb_broadcast (removeFromAppSubscribers c a h) = hb_broadcast h"
    "hb_userBroadcast (removeFromAppSubscribers c a h) = hb_userBroadcast h"
    "listed (hb_byApp (removeFromAppSubscribers c a h)) b = (if b = a then remove1 c (listed (hb_byApp h) a) else listed (hb_byApp h) b)"
  by (simp_all add: removeFromAppSubscribers_def listed_drop)

lemma run_ok_client: "run_ok r \<Longrightarrow> c \<in> set (hr_reading r) \<or> c \<in> set (hr_greeting r) \<Longrightarrow> c \<in> set (hb_clients (hr_hub r))"
  by (auto simp: run_ok_def threads_ok_def)

lemma subscribed_ran:
  assumes "maps_ok h" and "c \<in> set (hb_clients h)" and "IsMember env a (client_key h c) d = Inr True"
  shows "clientSubscribe env d c a h = Ran (hubSubscribe c a (put_client c (the_client h c\<lparr>wc_subs := List.insert a (wc_subs (the_client h c))\<rparr>) h))"
proof -
  have c: "c < length (hb_all h)" "20 \<le> length (client_key h c)" using maps_ok_in [OF assms(1,2)] by simp_all
  have "client_key (hubSubscribe c a (put_client c (the_client h c\<lparr>wc_subs := as\<rparr>) h)) c = client_key h c" for as
    using the_client_put [OF c(1)] by (simp add: client_key_def the_client_def)
  then show ?thesis using assms(3) c(2) by (simp add: clientSubscribe_def Let_def cut_for_log_def)
qed

lemma unsubscribed_ran:
  assumes "maps_ok h" and "c \<in> set (hb_clients h)"
  shows "clientUnsubscribe c a h
    = Ran (removeFromAppSubscribers c a (put_client c (the_client h c\<lparr>wc_subs := removeAll a (wc_subs (the_client h c))\<rparr>) h))"
proof -
  have c: "c < length (hb_all h)" "20 \<le> length (client_key h c)" using maps_ok_in [OF assms] by simp_all
  have "client_key (removeFromAppSubscribers c a (put_client c (the_client h c\<lparr>wc_subs := as\<rparr>) h)) c = client_key h c" for as
    using the_client_put [OF c(1)] by (simp add: client_key_def the_client_def)
  then show ?thesis using c(2) by (simp add: clientUnsubscribe_def hubUnsubscribe_def Let_def cut_for_log_def)
qed

lemma run_ok_subscribe:
  assumes ok: "run_ok r" and c: "c \<in> set (hb_clients (hr_hub r))" and "(a, client_key (hr_hub r) c) \<in> hr_joined r"
  shows "run_ok (r\<lparr>hr_hub := hubSubscribe c a (put_client c (the_client (hr_hub r) c\<lparr>wc_subs := List.insert a (wc_subs (the_client (hr_hub r) c))\<rparr>) (hr_hub r))\<rparr>)"
proof -
  let ?h = "hr_hub r"
  have maps: "maps_ok ?h" using ok by (simp add: run_ok_def)
  have "c < length (hb_all ?h)" using maps_ok_in [OF maps c] by simp
  then have "b \<in> set (wc_subs (the_client ?h c)) \<Longrightarrow> (b, client_key ?h c) \<in> hr_joined r" for b using ok by (auto simp: run_ok_def mail_ok_def)
  then show ?thesis
    using assms(3) maps_ok_apps [OF maps]
    by (intro run_ok_subs [OF ok c, where as = "List.insert a (wc_subs (the_client ?h c))"]) (auto split: if_splits)
qed

lemma run_ok_unsubscribe:
  assumes ok: "run_ok r" and c: "c \<in> set (hb_clients (hr_hub r))"
  shows "run_ok (r\<lparr>hr_hub := removeFromAppSubscribers c a (put_client c (the_client (hr_hub r) c\<lparr>wc_subs := removeAll a (wc_subs (the_client (hr_hub r) c))\<rparr>) (hr_hub r))\<rparr>)"
proof -
  let ?h = "hr_hub r"
  have maps: "maps_ok ?h" using ok by (simp add: run_ok_def)
  have "c < length (hb_all ?h)" using maps_ok_in [OF maps c] by simp
  then have "b \<in> set (wc_subs (the_client ?h c)) \<Longrightarrow> (b, client_key ?h c) \<in> hr_joined r" for b using ok by (auto simp: run_ok_def mail_ok_def)
  then show ?thesis
    using maps_ok_apps [OF maps]
    by (intro run_ok_subs [OF ok c, where as = "removeAll a (wc_subs (the_client ?h c))"]) (auto split: if_splits)
qed

lemma send_to_never: "maps_ok h \<Longrightarrow> c \<in> set (hb_clients h) \<Longrightarrow> send_to c m h \<noteq> Panics"
  using maps_ok_in [of h c] by (auto simp: send_to_def Let_def)

lemma run_ok_sent:
  assumes "run_ok r" and "c \<in> set (hb_clients (hr_hub r))" and "send_to c m (hr_hub r) = Ran h" and "\<And>k. may_have r k m"
  shows "run_ok (r\<lparr>hr_hub := h\<rparr>)"
  using assms maps_ok_in by (intro run_ok_mailed [OF assms(1) send_to_mailed]) (auto simp: run_ok_def)

text \<open>The message of a client never makes the process panic, and keeps the invariant.\<close>

lemma handled_cases:
  assumes ok: "run_ok r" and c: "c \<in> set (hb_clients (hr_hub r))"
  shows "handleMessage env d c msg (hr_hub r) \<noteq> Panics"
    "handleMessage env d c msg (hr_hub r) = Ran h \<Longrightarrow> joined_by env d msg (client_key (hr_hub r) c) \<subseteq> hr_joined r \<Longrightarrow> run_ok (r\<lparr>hr_hub := h\<rparr>)"
proof -
  let ?h = "hr_hub r"
  have maps: "maps_ok ?h" using ok by (simp add: run_ok_def)
  note cut = cut_ran [OF maps c] and sent = send_to_never [OF maps c]
  consider (failed) e where "IsMember env (im_application msg) (client_key ?h c) d = Inl e"
    | (no) "IsMember env (im_application msg) (client_key ?h c) d = Inr False"
    | (yes) "IsMember env (im_application msg) (client_key ?h c) d = Inr True"
    by (cases "IsMember env (im_application msg) (client_key ?h c) d") auto
  note sub = this
  show "handleMessage env d c msg ?h \<noteq> Panics"
    using sub
  proof cases
    case yes
    then show ?thesis using sent unsubscribed_ran [OF maps c] subscribed_ran [OF maps c yes] by (simp add: handleMessage_def)
  qed (use sent unsubscribed_ran [OF maps c] in \<open>auto simp: handleMessage_def clientSubscribe_def cut\<close>)
  assume run: "handleMessage env d c msg ?h = Ran h" and j: "joined_by env d msg (client_key ?h c) \<subseteq> hr_joined r"
  have same: "run_ok (r\<lparr>hr_hub := ?h\<rparr>)" using ok by simp
  show "run_ok (r\<lparr>hr_hub := h\<rparr>)"
    using sub
  proof cases
    case yes
    then show ?thesis
      using run j same run_ok_subscribe [OF ok c] run_ok_unsubscribe [OF ok c] run_ok_sent [OF ok c] subscribed_ran [OF maps c yes] unsubscribed_ran [OF maps c]
      by (auto simp: handleMessage_def joined_by_def may_have_def split: if_splits)
  qed (use run same run_ok_unsubscribe [OF ok c] run_ok_sent [OF ok c] unsubscribed_ran [OF maps c] in
      \<open>auto simp: handleMessage_def clientSubscribe_def cut may_have_def split: if_splits\<close>)
qed

text \<open>A socket goes.\<close>

lemma fold_remove_sel:
  "hb_clients (fold (removeFromAppSubscribers c) as h) = hb_clients h" "hb_byUser (fold (removeFromAppSubscribers c) as h) = hb_byUser h"
  "hb_all (fold (removeFromAppSubscribers c) as h) = hb_all h" "hb_broadcast (fold (removeFromAppSubscribers c) as h) = hb_broadcast h"
  "hb_userBroadcast (fold (removeFromAppSubscribers c) as h) = hb_userBroadcast h"
  by (induction as arbitrary: h) simp_all

lemma fold_remove_listed:
  "\<forall>a. distinct (listed (hb_byApp h) a) \<Longrightarrow>
     listed (hb_byApp (fold (removeFromAppSubscribers c) as h)) a = filter (\<lambda>x. x \<noteq> c \<or> a \<notin> set as) (listed (hb_byApp h) a)"
proof (induction as arbitrary: h)
  case (Cons b as)
  have "\<forall>a. distinct (listed (hb_byApp (removeFromAppSubscribers c b h)) a)" using Cons.prems by simp
  from Cons.IH [OF this] show ?case
    using Cons.prems by (auto simp: distinct_remove1_removeAll removeAll_filter_not_eq intro: filter_cong)
qed simp

definition without_socket :: "nat \<Rightarrow> hub \<Rightarrow> hub" where
  "without_socket c h =
     fold (removeFromAppSubscribers c) (wc_subs (the_client h c))
       ((put_client c (the_client h c\<lparr>wc_closed := True\<rparr>) (h\<lparr>hb_clients := remove1 c (hb_clients h)\<rparr>))
          \<lparr>hb_byUser := drop_listed c (client_key h c) (hb_byUser h)\<rparr>)"

lemma without_socket_sel:
  assumes "maps_ok h" and "c < length (hb_all h)"
  shows "hb_clients (without_socket c h) = remove1 c (hb_clients h)" "length (hb_all (without_socket c h)) = length (hb_all h)"
    "listed (hb_byUser (without_socket c h)) k = (if k = client_key h c then remove1 c (listed (hb_byUser h) k) else listed (hb_byUser h) k)"
    "listed (hb_byApp (without_socket c h)) a = filter (\<lambda>x. x \<noteq> c \<or> a \<notin> set (wc_subs (the_client h c))) (listed (hb_byApp h) a)"
    "hb_broadcast (without_socket c h) = hb_broadcast h" "hb_userBroadcast (without_socket c h) = hb_userBroadcast h"
    "the_client (without_socket c h) x = (if x = c then the_client h c\<lparr>wc_closed := True\<rparr> else the_client h x)"
    "client_key (without_socket c h) x = client_key h x"
proof -
  show at: "the_client (without_socket c h) x = (if x = c then the_client h c\<lparr>wc_closed := True\<rparr> else the_client h x)" for x
    using assms(2) by (simp add: without_socket_def the_client_def fold_remove_sel put_client_def nth_list_update)
  show "client_key (without_socket c h) x = client_key h x" by (simp add: client_key_def at)
qed (use maps_ok_apps(1) [OF assms(1)] in \<open>simp_all add: without_socket_def fold_remove_sel fold_remove_listed listed_drop put_client_def\<close>)

lemma unregister_ran:
  assumes "maps_ok h" and "c \<in> set (hb_clients h)"
  shows "unregisterClient c h = Ran (without_socket c h)"
proof -
  have c: "c < length (hb_all h)" "\<not> wc_closed (the_client h c)" "20 \<le> length (client_key h c)" using maps_ok_in [OF assms] by simp_all
  have "client_key (without_socket c h) c = client_key h c" by (rule without_socket_sel(8) [OF assms(1) c(1)])
  then show ?thesis using assms(2) c by (simp add: unregisterClient_def without_socket_def Let_def cut_for_log_def)
qed

lemma without_socket_maps:
  assumes "maps_ok h" and c: "c \<in> set (hb_clients h)"
  shows "maps_ok (without_socket c h)"
proof -
  have "c < length (hb_all h)" using maps_ok_in [OF assms] by simp
  note sel = without_socket_sel [OF assms(1) this]
  have d: "distinct (hb_clients h)" "\<And>k. distinct (listed (hb_byUser h) k)" "\<And>a. distinct (listed (hb_byApp h) a)"
    and regs: "\<And>x. x \<in> set (hb_clients h) \<Longrightarrow> x < length (hb_all h) \<and> \<not> wc_closed (the_client h x) \<and> x \<in> set (listed (hb_byUser h) (client_key h x))"
    and users: "\<And>x k. x \<in> set (listed (hb_byUser h) k) \<Longrightarrow> x \<in> set (hb_clients h) \<and> client_key h x = k"
    and apps: "\<And>x a. x \<in> set (listed (hb_byApp h) a) \<Longrightarrow> x \<in> set (hb_clients h) \<and> a \<in> set (wc_subs (the_client h x))"
    and keys: "\<And>x. x < length (hb_all h) \<Longrightarrow> 20 \<le> length (client_key h x)"
    using assms(1) by (simp_all add: maps_ok_def)
  show ?thesis
    unfolding maps_ok_def sel
  proof (intro conjI ballI allI impI)
    fix x k
    assume "x \<in> set (if k = client_key h c then remove1 c (listed (hb_byUser h) k) else listed (hb_byUser h) k)"
    then have "x \<in> set (listed (hb_byUser h) k)" "x \<noteq> c" using d(2) [of k] users [of c k] by (auto split: if_splits)
    then show "x \<in> set (remove1 c (hb_clients h))" "client_key h x = k" using users [of x k] by simp_all
  next
    fix x a
    assume "x \<in> set (filter (\<lambda>x. x \<noteq> c \<or> a \<notin> set (wc_subs (the_client h c))) (listed (hb_byApp h) a))"
    then have "x \<in> set (listed (hb_byApp h) a)" "x \<noteq> c" using apps by auto
    then show "x \<in> set (remove1 c (hb_clients h))" "a \<in> set (wc_subs (if x = c then the_client h c\<lparr>wc_closed := True\<rparr> else the_client h x))"
      using apps [of x a] by simp_all
  next
    fix x
    assume "x \<in> set (remove1 c (hb_clients h))"
    then show "x \<in> set (if client_key h x = client_key h c then remove1 c (listed (hb_byUser h) (client_key h x)) else listed (hb_byUser h) (client_key h x))"
      using regs [of x] d(1) by auto
  qed (use d regs keys in \<open>auto\<close>)
qed

lemma run_ok_ended:
  assumes ok: "run_ok r" and c: "c \<in> set (hr_reading r)" and run: "unregisterClient c (hr_hub r) = Ran h"
  shows "run_ok (r\<lparr>hr_hub := h, hr_reading := remove1 c (hr_reading r)\<rparr>)"
proof -
  let ?h = "hr_hub r" and ?r = "r\<lparr>hr_hub := without_socket c (hr_hub r), hr_reading := remove1 c (hr_reading r)\<rparr>"
  have maps: "maps_ok ?h" using ok by (simp add: run_ok_def)
  have cl: "c \<in> set (hb_clients ?h)" using run_ok_client [OF ok] c by blast
  have "c < length (hb_all ?h)" using maps_ok_in [OF maps cl] by simp
  note sel = without_socket_sel [OF maps this]
  have h: "h = without_socket c ?h" using run unregister_ran [OF maps cl] by simp
  have may: "may_have ?r = may_have r" by (rule may_have_cong) simp_all
  have "mail_ok ?r" using ok unfolding mail_ok_def may by (auto simp: run_ok_def mail_ok_def sel)
  moreover have "threads_ok ?r"
    using ok c by (auto simp: run_ok_def threads_ok_def sel maps_ok_def)
  ultimately show ?thesis using without_socket_maps [OF maps cl] by (simp add: run_ok_def h)
qed

lemma hub_step_ok: "hub_step r r1 \<Longrightarrow> run_ok r \<Longrightarrow> run_ok r1"
proof (induction rule: hub_step.induct)
  case (admitted env h query header n u n1 r)
  have may: "may_have (r\<lparr>hr_admitted := u # hr_admitted r\<rparr>) = may_have r" by (rule may_have_cong) simp_all
  show ?case using admitted by (simp add: run_ok_def threads_ok_def mail_ok_def may)
next
  case (registered u r h)
  then show ?case using run_ok_registered by blast
next
  case (greeted c r h)
  let ?h = "hr_hub r" and ?r = "r\<lparr>hr_greeting := remove1 c (hr_greeting r), hr_reading := c # hr_reading r\<rparr>"
  have maps: "maps_ok ?h" and cl: "c \<in> set (hb_clients ?h)" using greeted run_ok_client by (auto simp: run_ok_def)
  have may: "may_have ?r = may_have r" by (rule may_have_cong) simp_all
  have ok: "run_ok ?r" using greeted(1,3) by (auto simp: run_ok_def threads_ok_def mail_ok_def may)
  have "send_to c (WsConnected (client_key ?h c)) ?h = Ran h"
    using greeted(2) by (cases "send_to c (WsConnected (client_key ?h c)) ?h") (auto simp: greet_def cut_for_log_def split: if_splits)
  then show ?case using run_ok_sent [OF ok] cl by (simp add: may_have_def)
next
  case (handled c r env d msg h)
  have "run_ok (r\<lparr>hr_joined := hr_joined r \<union> joined_by env d msg (client_key (hr_hub r) c)\<rparr>)" by (rule run_ok_more [OF handled(3)]) auto
  from handled_cases(2) [OF this, of c env d msg h] show ?case using handled run_ok_client by simp
next
  case (ended c r h)
  then show ?case by (intro run_ok_ended)
next
  case (kicked r account device)
  then show ?case using run_ok_mailed [OF kicked disconnect_mailed, of WsPong] by (simp add: run_ok_def)
next
  case (app_event env d appID ev r h)
  have ok: "run_ok (r\<lparr>hr_told := hr_told r \<union> told_by env d appID ev\<rparr>)" by (rule run_ok_more [OF app_event(2)]) auto
  show ?case
  proof (cases "GetMembersByApplicationID env appID d")
    case (Inl e)
    then have "h = hr_hub r" using app_event(1) by (simp add: BroadcastToApplication_def)
    then show ?thesis using run_ok_mailed [OF ok, of "[]" WsPong h] by simp
  next
    case (Inr ms)
    have "(appID, ev, k) \<in> told_by env d appID ev" if "k \<in> set (map mb_public_key ms @ removed_key ev)" for k
      using that Inr by (auto simp: GetMembersByApplicationID_def result_simps told_by_def member_of_row_def removed_key_def Let_def split: if_splits)
    then show ?thesis
      using run_ok_queues(1) [OF ok] Inr app_event(1) by (auto simp: BroadcastToApplication_def split: if_splits)
  qed
next
  case (own_event key ev r h)
  have ok: "run_ok (r\<lparr>hr_own := insert (ev, key) (hr_own r)\<rparr>)" by (rule run_ok_more [OF own_event(2)]) auto
  show ?case using run_ok_queues(2) [OF ok] own_event(1) by (auto simp: BroadcastToUser_def split: if_splits)
next
  case (app_sent r m ms h)
  let ?r = "r\<lparr>hr_hub := (hr_hub r)\<lparr>hb_broadcast := ms\<rparr>\<rparr>"
  let ?cs = "filter (\<lambda>c. client_key (hr_hub ?r) c \<in> set (bm_recipients m)) (listed (hb_byApp (hr_hub ?r)) (bm_application m))"
  have ok: "run_ok ?r" using run_ok_queues(1) [OF app_sent(3)] app_sent(1) by simp
  then have maps: "maps_ok (hr_hub ?r)" by (simp add: run_ok_def)
  have cs: "set ?cs \<subseteq> set (hb_clients (hr_hub ?r))" using maps_ok_listed [OF maps] by auto
  have "mailed ?cs (WsEvents (bm_event m)) (hr_hub ?r) h"
    using send_all_mailed [OF maps cs, of "WsEvents (bm_event m)"] app_sent(2) by (auto simp: broadcastToApp_def)
  moreover have "may_have ?r (client_key (hr_hub ?r) c) (WsEvents (bm_event m))" if c: "c \<in> set ?cs" for c
  proof -
    have "bm_application m \<in> set (wc_subs (the_client (hr_hub ?r) c))" "c < length (hb_all (hr_hub ?r))"
      using c cs maps_ok_apps(2) [OF maps] maps_ok_in [OF maps] by auto
    then have "(bm_application m, client_key (hr_hub ?r) c) \<in> hr_joined r" using ok by (auto simp: run_ok_def mail_ok_def)
    moreover have "(bm_application m, bm_event m, client_key (hr_hub ?r) c) \<in> hr_told r"
      using app_sent(1,3) c by (auto simp: run_ok_def mail_ok_def)
    ultimately show ?thesis by (auto simp: may_have_def)
  qed
  ultimately show ?case using run_ok_mailed [OF ok] by simp
next
  case (own_sent r um ums h)
  let ?r = "r\<lparr>hr_hub := (hr_hub r)\<lparr>hb_userBroadcast := ums\<rparr>\<rparr>" and ?cs = "listed (hb_byUser (hr_hub r)) (ub_user um)"
  have ok: "run_ok ?r" using run_ok_queues(2) [OF own_sent(3)] own_sent(1) by simp
  then have maps: "maps_ok (hr_hub ?r)" by (simp add: run_ok_def)
  have cs: "set ?cs \<subseteq> set (hb_clients (hr_hub ?r))" using maps_ok_listed [OF maps] by auto
  have "mailed ?cs (WsEvents (ub_event um)) (hr_hub ?r) h"
    using send_all_mailed [OF maps cs, of "WsEvents (ub_event um)"] own_sent(2) by (auto simp: broadcastToUser_def)
  moreover have "may_have ?r (client_key (hr_hub ?r) c) (WsEvents (ub_event um))" if c: "c \<in> set ?cs" for c
  proof -
    have "client_key (hr_hub ?r) c = ub_user um" using c maps by (simp add: maps_ok_def)
    then show ?thesis using own_sent(1,3) by (auto simp: may_have_def run_ok_def mail_ok_def)
  qed
  ultimately show ?case using run_ok_mailed [OF ok] by simp
next
  case (pushed account device payload r ok h)
  have maps: "maps_ok (hr_hub r)" using pushed by (simp add: run_ok_def)
  have cs: "set (listed (hb_byUser (hr_hub r)) account) \<subseteq> set (hb_clients (hr_hub r))" using maps_ok_listed [OF maps] by auto
  show ?case
    using push_all_mailed [OF maps cs, of device payload False] pushed run_ok_mailed [OF pushed(2)] by (auto simp: SendPush_def may_have_def)
next
  case (wrote c r ok h)
  have "mailed [c] WsPong (hr_hub r) h"
    using wrote(1,3) by (auto simp: write_turn_def Let_def end_writer_def mail_def intro!: mailed_put split: list.splits if_splits)
  then show ?case using run_ok_mailed [OF wrote(4)] by (simp add: may_have_def)
next
  case (pinged c r ok)
  have "mailed [c] WsPong (hr_hub r) (ping_turn ok c (hr_hub r))"
    using pinged(1) by (auto simp: ping_turn_def Let_def end_writer_def mail_def intro!: mailed_put)
  then show ?case using run_ok_mailed [OF pinged(3)] by (simp add: may_have_def)
next
  case (dropped c r)
  then show ?case using run_ok_mailed [OF dropped(2) close_conn_mailed [of c _ "[]" WsPong]] dropped(1) by simp
qed

lemma hub_reachable_ok: "hub_step\<^sup>*\<^sup>* fresh_run_hub r \<Longrightarrow> run_ok r"
proof (induction rule: rtranclp_induct)
  case base
  show ?case by (simp add: run_ok_def maps_ok_def threads_ok_def mail_ok_def fresh_run_hub_def NewHub_def listed_def)
qed (rule hub_step_ok)

subsection \<open>A socket that was admitted gets its account's events\<close>

lemma put_other: "c \<noteq> c1 \<Longrightarrow> the_client (put_client c1 x h) c = the_client h c"
  by (simp add: the_client_def put_client_def)

lemma send_all_other: "send_all m cs h = Ran h1 \<Longrightarrow> c \<notin> set cs \<Longrightarrow> the_client h1 c = the_client h c"
proof (induction cs arbitrary: h)
  case (Cons d cs)
  obtain ok h2 where t: "try_send d m h = Ran (ok, h2)" and r: "send_all m cs h2 = Ran h1"
  proof (cases "try_send d m h")
    case (Ran x)
    then show thesis using Cons.prems(1) that by (cases x) (auto simp: cut_for_log_def split: if_splits)
  qed (use Cons.prems(1) in simp_all)
  have "the_client h2 c = the_client h c" using t Cons.prems(2) by (auto simp: try_send_def Let_def put_other split: if_splits)
  then show ?case using Cons.IH [OF r] Cons.prems(2) by simp
qed simp

lemma send_all_gets:
  "send_all m cs h = Ran h1 \<Longrightarrow> distinct cs \<Longrightarrow> c \<in> set cs \<Longrightarrow> c < length (hb_all h) \<Longrightarrow> length (wc_send (the_client h c)) < sendBufferSize
    \<Longrightarrow> the_client h1 c = the_client h c\<lparr>wc_send := wc_send (the_client h c) @ [m]\<rparr>"
proof (induction cs arbitrary: h)
  case (Cons d cs)
  obtain ok h2 where t: "try_send d m h = Ran (ok, h2)" and r: "send_all m cs h2 = Ran h1"
  proof (cases "try_send d m h")
    case (Ran x)
    then show thesis using Cons.prems(1) that by (cases x) (auto simp: cut_for_log_def split: if_splits)
  qed (use Cons.prems(1) in simp_all)
  show ?case
  proof (cases "c = d")
    case True
    then have "the_client h2 c = the_client h c\<lparr>wc_send := wc_send (the_client h c) @ [m]\<rparr>"
      using t Cons.prems(4,5) by (auto simp: try_send_def Let_def the_client_put split: if_splits)
    then show ?thesis using send_all_other [OF r] True Cons.prems(2) by simp
  next
    case False
    have "the_client h2 c = the_client h c" "length (hb_all h2) = length (hb_all h)"
      using t False by (auto simp: try_send_def Let_def put_other split: if_splits)
    then show ?thesis using Cons.IH [OF r] Cons.prems False by simp
  qed
qed simp

lemma writer_drains:
  assumes "c < length (hb_all (hr_hub r))" and "wc_send (the_client (hr_hub r) c) = [m1, m2]"
    and "wc_writer (the_client (hr_hub r) c)" and "\<not> wc_conn_closed (the_client (hr_hub r) c)"
  shows "\<exists>r2 y. hub_step\<^sup>*\<^sup>* r r2 \<and> y \<in> set (hb_all (hr_hub r2)) \<and> wc_user y = wc_user (the_client (hr_hub r) c) \<and> m2 \<in> set (wc_written y)"
proof -
  define x where "x = the_client (hr_hub r) c"
  define h1 where "h1 = put_client c (x\<lparr>wc_send := [m2], wc_written := m1 # wc_written x\<rparr>) (hr_hub r)"
  have w1: "write_turn True c (hr_hub r) = Ran h1" using assms by (simp add: write_turn_def h1_def x_def Let_def)
  have x1: "the_client h1 c = x\<lparr>wc_send := [m2], wc_written := m1 # wc_written x\<rparr>" and l1: "c < length (hb_all h1)"
    using assms(1) by (simp_all add: h1_def the_client_put)
  define y where "y = x\<lparr>wc_send := [], wc_written := m2 # m1 # wc_written x\<rparr>"
  have w2: "write_turn True c h1 = Ran (put_client c y h1)" using assms(3,4) x1 by (simp add: write_turn_def y_def x_def Let_def)
  have "hub_step r (r\<lparr>hr_hub := h1\<rparr>)" by (rule hub_step.wrote [OF assms(1) _ w1]) (use assms in simp_all)
  moreover have "hub_step (r\<lparr>hr_hub := h1\<rparr>) (r\<lparr>hr_hub := h1\<rparr>\<lparr>hr_hub := put_client c y h1\<rparr>)"
    by (rule hub_step.wrote [where c = c and ok = True]) (use l1 w2 x1 assms(3) in \<open>simp_all add: x_def\<close>)
  ultimately have "hub_step\<^sup>*\<^sup>* r (r\<lparr>hr_hub := h1\<rparr>\<lparr>hr_hub := put_client c y h1\<rparr>)" by (meson converse_rtranclp_into_rtranclp rtranclp.rtrancl_refl)
  moreover have "y \<in> set (hb_all (put_client c y h1))" using l1 by (simp add: put_client_def set_update_memI)
  moreover have "wc_user y = wc_user x" "m2 \<in> set (wc_written y)" by (simp_all add: y_def)
  ultimately show ?thesis by (intro exI [of _ "r\<lparr>hr_hub := put_client c y h1\<rparr>"] exI [of _ y]) (simp add: x_def)
qed

text \<open>The registration of an admitted account and the greeting of its socket.\<close>

lemma admitted_greeted:
  assumes ok: "run_ok r" and u: "u \<in> set (hr_admitted r)" and q: "hb_userBroadcast (hr_hub r) = []"
  shows "\<exists>r2 c. hub_step\<^sup>*\<^sup>* r r2 \<and> c \<in> set (hb_clients (hr_hub r2)) \<and> hb_userBroadcast (hr_hub r2) = []
    \<and> the_client (hr_hub r2) c = (NewClient u)\<lparr>wc_send := [WsConnected (u_public_key u)]\<rparr>"
proof -
  let ?h = "hr_hub r" and ?n = "length (hb_all (hr_hub r))"
  have maps: "maps_ok ?h" and key: "20 \<le> length (u_public_key u)" using ok u by (auto simp: run_ok_def threads_ok_def)
  define r1 where "r1 = r\<lparr>hr_hub := with_socket u ?h, hr_admitted := remove1 u (hr_admitted r), hr_greeting := ?n # hr_greeting r\<rparr>"
  have s1: "hub_step r r1" unfolding r1_def by (rule hub_step.registered [OF u register_socket_ran [OF maps key]])
  define h2 where "h2 = put_client ?n ((NewClient u)\<lparr>wc_send := [WsConnected (u_public_key u)]\<rparr>) (hr_hub r1)"
  have c2: "the_client h2 ?n = (NewClient u)\<lparr>wc_send := [WsConnected (u_public_key u)]\<rparr>"
    by (simp add: h2_def r1_def the_client_put)
  then have "client_key h2 ?n = u_public_key u" by (simp add: client_key_def NewClient_def)
  then have "greet ?n (hr_hub r1) = Ran h2"
    using key by (simp add: greet_def send_to_def h2_def r1_def with_socket_client with_socket_key NewClient_def sendBufferSize_def cut_for_log_def)
  then have s2: "hub_step r1 (r1\<lparr>hr_greeting := remove1 ?n (hr_greeting r1), hr_reading := ?n # hr_reading r1, hr_hub := h2\<rparr>)"
    by (intro hub_step.greeted) (simp_all add: r1_def)
  have "?n \<in> set (hb_clients h2)" "hb_userBroadcast h2 = []" using q by (simp_all add: h2_def r1_def)
  then show ?thesis using s1 s2 c2 by (intro exI conjI, elim converse_rtranclp_into_rtranclp) (auto intro: rtranclp.rtrancl_refl)
qed

lemma admitted_gets:
  assumes ok: "run_ok r" and u: "u \<in> set (hr_admitted r)" and q: "hb_userBroadcast (hr_hub r) = []"
  shows "\<exists>r2 x. hub_step\<^sup>*\<^sup>* r r2 \<and> x \<in> set (hb_all (hr_hub r2)) \<and> wc_user x = u \<and> WsEvents ev \<in> set (wc_written x)"
proof -
  obtain r2 c where r2: "hub_step\<^sup>*\<^sup>* r r2" "c \<in> set (hb_clients (hr_hub r2))" "hb_userBroadcast (hr_hub r2) = []"
      and c: "the_client (hr_hub r2) c = (NewClient u)\<lparr>wc_send := [WsConnected (u_public_key u)]\<rparr>"
    using admitted_greeted [OF assms] by blast
  have ok2: "run_ok r2" using r2(1) ok by (induction rule: rtranclp_induct) (auto dest: hub_step_ok)
  define um where "um = \<lparr>ub_user = u_public_key u, ub_event = ev\<rparr>"
  define r3 where "r3 = r2\<lparr>hr_own := insert (ev, u_public_key u) (hr_own r2), hr_hub := (hr_hub r2)\<lparr>hb_userBroadcast := [um]\<rparr>\<rparr>"
  have s3: "hub_step r2 r3" unfolding r3_def
    by (rule hub_step.own_event) (simp add: BroadcastToUser_def r2(3) hubBufferSize_def um_def)
  have ok3: "run_ok r3" by (rule hub_step_ok [OF s3 ok2])
  define h3 where "h3 = (hr_hub r3)\<lparr>hb_userBroadcast := []\<rparr>"
  define cs where "cs = listed (hb_byUser h3) (u_public_key u)"
  have maps3: "maps_ok h3" using ok3 by (simp add: run_ok_def h3_def maps_ok_def client_key_def the_client_def)
  have c3: "the_client h3 c = (NewClient u)\<lparr>wc_send := [WsConnected (u_public_key u)]\<rparr>" "c \<in> set (hb_clients h3)"
    using c r2(2) by (simp_all add: h3_def r3_def the_client_def)
  then have "client_key h3 c = u_public_key u" by (simp add: client_key_def NewClient_def)
  then have n: "c \<in> set cs" "distinct cs" using maps_ok_users [OF maps3] c3(2) by (simp_all add: cs_def)
  have sub: "set cs \<subseteq> set (hb_clients h3)" using maps_ok_listed [OF maps3] by (auto simp: cs_def)
  obtain h4 where h4: "send_all (WsEvents ev) cs h3 = Ran h4" "mailed cs (WsEvents ev) h3 h4"
    using send_all_mailed [OF maps3 sub] by blast
  have s4: "hub_step r3 (r3\<lparr>hr_hub := h4\<rparr>)"
    by (rule hub_step.own_sent [where um = um and ums = "[]"]) (use h4(1) in \<open>simp_all add: broadcastToUser_def um_def cs_def h3_def r3_def\<close>)
  have len: "c < length (hb_all h3)" using maps_ok_in [OF maps3 c3(2)] by simp
  have x4: "the_client h4 c = (NewClient u)\<lparr>wc_send := [WsConnected (u_public_key u), WsEvents ev]\<rparr>"
    using send_all_gets [OF h4(1) n(2,1) len] c3(1) by (simp add: sendBufferSize_def)
  have "c < length (hb_all h4)" using h4(2) len by (simp add: mailed_def same_maps_def)
  then obtain r5 x where r5: "hub_step\<^sup>*\<^sup>* (r3\<lparr>hr_hub := h4\<rparr>) r5" "x \<in> set (hb_all (hr_hub r5))" "wc_user x = u" "WsEvents ev \<in> set (wc_written x)"
    using writer_drains [of c "r3\<lparr>hr_hub := h4\<rparr>" "WsConnected (u_public_key u)" "WsEvents ev"] x4 by (auto simp: NewClient_def)
  have "hub_step\<^sup>*\<^sup>* r r5" by (rule rtranclp_trans [OF rtranclp.rtrancl_into_rtrancl [OF rtranclp.rtrancl_into_rtrancl [OF r2(1) s3] s4] r5(1)])
  then show ?thesis using r5 by blast
qed

subsection \<open>A run in which Olga's phone is admitted\<close>

definition demo_socket_claims :: session_claims where
  "demo_socket_claims = \<lparr>sc_user = demo_key CHR ''o'', sc_device = ''phone'', sc_username = ''Olga'', sc_role = RoleOwner, sc_space_id = [],
     sc_bv = 0, sc_exp = 1700086400, sc_iat = 1700000000\<rparr>"

definition demo_socket_host :: host where
  "demo_socket_host = (demo_host [])\<lparr>parse_session := (\<lambda>t tok. if tok = ''s'' then Inr (''JWT'', demo_socket_claims) else Inl (errorf ''no session''))\<rparr>"

definition demo_socket_home :: db where
  "demo_socket_home = empty_db\<lparr>t_users := [new_user_row (demo_key CHR ''o'') ''Olga'' RoleOwner 1600000000],
     t_devices := [demo_device ''phone'' (demo_key CHR ''o'')]\<rparr>"

definition demo_socket_account :: account where
  "demo_socket_account = (account_of_row (new_user_row (demo_key CHR ''o'') ''Olga'' RoleOwner 1600000000))\<lparr>ac_device_key := ''phone''\<rparr>"

definition demo_socket_event :: event where
  "demo_socket_event = \<lparr>ev_id = ''e1'', ev_created_at = 1700000000, ev_application_id = [], ev_sequence = 1, ev_type = EventTypeMemberRemoved,
     ev_creator = demo_key CHR ''o'', ev_version = 1, ev_data = None, ev_space_id = []\<rparr>"

lemmas socket_demo_defs = demo_socket_claims_def demo_socket_host_def demo_socket_home_def demo_socket_account_def account_demo_defs demo_env_def

lemma demo_socket_session: "\<exists>n2. ValidateJWT demo_env demo_socket_host ''s'' (demo_node demo_socket_home) = (Inr demo_socket_account, n2)"
proof -
  obtain n2 where touch: "touchDeviceLastSeenThrottled demo_env demo_socket_host ''phone'' (demo_node demo_socket_home) = (Inr (), n2)"
    using touch_returns by blast
  let ?u = "account_of_row (new_user_row (demo_key CHR ''o'') ''Olga'' RoleOwner 1600000000)"
  have rows: "GetUserByPublicKey demo_env (demo_key CHR ''o'') (nd_db (demo_node demo_socket_home)) = Inr (Some ?u)"
      "GetDevice demo_env ''phone'' (nd_db (demo_node demo_socket_home)) = Inr (Some (demo_device ''phone'' (demo_key CHR ''o'')))"
    by (simp_all add: GetUserByPublicKey_def GetDevice_def stmt_def user_row_of_def device_row_of_def socket_demo_defs demo_key_def)
  have parse: "parse_session demo_socket_host (now demo_env) ''s'' = Inr (''JWT'', demo_socket_claims)" by (simp add: demo_socket_host_def)
  have ty: "\<not> equal_fold_at_jwt demo_socket_host ''JWT''" by (simp add: equal_fold_at_jwt_def demo_socket_host_def demo_host_def)
  have dev: "dv_revoked_at (demo_device ''phone'' k) = None" "dv_kind (demo_device ''phone'' k) = DeviceKindHuman"
      "ac_binding_iat ?u = 0" "?u\<lparr>u_space_id := [], ac_device_key := ''phone''\<rparr> = demo_socket_account" for k
    by (simp_all add: account_demo_defs demo_socket_account_def)
  have "ValidateJWT demo_env demo_socket_host ''s'' (demo_node demo_socket_home) = (Inr demo_socket_account, n2)"
    unfolding ValidateJWT_def Let_def using touch rows by (simp add: parse act_simps demo_socket_claims_def ty dev)
  then show ?thesis by blast
qed

lemma demo_socket_admitted:
  "hub_step\<^sup>*\<^sup>* fresh_run_hub (fresh_run_hub\<lparr>hr_admitted := [demo_socket_account]\<rparr>)"
proof -
  obtain n2 where "ValidateJWT demo_env demo_socket_host ''s'' (demo_node demo_socket_home) = (Inr demo_socket_account, n2)"
    using demo_socket_session by blast
  then have "HandleFastHTTP demo_env demo_socket_host ''s'' [] (demo_node demo_socket_home) = (Inr demo_socket_account, n2)"
    by (simp add: HandleFastHTTP_def bearer_or_query_def attempt_def ret_def)
  from hub_step.admitted [OF this, of fresh_run_hub] have "hub_step fresh_run_hub (fresh_run_hub\<lparr>hr_admitted := [demo_socket_account]\<rparr>)"
    by (simp add: socket_demo_defs demo_key_def fresh_run_hub_def)
  then show ?thesis by blast
qed

subsection \<open>What holds of every run\<close>



text \<open>
  C37. What waits for a socket or was written to it is for its account: an event of an account goes to
  that account only, an event of an application to those for whom it was broadcast, members then or the
  one it removes, who were members when they subscribed on an open socket.
\<close>
theorem hub_delivery:
  assumes "hub_step\<^sup>*\<^sup>* fresh_run_hub r" and "x \<in> set (hb_all (hr_hub r))"
    and "WsEvents ev \<in> set (wc_send x) \<union> set (wc_written x)"
  shows "(ev, u_public_key (wc_user x)) \<in> hr_own r
    \<or> (\<exists>a. (a, ev, u_public_key (wc_user x)) \<in> hr_told r \<and> (a, u_public_key (wc_user x)) \<in> hr_joined r)"
proof -
  obtain c where c: "c < length (hb_all (hr_hub r))" "x = the_client (hr_hub r) c"
    using assms(2) by (auto simp: in_set_conv_nth the_client_def)
  then have "may_have r (client_key (hr_hub r) c) (WsEvents ev)"
    using hub_reachable_ok [OF assms(1)] assms(3) unfolding run_ok_def mail_ok_def by blast
  then show ?thesis by (simp add: may_have_def client_key_def c)
qed

theorem hub_delivery_witness:
  "\<exists>r. hub_step\<^sup>*\<^sup>* fresh_run_hub r
    \<and> ((demo_socket_event, demo_key CHR ''o'') \<in> hr_own r
      \<or> (\<exists>a. (a, demo_socket_event, demo_key CHR ''o'') \<in> hr_told r \<and> (a, demo_key CHR ''o'') \<in> hr_joined r))"
proof -
  have ok: "run_ok (fresh_run_hub\<lparr>hr_admitted := [demo_socket_account]\<rparr>)" by (rule hub_reachable_ok [OF demo_socket_admitted])
  obtain r x where r: "hub_step\<^sup>*\<^sup>* (fresh_run_hub\<lparr>hr_admitted := [demo_socket_account]\<rparr>) r" "x \<in> set (hb_all (hr_hub r))"
      "wc_user x = demo_socket_account" "WsEvents demo_socket_event \<in> set (wc_written x)"
    using admitted_gets [OF ok, of demo_socket_account demo_socket_event] by (auto simp: fresh_run_hub_def NewHub_def)
  have run: "hub_step\<^sup>*\<^sup>* fresh_run_hub r" by (rule rtranclp_trans [OF demo_socket_admitted r(1)])
  have "u_public_key (wc_user x) = demo_key CHR ''o''" by (simp add: r(3) socket_demo_defs)
  then show ?thesis using hub_delivery [OF run r(2), of demo_socket_event] r(4) run by auto
qed

text \<open>
  C40. A revocation that arrives between the check of a socket's token and its registration does not
  reach the socket: it is registered all the same and goes on receiving the events of the account. The
  hub closes those it has, and nothing asks again when the socket comes.
\<close>
theorem late_socket:
  assumes "hub_step\<^sup>*\<^sup>* fresh_run_hub r" and "u \<in> set (hr_admitted r)" and "hb_userBroadcast (hr_hub r) = []"
  shows "\<exists>r2 x. hub_step\<^sup>*\<^sup>* (r\<lparr>hr_hub := disconnectClients (u_public_key u) (ac_device_key u) (hr_hub r)\<rparr>) r2
    \<and> x \<in> set (hb_all (hr_hub r2)) \<and> wc_user x = u \<and> WsEvents ev \<in> set (wc_written x)"
proof -
  have ok: "run_ok r" by (rule hub_reachable_ok [OF assms(1)])
  then have "mailed [] WsPong (hr_hub r) (disconnectClients (u_public_key u) (ac_device_key u) (hr_hub r))"
    by (simp add: disconnect_mailed run_ok_def)
  then have "hb_userBroadcast (disconnectClients (u_public_key u) (ac_device_key u) (hr_hub r)) = []"
    using assms(3) by (simp add: mailed_def same_maps_def)
  then show ?thesis using admitted_gets hub_step_ok [OF hub_step.kicked ok] assms(2) by simp
qed

theorem late_socket_witness:
  "\<exists>r2 x. hub_step\<^sup>*\<^sup>* (fresh_run_hub\<lparr>hr_admitted := [demo_socket_account],
       hr_hub := disconnectClients (demo_key CHR ''o'') ''phone'' NewHub\<rparr>) r2
    \<and> x \<in> set (hb_all (hr_hub r2)) \<and> wc_user x = demo_socket_account \<and> WsEvents demo_socket_event \<in> set (wc_written x)"
  using late_socket [OF demo_socket_admitted, of demo_socket_account demo_socket_event] by (simp add: fresh_run_hub_def NewHub_def socket_demo_defs)

end
