(* ===== verification/McpVersions.thy ===== *)
theory McpVersions
  imports ComponentValidator Invitations
begin

section \<open>What agents see of entries and write to them\<close>

text \<open>
  \<open>internal/mcp/versions.go\<close> and the checks of \<open>update_component.go\<close>. An agent sees every entry in the
  current version of its type and writes it in that version; the entry keeps the version it is
  stored in. A write is checked key by key against the access rules of the schema. The encoder of
  entries and the generator of ids are parameters.
\<close>

record tools =
  tl_lib :: schema_lib
  tl_encode :: "gany \<Rightarrow> string result"
  tl_ids :: "nat \<Rightarrow> string"           \<comment> \<open>the ids that \<open>newID\<close> hands out during one call\<close>
  tl_millis :: int                      \<comment> \<open>\<open>time.Now().UnixMilli()\<close>\<close>

subsection \<open>Reading\<close>

abbreviation stateFull :: string where "stateFull \<equiv> ''full''"
abbreviation stateReadOnly :: string where "stateReadOnly \<equiv> ''read-only''"
abbreviation stateNeedsUpdate :: string where "stateNeedsUpdate \<equiv> ''needs-update''"
abbreviation stateBadVersion :: string where "stateBadVersion \<equiv> ''bad-version''"

record reader =
  rd_lo :: int
  rd_cur :: int
  rd_steps :: gany

definition readerFor :: "Validator \<Rightarrow> string \<Rightarrow> reader option" where
  "readerFor v typ = map_option (\<lambda>(lo, cur). \<lparr>rd_lo = lo, rd_cur = cur, rd_steps = type_steps v typ\<rparr>) (Versions v typ)"

text \<open>
  \<open>json.Marshal\<close> and back. A number that is no JSON, or too large for a \<open>float64\<close>, fails one of the
  two; then the value stays as it is.
\<close>

function float_range :: "gany \<Rightarrow> bool" where
  "float_range v =
     (case v of
        GNum s \<Rightarrow> (case rat_of_string s of None \<Rightarrow> False | Some q \<Rightarrow> \<bar>q\<bar> < 2 ^ 1024 - 2 ^ 970)
      | GList l \<Rightarrow> list_all float_range l
      | GMap m \<Rightarrow> list_all (\<lambda>(k, x). float_range x) m
      | _ \<Rightarrow> True)"
  by pat_completeness auto
termination
  by (relation "measure size")
     (auto simp: size_map_value simp del: gany.size intro: size_list_value)

declare float_range.simps [simp del]

definition plain :: "gany \<Rightarrow> gany" where
  "plain v = (if float_range v then json_norm v else v)"

definition absent :: "gmap \<Rightarrow> string \<Rightarrow> bool" where
  "absent m k \<longleftrightarrow> (case map_of m k of None \<Rightarrow> True | Some v \<Rightarrow> v = GStr [])"

definition entryMap :: "tools \<Rightarrow> bool \<Rightarrow> gany \<Rightarrow> gmap option" where
  "entryMap tk encoded raw =
     (if encoded then (case as_str raw of None \<Rightarrow> None | Some s \<Rightarrow> as_map (DecodeEncoded (sl_decode (tl_lib tk)) s))
      else as_map raw)"

definition classify :: "tools \<Rightarrow> reader \<Rightarrow> string \<Rightarrow> gmap \<Rightarrow> gmap \<times> string" where
  "classify tk r key m =
     (case Version m of
        Inl _ \<Rightarrow> ([], stateBadVersion)
      | Inr e \<Rightarrow>
          if e > rd_cur r then ([], stateNeedsUpdate)
          else (case Migrate (sl_regexps (tl_lib tk)) (rd_steps r) key (GMap m) (rd_cur r) of
                  Inl _ \<Rightarrow> ([], stateBadVersion)
                | Inr (out, lossy) \<Rightarrow> (map_or_nil (plain out), if lossy then stateReadOnly else stateFull)))"

definition entryRead :: "tools \<Rightarrow> reader \<Rightarrow> bool \<Rightarrow> string \<Rightarrow> gany \<Rightarrow> gany \<times> string" where
  "entryRead tk r encoded key raw =
     (if raw = GStr [] then (raw, stateFull)
      else case entryMap tk encoded raw of
             None \<Rightarrow> (raw, stateBadVersion)
           | Some m \<Rightarrow>
               (case classify tk r key m of (view, state) \<Rightarrow>
                  if state = stateNeedsUpdate \<or> state = stateBadVersion then (raw, state)
                  else if encoded then
                    (case MigrateEncoded (sl_decode (tl_lib tk)) (tl_encode tk) (sl_regexps (tl_lib tk)) (rd_steps r) key (str_or_empty raw) (rd_cur r) of
                       Inl _ \<Rightarrow> (raw, stateBadVersion)
                     | Inr (s, _) \<Rightarrow> (GStr s, state))
                  else (GMap view, state)))"

text \<open>One key of a component as an agent sees it, and its state when it is not fully editable.\<close>

definition shown_key :: "tools \<Rightarrow> Validator \<Rightarrow> string \<Rightarrow> reader \<Rightarrow> string \<Rightarrow> gany \<Rightarrow> gany \<times> string" where
  "shown_key tk v typ r k raw =
     (case EntryOf (tl_lib tk) v typ k of None \<Rightarrow> (raw, stateFull) | Some encoded \<Rightarrow> entryRead tk r encoded k raw)"

definition componentData :: "tools \<Rightarrow> Validator \<Rightarrow> string \<Rightarrow> gmap \<Rightarrow> gmap \<times> (string \<times> string) list" where
  "componentData tk v typ data =
     (case readerFor v typ of
        None \<Rightarrow> (data, [])
      | Some r \<Rightarrow>
          (map (\<lambda>(k, raw). (k, fst (shown_key tk v typ r k raw))) data,
           filter (\<lambda>(k, st). st \<noteq> stateFull) (map (\<lambda>(k, raw). (k, snd (shown_key tk v typ r k raw))) data)))"

subsection \<open>Preparing a write\<close>

definition shape :: "tools \<Rightarrow> reader \<Rightarrow> bool \<Rightarrow> gany \<Rightarrow> bool \<Rightarrow> gany result" where
  "shape tk r encoded val inject =
     (case entryMap tk encoded val of
        None \<Rightarrow> Inr val
      | Some m \<Rightarrow>
          let stamped = mput ''v'' (GFloat (of_int (rd_cur r))) m;
              out = (if encoded then rbind (Encode (tl_encode tk) (GMap stamped)) (\<lambda>s. Inr (GStr s)) else Inr (GMap stamped))
          in if map_of m ''v'' \<noteq> None then
               (case Version m of
                  Inl _ \<Rightarrow> Inl (errorf ''v must be an integer in range'')
                | Inr n \<Rightarrow> if n < rd_lo r \<or> n > rd_cur r then Inl (errorf ''v must be an integer in range'')
                           else if n = rd_cur r then Inr val else out)
             else if \<not> inject then Inr val else out)"

text \<open>What a write to a key meets: the state of the stored entry, and whether its view has a version.\<close>

definition stored_state :: "tools \<Rightarrow> reader \<Rightarrow> bool \<Rightarrow> gmap \<Rightarrow> string \<Rightarrow> string \<times> bool" where
  "stored_state tk r encoded stored k =
     (if absent stored k then (stateFull, rd_cur r \<ge> 2)
      else case entryMap tk encoded (mindex stored k) of
             None \<Rightarrow> (stateBadVersion, rd_cur r \<ge> 2)
           | Some orig \<Rightarrow> (case classify tk r k orig of (view, state) \<Rightarrow> (state, map_of view ''v'' \<noteq> None)))"

definition key_error :: "string \<Rightarrow> string \<Rightarrow> goerr" where
  "key_error k why = errorf (''key '' @ k @ '': '' @ why)"

definition prepare_key :: "tools \<Rightarrow> reader \<Rightarrow> Validator \<Rightarrow> string \<Rightarrow> gmap \<Rightarrow> string \<Rightarrow> gany \<Rightarrow> gany result" where
  "prepare_key tk r v typ stored k val =
     (case EntryOf (tl_lib tk) v typ k of
        None \<Rightarrow> Inr val
      | Some encoded \<Rightarrow>
          (case stored_state tk r encoded stored k of (state, inject) \<Rightarrow>
             let blocked = (state = stateNeedsUpdate \<or> state = stateBadVersion)
             in if val = GStr [] then
                  rguard (\<not> blocked) (key_error k ''needs an app update, so it cannot be deleted'') (Inr val)
                else rguard (\<not> blocked) (key_error k ''needs an app update before it can be edited'')
                  (rguard (state \<noteq> stateReadOnly) (key_error k ''read-only in this version (lossy), so it cannot be edited'')
                    (map_err (\<lambda>e. key_error k (err_msg e)) (shape tk r encoded val inject)))))"

definition prepare :: "tools \<Rightarrow> reader \<Rightarrow> Validator \<Rightarrow> string \<Rightarrow> gmap \<Rightarrow> gmap \<Rightarrow> gmap result" where
  "prepare tk r v typ stored data =
     fold_res (\<lambda>k out. rbind (prepare_key tk r v typ stored k (mindex data k)) (\<lambda>x. Inr (mput k x out)))
       (sort (map fst data)) data"

subsection \<open>Merging it into what is stored\<close>

text \<open>
  Called only after \<open>prepare\<close>, which refused a stored value that is not an entry. \<open>None\<close> when nothing is
  to be written.
\<close>

definition apply_key :: "tools \<Rightarrow> reader \<Rightarrow> Validator \<Rightarrow> string \<Rightarrow> gmap \<Rightarrow> string \<Rightarrow> gany \<Rightarrow> gany option result" where
  "apply_key tk r v typ stored k val =
     (case EntryOf (tl_lib tk) v typ k of
        None \<Rightarrow> Inr (Some val)
      | Some encoded \<Rightarrow>
          if absent stored k \<or> val = GStr [] then Inr (Some val)
          else (case entryMap tk encoded val of
                  None \<Rightarrow> Inl (key_error k ''value must be an object'')
                | Some edited \<Rightarrow>
                    (case (if encoded then
                             rbind (WriteBackEncoded (sl_decode (tl_lib tk)) (tl_encode tk) (sl_regexps (tl_lib tk)) (rd_steps r) k
                               (str_or_empty (mindex stored k)) (rd_cur r) edited) (\<lambda>(s, w). Inr (GStr s, w))
                           else rbind (WriteBack (sl_regexps (tl_lib tk)) (rd_steps r) k
                               (GMap (case entryMap tk encoded (mindex stored k) of Some orig \<Rightarrow> orig | None \<Rightarrow> [])) (rd_cur r) edited)
                               (\<lambda>(x, w). Inr (plain x, w))) of
                       Inl _ \<Rightarrow> Inl (key_error k ''the edit does not fit the stored value'')
                     | Inr (x, wrote) \<Rightarrow> Inr (if wrote then Some x else None))))"

definition apply_write :: "tools \<Rightarrow> reader \<Rightarrow> Validator \<Rightarrow> string \<Rightarrow> gmap \<Rightarrow> gmap \<Rightarrow> gmap result" where
  "apply_write tk r v typ stored data =
     fold_res (\<lambda>k out. rbind (apply_key tk r v typ stored k (mindex data k))
         (\<lambda>x. Inr (case x of None \<Rightarrow> out | Some y \<Rightarrow> mput k y out)))
       (sort (map fst data)) []"

subsection \<open>The access rules\<close>

text \<open>\<open>reflect.DeepEqual\<close> on decoded values.\<close>

function deep_equal :: "gany \<Rightarrow> gany \<Rightarrow> bool" where
  "deep_equal a b =
     (case a of
        GMap x \<Rightarrow>
          (case b of
             GMap y \<Rightarrow> length x = length y \<and>
               list_all (\<lambda>(k, xv). case map_of y k of None \<Rightarrow> False | Some yv \<Rightarrow> deep_equal xv yv) x
           | _ \<Rightarrow> False)
      | GList x \<Rightarrow>
          (case b of
             GList y \<Rightarrow> length x = length y \<and> list_all (\<lambda>(xv, yv). deep_equal xv yv) (zip x y)
           | _ \<Rightarrow> False)
      | _ \<Rightarrow> a = b)"
  by pat_completeness auto
termination
  by (relation "measure (\<lambda>(a, _). size a)")
     (auto simp: size_map_value simp del: gany.size dest!: set_zip_leftD intro: size_list_value)

declare deep_equal.simps [simp del]

definition orZero :: "gany \<Rightarrow> gany" where
  "orZero v = (if v = GBool False \<or> v = GStr [] \<or> v = GFloat 0 then GNil else v)"

definition add_flag :: "flag_spec option \<Rightarrow> flag_spec list \<Rightarrow> flag_spec list" where
  "add_flag f flags = (case f of None \<Rightarrow> flags | Some x \<Rightarrow> if x \<in> set flags then flags else flags @ [x])"

definition gateFlags :: "access \<Rightarrow> gany \<Rightarrow> gany \<Rightarrow> flag_spec list" where
  "gateFlags acc old val =
     (let listed = (case xa_fields acc of None \<Rightarrow> [] | Some fs \<Rightarrow> fs);
          o1 = map_or_nil old; n1 = map_or_nil val
      in if xa_gate acc = None \<and> listed = [] then []
         else fold (\<lambda>f flags.
             if deep_equal (orZero (mindex o1 f)) (orZero (mindex n1 f)) then flags
             else add_flag (case map_of listed f of Some g \<Rightarrow> g | None \<Rightarrow> xa_gate acc) flags)
           (map fst o1 @ map fst n1)
           (if as_map old = None then add_flag (xa_gate acc) [] else []))"

definition isAuthor :: "tools \<Rightarrow> string \<Rightarrow> string \<Rightarrow> string \<Rightarrow> bool" where
  "isAuthor tk s member publicKey \<longleftrightarrow>
     (case sl_unmarshal (tl_lib tk) s of Inr (GMap m) \<Rightarrow> mindex m member = GStr publicKey | _ \<Rightarrow> False)"

text \<open>A key that ends in \<open>*\<close> gets a new id.\<close>

fun mint_keys :: "(nat \<Rightarrow> string) \<Rightarrow> nat \<Rightarrow> gmap \<Rightarrow> gmap \<Rightarrow> gmap" where
  "mint_keys ids n [] data = data"
| "mint_keys ids n ((k, val) # rest) data =
     (case CutSuffix k ''*'' of
        None \<Rightarrow> mint_keys ids n rest (mput k val data)
      | Some base \<Rightarrow> mint_keys ids (Suc n) rest (mput (base @ ids n) val data))"

definition mintKeys :: "(nat \<Rightarrow> string) \<Rightarrow> gmap \<Rightarrow> gmap" where
  "mintKeys ids input = mint_keys ids 0 input []"

text \<open>A check passes, refuses with field errors that the agent is shown, or fails.\<close>

datatype 'a checked = Pass 'a | Fields string "FieldError list" | Fault goerr

fun passed :: "'a checked \<Rightarrow> ('a \<Rightarrow> 'b checked) \<Rightarrow> 'b checked" where
  "passed (Pass x) f = f x"
| "passed (Fields what fs) f = Fields what fs"
| "passed (Fault e) f = Fault e"

definition of_result :: "'a result \<Rightarrow> 'a checked" where
  "of_result r = (case r of Inl e \<Rightarrow> Fault e | Inr x \<Rightarrow> Pass x)"

definition pass_if :: "bool \<Rightarrow> goerr \<Rightarrow> 'a checked \<Rightarrow> 'a checked" where
  "pass_if ok e r = (if ok then r else Fault e)"

definition toolError :: "goerr \<Rightarrow> goerr" where
  "toolError e =
     (if errors_is e ErrNotFound \<or> errors_is e ErrNotMember \<or> errors_is e ErrAgentReadOff then errorf ''app not found or not open to agents''
      else if errors_is e ErrApplicationMoving \<or> is_moved e then errorf ''app is moving''
      else if errors_is e ErrNotAppAuthorized then errorf ''only the app owner or an admin can invite''
      else if errors_is e ErrInvalidInviteRole then errorf ''role must be admin, member or viewer''
      else if errors_is e ErrInvalidInviteOptions then e
      else if errors_is e ErrUnauthorized then errorf ''you are not allowed to change this app''
      else if errors_is e ErrValidation \<or> errors_is e ErrUnappliable then errorf ''the app rejected the change''
      else errorf ''internal error'')"

definition shapeHint :: "Validator \<Rightarrow> string \<Rightarrow> string" where
  "shapeHint v typ =
     (case Versions v typ of
        Some (lo, cur) \<Rightarrow> (if cur \<ge> 2 then '': values must use the v'' @ format_int cur @ '' shape, see describe_component'' else [])
      | None \<Rightarrow> [])"

definition validated :: "data_error option \<Rightarrow> string \<Rightarrow> unit checked" where
  "validated r what = (case r of None \<Rightarrow> Pass () | Some (FieldErrors fs) \<Rightarrow> Fields what fs | Some (DataError e) \<Rightarrow> Fault (toolError e))"

fun flags_on :: "gmap \<Rightarrow> flag_spec list \<Rightarrow> flag_spec option" where
  "flags_on old [] = None"
| "flags_on old (f # fs) = (if flag_On f old then flags_on old fs else Some f)"

definition author_ok :: "tools \<Rightarrow> access \<Rightarrow> gany \<Rightarrow> gany \<Rightarrow> string \<Rightarrow> bool" where
  "author_ok tk acc oldVal val publicKey \<longleftrightarrow>
     xa_author acc = []
     \<or> ((str_or_empty val \<noteq> [] \<longrightarrow> isAuthor tk (str_or_empty val) (xa_author acc) publicKey)
        \<and> (str_or_empty oldVal \<noteq> [] \<longrightarrow> isAuthor tk (str_or_empty oldVal) (xa_author acc) publicKey))"

definition check_key :: "tools \<Rightarrow> gmap \<Rightarrow> gmap \<Rightarrow> string \<Rightarrow> bool \<Rightarrow> string \<times> access \<Rightarrow> unit checked" where
  "check_key tk old data publicKey privileged ka = (case ka of (k, acc) \<Rightarrow>
     let oldVal = mindex old k; val = mindex data k in
     pass_if (xa_level acc \<noteq> AccessNone) (key_error k ''not writable by agents'')
    (pass_if (xa_level acc = AccessManage \<longrightarrow> privileged) (key_error k ''owner or admin only'')
    (pass_if (OwnKey (tl_lib tk) acc k publicKey) (key_error k ''you can only write your own cell'')
    (pass_if (case xa_unless acc of None \<Rightarrow> True | Some f \<Rightarrow> \<not> flag_On f old) (key_error k ''turned off'')
    (pass_if (privileged \<or> flags_on old (gateFlags acc oldVal val) = None) (key_error k ''turned off'')
    (pass_if (\<not> (xa_append acc \<and> map_of old k \<noteq> None)) (key_error k ''already exists'')
    (pass_if (\<not> (xa_append acc \<and> val = GStr [])) (key_error k ''cannot be deleted'')
    (pass_if (author_ok tk acc oldVal val publicKey) (key_error k ''author must be your publicKey'')
       (Pass ())))))))))"

fun check_all :: "('a \<Rightarrow> unit checked) \<Rightarrow> 'a list \<Rightarrow> unit checked" where
  "check_all f [] = Pass ()"
| "check_all f (x # xs) = passed (f x) (\<lambda>_. check_all f xs)"

fun key_access :: "tools \<Rightarrow> Validator \<Rightarrow> string \<Rightarrow> string list \<Rightarrow> (string \<times> access) list result" where
  "key_access tk v typ [] = Inr []"
| "key_access tk v typ (k # ks) =
     (case AccessOf (tl_lib tk) v typ k of
        None \<Rightarrow> Inl (key_error k ''not a key of the type'')
      | Some acc \<Rightarrow> rbind (key_access tk v typ ks) (\<lambda>as. Inr ((k, acc) # as)))"

definition check_content :: "tools \<Rightarrow> Validator \<Rightarrow> string \<Rightarrow> gmap \<Rightarrow> string \<times> access \<Rightarrow> unit checked" where
  "check_content tk v typ data ka = (case ka of (k, acc) \<Rightarrow>
     if xa_content acc \<noteq> [] \<and> str_or_empty (mindex data k) \<noteq> []
     then validated (ValidateContent (tl_lib tk) v typ (xa_content acc) (str_or_empty (mindex data k)))
            (''key '' @ k @ '': invalid value'' @ shapeHint v typ)
     else Pass ())"

text \<open>The keys are known to have rules before any of them is checked, in the order of their names.\<close>

definition checkWrite ::
    "tools \<Rightarrow> Validator \<Rightarrow> string \<Rightarrow> gmap \<Rightarrow> gmap \<Rightarrow> string \<Rightarrow> bool \<Rightarrow> (string \<Rightarrow> gmap \<Rightarrow> data_error option) \<Rightarrow> string list checked" where
  "checkWrite tk v typ old data publicKey privileged validate =
     passed (of_result (key_access tk v typ (sort (map fst data)))) (\<lambda>access.
     passed (check_all (check_key tk old data publicKey privileged) access) (\<lambda>_.
     passed (validated (validate typ data) (''invalid data'' @ shapeHint v typ)) (\<lambda>_.
     passed (check_all (check_content tk v typ data) access) (\<lambda>_.
     Pass (map fst access)))))"

subsection \<open>Planning a write\<close>

text \<open>Deleting an entry that is not there writes nothing.\<close>

definition idle_delete :: "tools \<Rightarrow> Validator \<Rightarrow> string \<Rightarrow> gmap \<Rightarrow> string \<times> gany \<Rightarrow> bool" where
  "idle_delete tk v typ stored kv = (case kv of (k, val) \<Rightarrow> EntryOf (tl_lib tk) v typ k \<noteq> None \<and> val = GStr [] \<and> absent stored k)"

definition planWrite :: "tools \<Rightarrow> Validator \<Rightarrow> string \<Rightarrow> gmap \<Rightarrow> gmap \<Rightarrow> string \<Rightarrow> bool \<Rightarrow> gmap checked" where
  "planWrite tk v typ stored input publicKey privileged =
     (let data0 = mintKeys (tl_ids tk) input; check = ValidateComponentKeys (tl_lib tk) v in
      passed (case readerFor v typ of
          None \<Rightarrow> passed (checkWrite tk v typ stored data0 publicKey privileged check) (\<lambda>_. Pass data0)
        | Some r \<Rightarrow>
            passed (of_result (prepare tk r v typ stored data0)) (\<lambda>data.
            passed (checkWrite tk v typ (fst (componentData tk v typ stored)) data publicKey privileged check) (\<lambda>_.
            of_result (apply_write tk r v typ stored data))))
        (\<lambda>written. Pass (filter (\<lambda>kv. \<not> idle_delete tk v typ stored kv) written)))"

end
