(* ===== verification/McpTools.thy ===== *)
theory McpTools
  imports McpVersions
begin

section \<open>The tools of agents\<close>

text \<open>
  \<open>internal/mcp\<close>: \<open>server.go\<close> and a file per tool. A tool that writes first reads the application, then
  plans an event, then submits it to \<open>AcceptEvent\<close> like any client; between the reading and the
  submission the tables may change, so a tool is given the tables of both moments. The answer is the
  tool's output, field errors that the agent is shown, or an error. Descriptions of the tools and the
  protocol around them belong to the SDK.
\<close>

definition caller_of :: "account option \<Rightarrow> account result" where
  "caller_of u = (case u of Some u \<Rightarrow> Inr u | None \<Rightarrow> Inl (errorf ''not signed in''))"

definition roleOf :: "application \<Rightarrow> string \<Rightarrow> string" where
  "roleOf app publicKey = (case find (\<lambda>m. mb_public_key m = publicKey) (ap_members app) of Some m \<Rightarrow> mb_role m | None \<Rightarrow> [])"

definition privileged_role :: "string \<Rightarrow> bool" where
  "privileged_role role \<longleftrightarrow> role = MemberRoleOwner \<or> role = MemberRoleAdmin"

definition tool_result :: "'a result \<Rightarrow> 'a checked" where
  "tool_result r = of_result (map_err toolError r)"

definition comp_data :: "component \<Rightarrow> gmap" where
  "comp_data c = (case c_data c of Some m \<Rightarrow> m | None \<Rightarrow> [])"

subsection \<open>Reading\<close>

record listedApp =
  la_id :: string
  la_role :: string
  la_name :: string

definition list_apps :: "env \<Rightarrow> account option \<Rightarrow> db \<Rightarrow> listedApp list checked" where
  "list_apps env who d =
     passed (of_result (caller_of who)) (\<lambda>u.
     passed (tool_result (ListApplications env (user.truncate u) d)) (\<lambda>apps.
     Pass (map (\<lambda>a. \<lparr>la_id = ap_id a, la_role = roleOf a (u_public_key u), la_name = ap_name a\<rparr>) apps)))"

record componentView =
  cw_id :: string
  cw_name :: string
  cw_index :: int
  cw_data :: gmap
  cw_states :: "(string \<times> string) list"

record groupView =
  gw_id :: string
  gw_name :: string
  gw_index :: int
  gw_components :: "componentView list"

record memberView =
  mw_name :: string
  mw_role :: string
  mw_public_key :: string

record getAppOut =
  go_id :: string
  go_role :: string
  go_my_key :: string
  go_name :: string
  go_groups :: "groupView list"
  go_members :: "memberView list"

definition view_component :: "tools \<Rightarrow> Validator \<Rightarrow> component \<Rightarrow> componentView" where
  "view_component tk v c = (case componentData tk v (c_name c) (comp_data c) of (data, states) \<Rightarrow>
     \<lparr>cw_id = c_id c, cw_name = c_name c, cw_index = c_index c, cw_data = data, cw_states = states\<rparr>)"

definition view_group :: "tools \<Rightarrow> Validator \<Rightarrow> component_group \<Rightarrow> groupView" where
  "view_group tk v g = \<lparr>gw_id = g_id g, gw_name = g_name g, gw_index = g_index g,
     gw_components = map (view_component tk v) (g_components g)\<rparr>"

definition view_member :: "member \<Rightarrow> memberView" where
  "view_member m = \<lparr>mw_name = (case mb_display_name m of Some n \<Rightarrow> n | None \<Rightarrow> []), mw_role = mb_role m, mw_public_key = mb_public_key m\<rparr>"

definition get_app :: "tools \<Rightarrow> Validator \<Rightarrow> env \<Rightarrow> account option \<Rightarrow> string \<Rightarrow> db \<Rightarrow> getAppOut checked" where
  "get_app tk v env who appID d =
     passed (of_result (caller_of who)) (\<lambda>u.
     passed (tool_result (GetApplication env appID (user.truncate u) d)) (\<lambda>app.
     Pass \<lparr>go_id = ap_id app, go_role = roleOf app (u_public_key u), go_my_key = u_public_key u, go_name = ap_name app,
       go_groups = map (view_group tk v) (ap_groups app), go_members = map view_member (ap_members app)\<rparr>))"

text \<open>All types, or the schema of one.\<close>

definition describe_component :: "Validator \<Rightarrow> account option \<Rightarrow> string \<Rightarrow> (TypeInfo list + string) checked" where
  "describe_component v who typ =
     passed (of_result (caller_of who)) (\<lambda>_.
       if typ = [] then Pass (Inl (Types v))
       else (case SchemaOf v typ of None \<Rightarrow> Fault (errorf ''unknown component type, call describe_component with no type'')
             | Some raw \<Rightarrow> Pass (Inr raw)))"

subsection \<open>Writing the data of a component\<close>

definition find_comp :: "application \<Rightarrow> string \<Rightarrow> component option" where
  "find_comp app cid = find (\<lambda>c. c_id c = cid) (concat (map g_components (ap_groups app)))"

text \<open>The number of ids that minting the keys uses up.\<close>

definition minted :: "gmap \<Rightarrow> nat" where
  "minted input = length (filter (\<lambda>(k, _). CutSuffix k ''*'' \<noteq> None) input)"

record updateComponentIn =
  ui_app :: string
  ui_component :: string
  ui_set :: gmap

definition changed_fields :: "gmap \<Rightarrow> gmap \<Rightarrow> gmap" where
  "changed_fields stored written = map (\<lambda>k. (k, GMap [(''oldValue'', mindex stored k), (''newValue'', mindex written k)])) (sort (map fst written))"

definition agent_event :: "tools \<Rightarrow> nat \<Rightarrow> event_type \<Rightarrow> gmap \<Rightarrow> event" where
  "agent_event tk n typ data =
     \<lparr>ev_id = tl_ids tk n, ev_created_at = tl_millis tk, ev_application_id = [], ev_sequence = 0, ev_type = typ, ev_creator = [],
      ev_version = 1, ev_data = Some data, ev_space_id = []\<rparr>"

definition data_event :: "tools \<Rightarrow> updateComponentIn \<Rightarrow> component \<Rightarrow> gmap \<Rightarrow> event" where
  "data_event tk inp c written =
     agent_event tk (minted (ui_set inp)) EventTypeComponentDataChanged
       [(''version'', GFloat 1), (''applicationId'', GStr (ui_app inp)), (''componentId'', GStr (c_id c)),
        (''componentGroupId'', GStr (c_group_id c)), (''changedFields'', GMap (changed_fields (comp_data c) written))]"

text \<open>The keys to be written and the event that writes them, \<open>None\<close> when there is nothing to write.\<close>

definition plan_update ::
    "tools \<Rightarrow> Validator \<Rightarrow> env \<Rightarrow> account option \<Rightarrow> updateComponentIn \<Rightarrow> db \<Rightarrow> (account \<times> (string list \<times> event) option) checked" where
  "plan_update tk v env who inp d =
     passed (of_result (caller_of who)) (\<lambda>u.
     pass_if (ui_set inp \<noteq> []) (errorf ''set is empty'')
    (passed (tool_result (GetApplication env (ui_app inp) (user.truncate u) d)) (\<lambda>app.
     let role = roleOf app (u_public_key u) in
     pass_if (role \<noteq> MemberRoleViewer) (errorf ''viewers cannot change this app'')
    (case find_comp app (ui_component inp) of
       None \<Rightarrow> Fault (errorf ''component not found'')
     | Some c \<Rightarrow>
         passed (planWrite tk v (c_name c) (comp_data c) (ui_set inp) (u_public_key u) (privileged_role role)) (\<lambda>written.
         Pass (u, if written = [] then None else Some (sort (map fst written), data_event tk inp c written)))))))"

definition submit :: "EventService \<Rightarrow> env \<Rightarrow> account \<Rightarrow> event \<Rightarrow> 'o \<Rightarrow> db \<Rightarrow> db \<times> 'o checked \<times> notice list" where
  "submit s env u ev out d =
     (case AcceptEvent s env ev (user.truncate u) d of
        (d1, Inl e, ns) \<Rightarrow> (d1, Fault (toolError e), ns)
      | (d1, Inr _, ns) \<Rightarrow> (d1, Pass out, ns))"

definition update_component ::
    "tools \<Rightarrow> Validator \<Rightarrow> EventService \<Rightarrow> env \<Rightarrow> env \<Rightarrow> account option \<Rightarrow> updateComponentIn \<Rightarrow> db \<Rightarrow> db
      \<Rightarrow> db \<times> string list checked \<times> notice list" where
  "update_component tk v s env0 env1 who inp d0 d1 =
     (case plan_update tk v env0 who inp d0 of
        Pass (u, None) \<Rightarrow> (d1, Pass [], [])
      | Pass (u, Some (keys, ev)) \<Rightarrow> submit s env1 u ev keys d1
      | Fields what fs \<Rightarrow> (d1, Fields what fs, [])
      | Fault e \<Rightarrow> (d1, Fault e, []))"

subsection \<open>Changing the structure of an application\<close>

record appChange =
  ac_op :: string
  ac_group :: string
  ac_component :: string
  ac_name :: string
  ac_type :: string
  ac_index :: "int option"
  ac_data :: gmap

record workGroup =
  wk_index :: int
  wk_comps :: "string list"

text \<open>
  The maps hold pointers to the groups; ids are unique, so that a component leads to its group by the
  group's id.
\<close>

record work =
  wk_groups :: "(string \<times> workGroup) list"
  wk_comp_group :: "(string \<times> string) list"
  wk_minted :: "string list"
  wk_next :: nat
  wk_ids :: "string option list"
  wk_changes :: "gany list"

definition maxChanges :: nat where "maxChanges = 100"

text \<open>A nil map under \<open>data\<close> is written as \<open>null\<close>.\<close>

definition structureChange :: "string \<Rightarrow> string \<Rightarrow> string \<Rightarrow> gmap option \<Rightarrow> int option \<Rightarrow> gany" where
  "structureChange changeType entityType eid data index =
     GMap [(''changeType'', GStr changeType), (''entityType'', GStr entityType), (''entityId'', GStr eid),
       (''data'', case data of None \<Rightarrow> GNil | Some m \<Rightarrow> GMap m), (''index'', case index of None \<Rightarrow> GNil | Some i \<Rightarrow> GInt i),
       (''changedFields'', GNil)]"

definition group_not_found :: goerr where "group_not_found = errorf ''group not found''"

text \<open>\<open>$N\<close> names the group that the N-th \<open>add_group\<close> of the call added.\<close>

definition work_group :: "work \<Rightarrow> string \<Rightarrow> (string \<times> workGroup) checked" where
  "work_group w ref =
     (let gid = (case ref of
          c # n \<Rightarrow> if c = CHR ''$'' then (case atoi n of Some i \<Rightarrow> if 0 \<le> i \<and> nat i < length (wk_minted w) then Some (wk_minted w ! nat i) else None | None \<Rightarrow> None)
                   else Some ref
        | [] \<Rightarrow> Some ref)
      in case gid of None \<Rightarrow> Fault group_not_found
         | Some gid \<Rightarrow> (case map_of (wk_groups w) gid of None \<Rightarrow> Fault group_not_found | Some g \<Rightarrow> Pass (gid, g)))"

definition work_component :: "work \<Rightarrow> string \<Rightarrow> string checked" where
  "work_component w cid = (case map_of (wk_comp_group w) cid of None \<Rightarrow> Fault (errorf ''component not found'') | Some gid \<Rightarrow> Pass gid)"

definition noted :: "string option \<Rightarrow> gany list \<Rightarrow> work \<Rightarrow> work" where
  "noted newid cs w = w\<lparr>wk_ids := wk_ids w @ [newid], wk_changes := wk_changes w @ cs\<rparr>"

definition add_group :: "tools \<Rightarrow> string \<Rightarrow> appChange \<Rightarrow> work \<Rightarrow> work checked" where
  "add_group tk appID c w =
     pass_if (ac_name c \<noteq> []) (errorf ''name is required'')
     (let gid = tl_ids tk (wk_next w); index = (case ac_index c of Some i \<Rightarrow> i | None \<Rightarrow> int (length (wk_groups w)))
      in Pass (noted (Some gid)
           [structureChange ''component_group_added'' ''component_group'' gid
              (Some [(''id'', GStr gid), (''applicationId'', GStr appID), (''index'', GInt index), (''name'', GStr (ac_name c))]) None]
           (w\<lparr>wk_groups := AList.update gid \<lparr>wk_index = index, wk_comps = []\<rparr> (wk_groups w), wk_minted := wk_minted w @ [gid],
              wk_next := Suc (wk_next w)\<rparr>)))"

definition rename_group :: "appChange \<Rightarrow> work \<Rightarrow> work checked" where
  "rename_group c w =
     passed (work_group w (ac_group c)) (\<lambda>(gid, g).
     pass_if (ac_name c \<noteq> []) (errorf ''name is required'')
       (Pass (noted None [structureChange ''component_group_changed'' ''component_group'' gid
          (Some [(''name'', GStr (ac_name c)), (''index'', GInt (wk_index g))]) None] w)))"

definition move_group :: "appChange \<Rightarrow> work \<Rightarrow> work checked" where
  "move_group c w =
     passed (work_group w (ac_group c)) (\<lambda>(gid, g).
     case ac_index c of None \<Rightarrow> Fault (errorf ''index is required'')
     | Some i \<Rightarrow> Pass (noted None [structureChange ''component_group_reordered'' ''component_group'' gid None (Some i)]
         (w\<lparr>wk_groups := AList.update gid (g\<lparr>wk_index := i\<rparr>) (wk_groups w)\<rparr>)))"

definition remove_group :: "appChange \<Rightarrow> work \<Rightarrow> work checked" where
  "remove_group c w =
     passed (work_group w (ac_group c)) (\<lambda>(gid, g).
     Pass (noted None (structureChange ''component_group_removed'' ''component_group'' gid None None
          # map (\<lambda>cid. structureChange ''component_removed'' ''component'' cid None None) (wk_comps g))
        (w\<lparr>wk_groups := AList.delete gid (wk_groups w),
           wk_comp_group := filter (\<lambda>(cid, _). cid \<notin> set (wk_comps g)) (wk_comp_group w)\<rparr>)))"

definition add_component :: "tools \<Rightarrow> Validator \<Rightarrow> string \<Rightarrow> string \<Rightarrow> appChange \<Rightarrow> work \<Rightarrow> work checked" where
  "add_component tk v appID publicKey c w =
     passed (work_group w (ac_group c)) (\<lambda>(gid, g).
     pass_if (SchemaOf v (ac_type c) \<noteq> None) (errorf ''unknown component type, call describe_component with no type'')
    (let data0 = mint_keys (tl_ids tk) (wk_next w) (ac_data c) [] in
     passed (case readerFor v (ac_type c) of None \<Rightarrow> Pass data0 | Some r \<Rightarrow> of_result (prepare tk r v (ac_type c) [] data0)) (\<lambda>data.
     passed (checkWrite tk v (ac_type c) [] data publicKey True (ValidateComponentData (tl_lib tk) v)) (\<lambda>_.
     let index = (case ac_index c of Some i \<Rightarrow> i | None \<Rightarrow> int (length (wk_comps g)));
         cid = tl_ids tk (wk_next w + minted (ac_data c))
     in Pass (noted (Some cid)
          [structureChange ''component_added'' ''component'' cid
             (Some [(''id'', GStr cid), (''componentGroupId'', GStr gid), (''applicationId'', GStr appID), (''index'', GInt index),
                (''name'', GStr (ac_type c)), (''data'', GMap data)]) None]
          (w\<lparr>wk_groups := AList.update gid (g\<lparr>wk_comps := wk_comps g @ [cid]\<rparr>) (wk_groups w),
             wk_comp_group := AList.update cid gid (wk_comp_group w), wk_next := wk_next w + minted (ac_data c) + 1\<rparr>))))))"

definition move_component :: "appChange \<Rightarrow> work \<Rightarrow> work checked" where
  "move_component c w =
     passed (work_component w (ac_component c)) (\<lambda>_.
     case ac_index c of None \<Rightarrow> Fault (errorf ''index is required'')
     | Some i \<Rightarrow> Pass (noted None [structureChange ''component_reordered'' ''component'' (ac_component c) None (Some i)] w))"

definition remove_component :: "appChange \<Rightarrow> work \<Rightarrow> work checked" where
  "remove_component c w =
     passed (work_component w (ac_component c)) (\<lambda>gid.
     Pass (noted None [structureChange ''component_removed'' ''component'' (ac_component c) None None]
       (w\<lparr>wk_groups := (case map_of (wk_groups w) gid of None \<Rightarrow> wk_groups w
             | Some g \<Rightarrow> AList.update gid (g\<lparr>wk_comps := filter (\<lambda>x. x \<noteq> ac_component c) (wk_comps g)\<rparr>) (wk_groups w)),
          wk_comp_group := AList.delete (ac_component c) (wk_comp_group w)\<rparr>)))"

definition edit_change :: "tools \<Rightarrow> Validator \<Rightarrow> string \<Rightarrow> string \<Rightarrow> appChange \<Rightarrow> work \<Rightarrow> work checked" where
  "edit_change tk v appID publicKey c w =
     pass_if (\<forall>i \<in> set_option (ac_index c). 0 \<le> i) (errorf ''index must be 0 or more'')
     (if ac_op c = ''add_group'' then add_group tk appID c w
      else if ac_op c = ''rename_group'' then rename_group c w
      else if ac_op c = ''move_group'' then move_group c w
      else if ac_op c = ''remove_group'' then remove_group c w
      else if ac_op c = ''add_component'' then add_component tk v appID publicKey c w
      else if ac_op c = ''move_component'' then move_component c w
      else if ac_op c = ''remove_component'' then remove_component c w
      else Fault (errorf ''unknown op''))"

fun edit_changes :: "tools \<Rightarrow> Validator \<Rightarrow> string \<Rightarrow> string \<Rightarrow> appChange list \<Rightarrow> work \<Rightarrow> work checked" where
  "edit_changes tk v appID publicKey [] w = Pass w"
| "edit_changes tk v appID publicKey (c # cs) w = passed (edit_change tk v appID publicKey c w) (edit_changes tk v appID publicKey cs)"

definition work_of :: "application \<Rightarrow> work" where
  "work_of app = \<lparr>wk_groups = map (\<lambda>g. (g_id g, \<lparr>wk_index = g_index g, wk_comps = map c_id (g_components g)\<rparr>)) (ap_groups app),
     wk_comp_group = concat (map (\<lambda>g. map (\<lambda>c. (c_id c, g_id g)) (g_components g)) (ap_groups app)),
     wk_minted = [], wk_next = 0, wk_ids = [], wk_changes = []\<rparr>"

definition plan_edit ::
    "tools \<Rightarrow> Validator \<Rightarrow> env \<Rightarrow> account option \<Rightarrow> string \<Rightarrow> appChange list \<Rightarrow> db \<Rightarrow> (account \<times> string option list \<times> event) checked" where
  "plan_edit tk v env who appID changes d =
     passed (of_result (caller_of who)) (\<lambda>u.
     pass_if (changes \<noteq> []) (errorf ''changes is empty'')
    (pass_if (length changes \<le> maxChanges) (errorf ''too many changes per call'')
    (passed (tool_result (GetApplication env appID (user.truncate u) d)) (\<lambda>app.
     pass_if (privileged_role (roleOf app (u_public_key u))) (errorf ''you are not allowed to change this app'')
    (passed (edit_changes tk v appID (u_public_key u) changes (work_of app)) (\<lambda>w.
     Pass (u, wk_ids w, agent_event tk (wk_next w) EventTypeApplicationAfterEditModeChanged
       [(''version'', GFloat 1), (''applicationId'', GStr appID), (''changes'', GList (wk_changes w))])))))))"

definition edit_app ::
    "tools \<Rightarrow> Validator \<Rightarrow> EventService \<Rightarrow> env \<Rightarrow> env \<Rightarrow> account option \<Rightarrow> string \<Rightarrow> appChange list \<Rightarrow> db \<Rightarrow> db
      \<Rightarrow> db \<times> string option list checked \<times> notice list" where
  "edit_app tk v s env0 env1 who appID changes d0 d1 =
     (case plan_edit tk v env0 who appID changes d0 of
        Pass (u, ids, ev) \<Rightarrow> submit s env1 u ev ids d1
      | Fields what fs \<Rightarrow> (d1, Fields what fs, [])
      | Fault e \<Rightarrow> (d1, Fault e, []))"

end
