(* ===== verification/McpCreate.thy ===== *)
theory McpCreate
  imports McpTools
begin

section \<open>Agents create applications and invitations\<close>

text \<open>
  \<open>internal/mcp/create_app.go\<close> and \<open>create_invite.go\<close>. An application is created from a template
  document, which must not refer to members or files; its ids are minted here.
\<close>

definition maxTemplateDocBytes_mcp :: int where "maxTemplateDocBytes_mcp = 65536"
definition maxAppNameUnits :: nat where "maxAppNameUnits = 64"

abbreviation field_error :: "string \<Rightarrow> string \<Rightarrow> FieldError" where
  "field_error path msg \<equiv> \<lparr>fe_path = path, fe_message = msg\<rparr>"

subsection \<open>The checks of a template\<close>

definition utf16Len :: "string \<Rightarrow> nat" where
  "utf16Len s = sum_list (map (\<lambda>(r, _). if 65536 \<le> r then 2 else 1) (runes s))"

definition docSizeErrors :: "env \<Rightarrow> gmap \<Rightarrow> FieldError list" where
  "docSizeErrors env doc =
     (if json_length env doc > maxTemplateDocBytes_mcp
      then [field_error [] (''template is '' @ format_int (json_length env doc) @ '' bytes, the maximum is 65536'')] else [])"

definition limitErrors :: "gmap \<Rightarrow> FieldError list" where
  "limitErrors doc =
     (let n = utf16Len (TrimSpace (str_or_empty (mindex doc ''name'')))
      in if n < 1 \<or> n > maxAppNameUnits then [field_error ''/name'' ''must be 1 to 64 characters after trimming''] else [])"

definition list_or_nil :: "gany \<Rightarrow> gany list" where
  "list_or_nil v = (case as_list v of Some l \<Rightarrow> l | None \<Rightarrow> [])"

definition isMedia :: "gany \<Rightarrow> bool" where
  "isMedia oo \<longleftrightarrow> (let insert = map_or_nil (mindex (map_or_nil oo) ''insert'') in map_of insert ''image'' \<noteq> None \<or> map_of insert ''video'' \<noteq> None)"

definition indexed :: "'a list \<Rightarrow> (nat \<times> 'a) list" where
  "indexed xs = zip [0..<length xs] xs"

definition mediaErrors :: "string \<Rightarrow> gany \<Rightarrow> FieldError list" where
  "mediaErrors path ops =
     map (\<lambda>(i, _). field_error (path @ ''/'' @ digits_of_nat i @ ''/insert'') ''images and videos cannot be part of a template'')
       (filter (\<lambda>(i, oo). isMedia oo) (indexed (list_or_nil ops)))"

definition err_if :: "bool \<Rightarrow> string \<Rightarrow> string \<Rightarrow> FieldError list" where
  "err_if bad path msg = (if bad then [field_error path msg] else [])"

definition item_errors :: "string \<Rightarrow> gmap \<Rightarrow> string \<Rightarrow> FieldError list" where
  "item_errors base data k =
     (case as_map (mindex data k) of
        None \<Rightarrow> []
      | Some item \<Rightarrow>
          let p = base @ ''/'' @ k
          in err_if (str_or_empty (mindex item ''assigneePublicKey'') \<noteq> []) (p @ ''/assigneePublicKey'') ''a template cannot assign items to members''
             @ err_if (list_or_nil (mindex item ''attachmentIds'') \<noteq> []) (p @ ''/attachmentIds'') ''a template cannot carry attachments''
             @ mediaErrors (p @ ''/detailsDocument'') (mindex item ''detailsDocument''))"

definition marker_errors :: "string \<Rightarrow> nat \<times> gany \<Rightarrow> FieldError list" where
  "marker_errors base im = (case im of (i, mk) \<Rightarrow>
     err_if (str_or_empty (mindex (map_or_nil mk) ''createdBy'') \<noteq> []) (base @ ''/markers/'' @ digits_of_nat i @ ''/createdBy'')
       ''a template cannot name who created a marker'')"

definition referenceErrors :: "string \<Rightarrow> string \<Rightarrow> gmap \<Rightarrow> FieldError list" where
  "referenceErrors typeName base data =
     (if typeName = ''Checklist'' then
        concat (map (item_errors base data) (sort (filter (\<lambda>k. take 5 k = ''item_'') (map fst data))))
      else if typeName = ''Map'' then
        concat (map (marker_errors base) (indexed (list_or_nil (mindex data ''markers''))))
        @ err_if (list_or_nil (mindex data ''otherUsers'') \<noteq> []) (base @ ''/otherUsers'') ''a template cannot carry live locations''
      else if typeName = ''Files'' then
        err_if (list_or_nil (mindex data ''items'') \<noteq> []) (base @ ''/items'') ''a template cannot carry files''
      else if typeName = ''Text'' then
        err_if (mindex data ''document'' \<noteq> GNil \<and> as_list (mindex data ''document'') = None) (base @ ''/document'')
          ''templates must use a Quill delta list for document''
        @ mediaErrors (base @ ''/document'') (mindex data ''document'')
      else [])"

definition templateReferenceErrors :: "gmap \<Rightarrow> FieldError list" where
  "templateReferenceErrors doc =
     concat (map (\<lambda>(gi, g).
       concat (map (\<lambda>(ci, c).
           let comp = map_or_nil c
           in referenceErrors (str_or_empty (mindex comp ''type''))
                (''/groups/'' @ digits_of_nat gi @ ''/components/'' @ digits_of_nat ci @ ''/data'') (map_or_nil (mindex comp ''data'')))
         (indexed (list_or_nil (mindex (map_or_nil g) ''components'')))))
       (indexed (list_or_nil (mindex doc ''groups''))))"

subsection \<open>The application it describes\<close>

definition jsonInt :: "gany \<Rightarrow> int" where
  "jsonInt v = (case v of GFloat q \<Rightarrow> int_of_float q | _ \<Rightarrow> 0)"

fun build_components :: "(nat \<Rightarrow> string) \<Rightarrow> string \<Rightarrow> string \<Rightarrow> gany list \<Rightarrow> nat \<Rightarrow> component list \<times> nat" where
  "build_components ids appID gid [] n = ([], n)"
| "build_components ids appID gid (c # cs) n =
     (let m = map_or_nil c; (rest, n1) = build_components ids appID gid cs (Suc n)
      in (\<lparr>c_id = ids n, c_group_id = gid, c_application_id = appID, c_name = str_or_empty (mindex m ''type''),
           c_data = as_map (mindex m ''data''), c_index = jsonInt (mindex m ''index'')\<rparr> # rest, n1))"

fun build_groups :: "(nat \<Rightarrow> string) \<Rightarrow> string \<Rightarrow> gany list \<Rightarrow> nat \<Rightarrow> component_group list \<times> nat" where
  "build_groups ids appID [] n = ([], n)"
| "build_groups ids appID (g # gs) n =
     (let m = map_or_nil g; (cs, n1) = build_components ids appID (ids n) (list_or_nil (mindex m ''components'')) (Suc n);
          (rest, n2) = build_groups ids appID gs n1
      in (\<lparr>g_id = ids n, g_application_id = appID, g_name = str_or_empty (mindex m ''name''), g_index = jsonInt (mindex m ''index''),
           g_components = cs\<rparr> # rest, n2))"

definition buildApp :: "(nat \<Rightarrow> string) \<Rightarrow> gmap \<Rightarrow> string \<Rightarrow> application \<times> nat" where
  "buildApp ids doc ownerKey =
     (let appID = ids 0; (groups, n) = build_groups ids appID (list_or_nil (mindex doc ''groups'')) 2
      in (\<lparr>ap_id = appID, ap_name = TrimSpace (str_or_empty (mindex doc ''name'')), ap_icon = as_str (mindex doc ''icon''),
           ap_space_public_key = None, ap_space_id = None, ap_created_at = 0, ap_updated_at = 0, ap_groups = groups,
           ap_members = [\<lparr>mb_id = ids 1, mb_application_id = appID, mb_role = MemberRoleOwner, mb_public_key = ownerKey,
              mb_display_name = None, mb_avatar = None, mb_expires_at = None\<rparr>],
           ap_last_sequence = None, ap_agent_read_enabled = False\<rparr>, n))"

record createAppOut =
  co_id :: string
  co_name :: string
  co_warning :: bool      \<comment> \<open>the application exists, but announcing it failed\<close>

definition refuse_if :: "FieldError list \<Rightarrow> string \<Rightarrow> 'a checked \<Rightarrow> 'a checked" where
  "refuse_if fs what r = (if fs = [] then r else Fields what fs)"

text \<open>
  The registration and the announcement are two transactions, each with an environment of its own.
\<close>

definition create_app ::
    "tools \<Rightarrow> Validator \<Rightarrow> EventService \<Rightarrow> string \<Rightarrow> int \<Rightarrow> env \<Rightarrow> env \<Rightarrow> account option \<Rightarrow> gmap \<Rightarrow> db
      \<Rightarrow> db \<times> createAppOut checked \<times> notice list" where
  "create_app tk v s spaceKey maxApps env0 env1 who doc d =
     (case passed (of_result (caller_of who)) (\<lambda>u.
           refuse_if (docSizeErrors env0 doc) ''template is too large''
          (passed (validated (ValidateTemplateDoc (tl_lib tk) v doc) ''invalid template'') (\<lambda>_.
           refuse_if (limitErrors doc) ''invalid template''
          (refuse_if (templateReferenceErrors doc) ''invalid template'' (Pass u)))))
      of Fields what fs \<Rightarrow> (d, Fields what fs, [])
       | Fault e \<Rightarrow> (d, Fault e, [])
       | Pass u \<Rightarrow>
           (case buildApp (tl_ids tk) doc (u_public_key u) of (app, n) \<Rightarrow>
              (case RegisterApplication env0 spaceKey maxApps (Some (user.truncate u)) app d of
                 (d1, Inl e) \<Rightarrow> (d1, if errors_is e ErrAppLimitReached then Fields ''you have reached your app limit'' [] else Fault (toolError e), [])
               | (d1, Inr registered) \<Rightarrow>
                   (case AcceptEvent s env1
                      (agent_event tk n EventTypeApplicationCreated
                        [(''version'', GFloat 1), (''userPublicKey'', GStr (u_public_key u)), (''applicationId'', GStr (ap_id registered)),
                         (''applicationName'', GStr (ap_name registered))]) (user.truncate u) d1 of
                      (d2, r, ns) \<Rightarrow>
                        (d2, Pass \<lparr>co_id = ap_id registered, co_name = ap_name registered,
                                   co_warning = (case r of Inl _ \<Rightarrow> True | Inr _ \<Rightarrow> False)\<rparr>, ns)))))"

subsection \<open>Invitations\<close>

record createInviteIn =
  ci_app :: string
  ci_role :: string
  ci_hours :: "int option"
  ci_max_uses :: "int option"

definition create_invite ::
    "InvitationService \<Rightarrow> env \<Rightarrow> host \<Rightarrow> account option \<Rightarrow> createInviteIn \<Rightarrow> (string \<times> int option) act" where
  "create_invite s env h who inp =
     andThen (lift (caller_of who)) (\<lambda>u.
     andThen (require (ci_role inp = [] \<or> ci_role inp = MemberRoleMember \<or> ci_role inp = MemberRoleViewer)
                (errorf ''agents can only create member or viewer invites'')) (\<lambda>_.
     attempt (CreateInvitation s env h (Some u)
        \<lparr>io_application_id = ci_app inp, io_role = ci_role inp, io_max_uses = ci_max_uses inp, io_expires_in_hours = ci_hours inp,
         io_space_url = [], io_grants_membership = None, io_grants_identity = None, io_grants_space_use = None,
         io_duration_hours = None, io_member_keys = []\<rparr>)
       (\<lambda>r. case r of Inl e \<Rightarrow> fail (toolError e) | Inr made \<Rightarrow> ret (ir_url made, ir_expires_at made))))"

end
