(* ===== verification/McpDemo.thy ===== *)
theory McpDemo
  imports McpCreate TokenProps
begin

section \<open>A type with entries, and an application that uses it\<close>

text \<open>
  The concrete validator, application and agent at which the properties of the tools are applied: entries
  under \<open>item\<close> are objects, those under \<open>note\<close> encoded ones, both in version 3 of their type.
\<close>

text \<open>What is read of a key of a row.\<close>

definition read_key :: "component \<Rightarrow> string \<Rightarrow> gany option" where
  "read_key c k = map_of (json_rt (comp_data c)) k"

definition demo_items :: rule_spec where
  "demo_items = \<lparr>rl_re = Some ''item'', rl_merge = ''per-entry'', rl_access = no_access\<lparr>xa_level := AccessMember\<rparr>, rl_encoded = False,
     rl_key = ''item'', rl_notify = GNil\<rparr>"

definition demo_notes :: rule_spec where
  "demo_notes = demo_items\<lparr>rl_re := Some ''note'', rl_encoded := True, rl_key := ''note''\<rparr>"

definition demo_typed :: Validator where
  "demo_typed = (empty_validator [])\<lparr>vd_components := [(''Note'', ''n'')], vd_rules := [(''Note'', \<lparr>rs_props = [], rs_patterns = [demo_items, demo_notes]\<rparr>)],
     vd_versions := [(''Note'', \<lparr>tv_lo = 1, tv_current = 3, tv_steps = demo_steps\<rparr>)]\<rparr>"

definition demo_tools :: tools where
  "demo_tools = \<lparr>tl_lib = \<lparr>sl_regexps = demo_re, sl_submatch = (\<lambda>_ _. None), sl_unmarshal = (\<lambda>_. Inr GNil),
       sl_decode = (\<lambda>s. if s = ''{a}'' then Inr (GMap [(''a'', GNum ''7'')]) else if s = ''{b}'' then Inr (GMap [(''a'', GNum ''7''), (''v'', GNum ''3'')]) else Inl (errorf ''no entry'')),
       sl_add = (\<lambda>_ _ _. None), sl_compile = (\<lambda>_ _. None), sl_validate = (\<lambda>_ _ _. Accepted), sl_ranges = (\<lambda>_. Inr [])\<rparr>,
     tl_encode = (\<lambda>x. Inr ''{b}''), tl_ids = (\<lambda>n. if n = 0 then ''e0'' else ''e1''), tl_millis = 1700000000000\<rparr>"

definition demo_items_db :: db where
  "demo_items_db = demo_db\<lparr>t_comps := [demo_comp\<lparr>c_data := Some [(''item_1'', GMap [(''a'', GFloat 7)]), (''note_1'', GStr ''{a}'')]\<rparr>]\<rparr>"

lemma demo_items_ok: "db_ok demo_items_db"
  by (simp add: table_ok_defs demo_items_db_def demo_defs valid_role_def IsGrantable_def)

definition demo_agent :: account where
  "demo_agent = (account_of_row (new_user_row ''k'' ''Kim'' RoleGuest 1600000000))\<lparr>u_agent := True\<rparr>"

abbreviation demo_reader :: reader where "demo_reader \<equiv> \<lparr>rd_lo = 1, rd_cur = 3, rd_steps = demo_steps\<rparr>"

definition demo_edited :: gmap where "demo_edited = [(''b'', GList [GFloat 8]), (''v'', GFloat 3)]"

lemma demo_reading: "readerFor demo_typed ''Note'' = Some demo_reader" "EntryOf (tl_lib demo_tools) demo_typed ''Note'' ''item_1'' = Some False"
    "EntryOf (tl_lib demo_tools) demo_typed ''Note'' ''note_1'' = Some True"
  by code_simp+

lemma demo_regexps [simp]: "sl_regexps (tl_lib demo_tools) = demo_re"
  by (simp add: demo_tools_def)

lemma demo_item_migrated:
  "migrate demo_re demo_steps ''item_1'' [(''a'', GFloat 7)] 3 = Inr ([(''b'', GList [GFloat 7]), (''v'', GNum ''3'')], False)"
  by code_simp

lemma demo_three: "json_norm (GNum ''3'') = GFloat 3" "float_range (GNum ''3'')"
proof -
  have r: "rat_of_string ''3'' = Some 3" by code_simp
  show "json_norm (GNum ''3'') = GFloat 3" using f64_of_int [of 3] by (simp add: r)
  show "float_range (GNum ''3'')" by (subst float_range.simps) (simp add: r)
qed

lemma float_range_simps: "float_range (GFloat q)" "float_range (GList l) = list_all float_range l" "float_range (GMap m) = list_all (\<lambda>(k, x). float_range x) m"
  by (subst float_range.simps, simp)+

lemma demo_item_shown: "classify demo_tools demo_reader ''item_1'' [(''a'', GFloat 7)] = ([(''b'', GList [GFloat 7]), (''v'', GFloat 3)], stateFull)"
  using demo_three by (simp add: classify_def Version_def Migrate_def checkArg_def maxSafe_def demo_item_migrated plain_def float_range_simps map_or_nil_def)

lemma demo_item_prepared: "prepare_key demo_tools demo_reader demo_typed ''Note'' [(''item_1'', GMap [(''a'', GFloat 7)]), (''note_1'', GStr ''{a}'')] ''item_1''
    (GMap demo_edited) = Inr (GMap demo_edited)"
proof -
  have "Version demo_edited = Inr 3" by code_simp
  then show ?thesis
    by (simp add: prepare_key_def demo_reading stored_state_def absent_def entryMap_def demo_item_shown mindex_def shape_def Let_def result_simps rguard_def map_err_def)
       (simp add: demo_edited_def)
qed

lemma demo_item_merged: "WriteBack demo_re demo_steps ''item_1'' (GMap [(''a'', GFloat 7)]) 3 demo_edited = Inr (GMap [(''b'', GList [GFloat 8]), (''v'', GNum ''3'')], True)"
  by code_simp

definition demo_stored :: gmap where
  "demo_stored = [(''item_1'', GMap [(''a'', GFloat 7)]), (''note_1'', GStr ''{a}'')]"

lemma demo_item_applied: "apply_key demo_tools demo_reader demo_typed ''Note'' demo_stored ''item_1'' (GMap demo_edited) = Inr (Some (GMap demo_edited))"
proof -
  have "plain (GMap [(''b'', GList [GFloat 8]), (''v'', GNum ''3'')]) = GMap demo_edited"
    using demo_three by (simp add: plain_def float_range_simps demo_edited_def)
  then show ?thesis by (simp add: apply_key_def demo_reading absent_def entryMap_def mindex_def demo_item_merged demo_stored_def)
qed

lemma demo_write_checked: "checkWrite demo_tools demo_typed ''Note'' old [(''item_1'', GMap m)] ''k'' False (ValidateComponentKeys (tl_lib demo_tools) demo_typed) = Pass [''item_1'']"
  by (simp add: checkWrite_def of_result_def AccessOf_def resolveRule_def rule_matches_def matches_def demo_re_def demo_typed_def empty_validator_def
        demo_items_def no_access_def check_key_def pass_if_def OwnKey_def gateFlags_def Let_def author_ok_def validated_def ValidateComponentKeys_def
        validate_sch_def demo_tools_def check_content_def)

lemma demo_planned: "planWrite demo_tools demo_typed ''Note'' demo_stored [(''item_1'', GMap demo_edited)] ''k'' False = Pass [(''item_1'', GMap demo_edited)]"
proof -
  have "prepare demo_tools demo_reader demo_typed ''Note'' demo_stored [(''item_1'', GMap demo_edited)] = Inr [(''item_1'', GMap demo_edited)]"
    using demo_item_prepared by (simp add: prepare_def demo_stored_def mindex_def)
  moreover have "apply_write demo_tools demo_reader demo_typed ''Note'' demo_stored [(''item_1'', GMap demo_edited)] = Inr [(''item_1'', GMap demo_edited)]"
    by (simp add: apply_write_def mindex_def demo_item_applied)
  ultimately show ?thesis
    using demo_write_checked by (simp add: planWrite_def mintKeys_def CutSuffix_def demo_reading of_result_def idle_delete_def Let_def)
qed

lemma demo_app_read:
  "\<exists>app c0. GetApplication demo_env ''a'' (user.truncate demo_agent) demo_items_db = Inr app \<and> find_comp app ''c'' = Some c0
    \<and> roleOf app ''k'' = MemberRoleMember \<and> c0 = demo_comp\<lparr>c_data := Some demo_stored\<rparr>"
proof -
  have "(case GetApplication demo_env ''a'' (user.truncate demo_agent) demo_items_db of Inl _ \<Rightarrow> False
      | Inr app \<Rightarrow> find_comp app ''c'' = Some (demo_comp\<lparr>c_data := Some demo_stored\<rparr>) \<and> roleOf app ''k'' = MemberRoleMember)" by code_simp
  then show ?thesis by (auto split: sum.splits)
qed

lemma demo_event_accepted:
  "map (\<lambda>c. (c_id c, read_key c ''item_1'')) (t_comps (fst (AcceptEvent demo_service demo_env
      (agent_event demo_tools 0 EventTypeComponentDataChanged
        [(''version'', GFloat 1), (''applicationId'', GStr ''a''), (''componentId'', GStr ''c''), (''componentGroupId'', GStr ''g''),
         (''changedFields'', GMap [(''item_1'', GMap [(''oldValue'', GMap [(''a'', GFloat 7)]), (''newValue'', GMap demo_edited)])])])
      (user.truncate demo_agent) demo_items_db))) = [(''c'', Some (GMap demo_edited))]"
  by code_simp

text \<open>The entry as it is shown, sent back.\<close>

definition demo_echo :: gmap where "demo_echo = [(''b'', GList [GFloat 7]), (''v'', GFloat 3)]"

lemma demo_echo_prepared: "prepare_key demo_tools demo_reader demo_typed ''Note'' demo_stored ''item_1'' (GMap demo_echo) = Inr (GMap demo_echo)"
proof -
  have "Version demo_echo = Inr 3" by code_simp
  then show ?thesis
    by (simp add: prepare_key_def demo_reading stored_state_def absent_def entryMap_def demo_item_shown mindex_def shape_def Let_def result_simps rguard_def map_err_def
        demo_stored_def)
       (simp add: demo_echo_def)
qed

lemma demo_echo_applied: "apply_key demo_tools demo_reader demo_typed ''Note'' demo_stored ''item_1'' (GMap demo_echo) = Inr None"
proof -
  have "WriteBack demo_re demo_steps ''item_1'' (GMap [(''a'', GFloat 7)]) 3 demo_echo = Inr (GMap [(''a'', GFloat 7)], False)" by code_simp
  then show ?thesis by (simp add: apply_key_def demo_reading absent_def entryMap_def mindex_def demo_stored_def)
qed

lemma demo_echo_planned: "planWrite demo_tools demo_typed ''Note'' demo_stored [(''item_1'', GMap demo_echo)] ''k'' False = Pass []"
proof -
  have "prepare demo_tools demo_reader demo_typed ''Note'' demo_stored [(''item_1'', GMap demo_echo)] = Inr [(''item_1'', GMap demo_echo)]"
    using demo_echo_prepared by (simp add: prepare_def mindex_def)
  moreover have "apply_write demo_tools demo_reader demo_typed ''Note'' demo_stored [(''item_1'', GMap demo_echo)] = Inr []"
    by (simp add: apply_write_def mindex_def demo_echo_applied)
  ultimately show ?thesis
    using demo_write_checked by (simp add: planWrite_def mintKeys_def CutSuffix_def demo_reading of_result_def Let_def)
qed

lemma demo_echo_shown: "shown_key demo_tools demo_typed ''Note'' demo_reader ''item_1'' (GMap [(''a'', GFloat 7)]) = (GMap demo_echo, stateFull)"
  by (simp add: shown_key_def entryRead_def demo_reading demo_item_shown demo_echo_def entryMap_def)

lemma demo_item_agrees:
  "agree [(''b'', GList [GFloat 7]), (''v'', GNum ''3'')] (json_rt [(''b'', GList [GFloat 7]), (''v'', GNum ''3'')])"
  using demo_three by (simp add: json_rt_def agree_def)

end
