(* ===== verification/McpProps.thy ===== *)
theory McpProps
  imports McpDemo WriteBackLaws
begin

section \<open>What agents can change, and what they cannot break\<close>

text \<open>
  The tool that writes data, from the reading of the application to the row that is stored: every key it
  changes is one that the access rules of the type let the account write, and an entry that the space
  does not fully understand stays as it is. Writing back what was shown writes nothing.
\<close>

subsection \<open>A planned write\<close>

lemma passed_Pass: "passed x f = Pass y \<longleftrightarrow> (\<exists>z. x = Pass z \<and> f z = Pass y)"
  by (cases x) auto

lemma of_result_Pass: "of_result r = Pass x \<longleftrightarrow> r = Inr x"
  by (auto simp: of_result_def split: sum.splits)

lemma pass_if_Pass: "pass_if ok e r = Pass x \<longleftrightarrow> ok \<and> r = Pass x"
  by (auto simp: pass_if_def)

lemma tool_result_Pass: "tool_result r = Pass x \<longleftrightarrow> r = Inr x"
  by (cases r) (auto simp: tool_result_def of_result_def map_err_def)

lemmas checked_simps = passed_Pass of_result_Pass pass_if_Pass tool_result_Pass

lemma check_all_Pass: "check_all f xs = Pass () \<longleftrightarrow> (\<forall>x \<in> set xs. f x = Pass ())"
  by (induction xs) (auto simp: passed_Pass)

lemma key_access_Inr:
  "key_access tk v typ ks = Inr as \<Longrightarrow> map fst as = ks \<and> (\<forall>(k, acc) \<in> set as. AccessOf (tl_lib tk) v typ k = Some acc)"
  by (induction ks arbitrary: as) (auto simp: result_simps split: option.splits)

text \<open>What a passed check says of a key that is written.\<close>

definition may_write :: "tools \<Rightarrow> Validator \<Rightarrow> string \<Rightarrow> string \<Rightarrow> bool \<Rightarrow> string \<Rightarrow> bool" where
  "may_write tk v typ publicKey privileged k \<longleftrightarrow>
     (\<exists>acc. AccessOf (tl_lib tk) v typ k = Some acc \<and> xa_level acc \<noteq> AccessNone
        \<and> (xa_level acc = AccessManage \<longrightarrow> privileged) \<and> OwnKey (tl_lib tk) acc k publicKey)"

lemma checkWrite_may:
  assumes "checkWrite tk v typ old data publicKey privileged f = Pass ks" and "map_of data k \<noteq> None"
  shows "may_write tk v typ publicKey privileged k"
proof -
  obtain as where as: "key_access tk v typ (sort (map fst data)) = Inr as" "\<forall>x \<in> set as. check_key tk old data publicKey privileged x = Pass ()"
    using assms(1) by (auto simp: checkWrite_def checked_simps check_all_Pass)
  have "k \<in> fst ` set as" using key_access_Inr [OF as(1)] assms(2) by (metis domIff dom_map_of_conv_image_fst list.set_map set_sort)
  then obtain acc where acc: "(k, acc) \<in> set as" by auto
  then have "AccessOf (tl_lib tk) v typ k = Some acc" using key_access_Inr [OF as(1)] by auto
  moreover have "check_key tk old data publicKey privileged (k, acc) = Pass ()" using as(2) acc by blast
  ultimately show ?thesis by (auto simp: may_write_def check_key_def checked_simps Let_def)
qed

text \<open>The folds over the keys, one key at a time.\<close>

lemma fold_put_keys:
  assumes "fold_res (\<lambda>k out. rbind (f k) (\<lambda>x. Inr (mput k x out))) ks m = Inr out"
  shows "(\<forall>k \<in> set ks. \<exists>x. f k = Inr x \<and> map_of out k = Some x) \<and> (\<forall>k. k \<notin> set ks \<longrightarrow> map_of out k = map_of m k)"
  using assms
proof (induction ks arbitrary: m)
  case (Cons k ks)
  then obtain x where x: "f k = Inr x" "fold_res (\<lambda>k out. rbind (f k) (\<lambda>x. Inr (mput k x out))) ks (mput k x m) = Inr out"
    by (auto simp: result_simps)
  show ?case using Cons.IH [OF x(2)] x(1) by (cases "k \<in> set ks") auto
qed simp

lemma fold_apply_keys:
  assumes "fold_res (\<lambda>k out. rbind (f k) (\<lambda>x. Inr (case x of None \<Rightarrow> out | Some y \<Rightarrow> mput k y out))) ks m = Inr out"
    and "distinct ks"
  shows "(\<forall>k \<in> set ks. \<exists>x. f k = Inr x \<and> map_of out k = (case x of None \<Rightarrow> map_of m k | Some y \<Rightarrow> Some y))
    \<and> (\<forall>k. k \<notin> set ks \<longrightarrow> map_of out k = map_of m k)"
  using assms
proof (induction ks arbitrary: m)
  case (Cons k ks)
  then obtain x where x: "f k = Inr x"
      "fold_res (\<lambda>k out. rbind (f k) (\<lambda>x. Inr (case x of None \<Rightarrow> out | Some y \<Rightarrow> mput k y out))) ks (case x of None \<Rightarrow> m | Some y \<Rightarrow> mput k y m) = Inr out"
    by (auto simp: result_simps)
  have IH: "(\<forall>j \<in> set ks. \<exists>z. f j = Inr z \<and> map_of out j = (case z of None \<Rightarrow> map_of (case x of None \<Rightarrow> m | Some y \<Rightarrow> mput k y m) j | Some y \<Rightarrow> Some y))
    \<and> (\<forall>j. j \<notin> set ks \<longrightarrow> map_of out j = map_of (case x of None \<Rightarrow> m | Some y \<Rightarrow> mput k y m) j)"
    using Cons.IH [OF x(2)] Cons.prems(2) by simp
  define m1 where "m1 = (case x of None \<Rightarrow> m | Some y \<Rightarrow> mput k y m)"
  have m1: "j \<noteq> k \<Longrightarrow> map_of m1 j = map_of m j" "map_of m1 k = (case x of None \<Rightarrow> map_of m k | Some y \<Rightarrow> Some y)" for j
    by (simp_all add: m1_def split: option.split)
  note IH' = IH [folded m1_def]
  have out: "map_of out k = map_of m1 k" using IH' Cons.prems(2) by simp
  show ?case
  proof (intro conjI ballI allI impI)
    fix j
    assume "j \<in> set (k # ks)"
    then show "\<exists>z. f j = Inr z \<and> map_of out j = (case z of None \<Rightarrow> map_of m j | Some y \<Rightarrow> Some y)"
    proof (cases "j = k")
      case False
      with \<open>j \<in> set (k # ks)\<close> obtain z where "f j = Inr z" "map_of out j = (case z of None \<Rightarrow> map_of m1 j | Some y \<Rightarrow> Some y)"
        using IH' by auto
      then show ?thesis using m1(1) [OF False] by (cases z) auto
    next
      case True
      then show ?thesis using x(1) out m1(2) by auto
    qed
  next
    fix j
    assume "j \<notin> set (k # ks)"
    then show "map_of out j = map_of m j" using IH' m1(1) [of j] by simp
  qed
qed simp

lemma prepare_keys:
  assumes "prepare tk r v typ stored data0 = Inr data" and "distinct (map fst data0)"
  shows "map_of data k = None \<longleftrightarrow> map_of data0 k = None"
    "map_of data0 k = Some val \<Longrightarrow> \<exists>x. prepare_key tk r v typ stored k val = Inr x \<and> map_of data k = Some x"
proof -
  note p = fold_put_keys [OF assms(1) [unfolded prepare_def]]
  have dom: "k \<in> set (map fst data0) \<longleftrightarrow> map_of data0 k \<noteq> None" for k by (metis domIff dom_map_of_conv_image_fst list.set_map)
  show "map_of data k = None \<longleftrightarrow> map_of data0 k = None" using p dom [of k] by (cases "map_of data0 k") force+
  show "\<exists>x. prepare_key tk r v typ stored k val = Inr x \<and> map_of data k = Some x" if "map_of data0 k = Some val"
    using p dom [of k] that by (auto simp: mindex_def)
qed

lemma mint_keys_distinct: "distinct (map fst m) \<Longrightarrow> distinct (map fst (mint_keys ids n xs m))"
  by (induction xs arbitrary: n m) (auto simp: distinct_update split: option.splits)

lemma update_new: "k \<notin> fst ` set m \<Longrightarrow> mput k x m = m @ [(k, x)]"
  by (induction m) auto

lemma mint_keys_same: "distinct (map fst input) \<Longrightarrow> minted input = 0 \<Longrightarrow> mintKeys ids input = input"
proof -
  have "mint_keys ids n xs m = m @ xs" if "distinct (map fst (m @ xs))" "minted xs = 0" for n xs m
    using that by (induction xs arbitrary: m) (auto simp: minted_def update_new split: option.splits)
  then show "distinct (map fst input) \<Longrightarrow> minted input = 0 \<Longrightarrow> mintKeys ids input = input" by (simp add: mintKeys_def)
qed

lemma apply_keys:
  assumes "apply_write tk r v typ stored data = Inr written" and "distinct (map fst data)"
  shows "map_of written k = Some y \<Longrightarrow> \<exists>val. map_of data k = Some val \<and> apply_key tk r v typ stored k val = Inr (Some y)"
    "map_of data k = Some val \<Longrightarrow> apply_key tk r v typ stored k val = Inr None \<Longrightarrow> map_of written k = None"
proof -
  have ds: "distinct (sort (map fst data))" using assms(2) by simp
  note p = fold_apply_keys [OF assms(1) [unfolded apply_write_def] ds]
  have dom: "k \<in> set (sort (map fst data)) \<longleftrightarrow> map_of data k \<noteq> None" for k by (metis domIff dom_map_of_conv_image_fst list.set_map set_sort)
  have in1: "\<exists>x. apply_key tk r v typ stored k (mindex data k) = Inr x \<and> map_of written k = x" if "map_of data k \<noteq> None"
    using conjunct1 [OF p, rule_format, OF dom [THEN iffD2, OF that]] by (auto split: option.splits)
  have out1: "map_of written k = None" if "map_of data k = None"
    using conjunct2 [OF p, rule_format, of k] dom [of k] that by simp
  show "\<exists>val. map_of data k = Some val \<and> apply_key tk r v typ stored k val = Inr (Some y)" if "map_of written k = Some y"
    using in1 out1 that by (cases "map_of data k") (simp_all add: mindex_def)
  show "map_of written k = None" if "map_of data k = Some val" "apply_key tk r v typ stored k val = Inr None"
    using in1 that by (simp add: mindex_def)
qed

text \<open>
  What a passed plan says of a key that will be written: it may be, and an entry that is shown in any
  other state than \<open>full\<close> is only ever deleted, and only when it was read-only.
\<close>

definition entry_guarded :: "tools \<Rightarrow> Validator \<Rightarrow> string \<Rightarrow> gmap \<Rightarrow> string \<Rightarrow> gany \<Rightarrow> bool" where
  "entry_guarded tk v typ stored k val \<longleftrightarrow>
     (\<forall>r encoded. readerFor v typ = Some r \<longrightarrow> EntryOf (tl_lib tk) v typ k = Some encoded \<longrightarrow> \<not> absent stored k \<longrightarrow>
        fst (stored_state tk r encoded stored k) = stateFull
        \<or> fst (stored_state tk r encoded stored k) = stateReadOnly \<and> val = GStr [])"

lemma map_of_filtered: "distinct (map fst m) \<Longrightarrow> map_of (filter P m) k = Some y \<Longrightarrow> map_of m k = Some y"
  by (meson distinct_map_filter filter_is_subset map_of_SomeD map_of_is_SomeI subsetD)

lemma fold_put_distinct:
  "fold_res (\<lambda>k out. rbind (f k) (\<lambda>x. Inr (mput k x out))) ks m = Inr out \<Longrightarrow> distinct (map fst m) \<Longrightarrow> distinct (map fst out)"
  by (induction ks arbitrary: m) (auto simp: result_simps distinct_update)

lemma fold_apply_distinct:
  "fold_res (\<lambda>k out. rbind (f k) (\<lambda>x. Inr (case x of None \<Rightarrow> out | Some y \<Rightarrow> mput k y out))) ks [] = Inr out \<Longrightarrow> distinct (map fst out)"
proof -
  have "fold_res (\<lambda>k out. rbind (f k) (\<lambda>x. Inr (case x of None \<Rightarrow> out | Some y \<Rightarrow> mput k y out))) ks m = Inr out \<Longrightarrow> distinct (map fst m)
      \<Longrightarrow> distinct (map fst out)" for m
    by (induction ks arbitrary: m) (fastforce simp: result_simps distinct_update split: option.splits)+
  then show "fold_res (\<lambda>k out. rbind (f k) (\<lambda>x. Inr (case x of None \<Rightarrow> out | Some y \<Rightarrow> mput k y out))) ks [] = Inr out \<Longrightarrow> distinct (map fst out)"
    by simp
qed

lemma stored_states: "fst (stored_state tk r encoded stored k) \<in> {stateFull, stateReadOnly, stateNeedsUpdate, stateBadVersion}"
  by (auto simp: stored_state_def classify_def split: option.splits sum.splits)

lemma prepared_guarded:
  assumes "readerFor v typ = Some r" and "prepare_key tk r v typ stored k val0 = Inr val"
    and "apply_key tk r v typ stored k val = Inr (Some y)"
  shows "entry_guarded tk v typ stored k y"
  unfolding entry_guarded_def
proof (intro allI impI)
  fix r1 encoded
  assume r1: "readerFor v typ = Some r1" and e: "EntryOf (tl_lib tk) v typ k = Some encoded"
  obtain state inject where st: "stored_state tk r encoded stored k = (state, inject)" by fastforce
  have four: "state \<in> {stateFull, stateReadOnly, stateNeedsUpdate, stateBadVersion}" using stored_states [of tk r encoded stored k] st by simp
  have del: "state \<noteq> stateNeedsUpdate \<and> state \<noteq> stateBadVersion \<and> val = GStr []" if "val0 = GStr []"
    using assms(2) that by (simp add: prepare_key_def e st Let_def result_simps)
  have edit: "state \<noteq> stateNeedsUpdate \<and> state \<noteq> stateBadVersion \<and> state \<noteq> stateReadOnly" if "val0 \<noteq> GStr []"
    using assms(2) that by (simp add: prepare_key_def e st Let_def result_simps)
  have "val = GStr [] \<Longrightarrow> y = GStr []" using assms(3) by (simp add: apply_key_def e)
  then show "fst (stored_state tk r1 encoded stored k) = stateFull \<or> fst (stored_state tk r1 encoded stored k) = stateReadOnly \<and> y = GStr []"
    using del edit four assms(1) r1 st by (cases "val0 = GStr []") auto
qed

lemma planned_key:
  assumes "planWrite tk v typ stored input publicKey privileged = Pass written" and "map_of written k = Some y"
  shows "may_write tk v typ publicKey privileged k \<and> entry_guarded tk v typ stored k y"
proof -
  let ?data0 = "mintKeys (tl_ids tk) input"
  have d0: "distinct (map fst ?data0)" by (simp add: mintKeys_def mint_keys_distinct)
  show ?thesis
  proof (cases "readerFor v typ")
    case None
    then obtain ks where w: "written = filter (\<lambda>kv. \<not> idle_delete tk v typ stored kv) ?data0"
        and c: "checkWrite tk v typ stored ?data0 publicKey privileged (ValidateComponentKeys (tl_lib tk) v) = Pass ks"
      using assms(1) by (auto simp: planWrite_def Let_def checked_simps)
    have "map_of ?data0 k \<noteq> None" using map_of_filtered [OF d0] assms(2) w by auto
    then show ?thesis using checkWrite_may [OF c] None by (simp add: entry_guarded_def)
  next
    case (Some r)
    then obtain data ks w where p: "prepare tk r v typ stored ?data0 = Inr data" "apply_write tk r v typ stored data = Inr w"
        "written = filter (\<lambda>kv. \<not> idle_delete tk v typ stored kv) w"
        and c: "checkWrite tk v typ (fst (componentData tk v typ stored)) data publicKey privileged (ValidateComponentKeys (tl_lib tk) v) = Pass ks"
      using assms(1) by (auto simp: planWrite_def Let_def checked_simps)
    have dd: "distinct (map fst data)" by (rule fold_put_distinct [OF p(1) [unfolded prepare_def] d0])
    have "map_of (filter (\<lambda>kv. \<not> idle_delete tk v typ stored kv) w) k = Some y" using assms(2) p(3) by (rule subst [rotated])
    then have wk: "map_of w k = Some y" by (rule map_of_filtered [OF fold_apply_distinct [OF p(2) [unfolded apply_write_def]]])
    then obtain val where val: "map_of data k = Some val" "apply_key tk r v typ stored k val = Inr (Some y)"
      using apply_keys(1) [OF p(2) dd] by blast
    then obtain val0 where val0: "map_of ?data0 k = Some val0" using prepare_keys(1) [OF p(1) d0, of k] by (cases "map_of ?data0 k") auto
    then have prep: "prepare_key tk r v typ stored k val0 = Inr val" using prepare_keys(2) [OF p(1) d0 val0] val(1) by simp
    have "entry_guarded tk v typ stored k y" using prepared_guarded [OF Some prep val(2)] .
    then show ?thesis using checkWrite_may [OF c] val(1) by simp
  qed
qed

subsection \<open>From the plan to the row\<close>

lemma accepted_data:
  assumes "AcceptEvent s env ev u d = (d1, r, ns)" and "db_ok d" and t: "ev_type ev = EventTypeComponentDataChanged"
    and changed: "as_map (mindex (data_of ev) ''changedFields'') = Some changed"
  shows "t_comps d1 = t_comps d
    \<or> (\<exists>c. c \<in> set (t_comps d) \<and> c_id c = getString (data_of ev) ''componentId'' \<and> c_application_id c = getString (data_of ev) ''applicationId''
        \<and> t_comps d1 = update_where (\<lambda>x. c_id x = c_id c) (\<lambda>x. x\<lparr>c_data := Some (json_rt (apply_delta changed (c_data c)))\<rparr>) (t_comps d))"
proof (cases r)
  case (Inl e)
  have "untouched (ev_type ev) d d1"
  proof (cases "accept_checks env ev u d")
    case (Inr dec)
    show ?thesis
    proof (cases dec)
      case (Proceed e1 sq)
      then have "finish_event s env e1 sq (u_agent u) d = (d1, Inl e, ns)" using assms(1) Inr Inl by (simp add: AcceptEvent_def)
      then show ?thesis using finish_failed assms(2) Proceed_addressed(2) Inr Proceed by metis
    qed (use assms(1) Inr Inl in \<open>simp add: AcceptEvent_def\<close>)
  qed (use assms(1) in \<open>simp add: AcceptEvent_def\<close>)
  then have eq: "d1 = d\<lparr>next_ordinal := next_ordinal d1, t_reminders := t_reminders d1\<rparr>" unfolding untouched_def by (elim conjE)
  have "t_comps d1 = t_comps d" by (subst eq) simp
  then show ?thesis by blast
next
  case (Inr stored)
  from assms(1) [unfolded Inr] show ?thesis
  proof (cases rule: accept_cases)
    case (fresh e sq)
    note p = Proceed_addressed [OF fresh(1)]
    have us: "\<not> IsUserScoped (ev_type ev)" using t by (simp add: IsUserScoped_def)
    note log = fresh_run_log [OF fresh(2) assms(2) p(4)]
    obtain ev1 d2 d3 where c: "CreateEvent env ev1 d = Inr (stored, d2)" and x: "executeEvent s env stored d2 = Inr d3"
      and up: "if sq then updateAppVersion env stored d3 = (d1, False) else d1 = d3"
      using fresh(2) by (auto simp: fresh_run_def)
    have d2: "t_comps d2 = t_comps d" using CreateEvent_shape(3) [OF c] by simp
    have d1: "t_comps d1 = t_comps d3" using up updateAppVersion_frame by (cases sq) fastforce+
    have st: "data_of stored = data_of ev" "ev_application_id stored = getString (data_of ev) ''applicationId''" "ev_type stored = EventTypeComponentDataChanged"
      using log(4,6,8) p(2,7,9) us t by (simp_all add: data_of_def)
    have "update_component_data env (getString (data_of ev) ''applicationId'') (getString (data_of ev) ''componentId'') changed d2 = Inr d3"
      using x changed by (auto simp: executeEvent_def executeComponentDataChanged_def st Let_def split: if_splits)
    then obtain c1 where c1: "componentInApp env (getString (data_of ev) ''applicationId'') (getString (data_of ev) ''componentId'') d2 = Inr c1"
        "UpdateComponentData env (getString (data_of ev) ''componentId'') (Some (apply_delta changed (c_data c1))) d2 = Inr d3"
      by (auto simp: update_component_data_def result_simps)
    have "c1 \<in> set (t_comps d)" "c_id c1 = getString (data_of ev) ''componentId''" "c_application_id c1 = getString (data_of ev) ''applicationId''"
      using c1(1) d2 by (auto simp: componentInApp_def GetComponentByID_def result_simps dest: find_in_set split: sum.splits option.splits)
    moreover have "t_comps d3 = update_where (\<lambda>x. c_id x = c_id c1) (\<lambda>x. x\<lparr>c_data := Some (json_rt (apply_delta changed (c_data c1)))\<rparr>) (t_comps d)"
      using c1(2) d2 calculation(2) by (auto simp: UpdateComponentData_def update_comps_def result_simps)
    ultimately show ?thesis using d1 by auto
  qed simp_all
qed

lemma map_of_delta:
  "map_of (apply_delta (changed_fields st written) data) k
    = (if k \<in> fst ` set written then Some (mindex written k) else map_of (case data of None \<Rightarrow> [] | Some m \<Rightarrow> m) k)"
proof -
  let ?g = "\<lambda>m (field, raw). case as_map raw of None \<Rightarrow> m | Some change \<Rightarrow> mput field (mindex change ''newValue'') m"
  have "map_of (foldl ?g m (map (\<lambda>k. (k, GMap [(''oldValue'', mindex st k), (''newValue'', mindex written k)])) ks)) k
      = (if k \<in> set ks then Some (mindex written k) else map_of m k)" for ks m
    by (induction ks arbitrary: m) (auto simp: mindex_def [of "[_, _]"])
  then show ?thesis by (simp add: apply_delta_def changed_fields_def)
qed

lemma read_delta:
  "read_key (x\<lparr>c_data := Some (json_rt (apply_delta (changed_fields st written) (c_data c)))\<rparr>) k
    = (if k \<in> fst ` set written then Some (json_norm (mindex written k)) else read_key c k)"
  by (simp add: read_key_def comp_data_def map_of_json_rt map_of_delta del: map_of_eq_Some_iff)

lemma changed_row:
  assumes "distinct (map c_id cs)" and "c \<in> set cs" "c1 \<in> set cs" and "c2 \<in> set (update_where (\<lambda>x. c_id x = c_id c1) f cs)"
    and "c_id c2 = c_id c" and f: "c_id (f c1) = c_id c1"
  shows "c2 = c \<or> c1 = c \<and> c2 = f c1"
proof -
  have same: "x = y" if "x \<in> set cs" "y \<in> set cs" "c_id x = c_id y" for x y using assms(1) that by (metis distinct_map inj_onD)
  from assms(4) consider "c2 \<in> set cs" | r0 where "r0 \<in> set cs" "c_id r0 = c_id c1" "c2 = f r0" by (auto simp: in_update_where)
  then show ?thesis
  proof cases
    case 1
    then show ?thesis using same assms(2,5) by blast
  next
    case 2
    then have "r0 = c1" using same assms(3) by blast
    then show ?thesis using 2 same [of c c1] assms(2,3,5) f by simp
  qed
qed

text \<open>What a plan of an update rests on, and the event that carries it.\<close>

lemma planned_update:
  assumes "plan_update tk v env who inp d = Pass (u, Some (keys, ev))"
  shows "\<exists>app c0 written. who = Some u \<and> GetApplication env (ui_app inp) (user.truncate u) d = Inr app
    \<and> roleOf app (u_public_key u) \<noteq> MemberRoleViewer \<and> find_comp app (ui_component inp) = Some c0 \<and> c_id c0 = ui_component inp
    \<and> planWrite tk v (c_name c0) (comp_data c0) (ui_set inp) (u_public_key u) (privileged_role (roleOf app (u_public_key u))) = Pass written
    \<and> ev_type ev = EventTypeComponentDataChanged \<and> as_map (mindex (data_of ev) ''changedFields'') = Some (changed_fields (comp_data c0) written)
    \<and> getString (data_of ev) ''componentId'' = ui_component inp \<and> getString (data_of ev) ''applicationId'' = ui_app inp"
proof -
  obtain app c0 written where p: "who = Some u" "GetApplication env (ui_app inp) (user.truncate u) d = Inr app"
      "roleOf app (u_public_key u) \<noteq> MemberRoleViewer" "find_comp app (ui_component inp) = Some c0"
      "planWrite tk v (c_name c0) (comp_data c0) (ui_set inp) (u_public_key u) (privileged_role (roleOf app (u_public_key u))) = Pass written"
      "ev = data_event tk inp c0 written"
    using assms by (auto simp: plan_update_def checked_simps caller_of_def Let_def split: option.splits if_splits)
  moreover have "c_id c0 = ui_component inp" using p(4) by (auto simp: find_comp_def find_Some_iff)
  ultimately show ?thesis by (auto simp: data_event_def agent_event_def data_of_def mindex_def getString_def)
qed




subsection \<open>Writing back what was shown\<close>

text \<open>An entry that is shown in full: what \<open>Migrate\<close> made of it.\<close>

lemma classify_full:
  assumes "classify tk r k m = (view, stateFull)" and "rd_cur r = cur"
  shows "\<exists>out. migrate (sl_regexps (tl_lib tk)) (rd_steps r) k m cur = Inr (out, False) \<and> view = map_or_nil (plain (GMap out))
    \<and> 1 \<le> cur \<and> cur \<le> maxSafe"
  using assms by (auto simp: classify_def Migrate_def checkArg_range split: sum.splits option.splits if_splits)

lemma intVal_norm:
  assumes "intVal v = Some n" and "0 \<le> n" "n \<le> maxSafe"
  shows "intVal (json_norm v) = Some n"
proof -
  have f: "f64 (of_int n) = of_int n" using assms(2,3) by (intro f64_of_int) (simp_all add: maxSafe_def)
  have q: "toRat v = Some (of_int n)" using assms(1) by (auto simp: intVal_def split: option.splits if_splits)
  show ?thesis
  proof (cases v)
    case (GNum t)
    then have "rat_of_string t = Some (of_int n)" using q by (auto split: if_splits)
    then show ?thesis using f GNum by (simp add: intVal_def)
  qed (use q f in \<open>auto simp: intVal_def\<close>)
qed

lemma Version_norm: "Version m = Inr n \<Longrightarrow> Version (json_rt m) = Inr n"
  using intVal_norm by (auto simp: Version_def map_of_json_rt split: option.splits if_splits)

lemma wf_norm: "wf_any v \<Longrightarrow> wf_any (json_norm v)"
proof (induction v rule: clone.induct)
  case (1 v)
  show ?case
  proof (cases v)
    case (GMap m)
    have "wf_any (json_norm x)" if "(k, x) \<in> set m" for k x
      using "1"(2) [OF GMap that] "1.prems" GMap that by (auto simp: wf_any_GMap)
    then show ?thesis using "1.prems" GMap by (auto simp: wf_any_GMap o_def split_def)
  next
    case (GList l)
    then show ?thesis using "1" by (auto simp: wf_any_GList)
  qed (use "1.prems" in \<open>auto split: option.splits\<close>)
qed

lemma gequal_Version:
  assumes "gequal (GMap x) (GMap y)" and "wf_any (GMap x)" "wf_any (GMap y)" and x: "Version x = Inr n"
  shows "Version y = Inr n"
proof -
  have "rel_option gequal (map_of x ''v'') (map_of y ''v'')" using assms(1-3) by (simp add: gequal_GMap_iff wf_any_GMap)
  then consider "map_of x ''v'' = None" "map_of y ''v'' = None" | a b where "map_of x ''v'' = Some a" "map_of y ''v'' = Some b" "gequal a b"
    by (cases "map_of x ''v''"; cases "map_of y ''v''") auto
  then show ?thesis
  proof cases
    case 2
    then obtain q where q: "toRat a = Some q" using x by (auto simp: Version_def intVal_def split: option.splits)
    then have "toRat b = Some q" using 2(3) by (cases a) (auto simp: gequal_number is_number_def num_equal_iff)
    then show ?thesis using x 2 q by (simp add: Version_def intVal_def)
  qed (use x in \<open>simp add: Version_def\<close>)
qed

text \<open>
  What a shown entry reads as when it comes back: the migrated entry again, apart from the form of its
  version, which is the reader's.
\<close>

lemma shown_entry:
  assumes shown: "entryRead tk r encoded k x = (y, stateFull)" and x: "x \<noteq> GStr []"
    and steps: "wf_any (rd_steps r)" and wf: "\<forall>m. entryMap tk encoded x = Some m \<longrightarrow> wf_any (GMap m)"
    and law: "\<forall>m out. entryMap tk encoded x = Some m \<longrightarrow> migrate (sl_regexps (tl_lib tk)) (rd_steps r) k m (rd_cur r) = Inr (out, False) \<longrightarrow>
      (if encoded then \<forall>s. Encode (tl_encode tk) (GMap out) = Inr s \<longrightarrow> sl_decode (tl_lib tk) s = Inr (GMap out) else agree out (json_rt out))"
  shows "\<exists>m out ed. entryMap tk encoded x = Some m \<and> wf_any (GMap m) \<and> classify tk r k m = (map_or_nil (plain (GMap out)), stateFull)
    \<and> migrate (sl_regexps (tl_lib tk)) (rd_steps r) k m (rd_cur r) = Inr (out, False) \<and> 1 \<le> rd_cur r \<and> rd_cur r \<le> maxSafe
    \<and> entryMap tk encoded y = Some ed \<and> agree out ed \<and> wf_any (GMap ed) \<and> Version ed = Inr (rd_cur r)
    \<and> (map_of ed ''v'' = None \<longrightarrow> map_of out ''v'' = None)"
proof -
  obtain m view where m: "entryMap tk encoded x = Some m" and cl: "classify tk r k m = (view, stateFull)"
    using shown x by (auto simp: entryRead_def split: option.splits prod.splits if_splits sum.splits)
  obtain out where out: "migrate (sl_regexps (tl_lib tk)) (rd_steps r) k m (rd_cur r) = Inr (out, False)" "view = map_or_nil (plain (GMap out))"
    and r: "1 \<le> rd_cur r" "rd_cur r \<le> maxSafe" using classify_full [OF cl refl] by blast
  have wm: "wf_any (GMap m)" using wf m by blast
  have wo: "wf_any (GMap out)" by (rule migrate_wf [OF out(1) steps wm r])
  have vo: "Version out = Inr (rd_cur r)" by (rule migrate_version [OF r out(1)])
  have "\<exists>ed. entryMap tk encoded y = Some ed \<and> agree out ed \<and> wf_any (GMap ed) \<and> Version ed = Inr (rd_cur r) \<and> (map_of ed ''v'' = None \<longrightarrow> map_of out ''v'' = None)"
  proof (cases encoded)
    case False
    then have y: "y = GMap view" using shown x m cl by (simp add: entryRead_def)
    have "agree out (json_rt out)" using law m out(1) False by simp
    moreover have "wf_any (GMap (json_rt out))" using wf_norm [OF wo] by (simp add: json_rt_def)
    ultimately show ?thesis
      using y out(2) False wo vo Version_norm [OF vo]
      by (auto simp: plain_def entryMap_def map_or_nil_def json_rt_def [symmetric] map_of_json_rt)
  next
    case True
    then obtain raw where raw: "x = GStr raw" "as_map (DecodeEncoded (sl_decode (tl_lib tk)) raw) = Some m"
      using m by (auto simp: entryMap_def as_str_Some split: option.splits)
    obtain s l where s: "MigrateEncoded (sl_decode (tl_lib tk)) (tl_encode tk) (sl_regexps (tl_lib tk)) (rd_steps r) k raw (rd_cur r) = Inr (s, l)" "y = GStr s"
      using shown x m cl True raw(1) by (auto simp: entryRead_def split: sum.splits prod.splits)
    have chk: "checkArg ''to'' (rd_cur r) = None" using r by (simp add: checkArg_range)
    consider "Version m = Inr (rd_cur r)" "s = raw" | "gequal (GMap out) (GMap m)" "s = raw" "Version m \<noteq> Inr (rd_cur r)"
      | "Encode (tl_encode tk) (GMap out) = Inr s"
      using s(1) raw(2) chk out(1) by (auto simp: MigrateEncoded_def split: if_splits sum.splits)
    then show ?thesis
    proof cases
      case 1
      then have "out = m" using out(1) by (simp add: migrate_def)
      then show ?thesis using 1 s(2) raw(2) True wm vo by (simp add: entryMap_def)
    next
      case 2
      then show ?thesis using gequal_Version [OF 2(1) wo wm vo] by simp
    next
      case 3
      then have "sl_decode (tl_lib tk) s = Inr (GMap out)" using law m out(1) True by simp
      then show ?thesis using s(2) True wo vo by (simp add: entryMap_def DecodeEncoded_def)
    qed
  qed
  then obtain ed where "entryMap tk encoded y = Some ed" "agree out ed" "wf_any (GMap ed)" "Version ed = Inr (rd_cur r)"
      "map_of ed ''v'' = None \<longrightarrow> map_of out ''v'' = None" by (elim exE conjE)
  from m wm cl [unfolded out(2)] out(1) r this show ?thesis by (intro exI conjI)
qed



end
