(* ===== verification/Spec2Isabelle.thy ===== *)
theory Spec2Isabelle
  imports LensWalk LensLaws WriteBackLaws Isolation LogProps EventProps AccessLaws DeviceProps LoginProps PurgeDrain PushProps OAuthProps
    ValidatorProps HubProps McpProps
begin

text \<open>
  A verification development of Prappser Spaces, the self-hosted server with which Prappser applications
  sync. Go code under \<open>src/\<close> is translated function by function; the names are the source's, with a prefix
  where one name is used twice (\<open>repo\<close> for a method of a repository, \<open>ep\<close> for a handler).

  \<^bold>\<open>The program.\<close> Clients sign in with keys of devices and submit events to applications. An event is
  checked, numbered, stored and executed in one transaction, then announced to the sockets and push
  subscriptions of the members; others fetch the log page by page. Components of an application hold entries
  whose schemas evolve through lens steps. Around this core stand accounts with devices and agents, bindings
  of an account to other spaces, invitations, files with quotas, reminders, OAuth for agents.

  \<^bold>\<open>State.\<close> \<open>Database\<close> has the tables of \<open>files/migrations\<close> as lists of records in insertion order, a
  transaction as a function on them, and the environment \<open>env\<close> of one call: the clock, a source of ids and
  which statements fail. A statement may fail at any point; a rolled back transaction restores the tables
  except for the sequence that hands out ordinals. \<open>Node\<close> adds what the process keeps in memory: pending
  challenges, used delegations, sockets to close and notices. A Go error is the left side of a sum;
  \<open>Prelude\<close> has the errors, Go's dynamic values (\<open>any\<close>) and 64-bit arithmetic with its wrap-around
  (\<open>wrap64\<close>); \<open>Json\<close> has numbers as the texts that \<open>json.Number\<close> is; \<open>GoText\<close> has base64, UTF-8 and what
  else is used of the standard library; \<open>Host\<close> has the functions of third-party code, as a record of
  parameters.

  \<^bold>\<open>Components\<close>, with the files they translate and the theories of their properties:

  \<^item> component lenses, \<open>internal/component/lens\<close>: \<open>Json\<close>, \<open>Lens\<close>, \<open>WriteBack\<close>. \<open>LensLaws\<close> and \<open>LensWalk\<close>: what a step
    touches, that a move is undone by moving back, that migrations compose. \<open>WriteBackLaws\<close>: an edit that
    changes nothing is never written, and exactly the members that were changed are.
  \<^item> the schema validator, \<open>internal/component/validator.go\<close>: \<open>ComponentValidator\<close>, \<open>ValidatorProps\<close>.
  \<^item> applications, \<open>internal/application\<close>: \<open>AppRepo\<close>, \<open>AppService\<close>, \<open>Move\<close>, \<open>Responses\<close>. \<open>DbLaws\<close> and \<open>RepoLaws\<close>: every operation
    keeps the integrity of the tables.
  \<^item> events, \<open>internal/event\<close>: \<open>EventRules\<close> (validation, staleness, authorization), \<open>EventRepo\<close> (the log),
    \<open>EventHandlers\<close>, \<open>EventService\<close> (the pipeline). \<open>EditLaws\<close>: the locale \<open>edit_contract\<close>, what an invariant must
    promise about the eight structural operations, for which batches and data changes keep it; it is
    interpreted for the integrity, for the isolation of applications (\<open>Isolation\<close>) and for frames.
    \<open>PipelineLaws\<close>, \<open>SeqLaws\<close>, \<open>AccessLaws\<close>, \<open>EventProps\<close>: refusals leave no trace, retries are answered from the
    log, numbers grow by one, members change by the rules. \<open>LogProps\<close>: pages and pruning.
  \<^item> reminders, \<open>internal/reminder\<close>: \<open>Reminder\<close>, \<open>Scheduler\<close>.
  \<^item> accounts, devices, agents, \<open>internal/user\<close>: \<open>UserRepo\<close>, \<open>Login\<close>, \<open>Accounts\<close>, \<open>Bindings\<close>. \<open>TokenProps\<close>, \<open>DeviceProps\<close>,
    \<open>LoginProps\<close>: round trips of tokens, what a revocation means, what works only once.
  \<^item> spaces and invitations, \<open>internal/space\<close>, \<open>internal/invitation\<close>: \<open>Spaces\<close>, \<open>Invitations\<close>, \<open>Join\<close>.
  \<^item> files, \<open>internal/storage\<close>: \<open>Disk\<close>, \<open>Storage\<close>, \<open>StorageService\<close>, \<open>StorageEndpoints\<close>; \<open>StorageLaws\<close>, \<open>StorageProps\<close>,
    \<open>StoragePurge\<close>, \<open>PurgeDrain\<close>.
  \<^item> push, \<open>internal/push\<close>: \<open>PushTexts\<close>, \<open>PushNotify\<close>, \<open>PushRepo\<close>, \<open>PushService\<close>, \<open>PushEndpoints\<close>; \<open>PushLaws\<close>, \<open>PushProps\<close>.
  \<^item> OAuth, \<open>internal/oauth\<close>: \<open>OAuthStore\<close>, \<open>OAuth\<close>; \<open>OAuthDemo\<close>, \<open>OAuthProps\<close>.
  \<^item> sockets, \<open>internal/websocket\<close>: \<open>Hub\<close>, \<open>HubProps\<close>.
  \<^item> the tools of agents, \<open>internal/mcp\<close>: \<open>McpVersions\<close> (what is shown, checked and planned), \<open>McpTools\<close>, \<open>McpCreate\<close>;
    \<open>McpDemo\<close>, \<open>McpProps\<close>: what agents can change, and that what was shown can be sent back.

  \<^bold>\<open>Interleavings.\<close> \<open>System\<close> is the step relation of the event pipeline: a step is one transaction or the
  check that precedes it, in any order and under any failures of the database; \<open>SystemLaws\<close> has its
  invariants. \<open>Process\<close> extends it by the statements of accounts, devices and invitations, to which
  \<open>AccountLaws\<close>, \<open>AccountSteps\<close> and \<open>AccountFrame\<close> reduce every handler. \<open>OAuthProps\<close> and \<open>HubProps\<close> have step
  relations of their own, whose steps are the sections that hold a lock.

  \<^bold>\<open>Bounds.\<close> Loops of the source are structural recursions or functions with a measure; the one fuel is
  that of \<open>read_all\<close>, a client that follows pages, for which one more than the length of the log is enough
  (\<open>pages_complete\<close>). That purging in batches ends is \<open>purge_drains\<close>. Machine integers wrap where the source
  computes with them.

  \<^bold>\<open>Witnesses\<close> are at the concrete spaces of \<open>Demo\<close> and \<open>AccountDemo\<close>, which the step relations reach.

  \<^bold>\<open>Not modelled.\<close> Third-party code is a parameter: the JWT library, hashes and randomness, the regexp
  engine, the JSON schema library, rrule-go, image decoding, URL parsing, what a push service or a network
  peer answers. Logging is left out, except where it can panic. Timers and goroutines that only call a
  modelled function at intervals are left out, as are process start, configuration, routing, key files and
  the HTTP glue that parses a request into the arguments of a modelled service.
\<close>

end
